(* ===== verification/Prelude.thy ===== *)
theory Prelude
  imports Main "HOL-Library.AList" "HOL-Library.Multiset" "HOL-Library.Sublist"
    "HOL-Library.Char_ord" "HOL-Library.List_Lexorder"
begin

text \<open>
  Shared vocabulary of the development.  A Python \<open>str\<close> is represented by its UTF-8
  encoding and a Python \<open>bytes\<close> by its octets, both as \<^typ>\<open>string\<close> (a \<open>char\<close> is an
  octet); the order of code points and the order of UTF-8 encodings agree, and every
  separator or digit the code looks for is ASCII.  \<open>str.lower\<close> is modelled on ASCII
  letters, where the code uses it (hex digests, suffixes, service names).  Time stamps
  (UTC \<open>datetime\<close> values and their ISO text in SQLite) are microseconds in \<^typ>\<open>int\<close>.
  A raised exception is a value of \<open>err\<close>; an operation that may raise returns
  \<open>err + 'a\<close> with \<open>Inl\<close> for the exception.
\<close>

section \<open>Exceptions\<close>

datatype err =
    PermissionError string
  | ValueError string
  | RuntimeError string
  | KeyError string
  | TypeError string
  | IntegrityError
  | UpstreamError string
  | AttributeError string

type_synonym time = int

fun ebind :: "'e + 'a \<Rightarrow> ('a \<Rightarrow> 'e + 'b) \<Rightarrow> 'e + 'b" where
  "ebind (Inl e) f = Inl e"
| "ebind (Inr x) f = f x"

fun emap :: "('a \<Rightarrow> 'e + 'b) \<Rightarrow> 'a list \<Rightarrow> 'e + 'b list" where
  "emap f [] = Inr []"
| "emap f (x # xs) = ebind (f x) (\<lambda>y. ebind (emap f xs) (\<lambda>ys. Inr (y # ys)))"

definition guard :: "bool \<Rightarrow> 'e \<Rightarrow> 'e + unit" where
  "guard ok e = (if ok then Inr () else Inl e)"

definition is_ok :: "'e + 'a \<Rightarrow> bool" where
  "is_ok r = (case r of Inl _ \<Rightarrow> False | Inr _ \<Rightarrow> True)"

named_theorems err_simps \<open>rewriting of exception-returning code\<close>
named_theorems table_simps \<open>facts on tables of rows\<close>

lemma ebind_Inr [err_simps]: "ebind r f = Inr y \<longleftrightarrow> (\<exists>x. r = Inr x \<and> f x = Inr y)"
  by (cases r) auto

lemma ebind_Inl [err_simps]:
  "ebind r f = Inl e \<longleftrightarrow> r = Inl e \<or> (\<exists>x. r = Inr x \<and> f x = Inl e)"
  by (cases r) auto

lemma guard_Inr [err_simps]: "guard b e = Inr u \<longleftrightarrow> b"
  by (simp add: guard_def)

lemma guard_Inl [err_simps]: "guard b e = Inl x \<longleftrightarrow> \<not> b \<and> x = e"
  by (auto simp: guard_def)

lemma is_ok_Inr [simp]: "is_ok (Inr x)"
  by (simp add: is_ok_def)

lemma is_ok_Inl [simp]: "\<not> is_ok (Inl e)"
  by (simp add: is_ok_def)

lemma is_ok_iff: "is_ok r \<longleftrightarrow> (\<exists>x. r = Inr x)"
  by (cases r) auto

lemma if_Inl_Inr [err_simps]:
  "(if b then Inl e else r) = Inr y \<longleftrightarrow> \<not> b \<and> r = Inr y"
  by auto

lemma if_Inr_Inl [err_simps]:
  "(if b then r else Inl e) = Inr y \<longleftrightarrow> b \<and> r = Inr y"
  by auto

lemma option_Inl_Inr [err_simps]:
  "(case x of None \<Rightarrow> Inl e | Some v \<Rightarrow> f v) = Inr y \<longleftrightarrow> (\<exists>v. x = Some v \<and> f v = Inr y)"
  by (cases x) auto

lemma emap_length: "emap f xs = Inr ys \<Longrightarrow> length ys = length xs"
  by (induction xs arbitrary: ys) (auto simp: err_simps)

lemma emap_set: "emap f xs = Inr ys \<Longrightarrow> y \<in> set ys \<Longrightarrow> \<exists>x\<in>set xs. f x = Inr y"
  by (induction xs arbitrary: ys) (auto simp: err_simps)

lemma emap_ok: "emap f xs = Inr ys \<Longrightarrow> x \<in> set xs \<Longrightarrow> \<exists>y\<in>set ys. f x = Inr y"
  by (induction xs arbitrary: ys) (auto simp: err_simps)

section \<open>Strings\<close>

definition code :: "char \<Rightarrow> nat" where
  "code c = of_char c"

definition is_digit :: "char \<Rightarrow> bool" where
  "is_digit c = (48 \<le> code c \<and> code c \<le> 57)"

definition is_alpha :: "char \<Rightarrow> bool" where
  "is_alpha c = (65 \<le> code c \<and> code c \<le> 90 \<or> 97 \<le> code c \<and> code c \<le> 122)"

definition is_hex :: "char \<Rightarrow> bool" where
  "is_hex c = (is_digit c \<or> 65 \<le> code c \<and> code c \<le> 70 \<or> 97 \<le> code c \<and> code c \<le> 102)"

definition is_lower_hex :: "char \<Rightarrow> bool" where
  "is_lower_hex c = (is_digit c \<or> 97 \<le> code c \<and> code c \<le> 102)"

definition lower_char :: "char \<Rightarrow> char" where
  "lower_char c = (if 65 \<le> code c \<and> code c \<le> 90 then char_of (code c + 32) else c)"

definition lower :: "string \<Rightarrow> string" where
  "lower s = map lower_char s"

text \<open>Number of code points of a UTF-8 string: the octets that do not continue one.\<close>

definition py_len :: "string \<Rightarrow> nat" where
  "py_len s = length (filter (\<lambda>c. \<not> (128 \<le> code c \<and> code c < 192)) s)"

definition starts_with :: "string \<Rightarrow> string \<Rightarrow> bool" where
  "starts_with p s = (take (length p) s = p)"

definition ends_with :: "string \<Rightarrow> string \<Rightarrow> bool" where
  "ends_with p s = (length p \<le> length s \<and> drop (length s - length p) s = p)"

definition strip_prefix :: "string \<Rightarrow> string \<Rightarrow> string option" where
  "strip_prefix p s = (if starts_with p s then Some (drop (length p) s) else None)"

fun split_on :: "char \<Rightarrow> string \<Rightarrow> string list" where
  "split_on c [] = [[]]"
| "split_on c (x # xs) =
     (if x = c then [] # split_on c xs
      else (case split_on c xs of [] \<Rightarrow> [[x]] | w # ws \<Rightarrow> (x # w) # ws))"

fun join_with :: "string \<Rightarrow> string list \<Rightarrow> string" where
  "join_with sep [] = []"
| "join_with sep [w] = w"
| "join_with sep (w # ws) = w @ sep @ join_with sep ws"

fun nat_of_digits :: "nat \<Rightarrow> string \<Rightarrow> nat" where
  "nat_of_digits acc [] = acc"
| "nat_of_digits acc (c # cs) = nat_of_digits (10 * acc + (code c - 48)) cs"

fun show_nat :: "nat \<Rightarrow> string" where
  "show_nat n = (if n < 10 then [char_of (48 + n)] else show_nat (n div 10) @ [char_of (48 + n mod 10)])"

declare show_nat.simps [simp del]

text \<open>The format specification \<open>:02d\<close> on a natural number.\<close>

definition show02 :: "nat \<Rightarrow> string" where
  "show02 n = (if n < 10 then CHR ''0'' # show_nat n else show_nat n)"

definition hex40 :: "string \<Rightarrow> bool" where
  "hex40 s = (length s = 40 \<and> list_all is_hex s)"

definition lower_hex40 :: "string \<Rightarrow> bool" where
  "lower_hex40 s = (length s = 40 \<and> list_all is_lower_hex s)"

definition hex64 :: "string \<Rightarrow> bool" where
  "hex64 s = (length s = 64 \<and> list_all is_hex s)"

lemma length_lower [simp]: "length (lower s) = length s"
  by (simp add: lower_def)

lemma code_less: "code c < 256"
  by (simp add: code_def)

lemma code_inj: "code c = code d \<Longrightarrow> c = d"
  by (simp add: code_def)

lemma code_char_of: "n < 256 \<Longrightarrow> code (char_of n) = n"
  by (simp add: code_def)

lemma lower_char_id: "\<not> (65 \<le> code c \<and> code c \<le> 90) \<Longrightarrow> lower_char c = c"
  by (auto simp: lower_char_def)

lemma lower_char_idem [simp]: "lower_char (lower_char c) = lower_char c"
proof (cases "65 \<le> code c \<and> code c \<le> 90")
  case True
  then have "code (lower_char c) = code c + 32" by (simp add: lower_char_def code_char_of)
  with True show ?thesis by (intro lower_char_id) simp
next
  case False
  then show ?thesis by (simp add: lower_char_id)
qed

lemma lower_idem [simp]: "lower (lower s) = lower s"
  by (simp add: lower_def o_def)

lemma is_lower_hex_lower: "is_hex c \<Longrightarrow> is_lower_hex (lower_char c)"
proof (cases "65 \<le> code c \<and> code c \<le> 90")
  case True
  assume h: "is_hex c"
  from True have "code (lower_char c) = code c + 32" by (simp add: lower_char_def code_char_of)
  with h True show ?thesis by (auto simp: is_hex_def is_lower_hex_def is_digit_def)
next
  case False
  assume h: "is_hex c"
  with False show ?thesis by (auto simp: is_hex_def is_lower_hex_def is_digit_def lower_char_def)
qed

lemma lower_hex40_lower: "hex40 s \<Longrightarrow> lower_hex40 (lower s)"
  by (auto simp: hex40_def lower_hex40_def lower_def list_all_iff is_lower_hex_lower)

lemma split_on_not_Nil [simp]: "split_on c s \<noteq> []"
  by (induction c s rule: split_on.induct) (auto split: list.splits)

lemma join_split [simp]: "join_with [c] (split_on c s) = s"
proof (induction s)
  case Nil
  then show ?case by simp
next
  case (Cons x xs)
  obtain w ws where s: "split_on c xs = w # ws" by (cases "split_on c xs") auto
  then show ?case using Cons by (cases ws) auto
qed

lemma split_on_no_sep: "w \<in> set (split_on c s) \<Longrightarrow> c \<notin> set w"
proof (induction s arbitrary: w)
  case Nil
  then show ?case by simp
next
  case (Cons x xs)
  obtain v vs where s: "split_on c xs = v # vs" by (cases "split_on c xs") auto
  with Cons show ?case by (auto split: if_splits)
qed

lemma split_on_append:
  "c \<notin> set w \<Longrightarrow> split_on c (w @ c # s) = w # split_on c s"
  by (induction w) auto

lemma split_on_single: "c \<notin> set w \<Longrightarrow> split_on c w = [w]"
  by (induction w) auto

lemma split_join:
  assumes "ws \<noteq> []" and "\<forall>w\<in>set ws. c \<notin> set w"
  shows "split_on c (join_with [c] ws) = ws"
  using assms
proof (induction ws)
  case Nil
  then show ?case by simp
next
  case (Cons w ws)
  then show ?case by (cases ws) (auto simp: split_on_append split_on_single)
qed

section \<open>Dictionaries as association lists\<close>

text \<open>
  A Python \<open>dict\<close> keeps insertion order and replaces in place: \<open>AList.update\<close> does the
  same on a list of pairs.  \<open>get_or\<close> is \<open>dict.get\<close> with a default.
\<close>

definition get_or :: "('k \<times> 'v) list \<Rightarrow> 'k \<Rightarrow> 'v \<Rightarrow> 'v" where
  "get_or d k v = (case map_of d k of None \<Rightarrow> v | Some x \<Rightarrow> x)"

definition dict_ok :: "('k \<times> 'v) list \<Rightarrow> bool" where
  "dict_ok d = distinct (map fst d)"

definition dict_sum :: "('k \<times> int) list \<Rightarrow> int" where
  "dict_sum d = sum_list (map snd d)"

lemma dict_ok_update [simp]: "dict_ok d \<Longrightarrow> dict_ok (AList.update k v d)"
  by (simp add: dict_ok_def AList.distinct_update)

lemma dict_sum_update:
  assumes "dict_ok d"
  shows "dict_sum (AList.update k v d) = dict_sum d + v - get_or d k 0"
  using assms
proof (induction d)
  case Nil
  then show ?case by (simp add: dict_sum_def get_or_def)
next
  case (Cons x d)
  obtain a b where x: "x = (a, b)" by (cases x)
  from Cons.prems x have d: "dict_ok d" and a: "a \<notin> fst ` set d" by (auto simp: dict_ok_def)
  show ?case
  proof (cases "a = k")
    case True
    then show ?thesis by (simp add: x dict_sum_def get_or_def)
  next
    case False
    then show ?thesis using Cons.IH [OF d] by (simp add: x dict_sum_def get_or_def)
  qed
qed

lemma get_or_update [simp]: "get_or (AList.update k v d) k' w = (if k' = k then v else get_or d k' w)"
  by (simp add: get_or_def update_conv')

lemma dict_sum_nonneg: "(\<And>k v. (k, v) \<in> set d \<Longrightarrow> 0 \<le> v) \<Longrightarrow> 0 \<le> dict_sum d"
  by (auto simp: dict_sum_def intro!: sum_list_nonneg)

lemma get_or_nonneg: "(\<And>k v. (k, v) \<in> set d \<Longrightarrow> 0 \<le> v) \<Longrightarrow> 0 \<le> w \<Longrightarrow> 0 \<le> get_or d k (w::int)"
  by (auto simp: get_or_def split: option.splits dest: map_of_SomeD)

lemma update_set_mem:
  "(k, v) \<in> set (AList.update a b d) \<Longrightarrow> (k, v) = (a, b) \<or> (k, v) \<in> set d"
  by (induction d) (auto split: if_splits)

section \<open>Tables of rows\<close>

text \<open>
  A SQL table is the list of its rows in insertion order.  \<open>find_row\<close> is \<open>fetchone\<close>,
  \<open>update_rows\<close> is \<open>UPDATE ... WHERE\<close> and \<open>delete_rows\<close> is \<open>DELETE ... WHERE\<close>;
  \<open>row_count\<close> is the \<open>rowcount\<close> of such a statement.
\<close>

definition find_row :: "('r \<Rightarrow> bool) \<Rightarrow> 'r list \<Rightarrow> 'r option" where
  "find_row P rows = List.find P rows"

definition exists_row :: "('r \<Rightarrow> bool) \<Rightarrow> 'r list \<Rightarrow> bool" where
  "exists_row P rows = list_ex P rows"

definition update_rows :: "('r \<Rightarrow> bool) \<Rightarrow> ('r \<Rightarrow> 'r) \<Rightarrow> 'r list \<Rightarrow> 'r list" where
  "update_rows P f rows = map (\<lambda>r. if P r then f r else r) rows"

definition delete_rows :: "('r \<Rightarrow> bool) \<Rightarrow> 'r list \<Rightarrow> 'r list" where
  "delete_rows P rows = filter (\<lambda>r. \<not> P r) rows"

definition row_count :: "('r \<Rightarrow> bool) \<Rightarrow> 'r list \<Rightarrow> nat" where
  "row_count P rows = length (filter P rows)"

lemma find_row_Some: "find_row P rows = Some r \<Longrightarrow> r \<in> set rows \<and> P r"
  by (auto simp: find_row_def find_Some_iff)

lemma find_row_None [table_simps]: "find_row P rows = None \<longleftrightarrow> (\<forall>r\<in>set rows. \<not> P r)"
  by (auto simp: find_row_def find_None_iff)

lemma find_row_ex: "r \<in> set rows \<Longrightarrow> P r \<Longrightarrow> \<exists>r'. find_row P rows = Some r'"
  by (cases "find_row P rows") (auto simp: table_simps)

lemma find_row_append [table_simps]:
  "find_row P (xs @ ys) = (case find_row P xs of Some r \<Rightarrow> Some r | None \<Rightarrow> find_row P ys)"
  by (induction xs) (auto simp: find_row_def)

lemma find_row_Nil [simp]: "find_row P [] = None"
  by (simp add: find_row_def)

lemma find_row_Cons [simp]: "find_row P (x # xs) = (if P x then Some x else find_row P xs)"
  by (simp add: find_row_def)

lemma exists_row_iff [table_simps]: "exists_row P rows \<longleftrightarrow> (\<exists>r\<in>set rows. P r)"
  by (simp add: exists_row_def list_ex_iff)

lemma set_update_rows [table_simps]:
  "set (update_rows P f rows) = (\<lambda>r. if P r then f r else r) ` set rows"
  by (simp add: update_rows_def)

lemma set_delete_rows [table_simps]: "set (delete_rows P rows) = {r \<in> set rows. \<not> P r}"
  by (simp add: delete_rows_def)

lemma length_update_rows [simp]: "length (update_rows P f rows) = length rows"
  by (simp add: update_rows_def)

lemma update_rows_Nil [simp]: "update_rows P f [] = []"
  by (simp add: update_rows_def)

lemma update_rows_id: "(\<And>r. r \<in> set rows \<Longrightarrow> \<not> P r) \<Longrightarrow> update_rows P f rows = rows"
  by (induction rows) (auto simp: update_rows_def)

lemma exists_row_update:
  "(\<And>r. P (f r) = P r) \<Longrightarrow> exists_row P (update_rows Q f rows) = exists_row P rows"
  by (induction rows) (auto simp: exists_row_def update_rows_def)

lemma map_update_rows:
  "(\<And>r. r \<in> set rows \<Longrightarrow> P r \<Longrightarrow> k (f r) = k r) \<Longrightarrow> map k (update_rows P f rows) = map k rows"
  by (induction rows) (auto simp: update_rows_def)

lemma distinct_map_delete: "distinct (map k rows) \<Longrightarrow> distinct (map k (delete_rows P rows))"
  by (simp add: delete_rows_def distinct_map_filter)

text \<open>
  A column that is a key of the table: the locale collects what follows from an update
  leaving it alone.
\<close>

locale key_column =
  fixes key :: "'r \<Rightarrow> 'k"
    and upd :: "'r \<Rightarrow> 'r"
  assumes key_upd: "key (upd r) = key r"
begin

lemma keys_kept: "map key (update_rows P upd rows) = map key rows"
  by (rule map_update_rows) (simp add: key_upd)

lemma distinct_kept: "distinct (map key rows) \<Longrightarrow> distinct (map key (update_rows P upd rows))"
  by (simp add: keys_kept)

lemma find_updated:
  "find_row (\<lambda>r. key r = k) (update_rows P upd rows) =
   map_option (\<lambda>r. if P r then upd r else r) (find_row (\<lambda>r. key r = k) rows)"
  by (induction rows) (auto simp: update_rows_def key_upd)

end

lemma distinct_key_eq:
  "distinct (map k rows) \<Longrightarrow> r \<in> set rows \<Longrightarrow> r' \<in> set rows \<Longrightarrow> k r = k r' \<Longrightarrow> r = r'"
  by (auto simp: distinct_map inj_on_def)

lemma find_row_unique:
  assumes "distinct (map k rows)" and "r \<in> set rows"
  shows "find_row (\<lambda>x. k x = k r) rows = Some r"
proof -
  obtain r' where r': "find_row (\<lambda>x. k x = k r) rows = Some r'"
    using find_row_ex [of r rows "\<lambda>x. k x = k r"] assms(2) by auto
  then have "r' \<in> set rows" and "k r' = k r" by (auto dest: find_row_Some)
  with assms have "r' = r" by (auto dest: distinct_key_eq)
  with r' show ?thesis by simp
qed

section \<open>Sums over selected rows\<close>

definition sum_where :: "('r \<Rightarrow> bool) \<Rightarrow> ('r \<Rightarrow> int) \<Rightarrow> 'r list \<Rightarrow> int" where
  "sum_where P f rows = sum_list (map f (filter P rows))"

lemma sum_where_Nil [simp]: "sum_where P f [] = 0"
  by (simp add: sum_where_def)

lemma sum_where_Cons [simp]: "sum_where P f (r # rows) = (if P r then f r else 0) + sum_where P f rows"
  by (simp add: sum_where_def)

lemma sum_where_append [simp]: "sum_where P f (xs @ ys) = sum_where P f xs + sum_where P f ys"
  by (simp add: sum_where_def)

lemma sum_where_nonneg: "(\<And>r. r \<in> set rows \<Longrightarrow> P r \<Longrightarrow> 0 \<le> f r) \<Longrightarrow> 0 \<le> sum_where P f rows"
  by (auto simp: sum_where_def intro!: sum_list_nonneg)

lemma sum_where_cong:
  "(\<And>r. r \<in> set rows \<Longrightarrow> P r = Q r) \<Longrightarrow> (\<And>r. r \<in> set rows \<Longrightarrow> P r \<Longrightarrow> f r = g r) \<Longrightarrow>
   sum_where P f rows = sum_where Q g rows"
  by (induction rows) auto

lemma sum_where_member:
  "(\<And>r. r \<in> set rows \<Longrightarrow> P r \<Longrightarrow> 0 \<le> f r) \<Longrightarrow> r \<in> set rows \<Longrightarrow> P r \<Longrightarrow> f r \<le> sum_where P f rows"
proof (induction rows)
  case Nil
  then show ?case by simp
next
  case (Cons x rows)
  have nn: "0 \<le> sum_where P f rows" using Cons.prems(1) by (intro sum_where_nonneg) auto
  show ?case
  proof (cases "r = x")
    case True
    with nn Cons.prems(3) show ?thesis by simp
  next
    case False
    with Cons have "f r \<le> sum_where P f rows" by auto
    with Cons.prems(1) [of x] show ?thesis by auto
  qed
qed

section \<open>Transition systems\<close>

text \<open>
  The interface of a component as a labelled transition system: a relation \<open>step\<close> and an
  invariant every step keeps.  A run is the sequence of its labels; the invariant holds
  after every run from a state where it holds.
\<close>

inductive run :: "('s \<Rightarrow> 'l \<Rightarrow> 's \<Rightarrow> bool) \<Rightarrow> 's \<Rightarrow> 'l list \<Rightarrow> 's \<Rightarrow> bool"
  for step :: "'s \<Rightarrow> 'l \<Rightarrow> 's \<Rightarrow> bool"
  where
    run_nil: "run step s [] s"
  | run_cons: "step s l t \<Longrightarrow> run step t ls u \<Longrightarrow> run step s (l # ls) u"

inductive_simps run_Nil_simp [simp]: "run step s [] t"
inductive_simps run_Cons_simp: "run step s (l # ls) t"

lemma run_append: "run step s (xs @ ys) u \<longleftrightarrow> (\<exists>t. run step s xs t \<and> run step t ys u)"
  by (induction xs arbitrary: s) (auto simp: run_Cons_simp)

locale invariant_system =
  fixes step :: "'s \<Rightarrow> 'l \<Rightarrow> 's \<Rightarrow> bool"
    and inv :: "'s \<Rightarrow> bool"
  assumes step_inv: "step s l t \<Longrightarrow> inv s \<Longrightarrow> inv t"
begin

lemma run_inv: "run step s ls t \<Longrightarrow> inv s \<Longrightarrow> inv t"
  by (induction rule: run.induct) (auto intro: step_inv)

end

text \<open>
  An event that can happen only once: a label matched by \<open>fires\<close> needs \<open>ready\<close>, leaves
  \<open>spent\<close>, and nothing turns \<open>spent\<close> back.
\<close>

locale once_system =
  fixes step :: "'s \<Rightarrow> 'l \<Rightarrow> 's \<Rightarrow> bool"
    and fires :: "'l \<Rightarrow> bool"
    and spent :: "'s \<Rightarrow> bool"
    and wf :: "'s \<Rightarrow> bool"
  assumes fires_unspent: "step s l t \<Longrightarrow> wf s \<Longrightarrow> fires l \<Longrightarrow> \<not> spent s"
    and fires_spends: "step s l t \<Longrightarrow> wf s \<Longrightarrow> fires l \<Longrightarrow> spent t"
    and spent_stays: "step s l t \<Longrightarrow> wf s \<Longrightarrow> spent s \<Longrightarrow> spent t"
    and wf_stays: "step s l t \<Longrightarrow> wf s \<Longrightarrow> wf t"
begin

lemma spent_never_fires:
  "run step s ls t \<Longrightarrow> wf s \<Longrightarrow> spent s \<Longrightarrow> filter fires ls = []"
proof (induction rule: run.induct)
  case (run_nil s)
  then show ?case by simp
next
  case (run_cons s l t ls u)
  then show ?case using fires_unspent spent_stays wf_stays by fastforce
qed

lemma at_most_once: "run step s ls t \<Longrightarrow> wf s \<Longrightarrow> length (filter fires ls) \<le> 1"
proof (induction rule: run.induct)
  case (run_nil s)
  then show ?case by simp
next
  case (run_cons s l t ls u)
  from run_cons.hyps(1) run_cons.prems have wf: "wf t" by (rule wf_stays)
  show ?case
  proof (cases "fires l")
    case True
    with run_cons have "spent t" using fires_spends by blast
    with run_cons.hyps(2) wf have "filter fires ls = []" by (rule spent_never_fires)
    with True show ?thesis by simp
  next
    case False
    with run_cons.IH wf show ?thesis by simp
  qed
qed

end

end
