(* ===== verification/Json.thy ===== *)
theory Json
  imports Prelude Complex_Main
begin

text \<open>
  Values decoded by \<open>json.loads\<close> and read by the code with \<open>isinstance\<close> tests.  A float is
  an exact rational or one of the three non-finite values (\<open>json.loads\<close> accepts \<open>NaN\<close> and
  \<open>Infinity\<close>); rounding of finite floats is not modelled.  \<open>bool\<close> is a subclass of \<open>int\<close> in
  Python, so the accessors that the code guards with \<open>not isinstance(value, bool)\<close> are
  told apart from the plain \<open>isinstance(value, int)\<close> ones.
\<close>

datatype pyfloat = Fin rat | PosInf | NegInf | NaN

datatype json =
    JNull
  | JBool bool
  | JInt int
  | JFloat pyfloat
  | JStr string
  | JList "json list"
  | JObj "(string \<times> json) list"

text \<open>
  What \<open>json.loads(json.dumps(v, sort_keys=True))\<close> returns: the same value with the keys of
  every object in order.
\<close>

fun sort_json :: "json \<Rightarrow> json" where
  "sort_json (JList xs) = JList (map sort_json xs)"
| "sort_json (JObj d) = JObj (sort_key fst (map (\<lambda>(k, v). (k, sort_json v)) d))"
| "sort_json v = v"

text \<open>\<open>payload.get(key)\<close> on a dictionary: a missing key reads as \<open>None\<close>.\<close>

definition jget :: "(string \<times> json) list \<Rightarrow> string \<Rightarrow> json" where
  "jget d k = get_or d k JNull"

text \<open>\<open>isinstance(v, int) and not isinstance(v, bool)\<close>.\<close>

fun as_int :: "json \<Rightarrow> int option" where
  "as_int (JInt n) = Some n"
| "as_int _ = None"

text \<open>\<open>isinstance(v, int)\<close>, which also accepts a \<open>bool\<close> (\<open>True\<close> is 1).\<close>

fun as_int_or_bool :: "json \<Rightarrow> int option" where
  "as_int_or_bool (JInt n) = Some n"
| "as_int_or_bool (JBool b) = Some (if b then 1 else 0)"
| "as_int_or_bool _ = None"

fun as_str :: "json \<Rightarrow> string option" where
  "as_str (JStr s) = Some s"
| "as_str _ = None"

fun as_bool :: "json \<Rightarrow> bool option" where
  "as_bool (JBool b) = Some b"
| "as_bool _ = None"

fun as_list :: "json \<Rightarrow> json list option" where
  "as_list (JList xs) = Some xs"
| "as_list _ = None"

fun as_obj :: "json \<Rightarrow> (string \<times> json) list option" where
  "as_obj (JObj d) = Some d"
| "as_obj _ = None"

text \<open>\<open>isinstance(v, (int, float))\<close> without \<open>bool\<close>.\<close>

fun as_number :: "json \<Rightarrow> pyfloat option" where
  "as_number (JInt n) = Some (Fin (of_int n))"
| "as_number (JFloat x) = Some x"
| "as_number _ = None"

text \<open>The truth value of \<open>bool(v)\<close>.\<close>

fun truthy :: "json \<Rightarrow> bool" where
  "truthy JNull = False"
| "truthy (JBool b) = b"
| "truthy (JInt n) = (n \<noteq> 0)"
| "truthy (JFloat x) = (x \<noteq> Fin 0)"
| "truthy (JStr s) = (s \<noteq> [])"
| "truthy (JList xs) = (xs \<noteq> [])"
| "truthy (JObj d) = (d \<noteq> [])"

text \<open>\<open>0 <= now - measured <= bound\<close>, false for a non-finite \<open>measured\<close>.\<close>

fun age_within :: "rat \<Rightarrow> pyfloat \<Rightarrow> rat \<Rightarrow> bool" where
  "age_within now (Fin m) bound = (0 \<le> now - m \<and> now - m \<le> bound)"
| "age_within now _ bound = False"

fun_cases as_int_SomeE: "as_int j = Some n"
fun_cases as_str_SomeE: "as_str j = Some s"
fun_cases as_obj_SomeE: "as_obj j = Some d"
fun_cases as_list_SomeE: "as_list j = Some xs"

lemma as_int_Some: "as_int j = Some n \<longleftrightarrow> j = JInt n"
  by (cases j) auto

lemma as_str_Some: "as_str j = Some s \<longleftrightarrow> j = JStr s"
  by (cases j) auto

lemma as_obj_Some: "as_obj j = Some d \<longleftrightarrow> j = JObj d"
  by (cases j) auto

lemma as_list_Some: "as_list j = Some xs \<longleftrightarrow> j = JList xs"
  by (cases j) auto

lemma as_bool_Some: "as_bool j = Some b \<longleftrightarrow> j = JBool b"
  by (cases j) auto

lemmas json_access = as_int_Some as_str_Some as_obj_Some as_list_Some as_bool_Some

lemma as_int_weaker: "as_int j = Some n \<Longrightarrow> as_int_or_bool j = Some n"
  by (auto elim: as_int_SomeE)

lemma jget_update [simp]:
  "jget (AList.update k v d) k' = (if k' = k then v else jget d k')"
  by (simp add: jget_def)

section \<open>White space\<close>

text \<open>\<open>str.strip\<close>, with the white space of ASCII.\<close>

definition is_space :: "char \<Rightarrow> bool" where
  "is_space c = (code c = 32 \<or> 9 \<le> code c \<and> code c \<le> 13 \<or> 28 \<le> code c \<and> code c \<le> 31)"

definition strip_right :: "string \<Rightarrow> string" where
  "strip_right s = rev (dropWhile is_space (rev s))"

definition strip :: "string \<Rightarrow> string" where
  "strip s = strip_right (dropWhile is_space s)"

end
