(* ===== verification/Capacity.thy ===== *)
theory Capacity
  imports Json
begin

text \<open>
  The byte arithmetic of admission control: \<open>domain/capacity.py\<close> and
  \<open>domain/policy.py\<close>.  Arguments whose type the code tests are \<^typ>\<open>json\<close> values.
\<close>

definition available_bytes :: "json \<Rightarrow> json \<Rightarrow> json list \<Rightarrow> err + int" where
  "available_bytes free tot commitments =
     (case as_int free of
        None \<Rightarrow> Inl (TypeError ''free must be an integer'')
      | Some f \<Rightarrow>
          (case as_int tot of
             None \<Rightarrow> Inl (TypeError ''total must be an integer'')
           | Some t \<Rightarrow>
               if t \<le> 0 then Inr 0
               else Inr (max 0 (f - sum_list (map (max 0) (List.map_filter as_int commitments))))))"

definition remaining_commitment :: "json \<Rightarrow> json \<Rightarrow> err + int" where
  "remaining_commitment budget allocated =
     (case as_int budget of
        None \<Rightarrow> Inl (TypeError ''budget must be an integer'')
      | Some b \<Rightarrow>
          (case as_int allocated of
             None \<Rightarrow> Inl (TypeError ''allocated must be an integer'')
           | Some a \<Rightarrow> Inr (max 0 (b - a))))"

definition positive_integer :: "json \<Rightarrow> bool" where
  "positive_integer v = (case as_int v of Some n \<Rightarrow> 0 < n | None \<Rightarrow> False)"

definition within_limits :: "json \<Rightarrow> json list \<Rightarrow> bool" where
  "within_limits movie_bytes episode_bytes =
     (if movie_bytes \<noteq> JNull then positive_integer movie_bytes \<and> episode_bytes = []
      else episode_bytes \<noteq> [] \<and> list_all positive_integer episode_bytes)"

lemma map_filter_as_int [simp]: "List.map_filter as_int (map JInt xs) = xs"
  by (induction xs) (auto simp: List.map_filter_simps)

lemma available_bytes_ints:
  "available_bytes (JInt f) (JInt t) (map JInt cs) =
     Inr (if t \<le> 0 then 0 else max 0 (f - sum_list (map (max 0) cs)))"
  by (simp add: available_bytes_def)

lemma remaining_commitment_ints: "remaining_commitment (JInt b) (JInt a) = Inr (max 0 (b - a))"
  by (simp add: remaining_commitment_def)

lemma available_bytes_bounds:
  assumes "available_bytes free tot cs = Inr n"
  shows "0 \<le> n" and "as_int free = Some f \<Longrightarrow> n \<le> max 0 f"
proof -
  from assms show "0 \<le> n"
    by (auto simp: available_bytes_def split: option.splits if_splits)
  assume "as_int free = Some f"
  moreover have "0 \<le> sum_list (map (max (0::int)) xs)" for xs
    by (induction xs) auto
  ultimately show "n \<le> max 0 f" using assms
    by (auto simp: available_bytes_def max_def split: option.splits if_splits)
       (smt (verit) order_refl)+
qed

end
