(* ===== verification/Database.thy ===== *)
theory Database
  imports Capacity
begin

text \<open>
  The SQLite schema as state: one record field per table, each table the list of its rows.
  Rows follow \<open>persistence/migrations/*.sql\<close> and the tables created by
  \<open>gateway/permits.py\<close>, \<open>worker/source_health.py\<close> and
  \<open>persistence/torrent_artifacts.py\<close>; a table that only exists once its owner has run is
  an \<open>option\<close>.  A row of \<open>gateway_permits\<close> is the dataclass \<open>Permit\<close> it decodes to.
\<close>

section \<open>Column values\<close>

datatype request_state =
  RqRequested | RqWaitingSpace | RqReserved | RqCancelRequested | RqCancelled | RqAvailable

datatype reservation_state =
  RsReserved | RsDownloading | RsWaitingEpisodes | RsValidating | RsImported | RsCancelled

datatype permit_state =
  Authorized | Dispatching | Unknown | Confirmed | Superseded | ProbeRejected | Revoked

datatype import_state =
  ImDispatching | ImDispatchingCopy | ImAccepted | ImAcceptedCopy | ImComplete

datatype handover_state = HoPending | HoComplete

datatype probe_decision = PdStarting | PdObserving | PdPromote | PdReject

section \<open>Rows\<close>

record request_row =
  rq_id :: string
  rq_source_id :: string
  rq_media_key :: string
  rq_state :: request_state
  rq_created_at :: time
  rq_updated_at :: time

record reservation_row =
  rs_id :: string
  rs_request_id :: string
  rs_media_key :: string
  rs_filesystem_id :: string
  rs_budget_bytes :: int
  rs_allocated_bytes :: int
  rs_state :: reservation_state

record operation_row =
  op_id :: string
  op_idempotency_key :: string
  op_kind :: string
  op_payload :: "(string \<times> json) list"
  op_state :: string
  op_updated_at :: time

record tombstone_row =
  tb_media_key :: string
  tb_deleted_at :: time
  tb_generation :: string

record permit =
  pm_id :: string
  pm_token :: string
  pm_infohash :: string
  pm_destination :: string
  pm_expires_at :: time
  pm_category :: string
  pm_result :: "json option"
  pm_operation_id :: string
  pm_reservation_id :: "string option"
  pm_scope_key :: "string option"
  pm_metadata_sha256 :: "string option"
  pm_selected_files :: "string list"
  pm_budget_bytes :: "int option"
  pm_state :: permit_state
  pm_reported_seeders :: "int option"
  pm_probe_parent_id :: "string option"
  pm_quality_rank :: "int list option"
  pm_season_pack_parent_id :: "string option"
  pm_pool_id :: string
  pm_filesystem_id :: "string option"

record handover_row =
  ho_candidate_id :: string
  ho_parent_id :: string
  ho_state :: handover_state

record pack_row =
  pk_parent_permit_id :: string
  pk_scope_key :: string
  pk_selected_files :: "string list"

record movie_import_row =
  mi_reservation_id :: string
  mi_state :: import_state
  mi_command_id :: "string option"
  mi_updated_at :: time

record episode_import_row =
  ei_permit_id :: string
  ei_state :: import_state
  ei_command_id :: "string option"
  ei_updated_at :: time

record artifact_row =
  ta_permit_id :: string
  ta_infohash :: string
  ta_metadata_sha256 :: string
  ta_content :: string

record probe_row =
  pb_candidate_id :: string
  pb_parent_id :: string
  pb_started_at :: rat
  pb_old_left :: int
  pb_new_left :: int
  pb_decision :: probe_decision
  pb_last_observed_at :: "rat option"

record db =
  requests :: "request_row list"
  reservations :: "reservation_row list"
  operations :: "operation_row list"
  tombstones :: "tombstone_row list"
  permits :: "permit list"
  handovers :: "handover_row list"
  pack_episodes :: "pack_row list"
  movie_imports :: "movie_import_row list"
  episode_imports :: "episode_import_row list"
  torrent_artifacts :: "artifact_row list option"
  protected_sources :: "(string \<times> string) list option"
  source_probes :: "probe_row list option"

definition empty_db :: db where
  "empty_db = \<lparr>requests = [], reservations = [], operations = [], tombstones = [], permits = [],
     handovers = [], pack_episodes = [], movie_imports = [], episode_imports = [],
     torrent_artifacts = None, protected_sources = None, source_probes = None\<rparr>"

section \<open>Queries shared by the stores\<close>

text \<open>\<open>state IN ('authorized', 'dispatching', 'unknown', 'confirmed')\<close>\<close>

fun live_state :: "permit_state \<Rightarrow> bool" where
  "live_state Authorized = True"
| "live_state Dispatching = True"
| "live_state Unknown = True"
| "live_state Confirmed = True"
| "live_state _ = False"

text \<open>\<open>state IN ('reserved', 'downloading', 'waiting_episodes')\<close>\<close>

fun open_state :: "reservation_state \<Rightarrow> bool" where
  "open_state RsReserved = True"
| "open_state RsDownloading = True"
| "open_state RsWaitingEpisodes = True"
| "open_state _ = False"

definition live :: "permit \<Rightarrow> bool" where
  "live p = live_state (pm_state p)"

definition find_reservation :: "db \<Rightarrow> string \<Rightarrow> reservation_row option" where
  "find_reservation d rid = find_row (\<lambda>r. rs_id r = rid) (reservations d)"

definition find_open_reservation :: "db \<Rightarrow> string option \<Rightarrow> reservation_row option" where
  "find_open_reservation d rid =
     find_row (\<lambda>r. Some (rs_id r) = rid \<and> open_state (rs_state r)) (reservations d)"

definition find_request :: "db \<Rightarrow> string \<Rightarrow> request_row option" where
  "find_request d qid = find_row (\<lambda>q. rq_id q = qid) (requests d)"

definition tombstoned :: "db \<Rightarrow> string \<Rightarrow> bool" where
  "tombstoned d key = exists_row (\<lambda>t. tb_media_key t = key) (tombstones d)"

definition find_token :: "db \<Rightarrow> string \<Rightarrow> permit option" where
  "find_token d token = find_row (\<lambda>p. pm_token p = token) (permits d)"

text \<open>\<open>COALESCE(SUM(budget_bytes), 0)\<close> over selected permits; a NULL budget adds nothing.\<close>

definition budget_or_0 :: "permit \<Rightarrow> int" where
  "budget_or_0 p = (case pm_budget_bytes p of Some b \<Rightarrow> b | None \<Rightarrow> 0)"

definition live_budget :: "db \<Rightarrow> string \<Rightarrow> int" where
  "live_budget d rid =
     sum_where (\<lambda>p. pm_reservation_id p = Some rid \<and> live p) budget_or_0 (permits d)"

text \<open>
  \<open>UPDATE reservations SET budget_bytes = v WHERE id = rid\<close>, with the column's
  \<open>CHECK(budget_bytes >= 0)\<close>.
\<close>

definition set_reservation_budget :: "string \<Rightarrow> int \<Rightarrow> db \<Rightarrow> err + db" where
  "set_reservation_budget rid v d =
     (if v < 0 \<and> exists_row (\<lambda>r. rs_id r = rid) (reservations d) then Inl IntegrityError
      else Inr (d\<lparr>reservations := update_rows (\<lambda>r. rs_id r = rid)
                    (\<lambda>r. r\<lparr>rs_budget_bytes := v\<rparr>) (reservations d)\<rparr>))"

text \<open>The permits a parent of a pending handover still commits.\<close>

definition pending_parent :: "db \<Rightarrow> permit \<Rightarrow> bool" where
  "pending_parent d p =
     exists_row (\<lambda>h. ho_parent_id h = pm_id p \<and> ho_state h = HoPending) (handovers d)"

section \<open>Well-formed databases\<close>

text \<open>
  The declared keys: primary keys, \<open>UNIQUE\<close> columns, and the three partial unique indexes
  of \<open>gateway_permits\<close> (one live source per movie reservation, per episode scope, and one
  live probe per parent).  \<open>slot\<close> is the index key a live row occupies.
\<close>

datatype slot = MovieSlot string | EpisodeSlot string string | ProbeSlot string

fun slot_of :: "string option \<Rightarrow> string option \<Rightarrow> string option \<Rightarrow> slot option" where
  "slot_of _ _ (Some parent) = Some (ProbeSlot parent)"
| "slot_of (Some rid) None None = Some (MovieSlot rid)"
| "slot_of (Some rid) (Some sc) None = Some (EpisodeSlot rid sc)"
| "slot_of None _ None = None"

definition permit_slot :: "permit \<Rightarrow> slot option" where
  "permit_slot p =
     (if live p then slot_of (pm_reservation_id p) (pm_scope_key p) (pm_probe_parent_id p) else None)"

definition slots_unique :: "permit list \<Rightarrow> bool" where
  "slots_unique ps = distinct (List.map_filter permit_slot ps)"

definition permits_wf :: "permit list \<Rightarrow> bool" where
  "permits_wf ps \<longleftrightarrow>
     distinct (map pm_id ps) \<and> distinct (map pm_token ps) \<and> distinct (map pm_operation_id ps) \<and>
     slots_unique ps"

definition db_wf :: "db \<Rightarrow> bool" where
  "db_wf d \<longleftrightarrow>
     distinct (map rq_id (requests d)) \<and> distinct (map rq_source_id (requests d)) \<and>
     distinct (map rs_id (reservations d)) \<and> distinct (map rs_media_key (reservations d)) \<and>
     distinct (map op_id (operations d)) \<and> distinct (map op_idempotency_key (operations d)) \<and>
     (\<forall>r\<in>set (reservations d). rs_request_id r \<in> rq_id ` set (requests d) \<and>
        0 \<le> rs_budget_bytes r \<and> 0 \<le> rs_allocated_bytes r) \<and>
     permits_wf (permits d)"

section \<open>Shared facts\<close>

lemma live_simps [simp]:
  "pm_state p = Authorized \<Longrightarrow> live p"
  "pm_state p = Dispatching \<Longrightarrow> live p"
  "pm_state p = Unknown \<Longrightarrow> live p"
  "pm_state p = Confirmed \<Longrightarrow> live p"
  "pm_state p = Superseded \<Longrightarrow> \<not> live p"
  "pm_state p = ProbeRejected \<Longrightarrow> \<not> live p"
  "pm_state p = Revoked \<Longrightarrow> \<not> live p"
  by (simp_all add: live_def)

lemma live_iff: "live p \<longleftrightarrow> pm_state p \<in> {Authorized, Dispatching, Unknown, Confirmed}"
  by (cases "pm_state p") (auto simp: live_def)

lemma open_iff: "open_state s \<longleftrightarrow> s \<in> {RsReserved, RsDownloading, RsWaitingEpisodes}"
  by (cases s) auto

lemma find_token_Some: "find_token d t = Some p \<Longrightarrow> p \<in> set (permits d) \<and> pm_token p = t"
  by (auto simp: find_token_def dest: find_row_Some)

lemma find_token_None: "find_token d t = None \<longleftrightarrow> t \<notin> pm_token ` set (permits d)"
  by (auto simp: find_token_def table_simps)

lemma find_token_member:
  "permits_wf (permits d) \<Longrightarrow> p \<in> set (permits d) \<Longrightarrow> find_token d (pm_token p) = Some p"
  by (simp add: find_token_def find_row_unique permits_wf_def)

lemma find_reservation_Some:
  "find_reservation d rid = Some r \<Longrightarrow> r \<in> set (reservations d) \<and> rs_id r = rid"
  by (auto simp: find_reservation_def dest: find_row_Some)

lemma find_open_reservation_Some:
  "find_open_reservation d rid = Some r \<Longrightarrow>
     r \<in> set (reservations d) \<and> rid = Some (rs_id r) \<and> open_state (rs_state r)"
  by (auto simp: find_open_reservation_def dest: find_row_Some)

lemma set_budget_frame:
  assumes "set_reservation_budget rid v d = Inr d'"
  shows "permits d' = permits d" and "handovers d' = handovers d" and "requests d' = requests d"
    and "tombstones d' = tombstones d" and "episode_imports d' = episode_imports d"
    and "pack_episodes d' = pack_episodes d" and "operations d' = operations d"
    and "movie_imports d' = movie_imports d"
  using assms by (auto simp: set_reservation_budget_def split: if_splits)

lemma set_budget_reservations:
  assumes "set_reservation_budget rid v d = Inr d'"
  shows "reservations d' = update_rows (\<lambda>r. rs_id r = rid) (\<lambda>r. r\<lparr>rs_budget_bytes := v\<rparr>) (reservations d)"
  using assms by (auto simp: set_reservation_budget_def split: if_splits)

interpretation rs_budget: key_column rs_id "\<lambda>r. r\<lparr>rs_budget_bytes := v\<rparr>" for v
  by unfold_locales simp

interpretation rs_budget_media: key_column rs_media_key "\<lambda>r. r\<lparr>rs_budget_bytes := v\<rparr>" for v
  by unfold_locales simp

interpretation rs_set_state: key_column rs_id "\<lambda>r. r\<lparr>rs_state := s\<rparr>" for s
  by unfold_locales simp

interpretation rs_set_state_media: key_column rs_media_key "\<lambda>r. r\<lparr>rs_state := s\<rparr>" for s
  by unfold_locales simp

interpretation rq_set_state: key_column rq_id "\<lambda>q. q\<lparr>rq_state := s, rq_updated_at := t\<rparr>" for s t
  by unfold_locales simp

interpretation rq_set_state_source: key_column rq_source_id "\<lambda>q. q\<lparr>rq_state := s, rq_updated_at := t\<rparr>" for s t
  by unfold_locales simp

lemma set_budget_found:
  assumes "set_reservation_budget rid v d = Inr d'" and "find_reservation d rid = Some r"
  shows "find_reservation d' rid = Some (r\<lparr>rs_budget_bytes := v\<rparr>)"
proof -
  from assms(2) have "rs_id r = rid" by (simp add: find_reservation_Some)
  with assms(2) show ?thesis
    by (simp add: find_reservation_def set_budget_reservations [OF assms(1)] rs_budget.find_updated)
qed

lemma set_budget_wf:
  assumes set: "set_reservation_budget rid v d = Inr d'" and wf: "db_wf d"
  shows "db_wf d'"
proof -
  from set have v: "\<forall>r\<in>set (reservations d). rs_id r = rid \<longrightarrow> 0 \<le> v"
    by (auto simp: set_reservation_budget_def table_simps split: if_splits)
  have res: "reservations d' = update_rows (\<lambda>r. rs_id r = rid) (\<lambda>r. r\<lparr>rs_budget_bytes := v\<rparr>) (reservations d)"
    by (rule set_budget_reservations [OF set])
  have "\<forall>r\<in>set (reservations d'). rs_request_id r \<in> rq_id ` set (requests d') \<and>
      0 \<le> rs_budget_bytes r \<and> 0 \<le> rs_allocated_bytes r"
    using wf v by (auto simp: db_wf_def res set_update_rows set_budget_frame [OF set])
  with wf show ?thesis
    by (simp add: db_wf_def set_budget_frame [OF set] res rs_budget.keys_kept rs_budget_media.keys_kept)
qed

lemma db_wf_permits: "db_wf d \<Longrightarrow> permits_wf (permits d)"
  by (simp add: db_wf_def)

lemma db_wf_set_permits: "db_wf d \<Longrightarrow> permits_wf ps \<Longrightarrow> db_wf (d\<lparr>permits := ps\<rparr>)"
  by (simp add: db_wf_def)

lemma empty_db_wf: "db_wf empty_db"
  by (simp add: db_wf_def empty_db_def permits_wf_def slots_unique_def List.map_filter_simps)

end
