(* ===== verification/CapacityEvidence.thy ===== *)
theory CapacityEvidence
  imports Database
begin

text \<open>
  \<open>worker/capacity_evidence.py\<close>: the free bytes of a filesystem and the bytes that
  torrents already in the queue still have to write.  What the operating system answers
  (\<open>os.path.ismount\<close>, \<open>os.statvfs\<close>, the clock, the registry's \<open>inspect\<close>) is an argument;
  so is the ISO-8601 reader.  A \<open>frozenset\<close> is a list without repetitions.
\<close>

section \<open>Evidence values\<close>

record pool_capacity =
  pc_pool_id :: string
  pc_filesystem_id :: string
  pc_free_bytes :: int
  pc_remaining_by_hash :: "(string \<times> int) list"
  pc_other_pending_bytes :: int
  pc_paused_hashes :: "string list"

record capacity =
  cap_free_bytes :: int
  cap_remaining_by_hash :: "(string \<times> int) list"
  cap_other_pending_bytes :: int
  cap_paused_hashes :: "string list"
  cap_pools :: "pool_capacity list"

text \<open>\<open>CapacityEvidence.__post_init__\<close>: what a constructed value has been checked for.\<close>

definition check_capacity :: "capacity \<Rightarrow> err + capacity" where
  "check_capacity c =
     (if cap_free_bytes c < 0 then Inl (ValueError ''invalid filesystem free bytes'')
      else if list_ex (\<lambda>(k, v). py_len k \<noteq> 40 \<or> v < 0) (cap_remaining_by_hash c)
        then Inl (ValueError ''invalid torrent progress'')
      else if cap_other_pending_bytes c < 0 then Inl (ValueError ''invalid unmanaged queue size'')
      else if list_ex (\<lambda>h. py_len h \<noteq> 40) (cap_paused_hashes c)
        then Inl (ValueError ''invalid stopped torrent identity'')
      else if \<not> distinct (map pc_pool_id (cap_pools c))
        then Inl (ValueError ''duplicate capacity pool'')
      else Inr c)"

text \<open>\<open>PoolCapacityEvidence.__post_init__\<close>.\<close>

definition check_pool_capacity :: "pool_capacity \<Rightarrow> err + pool_capacity" where
  "check_pool_capacity p =
     (if pc_pool_id p \<notin> {''ssd'', ''hdd''} \<or> pc_filesystem_id p = []
        then Inl (ValueError ''invalid capacity pool identity'')
      else ebind (check_capacity
             \<lparr>cap_free_bytes = pc_free_bytes p, cap_remaining_by_hash = pc_remaining_by_hash p,
              cap_other_pending_bytes = pc_other_pending_bytes p,
              cap_paused_hashes = pc_paused_hashes p, cap_pools = []\<rparr>)
           (\<lambda>_. Inr p))"

text \<open>\<open>CapacityEvidence.pool\<close>; \<open>None\<close> stands for \<open>ValueError("pool_capacity_unavailable")\<close>.\<close>

definition capacity_pool :: "capacity \<Rightarrow> string \<Rightarrow> capacity option" where
  "capacity_pool c pool_id =
     (if cap_pools c = [] then (if pool_id \<noteq> ''ssd'' then None else Some c)
      else map_option
             (\<lambda>p. \<lparr>cap_free_bytes = pc_free_bytes p, cap_remaining_by_hash = pc_remaining_by_hash p,
                   cap_other_pending_bytes = pc_other_pending_bytes p,
                   cap_paused_hashes = pc_paused_hashes p, cap_pools = [p]\<rparr>)
             (find_row (\<lambda>p. pc_pool_id p = pool_id) (cap_pools c)))"

text \<open>
  The invariant of evidence values: no negative counter and every dictionary with one
  entry per key, in the value itself and in its pools.
\<close>

definition progress_ok :: "int \<Rightarrow> (string \<times> int) list \<Rightarrow> int \<Rightarrow> bool" where
  "progress_ok free rem other \<longleftrightarrow>
     0 \<le> free \<and> dict_ok rem \<and> (\<forall>(k, v)\<in>set rem. 0 \<le> v) \<and> 0 \<le> other"

definition capacity_ok :: "capacity \<Rightarrow> bool" where
  "capacity_ok c \<longleftrightarrow>
     progress_ok (cap_free_bytes c) (cap_remaining_by_hash c) (cap_other_pending_bytes c) \<and>
     distinct (map pc_pool_id (cap_pools c)) \<and>
     (\<forall>p\<in>set (cap_pools c).
        progress_ok (pc_free_bytes p) (pc_remaining_by_hash p) (pc_other_pending_bytes p))"

lemma check_capacity_ok:
  assumes "check_capacity c = Inr c'"
    and "dict_ok (cap_remaining_by_hash c)"
    and "\<forall>p\<in>set (cap_pools c).
        progress_ok (pc_free_bytes p) (pc_remaining_by_hash p) (pc_other_pending_bytes p)"
  shows "c' = c \<and> capacity_ok c"
  using assms
  by (auto simp: check_capacity_def capacity_ok_def progress_ok_def list_ex_iff not_less split: if_splits)

lemma check_pool_capacity_ok:
  assumes "check_pool_capacity p = Inr p'" and "dict_ok (pc_remaining_by_hash p)"
  shows "p' = p \<and> progress_ok (pc_free_bytes p) (pc_remaining_by_hash p) (pc_other_pending_bytes p)"
  using assms
  by (auto simp: check_pool_capacity_def check_capacity_def progress_ok_def list_ex_iff not_less
      err_simps split: if_splits)

lemma capacity_pool_ok:
  assumes "capacity_ok c" and "capacity_pool c pool_id = Some q"
  shows "progress_ok (cap_free_bytes q) (cap_remaining_by_hash q) (cap_other_pending_bytes q)"
  using assms
  by (auto simp: capacity_pool_def capacity_ok_def dest!: find_row_Some split: if_splits)

section \<open>Reading the queue\<close>

text \<open>\<open>total_size\<close> and \<open>amount_left\<close> describe a known amount of work.\<close>

definition known_left :: "(string \<times> json) list \<Rightarrow> int option" where
  "known_left item =
     (case (as_int (jget item ''total_size''), as_int (jget item ''amount_left'')) of
        (Some t, Some l) \<Rightarrow> if 0 < t \<and> 0 \<le> l \<and> l \<le> t then Some l else None
      | _ \<Rightarrow> None)"

definition stopped_states :: "string list" where
  "stopped_states = [''stoppedDL'', ''stoppedUP'', ''pausedDL'', ''pausedUP'']"

text \<open>
  \<open>item.get("state") in {...}\<close>: hashing a list or a dictionary raises \<open>TypeError\<close>.
\<close>

definition state_stopped :: "(string \<times> json) list \<Rightarrow> err + bool" where
  "state_stopped item =
     (case jget item ''state'' of
        JList _ \<Rightarrow> Inl (TypeError ''unhashable type'')
      | JObj _ \<Rightarrow> Inl (TypeError ''unhashable type'')
      | JStr s \<Rightarrow> Inr (s \<in> set stopped_states)
      | _ \<Rightarrow> Inr False)"

record queue_acc =
  qa_remaining :: "(string \<times> int) list"
  qa_other :: int
  qa_paused :: "string list"

definition queue_item :: "queue_acc \<Rightarrow> json \<Rightarrow> err + queue_acc" where
  "queue_item acc raw =
     (case as_obj raw of
        None \<Rightarrow> Inl (ValueError ''invalid gateway queue entry'')
      | Some item \<Rightarrow> ebind (state_stopped item) (\<lambda>stopped.
         (case (as_str (jget item ''hash''), as_bool (jget item ''admitted'')) of
            (Some infohash, Some admitted) \<Rightarrow>
              if py_len infohash \<noteq> 40 then Inl (ValueError ''invalid gateway queue identity'')
              else
                let h = lower infohash;
                    acc = (if stopped then acc\<lparr>qa_paused := List.insert h (qa_paused acc)\<rparr> else acc)
                in (case known_left item of
                      None \<Rightarrow> if \<not> admitted then Inl (ValueError ''unmanaged torrent size is unknown'')
                              else Inr acc
                    | Some left \<Rightarrow>
                        if admitted then
                          Inr (acc\<lparr>qa_remaining := AList.update h left (qa_remaining acc)\<rparr>)
                        else if \<not> stopped then Inr (acc\<lparr>qa_other := qa_other acc + left\<rparr>)
                        else Inr acc)
          | _ \<Rightarrow> Inl (ValueError ''invalid gateway queue identity''))))"

fun queue_items :: "queue_acc \<Rightarrow> json list \<Rightarrow> err + queue_acc" where
  "queue_items acc [] = Inr acc"
| "queue_items acc (x # xs) = ebind (queue_item acc x) (\<lambda>acc. queue_items acc xs)"

definition empty_acc :: queue_acc where
  "empty_acc = \<lparr>qa_remaining = [], qa_other = 0, qa_paused = []\<rparr>"

text \<open>
  The snapshot test of \<open>capacity_from_queue\<close> in the mode without a storage registry.
\<close>

definition snapshot_usable ::
    "(string \<times> json) list \<Rightarrow> string option \<Rightarrow> rat \<Rightarrow> rat \<Rightarrow> bool \<Rightarrow> bool" where
  "snapshot_usable snapshot expected now max_age is_mount =
     (truthy (jget snapshot ''filesystem_id'') \<and>
      (case as_number (jget snapshot ''measured_at'') of
         None \<Rightarrow> False | Some m \<Rightarrow> age_within now m max_age) \<and>
      (case expected of None \<Rightarrow> True | Some e \<Rightarrow> jget snapshot ''filesystem_id'' = JStr e) \<and>
      is_mount)"

definition capacity_from_queue ::
    "(string \<times> json) list \<Rightarrow> json \<Rightarrow> string option \<Rightarrow> rat \<Rightarrow> rat \<Rightarrow> bool \<Rightarrow> int \<Rightarrow> err + capacity" where
  "capacity_from_queue snapshot payload expected now max_age is_mount free_bytes =
     (if \<not> snapshot_usable snapshot expected now max_age is_mount
        then Inl (ValueError ''filesystem_snapshot_unavailable'')
      else case as_list payload of
        None \<Rightarrow> Inl (ValueError ''gateway_queue_unavailable'')
      | Some items \<Rightarrow> ebind (queue_items empty_acc items) (\<lambda>acc.
          check_capacity \<lparr>cap_free_bytes = free_bytes, cap_remaining_by_hash = qa_remaining acc,
            cap_other_pending_bytes = qa_other acc, cap_paused_hashes = qa_paused acc,
            cap_pools = []\<rparr>))"

section \<open>Reading the queue of a registered installation\<close>

record sample =
  sm_filesystem_id :: string
  sm_free_bytes :: int

record pool_acc =
  pa_remaining :: "(string \<times> int) list"
  pa_other :: "(string \<times> int) list"
  pa_paused :: "string list"

text \<open>
  One queue entry of the pool's loop.  \<open>Inr None\<close> is \<open>queue_valid = False; break\<close>.
\<close>

definition pool_item :: "sample \<Rightarrow> pool_acc \<Rightarrow> (string \<times> json) list \<Rightarrow> err + pool_acc option" where
  "pool_item sm acc entry =
     (case (as_str (jget entry ''hash''), as_bool (jget entry ''admitted'')) of
        (Some infohash, Some admitted) \<Rightarrow>
          if py_len infohash \<noteq> 40 then Inr None
          else if jget entry ''filesystem_id'' \<noteq> JStr (sm_filesystem_id sm)
               \<or> jget entry ''placement_verified'' \<noteq> JBool True then Inr None
          else ebind (state_stopped entry) (\<lambda>stopped.
            let h = lower infohash;
                acc = (if stopped then acc\<lparr>pa_paused := List.insert h (pa_paused acc)\<rparr> else acc)
            in (case known_left entry of
                  None \<Rightarrow>
                    if \<not> admitted then Inr None
                    else (case as_int (jget entry ''reserved_bytes'') of
                            None \<Rightarrow> Inr None
                          | Some reserved \<Rightarrow>
                              if reserved \<le> 0 then Inr None
                              else Inr (Some (acc\<lparr>pa_remaining :=
                                     AList.update h reserved (pa_remaining acc)\<rparr>)))
                | Some left \<Rightarrow>
                    if admitted then
                      Inr (Some (acc\<lparr>pa_remaining := AList.update h
                        (max (get_or (pa_remaining acc) h 0) left) (pa_remaining acc)\<rparr>))
                    else
                      Inr (Some (acc\<lparr>pa_other := AList.update h
                        (max (get_or (pa_other acc) h 0) left) (pa_other acc)\<rparr>))))
      | _ \<Rightarrow> Inr None)"

fun pool_items :: "string \<Rightarrow> sample \<Rightarrow> pool_acc \<Rightarrow> (string \<times> json) list list \<Rightarrow> err + pool_acc option" where
  "pool_items pool_id sm acc [] = Inr (Some acc)"
| "pool_items pool_id sm acc (e # es) =
     (if jget e ''pool_id'' \<noteq> JStr pool_id then pool_items pool_id sm acc es
      else ebind (pool_item sm acc e) (\<lambda>r.
        case r of None \<Rightarrow> Inr None | Some acc' \<Rightarrow> pool_items pool_id sm acc' es))"

text \<open>The \<open>measured_at\<close> of a pool: an ISO text, read by \<open>parse_iso\<close>, or a number.\<close>

definition pool_measured :: "(string \<Rightarrow> rat option) \<Rightarrow> json \<Rightarrow> pyfloat option" where
  "pool_measured parse_iso j =
     (case j of JStr s \<Rightarrow> map_option Fin (parse_iso s) | _ \<Rightarrow> as_number j)"

text \<open>
  The evidence of one pool, \<open>Inr None\<close> where the loop says \<open>continue\<close>; \<open>inspect\<close> is
  \<open>None\<close> where \<open>StorageRegistry.inspect\<close> raises.
\<close>

definition pool_evidence ::
    "(string \<Rightarrow> rat option) \<Rightarrow> (string \<Rightarrow> sample option) \<Rightarrow> rat \<Rightarrow> rat \<Rightarrow> json list \<Rightarrow>
     (string \<times> json) list list \<Rightarrow> string \<Rightarrow> err + pool_capacity option" where
  "pool_evidence parse_iso inspect now max_age snapshot_pools payload pool_id =
     (case filter (\<lambda>d. jget d ''pool_id'' = JStr pool_id) (List.map_filter as_obj snapshot_pools) of
        [item] \<Rightarrow>
          (case pool_measured parse_iso (jget item ''measured_at'') of
             None \<Rightarrow> Inr None
           | Some m \<Rightarrow>
               if \<not> age_within now m max_age \<or> jget item ''state'' \<noteq> JStr ''ready'' then Inr None
               else (case inspect pool_id of
                       None \<Rightarrow> Inr None
                     | Some sm \<Rightarrow>
                         if jget item ''filesystem_id'' \<noteq> JStr (sm_filesystem_id sm) then Inr None
                         else ebind (pool_items pool_id sm
                                \<lparr>pa_remaining = [], pa_other = [], pa_paused = []\<rparr> payload) (\<lambda>r.
                           case r of None \<Rightarrow> Inr None
                           | Some acc \<Rightarrow> ebind (check_pool_capacity
                               \<lparr>pc_pool_id = pool_id, pc_filesystem_id = sm_filesystem_id sm,
                                pc_free_bytes = sm_free_bytes sm,
                                pc_remaining_by_hash = pa_remaining acc,
                                pc_other_pending_bytes = dict_sum (pa_other acc),
                                pc_paused_hashes = pa_paused acc\<rparr>) (\<lambda>p. Inr (Some p)))))
      | _ \<Rightarrow> Inr None)"

definition pool_ids :: "string list" where
  "pool_ids = [''ssd'', ''hdd'']"

definition check_entry :: "json \<Rightarrow> err + (string \<times> json) list" where
  "check_entry raw =
     (case as_obj raw of
        None \<Rightarrow> Inl (ValueError ''invalid gateway queue entry'')
      | Some e \<Rightarrow> if jget e ''pool_id'' \<notin> JStr ` set pool_ids
                   then Inl (ValueError ''unverified gateway queue placement'')
                 else Inr e)"

definition merge_dicts :: "(string \<times> int) list list \<Rightarrow> (string \<times> int) list" where
  "merge_dicts ds = fold (\<lambda>(k, v) acc. AList.update k v acc) (concat ds) []"

definition registered_capacity ::
    "(string \<Rightarrow> rat option) \<Rightarrow> (string \<Rightarrow> sample option) \<Rightarrow> rat \<Rightarrow> rat \<Rightarrow>
     (string \<times> json) list \<Rightarrow> json \<Rightarrow> err + capacity" where
  "registered_capacity parse_iso inspect now max_age snapshot payload =
     (case (as_list payload, as_list (jget snapshot ''pools'')) of
        (Some raws, Some snapshot_pools) \<Rightarrow>
          ebind (emap check_entry raws) (\<lambda>entries.
          ebind (emap (pool_evidence parse_iso inspect now max_age snapshot_pools entries) pool_ids)
          (\<lambda>found. let ps = List.map_filter id found in
             if ps = [] then Inl (ValueError ''filesystem_snapshot_unavailable'')
             else let ssd = find_row (\<lambda>p. pc_pool_id p = ''ssd'') ps in
               check_capacity
                 \<lparr>cap_free_bytes = (case ssd of Some p \<Rightarrow> pc_free_bytes p | None \<Rightarrow> 0),
                  cap_remaining_by_hash = merge_dicts (map pc_remaining_by_hash ps),
                  cap_other_pending_bytes = (case ssd of Some p \<Rightarrow> pc_other_pending_bytes p | None \<Rightarrow> 0),
                  cap_paused_hashes = remdups (concat (map pc_paused_hashes ps)),
                  cap_pools = ps\<rparr>))
      | _ \<Rightarrow> Inl (ValueError ''filesystem_snapshot_unavailable''))"

section \<open>What the evidence promises\<close>

lemma queue_item_dict_ok:
  "queue_item acc x = Inr acc' \<Longrightarrow> dict_ok (qa_remaining acc) \<Longrightarrow> dict_ok (qa_remaining acc')"
  by (auto simp: queue_item_def Let_def err_simps split: option.splits if_splits)

lemma queue_items_dict_ok:
  "queue_items acc xs = Inr acc' \<Longrightarrow> dict_ok (qa_remaining acc) \<Longrightarrow> dict_ok (qa_remaining acc')"
proof (induction xs arbitrary: acc)
  case Nil
  then show ?case by simp
next
  case (Cons x xs)
  then show ?case by (auto simp: err_simps dest: queue_item_dict_ok)
qed

lemma dict_ok_Nil [simp]: "dict_ok []"
  by (simp add: dict_ok_def)

lemma capacity_from_queue_evidence:
  assumes "capacity_from_queue snapshot payload expected now max_age is_mount free = Inr c"
  shows "capacity_ok c \<and> snapshot_usable snapshot expected now max_age is_mount \<and> cap_free_bytes c = free"
proof -
  from assms obtain items acc where
      use: "snapshot_usable snapshot expected now max_age is_mount"
    and acc: "queue_items empty_acc items = Inr acc"
    and chk: "check_capacity \<lparr>cap_free_bytes = free, cap_remaining_by_hash = qa_remaining acc,
        cap_other_pending_bytes = qa_other acc, cap_paused_hashes = qa_paused acc, cap_pools = []\<rparr> = Inr c"
    by (auto simp: capacity_from_queue_def err_simps split: if_splits option.splits)
  from acc have "dict_ok (qa_remaining acc)"
    by (rule queue_items_dict_ok) (simp add: empty_acc_def)
  with check_capacity_ok [OF chk] use show ?thesis by auto
qed

text \<open>The bytes of a queue item that no permit accounts for.\<close>

definition unmanaged_left :: "json \<Rightarrow> int" where
  "unmanaged_left raw =
     (case as_obj raw of
        None \<Rightarrow> 0
      | Some item \<Rightarrow>
          if jget item ''admitted'' = JBool False \<and> state_stopped item = Inr False
          then (case known_left item of Some l \<Rightarrow> l | None \<Rightarrow> 0) else 0)"

lemma queue_item_other:
  "queue_item acc x = Inr acc' \<Longrightarrow> qa_other acc' = qa_other acc + unmanaged_left x"
  by (cases "state_stopped (the (as_obj x))"; cases "known_left (the (as_obj x))";
      cases "jget (the (as_obj x)) ''admitted'' = JBool False")
     (auto simp: queue_item_def unmanaged_left_def Let_def err_simps json_access
      split: option.splits if_splits)

lemma queue_items_other:
  "queue_items acc xs = Inr acc' \<Longrightarrow>
     qa_other acc' = qa_other acc + sum_list (map unmanaged_left xs)"
proof (induction xs arbitrary: acc)
  case Nil
  then show ?case by simp
next
  case (Cons x xs)
  then obtain acc1 where "queue_item acc x = Inr acc1" and "queue_items acc1 xs = Inr acc'"
    by (auto simp: err_simps)
  with Cons.IH [of acc1] show ?case by (simp add: queue_item_other)
qed

lemma queue_items_known:
  "queue_items acc xs = Inr acc' \<Longrightarrow> x \<in> set xs \<Longrightarrow> as_obj x = Some item \<Longrightarrow>
     jget item ''admitted'' = JBool False \<Longrightarrow> known_left item \<noteq> None"
proof (induction xs arbitrary: acc)
  case Nil
  then show ?case by simp
next
  case (Cons y ys)
  from Cons.prems(1) obtain acc1 where 1: "queue_item acc y = Inr acc1" "queue_items acc1 ys = Inr acc'"
    by (auto simp: err_simps)
  show ?case
  proof (cases "x = y")
    case True
    with 1(1) Cons.prems(3,4) show ?thesis
      by (auto simp: queue_item_def Let_def err_simps split: option.splits if_splits)
  next
    case False
    with Cons 1(2) show ?thesis by auto
  qed
qed

lemma pool_item_dict_ok:
  "pool_item sm acc e = Inr (Some acc') \<Longrightarrow> dict_ok (pa_remaining acc) \<Longrightarrow> dict_ok (pa_remaining acc')"
  by (auto simp: pool_item_def Let_def err_simps split: option.splits if_splits)

lemma pool_items_dict_ok:
  "pool_items pid sm acc es = Inr (Some acc') \<Longrightarrow> dict_ok (pa_remaining acc) \<Longrightarrow> dict_ok (pa_remaining acc')"
proof (induction es arbitrary: acc)
  case Nil
  then show ?case by simp
next
  case (Cons e es)
  show ?case
  proof (cases "jget e ''pool_id'' = JStr pid")
    case True
    with Cons.prems obtain acc1 where "pool_item sm acc e = Inr (Some acc1)"
        and "pool_items pid sm acc1 es = Inr (Some acc')"
      by (auto simp: err_simps split: option.splits)
    with Cons show ?thesis using pool_item_dict_ok by blast
  next
    case False
    with Cons show ?thesis by simp
  qed
qed

lemma pool_evidence_ok:
  assumes "pool_evidence parse_iso inspect now max_age sps payload pid = Inr (Some p)"
  shows "pc_pool_id p = pid \<and>
    progress_ok (pc_free_bytes p) (pc_remaining_by_hash p) (pc_other_pending_bytes p) \<and>
    (\<exists>sm. inspect pid = Some sm \<and> pc_filesystem_id p = sm_filesystem_id sm \<and> pc_free_bytes p = sm_free_bytes sm)"
proof -
  from assms obtain sm acc where
      insp: "inspect pid = Some sm"
    and acc: "pool_items pid sm \<lparr>pa_remaining = [], pa_other = [], pa_paused = []\<rparr> payload = Inr (Some acc)"
    and chk: "check_pool_capacity
        \<lparr>pc_pool_id = pid, pc_filesystem_id = sm_filesystem_id sm, pc_free_bytes = sm_free_bytes sm,
         pc_remaining_by_hash = pa_remaining acc, pc_other_pending_bytes = dict_sum (pa_other acc),
         pc_paused_hashes = pa_paused acc\<rparr> = Inr p"
    by (auto simp: pool_evidence_def err_simps split: list.splits option.splits if_splits)
  from acc have "dict_ok (pa_remaining acc)"
    by (rule pool_items_dict_ok) simp
  with check_pool_capacity_ok [OF chk] insp show ?thesis by auto
qed

lemma merge_dicts_ok: "dict_ok (merge_dicts ds)"
proof -
  have "dict_ok acc \<Longrightarrow> dict_ok (fold (\<lambda>(k, v) acc. AList.update k v acc) xs acc)"
    for xs and acc :: "(string \<times> int) list"
    by (induction xs arbitrary: acc) auto
  then show ?thesis by (simp add: merge_dicts_def)
qed

lemma registered_capacity_evidence:
  assumes "registered_capacity parse_iso inspect now max_age snapshot payload = Inr c"
  shows "capacity_ok c \<and> cap_pools c \<noteq> [] \<and>
    (\<forall>p\<in>set (cap_pools c). \<exists>sm. inspect (pc_pool_id p) = Some sm \<and>
        pc_filesystem_id p = sm_filesystem_id sm \<and> pc_free_bytes p = sm_free_bytes sm)"
proof -
  from assms obtain sps entries found ps where
      found: "emap (pool_evidence parse_iso inspect now max_age sps entries) pool_ids = Inr found"
    and ps: "ps = List.map_filter id found" "ps \<noteq> []"
    and chk: "check_capacity
                 \<lparr>cap_free_bytes = (case find_row (\<lambda>p. pc_pool_id p = ''ssd'') ps of Some p \<Rightarrow> pc_free_bytes p | None \<Rightarrow> 0),
                  cap_remaining_by_hash = merge_dicts (map pc_remaining_by_hash ps),
                  cap_other_pending_bytes = (case find_row (\<lambda>p. pc_pool_id p = ''ssd'') ps of Some p \<Rightarrow> pc_other_pending_bytes p | None \<Rightarrow> 0),
                  cap_paused_hashes = remdups (concat (map pc_paused_hashes ps)),
                  cap_pools = ps\<rparr> = Inr c"
    by (auto simp: registered_capacity_def err_simps Let_def split: option.splits if_splits)
  have each: "\<exists>pid. pool_evidence parse_iso inspect now max_age sps entries pid = Inr (Some p)"
    if "p \<in> set ps" for p
  proof -
    from that ps(1) have "Some p \<in> set found" by (auto simp: List.map_filter_def)
    with emap_set [OF found] show ?thesis by blast
  qed
  then have each_ok: "\<forall>p\<in>set ps.
      progress_ok (pc_free_bytes p) (pc_remaining_by_hash p) (pc_other_pending_bytes p)"
    using pool_evidence_ok by blast
  have "\<forall>p\<in>set ps. \<exists>sm. inspect (pc_pool_id p) = Some sm \<and>
        pc_filesystem_id p = sm_filesystem_id sm \<and> pc_free_bytes p = sm_free_bytes sm"
    using each pool_evidence_ok by metis
  then show ?thesis using check_capacity_ok [OF chk] merge_dicts_ok each_ok ps(2) by auto
qed

end
