(* ===== verification/PermitStore.thy ===== *)
theory PermitStore
  imports CapacityEvidence
begin

text \<open>
  The admission half of \<open>gateway/permits.py\<close>, in its persistent mode (a database path is
  configured): the row constraints of \<open>gateway_permits\<close>, the accounting of pending bytes,
  placement on a pool, and \<open>PermitRegistry.issue\<close>.  Random identifiers, the clock and the
  answers of the storage registry are arguments.  A raised exception leaves the
  transaction uncommitted, so \<open>Inl\<close> means the database is unchanged.
\<close>

section \<open>Inserting a row\<close>

definition permit_conflict :: "permit \<Rightarrow> permit list \<Rightarrow> bool" where
  "permit_conflict p ps =
     list_ex (\<lambda>q. pm_id q = pm_id p \<or> pm_token q = pm_token p \<or>
                  pm_operation_id q = pm_operation_id p \<or>
                  (permit_slot p \<noteq> None \<and> permit_slot q = permit_slot p)) ps"

definition insert_permit :: "permit \<Rightarrow> db \<Rightarrow> err + db" where
  "insert_permit p d =
     (if permit_conflict p (permits d) then Inl IntegrityError
      else Inr (d\<lparr>permits := permits d @ [p]\<rparr>))"

lemma map_filter_append: "List.map_filter f (xs @ ys) = List.map_filter f xs @ List.map_filter f ys"
  by (simp add: List.map_filter_def)

lemma map_filter_mem: "y \<in> set (List.map_filter f xs) \<longleftrightarrow> (\<exists>x\<in>set xs. f x = Some y)"
  by (force simp: List.map_filter_def)

lemma slots_unique_append:
  "slots_unique (ps @ [p]) \<longleftrightarrow>
     slots_unique ps \<and> (permit_slot p = None \<or> (\<forall>q\<in>set ps. permit_slot q \<noteq> permit_slot p))"
proof (cases "permit_slot p")
  case None
  then show ?thesis by (simp add: slots_unique_def map_filter_append List.map_filter_simps)
next
  case (Some s)
  then have "slots_unique (ps @ [p]) \<longleftrightarrow>
      slots_unique ps \<and> s \<notin> set (List.map_filter permit_slot ps)"
    by (simp add: slots_unique_def map_filter_append List.map_filter_simps)
  with Some show ?thesis by (simp add: map_filter_mem)
qed

lemma permits_wf_append:
  "permits_wf (ps @ [p]) \<longleftrightarrow> permits_wf ps \<and> \<not> permit_conflict p ps"
proof -
  have "permit_conflict p ps \<longleftrightarrow>
      pm_id p \<in> pm_id ` set ps \<or> pm_token p \<in> pm_token ` set ps \<or>
      pm_operation_id p \<in> pm_operation_id ` set ps \<or>
      (permit_slot p \<noteq> None \<and> (\<exists>q\<in>set ps. permit_slot q = permit_slot p))"
    by (auto simp: permit_conflict_def list_ex_iff) (metis imageI)+
  then show ?thesis
    by (simp add: permits_wf_def slots_unique_append) blast
qed

lemma insert_permit_iff:
  "insert_permit p d = Inr d' \<longleftrightarrow>
     \<not> permit_conflict p (permits d) \<and> d' = d\<lparr>permits := permits d @ [p]\<rparr>"
  by (auto simp: insert_permit_def)

lemma insert_permit_wf:
  assumes "insert_permit p d = Inr d'" and "db_wf d"
  shows "db_wf d'"
proof -
  from assms have "permits_wf (permits d @ [p])"
    by (simp add: insert_permit_iff permits_wf_append db_wf_permits)
  with assms show ?thesis by (simp add: insert_permit_iff db_wf_set_permits)
qed

text \<open>
  Updating rows keeps the constraints when identifiers stay and a row either keeps its
  index slot or gives it up.
\<close>

definition slot_shrinks :: "(permit \<Rightarrow> permit) \<Rightarrow> permit \<Rightarrow> bool" where
  "slot_shrinks f p \<longleftrightarrow> permit_slot (f p) = permit_slot p \<or> permit_slot (f p) = None"

definition same_ids :: "(permit \<Rightarrow> permit) \<Rightarrow> bool" where
  "same_ids f \<longleftrightarrow> (\<forall>p. pm_id (f p) = pm_id p \<and> pm_token (f p) = pm_token p \<and>
                      pm_operation_id (f p) = pm_operation_id p)"

lemma slots_unique_update:
  assumes "slots_unique ps" and "\<And>p. p \<in> set ps \<Longrightarrow> P p \<Longrightarrow> slot_shrinks f p"
  shows "slots_unique (update_rows P f ps) \<and>
         set (List.map_filter permit_slot (update_rows P f ps)) \<subseteq> set (List.map_filter permit_slot ps)"
  using assms
proof (induction ps)
  case Nil
  then show ?case by (simp add: slots_unique_def)
next
  case (Cons p ps)
  let ?p = "if P p then f p else p"
  have step: "update_rows P f (p # ps) = ?p # update_rows P f ps" by (simp add: update_rows_def)
  have uni: "slots_unique ps" using Cons.prems(1)
    by (auto simp: slots_unique_def List.map_filter_simps split: option.splits)
  from Cons.IH [OF uni] Cons.prems(2)
  have IH: "slots_unique (update_rows P f ps)"
    "set (List.map_filter permit_slot (update_rows P f ps)) \<subseteq> set (List.map_filter permit_slot ps)"
    by auto
  have "permit_slot ?p = permit_slot p \<or> permit_slot ?p = None"
    using Cons.prems(2) [of p] by (auto simp: slot_shrinks_def)
  then show ?case
    using IH Cons.prems(1) unfolding step
    by (auto simp: slots_unique_def List.map_filter_simps split: option.splits if_splits)
qed

lemma permits_wf_update:
  assumes "permits_wf ps" and "same_ids f" and "\<And>p. p \<in> set ps \<Longrightarrow> P p \<Longrightarrow> slot_shrinks f p"
  shows "permits_wf (update_rows P f ps)"
  using assms slots_unique_update [of ps P f]
  by (auto simp: permits_wf_def same_ids_def map_update_rows)

lemma permits_wf_delete:
  assumes "permits_wf ps"
  shows "permits_wf (delete_rows P ps)"
proof -
  have "slots_unique qs \<Longrightarrow> slots_unique (delete_rows P qs) \<and>
      set (List.map_filter permit_slot (delete_rows P qs)) \<subseteq> set (List.map_filter permit_slot qs)" for qs
    by (induction qs)
       (auto simp: slots_unique_def delete_rows_def List.map_filter_simps split: option.splits)
  with assms show ?thesis by (auto simp: permits_wf_def intro: distinct_map_delete)
qed

section \<open>Bytes still to be written\<close>

text \<open>The rows \<open>_pending_bytes\<close> selects.\<close>

definition counted_row :: "db \<Rightarrow> time \<Rightarrow> string \<Rightarrow> permit \<Rightarrow> bool" where
  "counted_row d now pool p =
     (exists_row (\<lambda>r. Some (rs_id r) = pm_reservation_id p \<and> open_state (rs_state r)) (reservations d) \<and>
      (live p \<or> pending_parent d p) \<and>
      (pm_state p \<noteq> Authorized \<or> now < pm_expires_at p) \<and>
      (case pm_budget_bytes p of Some b \<Rightarrow> 0 < b | None \<Rightarrow> False) \<and>
      pm_pool_id p = pool \<and>
      \<not> exists_row (\<lambda>e. ei_permit_id e = pm_id p \<and> ei_state e = ImComplete) (episode_imports d))"

definition count_row ::
    "capacity \<Rightarrow> capacity \<Rightarrow> string option \<Rightarrow> permit \<Rightarrow> (string \<times> int) list \<Rightarrow> (string \<times> int) list" where
  "count_row c per_pool include p by_hash =
     (if cap_pools c \<noteq> [] \<or> pm_state p \<noteq> Confirmed \<or>
         pm_infohash p \<notin> set (cap_paused_hashes c) \<or> Some (pm_infohash p) = include
      then AList.update (pm_infohash p)
             (max (get_or by_hash (pm_infohash p) 0)
                  (min (budget_or_0 p)
                       (get_or (cap_remaining_by_hash per_pool) (pm_infohash p) (budget_or_0 p))))
             by_hash
      else by_hash)"

definition pending_total :: "db \<Rightarrow> time \<Rightarrow> capacity \<Rightarrow> capacity \<Rightarrow> string option \<Rightarrow> string \<Rightarrow> int" where
  "pending_total d now c per_pool include pool =
     cap_other_pending_bytes per_pool +
     dict_sum (fold (count_row c per_pool include)
                    (filter (counted_row d now pool) (permits d))
                    (if cap_pools c \<noteq> [] then cap_remaining_by_hash per_pool else []))"

definition pending_bytes :: "db \<Rightarrow> time \<Rightarrow> capacity \<Rightarrow> string option \<Rightarrow> string \<Rightarrow> err + int" where
  "pending_bytes d now c include pool =
     (case capacity_pool c pool of
        None \<Rightarrow> Inl (ValueError ''pool_capacity_unavailable'')
      | Some per_pool \<Rightarrow> Inr (pending_total d now c per_pool include pool))"

text \<open>\<open>PermitRegistry.available_bytes\<close>: the largest amount one pool can still take.\<close>

definition registry_available_bytes :: "db \<Rightarrow> time \<Rightarrow> capacity \<Rightarrow> err + int" where
  "registry_available_bytes d now c =
     ebind (emap (\<lambda>pool. ebind (pending_bytes d now c None pool) (\<lambda>pending.
              case capacity_pool c pool of
                None \<Rightarrow> Inl (ValueError ''pool_capacity_unavailable'')
              | Some q \<Rightarrow> Inr (max 0 (cap_free_bytes q - pending))))
            (if cap_pools c \<noteq> [] then map pc_pool_id (cap_pools c) else [''ssd'']))
     (\<lambda>values. Inr (fold max values 0))"

text \<open>Facts about the accounting.  Values stay non-negative, so a row adds at most its budget.\<close>

definition counts_ok :: "(string \<times> int) list \<Rightarrow> bool" where
  "counts_ok m \<longleftrightarrow> dict_ok m \<and> (\<forall>(k, v)\<in>set m. 0 \<le> v)"

lemma counts_ok_count_row: "counts_ok m \<Longrightarrow> counts_ok (count_row c q incl p m)"
proof -
  assume m: "counts_ok m"
  then have "0 \<le> get_or m (pm_infohash p) 0" by (auto simp: counts_ok_def intro!: get_or_nonneg)
  then have "0 \<le> max (get_or m (pm_infohash p) 0) x" for x by simp
  with m show ?thesis
    by (auto simp: counts_ok_def count_row_def simp del: max.bounded_iff dest!: update_set_mem)
qed

lemma counts_ok_fold: "counts_ok m \<Longrightarrow> counts_ok (fold (count_row c q incl) ps m)"
  by (induction ps arbitrary: m) (auto intro: counts_ok_count_row)

lemma count_row_adds:
  assumes "counts_ok m" and "0 \<le> budget_or_0 p"
  shows "dict_sum (count_row c q incl p m) \<le> dict_sum m + budget_or_0 p"
proof -
  have "dict_ok m" and nn: "0 \<le> get_or m (pm_infohash p) 0"
    using assms(1) by (auto simp: counts_ok_def intro!: get_or_nonneg)
  then show ?thesis using assms(2)
    by (simp add: count_row_def dict_sum_update max_def min_def)
qed

lemma counts_ok_start:
  "progress_ok (cap_free_bytes q) (cap_remaining_by_hash q) (cap_other_pending_bytes q) \<Longrightarrow>
   counts_ok (if b then cap_remaining_by_hash q else [])"
  by (auto simp: progress_ok_def counts_ok_def)

lemma pending_total_append:
  assumes ok: "progress_ok (cap_free_bytes q) (cap_remaining_by_hash q) (cap_other_pending_bytes q)"
    and perm: "permits d' = permits d @ [p]"
    and same: "\<And>x. x \<in> set (permits d) \<Longrightarrow> counted_row d' now pool x = counted_row d now pool x"
    and nn: "0 \<le> budget_or_0 p"
  shows "pending_total d' now c q incl pool \<le> pending_total d now c q incl pool + budget_or_0 p"
proof -
  let ?m0 = "if cap_pools c \<noteq> [] then cap_remaining_by_hash q else []"
  let ?m = "fold (count_row c q incl) (filter (counted_row d now pool) (permits d)) ?m0"
  have m: "counts_ok ?m" by (intro counts_ok_fold counts_ok_start ok)
  have flt: "filter (counted_row d' now pool) (permits d) = filter (counted_row d now pool) (permits d)"
    using same by (intro filter_cong) auto
  show ?thesis
    using count_row_adds [OF m nn] nn
    by (simp add: pending_total_def perm flt)
qed

section \<open>Placement\<close>

text \<open>
  The answers of \<open>StorageRegistry\<close>: \<open>None\<close> where the call raises.  \<open>st_is_dir pool path\<close>
  is \<open>resolve(pool, path).is_dir()\<close>.
\<close>

record storage =
  st_inspect :: "string \<Rightarrow> bool \<Rightarrow> sample option"
  st_prepare_destination :: "string \<Rightarrow> string \<Rightarrow> string option"
  st_validate_destination :: "string \<Rightarrow> string \<Rightarrow> string option"
  st_is_dir :: "string \<Rightarrow> string \<Rightarrow> bool option"
  st_pool_filesystem :: "string \<Rightarrow> string"

definition torrents_root :: string where
  "torrents_root = ''/data/torrents''"

definition placement_valid :: "storage option \<Rightarrow> permit \<Rightarrow> bool" where
  "placement_valid st p =
     (case st of
        None \<Rightarrow> pm_pool_id p = ''ssd'' \<and> pm_destination p = torrents_root
      | Some s \<Rightarrow>
          (case st_inspect s (pm_pool_id p) False of
             None \<Rightarrow> False
           | Some sm \<Rightarrow>
               if pm_filesystem_id p \<noteq> None \<and> Some (sm_filesystem_id sm) \<noteq> pm_filesystem_id p
                 then False
               else if pm_destination p = torrents_root \<and> pm_pool_id p = ''ssd''
                 then st_is_dir s ''ssd'' (pm_destination p) = Some True
               else
                 let owner = (case pm_season_pack_parent_id p of
                                Some parent \<Rightarrow> if parent = [] then pm_id p else parent
                              | None \<Rightarrow> pm_id p);
                     expected = torrents_root @ ''/.placements/'' @ owner
                 in pm_destination p = expected \<and>
                    st_validate_destination s (pm_pool_id p) owner = Some expected))"

text \<open>
  One round of the loop over the pools in \<open>_select_pool\<close>; \<open>None\<close> is \<open>continue\<close>.
\<close>

definition try_pool :: "storage \<Rightarrow> db \<Rightarrow> time \<Rightarrow> capacity \<Rightarrow> permit \<Rightarrow> string \<Rightarrow> permit option" where
  "try_pool s d now c p pool_id =
     (case find_row (\<lambda>q. pc_pool_id q = pool_id) (cap_pools c) of
        None \<Rightarrow> None
      | Some pool \<Rightarrow>
          (case st_inspect s pool_id True of
             None \<Rightarrow> None
           | Some sm \<Rightarrow>
               if sm_filesystem_id sm \<noteq> pc_filesystem_id pool then None
               else (case pending_bytes d now c None pool_id of
                       Inl _ \<Rightarrow> None
                     | Inr pending \<Rightarrow>
                         if budget_or_0 p > max 0 (min (pc_free_bytes pool) (sm_free_bytes sm) - pending)
                           then None
                         else map_option
                                (\<lambda>dest. p\<lparr>pm_pool_id := pool_id,
                                           pm_filesystem_id := Some (sm_filesystem_id sm),
                                           pm_destination := dest\<rparr>)
                                (st_prepare_destination s pool_id (pm_id p)))))"

fun first_some :: "('a \<Rightarrow> 'b option) \<Rightarrow> 'a list \<Rightarrow> 'b option" where
  "first_some f [] = None"
| "first_some f (x # xs) = (case f x of Some y \<Rightarrow> Some y | None \<Rightarrow> first_some f xs)"

definition select_pool :: "storage option \<Rightarrow> db \<Rightarrow> time \<Rightarrow> capacity \<Rightarrow> permit \<Rightarrow> err + permit" where
  "select_pool st d now c p =
     (case st of
        None \<Rightarrow>
          if cap_pools c \<noteq> [] then Inl (PermissionError ''storage_registry_required'')
          else ebind (pending_bytes d now c None ''ssd'') (\<lambda>pending.
            if budget_or_0 p > max 0 (cap_free_bytes c - pending)
              then Inl (PermissionError ''waiting_space'')
            else Inr p)
      | Some s \<Rightarrow>
          (case first_some (try_pool s d now c p) pool_ids of
             Some p' \<Rightarrow> Inr p'
           | None \<Rightarrow> Inl (PermissionError ''waiting_space'')))"

lemma first_some_SomeD: "first_some f xs = Some y \<Longrightarrow> \<exists>x\<in>set xs. f x = Some y"
  by (induction xs) (auto split: option.splits)

text \<open>
  What admission promises: the chosen placement differs from the request only in pool,
  file system and destination, and its pool has room for the whole budget.
\<close>

lemma try_pool_room:
  assumes "try_pool s d now c p pool_id = Some p'"
  shows "\<exists>q. capacity_pool c (pm_pool_id p') = Some q \<and>
             budget_or_0 p \<le> max 0 (cap_free_bytes q - pending_total d now c q None (pm_pool_id p'))"
    and "\<exists>dest fs. p' = p\<lparr>pm_pool_id := pool_id, pm_filesystem_id := fs, pm_destination := dest\<rparr>"
proof -
  from assms obtain pool where pool: "find_row (\<lambda>q. pc_pool_id q = pool_id) (cap_pools c) = Some pool"
    by (auto simp: try_pool_def split: option.splits)
  from assms pool obtain sm where sm: "st_inspect s pool_id True = Some sm"
    and fs: "sm_filesystem_id sm = pc_filesystem_id pool"
    by (auto simp: try_pool_def split: option.splits if_splits)
  from assms pool sm fs obtain pending where pend: "pending_bytes d now c None pool_id = Inr pending"
    by (auto simp: try_pool_def split: sum.splits)
  from assms pool sm fs pend have room: "budget_or_0 p \<le> max 0 (min (pc_free_bytes pool) (sm_free_bytes sm) - pending)"
    by (auto simp: try_pool_def not_less split: if_splits)
  from assms pool sm fs pend obtain dest where p': "p' = p\<lparr>pm_pool_id := pool_id,
      pm_filesystem_id := Some (pc_filesystem_id pool), pm_destination := dest\<rparr>"
    by (auto simp: try_pool_def split: if_splits)
  from pool have "cap_pools c \<noteq> []" by auto
  with pool obtain q where q: "capacity_pool c pool_id = Some q" "cap_free_bytes q = pc_free_bytes pool"
    by (auto simp: capacity_pool_def)
  with pend have "pending = pending_total d now c q None pool_id" by (simp add: pending_bytes_def)
  with room q(2) have "budget_or_0 p \<le> max 0 (cap_free_bytes q - pending_total d now c q None pool_id)"
    by auto
  with q(1) p' show "\<exists>q. capacity_pool c (pm_pool_id p') = Some q \<and>
             budget_or_0 p \<le> max 0 (cap_free_bytes q - pending_total d now c q None (pm_pool_id p'))"
    by auto
  from p' show "\<exists>dest fs. p' = p\<lparr>pm_pool_id := pool_id, pm_filesystem_id := fs, pm_destination := dest\<rparr>"
    by blast
qed

lemma select_pool_fields:
  assumes "select_pool st d now c p = Inr p'"
  shows "\<exists>pool dest fs. p' = p\<lparr>pm_pool_id := pool, pm_filesystem_id := fs, pm_destination := dest\<rparr>"
proof (cases st)
  case None
  with assms have "p' = p" by (auto simp: select_pool_def err_simps split: if_splits)
  then have "p' = p\<lparr>pm_pool_id := pm_pool_id p, pm_filesystem_id := pm_filesystem_id p,
      pm_destination := pm_destination p\<rparr>" by simp
  then show ?thesis by blast
next
  case (Some s)
  with assms have "first_some (try_pool s d now c p) pool_ids = Some p'"
    by (auto simp: select_pool_def split: option.splits)
  from first_some_SomeD [OF this] obtain pool_id where "try_pool s d now c p pool_id = Some p'"
    by blast
  from try_pool_room(2) [OF this] show ?thesis by blast
qed

lemma select_pool_room:
  assumes "select_pool st d now c p = Inr p'" and "st = None \<Longrightarrow> pm_pool_id p = ''ssd''"
  shows "\<exists>q. capacity_pool c (pm_pool_id p') = Some q \<and>
             budget_or_0 p' \<le> max 0 (cap_free_bytes q - pending_total d now c q None (pm_pool_id p'))"
proof (cases st)
  case None
  with assms(1) obtain pending where
      c: "cap_pools c = []" and pend: "pending_bytes d now c None ''ssd'' = Inr pending"
    and room: "budget_or_0 p \<le> max 0 (cap_free_bytes c - pending)" and p': "p' = p"
    by (auto simp: select_pool_def not_less err_simps split: if_splits)
  from c have q: "capacity_pool c ''ssd'' = Some c" by (simp add: capacity_pool_def)
  with pend have "pending = pending_total d now c c None ''ssd''" by (simp add: pending_bytes_def)
  with room q p' assms(2) [OF None] show ?thesis by auto
next
  case (Some s)
  with assms have "first_some (try_pool s d now c p) pool_ids = Some p'"
    by (auto simp: select_pool_def split: option.splits)
  from first_some_SomeD [OF this] obtain pool_id where t: "try_pool s d now c p pool_id = Some p'"
    by blast
  from try_pool_room(2) [OF t] obtain dest fs where
    "p' = p\<lparr>pm_pool_id := pool_id, pm_filesystem_id := fs, pm_destination := dest\<rparr>" by blast
  then have "budget_or_0 p' = budget_or_0 p" by (simp add: budget_or_0_def)
  with try_pool_room(1) [OF t] show ?thesis by simp
qed

end
