(* ===== verification/PermitIssue.thy ===== *)
theory PermitIssue
  imports PermitStore
begin

text \<open>
  \<open>PermitRegistry.issue\<close> with a database: the three admission paths (exact bytes with
  capacity evidence, an episode under a season budget, a bare reservation), the checks
  shared by all of them, and the insertion of the row.
\<close>

record issue_request =
  ir_infohash :: string
  ir_destination :: string
  ir_expires_at :: time
  ir_category :: string
  ir_reservation_id :: "string option"
  ir_scope_key :: "string option"
  ir_metadata_sha256 :: "string option"
  ir_selected_files :: "string list"
  ir_budget_bytes :: "int option"
  ir_reported_seeders :: "int option"

text \<open>The random values of a new permit: \<open>uuid4()\<close>, \<open>token_urlsafe(32)\<close>, \<open>uuid4()\<close>.\<close>

record fresh_ids =
  fr_permit_id :: string
  fr_token :: string
  fr_operation_id :: string

definition validate_metadata_digest :: "string option \<Rightarrow> err + string option" where
  "validate_metadata_digest v =
     (case v of
        None \<Rightarrow> Inr None
      | Some s \<Rightarrow> if \<not> hex64 s then Inl (ValueError ''invalid metadata digest'') else Inr (Some (lower s)))"

definition validate_reported_seeders :: "int option \<Rightarrow> err + int option" where
  "validate_reported_seeders v =
     (case v of
        None \<Rightarrow> Inr None
      | Some n \<Rightarrow> if n < 0 then Inl (ValueError ''invalid reported seeders'') else Inr (Some n))"

definition request_permit :: "fresh_ids \<Rightarrow> issue_request \<Rightarrow> err + permit" where
  "request_permit fr rq =
     ebind (validate_metadata_digest (ir_metadata_sha256 rq)) (\<lambda>digest.
     ebind (validate_reported_seeders (ir_reported_seeders rq)) (\<lambda>seeders.
       Inr \<lparr>pm_id = fr_permit_id fr, pm_token = fr_token fr, pm_infohash = lower (ir_infohash rq),
            pm_destination = ir_destination rq, pm_expires_at = ir_expires_at rq,
            pm_category = ir_category rq, pm_result = None, pm_operation_id = fr_operation_id fr,
            pm_reservation_id = ir_reservation_id rq, pm_scope_key = ir_scope_key rq,
            pm_metadata_sha256 = digest, pm_selected_files = ir_selected_files rq,
            pm_budget_bytes = ir_budget_bytes rq, pm_state = Authorized,
            pm_reported_seeders = seeders, pm_probe_parent_id = None, pm_quality_rank = None,
            pm_season_pack_parent_id = None, pm_pool_id = ''ssd'', pm_filesystem_id = None\<rparr>))"

definition season_prefix :: string where
  "season_prefix = ''season:tmdb:''"

text \<open>\<open>capacity is not None\<close>: an exact-byte permit against fresh evidence.\<close>

definition admit_exact ::
    "storage option \<Rightarrow> time \<Rightarrow> capacity \<Rightarrow> permit \<Rightarrow> db \<Rightarrow> err + (db \<times> permit)" where
  "admit_exact st now c p d =
     (case find_open_reservation d (pm_reservation_id p) of
        None \<Rightarrow> Inl (PermissionError ''reservation_required'')
      | Some r \<Rightarrow>
          if (case pm_scope_key p of
                None \<Rightarrow> False
              | Some sc \<Rightarrow> sc = [] \<or> pm_category p \<noteq> ''sonarr'' \<or>
                           \<not> starts_with season_prefix (rs_media_key r))
            then Inl (ValueError ''invalid episode permit'')
          else ebind (select_pool st d now c p) (\<lambda>p'.
               ebind (set_reservation_budget (rs_id r) (budget_or_0 p + live_budget d (rs_id r)) d)
               (\<lambda>d'. Inr (d', p'))))"

text \<open>\<open>elif scope_key is not None\<close>: an episode inside the budget of its season.\<close>

definition season_committed :: "db \<Rightarrow> string \<Rightarrow> int" where
  "season_committed d rid =
     sum_where (\<lambda>p. pm_reservation_id p = Some rid \<and> pm_scope_key p \<noteq> None \<and> live p)
       budget_or_0 (permits d)"

definition admit_episode :: "permit \<Rightarrow> string \<Rightarrow> db \<Rightarrow> err + (db \<times> permit)" where
  "admit_episode p scope d =
     (if scope = [] \<or> pm_category p \<noteq> ''sonarr'' \<or> pm_reservation_id p = None \<or>
         pm_budget_bytes p = None \<or> budget_or_0 p \<le> 0
        then Inl (ValueError ''invalid episode permit'')
      else case find_open_reservation d (pm_reservation_id p) of
        None \<Rightarrow> Inl (PermissionError ''season_reservation_required'')
      | Some r \<Rightarrow>
          if \<not> starts_with season_prefix (rs_media_key r)
            then Inl (PermissionError ''season_reservation_required'')
          else if season_committed d (rs_id r) + budget_or_0 p > rs_budget_bytes r
            then Inl (PermissionError ''season_budget_exceeded'')
          else Inr (d, p))"

text \<open>\<open>elif reservation_id is not None\<close>: a reservation emptied of bytes needs evidence.\<close>

definition admit_plain :: "permit \<Rightarrow> string \<Rightarrow> db \<Rightarrow> err + (db \<times> permit)" where
  "admit_plain p rid d =
     (case find_reservation d rid of
        Some r \<Rightarrow> if rs_budget_bytes r = 0
                    then Inl (PermissionError ''capacity_evidence_required'') else Inr (d, p)
      | None \<Rightarrow> Inr (d, p))"

definition admit ::
    "storage option \<Rightarrow> time \<Rightarrow> capacity option \<Rightarrow> permit \<Rightarrow> db \<Rightarrow> err + (db \<times> permit)" where
  "admit st now c p d =
     (case c of
        Some c \<Rightarrow> admit_exact st now c p d
      | None \<Rightarrow>
          (case pm_scope_key p of
             Some scope \<Rightarrow> admit_episode p scope d
           | None \<Rightarrow> (case pm_reservation_id p of
                          Some rid \<Rightarrow> admit_plain p rid d
                        | None \<Rightarrow> Inr (d, p))))"

definition had_superseded :: "db \<Rightarrow> string \<Rightarrow> string option \<Rightarrow> bool" where
  "had_superseded d rid scope =
     exists_row (\<lambda>p. pm_reservation_id p = Some rid \<and> pm_scope_key p = scope \<and>
                     pm_state p = Superseded) (permits d)"

text \<open>A live season pack of the reservation already serves the episode.\<close>

definition episode_in_live_pack :: "db \<Rightarrow> string option \<Rightarrow> string \<Rightarrow> bool" where
  "episode_in_live_pack d rid scope =
     exists_row (\<lambda>e. pk_scope_key e = scope \<and>
        exists_row (\<lambda>p. pm_id p = pk_parent_permit_id e \<and> pm_reservation_id p = rid \<and> live p)
          (permits d))
       (pack_episodes d)"

definition issue ::
    "storage option \<Rightarrow> time \<Rightarrow> fresh_ids \<Rightarrow> issue_request \<Rightarrow> capacity option \<Rightarrow> db \<Rightarrow>
     err + (db \<times> permit)" where
  "issue st now fr rq c d =
     (if st \<noteq> None \<and> c = None then Inl (ValueError ''pool_capacity_required'')
      else ebind (request_permit fr rq) (\<lambda>p.
        if c \<noteq> None \<and> (pm_reservation_id p = None \<or> pm_budget_bytes p = None \<or> budget_or_0 p \<le> 0)
          then Inl (ValueError ''exact-byte permit requires a persistent reservation and size'')
        else ebind (admit st now c p d) (\<lambda>(d1, p1).
          if (case pm_reservation_id p1 of
                Some rid \<Rightarrow> had_superseded d1 rid (pm_scope_key p1) | None \<Rightarrow> False)
            then Inl (PermissionError ''replacement_limit'')
          else if (case pm_scope_key p1 of
                     Some sc \<Rightarrow> episode_in_live_pack d1 (pm_reservation_id p1) sc | None \<Rightarrow> False)
            then Inl (PermissionError ''episode_already_permitted'')
          else ebind (insert_permit p1 d1) (\<lambda>d2. Inr (d2, p1)))))"

section \<open>Properties of the parts\<close>

lemma validate_metadata_digest_Some:
  "validate_metadata_digest v = Inr (Some h) \<Longrightarrow> \<exists>s. v = Some s \<and> hex64 s \<and> h = lower s"
  by (auto simp: validate_metadata_digest_def err_simps split: option.splits if_splits)

lemma request_permit_fields:
  assumes "request_permit fr rq = Inr p"
  shows "pm_id p = fr_permit_id fr" and "pm_token p = fr_token fr" and "pm_state p = Authorized"
    and "pm_result p = None" and "pm_probe_parent_id p = None" and "pm_pool_id p = ''ssd''"
    and "pm_reservation_id p = ir_reservation_id rq" and "pm_scope_key p = ir_scope_key rq"
    and "pm_budget_bytes p = ir_budget_bytes rq" and "pm_infohash p = lower (ir_infohash rq)"
  using assms by (auto simp: request_permit_def err_simps)

text \<open>
  What every admission path does: the permit keeps all columns but its placement, and the
  database changes at most in the budget of the reservation.
\<close>

definition replaced :: "permit \<Rightarrow> permit \<Rightarrow> bool" where
  "replaced p p' \<longleftrightarrow>
     (\<exists>pool dest fs. p' = p\<lparr>pm_pool_id := pool, pm_filesystem_id := fs, pm_destination := dest\<rparr>)"

lemma replaced_refl [simp]: "replaced p p"
proof -
  have "p = p\<lparr>pm_pool_id := pm_pool_id p, pm_filesystem_id := pm_filesystem_id p,
      pm_destination := pm_destination p\<rparr>" by simp
  then show ?thesis unfolding replaced_def by blast
qed

lemma replaced_fields:
  assumes "replaced p p'"
  shows "pm_id p' = pm_id p" and "pm_token p' = pm_token p" and "pm_state p' = pm_state p"
    and "pm_reservation_id p' = pm_reservation_id p" and "pm_scope_key p' = pm_scope_key p"
    and "budget_or_0 p' = budget_or_0 p" and "pm_budget_bytes p' = pm_budget_bytes p"
    and "pm_infohash p' = pm_infohash p" and "pm_probe_parent_id p' = pm_probe_parent_id p"
    and "pm_result p' = pm_result p"
  using assms by (auto simp: replaced_def budget_or_0_def)

lemma select_pool_replaced: "select_pool st d now c p = Inr p' \<Longrightarrow> replaced p p'"
  by (drule select_pool_fields) (auto simp: replaced_def)

lemma admit_exact_effect:
  assumes "admit_exact st now c p d = Inr (d', p')"
  shows "\<exists>r. find_open_reservation d (pm_reservation_id p) = Some r \<and>
      select_pool st d now c p = Inr p' \<and> replaced p p' \<and>
      set_reservation_budget (rs_id r) (budget_or_0 p + live_budget d (rs_id r)) d = Inr d'"
  using assms
  by (auto simp: admit_exact_def err_simps split: option.splits if_splits dest: select_pool_replaced)

lemma admit_effect:
  assumes "admit st now c p d = Inr (d', p')"
  shows "replaced p p' \<and> (d' = d \<or> (\<exists>rid v. set_reservation_budget rid v d = Inr d'))"
proof (cases c)
  case None
  with assms show ?thesis
    by (auto simp: admit_def admit_episode_def admit_plain_def err_simps
        split: option.splits if_splits)
next
  case (Some c')
  with assms have "admit_exact st now c' p d = Inr (d', p')" by (simp add: admit_def)
  from admit_exact_effect [OF this] show ?thesis by blast
qed

lemma issue_parts:
  assumes "issue st now fr rq c d = Inr (d', p)"
  shows "\<exists>p0 d1. request_permit fr rq = Inr p0 \<and> admit st now c p0 d = Inr (d1, p) \<and>
      insert_permit p d1 = Inr d' \<and>
      (case pm_reservation_id p of
         Some rid \<Rightarrow> \<not> had_superseded d1 rid (pm_scope_key p) | None \<Rightarrow> True) \<and>
      (c \<noteq> None \<longrightarrow> pm_reservation_id p0 \<noteq> None \<and> pm_budget_bytes p0 \<noteq> None \<and> 0 < budget_or_0 p0)"
  using assms
  by (auto simp: issue_def err_simps not_le split: if_splits option.splits prod.splits)

lemma admit_wf: "admit st now c p d = Inr (d', p') \<Longrightarrow> db_wf d \<Longrightarrow> db_wf d'"
  using admit_effect set_budget_wf by blast

lemma admit_permits: "admit st now c p d = Inr (d', p') \<Longrightarrow> permits d' = permits d"
  using admit_effect set_budget_frame(1) by blast

lemma issue_keeps_wf: "issue st now fr rq c d = Inr (d', p) \<Longrightarrow> db_wf d \<Longrightarrow> db_wf d'"
  using issue_parts admit_wf insert_permit_wf by blast

lemma issue_appends:
  assumes "issue st now fr rq c d = Inr (d', p)"
  shows "permits d' = permits d @ [p]" and "pm_state p = Authorized" and "pm_id p = fr_permit_id fr"
    and "pm_token p = fr_token fr" and "pm_token p \<notin> pm_token ` set (permits d)"
    and "pm_id p \<notin> pm_id ` set (permits d)" and "pm_result p = None"
proof -
  from issue_parts [OF assms] obtain p0 d1 where
      p0: "request_permit fr rq = Inr p0" and adm: "admit st now c p0 d = Inr (d1, p)"
    and ins: "insert_permit p d1 = Inr d'" by blast
  from adm have same: "permits d1 = permits d" by (rule admit_permits)
  from adm have rep: "replaced p0 p" using admit_effect by blast
  from ins have conf: "\<not> permit_conflict p (permits d1)"
    and d': "d' = d1\<lparr>permits := permits d1 @ [p]\<rparr>" by (auto simp: insert_permit_iff)
  show "permits d' = permits d @ [p]" using d' same by simp
  show "pm_state p = Authorized" "pm_id p = fr_permit_id fr" "pm_token p = fr_token fr" "pm_result p = None"
    using replaced_fields [OF rep] request_permit_fields [OF p0] by simp_all
  show "pm_token p \<notin> pm_token ` set (permits d)" "pm_id p \<notin> pm_id ` set (permits d)"
    using conf same by (auto simp: permit_conflict_def list_ex_iff)
qed

section \<open>Exact admission never over-commits a pool\<close>

text \<open>Changing only a reservation's budget changes no counted row.\<close>

lemma counted_row_budget:
  assumes "set_reservation_budget rid v d = Inr d'"
  shows "counted_row (d'\<lparr>permits := ps\<rparr>) now pool x = counted_row d now pool x"
proof -
  have "exists_row (\<lambda>r. Some (rs_id r) = y \<and> open_state (rs_state r)) (reservations d') =
        exists_row (\<lambda>r. Some (rs_id r) = y \<and> open_state (rs_state r)) (reservations d)" for y
    by (simp add: set_budget_reservations [OF assms] exists_row_update)
  then show ?thesis
    by (simp add: counted_row_def pending_parent_def set_budget_frame [OF assms])
qed

lemma issue_exact_parts:
  assumes "issue st now fr rq (Some c) d = Inr (d', p)"
  shows "\<exists>p0 d1 r. request_permit fr rq = Inr p0 \<and> 0 < budget_or_0 p0 \<and>
      find_open_reservation d (pm_reservation_id p0) = Some r \<and>
      select_pool st d now c p0 = Inr p \<and> replaced p0 p \<and>
      set_reservation_budget (rs_id r) (budget_or_0 p0 + live_budget d (rs_id r)) d = Inr d1 \<and>
      d' = d1\<lparr>permits := permits d @ [p]\<rparr>"
proof -
  from issue_parts [OF assms] obtain p0 d1 where
      p0: "request_permit fr rq = Inr p0" and adm: "admit_exact st now c p0 d = Inr (d1, p)"
    and ins: "insert_permit p d1 = Inr d'" and b: "0 < budget_or_0 p0"
    by (auto simp: admit_def)
  from admit_exact_effect [OF adm] obtain r where
      r: "find_open_reservation d (pm_reservation_id p0) = Some r" "select_pool st d now c p0 = Inr p"
      "replaced p0 p"
      "set_reservation_budget (rs_id r) (budget_or_0 p0 + live_budget d (rs_id r)) d = Inr d1" by blast
  with ins have "d' = d1\<lparr>permits := permits d @ [p]\<rparr>"
    by (simp add: insert_permit_iff set_budget_frame [OF r(4)])
  with p0 b r show ?thesis by blast
qed

lemma issue_exact_room:
  assumes iss: "issue st now fr rq (Some c) d = Inr (d', p)" and ok: "capacity_ok c"
  shows "\<exists>q. capacity_pool c (pm_pool_id p) = Some q \<and>
             pending_total d' now c q None (pm_pool_id p) \<le> cap_free_bytes q"
proof -
  from issue_exact_parts [OF iss] obtain p0 d1 r where
      p0: "request_permit fr rq = Inr p0" and b: "0 < budget_or_0 p0"
    and sel: "select_pool st d now c p0 = Inr p" and rep: "replaced p0 p"
    and set: "set_reservation_budget (rs_id r) (budget_or_0 p0 + live_budget d (rs_id r)) d = Inr d1"
    and d': "d' = d1\<lparr>permits := permits d @ [p]\<rparr>"
    and "find_open_reservation d (pm_reservation_id p0) = Some r" by blast
  from select_pool_room [OF sel request_permit_fields(6) [OF p0]] obtain q where
      q: "capacity_pool c (pm_pool_id p) = Some q"
    and room: "budget_or_0 p \<le> max 0 (cap_free_bytes q - pending_total d now c q None (pm_pool_id p))"
    by blast
  from rep b have bp: "0 < budget_or_0 p" by (simp add: replaced_fields)
  have perm: "permits d' = permits d @ [p]" by (simp add: d')
  have "pending_total d' now c q None (pm_pool_id p)
      \<le> pending_total d now c q None (pm_pool_id p) + budget_or_0 p"
    using capacity_pool_ok [OF ok q] perm bp
    by (intro pending_total_append) (auto simp: d' counted_row_budget [OF set])
  with room bp q show ?thesis by auto
qed

text \<open>After an exact admission the reservation's budget is the sum of its live permits.\<close>

lemma live_budget_append:
  "permits d' = permits d @ [p] \<Longrightarrow>
   live_budget d' rid = live_budget d rid +
     (if pm_reservation_id p = Some rid \<and> live p then budget_or_0 p else 0)"
  by (simp add: live_budget_def)

lemma find_open_is_found:
  assumes "find_open_reservation d rid = Some r" and "db_wf d"
  shows "find_reservation d (rs_id r) = Some r"
  using assms find_row_unique [of rs_id "reservations d" r]
  by (simp add: find_reservation_def db_wf_def find_open_reservation_Some)

lemma issue_exact_budget:
  assumes iss: "issue st now fr rq (Some c) d = Inr (d', p)" and wf: "db_wf d"
  shows "\<exists>rid r. pm_reservation_id p = Some rid \<and> find_reservation d' rid = Some r \<and>
             rs_budget_bytes r = live_budget d' rid"
proof -
  from issue_exact_parts [OF iss] obtain p0 d1 r where
      p0: "request_permit fr rq = Inr p0"
    and r: "find_open_reservation d (pm_reservation_id p0) = Some r"
    and rep: "replaced p0 p"
    and set: "set_reservation_budget (rs_id r) (budget_or_0 p0 + live_budget d (rs_id r)) d = Inr d1"
    and d': "d' = d1\<lparr>permits := permits d @ [p]\<rparr>" by blast
  have rid: "pm_reservation_id p = Some (rs_id r)"
    using find_open_reservation_Some [OF r] rep by (simp add: replaced_fields)
  have "find_reservation d1 (rs_id r) =
      Some (r\<lparr>rs_budget_bytes := budget_or_0 p0 + live_budget d (rs_id r)\<rparr>)"
    using set_budget_found [OF set find_open_is_found [OF r wf]] .
  moreover have "live_budget d' (rs_id r) = live_budget d (rs_id r) + budget_or_0 p0"
    using rid request_permit_fields(3) [OF p0] rep d'
    by (subst live_budget_append [of d' d p]) (simp_all add: replaced_fields)
  ultimately show ?thesis using rid d' by (simp add: find_reservation_def)
qed

end
