(* ===== verification/MediaKeys.thy ===== *)
theory MediaKeys
  imports Prelude
begin

text \<open>
  The textual identities the control service passes around: media keys
  (\<open>movie:tmdb:N\<close>, \<open>season:tmdb:N:S\<close>, \<open>episode:tmdb:N:SxxEyy\<close>), scope keys
  (\<open>SxxEyy\<close>, \<open>SxxPACK\<close>), and the file-name tests on torrent paths.  Each regular
  expression of the source is a function that recognises it; the digits of
  \<open>\d\<close> are the ASCII ones.
\<close>

section \<open>Keys\<close>

definition digits1 :: "string \<Rightarrow> bool" where
  "digits1 s = (s \<noteq> [] \<and> list_all is_digit s)"

text \<open>\<open>[1-9][0-9]*\<close>\<close>

definition posnum :: "string \<Rightarrow> bool" where
  "posnum s = (digits1 s \<and> hd s \<noteq> CHR ''0'')"

text \<open>\<open>prefix(\d+)sep(\d+)\<close> as a full match, with its two groups.\<close>

definition two_numbers :: "string \<Rightarrow> string \<Rightarrow> string \<Rightarrow> (string \<times> string) option" where
  "two_numbers pre sep s =
     (case strip_prefix pre s of
        None \<Rightarrow> None
      | Some r \<Rightarrow>
          (case strip_prefix sep (dropWhile is_digit r) of
             None \<Rightarrow> None
           | Some b \<Rightarrow>
               if takeWhile is_digit r \<noteq> [] \<and> digits1 b then Some (takeWhile is_digit r, b) else None))"

definition season_key_any :: "string \<Rightarrow> (string \<times> string) option" where
  "season_key_any = two_numbers ''season:tmdb:'' '':''"

text \<open>\<open>season:tmdb:([1-9][0-9]*):([1-9][0-9]*)\<close>\<close>

definition season_key :: "string \<Rightarrow> (string \<times> string) option" where
  "season_key s =
     (case season_key_any s of
        Some (a, b) \<Rightarrow> if posnum a \<and> posnum b then Some (a, b) else None | None \<Rightarrow> None)"

definition movie_key :: "string \<Rightarrow> bool" where
  "movie_key s = (case strip_prefix ''movie:tmdb:'' s of Some n \<Rightarrow> posnum n | None \<Rightarrow> False)"

definition episode_scope_any :: "string \<Rightarrow> (string \<times> string) option" where
  "episode_scope_any = two_numbers ''S'' ''E''"

text \<open>\<open>S([0-9]{2,})E([0-9]{2,})\<close>\<close>

definition episode_scope :: "string \<Rightarrow> (string \<times> string) option" where
  "episode_scope s =
     (case episode_scope_any s of
        Some (a, b) \<Rightarrow> if 2 \<le> length a \<and> 2 \<le> length b then Some (a, b) else None | None \<Rightarrow> None)"

text \<open>\<open>S([0-9]{2,})PACK\<close>\<close>

definition pack_scope :: "string \<Rightarrow> string option" where
  "pack_scope s =
     (case strip_prefix ''S'' s of
        None \<Rightarrow> None
      | Some r \<Rightarrow>
          if 2 \<le> length (takeWhile is_digit r) \<and> dropWhile is_digit r = ''PACK''
          then Some (takeWhile is_digit r) else None)"

definition to_nat :: "string \<Rightarrow> nat" where
  "to_nat s = nat_of_digits 0 s"

text \<open>\<open>f"S{season:02d}PACK"\<close> and \<open>f"episode:tmdb:{tmdb}:{scope}"\<close>\<close>

definition pack_scope_of :: "nat \<Rightarrow> string" where
  "pack_scope_of season = ''S'' @ show02 season @ ''PACK''"

definition episode_key :: "string \<Rightarrow> string \<Rightarrow> string" where
  "episode_key tmdb scope = ''episode:tmdb:'' @ tmdb @ '':'' @ scope"

section \<open>Paths\<close>

text \<open>\<open>PurePosixPath(path).name\<close> and \<open>.suffix\<close> (Python 3.12).\<close>

definition posix_name :: "string \<Rightarrow> string" where
  "posix_name path =
     (case rev (filter (\<lambda>w. w \<noteq> [] \<and> w \<noteq> ''.'') (split_on CHR ''/'' path)) of
        [] \<Rightarrow> [] | w # _ \<Rightarrow> w)"

definition posix_suffix :: "string \<Rightarrow> string" where
  "posix_suffix path =
     (let name = posix_name path;
          tail = rev (takeWhile (\<lambda>c. c \<noteq> CHR ''.'') (rev name))
      in if length tail + 1 < length name \<and> tail \<noteq> [] then CHR ''.'' # tail else [])"

definition video_suffixes :: "string list" where
  "video_suffixes =
     [''.mkv'', ''.mp4'', ''.avi'', ''.m4v'', ''.ts'', ''.m2ts'', ''.mov'', ''.webm'']"

definition is_video :: "string \<Rightarrow> bool" where
  "is_video path = (lower (posix_suffix path) \<in> set video_suffixes)"

section \<open>Episode tags\<close>

text \<open>
  \<open>(?<![a-z0-9])s0*N e0*M(?![0-9]|e[0-9]|[ ._-]*[-e][0-9])\<close>, ignoring case, searched in a
  file name.  A decimal numeral does not start with a zero, so \<open>0*\<close> takes every zero.
\<close>

definition strip_zeros :: "string \<Rightarrow> string" where
  "strip_zeros s = dropWhile (\<lambda>c. c = CHR ''0'') s"

text \<open>\<open>[ ._-]*[-e][0-9]\<close> at the start of the text, with backtracking.\<close>

fun range_follows :: "string \<Rightarrow> bool" where
  "range_follows (x # y # s) =
     (lower_char x \<in> {CHR ''-'', CHR ''e''} \<and> is_digit y \<or>
      x \<in> set '' ._-'' \<and> range_follows (y # s))"
| "range_follows _ = False"

definition tag_ends :: "string \<Rightarrow> bool" where
  "tag_ends s = (\<not> (s \<noteq> [] \<and> is_digit (hd s)) \<and> \<not> range_follows s)"

definition tag_at :: "nat \<Rightarrow> nat \<Rightarrow> string \<Rightarrow> bool" where
  "tag_at season episode s =
     (case strip_prefix ''s'' (lower s) of
        None \<Rightarrow> False
      | Some r1 \<Rightarrow>
          (case strip_prefix (show_nat season @ ''e'') (strip_zeros r1) of
             None \<Rightarrow> False
           | Some r2 \<Rightarrow>
               (case strip_prefix (show_nat episode) (strip_zeros r2) of
                  None \<Rightarrow> False | Some r3 \<Rightarrow> tag_ends r3)))"

definition is_alnum :: "char \<Rightarrow> bool" where
  "is_alnum c = (is_digit c \<or> is_alpha c)"

fun tag_search :: "nat \<Rightarrow> nat \<Rightarrow> bool \<Rightarrow> string \<Rightarrow> bool" where
  "tag_search season episode boundary [] = False"
| "tag_search season episode boundary (c # s) =
     (boundary \<and> tag_at season episode (c # s) \<or>
      tag_search season episode (\<not> is_alnum c) s)"

definition has_episode_tag :: "nat \<Rightarrow> nat \<Rightarrow> string \<Rightarrow> bool" where
  "has_episode_tag season episode path = tag_search season episode True (posix_name path)"

section \<open>Round trips\<close>

lemma strip_prefix_iff: "strip_prefix p s = Some r \<longleftrightarrow> s = p @ r"
proof
  assume "strip_prefix p s = Some r"
  then show "s = p @ r"
    by (auto simp: strip_prefix_def starts_with_def split: if_splits) (metis append_take_drop_id)
next
  assume "s = p @ r"
  then show "strip_prefix p s = Some r" by (simp add: strip_prefix_def starts_with_def)
qed

lemma two_numbers_Some:
  assumes "two_numbers pre sep s = Some (a, b)"
  shows "s = pre @ a @ sep @ b" and "digits1 a" and "digits1 b"
proof -
  from assms obtain r where r: "strip_prefix pre s = Some r"
    and b: "strip_prefix sep (dropWhile is_digit r) = Some b"
    and a: "a = takeWhile is_digit r" "a \<noteq> []" and db: "digits1 b"
    by (auto simp: two_numbers_def split: option.splits if_splits)
  have "s = pre @ takeWhile is_digit r @ dropWhile is_digit r"
    using r by (simp add: strip_prefix_iff)
  moreover have "dropWhile is_digit r = sep @ b" using b by (simp add: strip_prefix_iff)
  ultimately show "s = pre @ a @ sep @ b" using a(1) by simp
  show "digits1 a" using a by (auto simp: digits1_def list_all_iff dest: set_takeWhileD)
  show "digits1 b" by (rule db)
qed

lemma two_numbers_complete:
  assumes "digits1 a" and "digits1 b" and "sep \<noteq> []" and "\<not> is_digit (hd sep)"
  shows "two_numbers pre sep (pre @ a @ sep @ b) = Some (a, b)"
proof -
  from assms obtain c cs where sep: "sep = c # cs" "\<not> is_digit c" by (cases sep) auto
  have "\<forall>x\<in>set a. is_digit x" using assms(1) by (simp add: digits1_def list_all_iff)
  then have "takeWhile is_digit (a @ sep @ b) = a" and "dropWhile is_digit (a @ sep @ b) = sep @ b"
    using sep by (auto simp: takeWhile_append dropWhile_append)
  then show ?thesis using assms
    by (simp add: two_numbers_def strip_prefix_def starts_with_def digits1_def)
qed

lemma is_digit_char_of: "(n::nat) < 10 \<Longrightarrow> is_digit (char_of (48 + n))"
  by (simp add: is_digit_def code_char_of)

lemma show_nat_digits: "\<forall>c\<in>set (show_nat n). is_digit c"
proof (induction n rule: show_nat.induct)
  case (1 n)
  show ?case
  proof (cases "n < 10")
    case True
    then show ?thesis by (subst show_nat.simps) (simp add: is_digit_char_of)
  next
    case False
    then show ?thesis using "1.IH" by (subst show_nat.simps) (auto simp: is_digit_char_of)
  qed
qed

lemma show_nat_nonempty [simp]: "show_nat n \<noteq> []"
  by (subst show_nat.simps) simp

lemma show02_digits: "digits1 (show02 n)" and show02_length: "2 \<le> length (show02 n)"
proof -
  show "digits1 (show02 n)"
    using show_nat_digits [of n]
    by (auto simp: show02_def digits1_def list_all_iff is_digit_def code_def)
  have "2 \<le> length (show_nat n)" if "\<not> n < 10"
  proof -
    have "1 \<le> length (show_nat (n div 10))" by (cases "show_nat (n div 10)") auto
    with that show ?thesis by (subst show_nat.simps) simp
  qed
  moreover have "1 \<le> length (show_nat n)" by (cases "show_nat n") auto
  ultimately show "2 \<le> length (show02 n)" by (auto simp: show02_def)
qed

lemma nat_of_digits_append: "nat_of_digits acc (xs @ ys) = nat_of_digits (nat_of_digits acc xs) ys"
  by (induction acc xs rule: nat_of_digits.induct) auto

lemma nat_of_show_nat: "nat_of_digits 0 (show_nat n) = n"
proof (induction n rule: show_nat.induct)
  case (1 n)
  show ?case
  proof (cases "n < 10")
    case True
    then show ?thesis by (subst show_nat.simps) (simp add: code_char_of)
  next
    case False
    then show ?thesis using "1.IH"
      by (subst show_nat.simps) (simp add: nat_of_digits_append code_char_of)
  qed
qed

lemma to_nat_show02 [simp]: "to_nat (show02 n) = n"
  by (simp add: to_nat_def show02_def nat_of_show_nat code_def)

lemma pack_scope_of_parses: "pack_scope (pack_scope_of n) = Some (show02 n)"
proof -
  have d: "\<forall>c\<in>set (show02 n). is_digit c"
    using show02_digits [of n] by (simp add: digits1_def list_all_iff)
  have p: "\<not> is_digit CHR ''P''" by (simp add: is_digit_def code_def)
  from d p have "takeWhile is_digit (show02 n @ ''PACK'') = show02 n"
    and "dropWhile is_digit (show02 n @ ''PACK'') = ''PACK''"
    by (auto simp: takeWhile_append dropWhile_append)
  then show ?thesis using show02_length [of n]
    by (simp add: pack_scope_def pack_scope_of_def strip_prefix_def starts_with_def)
qed

end
