(* ===== verification/PermitGuards.thy ===== *)
theory PermitGuards
  imports PermitIssue MediaKeys
begin

text \<open>
  The checks the registry repeats before it acts on a stored permit:
  \<open>ProbePermits._require_probe_reservation\<close>, \<open>_validate_pack_bindings\<close>,
  \<open>_require_pack_reservation\<close> and \<open>_validate_payload\<close>.  The bindings of a season pack are
  a dictionary from episode scopes to the selected files of the episode.
\<close>

type_synonym bindings = "(string \<times> string list) list"

section \<open>The reservation behind a permit\<close>

text \<open>The join of a reservation with its request.\<close>

definition reservation_request :: "db \<Rightarrow> reservation_row \<Rightarrow> request_row option" where
  "reservation_request d r = find_request d (rs_request_id r)"

definition open_reservation_request :: "db \<Rightarrow> string option \<Rightarrow> (reservation_row \<times> request_row) option" where
  "open_reservation_request d rid =
     (case find_open_reservation d rid of
        None \<Rightarrow> None
      | Some r \<Rightarrow> map_option (\<lambda>q. (r, q)) (reservation_request d r))"

text \<open>The media keys whose tombstone stops a permit: the season's and the episode's.\<close>

definition guarded_keys :: "string \<Rightarrow> string option \<Rightarrow> string list" where
  "guarded_keys media_key scope =
     media_key #
     (case scope of
        None \<Rightarrow> []
      | Some sc \<Rightarrow>
          (case (episode_scope_any sc, season_key_any media_key) of
             (Some _, Some (tmdb, _)) \<Rightarrow> [episode_key tmdb sc] | _ \<Rightarrow> []))"

definition require_probe_reservation :: "db \<Rightarrow> permit \<Rightarrow> err + unit" where
  "require_probe_reservation d p =
     (case open_reservation_request d (pm_reservation_id p) of
        None \<Rightarrow> Inl (PermissionError ''reservation_required'')
      | Some (r, q) \<Rightarrow>
          if rq_state q \<in> {RqCancelRequested, RqCancelled}
            then Inl (PermissionError ''reservation_required'')
          else if list_ex (tombstoned d) (guarded_keys (rs_media_key r) (pm_scope_key p))
            then Inl (PermissionError ''media_tombstoned'')
          else Inr ())"

definition probe_reservation_active :: "db \<Rightarrow> permit \<Rightarrow> bool" where
  "probe_reservation_active d p = is_ok (require_probe_reservation d p)"

definition probe_cancelled :: "db \<Rightarrow> permit \<Rightarrow> bool" where
  "probe_cancelled d p =
     (case find_row (\<lambda>r. Some (rs_id r) = pm_reservation_id p \<and> reservation_request d r \<noteq> None)
             (reservations d) of
        None \<Rightarrow> False
      | Some r \<Rightarrow>
          (case reservation_request d r of
             None \<Rightarrow> False
           | Some q \<Rightarrow>
               rq_state q \<in> {RqCancelRequested, RqCancelled} \<or>
               list_ex (tombstoned d)
                 (rs_media_key r #
                  (case (season_key_any (rs_media_key r), pm_scope_key p) of
                     (Some (tmdb, _), Some sc) \<Rightarrow> if sc = [] then [] else [episode_key tmdb sc]
                   | _ \<Rightarrow> []))))"

section \<open>Season packs\<close>

definition season_pack_view :: "permit \<Rightarrow> string \<Rightarrow> string list \<Rightarrow> permit" where
  "season_pack_view parent scope files =
     parent\<lparr>pm_id := pm_id parent @ '':'' @ scope, pm_scope_key := Some scope,
            pm_selected_files := files, pm_season_pack_parent_id := Some (pm_id parent)\<rparr>"

text \<open>One episode of a pack: its scope belongs to the pack's season and its files to it.\<close>

definition valid_pack_episode :: "permit \<Rightarrow> nat \<Rightarrow> string \<times> string list \<Rightarrow> err + unit" where
  "valid_pack_episode parent season entry =
     (case entry of (scope, files) \<Rightarrow>
        (case episode_scope scope of
           None \<Rightarrow> Inl (ValueError ''invalid season pack episode'')
         | Some (s, e) \<Rightarrow>
             if to_nat s \<noteq> season \<or> to_nat e = 0 \<or> files = [] \<or> \<not> distinct files \<or>
                \<not> list_all (\<lambda>f. f \<in> set (pm_selected_files parent)) files
               then Inl (ValueError ''invalid season pack episode'')
             else if length (filter is_video files) \<noteq> 1 \<or>
                     \<not> list_all (has_episode_tag (to_nat s) (to_nat e)) files
               then Inl (ValueError ''pack file belongs to another episode'')
             else Inr ()))"

definition validate_pack_bindings :: "storage option \<Rightarrow> permit \<Rightarrow> bindings \<Rightarrow> err + unit" where
  "validate_pack_bindings st parent episode_files =
     (case pack_scope (case pm_scope_key parent of Some sc \<Rightarrow> sc | None \<Rightarrow> []) of
        None \<Rightarrow> Inl (ValueError ''invalid season pack bindings'')
      | Some season \<Rightarrow>
          if pm_category parent \<noteq> ''sonarr'' \<or> pm_reservation_id parent = None \<or>
             pm_probe_parent_id parent \<noteq> None \<or> pm_metadata_sha256 parent = None \<or>
             \<not> placement_valid st parent \<or> \<not> live parent \<or> episode_files = []
            then Inl (ValueError ''invalid season pack bindings'')
          else ebind (emap (valid_pack_episode parent (to_nat season)) episode_files)
                 (\<lambda>_. Inr ()))"

definition stored_bindings :: "db \<Rightarrow> string \<Rightarrow> bindings" where
  "stored_bindings d parent =
     map (\<lambda>e. (pk_scope_key e, pk_selected_files e))
         (filter (\<lambda>e. pk_parent_permit_id e = parent) (pack_episodes d))"

definition require_pack_reservation :: "storage option \<Rightarrow> db \<Rightarrow> permit \<Rightarrow> err + unit" where
  "require_pack_reservation st d p =
     ebind (require_probe_reservation d p) (\<lambda>_.
       case find_reservation d (case pm_reservation_id p of Some rid \<Rightarrow> rid | None \<Rightarrow> []) of
         None \<Rightarrow> Inl (TypeError ''NoneType is not subscriptable'')
       | Some r \<Rightarrow>
           (case season_key (rs_media_key r) of
              None \<Rightarrow> Inl (PermissionError ''pack_identity_changed'')
            | Some (tmdb, season) \<Rightarrow>
                if pm_category p \<noteq> ''sonarr'' \<or>
                   pm_scope_key p \<noteq> Some (pack_scope_of (to_nat season))
                  then Inl (PermissionError ''pack_identity_changed'')
                else if stored_bindings d (pm_id p) = []
                  then Inl (PermissionError ''pack_bindings_required'')
                else ebind (validate_pack_bindings st p (stored_bindings d (pm_id p))) (\<lambda>_.
                  if exists_row (\<lambda>t. starts_with (episode_key tmdb (''S'' @ show02 (to_nat season) @ ''E''))
                                       (tb_media_key t)) (tombstones d)
                    then Inl (PermissionError ''media_tombstoned'')
                  else Inr ())))"

section \<open>The payload of a dispatch\<close>

definition validate_payload ::
    "time \<Rightarrow> permit option \<Rightarrow> string \<Rightarrow> string \<Rightarrow> string option \<Rightarrow> err + unit" where
  "validate_payload now p infohash destination metadata =
     (case p of
        None \<Rightarrow> Inl (PermissionError ''permit_required'')
      | Some p \<Rightarrow>
          if pm_expires_at p \<le> now then Inl (PermissionError ''permit_expired'')
          else if pm_infohash p \<noteq> lower infohash \<or> destination \<noteq> pm_destination p
            then Inl (ValueError ''permit_payload_mismatch'')
          else if metadata \<noteq> None \<and> pm_metadata_sha256 p = None
            then Inl (ValueError ''permit_metadata_missing'')
          else if pm_metadata_sha256 p \<noteq> None \<and> pm_metadata_sha256 p \<noteq> metadata
            then Inl (ValueError ''permit_metadata_mismatch'')
          else Inr ())"

section \<open>What the checks establish\<close>

lemma validate_payload_ok:
  "validate_payload now (Some p) infohash destination metadata = Inr () \<longleftrightarrow>
     now < pm_expires_at p \<and> pm_infohash p = lower infohash \<and> pm_destination p = destination \<and>
     pm_metadata_sha256 p = metadata"
  by (auto simp: validate_payload_def)

lemma require_probe_reservation_ok:
  "require_probe_reservation d p = Inr () \<longleftrightarrow>
     (\<exists>r q. find_open_reservation d (pm_reservation_id p) = Some r \<and>
        find_request d (rs_request_id r) = Some q \<and>
        rq_state q \<notin> {RqCancelRequested, RqCancelled} \<and>
        (\<forall>k\<in>set (guarded_keys (rs_media_key r) (pm_scope_key p)). \<not> tombstoned d k))"
  by (auto simp: require_probe_reservation_def open_reservation_request_def reservation_request_def
      list_ex_iff err_simps split: option.splits prod.splits)

lemma valid_pack_episode_ok:
  assumes "valid_pack_episode parent season (scope, files) = Inr ()"
  shows "set files \<subseteq> set (pm_selected_files parent) \<and> files \<noteq> [] \<and> distinct files \<and>
    (\<exists>s e. episode_scope scope = Some (s, e) \<and> to_nat s = season \<and> 0 < to_nat e \<and>
       (\<forall>f\<in>set files. has_episode_tag season (to_nat e) f)) \<and>
    (\<exists>!v. v \<in> set files \<and> is_video v)"
proof -
  from assms obtain s e where se: "episode_scope scope = Some (s, e)"
    and c: "to_nat s = season" "0 < to_nat e" "files \<noteq> []" "distinct files"
      "list_all (\<lambda>f. f \<in> set (pm_selected_files parent)) files"
      "length (filter is_video files) = 1" "list_all (has_episode_tag (to_nat s) (to_nat e)) files"
    by (auto simp: valid_pack_episode_def split: option.splits if_splits)
  from c(6) obtain v where v: "filter is_video files = [v]" by (auto simp: length_Suc_conv)
  have "set (filter is_video files) = {v}" by (simp add: v)
  then have "\<forall>x. x \<in> set files \<and> is_video x \<longleftrightarrow> x = v" by auto
  with se c show ?thesis by (auto simp: list_all_iff)
qed

lemma validate_pack_bindings_ok:
  assumes "validate_pack_bindings st parent bs = Inr ()"
  shows "\<exists>sc season. pm_scope_key parent = Some sc \<and> pack_scope sc = Some season \<and>
    live parent \<and> pm_probe_parent_id parent = None \<and> bs \<noteq> [] \<and>
    (\<forall>b\<in>set bs. valid_pack_episode parent (to_nat season) b = Inr ())"
proof -
  from assms obtain season us where
      ps: "pack_scope (case pm_scope_key parent of Some sc \<Rightarrow> sc | None \<Rightarrow> []) = Some season"
    and rest: "live parent" "pm_probe_parent_id parent = None" "bs \<noteq> []"
    and em: "emap (valid_pack_episode parent (to_nat season)) bs = Inr us"
    by (auto simp: validate_pack_bindings_def err_simps split: option.splits if_splits)
  have "pack_scope [] = None" by (simp add: pack_scope_def strip_prefix_def starts_with_def)
  with ps obtain sc where "pm_scope_key parent = Some sc" "pack_scope sc = Some season"
    by (cases "pm_scope_key parent") auto
  moreover have "\<forall>b\<in>set bs. valid_pack_episode parent (to_nat season) b = Inr ()"
    using emap_ok [OF em] by auto
  ultimately show ?thesis using rest by blast
qed

end
