(* ===== verification/PermitLifecycle.thy ===== *)
theory PermitLifecycle
  imports PermitGuards
begin

text \<open>
  The operations of \<open>gateway/permits.py\<close> on a permit that exists: dispatch
  (\<open>authorize\<close>), reconciliation, renewal, replacement of a confirmed source, cancellation
  and retirement.  \<open>authorize\<close> is split where the code commits, because other processes
  act between its transactions: \<open>authorize_claim\<close>, the external effect, and
  \<open>authorize_finish\<close> or \<open>mark_unknown\<close>.
\<close>

definition with_permits :: "(permit \<Rightarrow> bool) \<Rightarrow> (permit \<Rightarrow> permit) \<Rightarrow> db \<Rightarrow> db" where
  "with_permits P f d = d\<lparr>permits := update_rows P f (permits d)\<rparr>"

definition refresh_budget :: "string \<Rightarrow> db \<Rightarrow> err + db" where
  "refresh_budget rid d = set_reservation_budget rid (live_budget d rid) d"

text \<open>
  The start of the service: rows of the pool \<open>ssd\<close> written before pools existed take the
  file system the storage registry reports, if it reports one.
\<close>

definition backfill_filesystem :: "storage option \<Rightarrow> db \<Rightarrow> db" where
  "backfill_filesystem st d =
     (case st of
        None \<Rightarrow> d
      | Some s \<Rightarrow>
          (case st_inspect s ''ssd'' False of
             None \<Rightarrow> d
           | Some sm \<Rightarrow>
               with_permits (\<lambda>q. pm_pool_id q = ''ssd'' \<and> pm_filesystem_id q = None \<and>
                                 pm_destination q = torrents_root)
                            (\<lambda>q. q\<lparr>pm_filesystem_id := Some (sm_filesystem_id sm)\<rparr>) d))"

section \<open>Dispatch\<close>

datatype claim = Replay json | Proceed permit bool

definition state_text :: "permit_state \<Rightarrow> string" where
  "state_text s =
     (case s of Authorized \<Rightarrow> ''authorized'' | Dispatching \<Rightarrow> ''dispatching'' | Unknown \<Rightarrow> ''unknown''
      | Confirmed \<Rightarrow> ''confirmed'' | Superseded \<Rightarrow> ''superseded''
      | ProbeRejected \<Rightarrow> ''probe_rejected'' | Revoked \<Rightarrow> ''revoked'')"

definition is_pack_permit :: "permit \<Rightarrow> bool" where
  "is_pack_permit p = (pack_scope (case pm_scope_key p of Some sc \<Rightarrow> sc | None \<Rightarrow> []) \<noteq> None)"

definition dispatch_guard :: "storage option \<Rightarrow> db \<Rightarrow> permit \<Rightarrow> err + unit" where
  "dispatch_guard st d p =
     (if is_pack_permit p then require_pack_reservation st d p
      else if pm_probe_parent_id p \<noteq> None then require_probe_reservation d p
      else Inr ())"

text \<open>A recorded result is replayed; only an unused permit is taken, and marked dispatching.\<close>

definition claim_row :: "string \<Rightarrow> permit \<Rightarrow> db \<Rightarrow> err + (db \<times> claim)" where
  "claim_row token p d =
     (case (pm_result p, pm_state p) of
        (Some r, Confirmed) \<Rightarrow> Inr (d, Replay r)
      | _ \<Rightarrow>
          if pm_state p \<noteq> Authorized
            then Inl (PermissionError (''permit_'' @ state_text (pm_state p)))
          else Inr (with_permits (\<lambda>q. pm_token q = token) (\<lambda>q. q\<lparr>pm_state := Dispatching\<rparr>) d,
                    Proceed p (is_pack_permit p)))"

definition authorize_claim ::
    "storage option \<Rightarrow> time \<Rightarrow> string \<Rightarrow> string \<Rightarrow> string \<Rightarrow> string option \<Rightarrow> db \<Rightarrow> err + (db \<times> claim)" where
  "authorize_claim st now token infohash destination metadata d =
     ebind (validate_metadata_digest metadata) (\<lambda>digest.
       case find_token d token of
         None \<Rightarrow> Inl (PermissionError ''permit_required'')
       | Some p \<Rightarrow>
           ebind (validate_payload now (Some p) infohash destination digest) (\<lambda>_.
           ebind (if pm_probe_parent_id p \<noteq> None then require_probe_reservation d p else Inr ()) (\<lambda>_.
           ebind (if is_pack_permit p then require_pack_reservation st d p else Inr ()) (\<lambda>_.
             claim_row token p d))))"

definition mark_unknown :: "string \<Rightarrow> db \<Rightarrow> db" where
  "mark_unknown token d =
     with_permits (\<lambda>q. pm_token q = token \<and> pm_state q = Dispatching)
                  (\<lambda>q. q\<lparr>pm_state := Unknown\<rparr>) d"

definition authorize_finish :: "string \<Rightarrow> json \<Rightarrow> db \<Rightarrow> err + (db \<times> json)" where
  "authorize_finish token result d =
     (if exists_row (\<lambda>q. pm_token q = token \<and> pm_state q = Dispatching) (permits d)
        then Inr (with_permits (\<lambda>q. pm_token q = token \<and> pm_state q = Dispatching)
                    (\<lambda>q. q\<lparr>pm_state := Confirmed, pm_result := Some (sort_json result)\<rparr>) d, result)
      else (case find_token d token of
              None \<Rightarrow> Inl (PermissionError ''permit_state_changed'')
            | Some p \<Rightarrow>
                (case (pm_state p, pm_result p) of
                   (Confirmed, Some r) \<Rightarrow> Inr (d, r)
                 | _ \<Rightarrow> Inl (PermissionError ''permit_state_changed''))))"

text \<open>
  The whole call.  \<open>effect\<close> is the callback: it sees the permit, may change the database
  (other transactions commit while it runs) and returns a result or raises.  The value
  also records whether the effect was entered.
\<close>

definition authorize ::
    "storage option \<Rightarrow> time \<Rightarrow> string \<Rightarrow> string \<Rightarrow> string \<Rightarrow> string option \<Rightarrow>
     (permit \<Rightarrow> db \<Rightarrow> db \<times> (err + json)) \<Rightarrow> db \<Rightarrow> db \<times> (err + json) \<times> bool" where
  "authorize st now token infohash destination metadata effect d =
     (case authorize_claim st now token infohash destination metadata d of
        Inl e \<Rightarrow> (d, Inl e, False)
      | Inr (d1, Replay r) \<Rightarrow> (d1, Inr r, False)
      | Inr (d1, Proceed p _) \<Rightarrow>
          (case dispatch_guard st d1 p of
             Inl e \<Rightarrow> (mark_unknown token d1, Inl e, False)
           | Inr _ \<Rightarrow>
               (case effect p d1 of
                  (d2, Inl e) \<Rightarrow> (mark_unknown token d2, Inl e, True)
                | (d2, Inr r) \<Rightarrow>
                    (case authorize_finish token r d2 of
                       Inl e \<Rightarrow> (d2, Inl e, True)
                     | Inr (d3, r') \<Rightarrow> (d3, Inr r', True)))))"

section \<open>Reconciliation\<close>

definition accepted_result :: "string \<Rightarrow> json" where
  "accepted_result infohash = JObj [(''accepted'', JBool True), (''infohash'', JStr infohash)]"

text \<open>A movie source under a movie key, an episode source under a season key.\<close>

definition source_matches :: "permit \<Rightarrow> string \<Rightarrow> bool" where
  "source_matches p media_key =
     (case pm_scope_key p of
        None \<Rightarrow> pm_category p = ''radarr'' \<and> starts_with ''movie:tmdb:'' media_key
      | Some _ \<Rightarrow> pm_category p = ''sonarr'' \<and> starts_with season_prefix media_key)"

definition confirm_reconciled_source :: "string \<Rightarrow> db \<Rightarrow> err + (db \<times> permit)" where
  "confirm_reconciled_source token d =
     (case find_token d token of
        None \<Rightarrow> Inl (PermissionError ''reconcilable_source_required'')
      | Some p \<Rightarrow>
          (case (live p, pm_reservation_id p) of
             (True, Some rid) \<Rightarrow>
               if pm_state p = Authorized \<and> pm_probe_parent_id p = None \<and>
                  \<not> had_superseded d rid (pm_scope_key p)
                 then Inl (PermissionError ''replacement_permit_required'')
               else (case find_open_reservation d (Some rid) of
                       None \<Rightarrow> Inl (PermissionError ''active_source_reservation_required'')
                     | Some r \<Rightarrow>
                         if \<not> source_matches p (rs_media_key r)
                           then Inl (PermissionError ''active_source_reservation_required'')
                         else if pm_state p = Confirmed then
                           (if pm_result p \<noteq> Some (accepted_result (pm_infohash p))
                              then Inl (PermissionError ''confirmed_result_mismatch'')
                            else Inr (d, p))
                         else
                           Inr (with_permits
                                  (\<lambda>q. pm_id q = pm_id p \<and>
                                       pm_state q \<in> {Authorized, Dispatching, Unknown})
                                  (\<lambda>q. q\<lparr>pm_state := Confirmed,
                                         pm_result := Some (accepted_result (pm_infohash p))\<rparr>) d,
                                p\<lparr>pm_state := Confirmed,
                                  pm_result := Some (accepted_result (pm_infohash p))\<rparr>))
           | _ \<Rightarrow> Inl (PermissionError ''reconcilable_source_required'')))"

section \<open>Renewal of an unused replacement\<close>

definition superseded_hashes :: "db \<Rightarrow> string \<Rightarrow> string option \<Rightarrow> string list" where
  "superseded_hashes d rid scope =
     map pm_infohash (filter (\<lambda>q. pm_reservation_id q = Some rid \<and> pm_scope_key q = scope \<and>
                                  pm_state q = Superseded) (permits d))"

text \<open>Pending bytes of the pool plus the permit's own share where it is not counted.\<close>

definition renewal_pending :: "db \<Rightarrow> time \<Rightarrow> capacity \<Rightarrow> permit \<Rightarrow> err + int" where
  "renewal_pending d now c p =
     ebind (pending_bytes d now c None (pm_pool_id p)) (\<lambda>pending.
       case capacity_pool c (pm_pool_id p) of
         None \<Rightarrow> Inl (ValueError ''pool_capacity_unavailable'')
       | Some pool \<Rightarrow>
           if pm_expires_at p \<le> now \<and>
              (cap_pools c = [] \<or> map_of (cap_remaining_by_hash pool) (pm_infohash p) = None)
             then Inr (pending + min (budget_or_0 p)
                         (get_or (cap_remaining_by_hash pool) (pm_infohash p) (budget_or_0 p)))
           else Inr pending)"

definition renew_replacement_authorized ::
    "storage option \<Rightarrow> time \<Rightarrow> string \<Rightarrow> capacity \<Rightarrow> time \<Rightarrow> db \<Rightarrow> err + (db \<times> permit)" where
  "renew_replacement_authorized st now token c expires_at d =
     (if expires_at \<le> now then Inl (ValueError ''fresh replacement capacity and expiry are required'')
      else case find_token d token of
        None \<Rightarrow> Inl (PermissionError ''authorized_replacement_required'')
      | Some p \<Rightarrow>
          (case (pm_state p, pm_reservation_id p) of
             (Authorized, Some rid) \<Rightarrow>
               if budget_or_0 p \<le> 0 then Inl (PermissionError ''authorized_replacement_required'')
               else
                 let old_hashes = superseded_hashes d rid (pm_scope_key p) in
                 if old_hashes = [] \<or> \<not> list_all (\<lambda>h. h \<in> set (cap_paused_hashes c)) old_hashes
                   then Inl (PermissionError ''source_not_stopped'')
                 else if find_open_reservation d (Some rid) = None
                   then Inl (PermissionError ''reservation_required'')
                 else ebind (renewal_pending d now c p) (\<lambda>pending.
                   case capacity_pool c (pm_pool_id p) of
                     None \<Rightarrow> Inl (ValueError ''pool_capacity_unavailable'')
                   | Some pool \<Rightarrow>
                       if pending > cap_free_bytes pool then Inl (PermissionError ''waiting_space'')
                       else if st \<noteq> None \<and> \<not> placement_valid st p
                         then Inl (PermissionError ''storage placement unavailable'')
                       else Inr (with_permits (\<lambda>q. pm_id q = pm_id p \<and> pm_state q = Authorized)
                                   (\<lambda>q. q\<lparr>pm_expires_at := expires_at\<rparr>) d,
                                 p\<lparr>pm_expires_at := expires_at\<rparr>))
           | _ \<Rightarrow> Inl (PermissionError ''authorized_replacement_required'')))"

section \<open>Replacing a confirmed source\<close>

record replacement_request =
  rr_infohash :: string
  rr_metadata_sha256 :: "string option"
  rr_selected_files :: "string list"
  rr_budget_bytes :: int
  rr_expires_at :: time
  rr_reported_seeders :: "int option"

definition replacement_permit :: "fresh_ids \<Rightarrow> replacement_request \<Rightarrow> string option \<Rightarrow> int option \<Rightarrow> permit \<Rightarrow> permit" where
  "replacement_permit fr rr digest seeders old =
     \<lparr>pm_id = fr_permit_id fr, pm_token = fr_token fr, pm_infohash = lower (rr_infohash rr),
      pm_destination = pm_destination old, pm_expires_at = rr_expires_at rr,
      pm_category = pm_category old, pm_result = None, pm_operation_id = fr_operation_id fr,
      pm_reservation_id = pm_reservation_id old, pm_scope_key = pm_scope_key old,
      pm_metadata_sha256 = digest, pm_selected_files = rr_selected_files rr,
      pm_budget_bytes = Some (rr_budget_bytes rr), pm_state = Authorized,
      pm_reported_seeders = seeders, pm_probe_parent_id = None, pm_quality_rank = None,
      pm_season_pack_parent_id = None, pm_pool_id = ''ssd'', pm_filesystem_id = None\<rparr>"

definition check_replacement_request ::
    "time \<Rightarrow> replacement_request \<Rightarrow> err + (string option \<times> int option)" where
  "check_replacement_request now rr =
     (if \<not> hex40 (rr_infohash rr) then Inl (ValueError ''invalid replacement infohash'')
      else ebind (validate_metadata_digest (rr_metadata_sha256 rr)) (\<lambda>digest.
        if digest = None then Inl (ValueError ''replacement metadata is required'')
        else ebind (validate_reported_seeders (rr_reported_seeders rr)) (\<lambda>seeders.
          if rr_selected_files rr = [] \<or> [] \<in> set (rr_selected_files rr) \<or>
             \<not> distinct (rr_selected_files rr) \<or> rr_budget_bytes rr \<le> 0 \<or> rr_expires_at rr \<le> now
            then Inl (ValueError ''invalid replacement evidence'')
          else Inr (digest, seeders))))"

definition import_started :: "db \<Rightarrow> string \<Rightarrow> string \<Rightarrow> bool" where
  "import_started d rid permit_id =
     (exists_row (\<lambda>m. mi_reservation_id m = rid) (movie_imports d) \<or>
      exists_row (\<lambda>e. ei_permit_id e = permit_id) (episode_imports d))"

text \<open>The tests on the old source, in the order of the code.\<close>

definition replaceable_source :: "capacity \<Rightarrow> string \<Rightarrow> db \<Rightarrow> permit option \<Rightarrow> err + string" where
  "replaceable_source c new_hash d old =
     (case old of
        None \<Rightarrow> Inl (PermissionError ''confirmed_source_required'')
      | Some old \<Rightarrow>
          (case (pm_state old, pm_reservation_id old) of
             (Confirmed, Some rid) \<Rightarrow>
               if \<not> list_all (\<lambda>h. h \<in> set (cap_paused_hashes c))
                      (pm_infohash old # superseded_hashes d rid (pm_scope_key old))
                 then Inl (PermissionError ''source_not_stopped'')
               else (case find_open_reservation d (Some rid) of
                       None \<Rightarrow> Inl (PermissionError ''reservation_required'')
                     | Some r \<Rightarrow>
                         if \<not> source_matches old (rs_media_key r)
                           then Inl (PermissionError ''source_identity_changed'')
                         else if import_started d rid (pm_id old)
                           then Inl (PermissionError ''import_started'')
                         else if exists_row (\<lambda>q. pm_reservation_id q = Some rid \<and>
                                   pm_scope_key q = pm_scope_key old \<and> pm_infohash q = new_hash) (permits d)
                           then Inl (ValueError ''same_infohash_or_prior_source'')
                         else if exists_row (\<lambda>q. pm_infohash q = new_hash \<and> live q) (permits d)
                           then Inl (PermissionError ''source_already_admitted'')
                         else Inr rid)
           | _ \<Rightarrow> Inl (PermissionError ''confirmed_source_required'')))"

definition supersede :: "string \<Rightarrow> db \<Rightarrow> db" where
  "supersede permit_id d =
     with_permits (\<lambda>q. pm_id q = permit_id \<and> pm_state q = Confirmed)
                  (\<lambda>q. q\<lparr>pm_state := Superseded\<rparr>) d"

definition replace_confirmed ::
    "storage option \<Rightarrow> time \<Rightarrow> fresh_ids \<Rightarrow> string \<Rightarrow> replacement_request \<Rightarrow> capacity \<Rightarrow> db \<Rightarrow>
     err + (db \<times> permit)" where
  "replace_confirmed st now fr old_token rr c d =
     ebind (check_replacement_request now rr) (\<lambda>(digest, seeders).
     ebind (replaceable_source c (lower (rr_infohash rr)) d (find_token d old_token)) (\<lambda>rid.
       case find_token d old_token of
         None \<Rightarrow> Inl (PermissionError ''confirmed_source_required'')
       | Some old \<Rightarrow>
           ebind (select_pool st d now c (replacement_permit fr rr digest seeders old)) (\<lambda>new.
           ebind (insert_permit new (supersede (pm_id old) d)) (\<lambda>d1.
           ebind (refresh_budget rid d1) (\<lambda>d2. Inr (d2, new))))))"

section \<open>Cancellation and retirement of unused permits\<close>

definition cancel_authorized :: "string \<Rightarrow> db \<Rightarrow> err + (db \<times> bool)" where
  "cancel_authorized token d =
     (case find_row (\<lambda>p. pm_token p = token \<and> pm_state p = Authorized) (permits d) of
        None \<Rightarrow> Inr (d, False)
      | Some p \<Rightarrow>
          let d1 = d\<lparr>permits := delete_rows (\<lambda>q. pm_id q = pm_id p) (permits d),
                     torrent_artifacts := map_option (delete_rows (\<lambda>a. ta_permit_id a = pm_id p))
                                                     (torrent_artifacts d),
                     pack_episodes := delete_rows (\<lambda>e. pk_parent_permit_id e = pm_id p)
                                                  (pack_episodes d)\<rparr>
          in (case pm_reservation_id p of
                None \<Rightarrow> Inr (d1, True)
              | Some rid \<Rightarrow> ebind (refresh_budget rid d1) (\<lambda>d2. Inr (d2, True))))"

definition expired_authorized :: "time \<Rightarrow> string \<Rightarrow> string option \<Rightarrow> permit \<Rightarrow> bool" where
  "expired_authorized now rid scope p =
     (pm_reservation_id p = Some rid \<and> pm_scope_key p = scope \<and>
      pm_state p = Authorized \<and> pm_expires_at p \<le> now)"

definition retire_expired_authorized :: "time \<Rightarrow> string \<Rightarrow> string option \<Rightarrow> db \<Rightarrow> err + (db \<times> nat)" where
  "retire_expired_authorized now rid scope d =
     (let n = row_count (expired_authorized now rid scope) (permits d);
          d1 = d\<lparr>permits := delete_rows (expired_authorized now rid scope) (permits d)\<rparr>
      in if n \<noteq> 0 then ebind (refresh_budget rid d1) (\<lambda>d2. Inr (d2, n)) else Inr (d1, n))"

end
