(* ===== verification/Reservations.thy ===== *)
theory Reservations
  imports PermitLifecycle
begin

text \<open>
  \<open>persistence/db.py\<close>: the \<open>ReservationRepository\<close> (requests, reservations, operations and
  imports) and the scheduler of \<open>worker/scheduler.py\<close> in front of it.  Its connections set
  \<open>PRAGMA foreign_keys = ON\<close>, so inserting a reservation also needs its request.
\<close>

section \<open>Migrations\<close>

text \<open>\<open>initialize\<close>: the versions of the migration files in order; each is applied once.\<close>

fun run_migrations :: "nat list \<Rightarrow> nat list \<Rightarrow> nat list \<times> nat list" where
  "run_migrations [] applied = (applied, [])"
| "run_migrations (v # vs) applied =
     (if v \<in> set applied then run_migrations vs applied
      else case run_migrations vs (applied @ [v]) of (applied', executed) \<Rightarrow> (applied', v # executed))"

section \<open>Reserving space\<close>

record reservation_result =
  res_accepted :: bool
  res_reservation_id :: "string option"
  res_operation_id :: "string option"
  res_reason :: "string option"

record reserve_args =
  ra_request_id :: string
  ra_source_id :: string
  ra_media_key :: string
  ra_filesystem_id :: string
  ra_budget_bytes :: int
  ra_free_bytes :: int
  ra_total_bytes :: int

definition refused :: "string \<Rightarrow> reservation_result" where
  "refused reason = \<lparr>res_accepted = False, res_reservation_id = None, res_operation_id = None,
                     res_reason = Some reason\<rparr>"

definition operation_key :: "reserve_args \<Rightarrow> string" where
  "operation_key a = ''reserve:'' @ ra_request_id a @ '':'' @ ra_media_key a"

text \<open>\<open>INSERT INTO requests ... ON CONFLICT(source_id) DO NOTHING\<close>\<close>

definition insert_request :: "time \<Rightarrow> reserve_args \<Rightarrow> db \<Rightarrow> err + db" where
  "insert_request now a d =
     (if exists_row (\<lambda>q. rq_source_id q = ra_source_id a) (requests d) then Inr d
      else if exists_row (\<lambda>q. rq_id q = ra_request_id a) (requests d) then Inl IntegrityError
      else Inr (d\<lparr>requests := requests d @
             [\<lparr>rq_id = ra_request_id a, rq_source_id = ra_source_id a, rq_media_key = ra_media_key a,
               rq_state = RqRequested, rq_created_at = now, rq_updated_at = now\<rparr>]\<rparr>))"

definition set_request_state :: "string \<Rightarrow> request_state \<Rightarrow> time \<Rightarrow> db \<Rightarrow> db" where
  "set_request_state rid s now d =
     d\<lparr>requests := update_rows (\<lambda>q. rq_id q = rid)
                     (\<lambda>q. q\<lparr>rq_state := s, rq_updated_at := now\<rparr>) (requests d)\<rparr>"

text \<open>A reservation of the same source or the same media, with its operation if any.\<close>

definition existing_reservation :: "reserve_args \<Rightarrow> db \<Rightarrow> reservation_row option" where
  "existing_reservation a d =
     find_row (\<lambda>r. case find_request d (rs_request_id r) of
                     None \<Rightarrow> False
                   | Some q \<Rightarrow> rq_source_id q = ra_source_id a \<or> rs_media_key r = ra_media_key a)
       (reservations d)"

text \<open>\<open>state IN ('reserved', 'downloading', 'waiting_episodes', 'validating')\<close>\<close>

fun committed_state :: "reservation_state \<Rightarrow> bool" where
  "committed_state RsReserved = True"
| "committed_state RsDownloading = True"
| "committed_state RsWaitingEpisodes = True"
| "committed_state RsValidating = True"
| "committed_state _ = False"

definition commitments :: "db \<Rightarrow> err + int list" where
  "commitments d =
     emap (\<lambda>r. remaining_commitment (JInt (rs_budget_bytes r)) (JInt (rs_allocated_bytes r)))
          (filter (\<lambda>r. committed_state (rs_state r)) (reservations d))"

definition insert_reservation :: "string \<Rightarrow> reserve_args \<Rightarrow> db \<Rightarrow> err + db" where
  "insert_reservation rid a d =
     (if exists_row (\<lambda>r. rs_id r = rid \<or> rs_media_key r = ra_media_key a) (reservations d) \<or>
         find_request d (ra_request_id a) = None \<or> ra_budget_bytes a < 0
        then Inl IntegrityError
      else Inr (d\<lparr>reservations := reservations d @
             [\<lparr>rs_id = rid, rs_request_id = ra_request_id a, rs_media_key = ra_media_key a,
               rs_filesystem_id = ra_filesystem_id a, rs_budget_bytes = ra_budget_bytes a,
               rs_allocated_bytes = 0, rs_state = RsReserved\<rparr>]\<rparr>))"

definition insert_operation :: "operation_row \<Rightarrow> db \<Rightarrow> err + db" where
  "insert_operation oper d =
     (if exists_row (\<lambda>x. op_id x = op_id oper \<or> op_idempotency_key x = op_idempotency_key oper) (operations d)
        then Inl IntegrityError
      else Inr (d\<lparr>operations := operations d @ [oper]\<rparr>))"

definition reserve_txn ::
    "time \<Rightarrow> string \<Rightarrow> string \<Rightarrow> reserve_args \<Rightarrow> db \<Rightarrow> err + (db \<times> reservation_result)" where
  "reserve_txn now new_id new_op a d =
     (if tombstoned d (ra_media_key a) then Inr (d, refused ''media_deleted'')
      else ebind (insert_request now a d) (\<lambda>d1.
        case existing_reservation a d1 of
          Some r \<Rightarrow>
            Inr (d1, \<lparr>res_accepted = True, res_reservation_id = Some (rs_id r),
                      res_operation_id = map_option op_id
                        (find_row (\<lambda>x. op_idempotency_key x = operation_key a) (operations d1)),
                      res_reason = Some ''idempotent''\<rparr>)
        | None \<Rightarrow>
            ebind (commitments d1) (\<lambda>cs.
            ebind (available_bytes (JInt (ra_free_bytes a)) (JInt (ra_total_bytes a)) (map JInt cs)) (\<lambda>avail.
              if ra_budget_bytes a > avail
                then Inr (set_request_state (ra_request_id a) RqWaitingSpace now d1, refused ''waiting_space'')
              else
                ebind (insert_reservation new_id a d1) (\<lambda>d2.
                ebind (insert_operation
                         \<lparr>op_id = new_op, op_idempotency_key = operation_key a, op_kind = ''reserve'',
                          op_payload = [(''budget_bytes'', JInt (ra_budget_bytes a)),
                                        (''filesystem_id'', JStr (ra_filesystem_id a)),
                                        (''media_key'', JStr (ra_media_key a)),
                                        (''request_id'', JStr (ra_request_id a))],
                          op_state = ''authorized'', op_updated_at = now\<rparr> d2) (\<lambda>d3.
                  Inr (set_request_state (ra_request_id a) RqReserved now d3,
                       \<lparr>res_accepted = True, res_reservation_id = Some new_id,
                        res_operation_id = Some new_op, res_reason = None\<rparr>)))))))"

definition reserve ::
    "time \<Rightarrow> string \<Rightarrow> string \<Rightarrow> reserve_args \<Rightarrow> db \<Rightarrow> err + (db \<times> reservation_result)" where
  "reserve now new_id new_op a d =
     (if ra_filesystem_id a = [] then Inr (d, refused ''filesystem_unknown'')
      else if ra_budget_bytes a < 0 then Inr (d, refused ''invalid_budget'')
      else case reserve_txn now new_id new_op a d of
        Inl IntegrityError \<Rightarrow>
          (case find_row (\<lambda>r. rs_media_key r = ra_media_key a) (reservations d) of
             Some r \<Rightarrow> Inr (d, \<lparr>res_accepted = True, res_reservation_id = Some (rs_id r),
                               res_operation_id = None, res_reason = Some ''idempotent''\<rparr>)
           | None \<Rightarrow> Inl IntegrityError)
      | r \<Rightarrow> r)"

text \<open>\<open>AdmissionScheduler.admit\<close>\<close>

record filesystem_snapshot =
  fs_filesystem_id :: "string option"
  fs_free_bytes :: int
  fs_total_bytes :: int
  fs_measured_at :: rat
  fs_stale_after_seconds :: rat

record admission_candidate =
  ac_request_id :: string
  ac_source_id :: string
  ac_media_key :: string
  ac_budget_bytes :: int

definition snapshot_usable_at :: "rat \<Rightarrow> filesystem_snapshot \<Rightarrow> bool" where
  "snapshot_usable_at clock s =
     (fs_filesystem_id s \<noteq> None \<and> fs_filesystem_id s \<noteq> Some [] \<and> 0 \<le> fs_free_bytes s \<and>
      0 < fs_total_bytes s \<and> 0 \<le> clock - fs_measured_at s \<and>
      clock - fs_measured_at s \<le> fs_stale_after_seconds s)"

definition scheduler_admit ::
    "rat \<Rightarrow> filesystem_snapshot \<Rightarrow> time \<Rightarrow> string \<Rightarrow> string \<Rightarrow> admission_candidate \<Rightarrow> db \<Rightarrow>
     err + (db \<times> reservation_result)" where
  "scheduler_admit clock s now new_id new_op cand d =
     (if \<not> snapshot_usable_at clock s
        then Inr (d, refused ''filesystem_snapshot_unavailable'')
      else reserve now new_id new_op
             \<lparr>ra_request_id = ac_request_id cand, ra_source_id = ac_source_id cand,
              ra_media_key = ac_media_key cand,
              ra_filesystem_id = (case fs_filesystem_id s of Some f \<Rightarrow> f | None \<Rightarrow> []),
              ra_budget_bytes = ac_budget_bytes cand, ra_free_bytes = fs_free_bytes s,
              ra_total_bytes = fs_total_bytes s\<rparr> d)"

section \<open>Budgets and cancellation\<close>

text \<open>\<open>normalize_verified_budgets\<close>\<close>

definition normalize_verified_budgets :: "db \<Rightarrow> err + db" where
  "normalize_verified_budgets d =
     (if exists_row (\<lambda>r. open_state (rs_state r) \<and> live_budget d (rs_id r) < 0) (reservations d)
        then Inl IntegrityError
      else Inr (d\<lparr>reservations := update_rows (\<lambda>r. open_state (rs_state r))
                    (\<lambda>r. r\<lparr>rs_budget_bytes := live_budget d (rs_id r)\<rparr>) (reservations d)\<rparr>))"

definition active_reservation :: "string \<Rightarrow> db \<Rightarrow> reservation_row option" where
  "active_reservation rid d =
     find_row (\<lambda>r. rs_id r = rid \<and> rs_state r \<in> {RsReserved, RsDownloading}) (reservations d)"

text \<open>The five answers of \<open>cancel_unstarted\<close>.\<close>

datatype cancel_answer = NotFound | AlreadyCancelled | NotCancellable | DownloadStarted | CancelDone

definition cancel_unstarted :: "time \<Rightarrow> string \<Rightarrow> db \<Rightarrow> db \<times> cancel_answer" where
  "cancel_unstarted now rid d =
     (case find_reservation d rid of
        None \<Rightarrow> (d, NotFound)
      | Some r \<Rightarrow>
          if rs_state r = RsCancelled then (d, AlreadyCancelled)
          else if rs_state r \<notin> {RsReserved, RsDownloading} then (d, NotCancellable)
          else if exists_row (\<lambda>p. pm_reservation_id p = Some rid \<and> pm_state p \<notin> {Authorized, Revoked})
                    (permits d)
            then (set_request_state (rs_request_id r) RqCancelRequested now d, DownloadStarted)
          else
            let d1 = with_permits (\<lambda>p. pm_reservation_id p = Some rid \<and> pm_state p = Authorized)
                       (\<lambda>p. p\<lparr>pm_state := Revoked\<rparr>) d;
                d2 = d1\<lparr>reservations := update_rows (\<lambda>x. rs_id x = rid)
                          (\<lambda>x. x\<lparr>rs_state := RsCancelled\<rparr>) (reservations d1)\<rparr>
            in (set_request_state (rs_request_id r) RqCancelled now d2, CancelDone))"

definition active_seerr_requests :: "db \<Rightarrow> (string \<times> string) list" where
  "active_seerr_requests d =
     List.map_filter
       (\<lambda>r. case find_request d (rs_request_id r) of
              None \<Rightarrow> None
            | Some q \<Rightarrow>
                if starts_with ''seerr:'' (lower (rq_id q)) \<and> rs_state r \<in> {RsReserved, RsDownloading}
                then Some (rs_id r, rq_source_id q) else None)
       (reservations d)"

text \<open>\<open>CancellationReconciler.reconcile\<close>; \<open>status\<close> is what Seerr answers for a source.\<close>

fun reconcile_cancellations ::
    "time \<Rightarrow> (string \<Rightarrow> int option) \<Rightarrow> string list \<Rightarrow> (string \<times> string) list \<Rightarrow> db \<Rightarrow> db \<times> nat" where
  "reconcile_cancellations now status approved [] d = (d, 0)"
| "reconcile_cancellations now status approved ((rid, source) # rest) d =
     (if source \<in> set approved then reconcile_cancellations now status approved rest d
      else if (case status source of None \<Rightarrow> False | Some s \<Rightarrow> s \<notin> {1, 3})
        then reconcile_cancellations now status approved rest d
      else case cancel_unstarted now rid d of
        (d1, answer) \<Rightarrow>
          (case reconcile_cancellations now status approved rest d1 of
             (d2, n) \<Rightarrow> (d2, if answer = CancelDone then Suc n else n)))"

section \<open>Imports\<close>

text \<open>\<open>_import_pending\<close>: an import that keeps others waiting.\<close>

definition import_blocks :: "bool \<Rightarrow> import_state \<Rightarrow> bool" where
  "import_blocks copy_allowed s = (s \<noteq> ImComplete \<and> (copy_allowed \<or> s \<noteq> ImAccepted))"

definition import_pending :: "bool \<Rightarrow> db \<Rightarrow> bool" where
  "import_pending copy_allowed d =
     (exists_row (\<lambda>m. import_blocks copy_allowed (mi_state m)) (movie_imports d) \<or>
      exists_row (\<lambda>e. import_blocks copy_allowed (ei_state e)) (episode_imports d))"

definition claim_movie_import :: "time \<Rightarrow> string \<Rightarrow> bool \<Rightarrow> db \<Rightarrow> db \<times> bool" where
  "claim_movie_import now rid copy_allowed d =
     (case find_reservation d rid of
        None \<Rightarrow> (d, False)
      | Some r \<Rightarrow>
          if rs_state r \<notin> {RsReserved, RsDownloading} \<or> import_pending copy_allowed d then (d, False)
          else if exists_row (\<lambda>m. mi_reservation_id m = rid) (movie_imports d) then (d, False)
          else (d\<lparr>movie_imports := movie_imports d @
                  [\<lparr>mi_reservation_id = rid,
                    mi_state = (if copy_allowed then ImDispatchingCopy else ImDispatching),
                    mi_command_id = None, mi_updated_at = now\<rparr>]\<rparr>, True))"

text \<open>\<open>CASE state WHEN 'dispatching_copy' THEN 'accepted_copy' ELSE 'accepted' END\<close>\<close>

definition accepted_state :: "import_state \<Rightarrow> import_state" where
  "accepted_state s = (if s = ImDispatchingCopy then ImAcceptedCopy else ImAccepted)"

definition record_movie_import :: "time \<Rightarrow> string \<Rightarrow> string \<Rightarrow> db \<Rightarrow> db" where
  "record_movie_import now rid command_id d =
     d\<lparr>movie_imports := update_rows
         (\<lambda>m. mi_reservation_id m = rid \<and> mi_state m \<in> {ImDispatching, ImDispatchingCopy})
         (\<lambda>m. m\<lparr>mi_state := accepted_state (mi_state m), mi_command_id := Some command_id,
                mi_updated_at := now\<rparr>)
         (movie_imports d)\<rparr>"

definition complete_movie_import :: "time \<Rightarrow> string \<Rightarrow> db \<Rightarrow> db" where
  "complete_movie_import now rid d =
     (let d1 = d\<lparr>movie_imports := update_rows (\<lambda>m. mi_reservation_id m = rid)
                   (\<lambda>m. m\<lparr>mi_state := ImComplete, mi_updated_at := now\<rparr>) (movie_imports d),
                 reservations := update_rows (\<lambda>r. rs_id r = rid)
                   (\<lambda>r. r\<lparr>rs_state := RsImported\<rparr>) (reservations d)\<rparr>
      in case find_reservation d1 rid of
           None \<Rightarrow> d1
         | Some r \<Rightarrow> set_request_state (rs_request_id r) RqAvailable now d1)"

definition claim_episode_import :: "time \<Rightarrow> string \<Rightarrow> bool \<Rightarrow> db \<Rightarrow> db \<times> bool" where
  "claim_episode_import now permit_id copy_allowed d =
     (if import_pending copy_allowed d then (d, False)
      else if exists_row (\<lambda>e. ei_permit_id e = permit_id) (episode_imports d) then (d, False)
      else (d\<lparr>episode_imports := episode_imports d @
              [\<lparr>ei_permit_id = permit_id,
                ei_state = (if copy_allowed then ImDispatchingCopy else ImDispatching),
                ei_command_id = None, ei_updated_at = now\<rparr>]\<rparr>, True))"

definition record_episode_import :: "time \<Rightarrow> string \<Rightarrow> string \<Rightarrow> db \<Rightarrow> db" where
  "record_episode_import now permit_id command_id d =
     d\<lparr>episode_imports := update_rows
         (\<lambda>e. ei_permit_id e = permit_id \<and> ei_state e \<in> {ImDispatching, ImDispatchingCopy})
         (\<lambda>e. e\<lparr>ei_state := accepted_state (ei_state e), ei_command_id := Some command_id,
                ei_updated_at := now\<rparr>)
         (episode_imports d)\<rparr>"

definition complete_episode_import :: "time \<Rightarrow> string \<Rightarrow> db \<Rightarrow> db" where
  "complete_episode_import now permit_id d =
     d\<lparr>episode_imports := update_rows
         (\<lambda>e. ei_permit_id e = permit_id \<and> ei_state e \<in> {ImAccepted, ImAcceptedCopy})
         (\<lambda>e. e\<lparr>ei_state := ImComplete, ei_updated_at := now\<rparr>)
         (episode_imports d)\<rparr>"

section \<open>Recorded operations\<close>

text \<open>The answer of \<open>record_operation\<close> and \<open>get_operation\<close>: the row, then the payload's keys.\<close>

definition operation_view :: "operation_row \<Rightarrow> (string \<times> json) list" where
  "operation_view x =
     fold (\<lambda>(k, v) acc. AList.update k v acc) (op_payload x)
       [(''operation_id'', JStr (op_id x)), (''kind'', JStr (op_kind x)),
        (''state'', JStr (op_state x)), (''updated_at'', JInt (op_updated_at x))]"

definition record_operation :: "operation_row \<Rightarrow> db \<Rightarrow> err + (db \<times> (string \<times> json) list)" where
  "record_operation oper d =
     (let d1 = (case insert_operation oper d of Inl _ \<Rightarrow> d | Inr d' \<Rightarrow> d')
      in case find_row (\<lambda>x. op_id x = op_id oper) (operations d1) of
           None \<Rightarrow> Inl (RuntimeError ''operation was not persisted'')
         | Some x \<Rightarrow> Inr (d1, operation_view x))"

definition get_operation :: "string \<Rightarrow> db \<Rightarrow> (string \<times> json) list option" where
  "get_operation oid d =
     map_option operation_view (find_row (\<lambda>x. op_id x = oid) (operations d))"

end
