(* ===== verification/ProbePermits.thy ===== *)
theory ProbePermits
  imports PermitLifecycle
begin

text \<open>
  \<open>gateway/probe_permits.py\<close>: a measured candidate (a probe) runs beside the confirmed
  source of the same acquisition until it is promoted, which supersedes the source and
  opens a handover, or rejected.
\<close>

section \<open>Budgets with pending handovers\<close>

definition probe_budget :: "db \<Rightarrow> string \<Rightarrow> int" where
  "probe_budget d rid =
     sum_where (\<lambda>p. pm_reservation_id p = Some rid \<and> (live p \<or> pending_parent d p))
       budget_or_0 (permits d)"

definition update_probe_budget :: "string option \<Rightarrow> db \<Rightarrow> err + db" where
  "update_probe_budget rid d =
     (case rid of None \<Rightarrow> Inr d | Some rid \<Rightarrow> set_reservation_budget rid (probe_budget d rid) d)"

section \<open>Handovers\<close>

definition pending_handover :: "string \<Rightarrow> db \<Rightarrow> permit option" where
  "pending_handover token d =
     (case find_row (\<lambda>h. ho_state h = HoPending \<and>
              exists_row (\<lambda>n. pm_id n = ho_candidate_id h \<and> pm_token n = token) (permits d) \<and>
              exists_row (\<lambda>p. pm_id p = ho_parent_id h) (permits d)) (handovers d) of
        None \<Rightarrow> None
      | Some h \<Rightarrow> find_row (\<lambda>p. pm_id p = ho_parent_id h) (permits d))"

definition complete_handover :: "string \<Rightarrow> db \<Rightarrow> err + db" where
  "complete_handover token d =
     (let d1 = d\<lparr>handovers := update_rows
                   (\<lambda>h. exists_row (\<lambda>p. pm_id p = ho_candidate_id h \<and> pm_token p = token) (permits d))
                   (\<lambda>h. h\<lparr>ho_state := HoComplete\<rparr>) (handovers d)\<rparr>
      in case find_token d1 token of
           None \<Rightarrow> Inr d1
         | Some p \<Rightarrow> update_probe_budget (pm_reservation_id p) d1)"

section \<open>Evidence about a probe\<close>

definition probe_verified_faster :: "rat \<Rightarrow> string \<Rightarrow> rat \<Rightarrow> db \<Rightarrow> bool" where
  "probe_verified_faster now candidate_id max_age d =
     (case source_probes d of
        None \<Rightarrow> False
      | Some rows \<Rightarrow>
          (case find_row (\<lambda>r. pb_candidate_id r = candidate_id \<and> pb_decision r = PdPromote) rows of
             None \<Rightarrow> False
           | Some r \<Rightarrow>
               (case pb_last_observed_at r of
                  None \<Rightarrow> False | Some t \<Rightarrow> 0 \<le> now - t \<and> now - t \<le> max_age)))"

definition get_probe :: "string \<Rightarrow> db \<Rightarrow> permit option" where
  "get_probe parent_id d =
     find_row (\<lambda>p. pm_probe_parent_id p = Some parent_id \<and> live p) (permits d)"

definition set_quality :: "string \<Rightarrow> int list \<Rightarrow> db \<Rightarrow> err + db" where
  "set_quality token rank d =
     (if length rank < 2 then Inl (ValueError ''invalid source quality'')
      else Inr (with_permits (\<lambda>p. pm_token p = token) (\<lambda>p. p\<lparr>pm_quality_rank := Some rank\<rparr>) d))"

text \<open>\<open>any(new < current for new, current in zip(xs, ys, strict=True))\<close>\<close>

fun any_less :: "int list \<Rightarrow> int list \<Rightarrow> err + bool" where
  "any_less [] [] = Inr False"
| "any_less (x # xs) (y # ys) = (if x < y then Inr True else any_less xs ys)"
| "any_less _ _ = Inl (ValueError ''zip() argument lengths differ'')"

section \<open>Issuing a probe\<close>

record probe_request =
  pr_infohash :: string
  pr_metadata_sha256 :: "string option"
  pr_selected_files :: "string list"
  pr_budget_bytes :: int
  pr_expires_at :: time
  pr_reported_seeders :: "int option"
  pr_quality_rank :: "int list option"

definition check_probe_request :: "time \<Rightarrow> probe_request \<Rightarrow> err + string" where
  "check_probe_request now pr =
     ebind (validate_metadata_digest (pr_metadata_sha256 pr)) (\<lambda>digest.
       case digest of
         None \<Rightarrow> Inl (ValueError ''invalid probe evidence'')
       | Some dg \<Rightarrow>
           if \<not> hex40 (pr_infohash pr) \<or> pr_selected_files pr = [] \<or>
              \<not> distinct (pr_selected_files pr) \<or> [] \<in> set (pr_selected_files pr) \<or>
              pr_budget_bytes pr \<le> 0 \<or> pr_expires_at pr \<le> now
             then Inl (ValueError ''invalid probe evidence'')
           else Inr dg)"

text \<open>The checks on the primary source; the result is its reservation and quality.\<close>

definition probe_parent_checks :: "db \<Rightarrow> permit option \<Rightarrow> err + (permit \<times> string \<times> int list)" where
  "probe_parent_checks d old =
     (case old of
        None \<Rightarrow> Inl (PermissionError ''confirmed_source_required'')
      | Some old \<Rightarrow>
          (case (pm_state old, pm_probe_parent_id old, pm_reservation_id old) of
             (Confirmed, None, Some rid) \<Rightarrow>
               ebind (require_probe_reservation d old) (\<lambda>_.
                 case pm_quality_rank old of
                   None \<Rightarrow> Inl (PermissionError ''source_quality_unknown'')
                 | Some rank \<Rightarrow>
                     if exists_row (\<lambda>h. ho_candidate_id h = pm_id old \<and> ho_state h = HoPending) (handovers d)
                       then Inl (PermissionError ''handover_pending'')
                     else if find_open_reservation d (Some rid) = None
                       then Inl (PermissionError ''reservation_required'')
                     else if exists_row (\<lambda>q. pm_probe_parent_id q = Some (pm_id old) \<and> live q) (permits d)
                       then Inl (PermissionError ''probe_already_active'')
                     else if import_started d rid (pm_id old)
                       then Inl (PermissionError ''import_started'')
                     else Inr (old, rid, rank))
           | _ \<Rightarrow> Inl (PermissionError ''confirmed_source_required'')))"

definition probe_candidate_checks ::
    "probe_request \<Rightarrow> db \<Rightarrow> permit \<times> string \<times> int list \<Rightarrow> err + unit" where
  "probe_candidate_checks pr d parent =
     (case parent of (old, rid, rank) \<Rightarrow>
        if exists_row (\<lambda>q. pm_infohash q = lower (pr_infohash pr) \<and>
                           (pm_reservation_id q = Some rid \<or> live q)) (permits d)
          then Inl (PermissionError ''source_already_tried'')
        else if \<not> list_all (\<lambda>f. f \<notin> set (pm_selected_files old)) (pr_selected_files pr)
          then Inl (PermissionError ''source_paths_overlap'')
        else case pr_quality_rank pr of
          None \<Rightarrow> Inl (PermissionError ''quality_downgrade'')
        | Some new \<Rightarrow> ebind (any_less (take 2 new) (take 2 rank)) (\<lambda>less.
            if less then Inl (PermissionError ''quality_downgrade'') else Inr ()))"

definition probe_permit :: "fresh_ids \<Rightarrow> probe_request \<Rightarrow> string \<Rightarrow> int option \<Rightarrow> permit \<Rightarrow> permit" where
  "probe_permit fr pr digest seeders old =
     \<lparr>pm_id = fr_permit_id fr, pm_token = fr_token fr, pm_infohash = lower (pr_infohash pr),
      pm_destination = pm_destination old, pm_expires_at = pr_expires_at pr,
      pm_category = pm_category old, pm_result = None, pm_operation_id = fr_operation_id fr,
      pm_reservation_id = pm_reservation_id old, pm_scope_key = pm_scope_key old,
      pm_metadata_sha256 = Some digest, pm_selected_files = pr_selected_files pr,
      pm_budget_bytes = Some (pr_budget_bytes pr), pm_state = Authorized,
      pm_reported_seeders = seeders, pm_probe_parent_id = Some (pm_id old),
      pm_quality_rank = pr_quality_rank pr, pm_season_pack_parent_id = None,
      pm_pool_id = ''ssd'', pm_filesystem_id = None\<rparr>"

definition issue_probe ::
    "storage option \<Rightarrow> time \<Rightarrow> fresh_ids \<Rightarrow> string \<Rightarrow> probe_request \<Rightarrow> capacity \<Rightarrow> db \<Rightarrow>
     err + (db \<times> permit)" where
  "issue_probe st now fr old_token pr c d =
     ebind (check_probe_request now pr) (\<lambda>digest.
     ebind (probe_parent_checks d (find_token d old_token)) (\<lambda>parent.
     ebind (probe_candidate_checks pr d parent) (\<lambda>_.
     ebind (validate_reported_seeders (pr_reported_seeders pr)) (\<lambda>seeders.
     ebind (select_pool st d now c (probe_permit fr pr digest seeders (fst parent))) (\<lambda>probe.
     ebind (insert_permit probe d) (\<lambda>d1.
     ebind (update_probe_budget (pm_reservation_id probe) d1) (\<lambda>d2. Inr (d2, probe))))))))"

section \<open>Promotion and rejection\<close>

text \<open>
  \<open>UPDATE gateway_permits SET probe_parent_id=NULL\<close> moves the row from the probe index
  to the slot index; a live row already there violates the index.
\<close>

definition detach_probe :: "string \<Rightarrow> db \<Rightarrow> err + db" where
  "detach_probe token d =
     (let ps = update_rows (\<lambda>q. pm_token q = token) (\<lambda>q. q\<lparr>pm_probe_parent_id := None\<rparr>) (permits d)
      in if slots_unique ps then Inr (d\<lparr>permits := ps\<rparr>) else Inl IntegrityError)"

definition open_handover :: "string \<Rightarrow> string \<Rightarrow> db \<Rightarrow> err + db" where
  "open_handover candidate parent d =
     (if exists_row (\<lambda>h. ho_candidate_id h = candidate) (handovers d) then Inl IntegrityError
      else Inr (d\<lparr>handovers := handovers d @
             [\<lparr>ho_candidate_id = candidate, ho_parent_id = parent, ho_state = HoPending\<rparr>]\<rparr>))"

definition primary_source :: "string \<Rightarrow> permit \<Rightarrow> bool" where
  "primary_source parent q =
     (pm_id q = parent \<and> pm_state q = Confirmed \<and> pm_probe_parent_id q = None)"

definition promote_probe :: "string \<Rightarrow> db \<Rightarrow> err + (db \<times> permit)" where
  "promote_probe token d =
     (case find_token d token of
        None \<Rightarrow> Inl (PermissionError ''confirmed_probe_required'')
      | Some p \<Rightarrow>
          (case (pm_state p, pm_probe_parent_id p) of
             (Confirmed, Some parent) \<Rightarrow>
               ebind (require_probe_reservation d p) (\<lambda>_.
               if find_open_reservation d (pm_reservation_id p) = None
                 then Inl (PermissionError ''reservation_required'')
               else if import_started d (case pm_reservation_id p of Some rid \<Rightarrow> rid | None \<Rightarrow> []) parent
                 then Inl (PermissionError ''import_started'')
               else if row_count (primary_source parent) (permits d) \<noteq> 1
                 then Inl (PermissionError ''primary_source_changed'')
               else
                 ebind (open_handover (pm_id p) parent
                          (with_permits (primary_source parent) (\<lambda>q. q\<lparr>pm_state := Superseded\<rparr>) d))
                 (\<lambda>d1. ebind (detach_probe token d1)
                 (\<lambda>d2. ebind (update_probe_budget (pm_reservation_id p) d2)
                 (\<lambda>d3. Inr (d3, p\<lparr>pm_probe_parent_id := None\<rparr>)))))
           | _ \<Rightarrow> Inl (PermissionError ''confirmed_probe_required'')))"

definition reject_probe :: "string \<Rightarrow> db \<Rightarrow> err + db" where
  "reject_probe token d =
     (case find_token d token of
        None \<Rightarrow> Inl (PermissionError ''probe_required'')
      | Some p \<Rightarrow>
          if pm_probe_parent_id p = None then Inl (PermissionError ''probe_required'')
          else update_probe_budget (pm_reservation_id p)
                 (with_permits (\<lambda>q. pm_token q = token) (\<lambda>q. q\<lparr>pm_state := ProbeRejected\<rparr>) d))"

end
