(* ===== verification/SeasonPacks.thy ===== *)
theory SeasonPacks
  imports ProbePermits
begin

text \<open>
  Season packs in \<open>gateway/permits.py\<close>: one physical source serves the episodes bound to
  it.  \<open>bind_season_pack\<close> records the binding once, in the same transaction that
  supersedes the stopped episode sources the pack replaces.
\<close>

section \<open>Replacing stopped episode sources\<close>

definition nocase_protected :: "db \<Rightarrow> string \<Rightarrow> bool" where
  "nocase_protected d infohash =
     (case protected_sources d of
        None \<Rightarrow> False
      | Some rows \<Rightarrow> exists_row (\<lambda>(h, _). lower h = lower infohash) rows)"

definition transition_pending :: "db \<Rightarrow> permit \<Rightarrow> bool" where
  "transition_pending d old =
     (exists_row (\<lambda>q. pm_probe_parent_id q = Some (pm_id old) \<and> live q) (permits d) \<or>
      exists_row (\<lambda>h. ho_state h = HoPending \<and>
                      (ho_parent_id h = pm_id old \<or> ho_candidate_id h = pm_id old)) (handovers d))"

definition trial_pending :: "db \<Rightarrow> permit \<Rightarrow> bool" where
  "trial_pending d old =
     (case source_probes d of
        None \<Rightarrow> False
      | Some rows \<Rightarrow>
          exists_row (\<lambda>s. pb_parent_id s = pm_id old \<and> pb_decision s \<noteq> PdReject \<and>
             exists_row (\<lambda>p. pm_id p = pb_candidate_id s \<and> live p) (permits d)) rows)"

text \<open>Python's order on tuples of integers, and the test against a quality regression.\<close>

definition quality_regression :: "int list option \<Rightarrow> int list \<Rightarrow> err + bool" where
  "quality_regression new old =
     (case new of
        None \<Rightarrow> Inr True
      | Some q \<Rightarrow> if q < old then Inr True else any_less (take 2 q) (take 2 old))"

definition old_source_identity ::
    "storage option \<Rightarrow> db \<Rightarrow> permit \<Rightarrow> bindings \<Rightarrow> permit option \<Rightarrow> err + permit" where
  "old_source_identity st d parent episode_files old =
     (case old of
        None \<Rightarrow> Inl (PermissionError ''confirmed_episode_source_required'')
      | Some old \<Rightarrow>
          if pm_state old \<noteq> Confirmed \<or> pm_probe_parent_id old \<noteq> None \<or>
             pm_reservation_id old \<noteq> pm_reservation_id parent \<or>
             (case pm_scope_key old of None \<Rightarrow> True | Some sc \<Rightarrow> sc \<notin> fst ` set episode_files) \<or>
             pm_category old \<noteq> ''sonarr'' \<or> pm_infohash old = pm_infohash parent \<or>
             \<not> placement_valid st old \<or>
             exists_row (\<lambda>e. pk_parent_permit_id e = pm_id old) (pack_episodes d)
            then Inl (PermissionError ''confirmed_episode_source_required'')
          else Inr old)"

definition old_source_checks :: "db \<Rightarrow> capacity \<Rightarrow> permit \<Rightarrow> permit \<Rightarrow> err + permit" where
  "old_source_checks d c parent old =
     ebind (case pm_quality_rank old of
              None \<Rightarrow> Inr False | Some rank \<Rightarrow> quality_regression (pm_quality_rank parent) rank)
     (\<lambda>worse.
       if worse then Inl (PermissionError ''quality_regression'')
       else ebind (require_probe_reservation d old) (\<lambda>_.
         case capacity_pool c (pm_pool_id old) of
           None \<Rightarrow> Inl (PermissionError ''source_capacity_unavailable'')
         | Some pool \<Rightarrow>
             if pm_infohash old \<notin> set (cap_paused_hashes pool) \<or>
                get_or (cap_remaining_by_hash pool) (pm_infohash old) 0 \<le> 0
               then Inl (PermissionError ''paused_incomplete_source_required'')
             else if cap_pools c \<noteq> [] \<and>
                     Some (pc_filesystem_id (hd (cap_pools pool))) \<noteq> pm_filesystem_id old
               then Inl (PermissionError ''source_capacity_unavailable'')
             else if exists_row (\<lambda>e. ei_permit_id e = pm_id old) (episode_imports d)
               then Inl (PermissionError ''import_started'')
             else if nocase_protected d (pm_infohash old)
               then Inl (PermissionError ''source_protected'')
             else if transition_pending d old \<or> trial_pending d old
               then Inl (PermissionError ''source_transition_pending'')
             else Inr old))"

text \<open>Earlier sources of a scope, direct or through a pack, that must be proved stopped.\<close>

definition scope_history :: "db \<Rightarrow> string option \<Rightarrow> string \<Rightarrow> permit list" where
  "scope_history d rid scope =
     filter (\<lambda>p. pm_reservation_id p = rid \<and>
        (pm_scope_key p = Some scope \<or>
         exists_row (\<lambda>e. pk_parent_permit_id e = pm_id p \<and> pk_scope_key e = scope) (pack_episodes d)) \<and>
        pm_state p \<in> {Superseded, ProbeRejected}) (permits d)"

definition history_stopped :: "capacity \<Rightarrow> permit \<Rightarrow> err + unit" where
  "history_stopped c p =
     (case capacity_pool c (pm_pool_id p) of
        None \<Rightarrow> Inl (PermissionError ''history_capacity_unavailable'')
      | Some pool \<Rightarrow>
          if cap_pools c \<noteq> [] \<and> Some (pc_filesystem_id (hd (cap_pools pool))) \<noteq> pm_filesystem_id p
            then Inl (PermissionError ''history_capacity_unavailable'')
          else if pm_infohash p \<notin> set (cap_paused_hashes pool) \<and>
                  map_of (cap_remaining_by_hash pool) (pm_infohash p) \<noteq> Some 0
            then Inl (PermissionError ''historical_source_not_stopped'')
          else Inr ())"

definition pack_capacity_check :: "db \<Rightarrow> time \<Rightarrow> capacity \<Rightarrow> permit \<Rightarrow> permit list \<Rightarrow> err + unit" where
  "pack_capacity_check d now c parent old_sources =
     (case capacity_pool c (pm_pool_id parent) of
        None \<Rightarrow> Inl (PermissionError ''pool_capacity_unavailable'')
      | Some pool \<Rightarrow>
          if cap_pools c \<noteq> [] \<and>
             Some (pc_filesystem_id (hd (cap_pools pool))) \<noteq> pm_filesystem_id parent
            then Inl (PermissionError ''pool_capacity_unavailable'')
          else ebind (pending_bytes d now c None (pm_pool_id parent)) (\<lambda>pending.
            let kept = (if cap_pools c = []
                        then sum_list (map (\<lambda>old. get_or (cap_remaining_by_hash pool) (pm_infohash old) 0) old_sources)
                        else 0)
            in if pending + kept > cap_free_bytes pool
                 then Inl (PermissionError ''waiting_space'') else Inr ()))"

definition validate_pack_replacements ::
    "storage option \<Rightarrow> time \<Rightarrow> db \<Rightarrow> permit \<Rightarrow> bindings \<Rightarrow> string list \<Rightarrow> capacity \<Rightarrow> err + permit list" where
  "validate_pack_replacements st now d parent episode_files tokens c =
     (if pm_state parent \<noteq> Authorized \<or> pm_expires_at parent \<le> now \<or> pm_result parent \<noteq> None \<or>
         budget_or_0 parent \<le> 0
        then Inl (PermissionError ''unused_pack_permit_required'')
      else
        ebind (require_probe_reservation d parent) (\<lambda>_.
        ebind (emap (\<lambda>(sc, fs). require_probe_reservation d (season_pack_view parent sc fs)) episode_files) (\<lambda>_.
        ebind (emap (\<lambda>token. ebind (old_source_identity st d parent episode_files (find_token d token))
                                   (old_source_checks d c parent)) tokens) (\<lambda>old_sources.
        ebind (emap (\<lambda>sc. emap (history_stopped c) (scope_history d (pm_reservation_id parent) sc))
                 (map fst episode_files)) (\<lambda>_.
        ebind (pack_capacity_check d now c parent old_sources) (\<lambda>_. Inr old_sources))))))"

section \<open>Binding a pack\<close>

text \<open>The dictionaries are compared as Python compares them, regardless of order.\<close>

definition same_bindings :: "bindings \<Rightarrow> bindings \<Rightarrow> bool" where
  "same_bindings a b =
     (list_all (\<lambda>(k, v). map_of b k = Some v) a \<and> list_all (\<lambda>(k, v). map_of a k = Some v) b)"

definition scope_holders :: "db \<Rightarrow> permit \<Rightarrow> string \<Rightarrow> permit list" where
  "scope_holders d parent scope =
     filter (\<lambda>p. pm_id p \<noteq> pm_id parent \<and> live p \<and> pm_reservation_id p = pm_reservation_id parent \<and>
        (pm_scope_key p = Some scope \<or>
         exists_row (\<lambda>e. pk_parent_permit_id e = pm_id p \<and> pk_scope_key e = scope) (pack_episodes d)))
       (permits d)"

definition insert_bindings :: "string \<Rightarrow> bindings \<Rightarrow> pack_row list \<Rightarrow> pack_row list" where
  "insert_bindings parent bs rows =
     fold (\<lambda>(sc, fs) rows.
       if exists_row (\<lambda>e. pk_parent_permit_id e = parent \<and> pk_scope_key e = sc) rows then rows
       else rows @ [\<lparr>pk_parent_permit_id = parent, pk_scope_key = sc, pk_selected_files = fs\<rparr>]) bs rows"

definition pack_parent :: "db \<Rightarrow> string \<Rightarrow> (permit \<times> reservation_row) option" where
  "pack_parent d token =
     (case find_token d token of
        None \<Rightarrow> None
      | Some p \<Rightarrow> map_option (\<lambda>r. (p, r)) (find_open_reservation d (pm_reservation_id p)))"

definition bind_season_pack ::
    "storage option \<Rightarrow> time \<Rightarrow> string \<Rightarrow> bindings \<Rightarrow> string list \<Rightarrow> capacity option \<Rightarrow> db \<Rightarrow> err + db" where
  "bind_season_pack st now token episode_files replacement_tokens c d =
     (if [] \<in> set replacement_tokens \<or> \<not> distinct replacement_tokens \<or>
         (replacement_tokens \<noteq> [] \<and> c = None)
        then Inl (ValueError ''persistent_pack_replacement_evidence_required'')
      else case find_token d token of
        None \<Rightarrow> Inl (PermissionError ''permit_required'')
      | Some p0 \<Rightarrow>
      ebind (validate_pack_bindings st p0 episode_files) (\<lambda>_.
      case pack_parent d token of
        None \<Rightarrow> Inl (PermissionError ''reservation_required'')
      | Some (parent, r) \<Rightarrow>
      ebind (validate_pack_bindings st parent episode_files) (\<lambda>_.
      if (case season_key (rs_media_key r) of
            None \<Rightarrow> True
          | Some (_, season) \<Rightarrow> pm_scope_key parent \<noteq> Some (pack_scope_of (to_nat season)))
        then Inl (ValueError ''pack belongs to another season'')
      else
      let previous = stored_bindings d (pm_id parent) in
      if previous \<noteq> [] \<and> \<not> same_bindings previous episode_files
        then Inl (ValueError ''season pack bindings cannot change'')
      else if replacement_tokens \<noteq> [] \<and> previous \<noteq> []
        then Inl (PermissionError ''pack_already_bound'')
      else
      ebind (case c of
               Some c \<Rightarrow> if replacement_tokens = [] then Inr []
                         else validate_pack_replacements st now d parent episode_files replacement_tokens c
             | None \<Rightarrow> Inr []) (\<lambda>old_sources.
      if \<not> list_all (\<lambda>sc. list_all (\<lambda>q. pm_id q \<in> pm_id ` set old_sources) (scope_holders d parent sc))
               (map fst episode_files)
        then Inl (PermissionError ''episode_already_permitted'')
      else if exists_row (\<lambda>q. pm_infohash q = pm_infohash parent \<and> pm_id q \<noteq> pm_id parent \<and> live q)
                (permits d)
        then Inl (PermissionError ''torrent_already_permitted'')
      else
      let d1 = with_permits (\<lambda>q. pm_id q \<in> pm_id ` set old_sources \<and> pm_state q = Confirmed)
                 (\<lambda>q. q\<lparr>pm_state := Superseded\<rparr>) d;
          d2 = d1\<lparr>pack_episodes := insert_bindings (pm_id parent) episode_files (pack_episodes d1)\<rparr>
      in if old_sources \<noteq> [] then update_probe_budget (pm_reservation_id parent) d2 else Inr d2))))"

section \<open>The source of a movie or an episode\<close>

definition get_for_reservation :: "string \<Rightarrow> string option \<Rightarrow> db \<Rightarrow> permit option" where
  "get_for_reservation rid scope d =
     (case find_row (\<lambda>p. pm_reservation_id p = Some rid \<and> pm_scope_key p = scope \<and>
                         pm_probe_parent_id p = None \<and> live p) (permits d) of
        Some p \<Rightarrow> Some p
      | None \<Rightarrow>
          (case find_row (\<lambda>e. Some (pk_scope_key e) = scope \<and>
                   exists_row (\<lambda>p. pm_id p = pk_parent_permit_id e \<and> pm_reservation_id p = Some rid \<and>
                                   pm_probe_parent_id p = None \<and> live p) (permits d))
                 (pack_episodes d) of
             None \<Rightarrow> None
           | Some e \<Rightarrow>
               map_option (\<lambda>p. season_pack_view p (pk_scope_key e) (pk_selected_files e))
                 (find_row (\<lambda>p. pm_id p = pk_parent_permit_id e \<and> pm_reservation_id p = Some rid \<and>
                                pm_probe_parent_id p = None \<and> live p) (permits d))))"

definition active_source :: "permit \<Rightarrow> db \<Rightarrow> bool" where
  "active_source p d =
     (case pm_reservation_id p of
        None \<Rightarrow> False
      | Some rid \<Rightarrow>
          (case get_for_reservation rid (pm_scope_key p) d of
             None \<Rightarrow> False
           | Some primary \<Rightarrow>
               pm_id primary = pm_id p \<or> Some (pm_id primary) = pm_probe_parent_id p))"

end
