(* ===== verification/PermitRefinement.thy ===== *)
theory PermitRefinement
  imports SeasonPacks Reservations
begin

text \<open>
  The abstract lifecycle of a permit and its refinement.  \<open>permit_next\<close> is the automaton of
  a single permit; every operation on the table refines it row by row (\<open>evolves\<close>) and
  keeps the declared keys and indexes (\<open>db_wf\<close>).
\<close>

section \<open>The abstract lifecycle\<close>

inductive permit_next :: "permit_state \<Rightarrow> permit_state \<Rightarrow> bool" where
  claimed: "permit_next Authorized Dispatching"
| revoked: "permit_next Authorized Revoked"
| failed: "permit_next Dispatching Unknown"
| accepted: "s \<in> {Authorized, Dispatching, Unknown} \<Longrightarrow> permit_next s Confirmed"
| superseded: "permit_next Confirmed Superseded"
| rejected: "permit_next s ProbeRejected"

inductive_cases next_to_live: "permit_next s t"

lemma permit_next_iff:
  "permit_next s t \<longleftrightarrow>
     (s = Authorized \<and> t \<in> {Dispatching, Revoked}) \<or> (s = Dispatching \<and> t = Unknown) \<or>
     (s \<in> {Authorized, Dispatching, Unknown} \<and> t = Confirmed) \<or>
     (s = Confirmed \<and> t = Superseded) \<or> t = ProbeRejected"
  by (auto elim: next_to_live intro: permit_next.intros)

lemma dead_stays_dead: "permit_next s t \<Longrightarrow> \<not> live_state s \<Longrightarrow> \<not> live_state t"
  by (auto elim!: next_to_live)

lemma never_back_to_authorized: "\<not> permit_next s Authorized"
  by (auto elim: next_to_live)

definition advances :: "permit \<Rightarrow> permit \<Rightarrow> bool" where
  "advances p q \<longleftrightarrow>
     pm_id q = pm_id p \<and> pm_token q = pm_token p \<and> pm_operation_id q = pm_operation_id p \<and>
     pm_infohash q = pm_infohash p \<and> pm_reservation_id q = pm_reservation_id p \<and>
     pm_scope_key q = pm_scope_key p \<and> pm_metadata_sha256 q = pm_metadata_sha256 p \<and>
     pm_selected_files q = pm_selected_files p \<and> pm_budget_bytes q = pm_budget_bytes p \<and>
     pm_pool_id q = pm_pool_id p \<and> pm_destination q = pm_destination p \<and>
     (pm_state q = pm_state p \<or> permit_next (pm_state p) (pm_state q)) \<and>
     (pm_state p = Confirmed \<longrightarrow> pm_result q = pm_result p)"

definition evolves :: "permit list \<Rightarrow> permit list \<Rightarrow> bool" where
  "evolves ps qs \<longleftrightarrow>
     (\<forall>p\<in>set ps. (\<exists>q\<in>set qs. advances p q) \<or> pm_state p = Authorized) \<and>
     (\<forall>q\<in>set qs. (\<exists>p\<in>set ps. advances p q) \<or>
        (pm_state q = Authorized \<and> pm_result q = None \<and> pm_token q \<notin> pm_token ` set ps))"

lemma advances_refl [simp]: "advances p p"
  by (simp add: advances_def)

lemma evolves_refl [simp]: "evolves ps ps"
  unfolding evolves_def using advances_refl by blast

lemma evolves_update:
  assumes "\<And>p. p \<in> set ps \<Longrightarrow> P p \<Longrightarrow> advances p (f p)"
  shows "evolves ps (update_rows P f ps)"
proof -
  have step: "advances p (if P p then f p else p)" if "p \<in> set ps" for p
    using assms that by simp
  have 1: "\<exists>q\<in>set (update_rows P f ps). advances p q" if "p \<in> set ps" for p
  proof
    show "advances p (if P p then f p else p)" by (rule step [OF that])
    show "(if P p then f p else p) \<in> set (update_rows P f ps)"
      unfolding set_update_rows using that by (rule imageI)
  qed
  have 2: "\<exists>p\<in>set ps. advances p q" if "q \<in> set (update_rows P f ps)" for q
  proof -
    from that obtain p where "p \<in> set ps" "q = (if P p then f p else p)"
      by (auto simp: set_update_rows)
    with step show ?thesis by blast
  qed
  from 1 2 show ?thesis by (simp add: evolves_def)
qed

lemma evolves_append:
  assumes "evolves ps qs" and "pm_state r = Authorized" and "pm_result r = None"
    and "pm_token r \<notin> pm_token ` set ps"
  shows "evolves ps (qs @ [r])"
  using assms unfolding evolves_def by auto

lemma evolves_delete:
  assumes "\<And>p. p \<in> set ps \<Longrightarrow> P p \<Longrightarrow> pm_state p = Authorized"
  shows "evolves ps (delete_rows P ps)"
  unfolding evolves_def set_delete_rows using assms advances_refl by blast

section \<open>Each operation refines the lifecycle\<close>

interpretation token_state: key_column pm_token "\<lambda>p. p\<lparr>pm_state := s\<rparr>" for s
  by unfold_locales simp

lemma find_token_set_state:
  "find_token (with_permits P (\<lambda>p. p\<lparr>pm_state := s\<rparr>) d) token =
     map_option (\<lambda>p. if P p then p\<lparr>pm_state := s\<rparr> else p) (find_token d token)"
  by (simp add: find_token_def with_permits_def token_state.find_updated)

lemma with_permits_frame [simp]:
  "permits (with_permits P f d) = update_rows P f (permits d)"
  "reservations (with_permits P f d) = reservations d"
  "handovers (with_permits P f d) = handovers d"
  "pack_episodes (with_permits P f d) = pack_episodes d"
  by (simp_all add: with_permits_def)

lemma with_permits_wf:
  assumes "db_wf d" and "same_ids f" and "\<And>p. p \<in> set (permits d) \<Longrightarrow> P p \<Longrightarrow> slot_shrinks f p"
  shows "db_wf (with_permits P f d)"
  unfolding with_permits_def
  using assms by (intro db_wf_set_permits permits_wf_update db_wf_permits) auto

lemma state_change_slot:
  "live_state s \<longrightarrow> live p \<Longrightarrow> slot_shrinks (\<lambda>q. q\<lparr>pm_state := s\<rparr>) p"
  by (auto simp: slot_shrinks_def permit_slot_def live_def)

lemma same_ids_state [simp]: "same_ids (\<lambda>q. q\<lparr>pm_state := s\<rparr>)"
  by (simp add: same_ids_def)

lemma refresh_budget_frame:
  "refresh_budget rid d = Inr d' \<Longrightarrow> permits d' = permits d"
  by (auto simp: refresh_budget_def dest: set_budget_frame)

lemma refresh_budget_wf: "refresh_budget rid d = Inr d' \<Longrightarrow> db_wf d \<Longrightarrow> db_wf d'"
  unfolding refresh_budget_def by (rule set_budget_wf)

lemma update_probe_budget_frame:
  "update_probe_budget rid d = Inr d' \<Longrightarrow> permits d' = permits d"
  by (auto simp: update_probe_budget_def dest: set_budget_frame split: option.splits)

lemma update_probe_budget_wf: "update_probe_budget rid d = Inr d' \<Longrightarrow> db_wf d \<Longrightarrow> db_wf d'"
  by (auto simp: update_probe_budget_def intro: set_budget_wf split: option.splits)

text \<open>Dispatch.\<close>

lemma claim_row_Proceed:
  "claim_row token p d = Inr (d', Proceed q b) \<longleftrightarrow>
     pm_state p = Authorized \<and> q = p \<and> b = is_pack_permit p \<and>
     d' = with_permits (\<lambda>q. pm_token q = token) (\<lambda>q. q\<lparr>pm_state := Dispatching\<rparr>) d"
  by (cases "pm_result p"; cases "pm_state p") (auto simp: claim_row_def)

lemma claim_row_Replay:
  "claim_row token p d = Inr (d', Replay r) \<longleftrightarrow>
     pm_state p = Confirmed \<and> pm_result p = Some r \<and> d' = d"
  by (cases "pm_result p"; cases "pm_state p") (auto simp: claim_row_def)

lemma authorize_claim_parts:
  assumes "authorize_claim st now token infohash destination metadata d = Inr out"
  shows "\<exists>p digest. find_token d token = Some p \<and>
     validate_metadata_digest metadata = Inr digest \<and>
     validate_payload now (Some p) infohash destination digest = Inr () \<and>
     (pm_probe_parent_id p \<noteq> None \<longrightarrow> require_probe_reservation d p = Inr ()) \<and>
     (is_pack_permit p \<longrightarrow> require_pack_reservation st d p = Inr ()) \<and>
     claim_row token p d = Inr out"
proof -
  from assms show ?thesis
    unfolding authorize_claim_def ebind_Inr option_Inl_Inr
    by (auto split: if_splits)
qed

lemma authorize_claim_Proceed:
  assumes "authorize_claim st now token infohash destination metadata d = Inr (d', Proceed p b)"
  shows "find_token d token = Some p" and "pm_state p = Authorized" and "now < pm_expires_at p"
    and "d' = with_permits (\<lambda>q. pm_token q = token) (\<lambda>q. q\<lparr>pm_state := Dispatching\<rparr>) d"
    and "pm_infohash p = lower infohash" and "pm_destination p = destination"
    and "is_pack_permit p \<Longrightarrow> require_pack_reservation st d p = Inr ()"
    and "pm_probe_parent_id p \<noteq> None \<Longrightarrow> require_probe_reservation d p = Inr ()"
  using authorize_claim_parts [OF assms] by (auto simp: claim_row_Proceed validate_payload_ok)

lemma authorize_claim_Replay:
  assumes "authorize_claim st now token infohash destination metadata d = Inr (d', Replay r)"
  shows "d' = d" and "\<exists>p. find_token d token = Some p \<and> pm_state p = Confirmed \<and> pm_result p = Some r"
  using authorize_claim_parts [OF assms] by (auto simp: claim_row_Replay)

lemma same_token:
  "db_wf d \<Longrightarrow> find_token d token = Some p \<Longrightarrow> q \<in> set (permits d) \<Longrightarrow> pm_token q = token \<Longrightarrow> q = p"
  by (auto simp: db_wf_def permits_wf_def dest!: find_token_Some dest: distinct_key_eq)

lemma claim_refines:
  assumes "authorize_claim st now token infohash destination metadata d = Inr (d', Proceed p b)"
    and wf: "db_wf d"
  shows "evolves (permits d) (permits d') \<and> db_wf d'"
proof -
  note c = authorize_claim_Proceed [OF assms(1)]
  have auth: "\<And>q. q \<in> set (permits d) \<Longrightarrow> pm_token q = token \<Longrightarrow> pm_state q = Authorized"
    using same_token [OF wf c(1)] c(2) by blast
  have "evolves (permits d) (permits d')"
    unfolding c(4) with_permits_frame
    by (rule evolves_update) (auto simp: advances_def permit_next_iff dest: auth)
  moreover have "db_wf d'" unfolding c(4)
    using wf by (rule with_permits_wf) (auto intro!: state_change_slot dest: auth)
  ultimately show ?thesis ..
qed

lemma mark_unknown_refines:
  "db_wf d \<Longrightarrow> evolves (permits d) (permits (mark_unknown token d)) \<and> db_wf (mark_unknown token d)"
  unfolding mark_unknown_def
  by (auto intro!: evolves_update with_permits_wf state_change_slot simp: advances_def permit_next_iff)

lemma confirm_update_slot:
  "live p \<Longrightarrow> slot_shrinks (\<lambda>q. q\<lparr>pm_state := Confirmed, pm_result := r\<rparr>) p"
  by (auto simp: slot_shrinks_def permit_slot_def live_def)

lemma same_ids_confirm [simp]: "same_ids (\<lambda>q. q\<lparr>pm_state := Confirmed, pm_result := r\<rparr>)"
  by (simp add: same_ids_def)

lemma finish_refines:
  assumes "authorize_finish token r d = Inr (d', r')" and "db_wf d"
  shows "evolves (permits d) (permits d') \<and> db_wf d'"
  using assms
  by (auto simp: authorize_finish_def advances_def permit_next_iff err_simps
      intro!: evolves_update with_permits_wf confirm_update_slot
      split: if_splits option.splits permit_state.splits)

lemma reconcile_refines:
  assumes "confirm_reconciled_source token d = Inr (d', p')" and wf: "db_wf d"
  shows "evolves (permits d) (permits d') \<and> db_wf d'"
proof -
  from assms(1) obtain p where p: "find_token d token = Some p"
    by (auto simp: confirm_reconciled_source_def err_simps)
  have "d' = d \<or>
      d' = with_permits (\<lambda>q. pm_id q = pm_id p \<and> pm_state q \<in> {Authorized, Dispatching, Unknown})
             (\<lambda>q. q\<lparr>pm_state := Confirmed, pm_result := Some (accepted_result (pm_infohash p))\<rparr>) d"
    using assms(1) p
    by (auto simp: confirm_reconciled_source_def split: option.splits if_splits bool.splits)
  then show ?thesis using wf
    by (auto intro!: evolves_update with_permits_wf confirm_update_slot simp: advances_def permit_next_iff)
qed

text \<open>Steps that touch no permit row, and steps that only relabel columns.\<close>

lemma same_permits_refines: "permits d' = permits d \<Longrightarrow> evolves (permits d) (permits d')"
  by simp

lemma relabel_refines:
  assumes wf: "db_wf d" and "same_ids f"
    and "\<And>p. permit_slot (f p) = permit_slot p" and "\<And>p. advances p (f p)"
  shows "evolves (permits d) (permits (with_permits P f d)) \<and> db_wf (with_permits P f d)"
  using assms by (auto intro!: evolves_update with_permits_wf simp: slot_shrinks_def)

lemma backfill_refines:
  "db_wf d \<Longrightarrow> evolves (permits d) (permits (backfill_filesystem st d)) \<and> db_wf (backfill_filesystem st d)"
  unfolding backfill_filesystem_def
  by (auto split: option.splits intro!: relabel_refines [THEN conjunct1] relabel_refines [THEN conjunct2]
      simp: same_ids_def permit_slot_def live_def advances_def simp del: with_permits_frame)

lemma set_quality_refines:
  "set_quality token rank d = Inr d' \<Longrightarrow> db_wf d \<Longrightarrow> evolves (permits d) (permits d') \<and> db_wf d'"
  unfolding set_quality_def
  by (auto split: if_splits intro!: relabel_refines [THEN conjunct1] relabel_refines [THEN conjunct2]
      simp: same_ids_def permit_slot_def live_def advances_def simp del: with_permits_frame)

lemma renew_effect:
  assumes "renew_replacement_authorized st now token c e d = Inr (d', p')"
  shows "\<exists>P. d' = with_permits P (\<lambda>q. q\<lparr>pm_expires_at := e\<rparr>) d"
  using assms unfolding renew_replacement_authorized_def Let_def
  by (auto simp: err_simps split: if_splits option.splits permit_state.splits)

lemma renew_refines:
  assumes "renew_replacement_authorized st now token c e d = Inr (d', p')" and "db_wf d"
  shows "evolves (permits d) (permits d') \<and> db_wf d'"
proof -
  from renew_effect [OF assms(1)] obtain P where
    d': "d' = with_permits P (\<lambda>q. q\<lparr>pm_expires_at := e\<rparr>) d" by blast
  show ?thesis unfolding d'
    by (rule relabel_refines [OF assms(2)])
       (simp_all add: same_ids_def permit_slot_def live_def advances_def)
qed

text \<open>Issuing.\<close>

lemma issue_refines:
  assumes "issue st now fr rq c d = Inr (d', p)" and "db_wf d"
  shows "evolves (permits d) (permits d') \<and> db_wf d'"
  using issue_appends [OF assms(1)] issue_keeps_wf [OF assms]
  by (simp add: evolves_append)

text \<open>Revoking and removing unused permits.\<close>

lemma db_wf_delete:
  "db_wf d \<Longrightarrow> permits d' = delete_rows P (permits d) \<Longrightarrow> requests d' = requests d \<Longrightarrow>
   reservations d' = reservations d \<Longrightarrow> operations d' = operations d \<Longrightarrow> db_wf d'"
  by (simp add: db_wf_def permits_wf_delete)

lemma retire_refines:
  assumes "retire_expired_authorized now rid scope d = Inr (d', n)" and wf: "db_wf d"
  shows "evolves (permits d) (permits d') \<and> db_wf d'"
proof -
  let ?d1 = "d\<lparr>permits := delete_rows (expired_authorized now rid scope) (permits d)\<rparr>"
  have wf1: "db_wf ?d1" by (rule db_wf_delete [OF wf]) simp_all
  have ev: "evolves (permits d) (permits ?d1)"
    by (auto intro!: evolves_delete simp: expired_authorized_def)
  from assms(1) have "d' = ?d1 \<or> refresh_budget rid ?d1 = Inr d'"
    by (auto simp: retire_expired_authorized_def Let_def err_simps split: if_splits)
  then show ?thesis
    using wf1 ev refresh_budget_frame refresh_budget_wf by metis
qed

lemma cancel_refines:
  assumes "cancel_authorized token d = Inr (d', b)" and wf: "db_wf d"
  shows "evolves (permits d) (permits d') \<and> db_wf d'"
proof (cases "find_row (\<lambda>p. pm_token p = token \<and> pm_state p = Authorized) (permits d)")
  case None
  with assms show ?thesis by (simp add: cancel_authorized_def)
next
  case (Some p)
  let ?d1 = "d\<lparr>permits := delete_rows (\<lambda>q. pm_id q = pm_id p) (permits d),
                     torrent_artifacts := map_option (delete_rows (\<lambda>a. ta_permit_id a = pm_id p))
                                                     (torrent_artifacts d),
                     pack_episodes := delete_rows (\<lambda>e. pk_parent_permit_id e = pm_id p)
                                                  (pack_episodes d)\<rparr>"
  from find_row_Some [OF Some] have p: "p \<in> set (permits d)" "pm_state p = Authorized" by auto
  have "q = p" if "q \<in> set (permits d)" "pm_id q = pm_id p" for q
    using wf p(1) that by (auto simp: db_wf_def permits_wf_def dest: distinct_key_eq)
  with p(2) have ev: "evolves (permits d) (permits ?d1)" by (auto intro!: evolves_delete)
  have wf1: "db_wf ?d1" by (rule db_wf_delete [OF wf]) simp_all
  from assms(1) Some have "d' = ?d1 \<or> (\<exists>rid. refresh_budget rid ?d1 = Inr d')"
    by (auto simp: cancel_authorized_def Let_def err_simps split: option.splits)
  then show ?thesis
    using wf1 ev refresh_budget_frame refresh_budget_wf by metis
qed

text \<open>Replacement and probes.\<close>

lemma insert_refines:
  assumes "insert_permit new d1 = Inr d2" and "pm_state new = Authorized" and "pm_result new = None"
    and "evolves (permits d) (permits d1)" and "pm_token ` set (permits d1) = pm_token ` set (permits d)"
  shows "evolves (permits d) (permits d2)"
proof -
  have "pm_token new \<notin> pm_token ` set (permits d1)" and d2: "permits d2 = permits d1 @ [new]"
    using assms(1) by (auto simp: insert_permit_iff permit_conflict_def list_ex_iff)
  with assms show ?thesis by (simp add: evolves_append)
qed

lemma supersede_refines:
  "db_wf d \<Longrightarrow> evolves (permits d) (permits (supersede i d)) \<and> db_wf (supersede i d)"
proof
  assume wf: "db_wf d"
  show "evolves (permits d) (permits (supersede i d))"
    unfolding supersede_def with_permits_frame
    by (rule evolves_update) (simp add: advances_def permit_next_iff)
  show "db_wf (supersede i d)" unfolding supersede_def
    using wf by (rule with_permits_wf) (simp_all add: state_change_slot)
qed

lemma supersede_tokens: "pm_token ` set (permits (supersede i d)) = pm_token ` set (permits d)"
proof -
  have "map pm_token (permits (supersede i d)) = map pm_token (permits d)"
    by (simp add: supersede_def map_update_rows)
  then show ?thesis by (metis set_map)
qed

lemma replacement_permit_fields:
  "pm_state (replacement_permit fr rr dg s old) = Authorized"
  "pm_result (replacement_permit fr rr dg s old) = None"
  by (simp_all add: replacement_permit_def)

lemma replace_confirmed_parts:
  assumes "replace_confirmed st now fr token rr c d = Inr (d', new)"
  shows "\<exists>old rid dg s d1. find_token d token = Some old \<and> check_replacement_request now rr = Inr (dg, s) \<and>
      replaceable_source c (lower (rr_infohash rr)) d (Some old) = Inr rid \<and>
      select_pool st d now c (replacement_permit fr rr dg s old) = Inr new \<and>
      insert_permit new (supersede (pm_id old) d) = Inr d1 \<and> refresh_budget rid d1 = Inr d'"
  using assms unfolding replace_confirmed_def
  by (auto simp: err_simps split: prod.splits option.splits)

lemma replace_refines:
  assumes "replace_confirmed st now fr token rr c d = Inr (d', new)" and wf: "db_wf d"
  shows "evolves (permits d) (permits d') \<and> db_wf d'"
proof -
  from replace_confirmed_parts [OF assms(1)] obtain old rid dg s d1 where
      sel: "select_pool st d now c (replacement_permit fr rr dg s old) = Inr new"
    and ins: "insert_permit new (supersede (pm_id old) d) = Inr d1"
    and ref: "refresh_budget rid d1 = Inr d'" by blast
  note sup = supersede_refines [OF wf, of "pm_id old"]
  have new: "pm_state new = Authorized" "pm_result new = None"
    using replaced_fields [OF select_pool_replaced [OF sel]] by (simp_all add: replacement_permit_fields)
  have "evolves (permits d) (permits d1)"
    using insert_refines [OF ins new] sup supersede_tokens by blast
  moreover have "db_wf d1" using insert_permit_wf [OF ins] sup by blast
  ultimately show ?thesis
    using refresh_budget_frame [OF ref] refresh_budget_wf [OF ref] by simp
qed

lemma issue_probe_parts:
  assumes "issue_probe st now fr token pr c d = Inr (d', p)"
  shows "\<exists>dg parent s d1. check_probe_request now pr = Inr dg \<and>
      probe_parent_checks d (find_token d token) = Inr parent \<and>
      probe_candidate_checks pr d parent = Inr () \<and>
      select_pool st d now c (probe_permit fr pr dg s (fst parent)) = Inr p \<and>
      insert_permit p d = Inr d1 \<and> update_probe_budget (pm_reservation_id p) d1 = Inr d'"
  using assms unfolding issue_probe_def by (auto simp: err_simps)

lemma issue_probe_refines:
  assumes "issue_probe st now fr token pr c d = Inr (d', p)" and wf: "db_wf d"
  shows "evolves (permits d) (permits d') \<and> db_wf d'"
proof -
  from issue_probe_parts [OF assms(1)] obtain dg parent s d1 where
      "probe_parent_checks d (find_token d token) = Inr parent"
    and sel: "select_pool st d now c (probe_permit fr pr dg s (fst parent)) = Inr p"
    and ins: "insert_permit p d = Inr d1"
    and upd: "update_probe_budget (pm_reservation_id p) d1 = Inr d'" by blast
  have p: "pm_state p = Authorized" "pm_result p = None"
    using replaced_fields [OF select_pool_replaced [OF sel]] by (simp_all add: probe_permit_def)
  have "evolves (permits d) (permits d1)" using insert_refines [OF ins p evolves_refl] by simp
  moreover have "db_wf d1" using insert_permit_wf [OF ins wf] .
  ultimately show ?thesis
    using update_probe_budget_frame [OF upd] update_probe_budget_wf [OF upd] by simp
qed

lemma reject_refines:
  assumes "reject_probe token d = Inr d'" and wf: "db_wf d"
  shows "evolves (permits d) (permits d') \<and> db_wf d'"
proof -
  let ?d1 = "with_permits (\<lambda>q. pm_token q = token) (\<lambda>q. q\<lparr>pm_state := ProbeRejected\<rparr>) d"
  from assms(1) obtain rid where upd: "update_probe_budget rid ?d1 = Inr d'"
    by (auto simp: reject_probe_def err_simps split: if_splits)
  have "evolves (permits d) (permits ?d1)"
    unfolding with_permits_frame by (rule evolves_update) (simp add: advances_def permit_next_iff)
  moreover have "db_wf ?d1"
    using wf by (rule with_permits_wf) (simp_all add: state_change_slot)
  ultimately show ?thesis
    using update_probe_budget_frame [OF upd] update_probe_budget_wf [OF upd] by simp
qed

lemma promote_parts:
  assumes "promote_probe token d = Inr (d', p')"
  shows "\<exists>p parent d1 d2. find_token d token = Some p \<and> pm_state p = Confirmed \<and>
      pm_probe_parent_id p = Some parent \<and> row_count (primary_source parent) (permits d) = 1 \<and>
      find_open_reservation d (pm_reservation_id p) \<noteq> None \<and>
      require_probe_reservation d p = Inr () \<and>
      open_handover (pm_id p) parent
        (with_permits (primary_source parent) (\<lambda>q. q\<lparr>pm_state := Superseded\<rparr>) d) = Inr d1 \<and>
      detach_probe token d1 = Inr d2 \<and> update_probe_budget (pm_reservation_id p) d2 = Inr d' \<and>
      p' = p\<lparr>pm_probe_parent_id := None\<rparr>"
proof -
  from assms obtain p where p: "find_token d token = Some p"
    by (auto simp: promote_probe_def err_simps)
  moreover from assms p obtain parent where "pm_state p = Confirmed" "pm_probe_parent_id p = Some parent"
    by (cases "pm_state p"; cases "pm_probe_parent_id p") (auto simp: promote_probe_def)
  ultimately show ?thesis using assms by (auto simp: promote_probe_def err_simps)
qed

lemma open_handover_frame:
  assumes "open_handover i j d = Inr d'"
  shows "permits d' = permits d" and "reservations d' = reservations d" and "requests d' = requests d"
    and "operations d' = operations d"
    and "handovers d' = handovers d @ [\<lparr>ho_candidate_id = i, ho_parent_id = j, ho_state = HoPending\<rparr>]"
  using assms by (auto simp: open_handover_def split: if_splits)

lemma db_wf_frame:
  "db_wf d \<Longrightarrow> permits d' = permits d \<Longrightarrow> requests d' = requests d \<Longrightarrow>
   reservations d' = reservations d \<Longrightarrow> operations d' = operations d \<Longrightarrow> db_wf d'"
  by (simp add: db_wf_def)

lemma detach_refines:
  assumes "detach_probe token d = Inr d'" and wf: "db_wf d"
  shows "permits d' = update_rows (\<lambda>q. pm_token q = token) (\<lambda>q. q\<lparr>pm_probe_parent_id := None\<rparr>) (permits d)"
    and "db_wf d'"
proof -
  let ?ps = "update_rows (\<lambda>q. pm_token q = token) (\<lambda>q. q\<lparr>pm_probe_parent_id := None\<rparr>) (permits d)"
  from assms(1) have u: "slots_unique ?ps" and d': "d' = d\<lparr>permits := ?ps\<rparr>"
    by (auto simp: detach_probe_def Let_def split: if_splits)
  show "permits d' = ?ps" by (simp add: d')
  have "permits_wf ?ps" using u wf by (simp add: permits_wf_def db_wf_def map_update_rows)
  with wf show "db_wf d'" unfolding d' by (rule db_wf_set_permits)
qed

text \<open>Two updates in one transaction: a row goes through both.\<close>

lemma evolves_update2:
  assumes "\<And>p. p \<in> set ps \<Longrightarrow> advances p (g (f p))"
  shows "evolves ps (map g (map f ps))"
proof -
  have "\<exists>q\<in>set (map g (map f ps)). advances p q" if "p \<in> set ps" for p
    using assms [OF that] that by auto
  moreover have "\<exists>p\<in>set ps. advances p q" if "q \<in> set (map g (map f ps))" for q
    using assms that by auto
  ultimately show ?thesis by (simp add: evolves_def)
qed

lemma promote_refines:
  assumes "promote_probe token d = Inr (d', p')" and wf: "db_wf d"
  shows "evolves (permits d) (permits d') \<and> db_wf d'"
proof -
  from promote_parts [OF assms(1)] obtain p parent d1 d2 where
      ho: "open_handover (pm_id p) parent
        (with_permits (primary_source parent) (\<lambda>q. q\<lparr>pm_state := Superseded\<rparr>) d) = Inr d1"
    and det: "detach_probe token d1 = Inr d2"
    and upd: "update_probe_budget (pm_reservation_id p) d2 = Inr d'"
    and "find_token d token = Some p" by blast
  have "db_wf (with_permits (primary_source parent) (\<lambda>q. q\<lparr>pm_state := Superseded\<rparr>) d)"
    using wf by (rule with_permits_wf) (simp_all add: state_change_slot)
  then have wf1: "db_wf d1" by (rule db_wf_frame) (simp_all add: open_handover_frame [OF ho])
  note dt = detach_refines [OF det wf1]
  have "permits d2 = map (\<lambda>q. if pm_token q = token then q\<lparr>pm_probe_parent_id := None\<rparr> else q)
      (map (\<lambda>q. if primary_source parent q then q\<lparr>pm_state := Superseded\<rparr> else q) (permits d))"
    using dt(1) open_handover_frame(1) [OF ho] by (simp add: update_rows_def)
  then have "evolves (permits d) (permits d2)"
    by (simp only:) (rule evolves_update2, simp add: advances_def permit_next_iff primary_source_def)
  then show ?thesis
    using update_probe_budget_frame [OF upd] update_probe_budget_wf [OF upd dt(2)] by simp
qed

lemma complete_handover_refines:
  assumes "complete_handover token d = Inr d'" and wf: "db_wf d"
  shows "evolves (permits d) (permits d') \<and> db_wf d'"
proof -
  let ?d1 = "d\<lparr>handovers := update_rows
                   (\<lambda>h. exists_row (\<lambda>p. pm_id p = ho_candidate_id h \<and> pm_token p = token) (permits d))
                   (\<lambda>h. h\<lparr>ho_state := HoComplete\<rparr>) (handovers d)\<rparr>"
  have wf1: "db_wf ?d1" by (rule db_wf_frame [OF wf]) simp_all
  from assms(1) have "d' = ?d1 \<or> (\<exists>rid. update_probe_budget rid ?d1 = Inr d')"
    by (auto simp: complete_handover_def Let_def split: option.splits)
  then show ?thesis
  proof
    assume "d' = ?d1"
    with wf1 show ?thesis by simp
  next
    assume "\<exists>rid. update_probe_budget rid ?d1 = Inr d'"
    then obtain rid where u: "update_probe_budget rid ?d1 = Inr d'" ..
    from update_probe_budget_frame [OF u] update_probe_budget_wf [OF u wf1] show ?thesis by simp
  qed
qed

text \<open>Binding a pack supersedes only sources its own checks found confirmed.\<close>

lemma supersede_set_refines:
  assumes "db_wf d"
  shows "evolves (permits d) (permits (with_permits (\<lambda>q. pm_id q \<in> X \<and> pm_state q = Confirmed)
            (\<lambda>q. q\<lparr>pm_state := Superseded\<rparr>) d)) \<and>
         db_wf (with_permits (\<lambda>q. pm_id q \<in> X \<and> pm_state q = Confirmed)
            (\<lambda>q. q\<lparr>pm_state := Superseded\<rparr>) d)"
proof
  show "evolves (permits d) (permits (with_permits (\<lambda>q. pm_id q \<in> X \<and> pm_state q = Confirmed)
            (\<lambda>q. q\<lparr>pm_state := Superseded\<rparr>) d))"
    unfolding with_permits_frame by (rule evolves_update) (simp add: advances_def permit_next_iff)
  show "db_wf (with_permits (\<lambda>q. pm_id q \<in> X \<and> pm_state q = Confirmed)
            (\<lambda>q. q\<lparr>pm_state := Superseded\<rparr>) d)"
    using assms by (rule with_permits_wf) (simp_all add: state_change_slot)
qed

definition bound_db :: "permit \<Rightarrow> bindings \<Rightarrow> permit list \<Rightarrow> db \<Rightarrow> db" where
  "bound_db parent bs olds d =
     (let d1 = with_permits (\<lambda>q. pm_id q \<in> pm_id ` set olds \<and> pm_state q = Confirmed)
                 (\<lambda>q. q\<lparr>pm_state := Superseded\<rparr>) d
      in d1\<lparr>pack_episodes := insert_bindings (pm_id parent) bs (pack_episodes d1)\<rparr>)"

lemma bind_season_pack_parts:
  assumes "bind_season_pack st now token bs tokens c d = Inr d'"
  shows "\<exists>parent r olds. find_token d token = Some parent \<and>
      find_open_reservation d (pm_reservation_id parent) = Some r \<and>
      validate_pack_bindings st parent bs = Inr () \<and>
      (case c of
         Some c \<Rightarrow> if tokens = [] then Inr []
                   else validate_pack_replacements st now d parent bs tokens c
       | None \<Rightarrow> Inr []) = Inr olds \<and>
      (stored_bindings d (pm_id parent) = [] \<or> same_bindings (stored_bindings d (pm_id parent)) bs) \<and>
      (\<forall>sc\<in>fst ` set bs. \<forall>q\<in>set (scope_holders d parent sc). pm_id q \<in> pm_id ` set olds) \<and>
      (\<forall>q\<in>set (permits d). pm_infohash q = pm_infohash parent \<longrightarrow> pm_id q \<noteq> pm_id parent \<longrightarrow> \<not> live q) \<and>
      (if olds \<noteq> [] then update_probe_budget (pm_reservation_id parent) (bound_db parent bs olds d) = Inr d'
       else d' = bound_db parent bs olds d)"
proof -
  note unf = bind_season_pack_def Let_def err_simps
  from assms obtain parent r where p: "find_token d token = Some parent"
      "find_open_reservation d (pm_reservation_id parent) = Some r"
    and pp: "pack_parent d token = Some (parent, r)"
    by (auto simp: unf pack_parent_def split: if_splits)
  from assms p pp show ?thesis
    unfolding unf
    by (simp add: err_simps bound_db_def Let_def list_all_iff exists_row_iff split: if_splits)
       blast+
qed

lemma bind_refines:
  assumes "bind_season_pack st now token bs tokens c d = Inr d'" and wf: "db_wf d"
  shows "evolves (permits d) (permits d') \<and> db_wf d'"
proof -
  from bind_season_pack_parts [OF assms(1)] obtain parent olds where
      "find_token d token = Some parent" and
      out: "d' = bound_db parent bs olds d \<or>
            update_probe_budget (pm_reservation_id parent) (bound_db parent bs olds d) = Inr d'"
    by (metis (no_types))
  note sup = supersede_set_refines [OF wf, of "pm_id ` set olds"]
  have ev: "evolves (permits d) (permits (bound_db parent bs olds d))"
    using sup by (simp add: bound_db_def Let_def)
  have wf1: "db_wf (bound_db parent bs olds d)"
    unfolding bound_db_def Let_def by (rule db_wf_frame [OF conjunct2 [OF sup]]) simp_all
  from out show ?thesis
  proof
    assume "d' = bound_db parent bs olds d"
    with ev wf1 show ?thesis by simp
  next
    assume u: "update_probe_budget (pm_reservation_id parent) (bound_db parent bs olds d) = Inr d'"
    from update_probe_budget_frame [OF u] update_probe_budget_wf [OF u wf1] ev show ?thesis by simp
  qed
qed

end
