(* ===== verification/ReservationFacts.thy ===== *)
theory ReservationFacts
  imports Reservations PermitRefinement
begin

text \<open>
  What the reservation repository guarantees: its transactions keep the keys, an accepted
  reservation fits the disk, a cancelled one leaves no usable permit, and imports exclude
  each other.  Each import operation acts element by element on the states of the two
  import tables, which is how the exclusion invariant is proved for all of them.
\<close>

section \<open>Cancellation\<close>

lemma set_request_state_frame [simp]:
  "permits (set_request_state rid s now d) = permits d"
  "reservations (set_request_state rid s now d) = reservations d"
  "operations (set_request_state rid s now d) = operations d"
  "tombstones (set_request_state rid s now d) = tombstones d"
  by (simp_all add: set_request_state_def)

lemma image_update_rows:
  "(\<And>r. k (f r) = k r) \<Longrightarrow> k ` set (update_rows P f rows) = k ` set rows"
  by (metis map_update_rows set_map)

lemma set_request_state_wf: "db_wf d \<Longrightarrow> db_wf (set_request_state rid s now d)"
  by (simp add: db_wf_def set_request_state_def rq_set_state.keys_kept rq_set_state_source.keys_kept
      image_update_rows)

lemma set_reservation_state_wf:
  assumes "db_wf d"
  shows "db_wf (d\<lparr>reservations := update_rows P (\<lambda>r. r\<lparr>rs_state := s\<rparr>) (reservations d)\<rparr>)"
proof -
  have "\<forall>r\<in>set (update_rows P (\<lambda>r. r\<lparr>rs_state := s\<rparr>) (reservations d)).
      rs_request_id r \<in> rq_id ` set (requests d) \<and> 0 \<le> rs_budget_bytes r \<and> 0 \<le> rs_allocated_bytes r"
    using assms by (auto simp: db_wf_def set_update_rows)
  with assms show ?thesis
    by (simp add: db_wf_def rs_set_state.keys_kept rs_set_state_media.keys_kept)
qed

definition revoked_db :: "string \<Rightarrow> db \<Rightarrow> db" where
  "revoked_db rid d =
     (with_permits (\<lambda>p. pm_reservation_id p = Some rid \<and> pm_state p = Authorized)
        (\<lambda>p. p\<lparr>pm_state := Revoked\<rparr>) d)
     \<lparr>reservations := update_rows (\<lambda>x. rs_id x = rid) (\<lambda>x. x\<lparr>rs_state := RsCancelled\<rparr>) (reservations d)\<rparr>"

lemma cancel_unstarted_cases:
  assumes "cancel_unstarted now rid d = (d', a)"
  obtains "d' = d" "a \<in> {NotFound, AlreadyCancelled, NotCancellable}"
    | r where "a = DownloadStarted" "find_reservation d rid = Some r"
        "d' = set_request_state (rs_request_id r) RqCancelRequested now d"
        "\<exists>p\<in>set (permits d). pm_reservation_id p = Some rid \<and> pm_state p \<notin> {Authorized, Revoked}"
    | r where "a = CancelDone" "find_reservation d rid = Some r"
        "d' = set_request_state (rs_request_id r) RqCancelled now (revoked_db rid d)"
        "\<forall>p\<in>set (permits d). pm_reservation_id p = Some rid \<longrightarrow> pm_state p \<in> {Authorized, Revoked}"
proof (cases "find_reservation d rid")
  case None
  with assms that(1) show ?thesis by (simp add: cancel_unstarted_def)
next
  case (Some r)
  consider "rs_state r \<notin> {RsReserved, RsDownloading}"
    | "rs_state r \<in> {RsReserved, RsDownloading}" by blast
  then show ?thesis
  proof cases
    case 1
    with Some assms that(1) show ?thesis by (auto simp: cancel_unstarted_def split: if_splits)
  next
    case 2
    with Some assms that(2,3) show ?thesis
      by (auto simp: cancel_unstarted_def Let_def exists_row_iff revoked_db_def with_permits_frame
          split: if_splits)
  qed
qed

lemma revoked_db_refines:
  assumes "db_wf d"
  shows "evolves (permits d) (permits (revoked_db rid d)) \<and> db_wf (revoked_db rid d)"
proof -
  let ?d1 = "with_permits (\<lambda>p. pm_reservation_id p = Some rid \<and> pm_state p = Authorized)
        (\<lambda>p. p\<lparr>pm_state := Revoked\<rparr>) d"
  have ev: "evolves (permits d) (permits ?d1)"
    unfolding with_permits_frame by (rule evolves_update) (simp add: advances_def permit_next_iff)
  have wf1: "db_wf ?d1" using assms by (rule with_permits_wf) (simp_all add: state_change_slot)
  have "db_wf (revoked_db rid d)"
    using set_reservation_state_wf [OF wf1, of "\<lambda>x. rs_id x = rid" RsCancelled]
    by (simp add: revoked_db_def)
  with ev show ?thesis by (simp add: revoked_db_def)
qed

lemma cancel_unstarted_refines:
  assumes "cancel_unstarted now rid d = (d', a)" and wf: "db_wf d"
  shows "evolves (permits d) (permits d') \<and> db_wf d'"
  using assms(1)
proof (cases rule: cancel_unstarted_cases)
  case 1
  with wf show ?thesis by simp
next
  case (2 r)
  with wf show ?thesis by (simp add: set_request_state_wf)
next
  case (3 r)
  with revoked_db_refines [OF wf] show ?thesis by (simp add: set_request_state_wf)
qed

lemma cancel_done_revokes:
  assumes "cancel_unstarted now rid d = (d', CancelDone)"
    and "p \<in> set (permits d')" and "pm_reservation_id p = Some rid"
  shows "pm_state p = Revoked"
  using assms(1)
proof (cases rule: cancel_unstarted_cases)
  case (3 r)
  from assms(2) 3 obtain q where q: "q \<in> set (permits d)"
      "p = (if pm_reservation_id q = Some rid \<and> pm_state q = Authorized
            then q\<lparr>pm_state := Revoked\<rparr> else q)"
    by (auto simp: revoked_db_def set_update_rows)
  with 3(4) assms(3) show ?thesis by (auto split: if_splits)
qed simp_all

lemma cancel_keeps_row:
  assumes "cancel_unstarted now rid d = (d', a)" and "p \<in> set (permits d)"
  shows "\<exists>q\<in>set (permits d'). pm_token q = pm_token p \<and> pm_reservation_id q = pm_reservation_id p"
  using assms(1)
proof (cases rule: cancel_unstarted_cases)
  case (3 r)
  have "(if pm_reservation_id p = Some rid \<and> pm_state p = Authorized then p\<lparr>pm_state := Revoked\<rparr> else p)
      \<in> set (permits d')"
    using assms(2) unfolding 3(3) set_request_state_frame revoked_db_def by (simp add: set_update_rows)
  then show ?thesis by (rule bexI [rotated]) simp
qed (use assms(2) in auto)

lemma claim_refuses_dead:
  assumes "\<And>p. p \<in> set (permits d) \<Longrightarrow> pm_token p = token \<Longrightarrow> pm_state p \<notin> {Authorized, Confirmed}"
  shows "\<exists>e. authorize_claim st now token infohash destination metadata d = Inl e"
proof (cases "authorize_claim st now token infohash destination metadata d")
  case (Inr out)
  from authorize_claim_parts [OF this] obtain p where
      p: "find_token d token = Some p" and c: "claim_row token p d = Inr out" by blast
  from p assms have "pm_state p \<notin> {Authorized, Confirmed}" by (auto dest: find_token_Some)
  with c show ?thesis by (cases "pm_result p"; cases "pm_state p") (auto simp: claim_row_def)
qed simp

text \<open>A cancellation leaves the rows of the other reservations alone.\<close>

lemma cancel_unstarted_others:
  assumes "cancel_unstarted now rid d = (d', a)"
  shows "filter (\<lambda>r. rs_id r \<noteq> rid) (reservations d') = filter (\<lambda>r. rs_id r \<noteq> rid) (reservations d)"
    and "filter (\<lambda>p. pm_reservation_id p \<noteq> Some rid) (permits d') =
         filter (\<lambda>p. pm_reservation_id p \<noteq> Some rid) (permits d)"
proof -
  have 1: "filter (\<lambda>r. rs_id r \<noteq> rid) (update_rows (\<lambda>x. rs_id x = rid) (\<lambda>x. x\<lparr>rs_state := s\<rparr>) rows) =
      filter (\<lambda>r. rs_id r \<noteq> rid) rows" for s rows
    by (induction rows) (auto simp: update_rows_def)
  have 2: "filter (\<lambda>p. pm_reservation_id p \<noteq> Some rid)
        (update_rows (\<lambda>p. pm_reservation_id p = Some rid \<and> pm_state p = Authorized)
          (\<lambda>p. p\<lparr>pm_state := Revoked\<rparr>) rows) = filter (\<lambda>p. pm_reservation_id p \<noteq> Some rid) rows" for rows
    by (induction rows) (auto simp: update_rows_def)
  from assms show "filter (\<lambda>r. rs_id r \<noteq> rid) (reservations d') = filter (\<lambda>r. rs_id r \<noteq> rid) (reservations d)"
    by (cases rule: cancel_unstarted_cases) (simp_all add: revoked_db_def 1)
  from assms show "filter (\<lambda>p. pm_reservation_id p \<noteq> Some rid) (permits d') =
         filter (\<lambda>p. pm_reservation_id p \<noteq> Some rid) (permits d)"
    by (cases rule: cancel_unstarted_cases) (simp_all add: revoked_db_def 2)
qed

lemma reconcile_keeps_approved:
  assumes "reconcile_cancellations now status approved xs d = (d', n)"
    and "\<And>rid src. (rid, src) \<in> set xs \<Longrightarrow> rid = k \<Longrightarrow> src \<in> set approved"
  shows "filter (\<lambda>r. rs_id r = k) (reservations d') = filter (\<lambda>r. rs_id r = k) (reservations d)"
  using assms
proof (induction xs arbitrary: d d' n)
  case Nil
  then show ?case by simp
next
  case (Cons x xs)
  obtain rid src where x: "x = (rid, src)" by (cases x)
  from Cons.prems(2) have side: "\<And>rid src. (rid, src) \<in> set xs \<Longrightarrow> rid = k \<Longrightarrow> src \<in> set approved"
    by auto
  note IH = Cons.IH [OF _ side]
  show ?case
  proof (cases "src \<in> set approved \<or> (case status src of None \<Rightarrow> False | Some s \<Rightarrow> s \<notin> {1, 3})")
    case True
    with Cons.prems(1) IH show ?thesis by (auto simp: x split: if_splits)
  next
    case False
    obtain d1 a where c: "cancel_unstarted now rid d = (d1, a)" by fastforce
    obtain d2 m where r: "reconcile_cancellations now status approved xs d1 = (d2, m)" by fastforce
    from False Cons.prems(1) c r have d': "d' = d2" by (auto simp: x)
    from False Cons.prems(2) [of rid src] have "rid \<noteq> k" by (auto simp: x)
    then have sub: "filter (\<lambda>r. rs_id r = k) (filter (\<lambda>r. rs_id r \<noteq> rid) rows) =
        filter (\<lambda>r. rs_id r = k) rows" for rows
      by (induction rows) auto
    have "filter (\<lambda>r. rs_id r = k) (reservations d1) = filter (\<lambda>r. rs_id r = k) (reservations d)"
      using arg_cong [OF cancel_unstarted_others(1) [OF c], of "filter (\<lambda>r. rs_id r = k)"]
      unfolding sub .
    with IH [OF r] d' show ?thesis by simp
  qed
qed

section \<open>Reserving\<close>

definition committed_bytes :: "db \<Rightarrow> int" where
  "committed_bytes d =
     sum_where (\<lambda>r. committed_state (rs_state r)) (\<lambda>r. max 0 (rs_budget_bytes r - rs_allocated_bytes r))
       (reservations d)"

lemma emap_total: "emap (\<lambda>x. Inr (f x)) xs = Inr (map f xs)"
  by (induction xs) auto

lemma commitments_total:
  "commitments d = Inr (map (\<lambda>r. max 0 (rs_budget_bytes r - rs_allocated_bytes r))
                          (filter (\<lambda>r. committed_state (rs_state r)) (reservations d)))"
  by (simp add: commitments_def remaining_commitment_ints emap_total)

lemma max_0_max_0 [simp]: "max 0 (max 0 (x::int)) = max 0 x"
  by simp

lemma insert_request_frame:
  assumes "insert_request now a d = Inr d'"
  shows "permits d' = permits d" and "reservations d' = reservations d" and "operations d' = operations d"
    and "tombstones d' = tombstones d"
  using assms by (auto simp: insert_request_def split: if_splits)

lemma exists_key: "exists_row (\<lambda>r. k r = v) rows \<longleftrightarrow> v \<in> k ` set rows"
  by (auto simp: exists_row_iff image_iff)

lemma no_key: "(\<forall>r\<in>set rows. k r \<noteq> v) \<longleftrightarrow> v \<notin> k ` set rows"
  by (auto simp: image_iff)

lemma insert_request_wf: "insert_request now a d = Inr d' \<Longrightarrow> db_wf d \<Longrightarrow> db_wf d'"
  by (auto simp: insert_request_def db_wf_def exists_key split: if_splits)

lemma insert_operation_iff:
  "insert_operation x d = Inr d' \<longleftrightarrow>
     (\<forall>y\<in>set (operations d). op_id y \<noteq> op_id x \<and> op_idempotency_key y \<noteq> op_idempotency_key x) \<and>
     d' = d\<lparr>operations := operations d @ [x]\<rparr>"
  by (auto simp: insert_operation_def exists_row_iff)

lemma insert_operation_wf: "insert_operation x d = Inr d' \<Longrightarrow> db_wf d \<Longrightarrow> db_wf d'"
  by (auto simp: insert_operation_iff db_wf_def ball_conj_distrib no_key)

definition new_reservation :: "string \<Rightarrow> reserve_args \<Rightarrow> reservation_row" where
  "new_reservation rid a =
     \<lparr>rs_id = rid, rs_request_id = ra_request_id a, rs_media_key = ra_media_key a,
      rs_filesystem_id = ra_filesystem_id a, rs_budget_bytes = ra_budget_bytes a,
      rs_allocated_bytes = 0, rs_state = RsReserved\<rparr>"

lemma insert_reservation_iff:
  "insert_reservation rid a d = Inr d' \<longleftrightarrow>
     (\<forall>r\<in>set (reservations d). rs_id r \<noteq> rid \<and> rs_media_key r \<noteq> ra_media_key a) \<and>
     find_request d (ra_request_id a) \<noteq> None \<and> 0 \<le> ra_budget_bytes a \<and>
     d' = d\<lparr>reservations := reservations d @ [new_reservation rid a]\<rparr>"
  by (auto simp: insert_reservation_def exists_row_iff new_reservation_def)

lemma insert_reservation_wf:
  assumes "insert_reservation rid a d = Inr d'" and "db_wf d"
  shows "db_wf d'"
proof -
  from assms(1) obtain q where "find_row (\<lambda>q. rq_id q = ra_request_id a) (requests d) = Some q"
    by (auto simp: insert_reservation_iff find_request_def)
  from find_row_Some [OF this] have "ra_request_id a \<in> rq_id ` set (requests d)" by force
  with assms show ?thesis
    by (auto simp: insert_reservation_iff db_wf_def new_reservation_def ball_conj_distrib no_key)
qed

lemma reserve_accepts:
  assumes "reserve now new_id new_op a d = Inr (d', res)" and "res_accepted res" and "res_reason res = None"
  shows "\<exists>d1 d2 d3 oper. insert_request now a d = Inr d1 \<and> \<not> tombstoned d (ra_media_key a) \<and>
     existing_reservation a d1 = None \<and> ra_filesystem_id a \<noteq> [] \<and> 0 \<le> ra_budget_bytes a \<and>
     ra_budget_bytes a \<le> (if ra_total_bytes a \<le> 0 then 0 else max 0 (ra_free_bytes a - committed_bytes d)) \<and>
     insert_reservation new_id a d1 = Inr d2 \<and> insert_operation oper d2 = Inr d3 \<and>
     d' = set_request_state (ra_request_id a) RqReserved now d3 \<and> res_reservation_id res = Some new_id"
proof -
  from assms have txn: "reserve_txn now new_id new_op a d = Inr (d', res)"
    and g: "ra_filesystem_id a \<noteq> []" "0 \<le> ra_budget_bytes a"
    by (auto simp: reserve_def refused_def split: if_splits sum.splits err.splits option.splits)
  from txn assms(2,3) obtain d1 where
      t: "\<not> tombstoned d (ra_media_key a)" and d1: "insert_request now a d = Inr d1"
    and ex: "existing_reservation a d1 = None"
    by (auto simp: reserve_txn_def refused_def err_simps split: if_splits option.splits)
  let ?cs = "map (\<lambda>r. max 0 (rs_budget_bytes r - rs_allocated_bytes r))
      (filter (\<lambda>r. committed_state (rs_state r)) (reservations d1))"
  have "sum_list (map (max 0) ?cs) = committed_bytes d"
    by (simp add: committed_bytes_def sum_where_def insert_request_frame [OF d1] o_def)
  then have av: "available_bytes (JInt (ra_free_bytes a)) (JInt (ra_total_bytes a)) (map JInt ?cs) =
      Inr (if ra_total_bytes a \<le> 0 then 0 else max 0 (ra_free_bytes a - committed_bytes d))"
    by (simp only: available_bytes_ints)
  have "reserve_txn now new_id new_op a d =
      (if ra_budget_bytes a > (if ra_total_bytes a \<le> 0 then 0 else max 0 (ra_free_bytes a - committed_bytes d))
       then Inr (set_request_state (ra_request_id a) RqWaitingSpace now d1, refused ''waiting_space'')
       else ebind (insert_reservation new_id a d1) (\<lambda>d2.
            ebind (insert_operation
                     \<lparr>op_id = new_op, op_idempotency_key = operation_key a, op_kind = ''reserve'',
                      op_payload = [(''budget_bytes'', JInt (ra_budget_bytes a)),
                                    (''filesystem_id'', JStr (ra_filesystem_id a)),
                                    (''media_key'', JStr (ra_media_key a)),
                                    (''request_id'', JStr (ra_request_id a))],
                      op_state = ''authorized'', op_updated_at = now\<rparr> d2) (\<lambda>d3.
              Inr (set_request_state (ra_request_id a) RqReserved now d3,
                   \<lparr>res_accepted = True, res_reservation_id = Some new_id,
                    res_operation_id = Some new_op, res_reason = None\<rparr>))))"
    using t d1 ex by (simp only: reserve_txn_def commitments_total ebind.simps av if_False option.case)
  with txn t d1 ex g assms(2,3) show ?thesis
    by (auto simp: refused_def err_simps not_less split: if_splits)
qed

lemma committed_bytes_insert:
  "insert_reservation rid a d = Inr d' \<Longrightarrow>
   committed_bytes d' = committed_bytes d + max 0 (ra_budget_bytes a)"
  by (auto simp: insert_reservation_iff committed_bytes_def new_reservation_def)

lemma committed_bytes_cong: "reservations d' = reservations d \<Longrightarrow> committed_bytes d' = committed_bytes d"
  by (simp add: committed_bytes_def)

lemma reserve_commits:
  assumes "reserve now new_id new_op a d = Inr (d', res)" and "res_accepted res" and "res_reason res = None"
  shows "committed_bytes d' = committed_bytes d + ra_budget_bytes a \<and> 0 \<le> ra_budget_bytes a \<and>
         (0 < ra_budget_bytes a \<longrightarrow> committed_bytes d' \<le> ra_free_bytes a)"
proof -
  from reserve_accepts [OF assms] obtain d1 d2 d3 oper where
      d1: "insert_request now a d = Inr d1" and d2: "insert_reservation new_id a d1 = Inr d2"
    and d3: "insert_operation oper d2 = Inr d3" and b: "0 \<le> ra_budget_bytes a"
      "ra_budget_bytes a \<le> (if ra_total_bytes a \<le> 0 then 0 else max 0 (ra_free_bytes a - committed_bytes d))"
    and d': "d' = set_request_state (ra_request_id a) RqReserved now d3" by blast
  have "committed_bytes d' = committed_bytes d2"
    using d3 by (intro committed_bytes_cong) (auto simp: d' insert_operation_iff)
  also have "\<dots> = committed_bytes d1 + max 0 (ra_budget_bytes a)" by (rule committed_bytes_insert [OF d2])
  also have "committed_bytes d1 = committed_bytes d"
    by (rule committed_bytes_cong) (rule insert_request_frame(2) [OF d1])
  finally show ?thesis using b by (auto split: if_splits)
qed

text \<open>Every outcome of \<open>reserve\<close> keeps the keys and touches no permit.\<close>

lemma reserve_txn_frame:
  assumes "reserve_txn now new_id new_op a d = Inr (d', res)"
  shows "permits d' = permits d \<and> (db_wf d \<longrightarrow> db_wf d')"
proof (cases "tombstoned d (ra_media_key a)")
  case True
  with assms show ?thesis by (simp add: reserve_txn_def)
next
  case False
  with assms obtain d1 where d1: "insert_request now a d = Inr d1"
    by (auto simp: reserve_txn_def err_simps)
  note wf1 = insert_request_wf [OF d1] and fr1 = insert_request_frame [OF d1]
  consider "d' = d1" | "d' = set_request_state (ra_request_id a) RqWaitingSpace now d1"
    | d2 d3 oper where "insert_reservation new_id a d1 = Inr d2" "insert_operation oper d2 = Inr d3"
        "d' = set_request_state (ra_request_id a) RqReserved now d3"
    using assms False d1 by (auto simp: reserve_txn_def err_simps split: option.splits if_splits)
  then show ?thesis
  proof cases
    case 3
    have "permits d3 = permits d"
      using 3(1,2) fr1 by (auto simp: insert_reservation_iff insert_operation_iff)
    moreover have "db_wf d \<longrightarrow> db_wf d3"
      using wf1 insert_reservation_wf [OF 3(1)] insert_operation_wf [OF 3(2)] by blast
    ultimately show ?thesis by (simp add: 3(3) set_request_state_wf)
  qed (simp_all add: wf1 fr1 set_request_state_wf)
qed

lemma reserve_frame:
  assumes "reserve now new_id new_op a d = Inr (d', res)"
  shows "permits d' = permits d \<and> (db_wf d \<longrightarrow> db_wf d')"
proof -
  from assms have "d' = d \<or> reserve_txn now new_id new_op a d = Inr (d', res)"
    by (auto simp: reserve_def split: if_splits sum.splits err.splits option.splits)
  with reserve_txn_frame show ?thesis by blast
qed

text \<open>Repeating an accepted reservation finds it again.\<close>

lemma find_request_set_state:
  "find_request (set_request_state rid s now d) k =
     map_option (\<lambda>q. if rq_id q = rid then q\<lparr>rq_state := s, rq_updated_at := now\<rparr> else q) (find_request d k)"
  by (simp add: find_request_def set_request_state_def rq_set_state.find_updated)

lemma existing_reservation_set_state:
  "existing_reservation a (set_request_state rid s now d) = existing_reservation a d"
proof -
  have "(case find_request (set_request_state rid s now d) k of
           None \<Rightarrow> False | Some q \<Rightarrow> rq_source_id q = src \<or> b) =
        (case find_request d k of None \<Rightarrow> False | Some q \<Rightarrow> rq_source_id q = src \<or> b)" for k src b
    by (cases "find_request d k") (simp_all add: find_request_set_state)
  then show ?thesis by (simp add: existing_reservation_def)
qed

lemma existing_reservation_insert:
  assumes "existing_reservation a d = None" and "insert_reservation rid a d = Inr d'"
  shows "existing_reservation a d' = Some (new_reservation rid a)"
proof -
  from assms(2) have d': "d' = d\<lparr>reservations := reservations d @ [new_reservation rid a]\<rparr>"
    and q: "find_request d (ra_request_id a) \<noteq> None" by (auto simp: insert_reservation_iff)
  then have "find_request d' = find_request d" by (simp add: find_request_def fun_eq_iff)
  with assms(1) q show ?thesis
    by (auto simp: d' existing_reservation_def find_row_append new_reservation_def)
qed

lemma existing_reservation_cong:
  "reservations d' = reservations d \<Longrightarrow> requests d' = requests d \<Longrightarrow>
   existing_reservation a d' = existing_reservation a d"
  by (simp add: existing_reservation_def find_request_def)

lemma reserve_again:
  assumes first: "reserve now new_id new_op a d = Inr (d', res)"
    and "res_accepted res" and "res_reason res = None"
  shows "\<exists>oper. reserve now2 id2 op2 a d' = Inr (d', \<lparr>res_accepted = True, res_reservation_id = Some new_id,
           res_operation_id = oper, res_reason = Some ''idempotent''\<rparr>)"
proof -
  from reserve_accepts [OF assms] obtain d1 d2 d3 oper where
      d1: "insert_request now a d = Inr d1" and t: "\<not> tombstoned d (ra_media_key a)"
    and ex: "existing_reservation a d1 = None" and g: "ra_filesystem_id a \<noteq> []" "0 \<le> ra_budget_bytes a"
    and d2: "insert_reservation new_id a d1 = Inr d2" and d3: "insert_operation oper d2 = Inr d3"
    and d': "d' = set_request_state (ra_request_id a) RqReserved now d3" by blast
  have r3: "reservations d3 = reservations d2" "requests d3 = requests d2" "tombstones d3 = tombstones d2"
    using d3 by (auto simp: insert_operation_iff)
  have "tombstones d' = tombstones d"
    using d2 insert_request_frame(4) [OF d1] r3(3) by (auto simp: d' insert_reservation_iff)
  with t have t': "\<not> tombstoned d' (ra_media_key a)" by (simp add: tombstoned_def)
  have "rq_source_id ` set (requests d') = rq_source_id ` set (requests d1)"
    using d2 r3(2) by (auto simp: d' insert_reservation_iff set_request_state_def image_update_rows)
  moreover have "ra_source_id a \<in> rq_source_id ` set (requests d1)"
    using d1 by (auto simp: insert_request_def exists_key split: if_splits)
  ultimately have q': "insert_request now2 a d' = Inr d'"
    by (simp add: insert_request_def exists_key)
  have "existing_reservation a d' = Some (new_reservation new_id a)"
    using existing_reservation_insert [OF ex d2]
    by (simp add: d' existing_reservation_set_state existing_reservation_cong [OF r3(1,2)])
  with t' q' g show ?thesis
    by (auto simp: reserve_def reserve_txn_def new_reservation_def)
qed

section \<open>Budgets recomputed from permits\<close>

lemma normalize_frame:
  assumes "normalize_verified_budgets d = Inr d'"
  shows "permits d' = permits d" and "db_wf d \<Longrightarrow> db_wf d'"
    and "r \<in> set (reservations d') \<Longrightarrow> open_state (rs_state r) \<Longrightarrow> rs_budget_bytes r = live_budget d' (rs_id r)"
proof -
  from assms have d': "d' = d\<lparr>reservations := update_rows (\<lambda>r. open_state (rs_state r))
                    (\<lambda>r. r\<lparr>rs_budget_bytes := live_budget d (rs_id r)\<rparr>) (reservations d)\<rparr>"
    and nn: "\<forall>r\<in>set (reservations d). open_state (rs_state r) \<longrightarrow> 0 \<le> live_budget d (rs_id r)"
    by (auto simp: normalize_verified_budgets_def exists_row_iff not_less split: if_splits)
  show "permits d' = permits d" by (simp add: d')
  then have lb: "live_budget d' = live_budget d" by (simp add: live_budget_def fun_eq_iff)
  show "rs_budget_bytes r = live_budget d' (rs_id r)" if "r \<in> set (reservations d')" "open_state (rs_state r)"
    using that by (auto simp: lb) (auto simp: d' set_update_rows split: if_splits)
  show "db_wf d'" if wf: "db_wf d"
  proof -
    have "\<forall>r\<in>set (reservations d'). rs_request_id r \<in> rq_id ` set (requests d) \<and>
        0 \<le> rs_budget_bytes r \<and> 0 \<le> rs_allocated_bytes r"
      using wf nn by (auto simp: d' db_wf_def set_update_rows)
    with wf show ?thesis by (simp add: d' db_wf_def map_update_rows)
  qed
qed

end
