(* ===== verification/ImportExclusion.thy ===== *)
theory ImportExclusion
  imports Reservations
begin

text \<open>
  Imports exclude each other.  A hardlink import that was accepted needs no space and does
  not block others; an import being dispatched and every copy import do.  The states of
  both import tables form one list, on which each operation of \<open>persistence/db.py\<close> only
  lowers elements or appends one.
\<close>

definition import_states :: "db \<Rightarrow> import_state list" where
  "import_states d = map mi_state (movie_imports d) @ map ei_state (episode_imports d)"

definition unfinished :: "import_state \<Rightarrow> bool" where
  "unfinished s = (s \<noteq> ImComplete)"

definition exclusive :: "import_state \<Rightarrow> bool" where
  "exclusive s = (s \<in> {ImDispatching, ImDispatchingCopy, ImAcceptedCopy})"

definition copying :: "import_state \<Rightarrow> bool" where
  "copying s = (s \<in> {ImDispatchingCopy, ImAcceptedCopy})"

lemmas import_kinds = unfinished_def exclusive_def copying_def

definition imports_exclusive :: "db \<Rightarrow> bool" where
  "imports_exclusive d \<longleftrightarrow>
     length (filter exclusive (import_states d)) \<le> 1 \<and>
     (list_ex copying (import_states d) \<longrightarrow> length (filter unfinished (import_states d)) \<le> 1)"

lemma import_pending_states:
  "import_pending copy_allowed d \<longleftrightarrow>
     list_ex (if copy_allowed then unfinished else exclusive) (import_states d)"
proof -
  have "import_blocks copy_allowed s = (if copy_allowed then unfinished else exclusive) s" for s
    by (cases s; cases copy_allowed) (simp_all add: import_blocks_def import_kinds)
  then show ?thesis
    by (auto simp: import_pending_def exists_row_def import_states_def list_ex_iff)
qed

text \<open>The order in which states are lowered: no step makes an import more exclusive.\<close>

definition lowers :: "import_state \<Rightarrow> import_state \<Rightarrow> bool" where
  "lowers s t \<longleftrightarrow> (unfinished t \<longrightarrow> unfinished s) \<and> (exclusive t \<longrightarrow> exclusive s) \<and> (copying t \<longrightarrow> copying s)"

lemma filter_lowers:
  "list_all2 lowers xs ys \<Longrightarrow> Q \<in> {unfinished, exclusive, copying} \<Longrightarrow>
   length (filter Q ys) \<le> length (filter Q xs)"
  by (induction rule: list_all2_induct) (auto simp: lowers_def)

lemma exclusive_lowers:
  assumes "list_all2 lowers (import_states d) (import_states d')" and "imports_exclusive d"
  shows "imports_exclusive d'"
proof -
  have *: "list_ex Q zs \<longleftrightarrow> filter Q zs \<noteq> []" for Q and zs :: "import_state list"
    by (induction zs) auto
  note le = filter_lowers [OF assms(1)]
  show ?thesis
    using le [of exclusive] le [of unfinished] le [of copying] assms(2)
    by (auto simp: imports_exclusive_def *)
qed

lemma lowers_update:
  "(\<And>r. P r \<Longrightarrow> lowers (k r) (k (f r))) \<Longrightarrow> list_all2 lowers (map k rows) (map k (update_rows P f rows))"
  by (induction rows) (auto simp: update_rows_def lowers_def)

lemma lowers_refl [simp]: "list_all2 lowers xs xs"
  by (induction xs) (auto simp: lowers_def)

lemma lowers_accepted: "lowers s (accepted_state s) \<or> s \<notin> {ImDispatching, ImDispatchingCopy}"
  by (cases s) (auto simp: lowers_def accepted_state_def import_kinds)

lemma lowers_complete: "lowers s ImComplete"
  by (simp add: lowers_def import_kinds)

text \<open>A claim appends one import, after the pending test.\<close>

definition insert_at :: "nat \<Rightarrow> 'a \<Rightarrow> 'a list \<Rightarrow> 'a list" where
  "insert_at i x xs = take i xs @ x # drop i xs"

lemma exclusive_insert:
  assumes "import_states d' = insert_at i (if copy_allowed then ImDispatchingCopy else ImDispatching) (import_states d)"
    and "\<not> import_pending copy_allowed d" and "imports_exclusive d"
  shows "imports_exclusive d'"
proof -
  have flt: "filter Q (insert_at i x xs) = filter Q (take i xs) @ (if Q x then [x] else []) @ filter Q (drop i xs)"
    for Q and x :: import_state and xs
    by (simp add: insert_at_def)
  have len: "length (filter Q (take i xs)) + length (filter Q (drop i xs)) = length (filter Q xs)"
    for Q and xs :: "import_state list"
    by (metis append_take_drop_id filter_append length_append)
  have none: "filter Q xs = [] \<longleftrightarrow> \<not> list_ex Q xs" for Q and xs :: "import_state list"
    by (induction xs) auto
  have mem: "list_ex Q (insert_at i x xs) \<longleftrightarrow> Q x \<or> list_ex Q xs" for Q and x :: import_state and xs
  proof -
    have "list_ex Q xs \<longleftrightarrow> list_ex Q (take i xs) \<or> list_ex Q (drop i xs)"
      by (metis append_take_drop_id list_ex_append)
    then show ?thesis by (auto simp: insert_at_def)
  qed
  show ?thesis
  proof (cases copy_allowed)
    case True
    with assms(2) have "filter unfinished (import_states d) = []"
      by (simp add: import_pending_states none)
    moreover from this have "filter exclusive (import_states d) = []"
      by (auto simp: filter_empty_conv import_kinds)
    ultimately show ?thesis
      using len [of unfinished "import_states d"] len [of exclusive "import_states d"] True
      by (simp add: imports_exclusive_def assms(1) flt import_kinds del: filter_append)
  next
    case False
    with assms(2) have e: "filter exclusive (import_states d) = []"
      by (simp add: import_pending_states none)
    then have "\<not> list_ex copying (import_states d)"
      by (auto simp: filter_empty_conv import_kinds list_ex_iff)
    with e False show ?thesis
      using len [of exclusive "import_states d"]
      by (simp add: imports_exclusive_def assms(1) flt mem copying_def exclusive_def del: filter_append)
  qed
qed

section \<open>The import operations as a transition system\<close>

datatype import_label =
    ClaimMovie string bool
  | ClaimEpisode string bool
  | RecordMovie string
  | RecordEpisode string
  | CompleteMovie string
  | CompleteEpisode string

inductive import_step :: "db \<Rightarrow> import_label \<Rightarrow> db \<Rightarrow> bool" where
  claim_movie: "claim_movie_import now rid copy d = (d', True) \<Longrightarrow> import_step d (ClaimMovie rid copy) d'"
| claim_episode: "claim_episode_import now pid copy d = (d', True) \<Longrightarrow> import_step d (ClaimEpisode pid copy) d'"
| record_movie: "import_step d (RecordMovie rid) (record_movie_import now rid cmd d)"
| record_episode: "import_step d (RecordEpisode pid) (record_episode_import now pid cmd d)"
| complete_movie: "import_step d (CompleteMovie rid) (complete_movie_import now rid d)"
| complete_episode: "import_step d (CompleteEpisode pid) (complete_episode_import now pid d)"

lemma claim_movie_accepted:
  assumes "claim_movie_import now rid copy d = (d', True)"
  shows "\<not> import_pending copy d"
    and "import_states d' = insert_at (length (movie_imports d))
           (if copy then ImDispatchingCopy else ImDispatching) (import_states d)"
  using assms
  by (auto simp: claim_movie_import_def import_states_def insert_at_def split: option.splits if_splits)

lemma claim_episode_accepted:
  assumes "claim_episode_import now pid copy d = (d', True)"
  shows "\<not> import_pending copy d"
    and "import_states d' = insert_at (length (import_states d))
           (if copy then ImDispatchingCopy else ImDispatching) (import_states d)"
  using assms
  by (auto simp: claim_episode_import_def import_states_def insert_at_def split: if_splits)

lemma complete_movie_states:
  "import_states (complete_movie_import now rid d) =
     map mi_state (update_rows (\<lambda>m. mi_reservation_id m = rid)
        (\<lambda>m. m\<lparr>mi_state := ImComplete, mi_updated_at := now\<rparr>) (movie_imports d)) @
     map ei_state (episode_imports d)"
  by (simp add: complete_movie_import_def Let_def import_states_def set_request_state_def split: option.splits)

lemma import_step_exclusive:
  assumes "import_step d l d'" and "imports_exclusive d"
  shows "imports_exclusive d'"
  using assms
proof (induction rule: import_step.induct)
  case (claim_movie now rid copy d d')
  from claim_movie_accepted [OF claim_movie(1)] claim_movie(2) show ?case by (metis exclusive_insert)
next
  case (claim_episode now pid copy d d')
  from claim_episode_accepted [OF claim_episode(1)] claim_episode(2) show ?case by (metis exclusive_insert)
next
  case (record_movie d rid now cmd)
  have "list_all2 lowers (import_states d) (import_states (record_movie_import now rid cmd d))"
    unfolding import_states_def record_movie_import_def
    by (intro list_all2_appendI) (use lowers_accepted in \<open>fastforce intro: lowers_update\<close>, simp)
  with record_movie show ?case by (metis exclusive_lowers)
next
  case (record_episode d pid now cmd)
  have "list_all2 lowers (import_states d) (import_states (record_episode_import now pid cmd d))"
    unfolding import_states_def record_episode_import_def
    by (intro list_all2_appendI) (simp, use lowers_accepted in \<open>fastforce intro: lowers_update\<close>)
  with record_episode show ?case by (metis exclusive_lowers)
next
  case (complete_movie d rid now)
  have "list_all2 lowers (import_states d) (import_states (complete_movie_import now rid d))"
    unfolding complete_movie_states unfolding import_states_def
    by (intro list_all2_appendI lowers_update) (simp_all add: lowers_complete)
  with complete_movie show ?case by (metis exclusive_lowers)
next
  case (complete_episode d pid now)
  have "list_all2 lowers (import_states d) (import_states (complete_episode_import now pid d))"
    unfolding import_states_def complete_episode_import_def
    by (rule list_all2_appendI, simp, simp, rule lowers_update, simp add: lowers_complete)
  with complete_episode show ?case by (metis exclusive_lowers)
qed

interpretation importing: invariant_system import_step imports_exclusive
  by unfold_locales (rule import_step_exclusive)

end
