(* ===== verification/PermitSystem.thy ===== *)
theory PermitSystem
  imports ReservationFacts ImportExclusion
begin

text \<open>
  The permit registry and the reservation repository as one transition system over the
  database.  \<open>permit_step\<close> has one rule per operation; a dispatch is split into the claim,
  the settlement and the loss of the answer, because other processes run in between.
  \<open>other\<close> stands for every transaction that leaves the permits alone.
\<close>

datatype permit_label = Dispatch string | Add string | Change

inductive permit_step :: "db \<Rightarrow> permit_label \<Rightarrow> db \<Rightarrow> bool" where
  claim: "authorize_claim st now token h dst meta d = Inr (d', Proceed p b) \<Longrightarrow>
          permit_step d (Dispatch token) d'"
| lose: "permit_step d Change (mark_unknown token d)"
| settle: "authorize_finish token r d = Inr (d', r') \<Longrightarrow> permit_step d Change d'"
| reconcile: "confirm_reconciled_source token d = Inr (d', p) \<Longrightarrow> permit_step d Change d'"
| admit: "issue st now fr rq c d = Inr (d', p) \<Longrightarrow> permit_step d (Add (pm_token p)) d'"
| renew: "renew_replacement_authorized st now token e t d = Inr (d', p) \<Longrightarrow> permit_step d Change d'"
| replace: "replace_confirmed st now fr token rr e d = Inr (d', p) \<Longrightarrow> permit_step d (Add (pm_token p)) d'"
| cancel: "cancel_authorized token d = Inr (d', b) \<Longrightarrow> permit_step d Change d'"
| retire: "retire_expired_authorized now rid scope d = Inr (d', n) \<Longrightarrow> permit_step d Change d'"
| backfill: "permit_step d Change (backfill_filesystem st d)"
| handover_done: "complete_handover token d = Inr d' \<Longrightarrow> permit_step d Change d'"
| quality: "set_quality token rank d = Inr d' \<Longrightarrow> permit_step d Change d'"
| probe: "issue_probe st now fr token pr e d = Inr (d', p) \<Longrightarrow> permit_step d (Add (pm_token p)) d'"
| promote: "promote_probe token d = Inr (d', p) \<Longrightarrow> permit_step d Change d'"
| reject: "reject_probe token d = Inr d' \<Longrightarrow> permit_step d Change d'"
| bind_pack: "bind_season_pack st now token bs tokens c d = Inr d' \<Longrightarrow> permit_step d Change d'"
| revoke: "cancel_unstarted now rid d = (d', a) \<Longrightarrow> permit_step d Change d'"
| take_space: "reserve now new_id new_op ra d = Inr (d', res) \<Longrightarrow> permit_step d Change d'"
| normalize: "normalize_verified_budgets d = Inr d' \<Longrightarrow> permit_step d Change d'"
| other: "permits d' = permits d \<Longrightarrow> db_wf d' \<Longrightarrow> permit_step d Change d'"

inductive_cases permit_step_DispatchE: "permit_step d (Dispatch token) d'"
inductive_cases permit_step_AddE: "permit_step d (Add token) d'"

lemma permit_step_refines:
  assumes "permit_step d l d'" and "db_wf d"
  shows "evolves (permits d) (permits d') \<and> db_wf d'"
  using assms
proof (induction rule: permit_step.induct)
  case claim then show ?case by (rule claim_refines)
next
  case lose then show ?case by (rule mark_unknown_refines)
next
  case settle then show ?case by (rule finish_refines)
next
  case reconcile then show ?case by (rule reconcile_refines)
next
  case admit then show ?case by (rule issue_refines)
next
  case renew then show ?case by (rule renew_refines)
next
  case replace then show ?case by (rule replace_refines)
next
  case cancel then show ?case by (rule cancel_refines)
next
  case retire then show ?case by (rule retire_refines)
next
  case backfill then show ?case by (rule backfill_refines)
next
  case handover_done then show ?case by (rule complete_handover_refines)
next
  case quality then show ?case by (rule set_quality_refines)
next
  case probe then show ?case by (rule issue_probe_refines)
next
  case promote then show ?case by (rule promote_refines)
next
  case reject then show ?case by (rule reject_refines)
next
  case bind_pack then show ?case by (rule bind_refines)
next
  case revoke then show ?case by (rule cancel_unstarted_refines)
next
  case take_space then show ?case using reserve_frame by fastforce
next
  case normalize then show ?case using normalize_frame by fastforce
next
  case other then show ?case by simp
qed

interpretation registry: invariant_system permit_step db_wf
  by unfold_locales (use permit_step_refines in blast)

lemma slot_owner_unique:
  "slots_unique ps \<Longrightarrow> p \<in> set ps \<Longrightarrow> q \<in> set ps \<Longrightarrow> permit_slot p = permit_slot q \<Longrightarrow>
   permit_slot p \<noteq> None \<Longrightarrow> p = q"
proof (induction ps)
  case (Cons x xs)
  have uni: "slots_unique xs" using Cons.prems(1)
    by (auto simp: slots_unique_def List.map_filter_simps split: option.splits)
  have new: "permit_slot y \<noteq> permit_slot x" if "y \<in> set xs" "permit_slot x \<noteq> None" for y
    using Cons.prems(1) that by (force simp: slots_unique_def List.map_filter_simps map_filter_mem)
  show ?case using Cons.IH [OF uni] Cons.prems(2-) new by (metis set_ConsD)
qed simp

section \<open>The history of a permit\<close>

text \<open>What a permit keeps for good once it left \<open>authorized\<close>, and how its state moves.\<close>

definition same_source :: "permit \<Rightarrow> permit \<Rightarrow> bool" where
  "same_source p q \<longleftrightarrow>
     pm_id q = pm_id p \<and> pm_token q = pm_token p \<and> pm_operation_id q = pm_operation_id p \<and>
     pm_infohash q = pm_infohash p \<and> pm_reservation_id q = pm_reservation_id p \<and>
     pm_scope_key q = pm_scope_key p \<and> pm_metadata_sha256 q = pm_metadata_sha256 p \<and>
     pm_selected_files q = pm_selected_files p \<and> pm_budget_bytes q = pm_budget_bytes p \<and>
     pm_pool_id q = pm_pool_id p \<and> pm_destination q = pm_destination p"

lemma advances_parts:
  "advances p q \<Longrightarrow> same_source p q \<and> permit_next\<^sup>*\<^sup>* (pm_state p) (pm_state q)"
  by (auto simp: advances_def same_source_def)

lemma no_return: "permit_next\<^sup>*\<^sup>* s t \<Longrightarrow> s \<noteq> Authorized \<Longrightarrow> t \<noteq> Authorized"
  by (induction rule: rtranclp_induct) (use never_back_to_authorized in blast)+

lemma dead_for_good: "permit_next\<^sup>*\<^sup>* s t \<Longrightarrow> \<not> live_state s \<Longrightarrow> \<not> live_state t"
  by (induction rule: rtranclp_induct) (auto dest: dead_stays_dead)

lemma history_step:
  assumes "permit_step d l d'" and "db_wf d" and "p \<in> set (permits d)" and "pm_state p \<noteq> Authorized"
  obtains q where "q \<in> set (permits d')" and "advances p q"
  using permit_step_refines [OF assms(1,2)] assms(3,4) by (auto simp: evolves_def)

lemma history_run:
  assumes "run permit_step d ls d'" and "db_wf d" and "p \<in> set (permits d)" and "pm_state p \<noteq> Authorized"
  shows "\<exists>q\<in>set (permits d'). same_source p q \<and> permit_next\<^sup>*\<^sup>* (pm_state p) (pm_state q)"
  using assms
proof (induction arbitrary: p rule: run.induct)
  case (run_nil s)
  then show ?case by (auto simp: same_source_def)
next
  case (run_cons s l t ls u)
  from history_step [OF run_cons.hyps(1) run_cons.prems] obtain q where
      q: "q \<in> set (permits t)" "advances p q" .
  have na: "pm_state q \<noteq> Authorized"
    using advances_parts [OF q(2)] no_return run_cons.prems(3) by blast
  from run_cons.IH [OF _ q(1) na] permit_step_refines [OF run_cons.hyps(1) run_cons.prems(1)]
  obtain q' where "q' \<in> set (permits u)" "same_source q q'" "permit_next\<^sup>*\<^sup>* (pm_state q) (pm_state q')"
    by blast
  with advances_parts [OF q(2)] show ?case
    by (intro bexI [of _ q']) (auto simp: same_source_def intro: rtranclp_trans)
qed

section \<open>A permit is dispatched at most once\<close>

definition token_spent :: "string \<Rightarrow> db \<Rightarrow> bool" where
  "token_spent token d \<longleftrightarrow> list_ex (\<lambda>p. pm_token p = token \<and> pm_state p \<noteq> Authorized) (permits d)"

lemma claim_unspent:
  assumes "authorize_claim st now token h dst meta d = Inr (d', Proceed p b)" and "db_wf d"
  shows "\<not> token_spent token d"
  using authorize_claim_Proceed(1,2) [OF assms(1)] same_token [OF assms(2)]
  by (auto simp: token_spent_def list_ex_iff)

lemma claim_spends:
  assumes "authorize_claim st now token h dst meta d = Inr (d', Proceed p b)"
  shows "token_spent token d'"
proof -
  note c = authorize_claim_Proceed [OF assms]
  have "p \<in> set (permits d)" "pm_token p = token" using find_token_Some [OF c(1)] by auto
  then have "p\<lparr>pm_state := Dispatching\<rparr> \<in> set (permits d')"
    by (auto simp: c(4) set_update_rows intro!: rev_image_eqI [of p])
  with \<open>pm_token p = token\<close> show ?thesis
    by (auto simp: token_spent_def list_ex_iff intro!: bexI [of _ "p\<lparr>pm_state := Dispatching\<rparr>"])
qed

lemma spent_forever:
  assumes "permit_step d l d'" and "db_wf d" and "token_spent token d"
  shows "token_spent token d'"
proof -
  from assms(3) obtain p where p: "p \<in> set (permits d)" "pm_token p = token" "pm_state p \<noteq> Authorized"
    by (auto simp: token_spent_def list_ex_iff)
  from history_step [OF assms(1,2) p(1,3)] obtain q where q: "q \<in> set (permits d')" "advances p q" .
  from advances_parts [OF q(2)] have "pm_token q = token" and "pm_state q \<noteq> Authorized"
    using p(2,3) no_return by (auto simp: same_source_def)
  with q(1) show ?thesis by (auto simp: token_spent_def list_ex_iff)
qed

interpretation dispatching: once_system permit_step "\<lambda>l. l = Dispatch token" "token_spent token" db_wf
  for token
proof unfold_locales
  fix s l t
  assume st: "permit_step s l t" and wf: "db_wf s"
  show "l = Dispatch token \<Longrightarrow> \<not> token_spent token s"
    using st wf claim_unspent by (auto elim: permit_step_DispatchE)
  show "l = Dispatch token \<Longrightarrow> token_spent token t"
    using st claim_spends by (auto elim: permit_step_DispatchE)
  show "token_spent token s \<Longrightarrow> token_spent token t"
    using st wf by (rule spent_forever)
  show "db_wf t" using permit_step_refines [OF st wf] by blast
qed

text \<open>A spent token never reaches the external effect again.\<close>

lemma spent_not_entered:
  assumes "token_spent token d" and "db_wf d"
  shows "\<not> snd (snd (authorize st now token h dst meta effect d))"
proof (cases "authorize_claim st now token h dst meta d")
  case (Inl e)
  then show ?thesis by (simp add: authorize_def)
next
  case (Inr out)
  obtain d1 cl where out: "out = (d1, cl)" by (cases out)
  with Inr assms claim_unspent have "\<And>p b. cl \<noteq> Proceed p b" by blast
  with Inr out show ?thesis by (cases cl) (auto simp: authorize_def)
qed

text \<open>The steps of one whole call, when the effect itself only makes steps.\<close>

definition effect_steps :: "(permit \<Rightarrow> db \<Rightarrow> db \<times> (err + json)) \<Rightarrow> bool" where
  "effect_steps effect \<longleftrightarrow> (\<forall>p d. \<exists>ls. run permit_step d ls (fst (effect p d)))"

lemma run_snoc: "run step s ls t \<Longrightarrow> step t l u \<Longrightarrow> run step s (ls @ [l]) u"
  by (auto simp: run_append run_Cons_simp)

lemma entered_spends:
  assumes "authorize st now token h dst meta effect d = (d', r, True)"
    and "db_wf d" and "effect_steps effect"
  shows "token_spent token d' \<and> db_wf d'"
proof -
  from assms(1) obtain d1 p b where
      c: "authorize_claim st now token h dst meta d = Inr (d1, Proceed p b)"
    by (auto simp: authorize_def split: sum.splits claim.splits prod.splits)
  obtain d2 o' where e: "effect p d1 = (d2, o')" by fastforce
  from assms(3) e obtain ls where run: "run permit_step d1 ls d2"
    unfolding effect_steps_def by (metis fst_conv)
  have wf1: "db_wf d1" using claim_refines [OF c assms(2)] by blast
  have s1: "token_spent token d1" by (rule claim_spends [OF c])
  from assms(1) c e have "d' = d2 \<or> d' = mark_unknown token d2 \<or> (\<exists>r r'. authorize_finish token r d2 = Inr (d', r'))"
    by (auto simp: authorize_def split: sum.splits prod.splits)
  then have "\<exists>l. run permit_step d1 l d'"
    using run run_snoc permit_step.lose permit_step.settle by metis
  then obtain l where "run permit_step d1 l d'" ..
  then show ?thesis using wf1 s1
  proof (induction rule: run.induct)
    case (run_cons s l t ls u)
    then show ?case using spent_forever permit_step_refines by blast
  qed simp
qed

lemma spent_run:
  "run permit_step d ls d' \<Longrightarrow> db_wf d \<Longrightarrow> token_spent token d \<Longrightarrow> token_spent token d' \<and> db_wf d'"
proof (induction rule: run.induct)
  case (run_cons s l t ls u)
  then show ?case using spent_forever permit_step_refines by blast
qed simp

end
