(* ===== verification/Samples.thy ===== *)
theory Samples
  imports PermitSystem
begin

text \<open>
  Concrete databases, requests and evidence: one movie and one season of one request
  queue, on which the theorems are applied.  Times are microseconds from the first event.
\<close>

definition hash_a :: string where "hash_a = replicate 40 (CHR ''a'')"
definition hash_b :: string where "hash_b = replicate 40 (CHR ''b'')"
definition digest_c :: string where "digest_c = replicate 64 (CHR ''c'')"

lemma length_hashes [simp]: "length hash_a = 40" "length hash_b = 40" "length digest_c = 64"
  by (simp_all add: hash_a_def hash_b_def digest_c_def)

definition movie_request :: request_row where
  "movie_request = \<lparr>rq_id = ''q1'', rq_source_id = ''seerr-1'', rq_media_key = ''movie:tmdb:7'',
     rq_state = RqReserved, rq_created_at = 0, rq_updated_at = 0\<rparr>"

definition movie_reservation :: reservation_row where
  "movie_reservation = \<lparr>rs_id = ''r1'', rs_request_id = ''q1'', rs_media_key = ''movie:tmdb:7'',
     rs_filesystem_id = ''fs1'', rs_budget_bytes = 0, rs_allocated_bytes = 0, rs_state = RsReserved\<rparr>"

definition season_request :: request_row where
  "season_request = \<lparr>rq_id = ''q2'', rq_source_id = ''seerr-2'', rq_media_key = ''season:tmdb:9:1'',
     rq_state = RqReserved, rq_created_at = 0, rq_updated_at = 0\<rparr>"

definition season_reservation :: reservation_row where
  "season_reservation = \<lparr>rs_id = ''r2'', rs_request_id = ''q2'', rs_media_key = ''season:tmdb:9:1'',
     rs_filesystem_id = ''fs1'', rs_budget_bytes = 0, rs_allocated_bytes = 0, rs_state = RsReserved\<rparr>"

definition sample_db :: db where
  "sample_db = empty_db\<lparr>requests := [movie_request, season_request],
     reservations := [movie_reservation, season_reservation]\<rparr>"

definition sample_capacity :: capacity where
  "sample_capacity = \<lparr>cap_free_bytes = 1000, cap_remaining_by_hash = [], cap_other_pending_bytes = 100,
     cap_paused_hashes = [hash_a], cap_pools = []\<rparr>"

definition sample_fresh :: fresh_ids where
  "sample_fresh = \<lparr>fr_permit_id = ''p1'', fr_token = ''t1'', fr_operation_id = ''o1''\<rparr>"

definition second_fresh :: fresh_ids where
  "second_fresh = \<lparr>fr_permit_id = ''p2'', fr_token = ''t2'', fr_operation_id = ''o2''\<rparr>"

definition sample_request :: issue_request where
  "sample_request = \<lparr>ir_infohash = hash_a, ir_destination = torrents_root, ir_expires_at = 50,
     ir_category = ''radarr'', ir_reservation_id = Some ''r1'', ir_scope_key = None,
     ir_metadata_sha256 = Some digest_c, ir_selected_files = [''m.mkv''],
     ir_budget_bytes = Some 600, ir_reported_seeders = Some 5\<rparr>"

definition movie_permit :: permit where
  "movie_permit = \<lparr>pm_id = ''p1'', pm_token = ''t1'', pm_infohash = hash_a,
     pm_destination = torrents_root, pm_expires_at = 50, pm_category = ''radarr'', pm_result = None,
     pm_operation_id = ''o1'', pm_reservation_id = Some ''r1'', pm_scope_key = None,
     pm_metadata_sha256 = Some digest_c, pm_selected_files = [''m.mkv''], pm_budget_bytes = Some 600,
     pm_state = Authorized, pm_reported_seeders = Some 5, pm_probe_parent_id = None,
     pm_quality_rank = None, pm_season_pack_parent_id = None, pm_pool_id = ''ssd'',
     pm_filesystem_id = None\<rparr>"

definition admitted_db :: db where
  "admitted_db = sample_db\<lparr>reservations := [movie_reservation\<lparr>rs_budget_bytes := 600\<rparr>, season_reservation],
     permits := [movie_permit]\<rparr>"

definition dispatched_db :: db where
  "dispatched_db = admitted_db\<lparr>permits := [movie_permit\<lparr>pm_state := Dispatching\<rparr>]\<rparr>"

definition confirmed_permit :: permit where
  "confirmed_permit = movie_permit\<lparr>pm_state := Confirmed, pm_result := Some (accepted_result hash_a)\<rparr>"

definition confirmed_db :: db where
  "confirmed_db = admitted_db\<lparr>permits := [confirmed_permit]\<rparr>"

lemmas sample_rows = movie_request_def movie_reservation_def season_request_def season_reservation_def
lemmas sample_dbs = sample_db_def admitted_db_def dispatched_db_def confirmed_db_def empty_db_def

lemma sample_capacity_ok: "capacity_ok sample_capacity"
  by (simp add: capacity_ok_def progress_ok_def sample_capacity_def dict_ok_def)

lemma hashes_valid: "hex40 hash_a" "hex40 hash_b" "hex64 digest_c"
  "lower hash_a = hash_a" "lower hash_b = hash_b" "lower digest_c = digest_c" "hash_a \<noteq> hash_b"
  by code_simp+

lemma sample_db_wf: "db_wf sample_db"
  by code_simp

lemma admitted_db_wf: "db_wf admitted_db"
  by code_simp

lemma dispatched_db_wf: "db_wf dispatched_db"
  by code_simp

lemma confirmed_db_wf: "db_wf confirmed_db"
  by code_simp

lemma sample_issue:
  "issue None 0 sample_fresh sample_request (Some sample_capacity) sample_db = Inr (admitted_db, movie_permit)"
  by code_simp

lemma sample_claim:
  "authorize_claim None 10 ''t1'' hash_a torrents_root (Some digest_c) admitted_db
     = Inr (dispatched_db, Proceed movie_permit False)"
  by code_simp

lemma sample_settle:
  "authorize_finish ''t1'' (accepted_result hash_a) dispatched_db
     = Inr (confirmed_db, accepted_result hash_a)"
  by code_simp

text \<open>Admission, dispatch and confirmation of one movie.\<close>

lemma sample_run: "run permit_step sample_db [Add ''t1'', Dispatch ''t1'', Change] confirmed_db"
proof -
  have "permit_step sample_db (Add ''t1'') admitted_db"
    using permit_step.admit [OF sample_issue] by (simp add: movie_permit_def)
  moreover have "permit_step admitted_db (Dispatch ''t1'') dispatched_db"
    by (rule permit_step.claim [OF sample_claim])
  moreover have "permit_step dispatched_db Change confirmed_db"
    by (rule permit_step.settle [OF sample_settle])
  ultimately show ?thesis by (auto simp: run_Cons_simp)
qed

definition accepting :: "permit \<Rightarrow> db \<Rightarrow> db \<times> (err + json)" where
  "accepting p d = (d, Inr (accepted_result (pm_infohash p)))"

lemma accepting_steps: "effect_steps accepting"
proof -
  have "run permit_step d [] (fst (accepting p d))" for p d by (simp add: accepting_def)
  then show ?thesis unfolding effect_steps_def by blast
qed

lemma sample_authorize:
  "authorize None 10 ''t1'' hash_a torrents_root (Some digest_c) accepting admitted_db
     = (confirmed_db, Inr (accepted_result hash_a), True)"
  by code_simp

end
