(* ===== verification/RegistryProperties.thy ===== *)
theory RegistryProperties
  imports Samples
begin

text \<open>
  The properties of the permit registry as a whole: what holds after every interleaving of
  its operations.  Each is followed by its application to a concrete run.
\<close>

section \<open>Dispatch\<close>

text \<open>C1 (dispatch_at_most_once): Whatever the processes do, in whatever order and however
  often they retry, a token is dispatched at most once: the claim that turns a permit from
  authorized to dispatching, and so lets the external effect run, occurs at most one time
  in the whole history of the database.\<close>

theorem dispatch_at_most_once:
  "run permit_step d ls d' \<Longrightarrow> db_wf d \<Longrightarrow> length (filter (\<lambda>l. l = Dispatch token) ls) \<le> 1"
  by (rule dispatching.at_most_once)

theorem dispatch_at_most_once_witness:
  "length (filter (\<lambda>l. l = Dispatch ''t1'') [Add ''t1'', Dispatch ''t1'', Change]) \<le> 1"
  by (rule dispatch_at_most_once [OF sample_run sample_db_wf])

text \<open>C6 (effect_entered_once): Once a call of \<open>authorize\<close> has entered its external effect for a
  token, no later call for that token enters an effect again, whatever happened in between
  and whether the first effect succeeded, failed or lost its answer.\<close>

theorem effect_entered_once:
  assumes "authorize st now token h dst meta effect d = (d1, r, True)"
    and "db_wf d" and "effect_steps effect" and "run permit_step d1 ls d2"
  shows "\<not> snd (snd (authorize st' now' token h' dst' meta' effect' d2))"
  using entered_spends [OF assms(1-3)] spent_run [OF assms(4)] spent_not_entered by blast

theorem effect_entered_once_witness:
  "\<not> snd (snd (authorize None 20 ''t1'' hash_a torrents_root (Some digest_c) accepting confirmed_db))"
  by (rule effect_entered_once [OF sample_authorize admitted_db_wf accepting_steps run_nil])

text \<open>A claim that proceeds found the permit unused and unexpired, for exactly
  the presented infohash, destination and metadata digest; it changes nothing but the state
  of that permit.  A season pack moreover passed the full check of its reservation and
  bindings, and a probe the check of its reservation.\<close>

theorem claim_requires:
  assumes "authorize_claim st now token h dst meta d = Inr (d', Proceed p b)"
  shows "find_token d token = Some p \<and> pm_state p = Authorized \<and> now < pm_expires_at p \<and>
    pm_infohash p = lower h \<and> pm_destination p = dst \<and> pm_metadata_sha256 p = map_option lower meta \<and>
    (pm_scope_key p \<noteq> None \<and> pack_scope (the (pm_scope_key p)) \<noteq> None \<longrightarrow>
       require_pack_reservation st d p = Inr ()) \<and>
    (pm_probe_parent_id p \<noteq> None \<longrightarrow> require_probe_reservation d p = Inr ()) \<and>
    d' = d\<lparr>permits := map (\<lambda>q. if pm_token q = token then q\<lparr>pm_state := Dispatching\<rparr> else q) (permits d)\<rparr>"
proof -
  note c = authorize_claim_Proceed [OF assms]
  from authorize_claim_parts [OF assms] c(1) obtain digest where
      dg: "validate_metadata_digest meta = Inr digest"
    and v: "validate_payload now (Some p) h dst digest = Inr ()" by auto
  from dg have "digest = map_option lower meta"
    by (auto simp: validate_metadata_digest_def split: option.splits if_splits)
  with v have "pm_metadata_sha256 p = map_option lower meta" by (simp add: validate_payload_ok)
  with c show ?thesis by (auto simp: is_pack_permit_def with_permits_def update_rows_def)
qed

theorem claim_requires_witness:
  "pm_state movie_permit = Authorized \<and> pm_infohash movie_permit = lower hash_a"
  using claim_requires [OF sample_claim] by blast

text \<open>A confirmed permit presented again with its own payload returns the
  recorded result; the external effect is not entered and the database is unchanged.\<close>

theorem replay_returns_recorded:
  assumes "find_token d token = Some p" and "pm_state p = Confirmed" and "pm_result p = Some r"
    and "now < pm_expires_at p" and "pm_infohash p = lower h" and "pm_metadata_sha256 p = digest"
    and "validate_metadata_digest meta = Inr digest"
    and "pm_probe_parent_id p \<noteq> None \<Longrightarrow> require_probe_reservation d p = Inr ()"
    and "is_pack_permit p \<Longrightarrow> require_pack_reservation st d p = Inr ()"
  shows "authorize st now token h (pm_destination p) meta effect d = (d, Inr r, False)"
proof -
  have "validate_payload now (Some p) h (pm_destination p) digest = Inr ()"
    using assms by (simp add: validate_payload_ok)
  moreover have "claim_row token p d = Inr (d, Replay r)"
    using assms by (simp add: claim_row_Replay)
  ultimately have "authorize_claim st now token h (pm_destination p) meta d = Inr (d, Replay r)"
    using assms(1,7-9) by (auto simp: authorize_claim_def)
  then show ?thesis by (simp add: authorize_def)
qed

theorem replay_returns_recorded_witness:
  "authorize None 20 ''t1'' hash_a torrents_root (Some digest_c) accepting confirmed_db
     = (confirmed_db, Inr (accepted_result hash_a), False)"
proof -
  have "find_token confirmed_db ''t1'' = Some confirmed_permit" by code_simp
  moreover have "validate_metadata_digest (Some digest_c) = Inr (Some digest_c)" by code_simp
  moreover have "\<not> is_pack_permit confirmed_permit" by code_simp
  ultimately show ?thesis
    using replay_returns_recorded [of confirmed_db "''t1''" confirmed_permit "accepted_result hash_a"
        20 hash_a "Some digest_c" "Some digest_c" None accepting]
    by (simp add: confirmed_permit_def movie_permit_def hashes_valid)
qed



section \<open>The history of permits\<close>

text \<open>C20 (dispatched_permit_kept): A permit that left the authorized state is never deleted.  For the rest of
  the history its row keeps its identity, torrent, reservation, scope, files, byte budget
  and placement, and its state only moves along the lifecycle automaton
  (dispatching to unknown or confirmed, unknown to confirmed, confirmed to superseded, any
  probe to rejected).\<close>

theorem dispatched_permit_kept:
  assumes "run permit_step d ls d'" and "db_wf d" and "p \<in> set (permits d)" and "pm_state p \<noteq> Authorized"
  shows "\<exists>q\<in>set (permits d'). same_source p q \<and> permit_next\<^sup>*\<^sup>* (pm_state p) (pm_state q)"
  using assms by (rule history_run)

theorem dispatched_permit_kept_witness:
  "\<exists>q\<in>set (permits confirmed_db). same_source (movie_permit\<lparr>pm_state := Dispatching\<rparr>) q \<and>
     permit_next\<^sup>*\<^sup>* Dispatching (pm_state q)"
proof -
  have "run permit_step dispatched_db [Change] confirmed_db"
    using permit_step.settle [OF sample_settle] by (simp add: run_Cons_simp)
  from dispatched_permit_kept [OF this dispatched_db_wf, of "movie_permit\<lparr>pm_state := Dispatching\<rparr>"]
  show ?thesis by (simp add: dispatched_db_def)
qed

text \<open>C8 (one_live_source): In every database the registry can reach, a reservation has at most one live
  primary permit per scope (the movie itself, or an episode of a season), and every
  confirmed source at most one live probe.\<close>

theorem one_live_source:
  assumes "run permit_step d ls d'" and "db_wf d" and "p \<in> set (permits d')" and "q \<in> set (permits d')"
    and "live p" and "live q"
    and "pm_reservation_id p = Some rid" and "pm_reservation_id q = Some rid"
    and "pm_probe_parent_id p = pm_probe_parent_id q"
    and "pm_probe_parent_id p = None \<Longrightarrow> pm_scope_key p = pm_scope_key q"
  shows "p = q"
proof -
  have "slots_unique (permits d')"
    using registry.run_inv [OF assms(1,2)] by (simp add: db_wf_def permits_wf_def)
  moreover have "permit_slot p = permit_slot q"
    using assms(5-8,10) by (cases "pm_probe_parent_id q") (simp_all add: permit_slot_def assms(9))
  moreover have "permit_slot p \<noteq> None"
    using assms(5,7) by (cases "pm_probe_parent_id p"; cases "pm_scope_key p") (simp_all add: permit_slot_def)
  ultimately show ?thesis using assms(3,4) slot_owner_unique by metis
qed

theorem one_live_source_witness:
  "hd (permits confirmed_db) = confirmed_permit"
  by (rule one_live_source [OF sample_run sample_db_wf, where rid = "''r1''"])
     (simp_all add: confirmed_db_def confirmed_permit_def movie_permit_def live_def)

end
