(* ===== verification/AdmissionProperties.thy ===== *)
theory AdmissionProperties
  imports Samples
begin

text \<open>
  The properties of the operations that admit a source: issuing a permit, replacing a
  confirmed source, binding a season pack, and running a probe beside a source.
\<close>

section \<open>Issuing\<close>

text \<open>C7 (issue_never_overcommits): A permit issued against capacity evidence fits: after the transaction
  the bytes that all admitted and unmanaged torrents of its pool still have to write,
  the new permit included, do not exceed the free bytes of the evidence.\<close>

theorem issue_never_overcommits:
  assumes "issue st now fr rq (Some c) d = Inr (d', p)" and "capacity_ok c"
  shows "\<exists>q. capacity_pool c (pm_pool_id p) = Some q \<and>
             pending_total d' now c q None (pm_pool_id p) \<le> cap_free_bytes q"
  using assms by (rule issue_exact_room)

theorem issue_never_overcommits_witness:
  "\<exists>q. capacity_pool sample_capacity ''ssd'' = Some q \<and>
       pending_total admitted_db 0 sample_capacity q None ''ssd'' \<le> cap_free_bytes q"
  using issue_never_overcommits [OF sample_issue sample_capacity_ok] by (simp add: movie_permit_def)

text \<open>The same transaction sets the budget of the reservation to the sum of the
  budgets of its live permits, and adds exactly one row, in the authorized state, with a
  new identity and token.\<close>

theorem issue_sets_budget:
  assumes "issue st now fr rq (Some c) d = Inr (d', p)" and "db_wf d"
  shows "permits d' = permits d @ [p] \<and> pm_state p = Authorized \<and>
    pm_token p \<notin> pm_token ` set (permits d) \<and> pm_id p \<notin> pm_id ` set (permits d) \<and>
    (\<exists>rid r. pm_reservation_id p = Some rid \<and> find_reservation d' rid = Some r \<and>
             rs_budget_bytes r = live_budget d' rid)"
  using issue_appends [OF assms(1)] issue_exact_budget [OF assms] by blast

theorem issue_sets_budget_witness:
  "\<exists>rid r. pm_reservation_id movie_permit = Some rid \<and> find_reservation admitted_db rid = Some r \<and>
           rs_budget_bytes r = live_budget admitted_db rid"
  using issue_sets_budget [OF sample_issue sample_db_wf] by blast

section \<open>Replacement\<close>

lemma replaceable_sourceD:
  assumes "replaceable_source c h d (Some old) = Inr rid"
  shows "pm_state old = Confirmed \<and> pm_reservation_id old = Some rid \<and>
    set (pm_infohash old # superseded_hashes d rid (pm_scope_key old)) \<subseteq> set (cap_paused_hashes c) \<and>
    \<not> import_started d rid (pm_id old) \<and> find_open_reservation d (Some rid) \<noteq> None \<and>
    (\<forall>q\<in>set (permits d). live q \<or> pm_reservation_id q = Some rid \<and> pm_scope_key q = pm_scope_key old \<longrightarrow>
       pm_infohash q \<noteq> h)"
proof -
  from assms have "pm_state old = Confirmed" and "pm_reservation_id old = Some rid"
    by (auto simp: replaceable_source_def split: permit_state.splits option.splits if_splits)
  with assms show ?thesis
    by (auto simp: replaceable_source_def list_all_iff exists_row_iff split: option.splits if_splits)
qed

text \<open>C16 (replace_is_atomic): Replacing a confirmed source is one step: the old permit, whose torrent and
  all earlier ones of the slot are reported stopped and whose import has not started,
  becomes superseded, and exactly one new authorized permit takes its reservation
  and scope.  Its torrent was never tried for the slot and is live nowhere.\<close>

theorem replace_is_atomic:
  assumes rep: "replace_confirmed st now fr token rr c d = Inr (d', new)" and wf: "db_wf d"
  shows "\<exists>old rid. find_token d token = Some old \<and> pm_state old = Confirmed \<and>
    pm_reservation_id old = Some rid \<and>
    set (pm_infohash old # superseded_hashes d rid (pm_scope_key old)) \<subseteq> set (cap_paused_hashes c) \<and>
    \<not> import_started d rid (pm_id old) \<and>
    permits d' = map (\<lambda>q. if pm_id q = pm_id old then q\<lparr>pm_state := Superseded\<rparr> else q) (permits d) @ [new] \<and>
    pm_state new = Authorized \<and> pm_infohash new = lower (rr_infohash rr) \<and>
    pm_reservation_id new = pm_reservation_id old \<and> pm_scope_key new = pm_scope_key old \<and>
    (\<forall>q\<in>set (permits d). live q \<or> pm_reservation_id q = Some rid \<and> pm_scope_key q = pm_scope_key old \<longrightarrow>
       pm_infohash q \<noteq> pm_infohash new)"
proof -
  from replace_confirmed_parts [OF rep] obtain old rid dg s d1 where
      old: "find_token d token = Some old"
    and src: "replaceable_source c (lower (rr_infohash rr)) d (Some old) = Inr rid"
    and sel: "select_pool st d now c (replacement_permit fr rr dg s old) = Inr new"
    and ins: "insert_permit new (supersede (pm_id old) d) = Inr d1"
    and ref: "refresh_budget rid d1 = Inr d'" by blast
  note srcD = replaceable_sourceD [OF src]
  note new = replaced_fields [OF select_pool_replaced [OF sel]]
  have "old \<in> set (permits d)" using find_token_Some [OF old] by simp
  then have uniq: "q = old" if "q \<in> set (permits d)" "pm_id q = pm_id old" for q
    using that wf by (auto simp: db_wf_def permits_wf_def dest: distinct_key_eq)
  have "permits d' = permits (supersede (pm_id old) d) @ [new]"
    using ins refresh_budget_frame [OF ref] by (simp add: insert_permit_iff)
  also have "permits (supersede (pm_id old) d) =
      map (\<lambda>q. if pm_id q = pm_id old then q\<lparr>pm_state := Superseded\<rparr> else q) (permits d)"
    using uniq srcD by (auto simp: supersede_def update_rows_def)
  finally have "permits d' = map (\<lambda>q. if pm_id q = pm_id old then q\<lparr>pm_state := Superseded\<rparr> else q) (permits d) @ [new]" .
  with old srcD new show ?thesis by (auto simp: replacement_permit_def)
qed


definition replacement_sample :: replacement_request where
  "replacement_sample = \<lparr>rr_infohash = hash_b, rr_metadata_sha256 = Some digest_c,
     rr_selected_files = [''n.mkv''], rr_budget_bytes = 500, rr_expires_at = 90,
     rr_reported_seeders = None\<rparr>"

definition replaced_permit :: permit where
  "replaced_permit = replacement_permit second_fresh replacement_sample (Some digest_c) None confirmed_permit"

definition replaced_db :: db where
  "replaced_db = sample_db\<lparr>reservations := [movie_reservation\<lparr>rs_budget_bytes := 500\<rparr>, season_reservation],
     permits := [confirmed_permit\<lparr>pm_state := Superseded\<rparr>, replaced_permit]\<rparr>"

lemma sample_replace:
  "replace_confirmed None 60 second_fresh ''t1'' replacement_sample sample_capacity confirmed_db
     = Inr (replaced_db, replaced_permit)"
  by code_simp

theorem replace_is_atomic_witness:
  "\<exists>old. find_token confirmed_db ''t1'' = Some old \<and> pm_state old = Confirmed"
  using replace_is_atomic [OF sample_replace confirmed_db_wf] by blast

end
