(* ===== verification/PackProperties.thy ===== *)
theory PackProperties
  imports Samples
begin

text \<open>
  The properties of season packs and of probes: what a successful binding, the issue of a
  probe, its promotion and its rejection establish.
\<close>

section \<open>Binding a season pack\<close>

lemma insert_bindings_mem:
  "e \<in> set (insert_bindings parent bs rows) \<Longrightarrow>
   e \<in> set rows \<or> (pk_parent_permit_id e = parent \<and> pk_scope_key e \<in> fst ` set bs)"
  unfolding insert_bindings_def
  by (induction bs arbitrary: rows) (fastforce split: if_splits)+

lemma insert_bindings_new:
  assumes "\<And>sc. sc \<in> fst ` set bs \<Longrightarrow>
      \<not> exists_row (\<lambda>e. pk_parent_permit_id e = parent \<and> pk_scope_key e = sc) rows"
    and "distinct (map fst bs)"
  shows "insert_bindings parent bs rows = rows @
      map (\<lambda>(sc, fs). \<lparr>pk_parent_permit_id = parent, pk_scope_key = sc, pk_selected_files = fs\<rparr>) bs"
  using assms
proof (induction bs arbitrary: rows)
  case Nil
  then show ?case by (simp add: insert_bindings_def)
next
  case (Cons b bs)
  obtain sc fs where b: "b = (sc, fs)" by (cases b)
  let ?row = "\<lparr>pk_parent_permit_id = parent, pk_scope_key = sc, pk_selected_files = fs\<rparr>"
  have "insert_bindings parent (b # bs) rows = insert_bindings parent bs (rows @ [?row])"
    using Cons.prems(1) [of sc] by (simp add: insert_bindings_def b)
  also have "\<dots> = (rows @ [?row]) @
      map (\<lambda>(sc, fs). \<lparr>pk_parent_permit_id = parent, pk_scope_key = sc, pk_selected_files = fs\<rparr>) bs"
  proof (rule Cons.IH)
    show "distinct (map fst bs)" using Cons.prems(2) by simp
    show "\<not> exists_row (\<lambda>e. pk_parent_permit_id e = parent \<and> pk_scope_key e = sc') (rows @ [?row])"
      if "sc' \<in> fst ` set bs" for sc'
      using Cons.prems that by (auto simp: b exists_row_iff)
  qed
  finally show ?case by (simp add: b)
qed

lemma stored_bindings_bound:
  assumes "stored_bindings d (pm_id parent) = []" and "distinct (map fst bs)"
  shows "stored_bindings (bound_db parent bs olds d) (pm_id parent) = bs"
proof -
  have none: "filter (\<lambda>e. pk_parent_permit_id e = pm_id parent) (pack_episodes d) = []"
    using assms(1) by (simp add: stored_bindings_def)
  then have "\<not> exists_row (\<lambda>e. pk_parent_permit_id e = pm_id parent \<and> pk_scope_key e = sc) (pack_episodes d)" for sc
    by (auto simp: exists_row_iff filter_empty_conv)
  with assms(2) have "pack_episodes (bound_db parent bs olds d) = pack_episodes d @
      map (\<lambda>(sc, fs). \<lparr>pk_parent_permit_id = pm_id parent, pk_scope_key = sc, pk_selected_files = fs\<rparr>) bs"
    by (simp add: bound_db_def Let_def insert_bindings_new)
  then show ?thesis
    by (simp add: stored_bindings_def none filter_map o_def case_prod_beta)
qed

text \<open>The sources a binding may supersede were all found confirmed.\<close>

lemma emap_elem: "emap f xs = Inr ys \<Longrightarrow> y \<in> set ys \<Longrightarrow> \<exists>x. f x = Inr y"
  using emap_set by fastforce

lemma pack_replacements_confirmed:
  assumes "validate_pack_replacements st now d parent bs tokens c = Inr olds" and "old \<in> set olds"
  shows "old \<in> set (permits d) \<and> pm_state old = Confirmed"
proof -
  from assms(1) have em: "emap (\<lambda>token. ebind (old_source_identity st d parent bs (find_token d token))
      (old_source_checks d c parent)) tokens = Inr olds" and pa: "pm_state parent = Authorized"
    by (auto simp: validate_pack_replacements_def err_simps)
  from emap_elem [OF em assms(2)] obtain token o1 where
      o1: "old_source_identity st d parent bs (find_token d token) = Inr o1"
    and o2: "old_source_checks d c parent o1 = Inr old"
    by (auto simp: ebind_Inr)
  from o2 have "old = o1" by (auto simp: old_source_checks_def err_simps split: option.splits)
  from o1 have f: "find_token d token = Some o1" and "pm_state o1 = Confirmed"
    by (auto simp: old_source_identity_def err_simps)
  with find_token_Some [OF f] \<open>old = o1\<close> show ?thesis by simp
qed

lemma bind_frames:
  assumes "bind_season_pack st now token bs tokens c d = Inr d'"
  shows "\<exists>parent r olds. find_token d token = Some parent \<and>
      find_open_reservation d (pm_reservation_id parent) = Some r \<and>
      validate_pack_bindings st parent bs = Inr () \<and>
      (\<forall>q\<in>set olds. q \<in> set (permits d) \<and> pm_state q = Confirmed) \<and>
      (stored_bindings d (pm_id parent) = [] \<or> same_bindings (stored_bindings d (pm_id parent)) bs) \<and>
      (\<forall>sc\<in>fst ` set bs. \<forall>q\<in>set (scope_holders d parent sc). pm_id q \<in> pm_id ` set olds) \<and>
      permits d' = permits (bound_db parent bs olds d) \<and>
      pack_episodes d' = pack_episodes (bound_db parent bs olds d)"
proof -
  from bind_season_pack_parts [OF assms] obtain parent r olds where
      p: "find_token d token = Some parent" "find_open_reservation d (pm_reservation_id parent) = Some r"
      "validate_pack_bindings st parent bs = Inr ()"
      "stored_bindings d (pm_id parent) = [] \<or> same_bindings (stored_bindings d (pm_id parent)) bs"
      "\<forall>sc\<in>fst ` set bs. \<forall>q\<in>set (scope_holders d parent sc). pm_id q \<in> pm_id ` set olds"
    and v: "(case c of
         Some c \<Rightarrow> if tokens = [] then Inr [] else validate_pack_replacements st now d parent bs tokens c
       | None \<Rightarrow> Inr []) = (Inr olds :: err + permit list)"
    and out: "if olds \<noteq> [] then update_probe_budget (pm_reservation_id parent) (bound_db parent bs olds d) = Inr d'
       else d' = bound_db parent bs olds d" by blast
  have "\<forall>q\<in>set olds. q \<in> set (permits d) \<and> pm_state q = Confirmed"
    using v pack_replacements_confirmed [of st now d parent bs tokens _ olds]
    by (auto split: option.splits if_splits)
  moreover have "permits d' = permits (bound_db parent bs olds d) \<and>
      pack_episodes d' = pack_episodes (bound_db parent bs olds d)"
    using out by (auto simp: update_probe_budget_def set_budget_frame split: if_splits option.splits)
  ultimately show ?thesis using p by blast
qed

text \<open>A season pack that replaces the stopped confirmed source of one of its episodes.\<close>

definition pack_permit :: permit where
  "pack_permit = \<lparr>pm_id = ''p3'', pm_token = ''t3'', pm_infohash = hash_b,
     pm_destination = torrents_root, pm_expires_at = 50, pm_category = ''sonarr'', pm_result = None,
     pm_operation_id = ''o3'', pm_reservation_id = Some ''r2'', pm_scope_key = Some ''S01PACK'',
     pm_metadata_sha256 = Some digest_c, pm_selected_files = [''a.S01E01.mkv'', ''a.S01E02.mkv''],
     pm_budget_bytes = Some 300, pm_state = Authorized, pm_reported_seeders = None,
     pm_probe_parent_id = None, pm_quality_rank = None, pm_season_pack_parent_id = None,
     pm_pool_id = ''ssd'', pm_filesystem_id = None\<rparr>"

definition episode_permit :: permit where
  "episode_permit = \<lparr>pm_id = ''p4'', pm_token = ''t4'', pm_infohash = hash_a,
     pm_destination = torrents_root, pm_expires_at = 50, pm_category = ''sonarr'',
     pm_result = Some (accepted_result hash_a),
     pm_operation_id = ''o4'', pm_reservation_id = Some ''r2'', pm_scope_key = Some ''S01E01'',
     pm_metadata_sha256 = Some digest_c, pm_selected_files = [''b.S01E01.mkv''],
     pm_budget_bytes = Some 200, pm_state = Confirmed, pm_reported_seeders = None,
     pm_probe_parent_id = None, pm_quality_rank = None, pm_season_pack_parent_id = None,
     pm_pool_id = ''ssd'', pm_filesystem_id = None\<rparr>"

definition season_db :: db where
  "season_db = sample_db\<lparr>permits := [episode_permit, pack_permit]\<rparr>"

definition stopped_capacity :: capacity where
  "stopped_capacity = sample_capacity\<lparr>cap_remaining_by_hash := [(hash_a, 150)]\<rparr>"

definition season_bindings :: bindings where
  "season_bindings = [(''S01E01'', [''a.S01E01.mkv'']), (''S01E02'', [''a.S01E02.mkv''])]"

definition bound_season_db :: db where
  "bound_season_db = sample_db\<lparr>permits := [episode_permit\<lparr>pm_state := Superseded\<rparr>, pack_permit],
     reservations := [movie_reservation, season_reservation\<lparr>rs_budget_bytes := 300\<rparr>],
     pack_episodes := [\<lparr>pk_parent_permit_id = ''p3'', pk_scope_key = ''S01E01'', pk_selected_files = [''a.S01E01.mkv'']\<rparr>,
                       \<lparr>pk_parent_permit_id = ''p3'', pk_scope_key = ''S01E02'', pk_selected_files = [''a.S01E02.mkv'']\<rparr>]\<rparr>"

lemma season_db_wf: "db_wf season_db"
  by code_simp

lemma sample_bind:
  "bind_season_pack None 10 ''t3'' season_bindings [''t4''] (Some stopped_capacity) season_db
     = Inr bound_season_db"
  by code_simp

lemma season_db_pack: "find_token season_db ''t3'' = Some pack_permit"
  by code_simp

text \<open>C17 (pack_binding_exclusive): After a season pack is bound, no other live source of its reservation
  serves any of the bound episodes, directly or through another pack: the sources it
  replaced were confirmed and are superseded in the same transaction.\<close>

theorem pack_binding_exclusive:
  assumes bind: "bind_season_pack st now token bs tokens c d = Inr d'" and wf: "db_wf d"
    and tok: "find_token d token = Some parent" and sc: "sc \<in> fst ` set bs"
  shows "scope_holders d' parent sc = []"
proof -
  from bind_frames [OF bind] tok obtain olds where
      conf: "\<forall>q\<in>set olds. q \<in> set (permits d) \<and> pm_state q = Confirmed"
    and hold: "\<forall>q\<in>set (scope_holders d parent sc). pm_id q \<in> pm_id ` set olds"
    and perm: "permits d' = permits (bound_db parent bs olds d)"
    and pack: "pack_episodes d' = pack_episodes (bound_db parent bs olds d)"
    using sc by auto
  have none: False if q: "q \<in> set (scope_holders d' parent sc)" for q
  proof -
    from q have h: "q \<in> set (permits d')" "pm_id q \<noteq> pm_id parent" "live q"
        "pm_reservation_id q = pm_reservation_id parent"
      and by_scope: "pm_scope_key q = Some sc \<or>
        (\<exists>e\<in>set (pack_episodes d'). pk_parent_permit_id e = pm_id q \<and> pk_scope_key e = sc)"
      by (auto simp: scope_holders_def exists_row_iff)
    from h(1) obtain q0 where q0: "q0 \<in> set (permits d)"
      and upd: "q = (if pm_id q0 \<in> pm_id ` set olds \<and> pm_state q0 = Confirmed
                     then q0\<lparr>pm_state := Superseded\<rparr> else q0)"
      by (auto simp: perm bound_db_def Let_def set_update_rows)
    from upd h(3) have same: "q = q0" by (auto split: if_splits)
    have "e \<in> set (pack_episodes d)"
      if "e \<in> set (pack_episodes d')" "pk_parent_permit_id e = pm_id q" for e
      using that h(2) insert_bindings_mem [of e "pm_id parent" bs "pack_episodes d"]
      by (auto simp: pack bound_db_def Let_def)
    with by_scope h q0 same have "q \<in> set (scope_holders d parent sc)"
      by (auto simp: scope_holders_def exists_row_iff)
    with hold obtain old where old: "old \<in> set olds" "pm_id q = pm_id old" by auto
    have ids: "pm_id q0 = pm_id old" using old(2) same by simp
    from old(1) conf have c: "old \<in> set (permits d)" "pm_state old = Confirmed" by auto
    have "distinct (map pm_id (permits d))" using wf by (simp add: db_wf_def permits_wf_def)
    then have "q0 = old" using q0 c(1) ids by (rule distinct_key_eq)
    with c(2) old(1) upd have "pm_state q = Superseded" by simp
    with h(3) show False by (simp add: live_def)
  qed
  then have "set (scope_holders d' parent sc) = {}" by (intro equals0I) (rule none)
  then show ?thesis by simp
qed

theorem pack_binding_exclusive_witness:
  "scope_holders season_db pack_permit ''S01E01'' = [episode_permit] \<and>
   scope_holders bound_season_db pack_permit ''S01E01'' = []"
proof
  show "scope_holders season_db pack_permit ''S01E01'' = [episode_permit]" by code_simp
  show "scope_holders bound_season_db pack_permit ''S01E01'' = []"
    by (rule pack_binding_exclusive [OF sample_bind season_db_wf season_db_pack])
       (simp add: season_bindings_def)
qed

text \<open>A first binding stores exactly the given episodes, each a valid episode of
  the pack's season whose files belong to the pack, are all tagged with it, and hold exactly one
  video; a pack that is already bound keeps its bindings.\<close>

theorem pack_binding_recorded:
  assumes bind: "bind_season_pack st now token bs tokens c d = Inr d'"
    and tok: "find_token d token = Some parent" and dict: "distinct (map fst bs)"
    and first: "stored_bindings d (pm_id parent) = []"
  shows "stored_bindings d' (pm_id parent) = bs \<and> bs \<noteq> [] \<and>
    (\<exists>season. \<forall>(sc, files)\<in>set bs.
       set files \<subseteq> set (pm_selected_files parent) \<and> (\<exists>!v. v \<in> set files \<and> is_video v) \<and>
       (\<exists>s e. episode_scope sc = Some (s, e) \<and> to_nat s = season \<and> 0 < to_nat e \<and>
          (\<forall>f\<in>set files. has_episode_tag season (to_nat e) f)))"
proof -
  from bind_frames [OF bind] tok obtain olds where
      val: "validate_pack_bindings st parent bs = Inr ()"
    and pack: "pack_episodes d' = pack_episodes (bound_db parent bs olds d)" by auto
  from validate_pack_bindings_ok [OF val] obtain season where
      ne: "bs \<noteq> []" and ep: "\<forall>b\<in>set bs. valid_pack_episode parent (to_nat season) b = Inr ()" by blast
  have "stored_bindings d' (pm_id parent) = bs"
    using stored_bindings_bound [OF first dict, of olds] by (simp add: stored_bindings_def pack)
  moreover have "\<forall>(sc, files)\<in>set bs.
       set files \<subseteq> set (pm_selected_files parent) \<and> (\<exists>!v. v \<in> set files \<and> is_video v) \<and>
       (\<exists>s e. episode_scope sc = Some (s, e) \<and> to_nat s = to_nat season \<and> 0 < to_nat e \<and>
          (\<forall>f\<in>set files. has_episode_tag (to_nat season) (to_nat e) f))"
  proof (rule ballI, clarify)
    fix sc files assume "(sc, files) \<in> set bs"
    with ep have "valid_pack_episode parent (to_nat season) (sc, files) = Inr ()" by blast
    from valid_pack_episode_ok [OF this] show "set files \<subseteq> set (pm_selected_files parent) \<and>
       (\<exists>!v. v \<in> set files \<and> is_video v) \<and>
       (\<exists>s e. episode_scope sc = Some (s, e) \<and> to_nat s = to_nat season \<and> 0 < to_nat e \<and>
          (\<forall>f\<in>set files. has_episode_tag (to_nat season) (to_nat e) f))" by blast
  qed
  ultimately show ?thesis using ne by blast
qed

theorem pack_binding_recorded_witness:
  "stored_bindings bound_season_db ''p3'' = season_bindings"
proof -
  have "distinct (map fst season_bindings)" by code_simp
  moreover have "stored_bindings season_db (pm_id pack_permit) = []" by code_simp
  ultimately show ?thesis
    using pack_binding_recorded [OF sample_bind season_db_pack] by (simp add: pack_permit_def)
qed

section \<open>Probes\<close>

lemma any_less_False: "any_less xs ys = Inr False \<Longrightarrow> list_all2 (\<le>) ys xs"
  by (induction xs ys rule: any_less.induct) (auto split: if_splits)

lemma probe_parent_checksD:
  assumes "probe_parent_checks d old = Inr (parent, rid, rank)"
  shows "old = Some parent \<and> pm_state parent = Confirmed \<and> pm_probe_parent_id parent = None \<and>
    pm_reservation_id parent = Some rid \<and> pm_quality_rank parent = Some rank \<and>
    require_probe_reservation d parent = Inr () \<and> \<not> import_started d rid (pm_id parent) \<and>
    (\<forall>q\<in>set (permits d). pm_probe_parent_id q = Some (pm_id parent) \<longrightarrow> \<not> live q)"
proof -
  from assms obtain o1 where o1: "old = Some o1" by (auto simp: probe_parent_checks_def split: option.splits)
  with assms have "pm_state o1 = Confirmed" "pm_probe_parent_id o1 = None" "pm_reservation_id o1 \<noteq> None"
    by (auto simp: probe_parent_checks_def split: permit_state.splits option.splits)
  with assms o1 show ?thesis
    by (auto simp: probe_parent_checks_def err_simps exists_row_iff split: option.splits)
qed

text \<open>A probe is only issued beside a confirmed primary source that has a known quality,
  no other live probe and no import: it writes other files, its measured quality is in no
  component of the comparison below the source's, and its torrent is live nowhere and was never
  tried for the reservation.  The source itself is untouched, and the budget of the
  reservation covers both.\<close>

theorem probe_beside_source:
  assumes iss: "issue_probe st now fr token pr c d = Inr (d', p)"
  shows "\<exists>old rid rank new. find_token d token = Some old \<and> pm_state old = Confirmed \<and>
    pm_probe_parent_id old = None \<and> pm_reservation_id old = Some rid \<and>
    permits d' = permits d @ [p] \<and> pm_state p = Authorized \<and> pm_probe_parent_id p = Some (pm_id old) \<and>
    (\<forall>q\<in>set (permits d). pm_probe_parent_id q = Some (pm_id old) \<longrightarrow> \<not> live q) \<and>
    set (pr_selected_files pr) \<inter> set (pm_selected_files old) = {} \<and>
    pm_quality_rank old = Some rank \<and> pr_quality_rank pr = Some new \<and>
    list_all2 (\<le>) (take 2 rank) (take 2 new) \<and>
    (\<forall>q\<in>set (permits d). pm_infohash q = pm_infohash p \<longrightarrow> pm_reservation_id q \<noteq> Some rid \<and> \<not> live q) \<and>
    (\<forall>r. find_reservation d rid = Some r \<longrightarrow>
       find_reservation d' rid = Some (r\<lparr>rs_budget_bytes := probe_budget d' rid\<rparr>))"
proof -
  from issue_probe_parts [OF iss] obtain dg parent s d1 where
      par: "probe_parent_checks d (find_token d token) = Inr parent"
    and cand: "probe_candidate_checks pr d parent = Inr ()"
    and sel: "select_pool st d now c (probe_permit fr pr dg s (fst parent)) = Inr p"
    and ins: "insert_permit p d = Inr d1"
    and upd: "update_probe_budget (pm_reservation_id p) d1 = Inr d'" by blast
  obtain old rid rank where pt: "parent = (old, rid, rank)" by (cases parent)
  note par' = probe_parent_checksD [OF par [unfolded pt]]
  from cand pt obtain new where new: "pr_quality_rank pr = Some new"
      "any_less (take 2 new) (take 2 rank) = Inr False"
    and fresh: "\<forall>q\<in>set (permits d). pm_infohash q = lower (pr_infohash pr) \<longrightarrow>
       pm_reservation_id q \<noteq> Some rid \<and> \<not> live q"
    and files: "set (pr_selected_files pr) \<inter> set (pm_selected_files old) = {}"
    by (auto simp: probe_candidate_checks_def err_simps exists_row_iff list_all_iff disjoint_iff split: option.splits if_splits)
  note p = replaced_fields [OF select_pool_replaced [OF sel]]
  have pp: "pm_state p = Authorized" "pm_probe_parent_id p = Some (pm_id old)"
      "pm_infohash p = lower (pr_infohash pr)" "pm_reservation_id p = Some rid"
    using p par' by (simp_all add: probe_permit_def pt)
  have d1: "d1 = d\<lparr>permits := permits d @ [p]\<rparr>" using ins by (simp add: insert_permit_iff)
  from upd pp(4) have set: "set_reservation_budget rid (probe_budget d1 rid) d1 = Inr d'"
    by (simp add: update_probe_budget_def)
  have "probe_budget d' rid = probe_budget d1 rid"
    by (simp add: probe_budget_def pending_parent_def set_budget_frame [OF set])
  then have "\<forall>r. find_reservation d rid = Some r \<longrightarrow>
       find_reservation d' rid = Some (r\<lparr>rs_budget_bytes := probe_budget d' rid\<rparr>)"
    using set_budget_found [OF set] by (simp add: d1 find_reservation_def)
  moreover have "permits d' = permits d @ [p]" using d1 set_budget_frame(1) [OF set] by simp
  ultimately show ?thesis using par' new files fresh pp any_less_False [OF new(2)] by auto
qed

text \<open>A faster candidate measured beside the confirmed movie.\<close>

definition ranked_permit :: permit where
  "ranked_permit = confirmed_permit\<lparr>pm_quality_rank := Some [2, 1, 7]\<rparr>"

definition ranked_db :: db where
  "ranked_db = admitted_db\<lparr>permits := [ranked_permit]\<rparr>"

definition candidate_request :: probe_request where
  "candidate_request = \<lparr>pr_infohash = hash_b, pr_metadata_sha256 = Some digest_c,
     pr_selected_files = [''n.mkv''], pr_budget_bytes = 300, pr_expires_at = 90,
     pr_reported_seeders = Some 9, pr_quality_rank = Some [2, 1, 3]\<rparr>"

definition candidate_permit :: permit where
  "candidate_permit = probe_permit second_fresh candidate_request digest_c (Some 9) ranked_permit"

definition probing_db :: db where
  "probing_db = ranked_db\<lparr>permits := [ranked_permit, candidate_permit],
     reservations := [movie_reservation\<lparr>rs_budget_bytes := 900\<rparr>, season_reservation]\<rparr>"

definition measured_permit :: permit where
  "measured_permit = candidate_permit\<lparr>pm_state := Confirmed, pm_result := Some (accepted_result hash_b)\<rparr>"

definition measured_db :: db where
  "measured_db = probing_db\<lparr>permits := [ranked_permit, measured_permit]\<rparr>"

definition promoted_db :: db where
  "promoted_db = measured_db\<lparr>permits := [ranked_permit\<lparr>pm_state := Superseded\<rparr>,
       measured_permit\<lparr>pm_probe_parent_id := None\<rparr>],
     handovers := [\<lparr>ho_candidate_id = ''p2'', ho_parent_id = ''p1'', ho_state = HoPending\<rparr>]\<rparr>"

lemma sample_probe:
  "issue_probe None 60 second_fresh ''t1'' candidate_request sample_capacity ranked_db
     = Inr (probing_db, candidate_permit)"
  by code_simp

lemma measured_db_wf: "db_wf measured_db"
  by code_simp

lemma sample_promote:
  "promote_probe ''t2'' measured_db = Inr (promoted_db, measured_permit\<lparr>pm_probe_parent_id := None\<rparr>)"
  by code_simp

theorem probe_beside_source_witness:
  "\<exists>old. find_token ranked_db ''t1'' = Some old \<and> pm_state old = Confirmed \<and>
     pm_probe_parent_id candidate_permit = Some (pm_id old)"
  using probe_beside_source [OF sample_probe] by blast

text \<open>C23 (promotion_swaps_sources): Promoting a confirmed probe makes it the primary source and supersedes exactly
  the one confirmed primary source it was measured against, opening a pending handover between them; no other
  permit changes, and the budget of the reservation still counts the bytes of both until
  the handover completes.\<close>

theorem promotion_swaps_sources:
  assumes pr: "promote_probe token d = Inr (d', p')" and wf: "db_wf d"
    and tok: "find_token d token = Some p"
  shows "\<exists>parent old. pm_probe_parent_id p = Some parent \<and> pm_state p = Confirmed \<and>
    old \<in> set (permits d) \<and> pm_id old = parent \<and> pm_state old = Confirmed \<and> pm_probe_parent_id old = None \<and>
    permits d' = map (\<lambda>q. if q = old then q\<lparr>pm_state := Superseded\<rparr>
                          else if q = p then p' else q) (permits d) \<and>
    p' = p\<lparr>pm_probe_parent_id := None\<rparr> \<and>
    handovers d' = handovers d @
      [\<lparr>ho_candidate_id = pm_id p, ho_parent_id = parent, ho_state = HoPending\<rparr>] \<and>
    (\<forall>rid r. pm_reservation_id p = Some rid \<and> find_reservation d rid = Some r \<longrightarrow>
       find_reservation d' rid = Some (r\<lparr>rs_budget_bytes := probe_budget d' rid\<rparr>))"
proof -
  from promote_parts [OF pr] tok obtain parent d1 d2 where
      st: "pm_state p = Confirmed" "pm_probe_parent_id p = Some parent"
    and one: "row_count (primary_source parent) (permits d) = 1"
    and ho: "open_handover (pm_id p) parent
        (with_permits (primary_source parent) (\<lambda>q. q\<lparr>pm_state := Superseded\<rparr>) d) = Inr d1"
    and det: "detach_probe token d1 = Inr d2"
    and upd: "update_probe_budget (pm_reservation_id p) d2 = Inr d'"
    and p': "p' = p\<lparr>pm_probe_parent_id := None\<rparr>" by auto
  from one have "filter (primary_source parent) (permits d) \<noteq> []" by (auto simp: row_count_def)
  then obtain old where old: "old \<in> set (permits d)" "primary_source parent old"
    by (auto simp: filter_empty_conv)
  have keys: "distinct (map pm_id (permits d))" "distinct (map pm_token (permits d))"
    using wf by (simp_all add: db_wf_def permits_wf_def)
  have pm: "p \<in> set (permits d)" "pm_token p = token" using find_token_Some [OF tok] by auto
  have only_old: "primary_source parent q \<longleftrightarrow> q = old" if "q \<in> set (permits d)" for q
    using distinct_key_eq [OF keys(1) that old(1)] old(2) by (auto simp: primary_source_def)
  have only_p: "pm_token q = token \<longleftrightarrow> q = p" if "q \<in> set (permits d)" for q
    using distinct_key_eq [OF keys(2) that pm(1)] pm(2) by auto
  have ne: "old \<noteq> p" using old(2) st(2) by (auto simp: primary_source_def)
  note hf = open_handover_frame [OF ho]
  have wf0: "db_wf (with_permits (primary_source parent) (\<lambda>q. q\<lparr>pm_state := Superseded\<rparr>) d)"
    using wf by (rule with_permits_wf) (simp_all add: state_change_slot)
  then have wf1: "db_wf d1" by (rule db_wf_frame) (simp_all add: hf)
  have d2: "d2 = d1\<lparr>permits := update_rows (\<lambda>q. pm_token q = token) (\<lambda>q. q\<lparr>pm_probe_parent_id := None\<rparr>) (permits d1)\<rparr>"
    using det by (auto simp: detach_probe_def Let_def split: if_splits)
  have "permits d' = permits d2" by (rule update_probe_budget_frame [OF upd])
  also have "\<dots> = map (\<lambda>q. if q = old then q\<lparr>pm_state := Superseded\<rparr> else if q = p then p' else q) (permits d)"
  proof -
    let ?f = "\<lambda>q. if primary_source parent q then q\<lparr>pm_state := Superseded\<rparr> else q"
    have "(if pm_token (?f q) = token then (?f q)\<lparr>pm_probe_parent_id := None\<rparr> else ?f q) =
        (if q = old then q\<lparr>pm_state := Superseded\<rparr> else if q = p then p' else q)"
      if q: "q \<in> set (permits d)" for q
      using only_old [OF q] only_p [OF q] ne p' by (cases "q = old"; cases "q = p") simp_all
    then show ?thesis by (simp add: d2 hf update_rows_def with_permits_def)
  qed
  finally have perm: "permits d' = \<dots>" .
  have handed: "handovers d' = handovers d @
      [\<lparr>ho_candidate_id = pm_id p, ho_parent_id = parent, ho_state = HoPending\<rparr>]"
    using upd by (auto simp: update_probe_budget_def set_budget_frame d2 hf split: option.splits)
  have bud: "find_reservation d' rid = Some (r\<lparr>rs_budget_bytes := probe_budget d' rid\<rparr>)"
    if "pm_reservation_id p = Some rid" "find_reservation d rid = Some r" for rid r
  proof -
    from upd that(1) have set: "set_reservation_budget rid (probe_budget d2 rid) d2 = Inr d'"
      by (simp add: update_probe_budget_def)
    have "probe_budget d' rid = probe_budget d2 rid"
      by (simp add: probe_budget_def pending_parent_def set_budget_frame [OF set])
    moreover have "find_reservation d2 rid = Some r" using that(2) by (simp add: d2 hf find_reservation_def)
    ultimately show ?thesis using set_budget_found [OF set] by simp
  qed
  have ids: "pm_id old = parent" "pm_state old = Confirmed" "pm_probe_parent_id old = None"
    using old(2) by (simp_all add: primary_source_def)
  show ?thesis
    by (intro exI [of _ parent] exI [of _ old] conjI allI impI)
       (fact st old(1) ids perm p' handed | (erule conjE, erule (1) bud))+
qed

theorem promotion_swaps_sources_witness:
  "handovers promoted_db = [\<lparr>ho_candidate_id = ''p2'', ho_parent_id = ''p1'', ho_state = HoPending\<rparr>]"
proof -
  have "find_token measured_db ''t2'' = Some measured_permit" by code_simp
  from promotion_swaps_sources [OF sample_promote measured_db_wf this]
  show ?thesis by (auto simp: promoted_db_def measured_permit_def candidate_permit_def probe_permit_def
      ranked_permit_def confirmed_permit_def movie_permit_def second_fresh_def)
qed

end
