(* ===== verification/ReservationProperties.thy ===== *)
theory ReservationProperties
  imports Samples
begin

text \<open>
  The properties of the reservation repository, the scheduler in front of it and the
  reconciliation of cancelled requests.
\<close>

section \<open>Space\<close>

text \<open>C22 (reservation_fits_disk): A reservation that is accepted for new bytes fits: afterwards the bytes all
  open reservations may still write, the new one included, are at most the free bytes
  that were measured, and they grew by exactly the requested budget.\<close>

theorem reservation_fits_disk:
  assumes "reserve now new_id new_op a d = Inr (d', res)" and "res_accepted res" and "res_reason res = None"
  shows "committed_bytes d' = committed_bytes d + ra_budget_bytes a \<and>
         (0 < ra_budget_bytes a \<longrightarrow> committed_bytes d' \<le> ra_free_bytes a)"
  using reserve_commits [OF assms] by blast

definition film :: reserve_args where
  "film = \<lparr>ra_request_id = ''q3'', ra_source_id = ''seerr-3'', ra_media_key = ''movie:tmdb:8'',
     ra_filesystem_id = ''fs1'', ra_budget_bytes = 400, ra_free_bytes = 1000, ra_total_bytes = 5000\<rparr>"

definition film_db :: db where
  "film_db = (case reserve 5 ''r3'' ''op3'' film admitted_db of Inr (d, _) \<Rightarrow> d | Inl _ \<Rightarrow> empty_db)"

definition film_result :: reservation_result where
  "film_result = \<lparr>res_accepted = True, res_reservation_id = Some ''r3'', res_operation_id = Some ''op3'',
     res_reason = None\<rparr>"

lemma film_reserved: "reserve 5 ''r3'' ''op3'' film admitted_db = Inr (film_db, film_result)"
  by code_simp

theorem reservation_fits_disk_witness:
  "committed_bytes admitted_db = 600 \<and> committed_bytes film_db = 1000"
proof
  show "committed_bytes admitted_db = 600" by code_simp
  with reservation_fits_disk [OF film_reserved] show "committed_bytes film_db = 1000"
    by (simp add: film_result_def film_def)
qed

text \<open>Repeating an accepted reservation, at any later time and with any fresh
  identifiers, is accepted as the same reservation and changes nothing.\<close>

theorem reservation_idempotent:
  assumes "reserve now new_id new_op a d = Inr (d', res)"
    and "res_accepted res" and "res_reason res = None"
  shows "\<exists>oper. reserve now2 id2 op2 a d' = Inr (d', \<lparr>res_accepted = True, res_reservation_id = Some new_id,
           res_operation_id = oper, res_reason = Some ''idempotent''\<rparr>)"
  using assms by (rule reserve_again)

theorem reservation_idempotent_witness:
  "\<exists>oper. reserve 9 ''r9'' ''op9'' film film_db = Inr (film_db, \<lparr>res_accepted = True,
     res_reservation_id = Some ''r3'', res_operation_id = oper, res_reason = Some ''idempotent''\<rparr>)"
  by (rule reservation_idempotent [OF film_reserved]) (simp_all add: film_result_def)

text \<open>Without a usable measurement of the filesystem (unknown identity, impossible
  sizes, a measurement older than its bound or from the future) the scheduler accepts
  nothing.\<close>

theorem stale_snapshot_refused:
  assumes "scheduler_admit clock s now new_id new_op cand d = Inr (d', res)" and "res_accepted res"
  shows "fs_filesystem_id s \<noteq> None \<and> 0 \<le> fs_free_bytes s \<and> 0 < fs_total_bytes s \<and>
    fs_measured_at s \<le> clock \<and> clock \<le> fs_measured_at s + fs_stale_after_seconds s"
proof -
  from assms have "snapshot_usable_at clock s"
    by (auto simp: scheduler_admit_def refused_def split: if_splits)
  then show ?thesis by (auto simp: snapshot_usable_at_def algebra_simps)
qed

definition fresh_snapshot :: filesystem_snapshot where
  "fresh_snapshot = \<lparr>fs_filesystem_id = Some ''fs1'', fs_free_bytes = 1000, fs_total_bytes = 5000,
     fs_measured_at = 10, fs_stale_after_seconds = 30\<rparr>"

definition film_candidate :: admission_candidate where
  "film_candidate = \<lparr>ac_request_id = ''q3'', ac_source_id = ''seerr-3'', ac_media_key = ''movie:tmdb:8'',
     ac_budget_bytes = 400\<rparr>"

theorem stale_snapshot_refused_witness:
  "scheduler_admit 20 fresh_snapshot 5 ''r3'' ''op3'' film_candidate admitted_db = Inr (film_db, film_result) \<and>
   fs_filesystem_id fresh_snapshot \<noteq> None"
proof -
  have *: "scheduler_admit 20 fresh_snapshot 5 ''r3'' ''op3'' film_candidate admitted_db = Inr (film_db, film_result)"
    by code_simp
  from stale_snapshot_refused [OF *] * show ?thesis by (simp add: film_result_def)
qed

text \<open>Recomputing the budgets gives every open reservation exactly the sum of its
  live permits, and changes no permit and no key.\<close>

theorem budgets_normalized:
  assumes "normalize_verified_budgets d = Inr d'" and "db_wf d"
    and "r \<in> set (reservations d')" and "open_state (rs_state r)"
  shows "rs_budget_bytes r = live_budget d' (rs_id r) \<and> permits d' = permits d \<and> db_wf d'"
  using normalize_frame [OF assms(1)] assms by blast

theorem budgets_normalized_witness:
  "live_budget film_db ''r1'' = 600"
proof -
  have n: "normalize_verified_budgets admitted_db = Inr admitted_db" by code_simp
  have "movie_reservation\<lparr>rs_budget_bytes := 600\<rparr> \<in> set (reservations admitted_db)"
    by (simp add: admitted_db_def)
  from budgets_normalized [OF n admitted_db_wf this] have "live_budget admitted_db ''r1'' = 600"
    by (simp add: movie_reservation_def)
  moreover have "permits film_db = permits admitted_db" using reserve_frame [OF film_reserved] by blast
  ultimately show ?thesis by (simp add: live_budget_def)
qed

section \<open>Cancellation\<close>





text \<open>A reservation one of whose permits was ever dispatched is not cancelled: its
  reservation and permits stay as they are and only the request is marked.\<close>

theorem started_download_kept:
  assumes "cancel_unstarted now rid d = (d', a)" and "p \<in> set (permits d)"
    and "pm_reservation_id p = Some rid" and "pm_state p \<notin> {Authorized, Revoked}"
  shows "a \<noteq> CancelDone \<and> permits d' = permits d \<and> reservations d' = reservations d"
  using assms(1)
proof (cases rule: cancel_unstarted_cases)
  case 1
  then show ?thesis by auto
next
  case (2 r)
  then show ?thesis by simp
next
  case (3 r)
  with assms show ?thesis by blast
qed

theorem started_download_kept_witness:
  "permits (fst (cancel_unstarted 7 ''r1'' dispatched_db)) = permits dispatched_db"
proof -
  obtain d' a where c: "cancel_unstarted 7 ''r1'' dispatched_db = (d', a)" by fastforce
  from started_download_kept [OF c, of "movie_permit\<lparr>pm_state := Dispatching\<rparr>"] c show ?thesis
    by (simp add: dispatched_db_def movie_permit_def)
qed

text \<open>The reconciliation with Seerr never cancels a reservation whose source is in
  the list of approved requests.\<close>

theorem approved_requests_kept:
  assumes "reconcile_cancellations now status approved (active_seerr_requests d) d = (d', n)"
    and "db_wf d" and "r \<in> set (reservations d)" and "find_request d (rs_request_id r) = Some q"
    and "rq_source_id q \<in> set approved"
  shows "r \<in> set (reservations d')"
proof -
  have app: "src \<in> set approved" if "(rid, src) \<in> set (active_seerr_requests d)" "rid = rs_id r" for rid src
  proof -
    from that(1) obtain x qx where x: "x \<in> set (reservations d)" "rs_id x = rid"
        "find_request d (rs_request_id x) = Some qx" "src = rq_source_id qx"
      by (auto simp: active_seerr_requests_def map_filter_mem split: option.splits if_splits)
    have "distinct (map rs_id (reservations d))" using assms(2) by (simp add: db_wf_def)
    from distinct_key_eq [OF this x(1) assms(3)] x(2) that(2) have "x = r" by simp
    with x assms(4,5) show ?thesis by simp
  qed
  have "filter (\<lambda>x. rs_id x = rs_id r) (reservations d') = filter (\<lambda>x. rs_id x = rs_id r) (reservations d)"
    using app by (rule reconcile_keeps_approved [OF assms(1)])
  moreover have "r \<in> set (filter (\<lambda>x. rs_id x = rs_id r) (reservations d))" using assms(3) by simp
  ultimately have "r \<in> set (filter (\<lambda>x. rs_id x = rs_id r) (reservations d'))" by simp
  then show ?thesis by simp
qed

theorem approved_requests_kept_witness:
  "season_reservation \<in> set (reservations
     (fst (reconcile_cancellations 7 (\<lambda>_. None) [''seerr-2''] (active_seerr_requests sample_db) sample_db)))"
proof -
  obtain d' n where r: "reconcile_cancellations 7 (\<lambda>_. None) [''seerr-2'']
      (active_seerr_requests sample_db) sample_db = (d', n)" by fastforce
  have "season_reservation \<in> set (reservations sample_db)" by (simp add: sample_db_def)
  moreover have "find_request sample_db (rs_request_id season_reservation) = Some season_request" by code_simp
  ultimately show ?thesis
    using approved_requests_kept [OF r sample_db_wf, of season_reservation season_request] r
    by (simp add: season_request_def)
qed

section \<open>Imports, operations and migrations\<close>

text \<open>C24 (imports_never_overlap): Through any sequence of import operations at most one import is being dispatched or
  copying at any time, and while a copy is under way no other import is unfinished.\<close>

theorem imports_never_overlap:
  assumes "run import_step d ls d'" and "imports_exclusive d"
  shows "length (filter exclusive (import_states d')) \<le> 1 \<and>
    (list_ex copying (import_states d') \<longrightarrow> length (filter unfinished (import_states d')) \<le> 1)"
  using importing.run_inv [OF assms] by (simp add: imports_exclusive_def)

definition importing_db :: db where
  "importing_db = fst (claim_movie_import 3 ''r1'' False sample_db)"

theorem imports_never_overlap_witness:
  "length (filter exclusive (import_states importing_db)) \<le> 1 \<and> import_states importing_db = [ImDispatching]"
proof
  have c: "claim_movie_import 3 ''r1'' False sample_db = (importing_db, True)" by code_simp
  have "imports_exclusive sample_db" by code_simp
  moreover have "run import_step sample_db [ClaimMovie ''r1'' False] importing_db"
    using import_step.claim_movie [OF c] by (simp add: run_Cons_simp)
  ultimately show "length (filter exclusive (import_states importing_db)) \<le> 1"
    using imports_never_overlap by blast
  show "import_states importing_db = [ImDispatching]" by code_simp
qed

text \<open>An operation is recorded once: repeating \<open>record_operation\<close> under the same
  identifier, with whatever kind, payload and state, returns the first row and changes
  nothing.\<close>

theorem operation_recorded_once:
  assumes "record_operation oper d = Inr (d', view)" and "op_id oper' = op_id oper"
  shows "record_operation oper' d' = Inr (d', view) \<and> get_operation (op_id oper) d' = Some view"
proof -
  let ?d1 = "case insert_operation oper d of Inl _ \<Rightarrow> d | Inr d' \<Rightarrow> d'"
  from assms(1) obtain x where x: "find_row (\<lambda>y. op_id y = op_id oper) (operations ?d1) = Some x"
    and d': "d' = ?d1" and v: "view = operation_view x"
    by (auto simp: record_operation_def Let_def err_simps)
  from find_row_Some [OF x] d' have "\<exists>y\<in>set (operations d'). op_id y = op_id oper'"
    using assms(2) by (intro bexI [of _ x]) simp_all
  then have "insert_operation oper' d' = Inl IntegrityError"
    by (auto simp: insert_operation_def exists_row_iff)
  with x d' v assms(2) show ?thesis by (simp add: record_operation_def get_operation_def)
qed

definition first_operation :: operation_row where
  "first_operation = \<lparr>op_id = ''o7'', op_idempotency_key = ''k7'', op_kind = ''delete'',
     op_payload = [(''media_key'', JStr ''movie:tmdb:7'')], op_state = ''pending'', op_updated_at = 4\<rparr>"

theorem operation_recorded_once_witness:
  "\<exists>d' view. record_operation first_operation sample_db = Inr (d', view) \<and>
     record_operation (first_operation\<lparr>op_state := ''done''\<rparr>) d' = Inr (d', view)"
proof -
  have "record_operation first_operation sample_db =
      Inr (sample_db\<lparr>operations := [first_operation]\<rparr>, operation_view first_operation)" by code_simp
  from operation_recorded_once [OF this, of "first_operation\<lparr>op_state := ''done''\<rparr>"] this
  show ?thesis by (auto simp: first_operation_def)
qed

lemma run_migrations_noop: "set vs \<subseteq> set xs \<Longrightarrow> run_migrations vs xs = (xs, [])"
  by (induction vs) auto

lemma run_migrations_spec:
  "run_migrations vs applied = (a, e) \<Longrightarrow>
     a = applied @ e \<and> distinct e \<and> set e = set vs - set applied \<and> subseq e vs"
proof (induction vs arbitrary: applied a e)
  case Nil
  then show ?case by simp
next
  case (Cons v vs)
  show ?case
  proof (cases "v \<in> set applied")
    case True
    with Cons.prems Cons.IH [of applied a e] show ?thesis by (auto intro: list_emb_Cons)
  next
    case False
    with Cons.prems obtain e' where e': "run_migrations vs (applied @ [v]) = (a, e')" "e = v # e'"
      by (auto split: prod.splits)
    with Cons.IH [OF e'(1)] False show ?thesis by auto
  qed
qed

text \<open>\<open>initialize\<close> executes exactly the migrations that are not recorded, each
  once and in the order of the files, records them, and executes nothing when run again.\<close>

theorem migrations_run_once:
  "case run_migrations vs applied of
     (applied', executed) \<Rightarrow>
       applied' = applied @ executed \<and> distinct executed \<and>
       set executed = set vs - set applied \<and> subseq executed vs \<and>
       run_migrations vs applied' = (applied', [])"
proof -
  obtain a e where r: "run_migrations vs applied = (a, e)" by fastforce
  from run_migrations_spec [OF r] run_migrations_noop [of vs a] r show ?thesis by auto
qed

end
