(* ===== verification/EvidenceProperties.thy ===== *)
theory EvidenceProperties
  imports CapacityEvidence MediaKeys
begin

text \<open>
  The properties of the capacity evidence and of the media keys the registry relies on.
\<close>

section \<open>Capacity evidence\<close>

text \<open>Evidence read from the gateway's queue exists only for a fresh snapshot of the
  expected, mounted filesystem; it carries the measured free bytes, no negative counter,
  and counts every byte that torrents outside the registry still have to download.\<close>

theorem queue_evidence_sound:
  assumes "capacity_from_queue snapshot (JList items) expected now max_age is_mount free = Inr c"
  shows "capacity_ok c \<and> snapshot_usable snapshot expected now max_age is_mount \<and>
    cap_free_bytes c = free \<and>
    cap_other_pending_bytes c = sum_list (map unmanaged_left items)"
proof -
  from assms obtain acc where acc: "queue_items empty_acc items = Inr acc"
    and chk: "check_capacity \<lparr>cap_free_bytes = free, cap_remaining_by_hash = qa_remaining acc,
        cap_other_pending_bytes = qa_other acc, cap_paused_hashes = qa_paused acc, cap_pools = []\<rparr> = Inr c"
    by (auto simp: capacity_from_queue_def err_simps split: if_splits)
  from chk have "cap_other_pending_bytes c = qa_other acc"
    by (auto simp: check_capacity_def split: if_splits)
  with queue_items_other [OF acc] capacity_from_queue_evidence [OF assms] show ?thesis
    by (simp add: empty_acc_def)
qed

definition sample_snapshot :: "(string \<times> json) list" where
  "sample_snapshot = [(''filesystem_id'', JStr ''fs1''), (''measured_at'', JInt 100)]"

definition sample_queue :: "json list" where
  "sample_queue =
     [JObj [(''hash'', JStr (replicate 40 (CHR ''a''))), (''state'', JStr ''downloading''),
            (''total_size'', JInt 500), (''amount_left'', JInt 200), (''admitted'', JBool True)],
      JObj [(''hash'', JStr (replicate 40 (CHR ''b''))), (''state'', JStr ''downloading''),
            (''total_size'', JInt 90), (''amount_left'', JInt 40), (''admitted'', JBool False)]]"

definition queue_capacity :: capacity where
  "queue_capacity = \<lparr>cap_free_bytes = 1000, cap_remaining_by_hash = [(replicate 40 (CHR ''a''), 200)],
     cap_other_pending_bytes = 40, cap_paused_hashes = [], cap_pools = []\<rparr>"

lemma sample_queue_capacity:
  "capacity_from_queue sample_snapshot (JList sample_queue) (Some ''fs1'') 110 60 True 1000 = Inr queue_capacity"
  by code_simp

theorem queue_evidence_sound_witness:
  "capacity_ok queue_capacity \<and> sum_list (map unmanaged_left sample_queue) = 40"
  using queue_evidence_sound [OF sample_queue_capacity] by (simp add: queue_capacity_def)

text \<open>Evidence of a registered installation has at least one pool; each pool
  carries the filesystem and the free bytes the registry's own inspection reports.\<close>

theorem pool_evidence_sound:
  assumes "registered_capacity parse_iso inspect now max_age snapshot payload = Inr c"
  shows "capacity_ok c \<and> cap_pools c \<noteq> [] \<and>
    (\<forall>p\<in>set (cap_pools c). \<exists>sm. inspect (pc_pool_id p) = Some sm \<and>
        pc_filesystem_id p = sm_filesystem_id sm \<and> pc_free_bytes p = sm_free_bytes sm)"
  using assms by (rule registered_capacity_evidence)

definition pool_snapshot :: "(string \<times> json) list" where
  "pool_snapshot = [(''pools'', JList
     [JObj [(''pool_id'', JStr ''ssd''), (''measured_at'', JInt 100), (''state'', JStr ''ready''),
            (''filesystem_id'', JStr ''fs1'')]])]"

definition ssd_sample :: sample where
  "ssd_sample = \<lparr>sm_filesystem_id = ''fs1'', sm_free_bytes = 800\<rparr>"

definition pool_answer :: "string \<Rightarrow> sample option" where
  "pool_answer pool = (if pool = ''ssd'' then Some ssd_sample else None)"

definition ssd_pool :: pool_capacity where
  "ssd_pool = \<lparr>pc_pool_id = ''ssd'', pc_filesystem_id = ''fs1'', pc_free_bytes = 800,
     pc_remaining_by_hash = [], pc_other_pending_bytes = 0, pc_paused_hashes = []\<rparr>"

definition ssd_capacity :: capacity where
  "ssd_capacity = \<lparr>cap_free_bytes = 800, cap_remaining_by_hash = [], cap_other_pending_bytes = 0,
     cap_paused_hashes = [], cap_pools = [ssd_pool]\<rparr>"

lemma sample_registered_capacity:
  "registered_capacity (\<lambda>_. None) pool_answer 110 60 pool_snapshot (JList []) = Inr ssd_capacity"
  by code_simp

theorem pool_evidence_sound_witness:
  "capacity_ok ssd_capacity \<and> (\<exists>sm. pool_answer ''ssd'' = Some sm \<and> sm_free_bytes sm = 800)"
  using pool_evidence_sound [OF sample_registered_capacity]
  by (auto simp: ssd_capacity_def ssd_pool_def)

section \<open>Media keys\<close>

text \<open>The keys the code writes are read back: the season of a pack scope, the title and season
  of a season key, and the numbers of an episode scope, for every season and episode.\<close>

theorem media_keys_parse:
  "pack_scope (pack_scope_of season) = Some (show02 season) \<and> to_nat (show02 season) = season \<and>
   episode_scope (''S'' @ show02 season @ ''E'' @ show02 episode) = Some (show02 season, show02 episode) \<and>
   season_key_any (''season:tmdb:'' @ show_nat n @ '':'' @ show_nat season) = Some (show_nat n, show_nat season)"
proof -
  have d: "digits1 (show_nat k)" for k
    using show_nat_digits by (simp add: digits1_def list_all_iff)
  have nd: "\<not> is_digit (CHR ''E'')" "\<not> is_digit (CHR '':'')" by (simp_all add: is_digit_def code_def)
  have "episode_scope_any (''S'' @ show02 season @ ''E'' @ show02 episode) = Some (show02 season, show02 episode)"
    unfolding episode_scope_any_def using nd by (intro two_numbers_complete show02_digits) auto
  moreover have "season_key_any (''season:tmdb:'' @ show_nat n @ '':'' @ show_nat season) = Some (show_nat n, show_nat season)"
    unfolding season_key_any_def using nd by (intro two_numbers_complete d) auto
  ultimately show ?thesis
    by (simp add: pack_scope_of_parses episode_scope_def show02_length)
qed

end
