(* ===== verification/PermitLookups.thy ===== *)
theory PermitLookups
  imports SeasonPacks
begin

text \<open>
  The queries of \<open>gateway/permits.py\<close> that other components build on: the permit behind a
  headerless add, the attribution of queue entries, the sources a deletion may remove, and
  the lists the finalizers and the reconciliation walk.  \<open>LIKE\<close> ignores the case of ASCII
  letters; \<open>ORDER BY\<close> sorts by the bytes of the identifier.
\<close>

section \<open>Resolving an add\<close>

text \<open>The reservation of a permit in one of the open states.\<close>

definition open_budget :: "db \<Rightarrow> permit \<Rightarrow> int option" where
  "open_budget d p = map_option rs_budget_bytes (find_open_reservation d (pm_reservation_id p))"

definition budget_within :: "db \<Rightarrow> permit \<Rightarrow> bool" where
  "budget_within d p =
     (case (pm_budget_bytes p, open_budget d p) of (Some b, Some r) \<Rightarrow> b \<le> r | _ \<Rightarrow> False)"

definition usable_state :: "permit_state \<Rightarrow> bool" where
  "usable_state s = (s \<in> {Authorized, Confirmed})"

definition only_match :: "permit list \<Rightarrow> err + permit" where
  "only_match ps = (case ps of [p] \<Rightarrow> Inr p | _ \<Rightarrow> Inl (PermissionError ''permit_required_or_ambiguous''))"

definition find_for_metadata ::
    "bool \<Rightarrow> time \<Rightarrow> string \<Rightarrow> string option \<Rightarrow> string \<Rightarrow> string \<Rightarrow> db \<Rightarrow> err + permit" where
  "find_for_metadata registered now infohash metadata destination category d =
     ebind (validate_metadata_digest metadata) (\<lambda>digest.
       only_match (filter (\<lambda>p.
         pm_infohash p = lower infohash \<and> digest \<noteq> None \<and> pm_metadata_sha256 p = digest \<and>
         (pm_destination p = destination \<or> registered) \<and> pm_category p = category \<and>
         usable_state (pm_state p) \<and> budget_within d p \<and> now < pm_expires_at p) (permits d)))"

definition find_for_magnet :: "bool \<Rightarrow> time \<Rightarrow> string \<Rightarrow> string \<Rightarrow> string \<Rightarrow> db \<Rightarrow> err + permit" where
  "find_for_magnet registered now infohash destination category d =
     only_match (filter (\<lambda>p.
       pm_infohash p = lower infohash \<and> (pm_destination p = destination \<or> registered) \<and>
       pm_category p = category \<and> usable_state (pm_state p) \<and> pm_metadata_sha256 p \<noteq> None \<and>
       0 < budget_or_0 p \<and> budget_within d p \<and> pm_selected_files p \<noteq> [] \<and>
       now < pm_expires_at p) (permits d))"

section \<open>Queue entries\<close>

definition is_admitted :: "string \<Rightarrow> db \<Rightarrow> bool" where
  "is_admitted infohash d =
     exists_row (\<lambda>p. pm_infohash p = lower infohash \<and> (pm_state p = Confirmed \<or> pending_parent d p)) (permits d)"

text \<open>\<open>str.rstrip("/")\<close>\<close>

definition rstrip_slash :: "string \<Rightarrow> string" where
  "rstrip_slash s = rev (dropWhile (\<lambda>c. c = CHR ''/'') (rev s))"

definition placement_of :: "permit \<Rightarrow> string \<times> string option \<times> string" where
  "placement_of p = (pm_pool_id p, pm_filesystem_id p, pm_destination p)"

definition queue_payload :: "(string \<times> json) list \<Rightarrow> bool \<Rightarrow> (string \<times> json) list" where
  "queue_payload entry admitted =
     map (\<lambda>k. (k, jget entry k)) [''hash'', ''total_size'', ''amount_left'', ''state''] @
     [(''admitted'', JBool admitted)]"

definition opt_json :: "('a \<Rightarrow> json) \<Rightarrow> 'a option \<Rightarrow> json" where
  "opt_json f v = (case v of None \<Rightarrow> JNull | Some x \<Rightarrow> f x)"

definition queue_entry :: "storage option \<Rightarrow> (string \<times> json) list \<Rightarrow> db \<Rightarrow> err + (string \<times> json) list" where
  "queue_entry st entry d =
     (let admitted = (case as_str (jget entry ''hash'') of Some h \<Rightarrow> is_admitted h d | None \<Rightarrow> False);
          payload = queue_payload entry admitted
      in case st of
           None \<Rightarrow> Inr payload
         | Some s \<Rightarrow>
             (case get_or entry ''save_path'' (JStr []) of
                JStr save_path \<Rightarrow>
                  let hash = (case as_str (jget entry ''hash'') of Some h \<Rightarrow> lower h | None \<Rightarrow> []);
                      rows = filter (\<lambda>p. pm_infohash p = hash \<and>
                               pm_destination p = rstrip_slash save_path \<and>
                               JStr (pm_category p) = jget entry ''category'') (permits d)
                  in (case remdups (map placement_of rows) of
                        [_] \<Rightarrow>
                          let p = hd rows in
                          Inr (AList.update ''admitted'' (JBool True) payload @
                               [(''pool_id'', JStr (pm_pool_id p)),
                                (''filesystem_id'', JStr (case pm_filesystem_id p of
                                    Some f \<Rightarrow> if f = [] then st_pool_filesystem s (pm_pool_id p) else f
                                  | None \<Rightarrow> st_pool_filesystem s (pm_pool_id p))),
                                (''save_path'', JStr (pm_destination p)),
                                (''reserved_bytes'', opt_json JInt (pm_budget_bytes p)),
                                (''placement_verified'', JBool (placement_valid st p))])
                      | _ \<Rightarrow> Inr (payload @ [(''placement_verified'', JBool False)]))
              | _ \<Rightarrow> Inl (AttributeError ''rstrip'')))"

section \<open>Sources a deletion may remove\<close>

definition shared_hash :: "db \<Rightarrow> permit \<Rightarrow> bool" where
  "shared_hash d p =
     exists_row (\<lambda>q. pm_infohash q = pm_infohash p \<and> pm_id q \<noteq> pm_id p \<and> live q) (permits d)"

definition media_key_is :: "db \<Rightarrow> permit \<Rightarrow> string \<Rightarrow> bool" where
  "media_key_is d p media_key =
     exists_row (\<lambda>r. Some (rs_id r) = pm_reservation_id p \<and> rs_media_key r = media_key) (reservations d)"

definition same_season :: "string \<Rightarrow> string option \<Rightarrow> bool" where
  "same_season media_key scope =
     (case (season_key media_key, episode_scope (case scope of Some sc \<Rightarrow> sc | None \<Rightarrow> [])) of
        (Some (_, s), Some (s', _)) \<Rightarrow> to_nat s = to_nat s' | _ \<Rightarrow> False)"

definition deletion_source ::
    "storage option \<Rightarrow> string \<Rightarrow> string \<Rightarrow> string option \<Rightarrow> db \<Rightarrow> err + permit" where
  "deletion_source st token media_key scope d =
     (case find_row (\<lambda>p. pm_token p = token \<and> pm_state p \<in> {Confirmed, Superseded, ProbeRejected} \<and>
                         media_key_is d p media_key \<and> pm_scope_key p = scope) (permits d) of
        None \<Rightarrow> Inl (PermissionError ''confirmed media source required'')
      | Some p \<Rightarrow>
          if pm_state p \<noteq> Confirmed \<and>
             (pm_category p \<noteq> ''sonarr'' \<or> \<not> same_season media_key scope \<or> \<not> tombstoned d media_key)
            then Inl (PermissionError ''explicit season deletion required for historical source'')
          else if \<not> placement_valid st p \<or> \<not> lower_hex40 (pm_infohash p) \<or>
                  pm_metadata_sha256 p = None \<or> pm_selected_files p = [] \<or>
                  (case scope of
                     None \<Rightarrow> pm_category p \<noteq> ''radarr'' \<or> \<not> movie_key media_key
                   | Some _ \<Rightarrow> pm_category p \<noteq> ''sonarr'' \<or> \<not> same_season media_key scope)
            then Inl (PermissionError ''source identity is not deletable'')
          else if shared_hash d p
            then Inl (ValueError ''torrent is shared by another active permit'')
          else Inr p)"

definition pack_deletion_parent ::
    "storage option \<Rightarrow> string \<Rightarrow> string \<Rightarrow> db \<Rightarrow> err + (permit \<times> bindings)" where
  "pack_deletion_parent st token media_key d =
     (case (find_row (\<lambda>p. pm_token p = token \<and> pm_state p = Confirmed \<and> media_key_is d p media_key)
              (permits d), season_key media_key) of
        (Some parent, Some (_, season)) \<Rightarrow>
          if pm_scope_key parent \<noteq> Some (pack_scope_of (to_nat season)) \<or>
             \<not> lower_hex40 (pm_infohash parent) \<or> budget_or_0 parent \<le> 0
            then Inl (PermissionError ''pack source identity is invalid'')
          else ebind (validate_pack_bindings st parent (stored_bindings d (pm_id parent))) (\<lambda>_.
            if shared_hash d parent
              then Inl (ValueError ''torrent is shared by another active permit'')
            else Inr (parent, stored_bindings d (pm_id parent)))
      | _ \<Rightarrow> Inl (PermissionError ''confirmed pack source required''))"

definition season_pack_deletion_source ::
    "storage option \<Rightarrow> string \<Rightarrow> string \<Rightarrow> string \<Rightarrow> db \<Rightarrow> err + permit" where
  "season_pack_deletion_source st token media_key scope d =
     ebind (pack_deletion_parent st token media_key d) (\<lambda>(parent, bs).
       case map_of bs scope of
         None \<Rightarrow> Inl (PermissionError ''confirmed pack episode required'')
       | Some files \<Rightarrow> Inr (season_pack_view parent scope files))"

text \<open>\<open>media_key.split(":")[2]\<close> of a season key is its title number.\<close>

definition season_pack_fully_deleted :: "storage option \<Rightarrow> string \<Rightarrow> string \<Rightarrow> db \<Rightarrow> bool" where
  "season_pack_fully_deleted st token media_key d =
     (case pack_deletion_parent st token media_key d of
        Inl _ \<Rightarrow> False
      | Inr (_, bs) \<Rightarrow>
          list_all (\<lambda>sc. tombstoned d (episode_key (split_on (CHR '':'') media_key ! 2) sc)) (map fst bs))"

section \<open>Lists\<close>

definition media_key_like :: "db \<Rightarrow> permit \<Rightarrow> string \<Rightarrow> bool" where
  "media_key_like d p pre =
     (case find_open_reservation d (pm_reservation_id p) of
        None \<Rightarrow> False | Some r \<Rightarrow> starts_with pre (lower (rs_media_key r)))"

definition list_active_confirmed_movies :: "db \<Rightarrow> permit list" where
  "list_active_confirmed_movies d =
     sort_key pm_id (filter (\<lambda>p. pm_state p = Confirmed \<and> pm_category p = ''radarr'' \<and>
        pm_probe_parent_id p = None \<and> pm_scope_key p = None \<and> media_key_like d p ''movie:tmdb:'') (permits d))"

definition import_complete :: "db \<Rightarrow> string \<Rightarrow> bool" where
  "import_complete d permit_id =
     exists_row (\<lambda>e. ei_permit_id e = permit_id \<and> ei_state e = ImComplete) (episode_imports d)"

text \<open>\<open>season:tmdb:([1-9][0-9]*):[0-9]+\<close>\<close>

definition series_key :: "db \<Rightarrow> permit \<Rightarrow> string option" where
  "series_key d p =
     (case find_open_reservation d (pm_reservation_id p) of
        None \<Rightarrow> None
      | Some r \<Rightarrow>
          (case season_key_any (rs_media_key r) of
             Some (a, _) \<Rightarrow> if posnum a then Some (''season:tmdb:'' @ a) else None
           | None \<Rightarrow> None))"

definition episode_views :: "db \<Rightarrow> permit \<Rightarrow> permit list" where
  "episode_views d p =
     (if ends_with ''PACK'' (case pm_scope_key p of Some sc \<Rightarrow> sc | None \<Rightarrow> [])
      then map (\<lambda>e. season_pack_view p (pk_scope_key e) (pk_selected_files e))
             (sort_key pk_scope_key (filter (\<lambda>e. pk_parent_permit_id e = pm_id p \<and>
                \<not> import_complete d (pk_parent_permit_id e @ '':'' @ pk_scope_key e)) (pack_episodes d)))
      else [p])"

definition list_active_confirmed_episodes :: "db \<Rightarrow> (string \<times> permit) list" where
  "list_active_confirmed_episodes d =
     concat (map (\<lambda>p. case series_key d p of None \<Rightarrow> [] | Some k \<Rightarrow> map (Pair k) (episode_views d p))
       (sort_key pm_id (filter (\<lambda>p. pm_state p = Confirmed \<and> pm_category p = ''sonarr'' \<and>
          pm_probe_parent_id p = None \<and> pm_scope_key p \<noteq> None \<and> media_key_like d p ''season:tmdb:'' \<and>
          \<not> import_complete d (pm_id p)) (permits d))))"

definition list_source_history :: "string \<Rightarrow> string option \<Rightarrow> db \<Rightarrow> permit list" where
  "list_source_history rid scope d =
     sort_key pm_id (filter (\<lambda>p. pm_reservation_id p = Some rid \<and> pm_scope_key p = scope) (permits d))"

text \<open>Uncertain sources behind a cursor, at most 100 at a time.\<close>

definition uncertain_after :: "string \<Rightarrow> db \<Rightarrow> permit list" where
  "uncertain_after after d =
     sort_key pm_id (filter (\<lambda>p. pm_state p \<in> {Unknown, Dispatching} \<and>
        find_open_reservation d (pm_reservation_id p) \<noteq> None \<and> after < pm_id p) (permits d))"

definition list_uncertain :: "int \<Rightarrow> string option \<Rightarrow> db \<Rightarrow> err + permit list" where
  "list_uncertain limit after d =
     (if limit \<le> 0 then Inl (ValueError ''limit must be a positive integer'')
      else if after = Some [] then Inl (ValueError ''after_id must be a nonempty permit ID'')
      else Inr (take (nat (min limit 100)) (uncertain_after (case after of Some a \<Rightarrow> a | None \<Rightarrow> []) d)))"

section \<open>Facts\<close>

lemma only_match_Inr: "only_match ps = Inr p \<longleftrightarrow> ps = [p]"
  by (auto simp: only_match_def split: list.splits)

lemma deletion_source_sound:
  assumes "deletion_source st token media_key scope d = Inr p"
  shows "p \<in> set (permits d) \<and> pm_token p = token \<and> pm_scope_key p = scope \<and>
    media_key_is d p media_key \<and> placement_valid st p \<and>
    (\<forall>q\<in>set (permits d). pm_infohash q = pm_infohash p \<and> pm_id q \<noteq> pm_id p \<longrightarrow> \<not> live q) \<and>
    (pm_state p = Confirmed \<or>
       pm_state p \<in> {Superseded, ProbeRejected} \<and> tombstoned d media_key \<and> same_season media_key scope)"
proof -
  from assms obtain p0 where f: "find_row (\<lambda>p. pm_token p = token \<and>
      pm_state p \<in> {Confirmed, Superseded, ProbeRejected} \<and>
      media_key_is d p media_key \<and> pm_scope_key p = scope) (permits d) = Some p0"
    by (auto simp: deletion_source_def err_simps)
  with assms have "p = p0 \<and> placement_valid st p \<and> \<not> shared_hash d p \<and>
      (pm_state p = Confirmed \<or> tombstoned d media_key \<and> same_season media_key scope)"
    by (auto simp: deletion_source_def split: if_splits)
  with find_row_Some [OF f] show ?thesis by (auto simp: shared_hash_def exists_row_iff)
qed

lemma split_on_season_key:
  assumes "season_key_any k = Some (a, b)"
  shows "split_on (CHR '':'') k ! 2 = a"
proof -
  from two_numbers_Some [OF assms [unfolded season_key_any_def]]
  have k: "k = ''season'' @ CHR '':'' # ''tmdb'' @ CHR '':'' # a @ CHR '':'' # b" and "digits1 a" by simp_all
  then have "CHR '':'' \<notin> set a" by (auto simp: digits1_def list_all_iff is_digit_def code_def)
  then have a: "split_on (CHR '':'') (a @ CHR '':'' # b) = a # split_on (CHR '':'') b"
    by (rule split_on_append)
  have 1: "split_on (CHR '':'') (''season'' @ CHR '':'' # r) = ''season'' # split_on (CHR '':'') r" for r
    by (rule split_on_append) simp
  have 2: "split_on (CHR '':'') (''tmdb'' @ CHR '':'' # r) = ''tmdb'' # split_on (CHR '':'') r" for r
    by (rule split_on_append) simp
  show ?thesis unfolding k 1 2 a by simp
qed

text \<open>Pages of a sorted list without repeated keys.\<close>

lemma page_rest:
  assumes "sorted (map f xs)" and "distinct (map f xs)" and "take n xs \<noteq> []"
  shows "filter (\<lambda>x. f (last (take n xs)) < f x) xs = drop n xs"
  using assms
proof (induction xs arbitrary: n)
  case Nil
  then show ?case by simp
next
  case (Cons x xs)
  from Cons.prems(3) obtain m where n: "n = Suc m" by (cases n) auto
  have gt: "\<forall>y\<in>set xs. f x < f y" using Cons.prems(1,2) by (auto simp: order.order_iff_strict)
  show ?case
  proof (cases "take m xs = []")
    case True
    then have "drop m xs = xs" by (cases m; cases xs) auto
    with True gt n show ?thesis by (simp add: filter_id_conv)
  next
    case False
    have "last (take m xs) \<in> set xs" using False by (metis last_in_set in_set_takeD)
    with gt have "\<not> f (last (take m xs)) < f x" by force
    with False n Cons show ?thesis by auto
  qed
qed

end
