(* ===== verification/LookupProperties.thy ===== *)
theory LookupProperties
  imports PermitLookups PackProperties
begin

text \<open>
  The properties of the registry's queries: what a deletion may remove, and that walking
  the uncertain sources is complete.
\<close>

section \<open>Properties\<close>



text \<open>The source of a season pack counts as fully deleted only when each
  episode bound to it has its own tombstone, under the title number of the season.\<close>

theorem pack_deleted_only_whole:
  assumes "season_pack_fully_deleted st token media_key d"
  shows "\<exists>parent tmdb season. season_key media_key = Some (tmdb, season) \<and>
    parent \<in> set (permits d) \<and> pm_token parent = token \<and> pm_state parent = Confirmed \<and>
    (\<forall>(sc, files)\<in>set (stored_bindings d (pm_id parent)). tombstoned d (episode_key tmdb sc))"
proof -
  from assms obtain parent bs where par: "pack_deletion_parent st token media_key d = Inr (parent, bs)"
    and all: "list_all (\<lambda>sc. tombstoned d (episode_key (split_on (CHR '':'') media_key ! 2) sc)) (map fst bs)"
    by (auto simp: season_pack_fully_deleted_def split: sum.splits)
  from par obtain tmdb season where row: "find_row (\<lambda>p. pm_token p = token \<and> pm_state p = Confirmed \<and>
      media_key_is d p media_key) (permits d) = Some parent"
    and key: "season_key media_key = Some (tmdb, season)" and bs: "bs = stored_bindings d (pm_id parent)"
    by (auto simp: pack_deletion_parent_def err_simps split: option.splits)
  from key have "season_key_any media_key = Some (tmdb, season)"
    by (auto simp: season_key_def split: option.splits if_splits)
  note tm = split_on_season_key [OF this]
  note r = find_row_Some [OF row]
  have "\<forall>(sc, files)\<in>set (stored_bindings d (pm_id parent)). tombstoned d (episode_key tmdb sc)"
    using all bs tm by (auto simp: list_all_iff)
  with r key show ?thesis by blast
qed

definition deleted_pack_db :: db where
  "deleted_pack_db = bound_season_db\<lparr>permits := [pack_permit\<lparr>pm_state := Confirmed\<rparr>],
     tombstones := map (\<lambda>k. \<lparr>tb_media_key = k, tb_deleted_at = 0, tb_generation = []\<rparr>)
       [''episode:tmdb:9:S01E01'', ''episode:tmdb:9:S01E02'']\<rparr>"

theorem pack_deleted_only_whole_witness:
  "\<exists>parent tmdb season. season_key ''season:tmdb:9:1'' = Some (tmdb, season) \<and>
    parent \<in> set (permits deleted_pack_db) \<and> pm_token parent = ''t3''"
proof -
  have "season_pack_fully_deleted None ''t3'' ''season:tmdb:9:1'' deleted_pack_db" by code_simp
  from pack_deleted_only_whole [OF this] show ?thesis by blast
qed

text \<open>Walking the uncertain sources page by page, each time from the last identifier
  seen, misses none and repeats none: a page followed by everything behind its last
  identifier is everything behind the cursor, and only an exhausted list gives an empty
  page.\<close>

theorem uncertain_pages_complete:
  assumes "list_uncertain limit after d = Inr page" and "permits_wf (permits d)"
  shows "if page = [] then uncertain_after (case after of Some a \<Rightarrow> a | None \<Rightarrow> []) d = []
         else page @ uncertain_after (pm_id (last page)) d =
              uncertain_after (case after of Some a \<Rightarrow> a | None \<Rightarrow> []) d"
proof -
  let ?a = "case after of Some a \<Rightarrow> a | None \<Rightarrow> []"
  let ?n = "nat (min limit 100)"
  let ?P = "\<lambda>p. pm_state p \<in> {Unknown, Dispatching} \<and> find_open_reservation d (pm_reservation_id p) \<noteq> None"
  from assms(1) have page: "page = take ?n (uncertain_after ?a d)" and pos: "0 < ?n"
    by (auto simp: list_uncertain_def split: if_splits)
  show ?thesis
  proof (cases "page = []")
    case True
    from trans [OF page [symmetric] True] have "?n = 0 \<or> uncertain_after ?a d = []"
      unfolding take_eq_Nil .
    then have "uncertain_after ?a d = []" using pos by (metis less_irrefl)
    then show ?thesis unfolding True by simp
  next
    case False
    let ?xs = "uncertain_after ?a d"
    have dist: "distinct (map pm_id ?xs)"
      using assms(2) by (auto simp: uncertain_after_def permits_wf_def distinct_map intro: inj_on_subset)
    have srt: "sorted (map pm_id ?xs)" by (simp add: uncertain_after_def)
    have "last page \<in> set ?xs" using False page by (metis in_set_takeD last_in_set)
    then have "?a < pm_id (last page)" by (simp add: uncertain_after_def)
    then have "uncertain_after (pm_id (last page)) d = filter (\<lambda>p. pm_id (last page) < pm_id p) ?xs"
      by (simp add: uncertain_after_def filter_sort conj_ac) (rule arg_cong [where f = "sort_key pm_id"],
          rule filter_cong, auto)
    also have "\<dots> = drop ?n ?xs" 
      unfolding page by (rule page_rest [OF srt dist]) (use False page in blast)
    finally show ?thesis using False page by simp
  qed
qed

definition uncertain_db :: db where
  "uncertain_db = admitted_db\<lparr>permits := [movie_permit\<lparr>pm_state := Unknown\<rparr>,
     pack_permit\<lparr>pm_state := Dispatching\<rparr>]\<rparr>"

theorem uncertain_pages_complete_witness:
  "[movie_permit\<lparr>pm_state := Unknown\<rparr>] @ uncertain_after ''p1'' uncertain_db = uncertain_after [] uncertain_db"
proof -
  have "list_uncertain 1 None uncertain_db = Inr [movie_permit\<lparr>pm_state := Unknown\<rparr>]" by code_simp
  moreover have "permits_wf (permits uncertain_db)" by code_simp
  ultimately show ?thesis
    using uncertain_pages_complete [of 1 None uncertain_db "[movie_permit\<lparr>pm_state := Unknown\<rparr>]"]
    by (simp add: movie_permit_def)
qed

end
