(* ===== verification/Bencode.thy ===== *)
theory Bencode
  imports MediaKeys
begin

text \<open>
  The decoder of \<open>domain/torrent_bytes.py\<close>.  The decoder keeps an offset into the data; here
  it is the suffix still to be read, and a slice \<open>data[start:end]\<close> is the difference of two
  suffixes.  The nesting limit is the structural argument \<open>k\<close> (\<open>17 - depth\<close>); the loops over
  list items and dictionary entries carry fuel, one more than the length of the remaining input,
  which suffices because every value has at least one byte.  \<open>bencode\<close> is the canonical encoding
  of the format, and the decoder is shown to accept exactly its images within the limits.
\<close>

section \<open>Values and errors\<close>

datatype bval = BInt int | BStr string | BList "bval list" | BDict "(string \<times> bval) list"

text \<open>
  \<open>TooManyDigits\<close> is the \<open>ValueError\<close> of \<open>int()\<close> on more than 4300 digits, which is not a
  \<open>TorrentBytesError\<close>.
\<close>

datatype torrent_error = TorrentBytesError string | TooManyDigits | OutOfFuel

section \<open>The decoder\<close>

text \<open>\<open>0|-?[1-9][0-9]*\<close>, the sign taken off\<close>

definition magnitude :: "string \<Rightarrow> string" where
  "magnitude s = (case s of c # r \<Rightarrow> if c = CHR ''-'' then r else s | [] \<Rightarrow> s)"

definition canonical_int :: "string \<Rightarrow> bool" where
  "canonical_int s = (s = ''0'' \<or> posnum (magnitude s))"

definition int_of_text :: "string \<Rightarrow> int" where
  "int_of_text s =
     (if s \<noteq> [] \<and> hd s = CHR ''-'' then - int (nat_of_digits 0 (tl s)) else int (nat_of_digits 0 s))"

definition parse_int :: "string \<Rightarrow> torrent_error + bval \<times> string" where
  "parse_int s =
     (let raw = takeWhile (\<lambda>c. c \<noteq> CHR ''e'') s in
      if raw = s then Inl (TorrentBytesError ''unterminated integer'')
      else if \<not> canonical_int raw then Inl (TorrentBytesError ''invalid integer'')
      else if 4300 < length (magnitude raw) then Inl TooManyDigits
      else Inr (BInt (int_of_text raw), drop (length raw + 1) s))"

definition parse_str :: "string \<Rightarrow> torrent_error + bval \<times> string" where
  "parse_str s =
     (let raw = takeWhile (\<lambda>c. c \<noteq> CHR '':'') (take 12 s) in
      if raw = take 12 s then Inl (TorrentBytesError ''invalid byte string'')
      else if \<not> (raw = ''0'' \<or> posnum raw) then Inl (TorrentBytesError ''invalid byte string length'')
      else
        let n = nat_of_digits 0 raw; rest = drop (length raw + 1) s in
        if length rest < n then Inl (TorrentBytesError ''truncated byte string'')
        else Inr (BStr (take n rest), drop n rest))"

fun parse_items ::
    "(string \<Rightarrow> torrent_error + bval \<times> string) \<Rightarrow> nat \<Rightarrow> nat \<Rightarrow> string \<Rightarrow> torrent_error + bval list \<times> string" where
  "parse_items p fuel cnt s =
     (if take 1 s = ''e'' then Inr ([], drop 1 s)
      else case fuel of
        0 \<Rightarrow> Inl OutOfFuel
      | Suc n \<Rightarrow> ebind (p s) (\<lambda>(v, r).
          if 8192 < cnt + 1 then Inl (TorrentBytesError ''too many list entries'')
          else ebind (parse_items p n (cnt + 1) r) (\<lambda>(vs, r'). Inr (v # vs, r'))))"

declare parse_items.simps [simp del]

fun parse_pairs ::
    "(string \<Rightarrow> torrent_error + bval \<times> string) \<Rightarrow> nat \<Rightarrow> nat \<Rightarrow> string option \<Rightarrow> string \<Rightarrow>
     torrent_error + (string \<times> bval) list \<times> string" where
  "parse_pairs p fuel cnt previous s =
     (if take 1 s = ''e'' then Inr ([], drop 1 s)
      else case fuel of
        0 \<Rightarrow> Inl OutOfFuel
      | Suc n \<Rightarrow> ebind (p s) (\<lambda>(k, r).
          case k of
            BStr key \<Rightarrow>
              if (case previous of None \<Rightarrow> False | Some q \<Rightarrow> key \<le> q)
                then Inl (TorrentBytesError ''invalid dictionary keys'')
              else ebind (p r) (\<lambda>(v, r').
                if 8192 < cnt + 1 then Inl (TorrentBytesError ''too many dictionary entries'')
                else ebind (parse_pairs p n (cnt + 1) (Some key) r')
                       (\<lambda>(kvs, r''). Inr ((key, v) # kvs, r'')))
          | _ \<Rightarrow> Inl (TorrentBytesError ''invalid dictionary keys'')))"

declare parse_pairs.simps [simp del]

fun parse :: "nat \<Rightarrow> string \<Rightarrow> torrent_error + bval \<times> string" where
  "parse 0 s = Inl (TorrentBytesError ''invalid bencoding depth or end'')"
| "parse (Suc k) s =
     (case s of
        [] \<Rightarrow> Inl (TorrentBytesError ''invalid bencoding depth or end'')
      | c # r \<Rightarrow>
          if c = CHR ''i'' then parse_int r
          else if c = CHR ''l''
            then ebind (parse_items (parse k) (Suc (length r)) 0 r) (\<lambda>(vs, r'). Inr (BList vs, r'))
          else if c = CHR ''d''
            then ebind (parse_pairs (parse k) (Suc (length r)) 0 None r) (\<lambda>(kvs, r'). Inr (BDict kvs, r'))
          else parse_str s)"

section \<open>Canonical encodings\<close>

definition show_int :: "int \<Rightarrow> string" where
  "show_int n = (if n < 0 then CHR ''-'' # show_nat (nat (- n)) else show_nat (nat n))"

text \<open>\<open>_encode_trackers\<close> is the case of strings and lists.\<close>

definition encode_str :: "string \<Rightarrow> string" where
  "encode_str s = show_nat (length s) @ CHR '':'' # s"

fun bencode :: "bval \<Rightarrow> string" where
  "bencode (BInt n) = CHR ''i'' # show_int n @ ''e''"
| "bencode (BStr s) = encode_str s"
| "bencode (BList vs) = CHR ''l'' # concat (map bencode vs) @ ''e''"
| "bencode (BDict kvs) = CHR ''d'' # concat (map (\<lambda>(k, v). encode_str k @ bencode v) kvs) @ ''e''"

definition str_fits :: "string \<Rightarrow> bool" where
  "str_fits s = (length (show_nat (length s)) \<le> 11)"

fun fits :: "nat \<Rightarrow> bval \<Rightarrow> bool" where
  "fits 0 v = False"
| "fits (Suc k) (BInt n) = (length (show_nat (nat \<bar>n\<bar>)) \<le> 4300)"
| "fits (Suc k) (BStr s) = str_fits s"
| "fits (Suc k) (BList vs) = (length vs \<le> 8192 \<and> (\<forall>v\<in>set vs. fits k v))"
| "fits (Suc k) (BDict kvs) =
     (length kvs \<le> 8192 \<and> sorted_wrt (<) (map fst kvs) \<and>
      (\<forall>(q, v)\<in>set kvs. fits k (BStr q) \<and> fits k v))"

section \<open>Decimal numerals\<close>

lemma nat_of_digits_ge: "nat_of_digits acc s \<ge> acc * 10 ^ length s"
proof (induction acc s rule: nat_of_digits.induct)
  case (2 acc c cs)
  have "acc * 10 ^ length (c # cs) \<le> (10 * acc + (code c - 48)) * 10 ^ length cs" by (simp add: algebra_simps)
  with 2 show ?case by (metis nat_of_digits.simps(2) order_trans)
qed simp

lemma digit_char: "is_digit c \<Longrightarrow> char_of (48 + (code c - 48)) = c \<and> code c - 48 < 10"
  by (auto simp: is_digit_def code_def)

lemma code_zero: "code (CHR ''0'') = 48"
  by (simp add: code_def)

lemma posnum_positive: "posnum s \<Longrightarrow> 0 < nat_of_digits 0 s"
proof -
  assume p: "posnum s"
  then obtain c cs where s: "s = c # cs" by (cases s) (auto simp: posnum_def digits1_def)
  with p have "is_digit c" "c \<noteq> CHR ''0''" by (auto simp: posnum_def digits1_def)
  then have "0 < (code c - 48) * 10 ^ length cs"
    using code_inj [of c "CHR ''0''"] code_zero by (fastforce simp: is_digit_def)
  also have "(code c - 48) * 10 ^ length cs \<le> nat_of_digits (code c - 48) cs"
    by (rule nat_of_digits_ge)
  finally show ?thesis unfolding s by simp
qed

lemma show_posnum: "posnum s \<Longrightarrow> show_nat (nat_of_digits 0 s) = s"
proof (induction s rule: rev_induct)
  case Nil
  then show ?case by (simp add: posnum_def digits1_def)
next
  case (snoc c s)
  from snoc.prems have c: "is_digit c" by (simp add: posnum_def digits1_def)
  note dc = digit_char [OF c]
  have v: "nat_of_digits 0 (s @ [c]) = 10 * nat_of_digits 0 s + (code c - 48)"
    by (simp add: nat_of_digits_append)
  show ?case
  proof (cases "s = []")
    case True
    then show ?thesis using dc by (subst show_nat.simps) simp
  next
    case False
    with snoc.prems have ps: "posnum s" by (cases s) (auto simp: posnum_def digits1_def)
    from posnum_positive [OF ps] have "\<not> 10 * nat_of_digits 0 s + (code c - 48) < 10" by simp
    then show ?thesis using dc snoc.IH [OF ps] unfolding v by (subst show_nat.simps) simp
  qed
qed

lemma show_nat_posnum: "0 < n \<Longrightarrow> posnum (show_nat n)"
proof (induction n rule: show_nat.induct)
  case (1 n)
  have d: "digits1 (show_nat n)" using show_nat_digits by (simp add: digits1_def list_all_iff)
  have "hd (show_nat n) \<noteq> CHR ''0''"
  proof (cases "n < 10")
    case True
    have "code (char_of (48 + n)) \<noteq> code (CHR ''0'')" using True 1(2) by (simp add: code_char_of) (simp add: code_def)
    with True show ?thesis by (subst show_nat.simps) auto
  next
    case False
    with 1 have "posnum (show_nat (n div 10))" by simp
    with False show ?thesis by (subst show_nat.simps) (simp add: posnum_def)
  qed
  with d show ?case by (simp add: posnum_def)
qed

lemma show_nat_0: "show_nat 0 = ''0''"
  by code_simp

lemma canonical_nat: "raw = ''0'' \<or> posnum raw \<longleftrightarrow> raw = show_nat (nat_of_digits 0 raw)"
proof
  assume "raw = ''0'' \<or> posnum raw"
  then show "raw = show_nat (nat_of_digits 0 raw)"
    by (auto simp: show_posnum code_def show_nat_0)
next
  assume r: "raw = show_nat (nat_of_digits 0 raw)"
  show "raw = ''0'' \<or> posnum raw"
  proof (cases "nat_of_digits 0 raw = 0")
    case True
    with r show ?thesis by (simp add: show_nat_0)
  next
    case False
    with r show ?thesis by (metis gr0I show_nat_posnum)
  qed
qed

section \<open>What each reader accepts\<close>

lemma magnitude_minus [simp]: "magnitude (CHR ''-'' # s) = s"
  by (simp add: magnitude_def)

lemma digit_not:
  "is_digit c \<Longrightarrow> c \<noteq> CHR ''-'' \<and> c \<noteq> CHR ''e'' \<and> c \<noteq> CHR '':'' \<and>
     c \<noteq> CHR ''i'' \<and> c \<noteq> CHR ''l'' \<and> c \<noteq> CHR ''d''"
  by (auto simp: is_digit_def code_def)

lemma show_nat_hd: "\<exists>c cs. show_nat n = c # cs \<and> is_digit c"
  using show_nat_digits [of n] by (cases "show_nat n") auto

lemma magnitude_show_nat [simp]: "magnitude (show_nat n) = show_nat n"
  using show_nat_hd [of n] digit_not by (auto simp: magnitude_def)

lemma magnitude_show_int: "magnitude (show_int n) = show_nat (nat \<bar>n\<bar>)"
  by (simp add: show_int_def)

lemma int_of_show_int: "int_of_text (show_int n) = n"
proof (cases "n < 0")
  case True
  then show ?thesis by (simp add: int_of_text_def show_int_def nat_of_show_nat)
next
  case False
  obtain c cs where "show_nat (nat n) = c # cs" "c \<noteq> CHR ''-''" using show_nat_hd digit_not by metis
  with False show ?thesis
    by (metis int_of_text_def list.sel(1) nat_of_show_nat nat_0_le not_less show_int_def)
qed

lemma canonical_show_int: "canonical_int (show_int n)"
proof (cases "n = 0")
  case True
  then show ?thesis by (simp add: canonical_int_def show_int_def show_nat_0)
next
  case False
  then have "posnum (magnitude (show_int n))" by (simp add: magnitude_show_int show_nat_posnum)
  then show ?thesis by (simp add: canonical_int_def)
qed

lemma canonical_int_shows:
  assumes "canonical_int s"
  shows "show_int (int_of_text s) = s"
proof (cases "s \<noteq> [] \<and> hd s = CHR ''-''")
  case True
  then obtain r where s: "s = CHR ''-'' # r" by (cases s) auto
  with assms have r: "posnum r" by (simp add: canonical_int_def)
  from posnum_positive [OF r] show ?thesis by (simp add: s int_of_text_def show_int_def show_posnum [OF r])
next
  case False
  with assms have "s = ''0'' \<or> posnum s" by (cases s) (auto simp: canonical_int_def magnitude_def)
  then have "s = show_nat (nat_of_digits 0 s)" by (simp only: canonical_nat)
  moreover from False have "int_of_text s = int (nat_of_digits 0 s)" by (auto simp: int_of_text_def)
  ultimately show ?thesis by (simp add: show_int_def)
qed

lemma show_int_no_e: "\<forall>c\<in>set (show_int n). c \<noteq> CHR ''e''"
  using show_nat_digits digit_not by (auto simp: show_int_def)

lemma takeWhile_stop: "(\<forall>x\<in>set a. P x) \<Longrightarrow> \<not> P c \<Longrightarrow> takeWhile P (a @ c # b) = a"
  by (induction a) auto

lemma takeWhile_split:
  assumes "takeWhile P s \<noteq> s"
  shows "\<exists>c. \<not> P c \<and> s = takeWhile P s @ c # drop (length (takeWhile P s) + 1) s"
  using assms by (induction s) auto

lemma parse_int_iff:
  "parse_int s = Inr (v, r) \<longleftrightarrow>
   (\<exists>n. v = BInt n \<and> length (show_nat (nat \<bar>n\<bar>)) \<le> 4300 \<and> s = show_int n @ CHR ''e'' # r)"
proof
  assume a: "parse_int s = Inr (v, r)"
  define raw where "raw = takeWhile (\<lambda>c. c \<noteq> CHR ''e'') s"
  from a have ne: "raw \<noteq> s" and c: "canonical_int raw" and l: "length (magnitude raw) \<le> 4300"
    and v: "v = BInt (int_of_text raw)" and r: "r = drop (length raw + 1) s"
    by (auto simp: parse_int_def Let_def raw_def split: if_splits)
  from takeWhile_split [of "\<lambda>c. c \<noteq> CHR ''e''" s] ne r have s: "s = raw @ CHR ''e'' # r"
    unfolding raw_def by metis
  from l have "length (show_nat (nat \<bar>int_of_text raw\<bar>)) \<le> 4300"
    by (metis canonical_int_shows [OF c] magnitude_show_int)
  with s v canonical_int_shows [OF c]
  show "\<exists>n. v = BInt n \<and> length (show_nat (nat \<bar>n\<bar>)) \<le> 4300 \<and> s = show_int n @ CHR ''e'' # r"
    by metis
next
  assume "\<exists>n. v = BInt n \<and> length (show_nat (nat \<bar>n\<bar>)) \<le> 4300 \<and> s = show_int n @ CHR ''e'' # r"
  then obtain n where v: "v = BInt n" and l: "length (show_nat (nat \<bar>n\<bar>)) \<le> 4300"
    and s: "s = show_int n @ CHR ''e'' # r" by blast
  have "takeWhile (\<lambda>c. c \<noteq> CHR ''e'') s = show_int n"
    unfolding s by (rule takeWhile_stop) (use show_int_no_e in auto)
  with l show "parse_int s = Inr (v, r)"
    by (simp add: parse_int_def Let_def v s canonical_show_int magnitude_show_int int_of_show_int)
qed

lemma parse_str_iff:
  "parse_str s = Inr (v, r) \<longleftrightarrow> (\<exists>x. v = BStr x \<and> str_fits x \<and> s = encode_str x @ r)"
proof
  assume a: "parse_str s = Inr (v, r)"
  define raw where "raw = takeWhile (\<lambda>c. c \<noteq> CHR '':'') (take 12 s)"
  define rest where "rest = drop (length raw + 1) s"
  define n where "n = nat_of_digits 0 raw"
  from a have ne: "raw \<noteq> take 12 s" and c: "raw = ''0'' \<or> posnum raw" and l: "n \<le> length rest"
    and v: "v = BStr (take n rest)" and r: "r = drop n rest"
    by (auto simp: parse_str_def Let_def raw_def rest_def n_def split: if_splits)
  from takeWhile_split [of "\<lambda>c. c \<noteq> CHR '':''" "take 12 s"] ne
  have t: "take 12 s = raw @ CHR '':'' # drop (length raw + 1) (take 12 s)"
    unfolding raw_def by metis
  then have l12: "length raw + 1 \<le> 12" by (metis length_append length_Cons length_take min.bounded_iff
      add.commute le_add1 plus_1_eq_Suc add_Suc_right)
  have "s = raw @ CHR '':'' # (drop (length raw + 1) (take 12 s) @ drop 12 s)"
    by (metis t append_take_drop_id append_Cons append_assoc)
  then have s: "s = raw @ CHR '':'' # rest"
    unfolding rest_def by (metis append_Cons append_Nil append_eq_conv_conj append_assoc length_append
        length_Cons list.size(3) One_nat_def)
  from c have "raw = show_nat n" unfolding n_def by (simp only: canonical_nat)
  with l l12 s v r show "\<exists>x. v = BStr x \<and> str_fits x \<and> s = encode_str x @ r"
    by (intro exI [of _ "take n rest"]) (simp add: str_fits_def encode_str_def)
next
  assume "\<exists>x. v = BStr x \<and> str_fits x \<and> s = encode_str x @ r"
  then obtain x where v: "v = BStr x" and l: "length (show_nat (length x)) \<le> 11"
    and s: "s = show_nat (length x) @ CHR '':'' # x @ r" by (auto simp: str_fits_def encode_str_def)
  let ?raw = "show_nat (length x)"
  have "take 12 s = ?raw @ CHR '':'' # take (11 - length ?raw) (x @ r)"
    using l by (simp add: s take_Cons' Suc_diff_le)
  then have t: "takeWhile (\<lambda>c. c \<noteq> CHR '':'') (take 12 s) = ?raw"
    and ne: "?raw \<noteq> take 12 s"
    using show_nat_digits [of "length x"] digit_not by (auto intro!: takeWhile_stop)
  have c: "?raw = ''0'' \<or> posnum ?raw" using canonical_nat [of ?raw] by (simp add: nat_of_show_nat)
  have d: "drop (length ?raw + 1) s = x @ r" by (simp add: s)
  show "parse_str s = Inr (v, r)"
    using ne c unfolding parse_str_def Let_def t d by (simp add: nat_of_show_nat v)
qed

section \<open>The decoder accepts the canonical encodings\<close>

lemma bencode_head: "\<exists>c cs. bencode v = c # cs \<and> c \<noteq> CHR ''e''"
proof (cases v)
  case (BStr x)
  then show ?thesis using show_nat_hd [of "length x"] digit_not by (auto simp: encode_str_def)
qed auto

lemma parse_items_iff:
  assumes p: "\<And>s v r. p s = Inr (v, r) \<longleftrightarrow> P v \<and> s = bencode v @ r"
    and "length s < fuel" and "cnt \<le> 8192"
  shows "parse_items p fuel cnt s = Inr (vs, r) \<longleftrightarrow>
         (\<forall>v\<in>set vs. P v) \<and> cnt + length vs \<le> 8192 \<and> s = concat (map bencode vs) @ CHR ''e'' # r"
  using assms(2,3)
proof (induction fuel arbitrary: cnt s vs)
  case 0
  then show ?case by simp
next
  case (Suc n)
  show ?case
  proof (cases "take 1 s = ''e''")
    case True
    then obtain s' where s: "s = CHR ''e'' # s'" by (cases s) auto
    show ?thesis
    proof (cases vs)
      case Nil
      then show ?thesis using Suc.prems by (subst parse_items.simps) (auto simp: s)
    next
      case (Cons v ws)
      obtain c cs where "bencode v = c # cs" "c \<noteq> CHR ''e''" using bencode_head by blast
      then show ?thesis by (subst parse_items.simps) (simp add: s Cons)
    qed
  next
    case False
    show ?thesis
    proof (cases vs)
      case Nil
      with False show ?thesis by (subst parse_items.simps) (auto simp: err_simps)
    next
      case (Cons v ws)
      have step: "parse_items p n (cnt + 1) t = Inr (ws, r) \<longleftrightarrow>
          (\<forall>v\<in>set ws. P v) \<and> cnt + 1 + length ws \<le> 8192 \<and> t = concat (map bencode ws) @ CHR ''e'' # r"
        if "s = bencode v @ t" and "cnt + 1 \<le> 8192" for t
        using Suc.IH [of t "cnt + 1" ws] Suc.prems(1) that bencode_head [of v] by auto
      have "parse_items p (Suc n) cnt s = Inr (vs, r) \<longleftrightarrow>
          (\<exists>t. P v \<and> s = bencode v @ t \<and> cnt + 1 \<le> 8192 \<and> parse_items p n (cnt + 1) t = Inr (ws, r))"
        using False by (subst parse_items.simps) (auto simp: err_simps p Cons)
      also have "\<dots> \<longleftrightarrow> (\<exists>t. P v \<and> s = bencode v @ t \<and> (\<forall>v\<in>set ws. P v) \<and>
          cnt + 1 + length ws \<le> 8192 \<and> t = concat (map bencode ws) @ CHR ''e'' # r)"
        using step by (metis add_leD1)
      finally show ?thesis by (auto simp: Cons)
    qed
  qed
qed

definition after_key :: "string option \<Rightarrow> string \<Rightarrow> bool" where
  "after_key previous key = (case previous of None \<Rightarrow> True | Some q \<Rightarrow> q < key)"

lemma not_after_key: "(case previous of None \<Rightarrow> False | Some q \<Rightarrow> key \<le> q) \<longleftrightarrow> \<not> after_key previous key"
  by (auto simp: after_key_def split: option.splits)

definition encode_pair :: "string \<times> bval \<Rightarrow> string" where
  "encode_pair kv = encode_str (fst kv) @ bencode (snd kv)"

lemma encode_str_head: "\<exists>c cs. encode_str x = c # cs \<and> is_digit c"
  using show_nat_hd [of "length x"] by (auto simp: encode_str_def)

lemma expect_BStr [err_simps]:
  "(case k of BStr key \<Rightarrow> f key | _ \<Rightarrow> Inl e) = Inr y \<longleftrightarrow> (\<exists>key. k = BStr key \<and> f key = Inr y)"
  by (cases k) auto

lemma bencode_dict: "bencode (BDict kvs) = CHR ''d'' # concat (map encode_pair kvs) @ ''e''"
  by (simp add: encode_pair_def [abs_def] split_def)

lemma parse_pairs_iff:
  assumes p: "\<And>s v r. p s = Inr (v, r) \<longleftrightarrow> P v \<and> s = bencode v @ r"
    and "length s < fuel" and "cnt \<le> 8192"
  shows "parse_pairs p fuel cnt previous s = Inr (kvs, r) \<longleftrightarrow>
         (\<forall>(q, v)\<in>set kvs. P (BStr q) \<and> P v) \<and> cnt + length kvs \<le> 8192 \<and>
         sorted_wrt (<) (map fst kvs) \<and> (\<forall>q\<in>set (map fst kvs). after_key previous q) \<and>
         s = concat (map encode_pair kvs) @ CHR ''e'' # r"
  using assms(2,3)
proof (induction fuel arbitrary: cnt previous s kvs)
  case 0
  then show ?case by simp
next
  case (Suc n)
  show ?case
  proof (cases "take 1 s = ''e''")
    case True
    then obtain s' where s: "s = CHR ''e'' # s'" by (cases s) auto
    show ?thesis
    proof (cases kvs)
      case Nil
      then show ?thesis using Suc.prems by (subst parse_pairs.simps) (auto simp: s)
    next
      case (Cons kv ws)
      obtain c cs where "encode_str (fst kv) = c # cs" "c \<noteq> CHR ''e''"
        using encode_str_head digit_not by blast
      then show ?thesis by (subst parse_pairs.simps) (simp add: s Cons encode_pair_def)
    qed
  next
    case False
    show ?thesis
    proof (cases kvs)
      case Nil
      with False show ?thesis by (subst parse_pairs.simps) (auto simp: err_simps)
    next
      case (Cons kv ws)
      obtain q v where kv: "kv = (q, v)" by (cases kv)
      have step: "parse_pairs p n (cnt + 1) (Some q) t = Inr (ws, r) \<longleftrightarrow>
          (\<forall>(q, v)\<in>set ws. P (BStr q) \<and> P v) \<and> cnt + 1 + length ws \<le> 8192 \<and>
          sorted_wrt (<) (map fst ws) \<and> (\<forall>k\<in>set (map fst ws). q < k) \<and>
          t = concat (map encode_pair ws) @ CHR ''e'' # r"
        if "s = encode_pair kv @ t" and "cnt + 1 \<le> 8192" for t
      proof -
        have "length t < n"
          using Suc.prems(1) that(1) encode_str_head [of q] by (auto simp: encode_pair_def kv)
        from Suc.IH [OF this that(2), of "Some q" ws] show ?thesis by (simp add: after_key_def)
      qed
      have "parse_pairs p (Suc n) cnt previous s = Inr (kvs, r) \<longleftrightarrow>
          (\<exists>t. P (BStr q) \<and> P v \<and> s = encode_pair kv @ t \<and> after_key previous q \<and> cnt + 1 \<le> 8192 \<and>
               parse_pairs p n (cnt + 1) (Some q) t = Inr (ws, r))"
        (is "?lhs = ?rhs")
      proof
        assume ?lhs
        with False show ?rhs
          by (subst (asm) parse_pairs.simps)
            (clarsimp simp: err_simps p Cons kv encode_pair_def not_after_key)
      next
        assume ?rhs
        then obtain t where t: "P (BStr q)" "P v" "s = encode_str q @ bencode v @ t"
          "after_key previous q" "cnt + 1 \<le> 8192" "parse_pairs p n (cnt + 1) (Some q) t = Inr (ws, r)"
          by (auto simp: kv encode_pair_def)
        then have "p s = Inr (BStr q, bencode v @ t)" "p (bencode v @ t) = Inr (v, t)" by (simp_all add: p)
        with False t(4,5,6) show ?lhs
          by (subst parse_pairs.simps) (simp add: Cons kv not_after_key)
      qed
      also have "\<dots> \<longleftrightarrow> (\<exists>t. P (BStr q) \<and> P v \<and> s = encode_pair kv @ t \<and> after_key previous q \<and>
          (\<forall>(q, v)\<in>set ws. P (BStr q) \<and> P v) \<and> cnt + 1 + length ws \<le> 8192 \<and>
          sorted_wrt (<) (map fst ws) \<and> (\<forall>k\<in>set (map fst ws). q < k) \<and>
          t = concat (map encode_pair ws) @ CHR ''e'' # r)"
        using step by (metis (no_types, lifting) add_leD1)
      finally show ?thesis
        by (auto simp: Cons kv after_key_def split: option.splits dest: less_trans)
    qed
  qed
qed

theorem parse_iff: "parse k s = Inr (v, r) \<longleftrightarrow> fits k v \<and> s = bencode v @ r"
proof (induction k arbitrary: s v r)
  case 0
  then show ?case by simp
next
  case (Suc k)
  note items = parse_items_iff [of "parse k" "fits k", OF Suc.IH]
  note pairs = parse_pairs_iff [of "parse k" "fits k", OF Suc.IH]
  show ?case
  proof (cases s)
    case Nil
    then show ?thesis using bencode_head [of v] by auto
  next
    case (Cons c t)
    have digits: "is_digit c" if "c # t = encode_str x @ r" for x
      using that encode_str_head [of x] by auto
    consider (i) "c = CHR ''i''" | (l) "c = CHR ''l''" | (d) "c = CHR ''d''"
      | (s) "c \<noteq> CHR ''i''" "c \<noteq> CHR ''l''" "c \<noteq> CHR ''d''" by blast
    then show ?thesis
    proof cases
      case i
      then show ?thesis using digits digit_not by (cases v) (auto simp: Cons parse_int_iff)
    next
      case l
      then show ?thesis using digits digit_not by (cases v) (auto simp: Cons err_simps items)
    next
      case d
      then show ?thesis using digits digit_not
        by (cases v) (auto simp: Cons err_simps pairs after_key_def bencode_dict simp del: bencode.simps(4))
    next
      case s
      then have "parse (Suc k) s = parse_str (c # t)" by (simp add: Cons)
      with s show ?thesis by (cases v) (auto simp: Cons parse_str_iff)
    qed
  qed
qed

section \<open>The fuel suffices\<close>

lemma parse_consumes: "parse k s = Inr (v, r) \<Longrightarrow> length r < length s"
  using bencode_head [of v] by (auto simp: parse_iff)

lemma parse_items_fuel:
  assumes "\<And>s. p s \<noteq> Inl OutOfFuel" and "\<And>s v r. p s = Inr (v, r) \<Longrightarrow> length r < length s"
  shows "length s < fuel \<Longrightarrow> parse_items p fuel cnt s \<noteq> Inl OutOfFuel"
proof (induction fuel arbitrary: cnt s)
  case (Suc n)
  have "length r < n" if "p s = Inr (v, r)" for v r using assms(2) [OF that] Suc.prems by simp
  then show ?case using Suc.IH assms(1)
    by (subst parse_items.simps) (auto simp: err_simps split: if_splits)
qed simp

lemma parse_pairs_fuel:
  assumes "\<And>s. p s \<noteq> Inl OutOfFuel" and "\<And>s v r. p s = Inr (v, r) \<Longrightarrow> length r < length s"
  shows "length s < fuel \<Longrightarrow> parse_pairs p fuel cnt previous s \<noteq> Inl OutOfFuel"
proof (induction fuel arbitrary: cnt previous s)
  case (Suc n)
  have "length r' < n" if "p s = Inr (q, r)" and "p r = Inr (v, r')" for q v r r'
    using assms(2) [OF that(1)] assms(2) [OF that(2)] Suc.prems by simp
  then show ?case using Suc.IH assms(1)
    by (subst parse_pairs.simps) (auto simp: err_simps split: if_splits bval.splits)
qed simp

lemma parse_fuel: "parse k s \<noteq> Inl OutOfFuel"
proof (induction k arbitrary: s)
  case (Suc k)
  note items = parse_items_fuel [of "parse k", OF Suc.IH parse_consumes]
  note pairs = parse_pairs_fuel [of "parse k", OF Suc.IH parse_consumes]
  show ?case
    by (cases s) (auto simp: err_simps items pairs parse_int_def parse_str_def Let_def)
qed simp

end
