(* ===== verification/TorrentBytes.thy ===== *)
theory TorrentBytes
  imports Bencode
begin

text \<open>
  \<open>domain/torrent_bytes.py\<close> beyond its decoder: the inspection of v1 torrent metadata and
  the merge of a magnet's trackers into cached metadata.  The digests \<open>sha1\<close> and \<open>sha256\<close>
  (as hex text) are parameters.  The merge takes the infohash and the admitted trackers of
  the magnet, in its order, as arguments: parsing the magnet URL is not modelled.
\<close>

section \<open>Data\<close>

record manifest_file =
  file_path :: string
  file_length :: int

record inspected_torrent =
  torrent_infohash :: string
  torrent_sha256 :: string
  torrent_files :: "manifest_file list"

definition total_bytes :: "manifest_file list \<Rightarrow> int" where
  "total_bytes files = sum_list (map file_length files)"

section \<open>Path components\<close>

text \<open>Strict UTF-8: no overlong form, no surrogate, nothing above U+10FFFF.\<close>

definition cont :: "char \<Rightarrow> bool" where
  "cont c = (128 \<le> code c \<and> code c < 192)"

fun utf8_valid :: "string \<Rightarrow> bool" where
  "utf8_valid [] = True"
| "utf8_valid (a # s) =
     (if code a < 128 then utf8_valid s
      else if 194 \<le> code a \<and> code a < 224
        then (case s of b # s1 \<Rightarrow> cont b \<and> utf8_valid s1 | [] \<Rightarrow> False)
      else if 224 \<le> code a \<and> code a < 240
        then (case s of
            b # c # s2 \<Rightarrow> cont b \<and> (code a = 224 \<longrightarrow> 160 \<le> code b) \<and> (code a = 237 \<longrightarrow> code b < 160) \<and>
                         cont c \<and> utf8_valid s2
          | _ \<Rightarrow> False)
      else if 240 \<le> code a \<and> code a < 245
        then (case s of
            b # c # d # s3 \<Rightarrow> cont b \<and> (code a = 240 \<longrightarrow> 144 \<le> code b) \<and> (code a = 244 \<longrightarrow> code b < 144) \<and>
                             cont c \<and> cont d \<and> utf8_valid s3
          | _ \<Rightarrow> False)
      else False)"

definition bytes_of :: "bval option \<Rightarrow> string option" where
  "bytes_of v = (case v of Some (BStr s) \<Rightarrow> Some s | _ \<Rightarrow> None)"

definition unsafe_char :: "char \<Rightarrow> bool" where
  "unsafe_char c = (c \<in> {CHR ''/'', CHR 0x5C, CHR '':''} \<or> code c < 32)"

definition safe_component :: "bval option \<Rightarrow> torrent_error + string" where
  "safe_component raw =
     (case bytes_of raw of
        None \<Rightarrow> Inl (TorrentBytesError ''invalid path component'')
      | Some s \<Rightarrow>
          if \<not> utf8_valid s then Inl (TorrentBytesError ''path is not UTF-8'')
          else if s = [] \<or> s = ''.'' \<or> s = ''..'' \<or> list_ex unsafe_char s
            then Inl (TorrentBytesError ''unsafe torrent path'')
          else Inr s)"

section \<open>Inspection\<close>

text \<open>
  The loop over the root dictionary: its entries with the octets of each value.  It has no
  limit on their number.
\<close>

fun root_fields ::
    "nat \<Rightarrow> string option \<Rightarrow> string \<Rightarrow> torrent_error + (string \<times> bval \<times> string) list \<times> string" where
  "root_fields fuel previous s =
     (if take 1 s = ''e'' then Inr ([], drop 1 s)
      else case fuel of
        0 \<Rightarrow> Inl OutOfFuel
      | Suc n \<Rightarrow> ebind (parse 16 s) (\<lambda>(k, r).
          case k of
            BStr key \<Rightarrow>
              if (case previous of None \<Rightarrow> False | Some q \<Rightarrow> key \<le> q)
                then Inl (TorrentBytesError ''invalid root keys'')
              else ebind (parse 16 r) (\<lambda>(v, r').
                ebind (root_fields n (Some key) r') (\<lambda>(fs, r'').
                  Inr ((key, v, take (length r - length r') r) # fs, r'')))
          | _ \<Rightarrow> Inl (TorrentBytesError ''invalid root keys'')))"

declare root_fields.simps [simp del]

definition int_of :: "bval option \<Rightarrow> int option" where
  "int_of v = (case v of Some (BInt n) \<Rightarrow> Some n | _ \<Rightarrow> None)"

definition positive_length :: "bval option \<Rightarrow> torrent_error + int" where
  "positive_length v =
     (case int_of v of
        Some n \<Rightarrow> if n \<le> 0 then Inl (TorrentBytesError ''invalid torrent file length'') else Inr n
      | None \<Rightarrow> Inl (TorrentBytesError ''invalid torrent file length''))"

text \<open>One entry of the \<open>files\<close> list.\<close>

definition torrent_file :: "string \<Rightarrow> bval \<Rightarrow> torrent_error + manifest_file" where
  "torrent_file name raw =
     (case raw of
        BDict d \<Rightarrow>
          if map_of d ''attr'' \<noteq> None then Inl (TorrentBytesError ''unsupported torrent file'')
          else (case map_of d ''path'' of
            Some (BList (c # cs)) \<Rightarrow>
              ebind (positive_length (map_of d ''length'')) (\<lambda>n.
              ebind (emap (\<lambda>part. safe_component (Some part)) (c # cs)) (\<lambda>parts.
                Inr \<lparr>file_path = join_with ''/'' (name # parts), file_length = n\<rparr>))
          | _ \<Rightarrow> Inl (TorrentBytesError ''invalid torrent path''))
      | _ \<Rightarrow> Inl (TorrentBytesError ''unsupported torrent file''))"

definition info_files :: "string \<Rightarrow> (string \<times> bval) list \<Rightarrow> torrent_error + manifest_file list" where
  "info_files name info =
     (case map_of info ''files'' of
        Some (BList raws) \<Rightarrow>
          if \<not> (1 \<le> length raws \<and> length raws \<le> 4096)
          then Inl (TorrentBytesError ''invalid torrent file list'') else emap (torrent_file name) raws
      | Some _ \<Rightarrow> Inl (TorrentBytesError ''invalid torrent file list'')
      | None \<Rightarrow> ebind (positive_length (map_of info ''length'')) (\<lambda>n.
                  Inr [\<lparr>file_path = name, file_length = n\<rparr>]))"

text \<open>The part of \<open>inspect_torrent\<close> that reads the \<open>info\<close> value.\<close>

definition inspect_info :: "bval \<Rightarrow> torrent_error + manifest_file list" where
  "inspect_info info =
     (case info of
        BDict d \<Rightarrow>
          if map_of d ''meta version'' \<noteq> None \<or> map_of d ''file tree'' \<noteq> None
          then Inl (TorrentBytesError ''only v1 torrent metadata is supported'')
          else
            ebind (safe_component (map_of d ''name'')) (\<lambda>name.
            (case (int_of (map_of d ''piece length''), bytes_of (map_of d ''pieces'')) of
               (Some piece_length, Some pieces) \<Rightarrow>
                 if piece_length \<le> 0 then Inl (TorrentBytesError ''missing v1 pieces'')
                 else
                   ebind (info_files name d) (\<lambda>files.
                   ebind (guard (distinct (map file_path files))
                            (TorrentBytesError ''duplicate torrent file path'')) (\<lambda>_.
                   ebind (guard (int (length pieces) =
                                   (total_bytes files + piece_length - 1) div piece_length * 20)
                            (TorrentBytesError ''invalid torrent size or piece hashes'')) (\<lambda>_.
                     Inr files)))
             | _ \<Rightarrow> Inl (TorrentBytesError ''missing v1 pieces'')))
      | _ \<Rightarrow> Inl (TorrentBytesError ''only v1 torrent metadata is supported''))"

definition max_torrent :: nat where
  "max_torrent = 16 * 1024 * 1024"

definition inspect_torrent ::
    "(string \<Rightarrow> string) \<Rightarrow> (string \<Rightarrow> string) \<Rightarrow> string \<Rightarrow> torrent_error + inspected_torrent" where
  "inspect_torrent sha1 sha256 data =
     (if \<not> (1 \<le> length data \<and> length data \<le> max_torrent)
        then Inl (TorrentBytesError ''invalid torrent metadata size'')
      else if take 1 data \<noteq> ''d'' then Inl (TorrentBytesError ''torrent root must be a dictionary'')
      else
        ebind (root_fields (length data) None (drop 1 data)) (\<lambda>(fields, rest).
          case map_of fields ''info'' of
            None \<Rightarrow> Inl (TorrentBytesError ''invalid torrent root'')
          | Some (info, raw) \<Rightarrow>
              if rest \<noteq> [] then Inl (TorrentBytesError ''invalid torrent root'')
              else ebind (inspect_info info) (\<lambda>files.
                Inr \<lparr>torrent_infohash = sha1 raw, torrent_sha256 = sha256 data,
                     torrent_files = files\<rparr>)))"

section \<open>Merging trackers\<close>

text \<open>The second loop over the root: it checks no key again.\<close>

fun scan_fields :: "nat \<Rightarrow> string \<Rightarrow> torrent_error + (bval \<times> bval \<times> string) list" where
  "scan_fields fuel s =
     (if take 1 s = ''e'' then Inr []
      else case fuel of
        0 \<Rightarrow> Inl OutOfFuel
      | Suc n \<Rightarrow> ebind (parse 16 s) (\<lambda>(k, r). ebind (parse 16 r) (\<lambda>(v, r').
          ebind (scan_fields n r') (\<lambda>fs. Inr ((k, v, take (length r - length r') r) # fs)))))"

declare scan_fields.simps [simp del]

definition tracker_tier :: "bval \<Rightarrow> string list option" where
  "tracker_tier tier =
     (case tier of
        BList items \<Rightarrow> those (map (\<lambda>item. bytes_of (Some item)) items)
      | _ \<Rightarrow> None)"

text \<open>The raw tiers, or \<open>None\<close> where the field is not a list of lists of byte strings.\<close>

definition tracker_tiers :: "bval option \<Rightarrow> string list list option" where
  "tracker_tiers v =
     (case v of
        None \<Rightarrow> Some []
      | Some (BList tiers) \<Rightarrow> those (map tracker_tier tiers)
      | Some _ \<Rightarrow> None)"

text \<open>At most \<open>room\<close> trackers that have not been seen, in order.\<close>

fun new_trackers :: "nat \<Rightarrow> string list \<Rightarrow> string list \<Rightarrow> string list" where
  "new_trackers room seen [] = []"
| "new_trackers room seen (t # ts) =
     (if t \<in> set seen then new_trackers room seen ts
      else if room = 1 then [t]
      else t # new_trackers (room - 1) (t # seen) ts)"

definition encode_tier :: "string list \<Rightarrow> string" where
  "encode_tier tier = CHR ''l'' # concat (map encode_str tier) @ ''e''"

definition encode_tiers :: "string list list \<Rightarrow> string" where
  "encode_tiers tiers = CHR ''l'' # concat (map encode_tier tiers) @ ''e''"

definition encode_root :: "(string \<times> string) list \<Rightarrow> string" where
  "encode_root entries =
     CHR ''d'' # concat (map (\<lambda>(k, raw). encode_str k @ raw) (sort_key fst entries)) @ ''e''"

text \<open>The truthy \<open>announce\<close>, if any.\<close>

definition present_announce :: "bval option \<Rightarrow> string list" where
  "present_announce v = (case bytes_of v of Some (c # cs) \<Rightarrow> [c # cs] | _ \<Rightarrow> [])"

text \<open>From the fields of the root on: \<open>encoded\<close> maps each key to the octets of its value.\<close>

definition merge_fields ::
    "string \<Rightarrow> string list \<Rightarrow> (bval \<times> bval) list \<Rightarrow> (string \<times> string) list \<Rightarrow> torrent_error + string" where
  "merge_fields torrent trackers root encoded =
     (let announce = map_of root (BStr ''announce'') in
      if announce \<noteq> None \<and> bytes_of announce = None
        then Inl (TorrentBytesError ''invalid cached tracker announce'')
      else
      (case tracker_tiers (map_of root (BStr ''announce-list'')) of
         None \<Rightarrow> Inl (TorrentBytesError ''invalid cached tracker tiers'')
       | Some raw_tiers \<Rightarrow>
           let present = present_announce announce;
               tiers = (if raw_tiers = [] \<and> present \<noteq> [] then [present] else raw_tiers);
               added = new_trackers 64 (concat tiers @ present) trackers
           in
           if added = [] then Inr torrent
           else
             let with_announce =
                   (if present = [] then AList.update ''announce'' (encode_str (hd added)) encoded
                    else encoded);
                 merged = encode_root (AList.update ''announce-list''
                            (encode_tiers (tiers @ map (\<lambda>t. [t]) added)) with_announce)
             in
             if max_torrent < length merged
             then Inl (TorrentBytesError ''merged torrent metadata exceeds size limit'')
             else Inr merged))"

definition merge_magnet_trackers ::
    "(string \<Rightarrow> string) \<Rightarrow> (string \<Rightarrow> string) \<Rightarrow> string \<Rightarrow> string option \<Rightarrow> string list \<Rightarrow>
     torrent_error + string" where
  "merge_magnet_trackers sha1 sha256 torrent magnet_hash trackers =
     ebind (inspect_torrent sha1 sha256 torrent) (\<lambda>inspected.
     if magnet_hash \<noteq> Some (torrent_infohash inspected)
       then Inl (TorrentBytesError ''magnet infohash does not match cached torrent'')
     else if trackers = [] then Inr torrent
     else
       ebind (scan_fields (length torrent) (drop 1 torrent)) (\<lambda>scanned.
         merge_fields torrent trackers (map (\<lambda>(k, v, raw). (k, v)) scanned)
           (map (\<lambda>(k, v, raw). (the (bytes_of (Some k)), raw)) scanned)))"

section \<open>The root dictionary\<close>

definition root_text :: "string \<times> bval \<times> string \<Rightarrow> string" where
  "root_text f = encode_str (fst f) @ snd (snd f)"

lemma root_text_tuple: "root_text (q, v, raw) = encode_str q @ raw"
  by (simp add: root_text_def)

definition root_entry :: "string \<times> bval \<times> string \<Rightarrow> bool" where
  "root_entry f = (fits 16 (BStr (fst f)) \<and> fits 16 (fst (snd f)) \<and> snd (snd f) = bencode (fst (snd f)))"

text \<open>The entries are those of a canonical dictionary, each with its own encoding as its slice.\<close>

definition root_ok :: "(string \<times> bval \<times> string) list \<Rightarrow> bool" where
  "root_ok fs = ((\<forall>f\<in>set fs. root_entry f) \<and> sorted_wrt (<) (map fst fs))"

lemma root_fields_iff:
  assumes "length s < fuel"
  shows "root_fields fuel previous s = Inr (fs, r) \<longleftrightarrow>
         root_ok fs \<and> (\<forall>q\<in>set (map fst fs). after_key previous q) \<and>
         s = concat (map root_text fs) @ CHR ''e'' # r"
  using assms
proof (induction fuel arbitrary: previous s fs)
  case 0
  then show ?case by simp
next
  case (Suc n)
  show ?case
  proof (cases "take 1 s = ''e''")
    case True
    then obtain s' where s: "s = CHR ''e'' # s'" by (cases s) auto
    show ?thesis
    proof (cases fs)
      case Nil
      then show ?thesis by (subst root_fields.simps) (auto simp: s root_ok_def)
    next
      case (Cons f ws)
      obtain c cs where "encode_str (fst f) = c # cs" "c \<noteq> CHR ''e''"
        using encode_str_head digit_not by blast
      then show ?thesis by (subst root_fields.simps) (simp add: s Cons root_text_def)
    qed
  next
    case False
    show ?thesis
    proof (cases fs)
      case Nil
      with False show ?thesis by (subst root_fields.simps) (auto simp: err_simps)
    next
      case (Cons f ws)
      obtain q v raw where f: "f = (q, v, raw)" by (cases f)
      have step: "root_fields n (Some q) t = Inr (ws, r) \<longleftrightarrow>
          root_ok ws \<and> (\<forall>k\<in>set (map fst ws). q < k) \<and> t = concat (map root_text ws) @ CHR ''e'' # r"
        if "s = encode_str q @ bencode v @ t" for t
      proof -
        have "length t < n" using Suc.prems that encode_str_head [of q] by auto
        from Suc.IH [OF this, of "Some q" ws] show ?thesis by (simp add: after_key_def)
      qed
      have "root_fields (Suc n) previous s = Inr (fs, r) \<longleftrightarrow>
          (\<exists>t. root_entry f \<and> s = encode_str q @ bencode v @ t \<and> after_key previous q \<and>
               root_fields n (Some q) t = Inr (ws, r))"
        (is "?lhs = ?rhs")
      proof
        assume ?lhs
        with False show ?rhs
          by (subst (asm) root_fields.simps)
            (clarsimp simp: err_simps parse_iff Cons f root_entry_def not_after_key)
      next
        assume ?rhs
        then obtain t where t: "root_entry f" "s = encode_str q @ bencode v @ t"
          "after_key previous q" "root_fields n (Some q) t = Inr (ws, r)" by blast
        then have "parse 16 s = Inr (BStr q, bencode v @ t)" "parse 16 (bencode v @ t) = Inr (v, t)"
          by (simp_all add: parse_iff root_entry_def f)
        with False t show ?lhs
          by (subst root_fields.simps) (simp add: Cons f not_after_key root_entry_def)
      qed
      also have "\<dots> \<longleftrightarrow> (\<exists>t. root_entry f \<and> s = encode_str q @ bencode v @ t \<and> after_key previous q \<and>
          root_ok ws \<and> (\<forall>k\<in>set (map fst ws). q < k) \<and> t = concat (map root_text ws) @ CHR ''e'' # r)"
        using step by metis
      finally show ?thesis
        by (auto simp: Cons f after_key_def root_ok_def root_entry_def root_text_tuple
            split: option.splits dest: less_trans)
    qed
  qed
qed

lemma root_fields_fuel: "length s < fuel \<Longrightarrow> root_fields fuel previous s \<noteq> Inl OutOfFuel"
proof (induction fuel arbitrary: previous s)
  case (Suc n)
  have "length r' < n" if "parse 16 s = Inr (q, r)" and "parse 16 r = Inr (v, r')" for q v r r'
    using parse_consumes [OF that(1)] parse_consumes [OF that(2)] Suc.prems by simp
  then show ?case using Suc.IH parse_fuel
    by (subst root_fields.simps) (auto simp: err_simps split: if_splits bval.splits)
qed simp

lemma scan_root:
  "root_fields fuel previous s = Inr (fs, r) \<Longrightarrow>
   scan_fields fuel s = Inr (map (\<lambda>(q, v, raw). (BStr q, v, raw)) fs)"
proof (induction fuel arbitrary: previous s fs)
  case 0
  then show ?case by (subst (asm) root_fields.simps, subst scan_fields.simps) (auto split: if_splits)
next
  case (Suc n)
  from Suc.prems show ?case
    by (subst (asm) root_fields.simps, subst scan_fields.simps)
      (auto simp: err_simps Suc.IH split: if_splits)
qed

section \<open>What an inspection says of the octets\<close>

definition root_octets :: "(string \<times> bval \<times> string) list \<Rightarrow> string" where
  "root_octets fs = CHR ''d'' # concat (map root_text fs) @ ''e''"

lemma inspect_torrent_iff:
  "inspect_torrent sha1 sha256 data = Inr i \<longleftrightarrow>
   (\<exists>fs info files. root_ok fs \<and> data = root_octets fs \<and> length data \<le> max_torrent \<and>
      map_of fs ''info'' = Some (info, bencode info) \<and> inspect_info info = Inr files \<and>
      i = \<lparr>torrent_infohash = sha1 (bencode info), torrent_sha256 = sha256 data, torrent_files = files\<rparr>)"
  (is "?lhs = ?rhs")
proof
  assume ?lhs
  then have len: "length data \<le> max_torrent" and ne: "data \<noteq> []" and d: "take 1 data = ''d''"
    by (auto simp: inspect_torrent_def split: if_splits)
  then obtain s where data: "data = CHR ''d'' # s" by (cases data) auto
  from \<open>?lhs\<close> len obtain fs info raw files where fs: "root_fields (length data) None s = Inr (fs, [])"
    and m: "map_of fs ''info'' = Some (info, raw)" and f: "inspect_info info = Inr files"
    and i: "i = \<lparr>torrent_infohash = sha1 raw, torrent_sha256 = sha256 data, torrent_files = files\<rparr>"
    by (auto simp: inspect_torrent_def data err_simps split: if_splits option.splits)
  from fs have ok: "root_ok fs" and s: "s = concat (map root_text fs) @ ''e''"
    using root_fields_iff [of s "length data" None fs "[]"] by (simp_all add: data after_key_def)
  from m ok have "raw = bencode info"
    by (auto simp: root_ok_def root_entry_def dest!: map_of_SomeD)
  with ok s len m f i data show ?rhs by (auto simp: root_octets_def)
next
  assume ?rhs
  then obtain fs info files where h: "root_ok fs" "data = root_octets fs" "length data \<le> max_torrent"
    "map_of fs ''info'' = Some (info, bencode info)" "inspect_info info = Inr files"
    "i = \<lparr>torrent_infohash = sha1 (bencode info), torrent_sha256 = sha256 data, torrent_files = files\<rparr>"
    by blast
  then have "root_fields (length data) None (drop 1 data) = Inr (fs, [])"
    by (subst root_fields_iff) (simp_all add: root_octets_def after_key_def)
  moreover have "take 1 data = ''d''" "1 \<le> length data" by (simp_all add: h(2) root_octets_def)
  ultimately show ?lhs using h by (simp add: inspect_torrent_def)
qed

section \<open>The merged root\<close>

lemma show_nat_length: "n < 10 ^ Suc k \<Longrightarrow> length (show_nat n) \<le> Suc k"
proof (induction k arbitrary: n)
  case 0
  then show ?case by (subst show_nat.simps) simp
next
  case (Suc k)
  then have "n div 10 < 10 ^ Suc k" by (simp add: less_mult_imp_div_less mult.commute)
  from Suc.IH [OF this] show ?case by (subst show_nat.simps) simp
qed

lemma short_str_fits: "length s \<le> 2048 \<Longrightarrow> str_fits s"
  using show_nat_length [of "length s" 10] by (simp add: str_fits_def)

lemma fits_str: "fits 16 (BStr s) = str_fits s"
  by (simp add: numeral_eq_Suc)

definition tiers_value :: "string list list \<Rightarrow> bval" where
  "tiers_value tiers = BList (map (\<lambda>tier. BList (map BStr tier)) tiers)"

lemma bencode_tiers: "bencode (tiers_value tiers) = encode_tiers tiers"
proof -
  have "bencode \<circ> (\<lambda>tier. BList (map BStr tier)) = encode_tier"
    by (rule ext) (simp add: encode_tier_def o_def)
  then show ?thesis by (simp add: tiers_value_def encode_tiers_def)
qed

lemma those_SomeD: "those xs = Some ys \<Longrightarrow> xs = map Some ys"
  by (induction xs arbitrary: ys) (auto split: option.splits)

lemma bytes_of_Some: "bytes_of v = Some s \<longleftrightarrow> v = Some (BStr s)"
  by (auto simp: bytes_of_def split: option.splits bval.splits)

lemma tracker_tier_Some: "tracker_tier tier = Some items \<Longrightarrow> tier = BList (map BStr items)"
proof -
  assume a: "tracker_tier tier = Some items"
  then obtain vs where t: "tier = BList vs" and v: "those (map (\<lambda>item. bytes_of (Some item)) vs) = Some items"
    by (auto simp: tracker_tier_def split: bval.splits)
  from those_SomeD [OF v] have "vs = map BStr items"
    by (induction vs arbitrary: items) (auto simp: bytes_of_Some)
  with t show ?thesis by simp
qed

lemma tracker_tiers_Some:
  assumes "tracker_tiers (Some v) = Some tiers"
  shows "v = tiers_value tiers"
proof -
  from assms obtain ts where v: "v = BList ts" and m: "those (map tracker_tier ts) = Some tiers"
    by (auto simp: tracker_tiers_def split: bval.splits)
  from those_SomeD [OF m] have "ts = map (\<lambda>tier. BList (map BStr tier)) tiers"
    by (induction ts arbitrary: tiers) (auto dest: tracker_tier_Some)
  with v show ?thesis by (simp add: tiers_value_def)
qed

lemma new_trackers_set: "set (new_trackers room seen ts) \<subseteq> set ts"
  by (induction room seen ts rule: new_trackers.induct) auto

lemma new_trackers_length: "0 < room \<Longrightarrow> length (new_trackers room seen ts) \<le> room"
proof (induction room seen ts rule: new_trackers.induct)
  case (2 room seen t ts)
  then show ?case by (cases "room = 1") auto
qed simp

lemma sort_key_entries:
  "sort_key fst (map (\<lambda>(k, v, raw). (k, raw)) fs) = map (\<lambda>(k, v, raw). (k, raw)) (sort_key fst fs)"
proof -
  have ins: "insort_key fst (k, raw) (map (\<lambda>(k, v, raw). (k, raw)) gs) =
      map (\<lambda>(k, v, raw). (k, raw)) (insort_key fst (k, v, raw) gs)" for k v raw gs
    by (induction gs) auto
  show ?thesis by (induction fs) (auto simp: ins)
qed

lemma update_entries:
  "AList.update k raw (map (\<lambda>(k, v, raw). (k, raw)) fs) =
   map (\<lambda>(k, v, raw). (k, raw)) (AList.update k (v, raw) fs)"
  by (induction fs) auto

lemma encode_root_entries:
  "encode_root (map (\<lambda>(k, v, raw). (k, raw)) fs) = root_octets (sort_key fst fs)"
proof -
  have "(\<lambda>(k, raw). encode_str k @ raw) \<circ> (\<lambda>(k, v, raw). (k, raw)) = root_text"
    by (rule ext) (auto simp: root_text_def)
  then show ?thesis by (simp add: encode_root_def root_octets_def sort_key_entries)
qed

text \<open>Entries in any order with distinct keys: sorting them gives a canonical root.\<close>

definition entries_ok :: "(string \<times> bval \<times> string) list \<Rightarrow> bool" where
  "entries_ok fs = ((\<forall>f\<in>set fs. root_entry f) \<and> distinct (map fst fs))"

lemma root_entries_ok: "root_ok fs \<Longrightarrow> entries_ok fs"
  by (auto simp: root_ok_def entries_ok_def strict_sorted_iff)

lemma entries_ok_update:
  assumes "entries_ok fs" and "fits 16 (BStr k)" and "fits 16 v" and "raw = bencode v"
  shows "entries_ok (AList.update k (v, raw) fs)"
proof -
  have "root_entry f" if "f \<in> set (AList.update k (v, raw) fs)" for f
    using that assms update_set_mem [of "fst f" "snd f" k "(v, raw)" fs]
    by (cases f) (auto simp: entries_ok_def root_entry_def)
  with assms(1) show ?thesis by (simp add: entries_ok_def AList.distinct_update)
qed

lemma root_ok_sort: "entries_ok fs \<Longrightarrow> root_ok (sort_key fst fs)"
proof -
  assume ok: "entries_ok fs"
  have "mset (map fst (sort_key fst fs)) = mset (map fst fs)" by simp
  with ok have "distinct (map fst (sort_key fst fs))"
    by (metis entries_ok_def mset_eq_imp_distinct_iff)
  with ok show ?thesis by (simp add: root_ok_def strict_sorted_iff entries_ok_def)
qed

lemma map_of_sort:
  assumes "distinct (map fst fs)"
  shows "map_of (sort_key fst fs) k = map_of fs k"
proof -
  have "mset (map fst (sort_key fst fs)) = mset (map fst fs)" by simp
  with assms have "distinct (map fst (sort_key fst fs))" by (metis mset_eq_imp_distinct_iff)
  with assms show ?thesis by (metis map_of_inject_set set_sort)
qed

lemma map_of_fields:
  "map_of (map (\<lambda>(k, v, raw). (k, v)) (map (\<lambda>(q, v, raw). (BStr q, v, raw)) fs)) (BStr k) =
   map_option fst (map_of fs k)"
  by (induction fs) auto

lemma map_encoded:
  "map (\<lambda>(k, v, raw). (the (bytes_of (Some k)), raw)) (map (\<lambda>(q, v, raw). (BStr q, v, raw)) fs) =
   map (\<lambda>(k, v, raw). (k, raw)) fs"
  by (induction fs) (auto simp: bytes_of_def)

lemma entry_fits: "entries_ok fs \<Longrightarrow> map_of fs k = Some (v, raw) \<Longrightarrow> fits 16 v \<and> raw = bencode v"
  by (auto simp: entries_ok_def root_entry_def dest!: map_of_SomeD)

definition tier_count :: "(string \<times> bval \<times> string) list \<Rightarrow> nat" where
  "tier_count fs = (case map_of fs ''announce-list'' of Some (BList ts, raw) \<Rightarrow> length ts | _ \<Rightarrow> 0)"

lemma tiers_fit:
  "length tiers \<le> 8192 \<Longrightarrow> \<forall>tier\<in>set tiers. length tier \<le> 8192 \<and> (\<forall>t\<in>set tier. str_fits t) \<Longrightarrow>
   fits 16 (tiers_value tiers)"
  by (simp add: tiers_value_def numeral_eq_Suc)

lemma fits_tiers:
  "fits 16 (tiers_value tiers) \<Longrightarrow>
   length tiers \<le> 8192 \<and> (\<forall>tier\<in>set tiers. length tier \<le> 8192 \<and> (\<forall>t\<in>set tier. str_fits t))"
  by (simp add: tiers_value_def numeral_eq_Suc)

text \<open>
  The root after a merge: \<open>announce-list\<close> holds the tiers, \<open>announce\<close> is set where there was
  none, and every other field is as it was.
\<close>

lemma merged_root:
  assumes "inspect_torrent sha1 sha256 torrent = Inr i"
    and "merge_magnet_trackers sha1 sha256 torrent h trackers = Inr m" and "m \<noteq> torrent"
    and "\<forall>t\<in>set trackers. length t \<le> 2048"
  shows "\<exists>fs fs'. root_ok fs \<and> torrent = root_octets fs \<and> m = root_octets (sort_key fst fs') \<and>
           length m \<le> max_torrent \<and> map_of fs' ''info'' = map_of fs ''info'' \<and>
           (tier_count fs + 65 \<le> 8192 \<longrightarrow> entries_ok fs')"
proof -
  from assms(1) obtain fs where ok: "root_ok fs" and t: "torrent = root_octets fs"
    by (auto simp: inspect_torrent_iff)
  from ok have eok: "entries_ok fs" by (rule root_entries_ok)
  have "root_fields (length torrent) None (drop 1 torrent) = Inr (fs, [])"
    using ok by (subst root_fields_iff) (simp_all add: t root_octets_def after_key_def)
  from scan_root [OF this] have scan:
    "scan_fields (length torrent) (drop 1 torrent) = Inr (map (\<lambda>(q, v, raw). (BStr q, v, raw)) fs)" .
  let ?announce = "map_option fst (map_of fs ''announce'')"
  let ?encoded = "map (\<lambda>(k, v, raw). (k, raw)) fs"
  have "merge_fields torrent trackers (map (\<lambda>(k, v, raw). (k, v)) (map (\<lambda>(q, v, raw). (BStr q, v, raw)) fs))
          ?encoded = Inr m"
    using assms(2,3) unfolding merge_magnet_trackers_def assms(1) ebind.simps scan map_encoded
    by (auto split: if_splits)
  then obtain raw_tiers tiers added where
    raw: "tracker_tiers (map_option fst (map_of fs ''announce-list'')) = Some raw_tiers"
    and tiers: "tiers = (if raw_tiers = [] \<and> present_announce ?announce \<noteq> []
                 then [present_announce ?announce] else raw_tiers)"
    and added: "added = new_trackers 64 (concat tiers @ present_announce ?announce) trackers" "added \<noteq> []"
    and len: "length m \<le> max_torrent"
    and m: "m = encode_root (AList.update ''announce-list'' (encode_tiers (tiers @ map (\<lambda>t. [t]) added))
               (if present_announce ?announce = []
                then AList.update ''announce'' (encode_str (hd added)) ?encoded else ?encoded))"
    using assms(3) unfolding merge_fields_def map_of_fields Let_def
    by (auto split: if_split_asm option.split_asm)
  define with_announce where "with_announce =
     (if present_announce ?announce = []
      then AList.update ''announce'' (BStr (hd added), encode_str (hd added)) fs else fs)"
  define all_tiers where "all_tiers = tiers @ map (\<lambda>t. [t]) added"
  define fs' where "fs' = AList.update ''announce-list'' (tiers_value all_tiers, encode_tiers all_tiers) with_announce"
  have "m = encode_root (map (\<lambda>(k, v, raw). (k, raw)) fs')"
    by (auto simp: m fs'_def all_tiers_def with_announce_def update_entries [symmetric])
  then have m': "m = root_octets (sort_key fst fs')" by (simp add: encode_root_entries)
  have info: "map_of fs' ''info'' = map_of fs ''info''"
    by (simp add: fs'_def with_announce_def update_conv')
  have added_fit: "str_fits t" if "t \<in> set added" for t
    using that new_trackers_set assms(4) short_str_fits unfolding added(1) by blast
  have present_fit: "str_fits t" if "t \<in> set (present_announce ?announce)" for t
  proof -
    from that have "bytes_of ?announce = Some t"
      by (auto simp: present_announce_def split: option.splits list.splits)
    then obtain raw where "map_of fs ''announce'' = Some (BStr t, raw)" by (auto simp: bytes_of_Some)
    from entry_fits [OF eok this] show ?thesis by (simp add: numeral_eq_Suc)
  qed
  have raw_fit: "fits 16 (tiers_value raw_tiers) \<and> length raw_tiers = tier_count fs" if "raw_tiers \<noteq> []"
  proof (cases "map_of fs ''announce-list''")
    case None
    with raw that show ?thesis by (simp add: tracker_tiers_def)
  next
    case (Some vr)
    obtain v r where vr: "vr = (v, r)" by (cases vr)
    from raw Some vr have "tracker_tiers (Some v) = Some raw_tiers" by simp
    then have v: "v = tiers_value raw_tiers" by (rule tracker_tiers_Some)
    from entry_fits [OF eok] Some vr v have "fits 16 (tiers_value raw_tiers)" by blast
    moreover have "tier_count fs = length raw_tiers"
      by (simp add: tier_count_def Some vr v) (simp add: tiers_value_def)
    ultimately show ?thesis by simp
  qed
  have "length added \<le> 64" unfolding added(1) by (rule new_trackers_length) simp
  then have "length all_tiers \<le> tier_count fs + 65"
    using raw_fit by (cases "raw_tiers = []") (simp_all add: all_tiers_def tiers)
  moreover have "entries_ok fs'" if "length all_tiers \<le> 8192"
  proof -
    have "\<forall>tier\<in>set all_tiers. length tier \<le> 8192 \<and> (\<forall>t\<in>set tier. str_fits t)"
    proof
      fix tier
      assume "tier \<in> set all_tiers"
      then consider "tier \<in> set raw_tiers" | "tier = present_announce ?announce" | t where "tier = [t]" "t \<in> set added"
        by (auto simp: all_tiers_def tiers split: if_splits)
      then show "length tier \<le> 8192 \<and> (\<forall>t\<in>set tier. str_fits t)"
      proof cases
        case 1
        with raw_fit fits_tiers show ?thesis by fastforce
      next
        case 2
        have "length (present_announce ?announce) \<le> 8192"
          by (auto simp: present_announce_def split: option.splits list.splits)
        with 2 present_fit show ?thesis by auto
      next
        case 3
        with added_fit show ?thesis by simp
      qed
    qed
    with that have "fits 16 (tiers_value all_tiers)" by (rule tiers_fit)
    moreover have "entries_ok with_announce"
      using eok added_fit [of "hd added"] added(2)
      by (auto simp: with_announce_def fits_str short_str_fits intro!: entries_ok_update)
    ultimately show ?thesis unfolding fs'_def
      by (intro entries_ok_update) (auto simp: bencode_tiers fits_str short_str_fits)
  qed
  ultimately have "tier_count fs + 65 \<le> 8192 \<longrightarrow> entries_ok fs'" by simp
  with ok t m' len info show ?thesis by blast
qed

lemma info_after_merge:
  assumes "root_ok fs" and "inspect_torrent sha1 sha256 (root_octets fs) = Inr i"
    and "entries_ok fs'" and "map_of fs' ''info'' = map_of fs ''info''"
    and "m = root_octets (sort_key fst fs')" and "length m \<le> max_torrent"
  shows "inspect_torrent sha1 sha256 m = Inr (i\<lparr>torrent_sha256 := sha256 m\<rparr>)"
proof -
  from assms(2) obtain gs info files where gs: "root_ok gs" "root_octets fs = root_octets gs"
    and info: "map_of gs ''info'' = Some (info, bencode info)" "inspect_info info = Inr files"
    and i: "i = \<lparr>torrent_infohash = sha1 (bencode info), torrent_sha256 = sha256 (root_octets fs),
                torrent_files = files\<rparr>"
    by (auto simp: inspect_torrent_iff)
  let ?s = "concat (map root_text fs) @ ''e''"
  from gs(2) have "?s = concat (map root_text gs) @ ''e''" by (simp add: root_octets_def)
  with assms(1) gs(1) have "root_fields (Suc (length ?s)) None ?s = Inr (fs, [])"
    "root_fields (Suc (length ?s)) None ?s = Inr (gs, [])"
    by (simp_all add: root_fields_iff after_key_def del: length_append)
  then have "gs = fs" by simp
  moreover have "map_of (sort_key fst fs') ''info'' = map_of fs' ''info''"
    using assms(3) by (simp add: map_of_sort entries_ok_def)
  ultimately have "map_of (sort_key fst fs') ''info'' = Some (info, bencode info)"
    using assms(4) info(1) by simp
  with root_ok_sort [OF assms(3)] assms(5,6) info(2)
  have "inspect_torrent sha1 sha256 m = Inr \<lparr>torrent_infohash = sha1 (bencode info),
          torrent_sha256 = sha256 m, torrent_files = files\<rparr>"
    unfolding inspect_torrent_iff by blast
  with i show ?thesis by simp
qed

text \<open>The tiers of the metadata's own \<open>announce-list\<close>.\<close>

definition announce_tiers :: "string \<Rightarrow> nat" where
  "announce_tiers data =
     (case root_fields (length data) None (drop 1 data) of Inr (fs, rest) \<Rightarrow> tier_count fs | Inl e \<Rightarrow> 0)"

lemma announce_tiers_root: "root_ok fs \<Longrightarrow> announce_tiers (root_octets fs) = tier_count fs"
proof -
  assume ok: "root_ok fs"
  then have "root_fields (length (root_octets fs)) None (drop 1 (root_octets fs)) = Inr (fs, [])"
    by (subst root_fields_iff) (simp_all add: root_octets_def after_key_def)
  then show ?thesis by (simp add: announce_tiers_def)
qed

section \<open>Inspected files\<close>

definition clean_component :: "string \<Rightarrow> bool" where
  "clean_component w =
     (utf8_valid w \<and> w \<notin> {[], ''.'', ''..''} \<and> \<not> list_ex unsafe_char w)"

lemma safe_component_Inr: "safe_component raw = Inr w \<Longrightarrow> clean_component w"
  by (auto simp: safe_component_def clean_component_def split: option.splits if_splits)

definition clean_file :: "manifest_file \<Rightarrow> bool" where
  "clean_file f = (0 < file_length f \<and> (\<forall>w\<in>set (split_on CHR ''/'' (file_path f)). clean_component w))"

lemma expect_BDict [err_simps]:
  "(case v of BDict d \<Rightarrow> f d | _ \<Rightarrow> Inl e) = Inr y \<longleftrightarrow> (\<exists>d. v = BDict d \<and> f d = Inr y)"
  by (cases v) auto

lemma expect_items [err_simps]:
  "(case v of BList [] \<Rightarrow> Inl e | BList (c # cs) \<Rightarrow> f c cs | _ \<Rightarrow> Inl e) = Inr y \<longleftrightarrow>
   (\<exists>c cs. v = BList (c # cs) \<and> f c cs = Inr y)"
  by (auto split: bval.splits list.splits)

lemma positive_length_Inr: "positive_length v = Inr n \<Longrightarrow> 0 < n"
  by (auto simp: positive_length_def split: option.splits if_splits)

lemma split_clean:
  assumes "ws \<noteq> []" and "\<And>w. w \<in> set ws \<Longrightarrow> clean_component w"
  shows "split_on CHR ''/'' (join_with ''/'' ws) = ws"
  using assms by (intro split_join) (auto simp: clean_component_def list_ex_iff unsafe_char_def)

lemma torrent_file_clean:
  assumes "torrent_file name raw = Inr f" and "clean_component name"
  shows "clean_file f \<and> hd (split_on CHR ''/'' (file_path f)) = name"
proof -
  from assms(1) obtain c cs n parts where n: "positive_length n = Inr (file_length f)"
    and p: "emap (\<lambda>part. safe_component (Some part)) (c # cs) = Inr parts"
    and f: "file_path f = join_with ''/'' (name # parts)"
    unfolding torrent_file_def
    by (auto simp: err_simps simp del: emap.simps)
  have "clean_component w" if "w \<in> set (name # parts)" for w
    using that assms(2) emap_set [OF p] safe_component_Inr by auto
  with split_clean [of "name # parts"] positive_length_Inr [OF n] show ?thesis
    by (simp add: clean_file_def f)
qed

lemma inspect_info_clean:
  assumes "inspect_info info = Inr files"
  shows "(\<forall>f\<in>set files. clean_file f) \<and> distinct (map file_path files) \<and>
         (\<exists>name. \<forall>f\<in>set files. hd (split_on CHR ''/'' (file_path f)) = name)"
proof -
  from assms obtain d name where n: "safe_component (map_of d ''name'') = Inr name"
    and f: "info_files name d = Inr files" and dist: "distinct (map file_path files)"
    unfolding inspect_info_def
    by (auto simp: err_simps split: if_split_asm option.split_asm)
  from n have cn: "clean_component name" by (rule safe_component_Inr)
  have "clean_file f \<and> hd (split_on CHR ''/'' (file_path f)) = name" if "f \<in> set files" for f
  proof (cases "map_of d ''files''")
    case None
    with f obtain m where "positive_length (map_of d ''length'') = Inr m"
      "files = [\<lparr>file_path = name, file_length = m\<rparr>]" by (auto simp: info_files_def err_simps)
    with that cn split_clean [of "[name]"] positive_length_Inr show ?thesis by (auto simp: clean_file_def)
  next
    case (Some v)
    with f obtain raws where "emap (torrent_file name) raws = Inr files"
      by (auto simp: info_files_def split: bval.split_asm if_split_asm)
    from emap_set [OF this that] torrent_file_clean [OF _ cn] show ?thesis by blast
  qed
  with dist show ?thesis by blast
qed

lemma inspect_info_some:
  assumes "inspect_info info = Inr files"
  shows "files \<noteq> []"
proof -
  from assms obtain d name where f: "info_files name d = Inr files"
    unfolding inspect_info_def
    by (auto simp: err_simps split: if_split_asm option.split_asm)
  then show ?thesis
    by (auto simp: info_files_def err_simps dest!: emap_length
        split: option.split_asm bval.split_asm if_split_asm)
qed

end
