(* ===== verification/TorrentManifest.thy ===== *)
theory TorrentManifest
  imports TorrentBytes Json
begin

text \<open>
  \<open>domain/torrent_manifest.py\<close>: the admission of untrusted torrent metadata given as JSON.
\<close>

section \<open>Manifests\<close>

datatype manifest_error = ManifestError string

record torrent_manifest =
  manifest_infohash :: string
  manifest_files :: "manifest_file list"

definition hex_digest :: "string \<Rightarrow> bool" where
  "hex_digest s = (hex40 s \<or> hex64 s)"

text \<open>\<open>[A-Za-z]:\<close> at the start\<close>

definition drive_prefix :: "string \<Rightarrow> bool" where
  "drive_prefix s = (2 \<le> length s \<and> is_alpha (s ! 0) \<and> s ! 1 = CHR '':'')"

definition dot_part :: "string \<Rightarrow> bool" where
  "dot_part w = (w \<in> {[], ''.'', ''..''})"

definition validate_path :: "json \<Rightarrow> manifest_error + string" where
  "validate_path j =
     (case as_str j of
        None \<Rightarrow> Inl (ManifestError ''invalid path'')
      | Some p \<Rightarrow>
          if p = [] \<or> CHR 0x5C \<in> set p \<or> starts_with ''/'' p \<or> drive_prefix p \<or>
             list_ex dot_part (split_on CHR ''/'' p)
          then Inl (ManifestError ''invalid path'') else Inr p)"

fun manifest_entries :: "json list \<Rightarrow> string list \<Rightarrow> manifest_error + manifest_file list" where
  "manifest_entries [] seen = Inr []"
| "manifest_entries (raw # raws) seen =
     (case as_obj raw of
        None \<Rightarrow> Inl (ManifestError ''invalid file entry'')
      | Some d \<Rightarrow>
          ebind (validate_path (jget d ''path'')) (\<lambda>p.
          case as_int (jget d ''length'') of
            None \<Rightarrow> Inl (ManifestError ''invalid file length'')
          | Some n \<Rightarrow>
              if n \<le> 0 then Inl (ManifestError ''invalid file length'')
              else if p \<in> set seen then Inl (ManifestError ''duplicate file path'')
              else if truthy (jget d ''symlink'') \<or> truthy (jget d ''hardlink'')
                then Inl (ManifestError ''links are not admitted'')
              else ebind (manifest_entries raws (p # seen)) (\<lambda>fs.
                     Inr (\<lparr>file_path = p, file_length = n\<rparr> # fs))))"

definition parse_torrent_metadata :: "json \<Rightarrow> manifest_error + torrent_manifest" where
  "parse_torrent_metadata metadata =
     (case as_obj metadata of
        None \<Rightarrow> Inl (ManifestError ''metadata must be an object'')
      | Some d \<Rightarrow>
          (case as_str (jget d ''infohash'') of
             None \<Rightarrow> Inl (ManifestError ''invalid infohash'')
           | Some h \<Rightarrow>
               if \<not> hex_digest h then Inl (ManifestError ''invalid infohash'')
               else if jget d ''layout'' = JStr ''compact'' \<or> truthy (jget d ''private_links'')
                 then Inl (ManifestError ''unsupported compact or linked metadata'')
               else
                 (case as_list (jget d ''files'') of
                    None \<Rightarrow> Inl (ManifestError ''files are required'')
                  | Some raws \<Rightarrow>
                      if raws = [] then Inl (ManifestError ''files are required'')
                      else ebind (manifest_entries raws []) (\<lambda>fs.
                             Inr \<lparr>manifest_infohash = lower h, manifest_files = fs\<rparr>))))"

section \<open>Accepted manifests\<close>

definition relative_path :: "string \<Rightarrow> bool" where
  "relative_path p =
     (\<not> drive_prefix p \<and> CHR 0x5C \<notin> set p \<and>
      (\<forall>w\<in>set (split_on CHR ''/'' p). \<not> dot_part w))"

lemma validate_path_Inr: "validate_path j = Inr p \<Longrightarrow> j = JStr p \<and> relative_path p"
  by (auto simp: validate_path_def relative_path_def list_ex_iff json_access
      split: option.splits if_splits)

lemma relative_validates: "relative_path p \<Longrightarrow> validate_path (JStr p) = Inr p"
proof -
  assume r: "relative_path p"
  have ne: "p \<noteq> []"
  proof
    assume "p = []"
    with r show False by (simp add: relative_path_def dot_part_def)
  qed
  have "\<not> starts_with ''/'' p"
  proof
    assume "starts_with ''/'' p"
    then obtain q where "p = CHR ''/'' # q" by (cases p) (auto simp: starts_with_def)
    with r show False by (simp add: relative_path_def dot_part_def)
  qed
  with r ne show ?thesis by (auto simp: validate_path_def relative_path_def list_ex_iff)
qed

lemma manifest_entries_Inr:
  "manifest_entries raws seen = Inr fs \<Longrightarrow>
   length fs = length raws \<and> distinct (map file_path fs) \<and> set (map file_path fs) \<inter> set seen = {} \<and>
   (\<forall>f\<in>set fs. 0 < file_length f \<and> relative_path (file_path f))"
proof (induction raws seen arbitrary: fs rule: manifest_entries.induct)
  case (2 raw raws seen)
  from "2.prems" obtain d p n gs where d: "as_obj raw = Some d"
    and p: "validate_path (jget d ''path'') = Inr p" and n: "as_int (jget d ''length'') = Some n" "\<not> n \<le> 0"
    and seen: "p \<notin> set seen" and l: "\<not> (truthy (jget d ''symlink'') \<or> truthy (jget d ''hardlink''))"
    and gs: "manifest_entries raws (p # seen) = Inr gs" and fs: "fs = \<lparr>file_path = p, file_length = n\<rparr> # gs"
    by (auto simp: err_simps)
  from "2.IH" [OF d n seen l gs] validate_path_Inr [OF p] n seen fs show ?case by auto
qed simp

text \<open>The JSON form of inspected files.\<close>

definition file_json :: "manifest_file \<Rightarrow> json" where
  "file_json f = JObj [(''path'', JStr (file_path f)), (''length'', JInt (file_length f))]"

definition metadata_json :: "string \<Rightarrow> manifest_file list \<Rightarrow> json" where
  "metadata_json h fs = JObj [(''infohash'', JStr h), (''files'', JList (map file_json fs))]"

lemma join_with_set: "set (join_with sep ws) \<subseteq> set sep \<union> (\<Union>w\<in>set ws. set w)"
  by (induction sep ws rule: join_with.induct) auto

lemma clean_relative: "clean_file f \<Longrightarrow> relative_path (file_path f)"
proof -
  assume c: "clean_file f"
  let ?p = "file_path f"
  have comp: "clean_component w" if "w \<in> set (split_on CHR ''/'' ?p)" for w
    using c that by (simp add: clean_file_def)
  have octet: "\<not> unsafe_char x" if "x \<in> set ?p" "x \<noteq> CHR ''/''" for x
  proof -
    have "set ?p \<subseteq> {CHR ''/''} \<union> (\<Union>w\<in>set (split_on CHR ''/'' ?p). set w)"
      using join_with_set [of "''/''" "split_on CHR ''/'' ?p"] by simp
    with that obtain w where "w \<in> set (split_on CHR ''/'' ?p)" "x \<in> set w" by blast
    with comp show ?thesis by (auto simp: clean_component_def list_ex_iff)
  qed
  have "\<not> drive_prefix ?p"
  proof
    assume d: "drive_prefix ?p"
    then have "1 < length ?p" and e: "?p ! 1 = CHR '':''" by (simp_all add: drive_prefix_def)
    from nth_mem [OF this(1)] have "CHR '':'' \<in> set ?p" unfolding e .
    from octet [OF this] show False by (simp add: unsafe_char_def)
  qed
  moreover have "CHR 0x5C \<notin> set ?p" using octet [of "CHR 0x5C"] by (auto simp: unsafe_char_def)
  moreover have "\<not> dot_part w" if "w \<in> set (split_on CHR ''/'' ?p)" for w
    using comp [OF that] by (simp add: clean_component_def dot_part_def)
  ultimately show ?thesis by (simp add: relative_path_def)
qed

lemma manifest_entries_files:
  "\<forall>f\<in>set fs. 0 < file_length f \<and> relative_path (file_path f) \<Longrightarrow> distinct (map file_path fs) \<Longrightarrow>
   set (map file_path fs) \<inter> set seen = {} \<Longrightarrow> manifest_entries (map file_json fs) seen = Inr fs"
proof (induction fs arbitrary: seen)
  case (Cons f fs)
  have "manifest_entries (map file_json fs) (file_path f # seen) = Inr fs"
    using Cons.prems by (intro Cons.IH) auto
  moreover have "validate_path (JStr (file_path f)) = Inr (file_path f)"
    using Cons.prems by (intro relative_validates) simp
  moreover have "as_obj (file_json f) = Some [(''path'', JStr (file_path f)), (''length'', JInt (file_length f))]"
    by (simp add: file_json_def)
  ultimately show ?case using Cons.prems by (simp add: jget_def get_or_def)
qed simp

end
