(* ===== verification/TorrentArtifacts.thy ===== *)
theory TorrentArtifacts
  imports TorrentBytes PermitStore
begin

text \<open>
  \<open>persistence/torrent_artifacts.py\<close>: the octets of a torrent kept beside the permit that
  admitted them.  The table exists once a store has been opened (\<open>open_artifact_store\<close>).
  \<open>inspect_torrent\<close> may also raise the \<open>ValueError\<close> of an integer with too many digits,
  which \<open>valid_artifact\<close> does not catch.
\<close>

section \<open>Operations\<close>

definition open_artifact_store :: "db \<Rightarrow> db" where
  "open_artifact_store d =
     (case torrent_artifacts d of None \<Rightarrow> d\<lparr>torrent_artifacts := Some []\<rparr> | Some _ \<Rightarrow> d)"

definition artifact_table :: "db \<Rightarrow> artifact_row list" where
  "artifact_table d = (case torrent_artifacts d of None \<Rightarrow> [] | Some rows \<Rightarrow> rows)"

definition admits_torrent :: "permit \<Rightarrow> inspected_torrent \<Rightarrow> bool" where
  "admits_torrent p i =
     (torrent_infohash i = pm_infohash p \<and>
      Some (torrent_sha256 i) = pm_metadata_sha256 p \<and>
      (case pm_budget_bytes p of None \<Rightarrow> False | Some b \<Rightarrow> total_bytes (torrent_files i) \<le> b) \<and>
      pm_selected_files p \<noteq> [] \<and>
      list_all (\<lambda>f. f \<in> set (map file_path (torrent_files i))) (pm_selected_files p))"

definition valid_artifact ::
    "(string \<Rightarrow> string) \<Rightarrow> (string \<Rightarrow> string) \<Rightarrow> permit \<Rightarrow> string \<Rightarrow> err + bool" where
  "valid_artifact sha1 sha256 p content =
     (if \<not> (0 < length content \<and> length content \<le> max_torrent) then Inr False
      else (case inspect_torrent sha1 sha256 content of
          Inr i \<Rightarrow> Inr (admits_torrent p i)
        | Inl TooManyDigits \<Rightarrow> Inl (ValueError ''Exceeds the limit (4300 digits) for integer string conversion'')
        | Inl _ \<Rightarrow> Inr False))"

definition artifact_matches :: "permit \<Rightarrow> artifact_row \<Rightarrow> bool" where
  "artifact_matches p a = (ta_infohash a = pm_infohash p \<and> Some (ta_metadata_sha256 a) = pm_metadata_sha256 p)"

text \<open>
  A permit without metadata digest never gets here (\<open>admits_torrent\<close> needs one), so the
  \<open>NOT NULL\<close> column is filled.
\<close>

definition put_artifact ::
    "(string \<Rightarrow> string) \<Rightarrow> (string \<Rightarrow> string) \<Rightarrow> permit \<Rightarrow> string \<Rightarrow> db \<Rightarrow> err + db" where
  "put_artifact sha1 sha256 p content d =
     ebind (valid_artifact sha1 sha256 p content) (\<lambda>ok.
     if \<not> ok then Inl (ValueError ''torrent metadata does not match admitted permit'')
     else
       let row = \<lparr>ta_permit_id = pm_id p, ta_infohash = pm_infohash p,
                  ta_metadata_sha256 = the (pm_metadata_sha256 p), ta_content = content\<rparr>;
           rows = artifact_table d
       in
       (case find_row (\<lambda>a. ta_permit_id a = pm_id p) rows of
          None \<Rightarrow> Inr (d\<lparr>torrent_artifacts := Some (rows @ [row])\<rparr>)
        | Some a \<Rightarrow>
            if a = row then Inr d
            else Inl (ValueError ''torrent metadata conflicts with an existing permit'')))"

definition get_artifact ::
    "(string \<Rightarrow> string) \<Rightarrow> (string \<Rightarrow> string) \<Rightarrow> permit \<Rightarrow> db \<Rightarrow> err + string option" where
  "get_artifact sha1 sha256 p d =
     (case find_row (\<lambda>a. ta_permit_id a = pm_id p) (artifact_table d) of
        None \<Rightarrow> Inr None
      | Some a \<Rightarrow>
          if \<not> artifact_matches p a then Inr None
          else ebind (valid_artifact sha1 sha256 p (ta_content a)) (\<lambda>ok.
                 Inr (if ok then Some (ta_content a) else None)))"

section \<open>Facts\<close>

lemma valid_artifact_iff:
  "valid_artifact sha1 sha256 p content = Inr True \<longleftrightarrow>
   (\<exists>i. inspect_torrent sha1 sha256 content = Inr i \<and> admits_torrent p i)"
  by (auto simp: valid_artifact_def inspect_torrent_def split: sum.splits torrent_error.splits)

lemma put_artifact_valid:
  "put_artifact sha1 sha256 p content d = Inr d' \<Longrightarrow> valid_artifact sha1 sha256 p content = Inr True"
  by (auto simp: put_artifact_def err_simps split: if_splits)

lemma put_artifact_row:
  assumes "put_artifact sha1 sha256 p content d = Inr d'"
  shows "\<exists>a. find_row (\<lambda>a. ta_permit_id a = pm_id p) (artifact_table d') = Some a \<and>
             ta_content a = content \<and> artifact_matches p a"
proof -
  from put_artifact_valid [OF assms] have "pm_metadata_sha256 p \<noteq> None"
    by (metis admits_torrent_def option.distinct(1) valid_artifact_iff)
  moreover note f = find_row_append [of "\<lambda>a. ta_permit_id a = pm_id p" "artifact_table d"]
  ultimately show ?thesis using assms
    by (cases "find_row (\<lambda>a. ta_permit_id a = pm_id p) (artifact_table d)")
      (auto simp: put_artifact_def err_simps Let_def artifact_matches_def f artifact_table_def
        split: if_split_asm)
qed

text \<open>What is stored for other permits stays, and a second permit row is never overwritten.\<close>

lemma put_artifact_keeps:
  assumes "put_artifact sha1 sha256 p content d = Inr d'"
    and "find_row (\<lambda>a. ta_permit_id a = k) (artifact_table d) = Some a"
  shows "find_row (\<lambda>a. ta_permit_id a = k) (artifact_table d') = Some a"
  using assms by (auto simp: put_artifact_def err_simps Let_def artifact_table_def table_simps
      split: if_split_asm option.splits)

end
