(* ===== verification/Selection.thy ===== *)
theory Selection
  imports Prelude "HOL-Library.Product_Lexorder"
begin

text \<open>
  \<open>domain/selection.py\<close>: the choice of one file per pending episode of a season.  A Python
  set of keys is given as a list; repetitions are dropped where the code iterates over it.
\<close>

section \<open>The selection\<close>

record episode_file =
  episode_of :: string
  episode_path :: string
  size_bytes :: int

record release_ref =
  release_id :: string
  release_resolution :: int
  release_language :: string
  release_files :: "episode_file list"

record selection_plan =
  plan_files :: "episode_file list"
  plan_bytes :: int
  plan_reason :: string

definition episode_options :: "release_ref list \<Rightarrow> string \<Rightarrow> episode_file list" where
  "episode_options releases k =
     filter (\<lambda>f. episode_of f = k \<and> 0 < size_bytes f) (concat (map release_files releases))"

text \<open>\<open>itertools.product\<close>: the last factor varies fastest.\<close>

fun product :: "'a list list \<Rightarrow> 'a list list" where
  "product [] = [[]]"
| "product (xs # xss) = concat (map (\<lambda>x. map ((#) x) (product xss)) xs)"

definition files_bytes :: "episode_file list \<Rightarrow> int" where
  "files_bytes fs = sum_list (map size_bytes fs)"

text \<open>The comparison of the tuples \<open>(total, (-size, ...))\<close>.\<close>

definition score_less :: "episode_file list \<Rightarrow> episode_file list \<Rightarrow> bool" where
  "score_less a b =
     (files_bytes a < files_bytes b \<or>
      files_bytes a = files_bytes b \<and>
      map (\<lambda>f. - size_bytes f) a < map (\<lambda>f. - size_bytes f) b)"

fun best_of :: "episode_file list option \<Rightarrow> episode_file list list \<Rightarrow> episode_file list option" where
  "best_of best [] = best"
| "best_of best (c # cs) =
     (if \<not> distinct (map episode_of c) then best_of best cs
      else (case best of
          None \<Rightarrow> best_of (Some c) cs
        | Some b \<Rightarrow> best_of (Some (if score_less c b then c else b)) cs))"

definition no_plan :: "int \<Rightarrow> string \<Rightarrow> selection_plan" where
  "no_plan n reason = \<lparr>plan_files = [], plan_bytes = n, plan_reason = reason\<rparr>"

definition pending_keys :: "string list \<Rightarrow> string list \<Rightarrow> string list" where
  "pending_keys episode_keys existing = sort (remdups (filter (\<lambda>k. k \<notin> set existing) episode_keys))"

definition select_season ::
    "release_ref list \<Rightarrow> string list \<Rightarrow> int option \<Rightarrow> string list \<Rightarrow> (string \<times> int) list \<Rightarrow> selection_plan"
  where
  "select_season releases episode_keys max_work existing existing_sizes =
     (let pending = pending_keys episode_keys existing in
      if pending = [] then no_plan 0 ''already_available''
      else
        (case List.find (\<lambda>k. episode_options releases k = []) pending of
           Some k \<Rightarrow> no_plan 0 (''waiting_source:'' @ k)
         | None \<Rightarrow>
             (case best_of None (product (map (episode_options releases) pending)) of
                None \<Rightarrow> no_plan 0 ''ambiguous_mapping''
              | Some best \<Rightarrow>
                  let whole = files_bytes best +
                        sum_list (map (\<lambda>k. get_or existing_sizes k 0) (remdups existing))
                  in
                  if (case max_work of None \<Rightarrow> False | Some m \<Rightarrow> m < whole)
                  then no_plan whole ''over_budget''
                  else \<lparr>plan_files = best, plan_bytes = files_bytes best, plan_reason = ''selected''\<rparr>)))"

section \<open>The best combination\<close>

lemma product_iff: "c \<in> set (product xss) \<longleftrightarrow> list_all2 (\<lambda>x xs. x \<in> set xs) c xss"
  by (induction xss arbitrary: c) (auto simp: list_all2_Cons2 image_iff)

lemma score_less_iff:
  "score_less a b \<longleftrightarrow>
   (files_bytes a, map (\<lambda>f. - size_bytes f) a) < (files_bytes b, map (\<lambda>f. - size_bytes f) b)"
  by (auto simp: score_less_def less_prod_def)

lemma best_of_better:
  "best_of best cs = Some b \<Longrightarrow>
   (best = Some b \<or> b \<in> set cs) \<and>
   (\<forall>a. best = Some a \<longrightarrow> \<not> score_less a b) \<and>
   (\<forall>c\<in>set cs. distinct (map episode_of c) \<longrightarrow> \<not> score_less c b)"
proof (induction cs arbitrary: best)
  case Nil
  then show ?case by (simp add: score_less_iff)
next
  case (Cons c cs)
  show ?case
  proof (cases "distinct (map episode_of c)")
    case False
    with Cons show ?thesis by auto
  next
    case True
    define kept where "kept = (case best of None \<Rightarrow> c | Some a \<Rightarrow> if score_less c a then c else a)"
    from True Cons.prems have "best_of (Some kept) cs = Some b"
      by (auto simp: kept_def split: option.splits)
    from Cons.IH [OF this] have b: "kept = b \<or> b \<in> set cs" "\<not> score_less kept b"
      "\<forall>c\<in>set cs. distinct (map episode_of c) \<longrightarrow> \<not> score_less c b" by auto
    have "\<not> score_less c b" and "\<forall>a. best = Some a \<longrightarrow> \<not> score_less a b"
      using b(2) by (auto simp: kept_def score_less_iff split: option.splits if_splits)
    with b show ?thesis by (auto simp: kept_def split: option.splits if_splits)
  qed
qed

lemma best_of_Some: "\<exists>b. best_of (Some a) cs = Some b"
  by (induction cs arbitrary: a) auto

lemma best_of_found: "c \<in> set cs \<Longrightarrow> distinct (map episode_of c) \<Longrightarrow> \<exists>b. best_of best cs = Some b"
proof (induction cs arbitrary: best)
  case (Cons a cs)
  then show ?case by (cases best) (auto simp: best_of_Some)
qed simp

section \<open>Choices for the pending episodes\<close>

text \<open>A choice takes, for each key in order, a file the releases offer for it.\<close>

definition choice_of :: "release_ref list \<Rightarrow> string list \<Rightarrow> episode_file list \<Rightarrow> bool" where
  "choice_of releases keys c =
     (map episode_of c = keys \<and>
      (\<forall>f\<in>set c. 0 < size_bytes f \<and> (\<exists>r\<in>set releases. f \<in> set (release_files r))))"

lemma choice_product:
  "c \<in> set (product (map (episode_options releases) keys)) \<longleftrightarrow> choice_of releases keys c"
  unfolding product_iff choice_of_def
  by (induction keys arbitrary: c) (auto simp: list_all2_Cons2 episode_options_def)

lemma product_nonempty: "\<forall>k\<in>set keys. f k \<noteq> [] \<Longrightarrow> product (map f keys) \<noteq> []"
proof (induction keys)
  case (Cons k keys)
  then obtain x xs where "f k = x # xs" by (cases "f k") auto
  with Cons show ?case by auto
qed simp

lemma pending_distinct: "distinct (pending_keys ks existing)"
  by (simp add: pending_keys_def)

end
