(* ===== verification/TorrentProperties.thy ===== *)
theory TorrentProperties
  imports TorrentManifest TorrentArtifacts Selection
begin

text \<open>
  The properties of the torrent metadata components, each with its witness: the decoder is
  exact, inspected files are safe to join to a directory, a merge of trackers keeps the
  torrent, stored metadata come back, and the selection of a season is minimal.
\<close>

section \<open>The decoder\<close>

text \<open>
  C27 (decoder_exact): the decoder of torrent metadata accepts exactly the canonical
  encodings within its limits on nesting, entries and digits, returns the encoded value and
  leaves what follows it unread; it always finishes.
\<close>

theorem decoder_exact:
  "(parse k s = Inr (v, r) \<longleftrightarrow> fits k v \<and> s = bencode v @ r) \<and> parse k s \<noteq> Inl OutOfFuel"
  by (simp add: parse_iff parse_fuel)

section \<open>Inspected files\<close>

lemma inspected_clean:
  assumes "inspect_torrent sha1 sha256 data = Inr i"
  shows "\<forall>f\<in>set (torrent_files i). clean_file f" and "distinct (map file_path (torrent_files i))"
    and "\<exists>name. \<forall>f\<in>set (torrent_files i). hd (split_on CHR ''/'' (file_path f)) = name"
    and "torrent_files i \<noteq> []"
  using assms inspect_info_clean inspect_info_some by (auto simp: inspect_torrent_iff)

text \<open>
  C28 (inspected_files_safe): every file an inspection reports has a positive length and a
  path of clean components (UTF-8, not empty, no dot name, no separator, no control
  character) below one common first component, and no path occurs twice.
\<close>

theorem inspected_files_safe:
  assumes "inspect_torrent sha1 sha256 data = Inr i"
  shows "torrent_files i \<noteq> [] \<and> (\<forall>f\<in>set (torrent_files i). clean_file f) \<and>
         distinct (map file_path (torrent_files i)) \<and>
         (\<exists>name. \<forall>f\<in>set (torrent_files i). hd (split_on CHR ''/'' (file_path f)) = name)"
  using inspected_clean [OF assms] by blast

text \<open>A one-file torrent of seven octets, and its digests by a toy digest.\<close>

definition sample_info :: bval where
  "sample_info =
     BDict [(''length'', BInt 7), (''name'', BStr ''a.mkv''), (''piece length'', BInt 9),
            (''pieces'', BStr ''aaaaaaaaaaaaaaaaaaaa'')]"

definition sample_root :: "(string \<times> bval \<times> string) list" where
  "sample_root =
     [(''announce'', BStr ''u:1'', ''3:u:1''), (''info'', sample_info, bencode sample_info)]"

definition sample_torrent :: string where
  "sample_torrent =
     ''d8:announce3:u:14:infod6:lengthi7e4:name5:a.mkv12:piece lengthi9e6:pieces20:aaaaaaaaaaaaaaaaaaaaee''"

definition short_digest :: "string \<Rightarrow> string" where
  "short_digest s = take 8 s"

definition sample_inspected :: inspected_torrent where
  "sample_inspected =
     \<lparr>torrent_infohash = ''d6:lengt'', torrent_sha256 = ''d8:annou'',
      torrent_files = [\<lparr>file_path = ''a.mkv'', file_length = 7\<rparr>]\<rparr>"

lemma sample_torrent_root: "sample_torrent = root_octets sample_root"
  by code_simp

lemma sample_root_ok: "root_ok sample_root"
proof -
  have "sorted_wrt (<) (map fst sample_root)" by code_simp
  moreover have "root_entry f" if "f \<in> set sample_root" for f
  proof -
    have "fits 16 (BStr ''announce'')" "fits 16 (BStr ''info'')" "fits 16 (BStr ''u:1'')"
      by (simp_all add: fits_str short_str_fits)
    moreover have "bencode (BStr ''u:1'') = ''3:u:1''" by code_simp
    moreover have "fits 16 sample_info"
    proof -
      have "sorted_wrt (<) (map fst [(''length'', BInt 7), (''name'', BStr ''a.mkv''),
          (''piece length'', BInt 9), (''pieces'', BStr ''aaaaaaaaaaaaaaaaaaaa'')])" by code_simp
      moreover have"show_nat 7 = ''7''" "show_nat 9 = ''9''" by code_simp+
      ultimately show ?thesis by (simp add: sample_info_def numeral_eq_Suc short_str_fits)
    qed
    ultimately show ?thesis using that by (auto simp: sample_root_def root_entry_def)
  qed
  ultimately show ?thesis by (simp add: root_ok_def)
qed

lemma sample_inspect: "inspect_torrent short_digest short_digest sample_torrent = Inr sample_inspected"
proof -
  have i: "inspect_info sample_info = Inr [\<lparr>file_path = ''a.mkv'', file_length = 7\<rparr>]" by code_simp
  have d: "short_digest (bencode sample_info) = ''d6:lengt''" "short_digest sample_torrent = ''d8:annou''"
    by code_simp+
  have l: "length sample_torrent \<le> max_torrent" by (simp add: sample_torrent_def max_torrent_def)
  have m: "map_of sample_root ''info'' = Some (sample_info, bencode sample_info)"
    by (simp add: sample_root_def)
  show ?thesis unfolding inspect_torrent_iff sample_inspected_def
    using sample_root_ok sample_torrent_root l m i d by metis
qed

theorem inspected_files_safe_witness:
  "clean_file \<lparr>file_path = ''a.mkv'', file_length = 7\<rparr>"
  using inspected_files_safe [OF sample_inspect] by (simp add: sample_inspected_def)

text \<open>
  C30 (inspected_manifest_accepted): the two admissions agree on safe files: what an
  inspection reports, given as JSON metadata with a hex infohash, is a manifest the JSON
  admission accepts, with the same files and the infohash in lower case.
\<close>

theorem inspected_manifest_accepted:
  assumes "inspect_torrent sha1 sha256 data = Inr i" and "hex_digest h"
  shows "parse_torrent_metadata (metadata_json h (torrent_files i)) =
         Inr \<lparr>manifest_infohash = lower h, manifest_files = torrent_files i\<rparr>"
proof -
  note clean = inspected_clean [OF assms(1)]
  then have "manifest_entries (map file_json (torrent_files i)) [] = Inr (torrent_files i)"
    using clean_relative by (intro manifest_entries_files) (auto simp: clean_file_def)
  with clean(4) assms(2) show ?thesis
    by (simp add: parse_torrent_metadata_def metadata_json_def jget_def get_or_def)
qed

theorem inspected_manifest_accepted_witness:
  "parse_torrent_metadata
     (metadata_json ''AAAAAAAAAAAAAAAAAAAAAAAAAAAAAAAAAAAAAAAA'' [\<lparr>file_path = ''a.mkv'', file_length = 7\<rparr>]) =
   Inr \<lparr>manifest_infohash = ''aaaaaaaaaaaaaaaaaaaaaaaaaaaaaaaaaaaaaaaa'',
        manifest_files = [\<lparr>file_path = ''a.mkv'', file_length = 7\<rparr>]\<rparr>"
proof -
  have h: "hex_digest ''AAAAAAAAAAAAAAAAAAAAAAAAAAAAAAAAAAAAAAAA''" by code_simp
  have l: "lower ''AAAAAAAAAAAAAAAAAAAAAAAAAAAAAAAAAAAAAAAA'' = ''aaaaaaaaaaaaaaaaaaaaaaaaaaaaaaaaaaaaaaaa''"
    by code_simp
  from inspected_manifest_accepted [OF sample_inspect h] show ?thesis
    unfolding l by (simp add: sample_inspected_def)
qed

section \<open>Merged trackers\<close>

text \<open>
  When the trackers of a magnet are merged into inspected metadata
  whose own tier list leaves room for them, the result is again accepted by the inspection,
  with the same infohash and the same files: only its digest is new.
\<close>

theorem merge_keeps_torrent:
  assumes "inspect_torrent sha1 sha256 torrent = Inr i"
    and "merge_magnet_trackers sha1 sha256 torrent h trackers = Inr m"
    and "\<forall>t\<in>set trackers. length t \<le> 2048" and "announce_tiers torrent + 65 \<le> 8192"
  shows "inspect_torrent sha1 sha256 m = Inr (i\<lparr>torrent_sha256 := sha256 m\<rparr>)"
proof (cases "m = torrent")
  case True
  with assms(1) show ?thesis by (auto simp: inspect_torrent_iff)
next
  case False
  from merged_root [OF assms(1,2) False assms(3)] obtain fs fs' where
    fs: "root_ok fs" "torrent = root_octets fs" "m = root_octets (sort_key fst fs')"
      "length m \<le> max_torrent" "map_of fs' ''info'' = map_of fs ''info''"
    and ok: "tier_count fs + 65 \<le> 8192 \<longrightarrow> entries_ok fs'"
    by blast
  have "entries_ok fs'" using ok assms(4) fs(1,2) announce_tiers_root by simp
  from info_after_merge [OF fs(1) assms(1) [unfolded fs(2)] this fs(5,3,4)] show ?thesis .
qed

definition sample_merged :: string where
  "sample_merged =
     ''d8:announce3:u:113:announce-listll3:u:1el3:u:2ee4:infod6:lengthi7e4:name5:a.mkv12:piece lengthi9e6:pieces20:aaaaaaaaaaaaaaaaaaaaee''"

lemma sample_scan:
  "scan_fields (length sample_torrent) (drop 1 sample_torrent) =
   Inr (map (\<lambda>(q, v, raw). (BStr q, v, raw)) sample_root)"
proof -
  have "root_fields (length (root_octets sample_root)) None (drop 1 (root_octets sample_root)) = Inr (sample_root, [])"
    using sample_root_ok by (subst root_fields_iff) (simp_all add: root_octets_def after_key_def)
  then show ?thesis unfolding sample_torrent_root by (rule scan_root)
qed

definition sample_fields :: "(bval \<times> bval) list" where
  "sample_fields = map (\<lambda>(k, v, raw). (k, v)) (map (\<lambda>(q, v, raw). (BStr q, v, raw)) sample_root)"

definition sample_encoded :: "(string \<times> string) list" where
  "sample_encoded =
     map (\<lambda>(k, v, raw). (the (bytes_of (Some k)), raw)) (map (\<lambda>(q, v, raw). (BStr q, v, raw)) sample_root)"

lemma sample_merge:
  "merge_magnet_trackers short_digest short_digest sample_torrent (Some ''d6:lengt'') [''u:1'', ''u:2''] =
   Inr sample_merged"
proof -
  have parts: "map_of sample_fields (BStr ''announce'') = Some (BStr ''u:1'')"
    "tracker_tiers (map_of sample_fields (BStr ''announce-list'')) = Some []"
    "bytes_of (Some (BStr ''u:1'')) = Some ''u:1''" "present_announce (Some (BStr ''u:1'')) = [''u:1'']"
    "new_trackers 64 (concat [[''u:1'']] @ [''u:1'']) [''u:1'', ''u:2''] = [''u:2'']"
    "encode_root (AList.update ''announce-list'' (encode_tiers ([[''u:1'']] @ map (\<lambda>t. [t]) [''u:2'']))
       sample_encoded) = sample_merged"
    by code_simp+
  have "\<not> max_torrent < length sample_merged" by (simp add: sample_merged_def max_torrent_def)
  with parts have "merge_fields sample_torrent [''u:1'', ''u:2''] sample_fields sample_encoded = Inr sample_merged"
    by (simp add: merge_fields_def Let_def)
  then show ?thesis
    unfolding merge_magnet_trackers_def sample_inspect ebind.simps sample_scan sample_fields_def sample_encoded_def
    by (simp add: sample_inspected_def)
qed

theorem merge_keeps_torrent_witness:
  "inspect_torrent short_digest short_digest sample_merged =
   Inr (sample_inspected\<lparr>torrent_sha256 := ''d8:annou''\<rparr>)"
proof -
  have "announce_tiers sample_torrent + 65 \<le> 8192"
    unfolding sample_torrent_root announce_tiers_root [OF sample_root_ok]
    by (simp add: tier_count_def sample_root_def)
  moreover have "\<forall>t\<in>set [''u:1'', ''u:2'']. length t \<le> 2048" by simp
  moreover have "short_digest sample_merged = ''d8:annou''" by code_simp
  ultimately show ?thesis using merge_keeps_torrent [OF sample_inspect sample_merge] by metis
qed

section \<open>Stored metadata\<close>

text \<open>
  C29 (artifact_round_trip): metadata stored for a permit were admitted by it (infohash,
  digest, budget and selected files agree with the inspection), they come back unchanged
  when the permit is dispatched, and storing them changes nothing stored before.
\<close>

theorem artifact_round_trip:
  assumes "put_artifact sha1 sha256 p content d = Inr d'"
  shows "get_artifact sha1 sha256 p d' = Inr (Some content) \<and>
         (\<exists>i. inspect_torrent sha1 sha256 content = Inr i \<and> admits_torrent p i) \<and>
         (\<forall>k a. find_row (\<lambda>a. ta_permit_id a = k) (artifact_table d) = Some a \<longrightarrow>
                find_row (\<lambda>a. ta_permit_id a = k) (artifact_table d') = Some a)"
proof -
  note valid = put_artifact_valid [OF assms]
  from put_artifact_row [OF assms] obtain a where
    a: "find_row (\<lambda>a. ta_permit_id a = pm_id p) (artifact_table d') = Some a"
      "ta_content a = content" "artifact_matches p a" by blast
  then have "get_artifact sha1 sha256 p d' = Inr (Some content)"
    by (simp add: get_artifact_def valid)
  with valid put_artifact_keeps [OF assms] show ?thesis by (auto simp: valid_artifact_iff)
qed

text \<open>A permit for the sample torrent.\<close>

definition sample_torrent_permit :: permit where
  "sample_torrent_permit =
     \<lparr>pm_id = ''p'', pm_token = ''t'', pm_infohash = ''d6:lengt'', pm_destination = ''/data'',
      pm_expires_at = 0, pm_category = ''c'', pm_result = None, pm_operation_id = ''o'',
      pm_reservation_id = None, pm_scope_key = None, pm_metadata_sha256 = Some ''d8:annou'',
      pm_selected_files = [''a.mkv''], pm_budget_bytes = Some 7, pm_state = Authorized,
      pm_reported_seeders = None, pm_probe_parent_id = None, pm_quality_rank = None,
      pm_season_pack_parent_id = None, pm_pool_id = ''pool'', pm_filesystem_id = None\<rparr>"

lemma sample_put:
  "\<exists>d'. put_artifact short_digest short_digest sample_torrent_permit sample_torrent empty_db = Inr d'"
proof -
  have "admits_torrent sample_torrent_permit sample_inspected" by code_simp
  with sample_inspect have "valid_artifact short_digest short_digest sample_torrent_permit sample_torrent = Inr True"
    unfolding valid_artifact_iff by blast
  then show ?thesis by (simp add: put_artifact_def artifact_table_def empty_db_def)
qed

theorem artifact_round_trip_witness:
  "\<exists>d'. put_artifact short_digest short_digest sample_torrent_permit sample_torrent empty_db = Inr d' \<and>
        get_artifact short_digest short_digest sample_torrent_permit d' = Inr (Some sample_torrent)"
  using sample_put artifact_round_trip by blast

section \<open>Season selection\<close>

text \<open>
  C31 (season_choice_minimal): a selected season has exactly one offered file of positive
  size for each pending episode, in order, and no other such choice is smaller; with what
  the existing episodes occupy it stays within the work limit.  A choice is found whenever
  every pending episode has a candidate.
\<close>

theorem season_choice_minimal:
  assumes "select_season releases keys max_work existing sizes = p"
    and "pending_keys keys existing \<noteq> []"
    and "\<forall>k\<in>set (pending_keys keys existing). episode_options releases k \<noteq> []"
  shows "\<exists>best. choice_of releases (pending_keys keys existing) best \<and>
           (\<forall>c. choice_of releases (pending_keys keys existing) c \<longrightarrow> files_bytes best \<le> files_bytes c) \<and>
           (let whole = files_bytes best + sum_list (map (\<lambda>k. get_or sizes k 0) (remdups existing)) in
            p = (if (\<exists>m. max_work = Some m \<and> m < whole) then no_plan whole ''over_budget''
                 else \<lparr>plan_files = best, plan_bytes = files_bytes best, plan_reason = ''selected''\<rparr>))"
proof -
  let ?keys = "pending_keys keys existing"
  let ?combos = "product (map (episode_options releases) ?keys)"
  have none: "List.find (\<lambda>k. episode_options releases k = []) ?keys = None"
    using assms(3) by (simp add: find_None_iff)
  have dist: "distinct (map episode_of c)" if "c \<in> set ?combos" for c
    using that pending_distinct by (simp add: choice_product choice_of_def)
  have "?combos \<noteq> []" using assms(3) by (rule product_nonempty)
  then obtain c where c: "c \<in> set ?combos" by (meson list.set_sel(1))
  from best_of_found [OF c dist [OF c]] obtain best where best: "best_of None ?combos = Some best" by blast
  from best_of_better [OF best] have mem: "best \<in> set ?combos"
    and low: "\<forall>c\<in>set ?combos. distinct (map episode_of c) \<longrightarrow> \<not> score_less c best" by auto
  have "files_bytes best \<le> files_bytes c" if "choice_of releases ?keys c" for c
    using that low dist by (auto simp: choice_product [symmetric] score_less_def)
  moreover have "choice_of releases ?keys best" using mem by (simp add: choice_product)
  moreover have "p = (let whole = files_bytes best + sum_list (map (\<lambda>k. get_or sizes k 0) (remdups existing)) in
      if (\<exists>m. max_work = Some m \<and> m < whole) then no_plan whole ''over_budget''
      else \<lparr>plan_files = best, plan_bytes = files_bytes best, plan_reason = ''selected''\<rparr>)"
    using assms(1,2) by (auto simp: select_season_def none best Let_def split: option.splits)
  ultimately show ?thesis unfolding Let_def by blast
qed

definition sample_releases :: "release_ref list" where
  "sample_releases =
     [\<lparr>release_id = ''a'', release_resolution = 1080, release_language = ''en'',
       release_files = [\<lparr>episode_of = ''S01E01'', episode_path = ''a1'', size_bytes = 9\<rparr>,
                        \<lparr>episode_of = ''S01E02'', episode_path = ''a2'', size_bytes = 4\<rparr>]\<rparr>,
      \<lparr>release_id = ''b'', release_resolution = 1080, release_language = ''en'',
       release_files = [\<lparr>episode_of = ''S01E01'', episode_path = ''b1'', size_bytes = 6\<rparr>]\<rparr>]"

theorem season_choice_minimal_witness:
  "\<exists>best. choice_of sample_releases [''S01E01'', ''S01E02''] best \<and> files_bytes best \<le> 13 \<and>
      select_season sample_releases [''S01E02'', ''S01E01''] (Some 12) [] [] =
      \<lparr>plan_files = best, plan_bytes = files_bytes best, plan_reason = ''selected''\<rparr>"
proof -
  have k: "pending_keys [''S01E02'', ''S01E01''] [] = [''S01E01'', ''S01E02'']" by code_simp
  have o1: "\<forall>k\<in>set [''S01E01'', ''S01E02'']. episode_options sample_releases k \<noteq> []" by code_simp
  have s: "select_season sample_releases [''S01E02'', ''S01E01''] (Some 12) [] [] =
     \<lparr>plan_files = [\<lparr>episode_of = ''S01E01'', episode_path = ''b1'', size_bytes = 6\<rparr>,
                    \<lparr>episode_of = ''S01E02'', episode_path = ''a2'', size_bytes = 4\<rparr>],
      plan_bytes = 10, plan_reason = ''selected''\<rparr>" by code_simp
  have c: "choice_of sample_releases [''S01E01'', ''S01E02'']
     [\<lparr>episode_of = ''S01E01'', episode_path = ''a1'', size_bytes = 9\<rparr>,
      \<lparr>episode_of = ''S01E02'', episode_path = ''a2'', size_bytes = 4\<rparr>]" by code_simp
  from season_choice_minimal [where releases = sample_releases and keys = "[''S01E02'', ''S01E01'']"
      and max_work = "Some 12" and existing = "[]" and sizes = "[]", OF refl] k o1 c
  show ?thesis unfolding k s by (fastforce simp: files_bytes_def no_plan_def Let_def split: if_splits)
qed

end
