(* ===== verification/SourceHealth.thy ===== *)
theory SourceHealth
  imports Database
begin

text \<open>
  \<open>worker/source_health.py\<close>: progress observations of confirmed torrents, and the measured
  race between a source and its probe.  The table \<open>source_health\<close> is a list of rows of its
  own; \<open>source_probes\<close> and \<open>protected_sources\<close> are shared with the permit registry and live
  in \<^typ>\<open>db\<close>.  Times, rates and policy values are exact rationals where the code has floats;
  \<open>math.isfinite\<close> is a case of \<^typ>\<open>pyfloat\<close>.
\<close>

section \<open>Torrent progress\<close>

record torrent_health =
  th_infohash :: string
  th_downloaded :: int
  th_amount_left :: int
  th_num_seeds :: int
  th_dlspeed :: int
  th_state :: string
  th_progress :: rat

definition counter :: "json \<Rightarrow> int option" where
  "counter j = (case as_int j of Some n \<Rightarrow> if n < 0 then None else Some n | None \<Rightarrow> None)"

definition progress_value :: "json \<Rightarrow> rat option" where
  "progress_value j =
     (case as_number j of Some (Fin x) \<Rightarrow> if 0 \<le> x \<and> x \<le> 1 then Some x else None | _ \<Rightarrow> None)"

definition health_from_mapping :: "(string \<times> json) list \<Rightarrow> err + torrent_health" where
  "health_from_mapping payload =
     (case (as_str (jget payload ''hash''), map (\<lambda>k. counter (jget payload k))
              [''downloaded'', ''amount_left'', ''num_seeds'', ''dlspeed''],
            progress_value (jget payload ''progress''), as_str (jget payload ''state'')) of
        (Some h, [Some downloaded, Some left, Some seeds, Some speed], Some progress, Some (c # cs)) \<Rightarrow>
          if hex40 h
          then Inr \<lparr>th_infohash = lower h, th_downloaded = downloaded, th_amount_left = left,
                    th_num_seeds = seeds, th_dlspeed = speed, th_state = c # cs, th_progress = progress\<rparr>
          else Inl (ValueError ''invalid torrent health evidence'')
      | _ \<Rightarrow> Inl (ValueError ''invalid torrent health evidence''))"

definition active_download :: "string \<Rightarrow> bool" where
  "active_download s = (s \<in> {''downloading'', ''stalledDL'', ''forcedDL''})"

definition stopped_download :: "string \<Rightarrow> bool" where
  "stopped_download s = (s \<in> {''stoppedDL'', ''stoppedUP'', ''pausedDL'', ''pausedUP''})"

section \<open>Policy\<close>

record health_policy =
  hp_slow_seconds :: rat
  hp_slow_rate :: rat
  hp_stalled_seconds :: rat
  hp_probe_seconds :: rat
  hp_min_eta_gain :: rat
  hp_slow_replacement :: bool

definition make_policy ::
    "pyfloat \<Rightarrow> pyfloat \<Rightarrow> pyfloat \<Rightarrow> pyfloat \<Rightarrow> pyfloat \<Rightarrow> bool \<Rightarrow> err + health_policy" where
  "make_policy slow_seconds slow_rate stalled_seconds probe_seconds min_eta_gain enabled =
     (case (slow_seconds, slow_rate, stalled_seconds, probe_seconds, min_eta_gain) of
        (Fin s, Fin r, Fin st, Fin p, Fin g) \<Rightarrow>
          if s \<le> 0 \<or> st \<le> 0 \<or> p \<le> 0 \<or> r < 0 \<or> \<not> (0 \<le> g \<and> g < 1)
          then Inl (ValueError ''invalid source health policy'')
          else Inr \<lparr>hp_slow_seconds = s, hp_slow_rate = r, hp_stalled_seconds = st,
                    hp_probe_seconds = p, hp_min_eta_gain = g, hp_slow_replacement = enabled\<rparr>
      | _ \<Rightarrow> Inl (ValueError ''invalid source health policy''))"

definition policy_ok :: "health_policy \<Rightarrow> bool" where
  "policy_ok pol =
     (0 < hp_slow_seconds pol \<and> 0 \<le> hp_slow_rate pol \<and> 0 < hp_stalled_seconds pol \<and>
      0 < hp_probe_seconds pol \<and> 0 \<le> hp_min_eta_gain pol \<and> hp_min_eta_gain pol < 1)"

lemma make_policy_ok: "make_policy s r st p g e = Inr pol \<Longrightarrow> policy_ok pol"
  by (auto simp: make_policy_def policy_ok_def split: pyfloat.splits if_splits)

section \<open>Observing a source\<close>

record health_row =
  hr_permit_id :: string
  hr_infohash :: string
  hr_last_left :: int
  hr_last_progress_at :: rat
  hr_window_started_at :: rat
  hr_window_left :: int
  hr_replacing :: bool

datatype health_verdict = Replacing | Stalled | Slow

definition find_health :: "string \<Rightarrow> health_row list \<Rightarrow> health_row option" where
  "find_health pid rows = find_row (\<lambda>r. hr_permit_id r = pid) rows"

definition forget_health :: "string \<Rightarrow> health_row list \<Rightarrow> health_row list" where
  "forget_health pid rows = delete_rows (\<lambda>r. hr_permit_id r = pid) rows"

text \<open>\<open>INSERT ... ON CONFLICT(permit_id) DO UPDATE\<close>\<close>

definition upsert_health :: "health_row \<Rightarrow> health_row list \<Rightarrow> health_row list" where
  "upsert_health row rows =
     (case find_health (hr_permit_id row) rows of
        None \<Rightarrow> rows @ [row]
      | Some _ \<Rightarrow> update_rows (\<lambda>r. hr_permit_id r = hr_permit_id row) (\<lambda>_. row) rows)"

definition fresh_row :: "string \<Rightarrow> torrent_health \<Rightarrow> rat \<Rightarrow> health_row" where
  "fresh_row pid h now =
     \<lparr>hr_permit_id = pid, hr_infohash = th_infohash h, hr_last_left = th_amount_left h,
      hr_last_progress_at = now, hr_window_started_at = now, hr_window_left = th_amount_left h,
      hr_replacing = False\<rparr>"

definition restarts :: "torrent_health \<Rightarrow> rat \<Rightarrow> health_row option \<Rightarrow> bool" where
  "restarts h now row =
     (case row of
        None \<Rightarrow> True
      | Some r \<Rightarrow> hr_infohash r \<noteq> th_infohash h \<or> hr_last_left r < th_amount_left h \<or>
                  now < hr_window_started_at r)"

definition average_rate :: "health_row \<Rightarrow> torrent_health \<Rightarrow> rat \<Rightarrow> rat" where
  "average_rate r h now =
     (let elapsed = now - hr_window_started_at r in
      if 0 < elapsed then of_int (hr_window_left r - th_amount_left h) / elapsed else 0)"

definition is_slow :: "health_policy \<Rightarrow> health_row \<Rightarrow> torrent_health \<Rightarrow> rat \<Rightarrow> bool" where
  "is_slow pol r h now =
     (hp_slow_replacement pol \<and> hp_slow_seconds pol \<le> now - hr_window_started_at r \<and>
      average_rate r h now < hp_slow_rate pol)"

definition advanced_row :: "health_policy \<Rightarrow> health_row \<Rightarrow> torrent_health \<Rightarrow> rat \<Rightarrow> health_row" where
  "advanced_row pol r h now =
     (let fresh_window = hp_slow_seconds pol \<le> now - hr_window_started_at r \<and> \<not> is_slow pol r h now in
      r\<lparr>hr_last_left := th_amount_left h,
        hr_last_progress_at := (if th_amount_left h < hr_last_left r then now else hr_last_progress_at r),
        hr_window_started_at := (if fresh_window then now else hr_window_started_at r),
        hr_window_left := (if fresh_window then th_amount_left h else hr_window_left r),
        hr_replacing := False\<rparr>)"

definition observe ::
    "health_policy \<Rightarrow> string \<Rightarrow> torrent_health \<Rightarrow> pyfloat \<Rightarrow> health_row list \<Rightarrow>
     err + health_row list \<times> health_verdict option" where
  "observe pol pid h time rows =
     (case time of
        Fin now \<Rightarrow>
          if pid = [] \<or> now < 0 then Inl (ValueError ''invalid source observation'')
          else
            let row = find_health pid rows in
            if th_amount_left h = 0 \<or> 1 \<le> th_progress h then Inr (forget_health pid rows, None)
            else if (case row of None \<Rightarrow> False
                     | Some r \<Rightarrow> hr_replacing r \<and>
                         (stopped_download (th_state h) \<or> th_amount_left h = hr_last_left r))
              then Inr (rows, Some Replacing)
            else if \<not> active_download (th_state h) then Inr (forget_health pid rows, None)
            else if restarts h now row then Inr (upsert_health (fresh_row pid h now) rows, None)
            else
              let r = the row; r' = advanced_row pol r h now in
              Inr (update_rows (\<lambda>x. hr_permit_id x = pid) (\<lambda>_. r') rows,
                   if th_num_seeds h = 0 \<and> th_dlspeed h = 0 \<and>
                      hp_stalled_seconds pol \<le> now - hr_last_progress_at r'
                   then Some Stalled else if is_slow pol r h now then Some Slow else None)
      | _ \<Rightarrow> Inl (ValueError ''invalid source observation''))"

definition mark_replacing :: "string \<Rightarrow> health_row list \<Rightarrow> err + health_row list" where
  "mark_replacing pid rows =
     (if row_count (\<lambda>r. hr_permit_id r = pid) rows \<noteq> 1
      then Inl (ValueError ''source observation is unavailable'')
      else Inr (update_rows (\<lambda>r. hr_permit_id r = pid) (\<lambda>r. r\<lparr>hr_replacing := True\<rparr>) rows))"

definition clear_replacing :: "string \<Rightarrow> health_row list \<Rightarrow> health_row list" where
  "clear_replacing pid rows =
     update_rows (\<lambda>r. hr_permit_id r = pid) (\<lambda>r. r\<lparr>hr_replacing := False\<rparr>) rows"

section \<open>Racing a probe\<close>

text \<open>Opening the store creates its two shared tables.\<close>

definition open_health_store :: "db \<Rightarrow> db" where
  "open_health_store d =
     d\<lparr>protected_sources := Some (case protected_sources d of None \<Rightarrow> [] | Some rows \<Rightarrow> rows),
       source_probes := Some (case source_probes d of None \<Rightarrow> [] | Some rows \<Rightarrow> rows)\<rparr>"

definition protected_rows :: "db \<Rightarrow> (string \<times> string) list" where
  "protected_rows d = (case protected_sources d of None \<Rightarrow> [] | Some rows \<Rightarrow> rows)"

definition probe_rows :: "db \<Rightarrow> probe_row list" where
  "probe_rows d = (case source_probes d of None \<Rightarrow> [] | Some rows \<Rightarrow> rows)"

definition protect_source :: "string \<Rightarrow> string \<Rightarrow> db \<Rightarrow> err + db" where
  "protect_source infohash reason d =
     (if \<not> hex40 infohash then Inl (ValueError ''invalid protected source'')
      else if exists_row (\<lambda>r. fst r = lower infohash) (protected_rows d) then Inr d
      else Inr (d\<lparr>protected_sources := Some (protected_rows d @ [(lower infohash, reason)])\<rparr>))"

definition is_protected :: "string \<Rightarrow> db \<Rightarrow> bool" where
  "is_protected infohash d = exists_row (\<lambda>r. fst r = lower infohash) (protected_rows d)"

text \<open>Reasons to leave the original alone, tested before the table is read.\<close>

definition race_lost :: "health_policy \<Rightarrow> torrent_health \<Rightarrow> db \<Rightarrow> bool" where
  "race_lost pol old d =
     (th_amount_left old \<le> 0 \<or> 1 \<le> th_progress old \<or> is_protected (th_infohash old) d \<or>
      \<not> hp_slow_replacement pol \<and> (0 < th_num_seeds old \<or> 0 < th_dlspeed old) \<or>
      \<not> active_download (th_state old) \<or>
      hp_slow_rate pol \<le> of_int (th_dlspeed old) \<and> 0 < hp_slow_rate pol)"

definition fetching_metadata :: "torrent_health \<Rightarrow> bool" where
  "fetching_metadata new = (th_state new \<in> {''metaDL'', ''forcedMetaDL''})"

definition not_started :: "torrent_health \<Rightarrow> bool" where
  "not_started new =
     (fetching_metadata new \<or> 0 < th_amount_left new \<and> th_dlspeed new = 0 \<and> th_downloaded new = 0)"

definition find_probe :: "string \<Rightarrow> db \<Rightarrow> probe_row option" where
  "find_probe cid d = find_row (\<lambda>r. pb_candidate_id r = cid) (probe_rows d)"

definition set_probe :: "string \<Rightarrow> (probe_row \<Rightarrow> probe_row) \<Rightarrow> db \<Rightarrow> db" where
  "set_probe cid f d =
     d\<lparr>source_probes := Some (update_rows (\<lambda>r. pb_candidate_id r = cid) f (probe_rows d))\<rparr>"

definition forget_probe :: "string \<Rightarrow> db \<Rightarrow> db" where
  "forget_probe cid d =
     d\<lparr>source_probes := Some (delete_rows (\<lambda>r. pb_candidate_id r = cid) (probe_rows d))\<rparr>"

definition start_race ::
    "string \<Rightarrow> string \<Rightarrow> torrent_health \<Rightarrow> torrent_health \<Rightarrow> rat \<Rightarrow> db \<Rightarrow> db" where
  "start_race parent cid old new now d =
     d\<lparr>source_probes := Some (probe_rows d @
         [\<lparr>pb_candidate_id = cid, pb_parent_id = parent, pb_started_at = now,
           pb_old_left = th_amount_left old, pb_new_left = th_amount_left new,
           pb_decision = (if not_started new then PdStarting else PdObserving),
           pb_last_observed_at = Some now\<rparr>])\<rparr>"

text \<open>The rate over the common window, and the finish time at that rate (\<open>None\<close> is \<open>inf\<close>).\<close>

definition window_rate :: "int \<Rightarrow> int \<Rightarrow> rat \<Rightarrow> rat" where
  "window_rate before after elapsed = max 0 (of_int (before - after) / elapsed)"

definition finish_time :: "int \<Rightarrow> rat \<Rightarrow> rat option" where
  "finish_time left rate = (if 0 < rate then Some (of_int left / rate) else None)"

definition no_later :: "rat option \<Rightarrow> rat \<Rightarrow> rat option \<Rightarrow> bool" where
  "no_later new_eta factor old_eta =
     (case old_eta of
        None \<Rightarrow> True
      | Some b \<Rightarrow> (case new_eta of None \<Rightarrow> False | Some a \<Rightarrow> a \<le> b * factor))"

definition race_result :: "health_policy \<Rightarrow> probe_row \<Rightarrow> torrent_health \<Rightarrow> torrent_health \<Rightarrow> rat \<Rightarrow> probe_decision"
  where
  "race_result pol row old new now =
     (let elapsed = now - pb_started_at row;
          old_rate = window_rate (pb_old_left row) (th_amount_left old) elapsed;
          new_rate = window_rate (pb_new_left row) (th_amount_left new) elapsed
      in
      if hp_slow_rate pol \<le> old_rate \<and> 0 < hp_slow_rate pol then PdReject
      else if old_rate < new_rate \<and> 0 < new_rate \<and>
              no_later (finish_time (th_amount_left new) new_rate) (1 - hp_min_eta_gain pol)
                (finish_time (th_amount_left old) old_rate)
        then PdPromote
      else PdReject)"

text \<open>One more observation of a running race.\<close>

definition continue_race ::
    "health_policy \<Rightarrow> probe_row \<Rightarrow> torrent_health \<Rightarrow> torrent_health \<Rightarrow> rat \<Rightarrow> db \<Rightarrow> db \<times> probe_decision"
  where
  "continue_race pol row old new now d =
     (let cid = pb_candidate_id row; elapsed = now - pb_started_at row;
          seen = set_probe cid (\<lambda>r. r\<lparr>pb_last_observed_at := Some now\<rparr>) d;
          decide = (\<lambda>v e. set_probe cid (\<lambda>r. r\<lparr>pb_decision := v\<rparr>) e)
      in
      if pb_decision row = PdStarting \<and> not_started new
        then (if hp_stalled_seconds pol \<le> elapsed then (decide PdReject seen, PdReject)
              else (decide PdStarting seen, PdObserving))
      else
        let moving = (if pb_decision row = PdStarting then decide PdObserving seen else seen) in
        if elapsed < hp_probe_seconds pol then (moving, PdObserving)
        else (decide (race_result pol row old new now) moving, race_result pol row old new now))"

definition probe_decide ::
    "health_policy \<Rightarrow> string \<Rightarrow> string \<Rightarrow> torrent_health \<Rightarrow> torrent_health \<Rightarrow> pyfloat \<Rightarrow> db \<Rightarrow>
     err + db \<times> probe_decision" where
  "probe_decide pol parent cid old new time d =
     (case time of
        Fin now \<Rightarrow>
          if parent = [] \<or> cid = [] \<or> now < 0 then Inl (ValueError ''invalid probe observation'')
          else if race_lost pol old d then Inr (d, PdReject)
          else if \<not> active_download (th_state new) \<and> 0 < th_amount_left new \<and> \<not> fetching_metadata new
            then Inr (forget_probe cid d, PdObserving)
          else
            (case find_probe cid d of
               None \<Rightarrow> Inr (start_race parent cid old new now d, PdObserving)
             | Some row \<Rightarrow>
                 if pb_parent_id row \<noteq> parent \<or> now < pb_started_at row
                   then Inl (ValueError ''probe identity or clock changed'')
                 else if pb_decision row \<notin> {PdStarting, PdObserving} then Inr (d, pb_decision row)
                 else if pb_decision row \<noteq> PdStarting \<and>
                         (case pb_last_observed_at row of
                            None \<Rightarrow> False | Some seen \<Rightarrow> hp_probe_seconds pol * 2 < now - seen)
                   then Inr (start_race parent cid old new now (forget_probe cid d), PdObserving)
                 else Inr (continue_race pol row old new now d))
      | _ \<Rightarrow> Inl (ValueError ''invalid probe observation''))"

end
