(* ===== verification/HealthProperties.thy ===== *)
theory HealthProperties
  imports SourceHealth ProbePermits
begin

text \<open>
  Properties of \<open>SourceHealth\<close> over sequences of observations: what a verdict on a source
  says of its history, and that a race between a source and its probe is decided.
\<close>

section \<open>Rows by key\<close>

interpretation health_key: key_column hr_permit_id "hr_replacing_update f" for f
  by unfold_locales simp

interpretation probe_key: key_column pb_candidate_id "pb_decision_update f" for f
  by unfold_locales simp

interpretation probe_seen: key_column pb_candidate_id "pb_last_observed_at_update f" for f
  by unfold_locales simp

lemma find_forget: "find_health k (forget_health pid rows) = (if k = pid then None else find_health k rows)"
  unfolding find_health_def forget_health_def delete_rows_def
  by (induction rows) auto

lemma find_replace:
  "hr_permit_id row = pid \<Longrightarrow>
   find_health k (update_rows (\<lambda>r. hr_permit_id r = pid) (\<lambda>_. row) rows) =
   (if k = pid then map_option (\<lambda>_. row) (find_health k rows) else find_health k rows)"
  unfolding find_health_def update_rows_def by (induction rows) auto

lemma find_upsert:
  "find_health k (upsert_health row rows) = (if k = hr_permit_id row then Some row else find_health k rows)"
  by (auto simp: upsert_health_def find_replace split: option.splits)
    (auto simp: find_health_def find_row_append split: option.splits)

lemma find_replacing:
  "find_health k (update_rows (\<lambda>r. hr_permit_id r = pid) (hr_replacing_update f) rows) =
   map_option (\<lambda>r. if hr_permit_id r = pid then hr_replacing_update f r else r) (find_health k rows)"
  unfolding find_health_def by (rule health_key.find_updated)

lemma first_also: "find_row P rows = Some r \<Longrightarrow> Q r \<Longrightarrow> find_row (\<lambda>r. P r \<and> Q r) rows = Some r"
  by (induction rows) (auto split: if_splits)

section \<open>Histories of observations\<close>

datatype health_event =
  Observed string torrent_health rat
| Marked string
| Cleared string

text \<open>The table after a sequence of events, newest first; a refused call changes nothing.\<close>

fun health_after :: "health_policy \<Rightarrow> health_event list \<Rightarrow> health_row list" where
  "health_after pol [] = []"
| "health_after pol (Observed pid h t # es) =
     (case observe pol pid h (Fin t) (health_after pol es) of
        Inr (rows, verdict) \<Rightarrow> rows | Inl e \<Rightarrow> health_after pol es)"
| "health_after pol (Marked pid # es) =
     (case mark_replacing pid (health_after pol es) of Inr rows \<Rightarrow> rows | Inl e \<Rightarrow> health_after pol es)"
| "health_after pol (Cleared pid # es) = clear_replacing pid (health_after pol es)"

text \<open>The accepted observations of a permit while its torrent was in an active download state.\<close>

fun active_history :: "string \<Rightarrow> health_event list \<Rightarrow> (torrent_health \<times> rat) list" where
  "active_history pid [] = []"
| "active_history pid (Observed k h t # es) =
     (if k = pid \<and> k \<noteq> [] \<and> 0 \<le> t \<and> active_download (th_state h) then (h, t) # active_history pid es
      else active_history pid es)"
| "active_history pid (e # es) = active_history pid es"

definition no_progress_since :: "string \<Rightarrow> health_event list \<Rightarrow> int \<Rightarrow> rat \<Rightarrow> bool" where
  "no_progress_since pid es left since =
     (\<exists>recent older. active_history pid es = recent @ older \<and> recent \<noteq> [] \<and>
        (\<forall>ht\<in>set recent. th_amount_left (fst ht) = left) \<and> snd (last recent) = since)"

definition row_explained :: "string \<Rightarrow> health_event list \<Rightarrow> health_row \<Rightarrow> bool" where
  "row_explained pid es r = no_progress_since pid es (hr_last_left r) (hr_last_progress_at r)"

lemma no_progress_first:
  "active_history pid es = (h, t) # hs \<Longrightarrow> no_progress_since pid es (th_amount_left h) t"
  unfolding no_progress_since_def by (intro exI [of _ "[(h, t)]"] exI [of _ hs]) simp

lemma no_progress_more:
  assumes "no_progress_since pid es left since" and "active_history pid es' = (h, t) # active_history pid es"
    and "th_amount_left h = left"
  shows "no_progress_since pid es' left since"
proof -
  from assms(1) obtain recent older where "active_history pid es = recent @ older" "recent \<noteq> []"
    "\<forall>ht\<in>set recent. th_amount_left (fst ht) = left" "snd (last recent) = since"
    unfolding no_progress_since_def by blast
  with assms(2,3) show ?thesis unfolding no_progress_since_def
    by (intro exI [of _ "(h, t) # recent"] exI [of _ older]) simp
qed

lemma stopped_inactive: "stopped_download s \<Longrightarrow> \<not> active_download s"
  by (auto simp: stopped_download_def active_download_def)

lemma advanced_id: "find_health pid rows = Some r \<Longrightarrow> hr_permit_id (advanced_row pol r h t) = pid"
  by (auto simp: find_health_def advanced_row_def Let_def dest: find_row_Some)

text \<open>How one accepted observation leaves the row of its permit.\<close>

lemma observe_row:
  assumes "observe pol pid h (Fin t) rows = Inr (rows', verdict)"
    and "find_health pid rows' = Some r'"
  shows "pid \<noteq> [] \<and> 0 \<le> t \<and>
    (r' = fresh_row pid h t \<and> active_download (th_state h) \<or>
     (\<exists>r. find_health pid rows = Some r \<and>
        (r' = r \<and> (active_download (th_state h) \<longrightarrow> th_amount_left h = hr_last_left r) \<or>
         r' = advanced_row pol r h t \<and> active_download (th_state h) \<and> th_amount_left h \<le> hr_last_left r)))"
proof (cases "find_health pid rows")
  case None
  with assms show ?thesis
    by (auto simp: observe_def Let_def find_forget find_upsert restarts_def fresh_row_def split: if_splits)
next
  case (Some r)
  have id: "hr_permit_id (advanced_row pol r h t) = pid" using Some by (rule advanced_id)
  from Some assms show ?thesis
    by (auto simp: observe_def Let_def find_forget find_upsert find_replace [OF id] restarts_def
        fresh_row_def split: if_splits dest: stopped_inactive)
qed

lemma observe_other:
  assumes "observe pol pid h (Fin t) rows = Inr (rows', verdict)" and "k \<noteq> pid"
  shows "find_health k rows' = find_health k rows"
proof (cases "find_health pid rows")
  case None
  with assms show ?thesis
    by (auto simp: observe_def Let_def find_forget find_upsert restarts_def fresh_row_def split: if_splits)
next
  case (Some r)
  have id: "hr_permit_id (advanced_row pol r h t) = pid" using Some by (rule advanced_id)
  from Some assms show ?thesis
    by (auto simp: observe_def Let_def find_forget find_upsert find_replace [OF id] fresh_row_def
        split: if_splits)
qed

lemma observe_explained:
  assumes "observe pol pid h (Fin t) rows = Inr (rows', verdict)"
    and "\<And>r. find_health pid rows = Some r \<Longrightarrow> row_explained pid es r"
    and "find_health pid rows' = Some r'"
  shows "row_explained pid (Observed pid h t # es) r'"
proof -
  let ?es = "Observed pid h t # es"
  note step = observe_row [OF assms(1,3)]
  then have hist: "active_history pid ?es =
      (if active_download (th_state h) then (h, t) # active_history pid es else active_history pid es)"
    by simp
  from step consider (fresh) "r' = fresh_row pid h t" "active_download (th_state h)"
    | (kept) r where "find_health pid rows = Some r" "r' = r"
        "active_download (th_state h) \<longrightarrow> th_amount_left h = hr_last_left r"
    | (moved) r where "find_health pid rows = Some r" "r' = advanced_row pol r h t"
        "active_download (th_state h)" "th_amount_left h \<le> hr_last_left r"
    by blast
  then show ?thesis
  proof cases
    case fresh
    with hist no_progress_first show ?thesis by (simp add: row_explained_def fresh_row_def)
  next
    case (kept r)
    from assms(2) [OF kept(1)] have e: "no_progress_since pid es (hr_last_left r) (hr_last_progress_at r)"
      by (simp add: row_explained_def)
    show ?thesis
    proof (cases "active_download (th_state h)")
      case True
      with e kept hist show ?thesis unfolding row_explained_def by (auto intro: no_progress_more)
    next
      case False
      with e kept hist show ?thesis by (simp add: row_explained_def no_progress_since_def)
    qed
  next
    case (moved r)
    show ?thesis
    proof (cases "th_amount_left h < hr_last_left r")
      case True
      with moved hist no_progress_first show ?thesis by (simp add: row_explained_def advanced_row_def Let_def)
    next
      case False
      with moved(4) have "th_amount_left h = hr_last_left r" by simp
      moreover from assms(2) [OF moved(1)]
      have "no_progress_since pid es (hr_last_left r) (hr_last_progress_at r)" by (simp add: row_explained_def)
      ultimately show ?thesis using moved hist
        by (auto simp: row_explained_def advanced_row_def Let_def intro: no_progress_more)
    qed
  qed
qed

lemma history_explains:
  "find_health pid (health_after pol es) = Some r \<Longrightarrow> row_explained pid es r"
proof (induction es arbitrary: r)
  case Nil
  then show ?case by (simp add: find_health_def)
next
  case (Cons e es)
  show ?case
  proof (cases e)
    case (Observed k h t)
    show ?thesis
    proof (cases "observe pol k h (Fin t) (health_after pol es)")
      case (Inl x)
      then have "k = [] \<or> t < 0" by (auto simp: observe_def Let_def split: if_splits)
      with Inl Cons Observed show ?thesis by (auto simp: row_explained_def no_progress_since_def)
    next
      case (Inr y)
      obtain rows v where y: "y = (rows, v)" by (cases y)
      show ?thesis
      proof (cases "k = pid")
        case True
        with observe_explained [of pol pid h t "health_after pol es" rows v es r] Cons Inr y Observed
        show ?thesis by simp
      next
        case False
        with Cons observe_other [of pol k h t "health_after pol es" rows v pid] Inr y Observed
        show ?thesis by (simp add: row_explained_def no_progress_since_def)
      qed
    qed
  next
    case (Marked k)
    with Cons.prems obtain r0 where "find_health pid (health_after pol es) = Some r0"
      "hr_last_left r = hr_last_left r0" "hr_last_progress_at r = hr_last_progress_at r0"
      by (auto simp: mark_replacing_def find_replacing split: if_splits)
    with Cons.IH [of r0] Marked show ?thesis by (simp add: row_explained_def no_progress_since_def)
  next
    case (Cleared k)
    with Cons.prems obtain r0 where "find_health pid (health_after pol es) = Some r0"
      "hr_last_left r = hr_last_left r0" "hr_last_progress_at r = hr_last_progress_at r0"
      by (auto simp: clear_replacing_def find_replacing split: if_splits)
    with Cons.IH [of r0] Cleared show ?thesis by (simp add: row_explained_def no_progress_since_def)
  qed
qed

text \<open>
  After any sequence of observations and marks from an empty
  table, a stalled verdict means that the torrent has no seeds and no speed now, and that the
  accepted observations of the permit in an active state, from one at least
  \<open>stalled_seconds\<close> old up to the last, all reported the amount left that is reported now.
\<close>

theorem stalled_means_no_progress:
  assumes "policy_ok pol"
    and "observe pol pid h (Fin now) (health_after pol es) = Inr (rows, Some Stalled)"
  shows "th_num_seeds h = 0 \<and> th_dlspeed h = 0 \<and>
    (\<exists>since. no_progress_since pid es (th_amount_left h) since \<and> hp_stalled_seconds pol \<le> now - since)"
proof -
  from assms(2) obtain r where r: "find_health pid (health_after pol es) = Some r"
    and v: "th_num_seeds h = 0" "th_dlspeed h = 0"
      "hp_stalled_seconds pol \<le> now - hr_last_progress_at (advanced_row pol r h now)"
    and le: "th_amount_left h \<le> hr_last_left r"
    by (auto simp: observe_def Let_def restarts_def split: if_splits option.splits)
  have "th_amount_left h = hr_last_left r"
  proof (rule ccontr)
    assume "th_amount_left h \<noteq> hr_last_left r"
    with v(3) le assms(1) show False by (simp add: advanced_row_def Let_def policy_ok_def)
  qed
  with history_explains [OF r] v show ?thesis
    by (auto simp: row_explained_def advanced_row_def Let_def)
qed

definition default_policy :: health_policy where
  "default_policy =
     \<lparr>hp_slow_seconds = 300, hp_slow_rate = 1048576, hp_stalled_seconds = 300, hp_probe_seconds = 60,
      hp_min_eta_gain = 1/5, hp_slow_replacement = True\<rparr>"

lemma default_policy_ok: "policy_ok default_policy"
  by (simp add: policy_ok_def default_policy_def)

definition idle_torrent :: torrent_health where
  "idle_torrent =
     \<lparr>th_infohash = ''h'', th_downloaded = 0, th_amount_left = 5, th_num_seeds = 0, th_dlspeed = 0,
      th_state = ''stalledDL'', th_progress = 0\<rparr>"

lemma idle_observed:
  "health_after default_policy [Observed ''p'' idle_torrent 0] = [fresh_row ''p'' idle_torrent 0]"
  by (simp add: observe_def find_health_def restarts_def upsert_health_def idle_torrent_def
      active_download_def Let_def)

lemma idle_stalled:
  "\<exists>rows. observe default_policy ''p'' idle_torrent (Fin 300) (health_after default_policy [Observed ''p'' idle_torrent 0]) =
     Inr (rows, Some Stalled)"
  unfolding idle_observed
  by (simp add: observe_def find_health_def restarts_def idle_torrent_def fresh_row_def active_download_def
      advanced_row_def default_policy_def Let_def)

theorem stalled_means_no_progress_witness:
  "\<exists>since. no_progress_since ''p'' [Observed ''p'' idle_torrent 0] 5 since \<and> 300 \<le> 300 - since"
proof -
  from idle_stalled obtain rows where "observe default_policy ''p'' idle_torrent (Fin 300)
      (health_after default_policy [Observed ''p'' idle_torrent 0]) = Inr (rows, Some Stalled)" by blast
  from stalled_means_no_progress [OF default_policy_ok this] show ?thesis
    by (simp add: idle_torrent_def default_policy_def)
qed

section \<open>Races\<close>

lemma find_set_decision: "find_probe k (set_probe cid (pb_decision_update f) d) =
   map_option (\<lambda>r. if pb_candidate_id r = cid then pb_decision_update f r else r) (find_probe k d)"
  by (simp add: find_probe_def set_probe_def probe_rows_def probe_key.find_updated split: option.splits)

lemma find_set_seen: "find_probe k (set_probe cid (pb_last_observed_at_update f) d) =
   map_option (\<lambda>r. if pb_candidate_id r = cid then pb_last_observed_at_update f r else r) (find_probe k d)"
  by (simp add: find_probe_def set_probe_def probe_rows_def probe_seen.find_updated split: option.splits)

lemma find_probe_id: "find_probe cid d = Some row \<Longrightarrow> pb_candidate_id row = cid"
  by (auto simp: find_probe_def dest: find_row_Some)

lemma find_forget_probe: "find_probe cid (forget_probe cid d) = None"
  by (auto simp: find_probe_def forget_probe_def probe_rows_def table_simps)

lemma find_started:
  assumes "find_probe cid d = None"
  shows "\<exists>row. find_probe cid (start_race parent cid old new now d) = Some row \<and>
           pb_parent_id row = parent \<and> pb_started_at row = now \<and> pb_last_observed_at row = Some now \<and>
           pb_decision row \<in> {PdStarting, PdObserving}"
  using assms by (simp add: find_probe_def start_race_def probe_rows_def find_row_append)

lemma race_keeps_protected [simp]:
  "is_protected h (set_probe cid f d) = is_protected h d"
  "is_protected h (forget_probe cid d) = is_protected h d"
  "is_protected h (start_race parent cid old new now d) = is_protected h d"
  by (simp_all add: is_protected_def protected_rows_def set_probe_def forget_probe_def start_race_def)

lemma race_verdict: "race_result pol row old new now = PdPromote \<or> race_result pol row old new now = PdReject"
  by (simp add: race_result_def Let_def)

text \<open>The registry reads the row a race leaves; the key of the table is the candidate.\<close>

lemma promoted_verified:
  assumes "find_probe cid d = Some row" and "pb_last_observed_at row = Some now"
    and "pb_decision row = PdPromote" and "0 \<le> age"
  shows "probe_verified_faster now cid age d"
proof -
  from assms(1) obtain rows where rows: "source_probes d = Some rows"
    "find_row (\<lambda>r. pb_candidate_id r = cid) rows = Some row"
    by (cases "source_probes d") (auto simp: find_probe_def probe_rows_def)
  from first_also [OF this(2), of "\<lambda>r. pb_decision r = PdPromote"] assms(3)
  have "find_row (\<lambda>r. pb_candidate_id r = cid \<and> pb_decision r = PdPromote) rows = Some row" by simp
  with rows(1) assms(2,4) show ?thesis by (simp add: probe_verified_faster_def)
qed

text \<open>One observation of an undecided race.\<close>

lemma continue_race_row:
  assumes "find_probe cid d = Some row" and "continue_race pol row old new now d = (d', v)"
    and "pb_decision row \<in> {PdStarting, PdObserving}"
  shows "\<exists>row'. find_probe cid d' = Some row' \<and> pb_parent_id row' = pb_parent_id row \<and>
           pb_started_at row' = pb_started_at row \<and> pb_last_observed_at row' = Some now \<and>
           (if v = PdObserving then pb_decision row' \<in> {PdStarting, PdObserving} else pb_decision row' = v) \<and>
           (\<forall>h. is_protected h d' = is_protected h d)"
proof -
  note id = find_probe_id [OF assms(1)]
  from assms(1) id have f: "find_probe (pb_candidate_id row) d = Some row" by simp
  show ?thesis
    using assms(2,3) race_verdict [of pol row old new now] unfolding id [symmetric]
    by (auto simp: continue_race_def Let_def find_set_decision find_set_seen f split: if_splits)
qed

lemma continue_race_decides:
  assumes "continue_race pol row old new now d = (d', v)"
    and "hp_stalled_seconds pol \<le> now - pb_started_at row" and "hp_probe_seconds pol \<le> now - pb_started_at row"
  shows "v \<in> {PdPromote, PdReject}"
  using assms by (auto simp: continue_race_def Let_def race_result_def split: if_splits)

text \<open>A series of observations of one race, and the answers.\<close>

type_synonym race_observation = "torrent_health \<times> torrent_health \<times> rat"

fun race_run ::
    "health_policy \<Rightarrow> string \<Rightarrow> string \<Rightarrow> race_observation list \<Rightarrow> db \<Rightarrow> err + db \<times> probe_decision list" where
  "race_run pol parent cid [] d = Inr (d, [])"
| "race_run pol parent cid ((old, new, t) # obs) d =
     ebind (probe_decide pol parent cid old new (Fin t) d) (\<lambda>(d', v).
     ebind (race_run pol parent cid obs d') (\<lambda>(d'', vs). Inr (d'', v # vs)))"

text \<open>
  Steady observation: the source stays a candidate for replacement, the probe is fetching
  or downloading, and no two observations are further apart than twice the window.
\<close>

definition contested :: "health_policy \<Rightarrow> torrent_health \<Rightarrow> torrent_health \<Rightarrow> db \<Rightarrow> bool" where
  "contested pol old new d =
     (\<not> race_lost pol old d \<and>
      (active_download (th_state new) \<or> th_amount_left new = 0 \<or> fetching_metadata new) \<and>
      0 \<le> th_amount_left new)"

fun steady :: "health_policy \<Rightarrow> rat \<Rightarrow> race_observation list \<Rightarrow> db \<Rightarrow> bool" where
  "steady pol before [] d = True"
| "steady pol before ((old, new, t) # obs) d =
     (contested pol old new d \<and> before \<le> t \<and> t - before \<le> hp_probe_seconds pol * 2 \<and> steady pol t obs d)"

definition running :: "string \<Rightarrow> string \<Rightarrow> rat \<Rightarrow> rat \<Rightarrow> db \<Rightarrow> bool" where
  "running parent cid started seen d =
     (\<exists>row. find_probe cid d = Some row \<and> pb_parent_id row = parent \<and> pb_started_at row = started \<and>
        pb_last_observed_at row = Some seen \<and> pb_decision row \<in> {PdStarting, PdObserving})"

definition decided :: "string \<Rightarrow> string \<Rightarrow> rat \<Rightarrow> probe_decision \<Rightarrow> db \<Rightarrow> bool" where
  "decided parent cid started v d =
     (\<exists>row. find_probe cid d = Some row \<and> pb_parent_id row = parent \<and> pb_started_at row = started \<and>
        pb_decision row = v \<and> v \<in> {PdPromote, PdReject})"

lemma steady_frame: "(\<And>h. is_protected h d' = is_protected h d) \<Longrightarrow> steady pol before obs d' = steady pol before obs d"
  by (induction pol before obs d rule: steady.induct) (auto simp: contested_def race_lost_def)

lemma running_step:
  assumes "running parent cid started seen d" and "contested pol old new d"
    and "0 \<le> started" "started \<le> t" "t - seen \<le> hp_probe_seconds pol * 2" and "parent \<noteq> []" "cid \<noteq> []"
  shows "\<exists>d' v. probe_decide pol parent cid old new (Fin t) d = Inr (d', v) \<and>
           (\<forall>h. is_protected h d' = is_protected h d) \<and>
           (if v = PdObserving then running parent cid started t d' else decided parent cid started v d') \<and>
           (hp_stalled_seconds pol \<le> t - started \<and> hp_probe_seconds pol \<le> t - started \<longrightarrow> v \<noteq> PdObserving)"
proof -
  from assms(1) obtain row where row: "find_probe cid d = Some row" "pb_parent_id row = parent"
    "pb_started_at row = started" "pb_last_observed_at row = Some seen"
    and dec: "pb_decision row \<in> {PdStarting, PdObserving}" by (auto simp: running_def)
  obtain d' v where c: "continue_race pol row old new t d = (d', v)" by (cases "continue_race pol row old new t d")
  have "probe_decide pol parent cid old new (Fin t) d = Inr (d', v)"
    using assms row dec c by (auto simp: probe_decide_def contested_def)
  moreover from continue_race_row [OF row(1) c dec] row
  have "if v = PdObserving then running parent cid started t d' else v = PdPromote \<or> v = PdReject \<longrightarrow> decided parent cid started v d'"
    "\<forall>h. is_protected h d' = is_protected h d"
    by (auto simp: running_def decided_def split: if_splits)
  moreover have "v \<in> {PdObserving, PdPromote, PdReject}"
    using c race_verdict [of pol row old new t] by (auto simp: continue_race_def Let_def split: if_splits)
  moreover from continue_race_decides [OF c] row
  have "hp_stalled_seconds pol \<le> t - started \<and> hp_probe_seconds pol \<le> t - started \<longrightarrow> v \<noteq> PdObserving" by auto
  ultimately show ?thesis by (intro exI [of _ d'] exI [of _ v]) (auto split: if_splits)
qed

lemma decided_step:
  assumes "decided parent cid started v d" and "contested pol old new d"
    and "0 \<le> started" "started \<le> t" and "parent \<noteq> []" "cid \<noteq> []"
  shows "probe_decide pol parent cid old new (Fin t) d = Inr (d, v)"
  using assms by (auto simp: decided_def probe_decide_def contested_def)

lemma decided_run:
  assumes "decided parent cid started v d" and "0 \<le> started" and "parent \<noteq> []" "cid \<noteq> []"
  shows "steady pol seen obs d \<Longrightarrow> started \<le> seen \<Longrightarrow>
         race_run pol parent cid obs d = Inr (d, replicate (length obs) v)"
proof (induction obs arbitrary: seen)
  case (Cons o1 obs)
  obtain old new t where o1: "o1 = (old, new, t)" by (cases o1) auto
  from Cons.prems o1 have "contested pol old new d" "started \<le> t" "steady pol t obs d" by auto
  from Cons.IH [OF this(3,2)] decided_step [OF assms(1) this(1) assms(2) this(2) assms(3,4)] o1
  show ?case by simp
qed simp

lemma running_run:
  assumes "0 \<le> started" and "parent \<noteq> []" "cid \<noteq> []"
  shows "running parent cid started seen d \<Longrightarrow> steady pol seen obs d \<Longrightarrow> started \<le> seen \<Longrightarrow>
    obs \<noteq> [] \<Longrightarrow> hp_stalled_seconds pol \<le> snd (snd (last obs)) - started \<Longrightarrow>
    hp_probe_seconds pol \<le> snd (snd (last obs)) - started \<Longrightarrow>
    \<exists>d' vs. race_run pol parent cid obs d = Inr (d', vs) \<and> vs \<noteq> [] \<and> decided parent cid started (last vs) d'"
proof (induction obs arbitrary: seen d)
  case (Cons o1 obs)
  obtain old new t where o1: "o1 = (old, new, t)" by (cases o1) auto
  from Cons.prems o1 have c: "contested pol old new d" and t: "seen \<le> t" "t - seen \<le> hp_probe_seconds pol * 2"
    "steady pol t obs d" by auto
  from t(1) Cons.prems(3) have st: "started \<le> t" by simp
  from running_step [OF Cons.prems(1) c assms(1) st t(2) assms(2,3)] obtain d' v where
    step: "probe_decide pol parent cid old new (Fin t) d = Inr (d', v)"
    and prot: "\<forall>h. is_protected h d' = is_protected h d"
    and v: "if v = PdObserving then running parent cid started t d' else decided parent cid started v d'"
    and now: "hp_stalled_seconds pol \<le> t - started \<and> hp_probe_seconds pol \<le> t - started \<longrightarrow> v \<noteq> PdObserving"
    by blast
  have steady: "steady pol t obs d'"
    using t(3) prot by (subst steady_frame [of d' d]) simp_all
  show ?case
  proof (cases "v = PdObserving")
    case False
    with v have dec: "decided parent cid started v d'" by simp
    from decided_run [OF dec assms steady st] step o1
    have "race_run pol parent cid (o1 # obs) d = Inr (d', v # replicate (length obs) v)" by simp
    moreover have "last (v # replicate (length obs) v) = v" by (cases "length obs") auto
    ultimately show ?thesis using dec by (metis list.discI)
  next
    case True
    with now Cons.prems(5,6) o1 have "obs \<noteq> []" by auto
    with True v Cons.IH [of t d'] steady st Cons.prems(5,6) obtain d'' vs where
      "race_run pol parent cid obs d' = Inr (d'', vs)" "vs \<noteq> []" "decided parent cid started (last vs) d''"
      by auto
    with step o1 show ?thesis by auto
  qed
qed simp

text \<open>
  C32 (race_decides): a race between a source and its probe that is observed steadily for at
  least the stall time and the probe window ends: the last answer is to promote or to reject
  the probe, and it is recorded in the row of the race with the first observation as its
  start.
\<close>

theorem race_decides:
  assumes "find_probe cid d = None" and "parent \<noteq> []" "cid \<noteq> []" and "0 \<le> start"
    and "contested pol old new d" and "steady pol start obs d" and "obs \<noteq> []"
    and "hp_stalled_seconds pol \<le> snd (snd (last obs)) - start"
    and "hp_probe_seconds pol \<le> snd (snd (last obs)) - start"
  shows "\<exists>d' vs. race_run pol parent cid ((old, new, start) # obs) d = Inr (d', PdObserving # vs) \<and>
           decided parent cid start (last vs) d'"
proof -
  let ?d = "start_race parent cid old new start d"
  have step: "probe_decide pol parent cid old new (Fin start) d = Inr (?d, PdObserving)"
    using assms(1-5) by (auto simp: probe_decide_def contested_def)
  have "running parent cid start start ?d"
    unfolding running_def by (rule find_started [OF assms(1)])
  moreover have "steady pol start obs ?d"
    using assms(6) by (subst steady_frame [of ?d d]) simp_all
  ultimately have "\<exists>d' vs. race_run pol parent cid obs ?d = Inr (d', vs) \<and> vs \<noteq> [] \<and>
      decided parent cid start (last vs) d'"
    by (rule running_run [OF assms(4,2,3) _ _ order_refl assms(7,8,9)])
  with step show ?thesis by auto
qed

definition moving_probe :: torrent_health where
  "moving_probe =
     \<lparr>th_infohash = ''g'', th_downloaded = 1, th_amount_left = 9, th_num_seeds = 3, th_dlspeed = 1,
      th_state = ''downloading'', th_progress = 1/10\<rparr>"

definition every_minute :: "race_observation list" where
  "every_minute = [(idle_torrent, moving_probe, 120), (idle_torrent, moving_probe, 240), (idle_torrent, moving_probe, 300)]"

lemma idle_contested: "contested default_policy idle_torrent moving_probe empty_db"
  by (simp add: contested_def race_lost_def is_protected_def protected_rows_def empty_db_def exists_row_def
      default_policy_def idle_torrent_def moving_probe_def active_download_def)

lemma hp_probe: "hp_probe_seconds default_policy = 60"
  by (simp add: default_policy_def)

theorem race_decides_witness:
  "\<exists>d' vs. race_run default_policy ''p'' ''c'' ((idle_torrent, moving_probe, 0) # every_minute) empty_db =
     Inr (d', PdObserving # vs) \<and> decided ''p'' ''c'' 0 (last vs) d'"
proof (rule race_decides)
  show "find_probe ''c'' empty_db = None" by (simp add: find_probe_def probe_rows_def empty_db_def)
  show "steady default_policy 0 every_minute empty_db"
    using idle_contested by (simp add: every_minute_def hp_probe)
  show "contested default_policy idle_torrent moving_probe empty_db" by (rule idle_contested)
qed (simp_all add: every_minute_def default_policy_def)

text \<open>
  C33 (promotion_measured): the answer to promote a running race is given only for a source
  that is neither complete nor protected, on a window of at least \<open>probe_seconds\<close> in which
  the probe was faster than the source; the rest of the probe then takes at most the
  required fraction of the time the rest of the source takes.  The registry accepts the
  recorded answer as verified at once.
\<close>

theorem promotion_measured:
  assumes "probe_decide pol parent cid old new (Fin now) d = Inr (d', PdPromote)"
    and "find_probe cid d = Some row" and "pb_decision row \<in> {PdStarting, PdObserving}"
    and "policy_ok pol" and "0 \<le> age"
  shows "0 < th_amount_left old \<and> th_progress old < 1 \<and> \<not> is_protected (th_infohash old) d \<and>
    hp_probe_seconds pol \<le> now - pb_started_at row \<and>
    (let elapsed = now - pb_started_at row;
         old_rate = window_rate (pb_old_left row) (th_amount_left old) elapsed;
         new_rate = window_rate (pb_new_left row) (th_amount_left new) elapsed in
      old_rate < new_rate \<and>
      of_int (th_amount_left new) * old_rate \<le>
      of_int (th_amount_left old) * (1 - hp_min_eta_gain pol) * new_rate) \<and>
    probe_verified_faster now cid age d'"
proof -
  from assms(1-3) have lost: "\<not> race_lost pol old d"
    and c: "continue_race pol row old new now d = (d', PdPromote)"
    by (auto simp: probe_decide_def split: if_splits option.splits)
  from c have window: "hp_probe_seconds pol \<le> now - pb_started_at row"
    and r: "race_result pol row old new now = PdPromote"
    by (auto simp: continue_race_def Let_def split: if_splits)
  define old_rate where "old_rate = window_rate (pb_old_left row) (th_amount_left old) (now - pb_started_at row)"
  define new_rate where "new_rate = window_rate (pb_new_left row) (th_amount_left new) (now - pb_started_at row)"
  from r have faster: "old_rate < new_rate" "0 < new_rate"
    and eta: "no_later (finish_time (th_amount_left new) new_rate) (1 - hp_min_eta_gain pol)
                (finish_time (th_amount_left old) old_rate)"
    by (auto simp: race_result_def Let_def old_rate_def new_rate_def split: if_splits)
  have "0 \<le> old_rate" by (simp add: old_rate_def window_rate_def)
  have "of_int (th_amount_left new) * old_rate \<le> of_int (th_amount_left old) * (1 - hp_min_eta_gain pol) * new_rate"
  proof (cases "0 < old_rate")
    case True
    with eta faster(2) have "of_int (th_amount_left new) / new_rate \<le>
        of_int (th_amount_left old) / old_rate * (1 - hp_min_eta_gain pol)"
      by (simp add: no_later_def finish_time_def)
    with True faster(2) show ?thesis by (simp add: field_simps)
  next
    case False
    with \<open>0 \<le> old_rate\<close> have "old_rate = 0" by simp
    moreover have "0 \<le> of_int (th_amount_left old) * (1 - hp_min_eta_gain pol) * new_rate"
      using lost assms(4) faster(2) by (auto simp: race_lost_def policy_ok_def)
    ultimately show ?thesis by simp
  qed
  moreover from continue_race_row [OF assms(2) c assms(3)] obtain row' where
    "find_probe cid d' = Some row'" "pb_last_observed_at row' = Some now" "pb_decision row' = PdPromote"
    by auto
  then have "probe_verified_faster now cid age d'"
    using assms(5) by (rule promoted_verified)
  ultimately show ?thesis using lost window faster(1)
    by (simp add: race_lost_def old_rate_def new_rate_def not_le)
qed

definition running_row :: probe_row where
  "running_row =
     \<lparr>pb_candidate_id = ''c'', pb_parent_id = ''p'', pb_started_at = 0, pb_old_left = 5, pb_new_left = 69,
      pb_decision = PdObserving, pb_last_observed_at = Some 30\<rparr>"

definition racing_db :: db where
  "racing_db = empty_db\<lparr>source_probes := Some [running_row]\<rparr>"

lemma racing_row: "find_probe ''c'' racing_db = Some running_row"
  by (simp add: find_probe_def probe_rows_def racing_db_def running_row_def)

lemma racing_promotes:
  "\<exists>d'. probe_decide default_policy ''p'' ''c'' idle_torrent moving_probe (Fin 60) racing_db = Inr (d', PdPromote)"
proof -
  have "race_result default_policy running_row idle_torrent moving_probe 60 = PdPromote"
    by (simp add: race_result_def Let_def window_rate_def finish_time_def no_later_def default_policy_def
        running_row_def idle_torrent_def moving_probe_def)
  then have "\<exists>d'. continue_race default_policy running_row idle_torrent moving_probe 60 racing_db = (d', PdPromote)"
    by (simp add: continue_race_def Let_def running_row_def default_policy_def)
  moreover have "\<not> race_lost default_policy idle_torrent racing_db"
    by (simp add: race_lost_def is_protected_def protected_rows_def racing_db_def empty_db_def exists_row_def
        default_policy_def idle_torrent_def active_download_def)
  moreover have "active_download (th_state moving_probe)" by (simp add: moving_probe_def active_download_def)
  ultimately show ?thesis
    by (simp add: probe_decide_def racing_row) (simp add: running_row_def default_policy_def)
qed

theorem promotion_measured_witness:
  "\<exists>d'. probe_decide default_policy ''p'' ''c'' idle_torrent moving_probe (Fin 60) racing_db = Inr (d', PdPromote) \<and>
        probe_verified_faster 60 ''c'' 90 d'"
proof -
  from racing_promotes obtain d' where
    d: "probe_decide default_policy ''p'' ''c'' idle_torrent moving_probe (Fin 60) racing_db = Inr (d', PdPromote)"
    by blast
  have "pb_decision running_row \<in> {PdStarting, PdObserving}" by (simp add: running_row_def)
  from promotion_measured [OF d racing_row this default_policy_ok, of 90] d show ?thesis by auto
qed

end
