(* ===== verification/DeletionJobs.thy ===== *)
theory DeletionJobs
  imports Database
begin

text \<open>
  \<open>persistence/deletion_jobs.py\<close>: durable deletion jobs and acquisition tombstones.  The
  table \<open>deletion_jobs\<close> is the list of its rows; \<open>payload_json\<close> is canonical JSON
  (\<open>sort_keys\<close>), so two texts are equal when the values with sorted keys are.  Tombstones
  are those of \<^typ>\<open>db\<close>.
\<close>

section \<open>Rows\<close>

datatype job_stage =
  Queued | Validated | Tombstoned | ArrRemoved | TorrentsRemoved | SeerrRemoved | JellyfinRemoved |
  Complete | Blocked

fun stage_text :: "job_stage \<Rightarrow> string" where
  "stage_text Queued = ''queued''"
| "stage_text Validated = ''validated''"
| "stage_text Tombstoned = ''tombstoned''"
| "stage_text ArrRemoved = ''arr_removed''"
| "stage_text TorrentsRemoved = ''torrents_removed''"
| "stage_text SeerrRemoved = ''seerr_removed''"
| "stage_text JellyfinRemoved = ''jellyfin_removed''"
| "stage_text Complete = ''complete''"
| "stage_text Blocked = ''blocked''"

definition stages :: "job_stage list" where
  "stages = [Queued, Validated, Tombstoned, ArrRemoved, TorrentsRemoved, SeerrRemoved, JellyfinRemoved,
     Complete, Blocked]"

definition stage_of :: "string \<Rightarrow> job_stage option" where
  "stage_of s = List.find (\<lambda>st. stage_text st = s) stages"

fun terminal_stage :: "job_stage \<Rightarrow> bool" where
  "terminal_stage Complete = True"
| "terminal_stage Blocked = True"
| "terminal_stage _ = False"

record deletion_job =
  dj_item_id :: string
  dj_item_type :: string
  dj_payload :: json
  dj_stage :: job_stage
  dj_error :: "string option"
  dj_created_at :: time
  dj_updated_at :: time

definition find_job :: "string \<Rightarrow> deletion_job list \<Rightarrow> deletion_job option" where
  "find_job item jobs = find_row (\<lambda>j. dj_item_id j = item) jobs"

definition new_job :: "string \<Rightarrow> string \<Rightarrow> (string \<times> json) list \<Rightarrow> time \<Rightarrow> deletion_job" where
  "new_job item kind payload now =
     \<lparr>dj_item_id = item, dj_item_type = kind, dj_payload = sort_json (JObj payload), dj_stage = Queued,
      dj_error = None, dj_created_at = now, dj_updated_at = now\<rparr>"

text \<open>\<open>INSERT OR IGNORE\<close>\<close>

definition insert_job :: "deletion_job \<Rightarrow> deletion_job list \<Rightarrow> deletion_job list" where
  "insert_job j jobs = (if find_job (dj_item_id j) jobs = None then jobs @ [j] else jobs)"

section \<open>Operations\<close>

definition enqueue ::
    "string \<Rightarrow> string \<Rightarrow> (string \<times> json) list \<Rightarrow> time \<Rightarrow> deletion_job list \<Rightarrow> deletion_job list \<times> deletion_job" where
  "enqueue item kind payload now jobs =
     (let jobs' = insert_job (new_job item kind payload now) jobs
      in (jobs', the (find_job item jobs')))"

text \<open>A captured child: its identifier and payload.\<close>

definition season_child ::
    "string \<Rightarrow> string list \<Rightarrow> deletion_job list \<Rightarrow> json \<Rightarrow> err + string \<times> (string \<times> json) list" where
  "season_child item seen jobs child =
     (case as_obj child of
        None \<Rightarrow> Inl (ValueError ''season child capture is incomplete'')
      | Some d \<Rightarrow>
          if set (map fst d) \<noteq> {''item_id'', ''payload''}
          then Inl (ValueError ''season child capture is incomplete'')
          else (case (as_str (jget d ''item_id''), as_obj (jget d ''payload'')) of
              (Some cid, Some payload) \<Rightarrow>
                if cid = [] \<or> cid \<in> set seen \<or> jget payload ''parent_item_id'' \<noteq> JStr item
                then Inl (ValueError ''season child identity is invalid'')
                else
                  (case find_job cid jobs of
                     None \<Rightarrow> Inr (cid, payload)
                   | Some j \<Rightarrow>
                       if dj_item_type j \<noteq> ''Episode'' \<or> dj_payload j \<noteq> sort_json (JObj payload) \<or>
                          terminal_stage (dj_stage j)
                       then Inl (ValueError ''captured episode already has a different deletion'')
                       else Inr (cid, payload))
            | _ \<Rightarrow> Inl (ValueError ''season child identity is invalid'')))"

fun season_children ::
    "string \<Rightarrow> string list \<Rightarrow> deletion_job list \<Rightarrow> json list \<Rightarrow> err + (string \<times> (string \<times> json) list) list" where
  "season_children item seen jobs [] = Inr []"
| "season_children item seen jobs (c # cs) =
     ebind (season_child item seen jobs c) (\<lambda>(cid, payload).
     ebind (season_children item (cid # seen) jobs cs) (\<lambda>rest. Inr ((cid, payload) # rest)))"

definition enqueue_season ::
    "string \<Rightarrow> (string \<times> json) list \<Rightarrow> time \<Rightarrow> deletion_job list \<Rightarrow> err + deletion_job list \<times> deletion_job" where
  "enqueue_season item payload now jobs =
     (case find_job item jobs of
        Some j \<Rightarrow>
          if dj_item_type j \<noteq> ''Season''
          then Inl (ValueError ''season item already belongs to another deletion'')
          else Inr (jobs, j)
      | None \<Rightarrow>
          (case as_list (jget payload ''episodes'') of
             Some (e # es) \<Rightarrow>
               ebind (season_children item [item] jobs (e # es)) (\<lambda>children.
                 let parent = new_job item ''Season'' payload now;
                     jobs' = fold (\<lambda>(cid, p). insert_job (new_job cid ''Episode'' p now)) children (jobs @ [parent])
                 in Inr (jobs', the (find_job item jobs')))
           | _ \<Rightarrow> Inl (ValueError ''season has no captured episodes'')))"

definition get_job :: "string \<Rightarrow> deletion_job list \<Rightarrow> deletion_job option" where
  "get_job = find_job"

text \<open>\<open>ORDER BY created_at, rowid\<close>: the sort is stable.\<close>

definition list_jobs :: "deletion_job list \<Rightarrow> deletion_job list" where
  "list_jobs jobs = sort_key dj_created_at jobs"

definition next_queued :: "deletion_job list \<Rightarrow> deletion_job option" where
  "next_queued jobs =
     (case sort_key dj_updated_at (sort_key dj_created_at (filter (\<lambda>j. \<not> terminal_stage (dj_stage j)) jobs)) of
        [] \<Rightarrow> None | j # _ \<Rightarrow> Some j)"

definition touch :: "string \<Rightarrow> time \<Rightarrow> deletion_job list \<Rightarrow> deletion_job list" where
  "touch item now jobs = update_rows (\<lambda>j. dj_item_id j = item) (dj_updated_at_update (\<lambda>_. now)) jobs"

definition staged :: "job_stage \<Rightarrow> string option \<Rightarrow> time \<Rightarrow> deletion_job \<Rightarrow> deletion_job" where
  "staged stage error now j = j\<lparr>dj_stage := stage, dj_error := error, dj_updated_at := now\<rparr>"

definition set_stage ::
    "string \<Rightarrow> string \<Rightarrow> string option \<Rightarrow> time \<Rightarrow> deletion_job list \<Rightarrow> err + deletion_job list \<times> deletion_job" where
  "set_stage item stage error now jobs =
     (case stage_of stage of
        None \<Rightarrow> Inl (ValueError (''invalid deletion stage: '' @ stage))
      | Some st \<Rightarrow>
          (case find_job item jobs of
             None \<Rightarrow> Inl (KeyError item)
           | Some j \<Rightarrow>
               if dj_stage j = st \<and> dj_error j = error then Inr (jobs, j)
               else
                 let jobs' = update_rows (\<lambda>j. dj_item_id j = item) (staged st error now) jobs
                 in Inr (jobs', the (find_job item jobs'))))"

definition tombstone :: "string \<Rightarrow> string \<Rightarrow> time \<Rightarrow> db \<Rightarrow> db" where
  "tombstone media_key generation now d =
     (if tombstoned d media_key then d
      else d\<lparr>tombstones := tombstones d @
             [\<lparr>tb_media_key = media_key, tb_deleted_at = now, tb_generation = generation\<rparr>]\<rparr>)"

definition is_tombstoned :: "string \<Rightarrow> db \<Rightarrow> bool" where
  "is_tombstoned media_key d = tombstoned d media_key"

section \<open>Facts\<close>

interpretation job_touched: key_column dj_item_id "dj_updated_at_update f" for f
  by unfold_locales simp

interpretation job_staged: key_column dj_item_id "staged stage error now" for stage error now
  by unfold_locales (simp add: staged_def)

definition jobs_wf :: "deletion_job list \<Rightarrow> bool" where
  "jobs_wf jobs = distinct (map dj_item_id jobs)"

lemma find_job_Some: "find_job k jobs = Some j \<Longrightarrow> j \<in> set jobs \<and> dj_item_id j = k"
  by (auto simp: find_job_def dest: find_row_Some)

lemma find_job_None: "find_job k jobs = None \<longleftrightarrow> k \<notin> dj_item_id ` set jobs"
  by (auto simp: find_job_def table_simps)

lemma find_job_append: "find_job k (jobs @ [j]) = (case find_job k jobs of Some x \<Rightarrow> Some x
    | None \<Rightarrow> if dj_item_id j = k then Some j else None)"
  by (cases "find_job k jobs") (auto simp: find_job_def find_row_append)

lemma insert_job_keeps: "find_job k jobs = Some j \<Longrightarrow> find_job k (insert_job x jobs) = Some j"
  by (simp add: insert_job_def find_job_append)

lemma insert_job_found: "\<exists>j. find_job (dj_item_id x) (insert_job x jobs) = Some j"
  by (cases "find_job (dj_item_id x) jobs") (auto simp: insert_job_def find_job_append)

lemma insert_job_wf: "jobs_wf jobs \<Longrightarrow> jobs_wf (insert_job x jobs)"
  by (auto simp: insert_job_def jobs_wf_def find_job_None)

lemma stage_of_text: "stage_of (stage_text st) = Some st"
  by (cases st) (simp_all add: stage_of_def stages_def)

lemma stage_of_Some: "stage_of s = Some st \<longleftrightarrow> s = stage_text st"
proof
  assume "stage_of s = Some st"
  then show "s = stage_text st" by (auto simp: stage_of_def find_Some_iff)
next
  assume "s = stage_text st"
  then show "stage_of s = Some st" by (simp add: stage_of_text)
qed

lemma set_stage_wf: "set_stage item stage error now jobs = Inr (jobs', j) \<Longrightarrow> jobs_wf jobs \<Longrightarrow> jobs_wf jobs'"
  by (auto simp: set_stage_def err_simps Let_def jobs_wf_def job_staged.keys_kept split: if_splits)

lemma find_staged:
  "find_job k (update_rows (\<lambda>j. dj_item_id j = item) (staged st error now) jobs) =
   (if k = item then map_option (staged st error now) (find_job k jobs) else find_job k jobs)"
  unfolding find_job_def job_staged.find_updated
  by (cases "find_row (\<lambda>j. dj_item_id j = k) jobs") (auto dest: find_row_Some)

lemma set_stage_find:
  assumes "set_stage item stage error now jobs = Inr (jobs', j)"
  shows "find_job item jobs' = Some j \<and> stage_of stage = Some (dj_stage j) \<and> dj_error j = error \<and>
         (\<forall>k. k \<noteq> item \<longrightarrow> find_job k jobs' = find_job k jobs)"
proof -
  obtain st where st: "stage_of stage = Some st" using assms by (cases "stage_of stage") (auto simp: set_stage_def)
  obtain j0 where j0: "find_job item jobs = Some j0"
    using assms st by (cases "find_job item jobs") (auto simp: set_stage_def)
  show ?thesis
  proof (cases "dj_stage j0 = st \<and> dj_error j0 = error")
    case True
    with assms st j0 show ?thesis by (auto simp: set_stage_def)
  next
    case False
    with assms st j0 have "jobs' = update_rows (\<lambda>j. dj_item_id j = item) (staged st error now) jobs"
      "j = staged st error now j0" by (auto simp: set_stage_def Let_def find_staged)
    with st j0 show ?thesis by (simp add: find_staged staged_def)
  qed
qed

end
