(* ===== verification/Outside.thy ===== *)
theory Outside
  imports DeletionJobs MediaKeys
begin

text \<open>
  The worker's view of what is outside it: the media services over HTTP, the file system,
  the clocks, and the other processes that share the database.  An \<open>env\<close> holds one function
  per kind of call, over a world of any type; what they answer is not constrained.  A
  coroutine of the worker is an \<open>act\<close>: it passes on the state of the coordinator, which
  survives an exception because every statement on the database is committed on its own.
  \<open>co_log\<close> records the calls in order, each with the tables as they were when it was made;
  the code does not read it.
\<close>

section \<open>Paths\<close>

text \<open>\<open>PurePosixPath\<close>: the root (empty, \<open>/\<close> or \<open>//\<close>) and the parts.\<close>

record posix =
  px_root :: string
  px_parts :: "string list"

definition posix_of :: "string \<Rightarrow> posix" where
  "posix_of s =
     \<lparr>px_root = (if starts_with ''//'' s \<and> \<not> starts_with ''///'' s then ''//''
                 else if starts_with ''/'' s then ''/'' else []),
      px_parts = filter (\<lambda>w. w \<noteq> [] \<and> w \<noteq> ''.'') (split_on CHR ''/'' s)\<rparr>"

definition posix_text :: "posix \<Rightarrow> string" where
  "posix_text p =
     (if px_root p = [] \<and> px_parts p = [] then ''.'' else px_root p @ join_with ''/'' (px_parts p))"

definition posix_join :: "posix \<Rightarrow> string \<Rightarrow> posix" where
  "posix_join p s = p\<lparr>px_parts := px_parts p @ px_parts (posix_of s)\<rparr>"

definition absolute :: "posix \<Rightarrow> bool" where
  "absolute p = (px_root p \<noteq> [])"

definition relative_to :: "posix \<Rightarrow> posix \<Rightarrow> bool" where
  "relative_to p q = (px_root p = px_root q \<and> take (length (px_parts q)) (px_parts p) = px_parts q)"

definition parent_of :: "posix \<Rightarrow> posix" where
  "parent_of p = p\<lparr>px_parts := butlast (px_parts p)\<rparr>"

text \<open>\<open>(path, *path.parents)\<close>\<close>

definition with_parents :: "posix \<Rightarrow> posix list" where
  "with_parents p = map (\<lambda>n. p\<lparr>px_parts := take n (px_parts p)\<rparr>) (rev [0..<Suc (length (px_parts p))])"

definition name_of :: "posix \<Rightarrow> string" where
  "name_of p = (if px_parts p = [] then [] else last (px_parts p))"

definition stem_of :: "posix \<Rightarrow> string" where
  "stem_of p =
     (let name = name_of p; tail = rev (takeWhile (\<lambda>c. c \<noteq> CHR ''.'') (rev name))
      in if length tail + 1 < length name \<and> tail \<noteq> [] then take (length name - length tail - 1) name
         else name)"

definition suffix_of :: "posix \<Rightarrow> string" where
  "suffix_of p = drop (length (stem_of p)) (name_of p)"

section \<open>Numbers and equality\<close>

definition show_int :: "int \<Rightarrow> string" where
  "show_int n = (if n < 0 then CHR ''-'' # show_nat (nat (- n)) else show_nat (nat n))"

text \<open>
  Python's \<open>==\<close> on decoded JSON: numbers compare by value (\<open>True\<close> is 1), objects without
  regard to order, and a \<open>NaN\<close> equals nothing.
\<close>

fun same_numbers :: "json \<Rightarrow> json" where
  "same_numbers (JBool b) = JFloat (Fin (if b then 1 else 0))"
| "same_numbers (JInt n) = JFloat (Fin (of_int n))"
| "same_numbers (JList xs) = JList (map same_numbers xs)"
| "same_numbers (JObj d) = JObj (map (\<lambda>(k, v). (k, same_numbers v)) d)"
| "same_numbers v = v"

fun no_nan :: "json \<Rightarrow> bool" where
  "no_nan (JFloat x) = (x \<noteq> NaN)"
| "no_nan (JList xs) = list_all no_nan xs"
| "no_nan (JObj d) = list_all (\<lambda>(k, v). no_nan v) d"
| "no_nan v = True"

definition py_eq :: "json \<Rightarrow> json \<Rightarrow> bool" where
  "py_eq a b = (no_nan a \<and> same_numbers (sort_json a) = same_numbers (sort_json b))"

fun hashable :: "json \<Rightarrow> bool" where
  "hashable (JList xs) = False"
| "hashable (JObj d) = False"
| "hashable v = True"

definition is_list :: "json \<Rightarrow> bool" where
  "is_list j = (as_list j \<noteq> None)"

section \<open>Calls and answers\<close>

datatype http_method = GET | POST | PUT | DELETE

datatype service = Radarr | Sonarr | Seerr | Gateway | Jellyfin

record request =
  hq_method :: http_method
  hq_service :: service
  hq_path :: string
  hq_params :: "(string \<times> json) list"
  hq_body :: json

record response =
  rp_status :: int
  rp_host :: string
  rp_error_text :: string
  rp_body :: "json option"

record file_stat =
  fs_device :: int
  fs_inode :: int
  fs_size :: int
  fs_mtime_ns :: int
  fs_nlink :: int
  fs_regular :: bool
  fs_directory :: bool

datatype stat_answer = Absent string | Unreadable string | Present file_stat

datatype unlink_answer = UnlinkOk | UnlinkAbsent string | UnlinkFailed string

datatype rmdir_answer = RmdirOk | NotEmpty | RmdirFailed string

text \<open>
  \<open>e_http\<close> answers with the text of an \<open>httpx.HTTPError\<close> or with a response, whose
  \<open>rp_error_text\<close> is the text of the exception \<open>raise_for_status\<close> would raise and whose
  \<open>rp_body\<close> is \<open>None\<close> when \<open>json()\<close> raises; while it waits, other processes may change
  the database.  An \<open>Inl\<close>, \<open>Absent\<close>,
  \<open>Unreadable\<close>, \<open>UnlinkAbsent\<close>, \<open>UnlinkFailed\<close> or \<open>RmdirFailed\<close> answer of the file system holds the text of the \<open>OSError\<close>;
  \<open>e_listdir\<close> gives the names in a directory.  \<open>e_inside p q\<close> is \<open>p.resolve(strict=False).is_relative_to(q.resolve(strict=True))\<close>.  \<open>e_snapshot\<close> gives what a mount check reads: the JSON
  of the storage snapshot (\<open>None\<close> when it cannot be read), the time, and the answer of
  the mount test.
\<close>

record 'w env =
  e_http :: "'w \<Rightarrow> db \<Rightarrow> request \<Rightarrow> (string + response) \<times> db \<times> 'w"
  e_snapshot :: "'w \<Rightarrow> (json option \<times> rat \<times> bool) \<times> 'w"
  e_inside :: "'w \<Rightarrow> posix \<Rightarrow> posix \<Rightarrow> (string + bool) \<times> 'w"
  e_symlink :: "'w \<Rightarrow> posix \<Rightarrow> (string + bool) \<times> 'w"
  e_exists :: "'w \<Rightarrow> posix \<Rightarrow> (string + bool) \<times> 'w"
  e_directory :: "'w \<Rightarrow> posix \<Rightarrow> (string + bool) \<times> 'w"
  e_stat :: "'w \<Rightarrow> posix \<Rightarrow> stat_answer \<times> 'w"
  e_lstat :: "'w \<Rightarrow> posix \<Rightarrow> stat_answer \<times> 'w"
  e_listdir :: "'w \<Rightarrow> posix \<Rightarrow> string list option \<times> 'w"
  e_unlink :: "'w \<Rightarrow> posix \<Rightarrow> unlink_answer \<times> 'w"
  e_rmdir :: "'w \<Rightarrow> posix \<Rightarrow> rmdir_answer \<times> 'w"
  e_monotonic :: "'w \<Rightarrow> rat \<times> 'w"
  e_now :: "'w \<Rightarrow> time \<times> 'w"

datatype call = Sent request | Unlink posix | Rmdir posix

record logged =
  lg_call :: call
  lg_jobs :: "deletion_job list"
  lg_db :: db

record 'w co =
  co_world :: 'w
  co_jobs :: "deletion_job list"
  co_db :: db
  co_notify_at :: "(string \<times> rat) list"
  co_refresh_at :: "(string \<times> rat) list"
  co_unlink_since :: "(string \<times> rat) list"
  co_log :: "logged list"

text \<open>
  The exceptions \<open>run_once\<close> tells apart: \<open>DeletionBlocked\<close>, \<open>DeletionRetryable\<close>, a transport
  or file-system error it also retries (\<open>Transient\<close>), and any other (\<open>Unexpected\<close>), which
  passes through it.  \<open>OutOfFuel\<close> is no exception of the code: a loop of the model that
  has used its fuel fails with it.
\<close>

datatype failure = Blocking string | Retryable string | Transient string | Unexpected | OutOfFuel

type_synonym ('w, 'a) act = "'w co \<Rightarrow> (failure + 'a) \<times> 'w co"

definition pure_act :: "failure + 'a \<Rightarrow> ('w, 'a) act" where
  "pure_act r s = (r, s)"

definition ret :: "'a \<Rightarrow> ('w, 'a) act" where
  "ret x = pure_act (Inr x)"

definition fail :: "failure \<Rightarrow> ('w, 'a) act" where
  "fail e = pure_act (Inl e)"

definition abind :: "('w, 'a) act \<Rightarrow> ('a \<Rightarrow> ('w, 'b) act) \<Rightarrow> ('w, 'b) act" where
  "abind m f s = (case m s of (Inl e, s') \<Rightarrow> (Inl e, s') | (Inr x, s') \<Rightarrow> f x s')"

definition check :: "bool \<Rightarrow> failure \<Rightarrow> ('w, unit) act" where
  "check ok e = (if ok then ret () else fail e)"

definition read_state :: "('w co \<Rightarrow> 'a) \<Rightarrow> ('w, 'a) act" where
  "read_state f s = (Inr (f s), s)"

definition write_state :: "('w co \<Rightarrow> 'w co) \<Rightarrow> ('w, unit) act" where
  "write_state f s = (Inr (), f s)"

text \<open>A query of the world that changes nothing the coordinator keeps.\<close>

definition query :: "('w \<Rightarrow> 'a \<times> 'w) \<Rightarrow> ('w, 'a) act" where
  "query f s = (case f (co_world s) of (x, w) \<Rightarrow> (Inr x, s\<lparr>co_world := w\<rparr>))"

text \<open>A query whose \<open>OSError\<close> the caller does not catch.\<close>

definition ask :: "('w \<Rightarrow> (string + 'a) \<times> 'w) \<Rightarrow> ('w, 'a) act" where
  "ask f = abind (query f) (\<lambda>r. case r of Inl text \<Rightarrow> fail (Transient text) | Inr x \<Rightarrow> ret x)"

definition record_call :: "call \<Rightarrow> 'w co \<Rightarrow> 'w co" where
  "record_call c s = s\<lparr>co_log := co_log s @ [\<lparr>lg_call = c, lg_jobs = co_jobs s, lg_db = co_db s\<rparr>]\<rparr>"

definition http :: "'w env \<Rightarrow> request \<Rightarrow> ('w, response) act" where
  "http env rq s =
     (let s' = record_call (Sent rq) s in
      case e_http env (co_world s') (co_db s') rq of
        (Inl text, d, w) \<Rightarrow> (Inl (Transient text), s'\<lparr>co_db := d, co_world := w\<rparr>)
      | (Inr rp, d, w) \<Rightarrow> (Inr rp, s'\<lparr>co_db := d, co_world := w\<rparr>))"

definition unlink :: "'w env \<Rightarrow> posix \<Rightarrow> ('w, unlink_answer) act" where
  "unlink env p s = query (\<lambda>w. e_unlink env w p) (record_call (Unlink p) s)"

definition rmdir :: "'w env \<Rightarrow> posix \<Rightarrow> ('w, rmdir_answer) act" where
  "rmdir env p s = query (\<lambda>w. e_rmdir env w p) (record_call (Rmdir p) s)"

fun for_each :: "('a \<Rightarrow> ('w, unit) act) \<Rightarrow> 'a list \<Rightarrow> ('w, unit) act" where
  "for_each f [] = ret ()"
| "for_each f (x # xs) = abind (f x) (\<lambda>_. for_each f xs)"

section \<open>Results of acts\<close>

named_theorems act_simps \<open>when an act returns\<close>

lemma abind_Inr [act_simps]: "abind m f s = (Inr y, s') \<longleftrightarrow> (\<exists>x s1. m s = (Inr x, s1) \<and> f x s1 = (Inr y, s'))"
  by (cases "m s") (auto simp: abind_def split: sum.splits)

lemma pure_act_Inr [act_simps]: "pure_act r s = (Inr x, s') \<longleftrightarrow> r = Inr x \<and> s' = s"
  by (auto simp: pure_act_def)

lemma ret_Inr [act_simps]: "ret x s = (Inr y, s') \<longleftrightarrow> y = x \<and> s' = s"
  by (auto simp: ret_def pure_act_def)

lemma fail_Inr [act_simps]: "fail e s \<noteq> (Inr y, s')"
  by (simp add: fail_def pure_act_def)

lemma check_Inr [act_simps]: "check b e s = (Inr y, s') \<longleftrightarrow> b \<and> s' = s"
  by (auto simp: check_def ret_Inr fail_Inr)

lemma read_state_Inr [act_simps]: "read_state f s = (Inr x, s') \<longleftrightarrow> x = f s \<and> s' = s"
  by (auto simp: read_state_def)

lemma write_state_Inr [act_simps]: "write_state f s = (Inr x, s') \<longleftrightarrow> s' = f s"
  by (auto simp: write_state_def)

section \<open>Invariants of acts\<close>

text \<open>
  An act keeps a predicate on the state, however it ends, and does not run out of fuel.
\<close>

definition fueled :: "failure \<Rightarrow> bool" where
  "fueled e = (e \<noteq> OutOfFuel)"

definition fuel_free :: "failure + 'a \<Rightarrow> bool" where
  "fuel_free r = (r \<noteq> Inl OutOfFuel)"

definition keeps :: "('w co \<Rightarrow> bool) \<Rightarrow> ('w, 'a) act \<Rightarrow> bool" where
  "keeps I m = (\<forall>s. I s \<longrightarrow> I (snd (m s)) \<and> fuel_free (fst (m s)))"

named_theorems keeps_rules \<open>introduction rules for invariants of acts\<close>

lemma fueled_errors [keeps_rules]:
  "fueled (Blocking text)" "fueled (Retryable text)" "fueled (Transient text)" "fueled Unexpected"
  by (simp_all add: fueled_def)

lemma fueled_if [keeps_rules]: "fueled e \<Longrightarrow> fueled e' \<Longrightarrow> fueled (if b then e else e')"
  by simp

lemma fuel_free_Inl [keeps_rules]: "fueled e \<Longrightarrow> fuel_free (Inl e)"
  by (simp add: fuel_free_def fueled_def)

lemma fuel_free_Inr [keeps_rules]: "fuel_free (Inr x)"
  by (simp add: fuel_free_def)

lemma fuel_free_ebind [keeps_rules]: "fuel_free r \<Longrightarrow> (\<And>x. fuel_free (f x)) \<Longrightarrow> fuel_free (ebind r f)"
  by (cases r) (auto simp: fuel_free_def)

lemma fuel_free_guard [keeps_rules]: "fueled e \<Longrightarrow> fuel_free (guard b e)"
  by (simp add: fuel_free_def guard_def fueled_def)

lemma fuel_free_emap [keeps_rules]: "(\<And>x. fuel_free (f x)) \<Longrightarrow> fuel_free (emap f xs)"
  by (induction xs) (auto intro!: keeps_rules)

lemma fuel_free_if [keeps_rules]: "fuel_free r \<Longrightarrow> fuel_free r' \<Longrightarrow> fuel_free (if b then r else r')"
  by simp

lemma fuel_free_option [keeps_rules]:
  "fuel_free r \<Longrightarrow> (\<And>x. fuel_free (f x)) \<Longrightarrow> fuel_free (case v of None \<Rightarrow> r | Some x \<Rightarrow> f x)"
  by (cases v) auto

lemma fuel_free_prod [keeps_rules]: "(\<And>x y. fuel_free (f x y)) \<Longrightarrow> fuel_free (case v of (x, y) \<Rightarrow> f x y)"
  by (cases v) auto

lemma fuel_free_list [keeps_rules]:
  "fuel_free r \<Longrightarrow> (\<And>x xs. fuel_free (f x xs)) \<Longrightarrow> fuel_free (case v of [] \<Rightarrow> r | x # xs \<Rightarrow> f x xs)"
  by (cases v) auto

lemma keepsD: "keeps I m \<Longrightarrow> I s \<Longrightarrow> m s = (r, s') \<Longrightarrow> I s' \<and> fuel_free r"
  by (auto simp: keeps_def)

lemma keeps_pure [keeps_rules]: "fuel_free r \<Longrightarrow> keeps I (pure_act r)"
  by (simp add: keeps_def pure_act_def)

lemma keeps_ret [keeps_rules]: "keeps I (ret x)"
  unfolding ret_def by (intro keeps_rules)

lemma keeps_fail [keeps_rules]: "fueled e \<Longrightarrow> keeps I (fail e)"
  unfolding fail_def by (intro keeps_rules)

lemma keeps_check [keeps_rules]: "fueled e \<Longrightarrow> keeps I (check b e)"
  by (simp add: check_def keeps_ret keeps_fail)

lemma keeps_read [keeps_rules]: "keeps I (read_state f)"
  by (simp add: keeps_def read_state_def fuel_free_def)

lemma keeps_bind_value:
  assumes "keeps I m" and "\<And>s x s'. m s = (Inr x, s') \<Longrightarrow> keeps I (f x)"
  shows "keeps I (abind m f)"
  unfolding keeps_def
proof (intro allI impI)
  fix s
  assume I: "I s"
  obtain r s' where m: "m s = (r, s')" by (cases "m s")
  have "I s' \<and> fuel_free r" by (rule keepsD [OF assms(1) I m])
  then show "I (snd (abind m f s)) \<and> fuel_free (fst (abind m f s))"
    using assms(2) m by (cases r) (auto simp: abind_def keeps_def fuel_free_def)
qed

lemma keeps_bind [keeps_rules]: "keeps I m \<Longrightarrow> (\<And>x. keeps I (f x)) \<Longrightarrow> keeps I (abind m f)"
  by (rule keeps_bind_value)

lemma keeps_if [keeps_rules]: "(b \<Longrightarrow> keeps I m) \<Longrightarrow> (\<not> b \<Longrightarrow> keeps I n) \<Longrightarrow> keeps I (if b then m else n)"
  by simp

lemma keeps_option [keeps_rules]:
  "(v = None \<Longrightarrow> keeps I m) \<Longrightarrow> (\<And>x. v = Some x \<Longrightarrow> keeps I (f x)) \<Longrightarrow>
   keeps I (case v of None \<Rightarrow> m | Some x \<Rightarrow> f x)"
  by (cases v) auto

lemma keeps_prod [keeps_rules]: "(\<And>x y. v = (x, y) \<Longrightarrow> keeps I (f x y)) \<Longrightarrow> keeps I (case v of (x, y) \<Rightarrow> f x y)"
  by (cases v) auto

lemma keeps_stat [keeps_rules]:
  "(\<And>e. keeps I (m e)) \<Longrightarrow> (\<And>e. keeps I (g e)) \<Longrightarrow> (\<And>st. keeps I (f st)) \<Longrightarrow>
   keeps I (case v of Absent e \<Rightarrow> m e | Unreadable e \<Rightarrow> g e | Present st \<Rightarrow> f st)"
  by (cases v) auto

lemma keeps_unlink_answer [keeps_rules]:
  "keeps I m \<Longrightarrow> (\<And>e. keeps I (n e)) \<Longrightarrow> (\<And>e. keeps I (g e)) \<Longrightarrow>
   keeps I (case v of UnlinkOk \<Rightarrow> m | UnlinkAbsent e \<Rightarrow> n e | UnlinkFailed e \<Rightarrow> g e)"
  by (cases v) auto

lemma keeps_rmdir_answer [keeps_rules]:
  "keeps I m \<Longrightarrow> keeps I n \<Longrightarrow> (\<And>e. keeps I (g e)) \<Longrightarrow>
   keeps I (case v of RmdirOk \<Rightarrow> m | NotEmpty \<Rightarrow> n | RmdirFailed e \<Rightarrow> g e)"
  by (cases v) auto

lemma keeps_for_each [keeps_rules]: "(\<And>x. keeps I (f x)) \<Longrightarrow> keeps I (for_each f xs)"
  by (induction xs) (auto intro!: keeps_rules)

text \<open>
  The invariants of the flow speak of the tables and of the calls made since some point:
  the jobs are those given, the database satisfies \<open>D\<close>, and every new call satisfies \<open>ok\<close>.
\<close>

definition since :: "deletion_job list \<Rightarrow> (db \<Rightarrow> bool) \<Rightarrow> (logged \<Rightarrow> bool) \<Rightarrow> logged list \<Rightarrow> 'w co \<Rightarrow> bool" where
  "since jobs D ok before s =
     (co_jobs s = jobs \<and> D (co_db s) \<and> (\<exists>calls. co_log s = before @ calls \<and> (\<forall>c\<in>set calls. ok c)))"

lemma keeps_query [keeps_rules]: "keeps (since jobs D ok before) (query f)"
  by (auto simp: keeps_def since_def query_def fuel_free_def split: prod.splits)

lemma keeps_sum [keeps_rules]:
  "(\<And>e. keeps I (g e)) \<Longrightarrow> (\<And>x. keeps I (f x)) \<Longrightarrow> keeps I (case v of Inl e \<Rightarrow> g e | Inr x \<Rightarrow> f x)"
  by (cases v) auto

lemma keeps_ask [keeps_rules]: "keeps (since jobs D ok before) (ask f)"
  unfolding ask_def by (intro keeps_rules)

lemma keeps_write [keeps_rules]:
  "(\<And>s. co_jobs (f s) = co_jobs s \<and> co_db (f s) = co_db s \<and> co_log (f s) = co_log s) \<Longrightarrow>
   keeps (since jobs D ok before) (write_state f)"
  by (simp add: keeps_def since_def write_state_def fuel_free_def)

definition env_keeps :: "'w env \<Rightarrow> (db \<Rightarrow> bool) \<Rightarrow> bool" where
  "env_keeps env D = (\<forall>w d rq. D d \<longrightarrow> D (fst (snd (e_http env w d rq))))"

lemma since_record:
  "since jobs D ok before s \<Longrightarrow> (\<And>d. D d \<Longrightarrow> ok \<lparr>lg_call = c, lg_jobs = jobs, lg_db = d\<rparr>) \<Longrightarrow>
   since jobs D ok before (record_call c s)"
  by (auto simp: since_def record_call_def)

lemma keeps_http:
  assumes "env_keeps env D" and "\<And>d. D d \<Longrightarrow> ok \<lparr>lg_call = Sent rq, lg_jobs = jobs, lg_db = d\<rparr>"
  shows "keeps (since jobs D ok before) (http env rq)"
  unfolding keeps_def
proof (intro allI impI)
  fix s :: "'a co"
  let ?s = "record_call (Sent rq) s"
  assume "since jobs D ok before s"
  then have s: "since jobs D ok before ?s" by (rule since_record) (rule assms(2))
  obtain r d w where e: "e_http env (co_world ?s) (co_db ?s) rq = (r, d, w)" by (metis prod_cases3)
  moreover have "D (fst (snd (e_http env (co_world ?s) (co_db ?s) rq)))"
    using assms(1) s unfolding env_keeps_def since_def by blast
  ultimately have "D d" by simp
  with s e show "since jobs D ok before (snd (http env rq s)) \<and> fuel_free (fst (http env rq s))"
    by (cases r) (auto simp: http_def Let_def since_def fuel_free_def)
qed

lemma keeps_recorded:
  assumes "\<And>d. D d \<Longrightarrow> ok \<lparr>lg_call = c, lg_jobs = jobs, lg_db = d\<rparr>"
  shows "keeps (since jobs D ok before) (\<lambda>s. query f (record_call c s))"
proof -
  have "since jobs D ok before (record_call c s)" if "since jobs D ok before s" for s :: "'a co"
    using since_record assms that by blast
  then show ?thesis using keeps_query [of jobs D ok before f] by (simp add: keeps_def)
qed

lemma keeps_unlink:
  assumes "\<And>d. D d \<Longrightarrow> ok \<lparr>lg_call = Unlink p, lg_jobs = jobs, lg_db = d\<rparr>"
  shows "keeps (since jobs D ok before) (unlink env p)"
  unfolding unlink_def [abs_def] by (rule keeps_recorded) (rule assms)

lemma keeps_rmdir:
  assumes "\<And>d. D d \<Longrightarrow> ok \<lparr>lg_call = Rmdir p, lg_jobs = jobs, lg_db = d\<rparr>"
  shows "keeps (since jobs D ok before) (rmdir env p)"
  unfolding rmdir_def [abs_def] by (rule keeps_recorded) (rule assms)

text \<open>An act that fails keeps the predicate; one that returns establishes another.\<close>

definition ends :: "('w co \<Rightarrow> bool) \<Rightarrow> ('w, 'a) act \<Rightarrow> ('a \<Rightarrow> 'w co \<Rightarrow> bool) \<Rightarrow> bool" where
  "ends I m Q =
     (\<forall>s. I s \<longrightarrow> (case m s of (Inl e, s') \<Rightarrow> I s' \<and> fueled e | (Inr x, s') \<Rightarrow> Q x s'))"

lemma ends_bind_value:
  assumes "keeps I m" and "\<And>s x s'. m s = (Inr x, s') \<Longrightarrow> ends I (f x) Q"
  shows "ends I (abind m f) Q"
  unfolding ends_def
proof (intro allI impI)
  fix s
  assume I: "I s"
  obtain r s' where m: "m s = (r, s')" by (cases "m s")
  from keepsD [OF assms(1) I m] have "I s'" and "fuel_free r" by auto
  then show "case abind m f s of (Inl e, s') \<Rightarrow> I s' \<and> fueled e | (Inr x, s') \<Rightarrow> Q x s'"
    using m assms(2) by (cases r) (auto simp: abind_def ends_def fuel_free_def fueled_def)
qed

lemma ends_bind: "keeps I m \<Longrightarrow> (\<And>x. ends I (f x) Q) \<Longrightarrow> ends I (abind m f) Q"
  by (rule ends_bind_value)

lemma ends_seq:
  assumes m: "ends I m J" and f: "\<And>x. ends (J' x) (f x) Q" and "\<And>x s. J x s \<Longrightarrow> J' x s"
    and weaker: "\<And>x s. J' x s \<Longrightarrow> I s"
  shows "ends I (abind m f) Q"
  unfolding ends_def
proof (intro allI impI)
  fix s
  assume I: "I s"
  obtain r s' where ms: "m s = (r, s')" by (cases "m s")
  show "case abind m f s of (Inl e, s') \<Rightarrow> I s' \<and> fueled e | (Inr x, s') \<Rightarrow> Q x s'"
  proof (cases r)
    case (Inl e)
    with m I ms show ?thesis by (auto simp: ends_def abind_def)
  next
    case (Inr x)
    with m I ms have "J' x s'" using assms(3) by (auto simp: ends_def)
    moreover obtain r' s2 where fs: "f x s' = (r', s2)" by (cases "f x s'")
    ultimately have "case r' of Inl e \<Rightarrow> J' x s2 \<and> fueled e | Inr y \<Rightarrow> Q y s2"
      using f [of x] unfolding ends_def by (fastforce split: sum.splits)
    with Inr ms fs show ?thesis by (auto simp: abind_def split: sum.splits intro: weaker)
  qed
qed

lemma ends_mono: "ends I m Q \<Longrightarrow> (\<And>x s. Q x s \<Longrightarrow> Q' x s) \<Longrightarrow> ends I m Q'"
  by (auto simp: ends_def split: prod.splits sum.splits)

lemma ends_of_keeps: "keeps I m \<Longrightarrow> ends I m (\<lambda>_. I)"
  unfolding ends_def keeps_def
  by (fastforce simp: fuel_free_def fueled_def split: prod.splits sum.splits)

lemma ends_fail: "fueled e \<Longrightarrow> ends I (fail e) Q"
  by (auto simp: ends_def fail_def pure_act_def)

lemma ends_if: "(b \<Longrightarrow> ends I m Q) \<Longrightarrow> (\<not> b \<Longrightarrow> ends I n Q) \<Longrightarrow> ends I (if b then m else n) Q"
  by simp

end
