(* ===== verification/DeletionCapture.thy ===== *)
theory DeletionCapture
  imports Outside
begin

text \<open>
  \<open>worker/deletion_coordinator.py\<close>, the checks the deletion of a movie or an episode
  rests on: the captured payload, the mount, the captured file, the reservation and permit
  behind it, and what a media service answers.  \<open>storage_registry\<close> is \<open>None\<close>: one
  file system, and a captured path is its physical path.
\<close>

section \<open>Configuration\<close>

record config =
  cf_media_root :: posix
  cf_data_root :: posix
  cf_filesystem_id :: string

definition blocked :: "string \<Rightarrow> ('w, 'a) act" where
  "blocked text = fail (Blocking text)"

definition retry :: "string \<Rightarrow> ('w, 'a) act" where
  "retry text = fail (Retryable text)"

section \<open>The captured payload\<close>

text \<open>\<open>movie:tmdb:([1-9][0-9]*)$\<close>\<close>

definition movie_number :: "string \<Rightarrow> string option" where
  "movie_number s =
     (case strip_prefix ''movie:tmdb:'' s of None \<Rightarrow> None | Some n \<Rightarrow> if posnum n then Some n else None)"

text \<open>\<open>episode:tmdb:([1-9][0-9]*):S([0-9]{2})E([0-9]{2})$\<close>\<close>

definition episode_numbers :: "string \<Rightarrow> (string \<times> string \<times> string) option" where
  "episode_numbers s =
     (case strip_prefix ''episode:tmdb:'' s of
        None \<Rightarrow> None
      | Some r \<Rightarrow>
          (case strip_prefix '':'' (dropWhile is_digit r) of
             None \<Rightarrow> None
           | Some scope \<Rightarrow>
               (case episode_scope_any scope of
                  None \<Rightarrow> None
                | Some (a, b) \<Rightarrow>
                    if posnum (takeWhile is_digit r) \<and> length a = 2 \<and> length b = 2
                    then Some (takeWhile is_digit r, a, b) else None)))"

text \<open>\<open>int(digits)\<close>: more than 4300 digits raise.\<close>

definition int_of_digits :: "string \<Rightarrow> failure + int" where
  "int_of_digits s = (if length s > 4300 then Inl Unexpected else Inr (int (to_nat s)))"

definition positive_int :: "json \<Rightarrow> bool" where
  "positive_int j = (case as_int j of Some n \<Rightarrow> 0 < n | None \<Rightarrow> False)"

definition natural_int :: "json \<Rightarrow> bool" where
  "natural_int j = (case as_int j of Some n \<Rightarrow> 0 \<le> n | None \<Rightarrow> False)"

definition identity_keys :: "string list" where
  "identity_keys = [''device'', ''inode'', ''size'', ''mtime_ns'']"

text \<open>\<open>DeletionCoordinator._payload\<close>: the identity of the item, then the identity of its file.\<close>

definition item_identity :: "deletion_job \<Rightarrow> (string \<times> json) list \<Rightarrow> failure + string list" where
  "item_identity job p =
     (if dj_item_type job = ''Movie'' then
        (case Option.bind (as_str (jget p ''media_key'')) movie_number of
           None \<Rightarrow> Inl (Blocking ''movie identity is invalid'')
         | Some n \<Rightarrow>
             ebind (int_of_digits n) (\<lambda>tmdb.
             if py_eq (jget p ''tmdb_id'') (JInt tmdb)
             then Inr [''radarr_id'', ''radarr_file_id'', ''tmdb_id'']
             else Inl (Blocking ''movie identity is invalid'')))
      else
        (case Option.bind (as_str (jget p ''media_key'')) episode_numbers of
           None \<Rightarrow> Inl (Blocking ''episode identity is invalid'')
         | Some (n, s, e) \<Rightarrow>
             ebind (int_of_digits n) (\<lambda>tmdb.
             if py_eq (jget p ''series_tmdb_id'') (JInt tmdb) \<and>
                py_eq (jget p ''season'') (JInt (int (to_nat s))) \<and>
                py_eq (jget p ''episode'') (JInt (int (to_nat e)))
             then Inr [''sonarr_series_id'', ''sonarr_episode_id'', ''sonarr_episode_file_id'']
             else Inl (Blocking ''episode identity is invalid''))))"

definition captured_payload :: "deletion_job \<Rightarrow> failure + (string \<times> json) list" where
  "captured_payload job =
     (case as_obj (dj_payload job) of
        None \<Rightarrow> Inl (Blocking ''unsupported or incomplete captured item'')
      | Some p \<Rightarrow>
          if dj_item_type job \<noteq> ''Movie'' \<and> dj_item_type job \<noteq> ''Episode''
          then Inl (Blocking ''unsupported or incomplete captured item'')
          else
            ebind (item_identity job p) (\<lambda>ids.
            if list_ex (\<lambda>k. \<not> positive_int (jget p k)) ids
            then Inl (Blocking ''Arr identity is incomplete'')
            else
              (case as_obj (jget p ''file_identity'') of
                 None \<Rightarrow> Inl (Blocking ''captured file identity is incomplete'')
               | Some i \<Rightarrow>
                   if list_ex (\<lambda>k. \<not> natural_int (jget i k)) identity_keys
                   then Inl (Blocking ''captured file identity is incomplete'')
                   else Inr p)))"

text \<open>\<open>payload[name]\<close> where the checks above have established an \<open>int\<close>.\<close>

definition pint :: "(string \<times> json) list \<Rightarrow> string \<Rightarrow> int" where
  "pint p k = (case as_int (jget p k) of Some n \<Rightarrow> n | None \<Rightarrow> 0)"

definition pstr :: "(string \<times> json) list \<Rightarrow> string \<Rightarrow> string" where
  "pstr p k = (case as_str (jget p k) of Some s \<Rightarrow> s | None \<Rightarrow> [])"

definition pobj :: "(string \<times> json) list \<Rightarrow> string \<Rightarrow> (string \<times> json) list" where
  "pobj p k = (case as_obj (jget p k) of Some d \<Rightarrow> d | None \<Rightarrow> [])"

text \<open>
  \<open>f"{value}"\<close>, for a number equal to an \<open>int\<close> (the text of a float is exact below \<open>10 ^ 16\<close>),
  and \<open>f"{value:02d}"\<close>, which raises on what is neither an \<open>int\<close> nor a \<open>bool\<close>.
\<close>

fun plain_text :: "json \<Rightarrow> string" where
  "plain_text (JInt n) = show_int n"
| "plain_text (JBool b) = (if b then ''True'' else ''False'')"
| "plain_text (JFloat (Fin r)) = show_int \<lfloor>r\<rfloor> @ ''.0''"
| "plain_text _ = []"

fun two_digit_text :: "json \<Rightarrow> failure + string" where
  "two_digit_text (JInt n) = Inr (if n < 0 then show_int n else show02 (nat n))"
| "two_digit_text (JBool b) = Inr (if b then ''01'' else ''00'')"
| "two_digit_text _ = Inl Unexpected"

definition scope_text :: "(string \<times> json) list \<Rightarrow> failure + string" where
  "scope_text p =
     ebind (two_digit_text (jget p ''season'')) (\<lambda>s.
     ebind (two_digit_text (jget p ''episode'')) (\<lambda>e. Inr (''S'' @ s @ ''E'' @ e)))"

section \<open>Mount and file\<close>

text \<open>\<open>_guard_mount\<close>\<close>

definition mount_valid :: "config \<Rightarrow> json \<Rightarrow> rat \<Rightarrow> bool \<Rightarrow> bool" where
  "mount_valid cf snapshot now mounted =
     (case as_obj snapshot of
        None \<Rightarrow> False
      | Some d \<Rightarrow>
          jget d ''filesystem_id'' = JStr (cf_filesystem_id cf) \<and>
          (case as_number (jget d ''measured_at'') of None \<Rightarrow> False | Some m \<Rightarrow> age_within now m 30) \<and>
          mounted)"

definition guard_mount :: "'w env \<Rightarrow> config \<Rightarrow> ('w, unit) act" where
  "guard_mount env cf =
     abind (query (e_snapshot env)) (\<lambda>(snapshot, now, mounted).
     case snapshot of
       None \<Rightarrow> retry ''media mount evidence unavailable''
     | Some j \<Rightarrow> check (mount_valid cf j now mounted) (Retryable ''media mount evidence is stale or mismatched''))"

definition library :: "config \<Rightarrow> deletion_job \<Rightarrow> posix" where
  "library cf job = posix_join (cf_media_root cf) (if dj_item_type job = ''Movie'' then ''movies'' else ''tv'')"

text \<open>The loop over the path and its parents, up to the data root.\<close>

fun no_symlink :: "'w env \<Rightarrow> string \<Rightarrow> posix \<Rightarrow> posix list \<Rightarrow> ('w, unit) act" where
  "no_symlink env text data_root [] = ret ()"
| "no_symlink env text data_root (c # cs) =
     abind (ask (\<lambda>w. e_symlink env w c)) (\<lambda>link.
     if link then blocked text
     else if c = data_root then ret ()
     else no_symlink env text data_root cs)"

definition same_identity :: "(string \<times> json) list \<Rightarrow> file_stat \<Rightarrow> bool" where
  "same_identity i st =
     (fs_device st = pint i ''device'' \<and> fs_inode st = pint i ''inode'' \<and>
      fs_size st = pint i ''size'' \<and> fs_mtime_ns st = pint i ''mtime_ns'')"

definition within_library :: "'w env \<Rightarrow> config \<Rightarrow> deletion_job \<Rightarrow> posix \<Rightarrow> ('w, unit) act" where
  "within_library env cf job path =
     (if absolute path \<and> path \<noteq> library cf job \<and> relative_to path (library cf job)
      then abind (query (\<lambda>w. e_inside env w path (library cf job))) (\<lambda>inside.
           case inside of
             Inl text \<Rightarrow> retry ''media library cannot be inspected''
           | Inr b \<Rightarrow> check b (Blocking ''captured file path escapes the expected library''))
      else blocked ''captured file path escapes the expected library'')"

text \<open>\<open>_file\<close>\<close>

definition captured_file ::
    "'w env \<Rightarrow> config \<Rightarrow> deletion_job \<Rightarrow> bool \<Rightarrow> ('w, posix \<times> file_stat option) act" where
  "captured_file env cf job must_exist =
     abind (pure_act (captured_payload job)) (\<lambda>p.
     case as_str (jget p ''file_path'') of
       None \<Rightarrow> blocked ''captured file path is absent''
     | Some raw \<Rightarrow>
         if raw = [] then blocked ''captured file path is absent''
         else
           let path = posix_of raw in
           abind (within_library env cf job path) (\<lambda>_.
           abind (no_symlink env ''captured media path contains a symlink'' (cf_data_root cf) (with_parents path)) (\<lambda>_.
           abind (query (\<lambda>w. e_stat env w path)) (\<lambda>answer.
           case answer of
             Absent text \<Rightarrow>
               if must_exist then blocked ''captured file disappeared before source cleanup''
               else ret (path, None)
           | Unreadable text \<Rightarrow> retry ''captured file cannot be inspected''
           | Present st \<Rightarrow>
               if \<not> fs_regular st then blocked ''captured file is not a regular file''
               else if \<not> same_identity (pobj p ''file_identity'') st
               then blocked ''captured file changed after Jellyfin deletion request''
               else ret (path, Some st)))))"

section \<open>The reservation and the permit\<close>

definition reservation_key :: "deletion_job \<Rightarrow> (string \<times> json) list \<Rightarrow> string" where
  "reservation_key job p =
     (if dj_item_type job = ''Movie'' then pstr p ''media_key''
      else ''season:tmdb:'' @ plain_text (jget p ''series_tmdb_id'') @ '':'' @ plain_text (jget p ''season''))"

definition item_scope :: "deletion_job \<Rightarrow> (string \<times> json) list \<Rightarrow> failure + string option" where
  "item_scope job p =
     (if dj_item_type job = ''Movie'' then Inr None else ebind (scope_text p) (\<lambda>s. Inr (Some s)))"

definition reservation_rows :: "db \<Rightarrow> string \<Rightarrow> (reservation_row \<times> request_row) list" where
  "reservation_rows d key =
     [(r, q). r \<leftarrow> reservations d, rs_media_key r = key, q \<leftarrow> requests d, rq_id q = rs_request_id r]"

text \<open>The permits that hold the scope themselves, then those of the packs that cover it.\<close>

definition scope_permits :: "db \<Rightarrow> string \<Rightarrow> string option \<Rightarrow> permit list" where
  "scope_permits d rid scope =
     filter (\<lambda>p. pm_reservation_id p = Some rid \<and> pm_scope_key p = scope \<and> live p \<and>
                 pm_probe_parent_id p = None) (permits d) @
     (case scope of
        None \<Rightarrow> []
      | Some s \<Rightarrow>
          [p. p \<leftarrow> permits d, pm_reservation_id p = Some rid \<and> live p \<and> pm_probe_parent_id p = None,
              e \<leftarrow> pack_episodes d, pk_parent_permit_id e = pm_id p \<and> pk_scope_key e = s])"

definition associated ::
    "config \<Rightarrow> string \<Rightarrow> string option \<Rightarrow> db \<Rightarrow>
     failure + string option \<times> string option \<times> string option" where
  "associated cf key scope d =
     (case reservation_rows d key of
        [] \<Rightarrow> Inr (None, None, None)
      | [(r, q)] \<Rightarrow>
          if rs_filesystem_id r \<noteq> cf_filesystem_id cf
          then Inl (Blocking ''reservation belongs to another media filesystem'')
          else
            (case scope_permits d (rs_id r) scope of
               [] \<Rightarrow> Inr (Some key, Some (rq_source_id q), None)
             | [p] \<Rightarrow>
                 if pm_state p \<noteq> Confirmed then Inl (Blocking ''torrent permit is not confirmed'')
                 else Inr (Some key, Some (rq_source_id q), Some (pm_token p))
             | _ \<Rightarrow> Inl (Blocking ''multiple active torrent permits match captured item''))
      | _ \<Rightarrow> Inl (Blocking ''more than one reservation matches captured item''))"

text \<open>\<open>_association\<close>\<close>

definition association ::
    "config \<Rightarrow> deletion_job \<Rightarrow> ('w, string option \<times> string option \<times> string option) act" where
  "association cf job =
     abind (pure_act (captured_payload job)) (\<lambda>p.
     abind (pure_act (item_scope job p)) (\<lambda>scope.
     abind (read_state co_db) (\<lambda>d.
     pure_act (associated cf (reservation_key job p) scope d))))"

section \<open>Answers of the media services\<close>

definition safe_preflight_details :: "string list" where
  "safe_preflight_details =
     [''worker credential required'', ''confirmed media source required'',
      ''source identity is not deletable'', ''torrent is shared by another active permit'',
      ''verified torrent metadata unavailable'', ''verified torrent metadata changed'',
      ''torrent contains other media'', ''torrent identity changed'', ''torrent files changed'',
      ''season pack episode files changed'', ''source permit changed'']"

definition rejection_reason :: "response \<Rightarrow> string" where
  "rejection_reason rp =
     ''HTTP '' @ show_int (rp_status rp) @
     (case Option.bind (rp_body rp) as_obj of
        None \<Rightarrow> []
      | Some body \<Rightarrow>
          (case as_str (jget body ''detail'') of
             None \<Rightarrow> []
           | Some detail \<Rightarrow> if detail \<in> set safe_preflight_details then '': '' @ detail else []))"

text \<open>\<open>_status\<close> and \<open>_json\<close>: \<open>None\<close> is the answer for a missing record.\<close>

definition status_ok :: "response \<Rightarrow> bool \<Rightarrow> failure + bool" where
  "status_ok rp allow_missing =
     (if rp_status rp = 404 \<and> allow_missing then Inr False
      else if rp_status rp \<in> {400, 401, 403, 409, 422}
      then Inl (Blocking (rp_host rp @ '' rejected deletion preflight ('' @ rejection_reason rp @ '')''))
      else if rp_status rp \<ge> 400
      then Inl (Retryable (rp_host rp @ '' returned HTTP '' @ show_int (rp_status rp)))
      else Inr True)"

definition json_body :: "response \<Rightarrow> bool \<Rightarrow> failure + json" where
  "json_body rp allow_missing =
     ebind (status_ok rp allow_missing) (\<lambda>found.
     if \<not> found then Inr JNull
     else (case rp_body rp of
             None \<Rightarrow> Inl (Retryable ''media service returned invalid JSON'') | Some j \<Rightarrow> Inr j))"

definition status_act :: "bool \<Rightarrow> response \<Rightarrow> ('w, unit) act" where
  "status_act allow_missing rp = abind (pure_act (status_ok rp allow_missing)) (\<lambda>_. ret ())"

definition get_json ::
    "'w env \<Rightarrow> service \<Rightarrow> string \<Rightarrow> (string \<times> json) list \<Rightarrow> bool \<Rightarrow> ('w, json) act" where
  "get_json env sv path params allow_missing =
     abind (http env \<lparr>hq_method = GET, hq_service = sv, hq_path = path, hq_params = params, hq_body = JNull\<rparr>)
       (\<lambda>rp. pure_act (json_body rp allow_missing))"

definition send ::
    "'w env \<Rightarrow> http_method \<Rightarrow> service \<Rightarrow> string \<Rightarrow> (string \<times> json) list \<Rightarrow> json \<Rightarrow> ('w, response) act" where
  "send env m sv path params body =
     http env \<lparr>hq_method = m, hq_service = sv, hq_path = path, hq_params = params, hq_body = body\<rparr>"

end
