(* ===== verification/DeletionSteps.thy ===== *)
theory DeletionSteps
  imports DeletionCapture
begin

text \<open>
  \<open>worker/deletion_coordinator.py\<close>, the steps of a deletion: what is asked of Radarr and
  Sonarr before anything is removed, and the removal of the torrent, of the media file and of
  its sidecars.
\<close>

section \<open>Preflight\<close>

text \<open>\<open>_movie_preflight\<close>\<close>

definition movie_preflight ::
    "'w env \<Rightarrow> (string \<times> json) list \<Rightarrow> bool \<Rightarrow> ('w, bool) act" where
  "movie_preflight env p file_exists =
     abind (get_json env Radarr (''/api/v3/movie/'' @ show_int (pint p ''radarr_id'')) [] True) (\<lambda>movie.
     if movie = JNull then
       (if file_exists
        then abind (get_json env Radarr ''/api/v3/movie'' [(''tmdbId'', jget p ''tmdb_id'')] False) (\<lambda>found.
             if found = JList [] then ret False
             else blocked ''Radarr movie changed while delete was pending'')
        else ret False)
     else
       (case as_obj movie of
          None \<Rightarrow> blocked ''Radarr movie identity changed''
        | Some m \<Rightarrow>
            if \<not> py_eq (jget m ''id'') (jget p ''radarr_id'') \<or> \<not> py_eq (jget m ''tmdbId'') (jget p ''tmdb_id'')
            then blocked ''Radarr movie identity changed''
            else if jget m ''movieFile'' = JNull \<and> \<not> file_exists then ret True
            else
              (case as_obj (jget m ''movieFile'') of
                 None \<Rightarrow> blocked ''Radarr movie file no longer matches capture''
               | Some f \<Rightarrow>
                   if \<not> py_eq (jget f ''id'') (jget p ''radarr_file_id'') \<or>
                      \<not> py_eq (jget f ''path'') (jget p ''file_path'') \<or>
                      \<not> py_eq (jget f ''size'') (jget (pobj p ''file_identity'') ''size'')
                   then blocked ''Radarr movie file no longer matches capture''
                   else ret True)))"

definition dicts :: "json list \<Rightarrow> (string \<times> json) list list" where
  "dicts xs = List.map_filter as_obj xs"

text \<open>\<open>_episode_preflight\<close>.  One item alone has the identifier, so the others are those without it.\<close>

definition episode_preflight ::
    "'w env \<Rightarrow> (string \<times> json) list \<Rightarrow> bool \<Rightarrow> ('w, bool) act" where
  "episode_preflight env p file_exists =
     abind (get_json env Sonarr ''/api/v3/episode'' [(''seriesId'', jget p ''sonarr_series_id'')] False) (\<lambda>answer.
     case as_list answer of
       None \<Rightarrow> retry ''Sonarr episode list is invalid''
     | Some items \<Rightarrow>
         let chosen = (\<lambda>e. py_eq (jget e ''id'') (jget p ''sonarr_episode_id''));
             file_id = jget p ''sonarr_episode_file_id'' in
         (case filter chosen (dicts items) of
            [e] \<Rightarrow>
              if \<not> py_eq (jget e ''seasonNumber'') (jget p ''season'') \<or>
                 \<not> py_eq (jget e ''episodeNumber'') (jget p ''episode'') \<or>
                 \<not> py_eq (jget e ''seriesId'') (jget p ''sonarr_series_id'')
              then blocked ''Sonarr episode identity changed''
              else if list_ex (\<lambda>e. \<not> chosen e \<and> py_eq (jget e ''episodeFileId'') file_id) (dicts items)
              then blocked ''Sonarr episode file is shared with another episode''
              else
                let current = jget e ''episodeFileId'' in
                if (current = JNull \<or> py_eq current (JInt 0)) \<and> \<not> file_exists then ret False
                else if \<not> py_eq current file_id then blocked ''Sonarr episode file changed''
                else
                  abind (get_json env Sonarr
                          (''/api/v3/episodefile/'' @ show_int (pint p ''sonarr_episode_file_id'')) []
                          (\<not> file_exists)) (\<lambda>file.
                  if file = JNull \<and> \<not> file_exists then ret False
                  else
                    (case as_obj file of
                       None \<Rightarrow> blocked ''Sonarr episode file no longer matches capture''
                     | Some f \<Rightarrow>
                         if \<not> py_eq (jget f ''id'') file_id \<or>
                            \<not> py_eq (jget f ''path'') (jget p ''file_path'') \<or>
                            \<not> py_eq (jget f ''size'') (jget (pobj p ''file_identity'') ''size'')
                         then blocked ''Sonarr episode file no longer matches capture''
                         else ret True))
          | _ \<Rightarrow> blocked ''Sonarr episode identity changed''))"

definition arr_preflight :: "'w env \<Rightarrow> deletion_job \<Rightarrow> bool \<Rightarrow> ('w, bool) act" where
  "arr_preflight env job file_exists =
     abind (pure_act (captured_payload job)) (\<lambda>p.
     if dj_item_type job = ''Movie'' then movie_preflight env p file_exists
     else episode_preflight env p file_exists)"

section \<open>The torrent\<close>

definition probe_tokens :: "db \<Rightarrow> string \<Rightarrow> string list" where
  "probe_tokens d token =
     [pm_token n. n \<leftarrow> permits d, p \<leftarrow> permits d,
        pm_probe_parent_id n = Some (pm_id p) \<and> pm_token p = token \<and> live n]"

definition stop_probe :: "'w env \<Rightarrow> string \<Rightarrow> ('w, unit) act" where
  "stop_probe env token =
     abind (send env POST Gateway ''/internal/probe-decision'' []
              (JObj [(''permit_token'', JStr token), (''decision'', JStr ''reject'')])) (\<lambda>rp.
     check (200 \<le> rp_status rp \<and> rp_status rp < 300) (Transient (rp_error_text rp)))"

definition nullable :: "string option \<Rightarrow> json" where
  "nullable v = (case v of None \<Rightarrow> JNull | Some s \<Rightarrow> JStr s)"

text \<open>The answer of \<open>/internal/delete-source\<close>: whether the source is kept for other episodes.\<close>

definition source_retained :: "json \<Rightarrow> failure + bool" where
  "source_retained result =
     (case as_obj result of
        None \<Rightarrow> Inl (Retryable ''gateway source removal was not confirmed'')
      | Some r \<Rightarrow>
          if \<not> hashable (jget r ''state'') then Inl Unexpected
          else
            (case as_str (jget r ''state'') of
               None \<Rightarrow> Inl (Retryable ''gateway source removal was not confirmed'')
             | Some st \<Rightarrow>
                 if st = ''retained_shared'' then Inr True
                 else if st = ''deleted'' \<or> st = ''missing'' then Inr False
                 else Inl (Retryable ''gateway source removal was not confirmed'')))"

definition unlink_since :: "'w env \<Rightarrow> string \<Rightarrow> file_stat \<Rightarrow> ('w, unit) act" where
  "unlink_since env item st =
     abind (query (e_monotonic env)) (\<lambda>now.
     abind (read_state (\<lambda>s. get_or (co_unlink_since s) item now)) (\<lambda>first.
     abind (write_state (\<lambda>s. s\<lparr>co_unlink_since := AList.update item first (co_unlink_since s)\<rparr>)) (\<lambda>_.
     if fs_nlink st = 2 \<and> now - first < 30 then retry ''torrent payload unlink is still processing''
     else blocked ''media has another hardlink after torrent cleanup'')))"

definition forget_unlink :: "string \<Rightarrow> ('w, unit) act" where
  "forget_unlink item = write_state (\<lambda>s. s\<lparr>co_unlink_since := AList.delete item (co_unlink_since s)\<rparr>)"

definition remove_torrent ::
    "'w env \<Rightarrow> config \<Rightarrow> deletion_job \<Rightarrow> string option \<Rightarrow> string \<Rightarrow> ('w, unit) act" where
  "remove_torrent env cf job key token =
     abind (guard_mount env cf) (\<lambda>_.
     abind (read_state (\<lambda>s. probe_tokens (co_db s) token)) (\<lambda>probes.
     abind (for_each (stop_probe env) probes) (\<lambda>_.
     abind (pure_act (ebind (captured_payload job) (item_scope job))) (\<lambda>scope.
     abind (send env POST Gateway ''/internal/delete-source'' []
              (JObj [(''permit_token'', JStr token), (''media_key'', nullable key),
                     (''scope_key'', nullable scope)])) (\<lambda>rp.
     abind (pure_act (ebind (json_body rp False) source_retained)) (\<lambda>retained.
     if retained \<and> dj_item_type job \<noteq> ''Episode''
     then blocked ''only an episode may retain a shared season source''
     else
       abind (guard_mount env cf) (\<lambda>_.
       abind (captured_file env cf job True) (\<lambda>(path, remaining).
       case remaining of
         Some st \<Rightarrow>
           if \<not> retained \<and> 1 < fs_nlink st then unlink_since env (dj_item_id job) st
           else forget_unlink (dj_item_id job)
       | None \<Rightarrow> forget_unlink (dj_item_id job)))))))))"

text \<open>\<open>_delete_source\<close>\<close>

definition delete_source :: "'w env \<Rightarrow> config \<Rightarrow> deletion_job \<Rightarrow> ('w, unit) act" where
  "delete_source env cf job =
     abind (association cf job) (\<lambda>(key, source_id, token).
     abind (captured_file env cf job True) (\<lambda>(path, current).
     case token of
       None \<Rightarrow>
         if key \<noteq> None then blocked ''managed media has no confirmed torrent source''
         else
           (case current of
              Some st \<Rightarrow> check (fs_nlink st \<le> 1) (Blocking ''hardlinked torrent source has no confirmed permit'')
            | None \<Rightarrow> ret ())
     | Some t \<Rightarrow> remove_torrent env cf job key t))"

section \<open>Sidecars\<close>

text \<open>The texts \<open>_SIDECAR\<close> matches, in lower case.\<close>

definition sidecar_suffixes :: "string list" where
  "sidecar_suffixes =
     [lang @ ext.
        lang \<leftarrow> [] # [l @ f. l \<leftarrow> [''.pt-br'', ''.pt_br'', ''.en'', ''.eng''],
                          f \<leftarrow> [[], ''.forced'', ''.hi'', ''.sdh'', ''.cc'']],
        ext \<leftarrow> [''.srt'', ''.ass'', ''.ssa'', ''.vtt'', ''.nfo'', ''.jpg'', ''.jpeg'', ''.png'', ''.webp'']]"

definition sidecar_suffix :: "string \<Rightarrow> bool" where
  "sidecar_suffix s = (lower s \<in> set sidecar_suffixes)"

definition is_sidecar :: "posix \<Rightarrow> string \<Rightarrow> bool" where
  "is_sidecar video name =
     (starts_with (stem_of video) name \<and> sidecar_suffix (drop (length (stem_of video)) name))"

definition remove_sidecar :: "'w env \<Rightarrow> config \<Rightarrow> posix \<Rightarrow> ('w, unit) act" where
  "remove_sidecar env cf sidecar =
     abind (guard_mount env cf) (\<lambda>_.
     abind (query (\<lambda>w. e_lstat env w sidecar)) (\<lambda>before.
     case before of
       Absent text \<Rightarrow> ret ()
     | Unreadable text \<Rightarrow> fail (Transient text)
     | Present st \<Rightarrow>
         if \<not> fs_regular st \<or> 50000000 < fs_size st
         then blocked ''matching media sidecar is not a small regular file''
         else
           abind (query (\<lambda>w. e_lstat env w sidecar)) (\<lambda>current.
           case current of
             Absent text \<Rightarrow> ret ()
           | Unreadable text \<Rightarrow> retry ''matching media sidecar cannot be removed''
           | Present st' \<Rightarrow>
               if fs_device st' \<noteq> fs_device st \<or> fs_inode st' \<noteq> fs_inode st \<or>
                  fs_size st' \<noteq> fs_size st \<or> fs_mtime_ns st' \<noteq> fs_mtime_ns st
               then blocked ''matching media sidecar changed before removal''
               else
                 abind (unlink env sidecar) (\<lambda>answer.
                 case answer of
                   UnlinkOk \<Rightarrow> ret ()
                 | UnlinkAbsent text \<Rightarrow> ret ()
                 | UnlinkFailed text \<Rightarrow> retry ''matching media sidecar cannot be removed''))))"

definition consider_sidecar :: "'w env \<Rightarrow> config \<Rightarrow> posix \<Rightarrow> string \<Rightarrow> ('w, unit) act" where
  "consider_sidecar env cf video name =
     (if is_sidecar video name
      then remove_sidecar env cf ((parent_of video)\<lparr>px_parts := px_parts (parent_of video) @ [name]\<rparr>)
      else ret ())"

text \<open>\<open>_cleanup_sidecars\<close>\<close>

definition cleanup_sidecars :: "'w env \<Rightarrow> config \<Rightarrow> posix \<Rightarrow> ('w, unit) act" where
  "cleanup_sidecars env cf video =
     (let parent = parent_of video in
      abind (ask (\<lambda>w. e_exists env w parent)) (\<lambda>there.
      if \<not> there then ret ()
      else
        abind (ask (\<lambda>w. e_symlink env w parent)) (\<lambda>link.
        if link then blocked ''media folder changed before sidecar cleanup''
        else
          abind (ask (\<lambda>w. e_directory env w parent)) (\<lambda>directory.
          if \<not> directory then blocked ''media folder changed before sidecar cleanup''
          else
            abind (query (\<lambda>w. e_listdir env w parent)) (\<lambda>names.
            case names of
              None \<Rightarrow> retry ''media sidecars cannot be inspected''
            | Some ns \<Rightarrow> for_each (consider_sidecar env cf video) ns)))))"

section \<open>The media file\<close>

definition delete_movie_file :: "'w env \<Rightarrow> config \<Rightarrow> deletion_job \<Rightarrow> (string \<times> json) list \<Rightarrow> ('w, unit) act" where
  "delete_movie_file env cf job p =
     abind (guard_mount env cf) (\<lambda>_.
     abind (captured_file env cf job True) (\<lambda>_.
     abind (send env DELETE Radarr (''/api/v3/moviefile/'' @ show_int (pint p ''radarr_file_id'')) [] JNull) (\<lambda>rp.
     abind (status_act True rp) (\<lambda>_.
     abind (guard_mount env cf) (\<lambda>_.
     abind (captured_file env cf job False) (\<lambda>(path, remaining).
     check (remaining = None) (Blocking ''Radarr did not remove the captured movie file'')))))))"

definition delete_movie :: "'w env \<Rightarrow> config \<Rightarrow> deletion_job \<Rightarrow> (string \<times> json) list \<Rightarrow> bool \<Rightarrow> ('w, unit) act" where
  "delete_movie env cf job p exists =
     abind (if exists then delete_movie_file env cf job p else ret ()) (\<lambda>_.
     abind (guard_mount env cf) (\<lambda>_.
     abind (send env DELETE Radarr (''/api/v3/movie/'' @ show_int (pint p ''radarr_id''))
              [(''deleteFiles'', JStr ''false''), (''addImportExclusion'', JStr ''true'')] JNull) (\<lambda>rp.
     status_act True rp)))"

definition delete_episode :: "'w env \<Rightarrow> config \<Rightarrow> deletion_job \<Rightarrow> (string \<times> json) list \<Rightarrow> bool \<Rightarrow> ('w, unit) act" where
  "delete_episode env cf job p has_arr_file =
     abind (guard_mount env cf) (\<lambda>_.
     abind (send env PUT Sonarr ''/api/v3/episode/monitor'' []
              (JObj [(''episodeIds'', JList [jget p ''sonarr_episode_id'']), (''monitored'', JBool False)])) (\<lambda>rp.
     abind (status_act False rp) (\<lambda>_.
     if has_arr_file then
       abind (guard_mount env cf) (\<lambda>_.
       abind (captured_file env cf job False) (\<lambda>_.
       abind (send env DELETE Sonarr
                (''/api/v3/episodefile/'' @ show_int (pint p ''sonarr_episode_file_id'')) [] JNull) (\<lambda>rp.
       status_act True rp)))
     else ret ())))"

text \<open>\<open>_delete_arr\<close>\<close>

definition delete_arr :: "'w env \<Rightarrow> config \<Rightarrow> deletion_job \<Rightarrow> ('w, unit) act" where
  "delete_arr env cf job =
     abind (captured_file env cf job False) (\<lambda>(path, current).
     abind (pure_act (captured_payload job)) (\<lambda>p.
     abind (guard_mount env cf) (\<lambda>_.
     abind (arr_preflight env job (current \<noteq> None)) (\<lambda>has_arr_file.
     abind (if dj_item_type job = ''Movie''
            then (if has_arr_file then delete_movie env cf job p (current \<noteq> None) else ret ())
            else delete_episode env cf job p has_arr_file) (\<lambda>_.
     abind (guard_mount env cf) (\<lambda>_.
     abind (captured_file env cf job False) (\<lambda>(_, remaining).
     if remaining \<noteq> None then blocked ''Arr did not remove the captured media file''
     else cleanup_sidecars env cf path)))))))"

end
