(* ===== verification/DeletionRecords.thy ===== *)
theory DeletionRecords
  imports DeletionSteps
begin

text \<open>
  \<open>worker/deletion_coordinator.py\<close>, the records other services keep of a deleted item: the
  Seerr request, the Seerr media entry, for which the complete listings are read page by
  page, and the Jellyfin item.
\<close>

section \<open>The Seerr request\<close>

text \<open>\<open>_delete_seerr\<close>; \<open>isdecimal\<close> and \<open>int\<close> are those of ASCII digits.\<close>

definition seerr_request_matches :: "json \<Rightarrow> string \<Rightarrow> (string \<times> json) list \<Rightarrow> failure + bool" where
  "seerr_request_matches request source_id p =
     (case as_obj request of
        None \<Rightarrow> Inr False
      | Some r \<Rightarrow>
          (case as_obj (jget r ''media'') of
             None \<Rightarrow> Inr False
           | Some media \<Rightarrow>
               ebind (int_of_digits source_id) (\<lambda>n.
               Inr (py_eq (jget r ''id'') (JInt n) \<and>
                    py_eq (jget media ''tmdbId'') (jget p ''tmdb_id'') \<and>
                    jget media ''mediaType'' = JStr ''movie''))))"

definition delete_seerr :: "'w env \<Rightarrow> config \<Rightarrow> deletion_job \<Rightarrow> ('w, unit) act" where
  "delete_seerr env cf job =
     (if dj_item_type job \<noteq> ''Movie'' then ret ()
      else
        abind (association cf job) (\<lambda>(key, source, token).
        case source of
          None \<Rightarrow> ret ()
        | Some source_id \<Rightarrow>
            if \<not> digits1 source_id then blocked ''Seerr movie request identity is invalid''
            else
              abind (guard_mount env cf) (\<lambda>_.
              abind (get_json env Seerr (''/api/v1/request/'' @ source_id) [] True) (\<lambda>request.
              if request = JNull then ret ()
              else
                abind (pure_act (captured_payload job)) (\<lambda>p.
                abind (pure_act (seerr_request_matches request source_id p)) (\<lambda>ok.
                if \<not> ok then blocked ''Seerr request no longer matches captured movie''
                else
                  abind (guard_mount env cf) (\<lambda>_.
                  abind (send env DELETE Seerr (''/api/v1/request/'' @ source_id) [] JNull) (\<lambda>rp.
                  status_act True rp))))))))"

section \<open>Seerr listings\<close>

text \<open>A page: the number of rows it announces and its rows, or a refusal.\<close>

definition seerr_page_rows :: "int \<Rightarrow> json \<Rightarrow> failure + int \<times> json list" where
  "seerr_page_rows skip result =
     (let r = (case as_obj result of Some d \<Rightarrow> d | None \<Rightarrow> []) in
      case (as_obj (jget r ''pageInfo''), as_list (jget r ''results'')) of
        (Some page, Some batch) \<Rightarrow>
          (case as_int (jget page ''results'') of
             None \<Rightarrow> Inl (Blocking ''Seerr listing is incomplete or malformed'')
           | Some n \<Rightarrow>
               if n < 0 \<or> jget page ''pageSize'' \<noteq> JInt 100 \<or>
                  jget page ''page'' \<noteq> JInt (skip div 100 + 1) \<or>
                  jget page ''pages'' \<noteq> JInt ((n + 99) div 100) \<or>
                  int (length batch) \<noteq> min 100 (max (n - skip) 0)
               then Inl (Blocking ''Seerr listing is incomplete or malformed'')
               else Inr (n, batch))
      | _ \<Rightarrow> Inl (Blocking ''Seerr listing is incomplete or malformed''))"

definition seerr_row :: "string \<Rightarrow> int list \<Rightarrow> json \<Rightarrow> failure + (string \<times> json) list" where
  "seerr_row resource seen row =
     (let r = (case as_obj row of Some d \<Rightarrow> d | None \<Rightarrow> []) in
      if \<not> positive_int (jget r ''id'') \<or> pint r ''id'' \<in> set seen
      then Inl (Blocking ''Seerr listing has ambiguous identities'')
      else
        (case as_obj (if resource = ''media'' then row else jget r ''media'') of
           None \<Rightarrow> Inl (Blocking ''Seerr listing has incomplete media identity'')
         | Some media \<Rightarrow>
             if \<not> positive_int (jget media ''id'') \<or> \<not> positive_int (jget media ''tmdbId'')
             then Inl (Blocking ''Seerr listing has incomplete media identity'')
             else if \<not> hashable (jget media ''mediaType'') then Inl Unexpected
             else if jget media ''mediaType'' \<noteq> JStr ''movie'' \<and> jget media ''mediaType'' \<noteq> JStr ''tv''
             then Inl (Blocking ''Seerr listing has incomplete media identity'')
             else Inr r))"

fun seerr_batch ::
    "string \<Rightarrow> (string \<times> json) list list \<Rightarrow> json list \<Rightarrow> failure + (string \<times> json) list list" where
  "seerr_batch resource rows [] = Inr rows"
| "seerr_batch resource rows (row # batch) =
     ebind (seerr_row resource (map (\<lambda>r. pint r ''id'') rows) row) (\<lambda>r.
     seerr_batch resource (rows @ [r]) batch)"

text \<open>One turn of the loop: the total and the rows so far, this page included.\<close>

definition seerr_page ::
    "'w env \<Rightarrow> config \<Rightarrow> string \<Rightarrow> int option \<Rightarrow> (string \<times> json) list list \<Rightarrow>
     ('w, int \<times> (string \<times> json) list list) act" where
  "seerr_page env cf resource known rows =
     (let skip = int (length rows) in
      abind (guard_mount env cf) (\<lambda>_.
      abind (get_json env Seerr (''/api/v1/'' @ resource)
               ([(''take'', JInt 100), (''skip'', JInt skip), (''filter'', JStr ''all'')] @
                (if resource = ''request'' then [(''mediaType'', JStr ''movie'')] else [])) False) (\<lambda>result.
      abind (pure_act (seerr_page_rows skip result)) (\<lambda>(n, batch).
      if known \<noteq> None \<and> known \<noteq> Some n
      then blocked ''Seerr listing changed during deletion preflight''
      else abind (pure_act (seerr_batch resource rows batch)) (\<lambda>rows'. ret (n, rows'))))))"

text \<open>
  The rest of the loop, once the first page has told the total: every page brings a row, so
  that the total is enough fuel.
\<close>

fun seerr_more ::
    "nat \<Rightarrow> 'w env \<Rightarrow> config \<Rightarrow> string \<Rightarrow> int \<Rightarrow> (string \<times> json) list list \<Rightarrow>
     ('w, (string \<times> json) list list) act" where
  "seerr_more fuel env cf resource n rows =
     (if int (length rows) = n then ret rows
      else
        (case fuel of
           0 \<Rightarrow> fail OutOfFuel
         | Suc left \<Rightarrow>
             abind (seerr_page env cf resource (Some n) rows) (\<lambda>(_, rows').
             seerr_more left env cf resource n rows')))"

declare seerr_more.simps [simp del]

text \<open>\<open>_seerr_rows\<close>\<close>

definition seerr_rows ::
    "'w env \<Rightarrow> config \<Rightarrow> string \<Rightarrow> ('w, (string \<times> json) list list) act" where
  "seerr_rows env cf resource =
     abind (seerr_page env cf resource None []) (\<lambda>(n, rows).
     seerr_more (nat n) env cf resource n rows)"

definition movie_row :: "int \<Rightarrow> (string \<times> json) list \<Rightarrow> bool" where
  "movie_row tmdb r = (pint r ''tmdbId'' = tmdb \<and> jget r ''mediaType'' = JStr ''movie'')"

text \<open>\<open>_seerr_movie_cache\<close>\<close>

definition seerr_movie_cache ::
    "'w env \<Rightarrow> config \<Rightarrow> int \<Rightarrow> ('w, int option \<times> (string \<times> json) list list) act" where
  "seerr_movie_cache env cf tmdb =
     abind (seerr_rows env cf ''media'') (\<lambda>rows.
     case filter (movie_row tmdb) rows of
       [] \<Rightarrow> ret (None, rows)
     | [r] \<Rightarrow> ret (Some (pint r ''id''), rows)
     | _ \<Rightarrow> blocked ''Seerr has multiple cache entries for captured movie'')"

section \<open>The Jellyfin item\<close>

definition jellyfin_items :: "string \<Rightarrow> json \<Rightarrow> failure + bool" where
  "jellyfin_items item result =
     (case as_list (jget (case as_obj result of Some d \<Rightarrow> d | None \<Rightarrow> []) ''Items'') of
        None \<Rightarrow> Inl (Retryable ''Jellyfin returned an invalid item lookup'')
      | Some items \<Rightarrow>
          if list_ex (\<lambda>j. case Option.bind (as_obj j) (\<lambda>d. as_str (jget d ''Id'')) of
                            None \<Rightarrow> True | Some i \<Rightarrow> lower i \<noteq> lower item) items \<or>
             1 < length items
          then Inl (Retryable ''Jellyfin returned an invalid item lookup'')
          else Inr (items \<noteq> []))"

text \<open>\<open>_jellyfin_item_present\<close>\<close>

definition jellyfin_item_present :: "'w env \<Rightarrow> string \<Rightarrow> ('w, bool) act" where
  "jellyfin_item_present env item =
     abind (get_json env Jellyfin ''/Items'' [(''Ids'', JStr item), (''Recursive'', JStr ''true'')] False)
       (\<lambda>result. pure_act (jellyfin_items item result))"

definition forget_notified :: "string \<Rightarrow> ('w, unit) act" where
  "forget_notified item =
     write_state (\<lambda>s. s\<lparr>co_notify_at := AList.delete item (co_notify_at s)\<rparr>)"

definition forget_refreshed :: "string \<Rightarrow> ('w, unit) act" where
  "forget_refreshed item =
     write_state (\<lambda>s. s\<lparr>co_refresh_at := AList.delete item (co_refresh_at s)\<rparr>)"

definition notify_jellyfin :: "'w env \<Rightarrow> config \<Rightarrow> string \<Rightarrow> posix \<Rightarrow> rat \<Rightarrow> ('w, unit) act" where
  "notify_jellyfin env cf item path now =
     abind (guard_mount env cf) (\<lambda>_.
     abind (write_state (\<lambda>s. s\<lparr>co_notify_at := AList.update item now (co_notify_at s)\<rparr>)) (\<lambda>_.
     abind (send env POST Jellyfin ''/Library/Media/Updated'' []
              (JObj [(''Updates'', JList [JObj [(''Path'', JStr (posix_text path)),
                                               (''UpdateType'', JStr ''Deleted'')]])])) (\<lambda>rp.
     abind (status_act True rp) (\<lambda>_.
     abind (jellyfin_item_present env item) (\<lambda>present.
     if present then retry ''Jellyfin targeted catalog update is still processing''
     else forget_notified item)))))"

definition refresh_jellyfin :: "'w env \<Rightarrow> config \<Rightarrow> string \<Rightarrow> ('w, unit) act" where
  "refresh_jellyfin env cf item =
     abind (guard_mount env cf) (\<lambda>_.
     abind (query (e_monotonic env)) (\<lambda>asked.
     abind (write_state (\<lambda>s. s\<lparr>co_refresh_at := AList.update item asked (co_refresh_at s)\<rparr>)) (\<lambda>_.
     abind (send env POST Jellyfin ''/Library/Refresh'' [] JNull) (\<lambda>rp.
     abind (status_act False rp) (\<lambda>_.
     abind (jellyfin_item_present env item) (\<lambda>present.
     if present then retry ''Jellyfin library scan has not removed item''
     else abind (forget_notified item) (\<lambda>_. forget_refreshed item)))))))"

text \<open>\<open>_forget_jellyfin_item\<close>\<close>

definition forget_jellyfin_item :: "'w env \<Rightarrow> config \<Rightarrow> string \<Rightarrow> posix \<Rightarrow> ('w, unit) act" where
  "forget_jellyfin_item env cf item path =
     abind (jellyfin_item_present env item) (\<lambda>present.
     if \<not> present then abind (forget_notified item) (\<lambda>_. forget_refreshed item)
     else
       abind (query (e_monotonic env)) (\<lambda>now.
       abind (read_state (\<lambda>s. map_of (co_refresh_at s) item)) (\<lambda>last.
       abind (case last of
                None \<Rightarrow> ret ()
              | Some t \<Rightarrow>
                  if now - t < 120 then retry ''Jellyfin library scan is still processing''
                  else abind (forget_refreshed item) (\<lambda>_. forget_notified item)) (\<lambda>_.
       abind (read_state (\<lambda>s. map_of (co_notify_at s) item)) (\<lambda>notified.
       case notified of
         None \<Rightarrow> notify_jellyfin env cf item path now
       | Some t \<Rightarrow>
           if now - t < 90 then retry ''Jellyfin targeted catalog update is still processing''
           else refresh_jellyfin env cf item)))))"

text \<open>\<open>_delete_jellyfin\<close>\<close>

definition delete_jellyfin :: "'w env \<Rightarrow> config \<Rightarrow> deletion_job \<Rightarrow> ('w, unit) act" where
  "delete_jellyfin env cf job =
     abind (guard_mount env cf) (\<lambda>_.
     abind (captured_file env cf job False) (\<lambda>(path, remaining).
     if remaining \<noteq> None then blocked ''media file still exists before Jellyfin cleanup''
     else forget_jellyfin_item env cf (dj_item_id job) path))"

section \<open>The Seerr media entry\<close>

text \<open>A row of the listing gives the identifier another meaning.\<close>

definition reused :: "int \<Rightarrow> int \<Rightarrow> (string \<times> json) list list \<Rightarrow> bool" where
  "reused media tmdb rows = list_ex (\<lambda>r. pint r ''id'' = media \<and> \<not> movie_row tmdb r) rows"

definition requests_media :: "int \<Rightarrow> int \<Rightarrow> (string \<times> json) list \<Rightarrow> bool" where
  "requests_media media tmdb r =
     (pint (pobj r ''media'') ''id'' = media \<or> movie_row tmdb (pobj r ''media''))"

definition confirm_cache_removed :: "'w env \<Rightarrow> config \<Rightarrow> int \<Rightarrow> int \<Rightarrow> ('w, unit) act" where
  "confirm_cache_removed env cf tmdb media =
     abind (seerr_movie_cache env cf tmdb) (\<lambda>(left, rows).
     if left \<noteq> None \<and> left \<noteq> Some media \<or> reused media tmdb rows
     then blocked ''Seerr movie cache identity changed after removal''
     else check (left = None) (Retryable ''Seerr movie cache still exists after removal''))"

definition remove_cache :: "'w env \<Rightarrow> config \<Rightarrow> deletion_job \<Rightarrow> int \<Rightarrow> int \<Rightarrow> ('w, unit) act" where
  "remove_cache env cf job tmdb media =
     abind (seerr_rows env cf ''request'') (\<lambda>requests.
     if list_ex (requests_media media tmdb) requests then blocked ''Seerr movie has another request''
     else
       abind (seerr_movie_cache env cf tmdb) (\<lambda>(fresh, rows).
       if fresh \<noteq> Some media \<or> reused media tmdb rows
       then blocked ''Seerr movie cache identity changed before removal''
       else
         abind (guard_mount env cf) (\<lambda>_.
         abind (captured_file env cf job False) (\<lambda>(path, remaining).
         if remaining \<noteq> None then blocked ''media file exists before Seerr cache cleanup''
         else
           abind (jellyfin_item_present env (dj_item_id job)) (\<lambda>present.
           if present then retry ''Jellyfin movie reappeared before Seerr cache cleanup''
           else
             abind (send env DELETE Seerr (''/api/v1/media/'' @ show_int media) [] JNull) (\<lambda>rp.
             abind (status_act True rp) (\<lambda>_.
             confirm_cache_removed env cf tmdb media)))))))"

text \<open>\<open>_delete_seerr_media_cache\<close>\<close>

definition delete_seerr_media_cache :: "'w env \<Rightarrow> config \<Rightarrow> deletion_job \<Rightarrow> ('w, unit) act" where
  "delete_seerr_media_cache env cf job =
     (if dj_item_type job \<noteq> ''Movie'' then ret ()
      else
        abind (association cf job) (\<lambda>(key, source, token).
        case source of
          None \<Rightarrow> ret ()
        | Some source_id \<Rightarrow>
            if \<not> digits1 source_id then blocked ''Seerr movie request identity is invalid''
            else
              abind (pure_act (captured_payload job)) (\<lambda>p.
              abind (seerr_movie_cache env cf (pint p ''tmdb_id'')) (\<lambda>(media, rows).
              case media of
                None \<Rightarrow> ret ()
              | Some m \<Rightarrow> remove_cache env cf job (pint p ''tmdb_id'') m))))"

end
