(* ===== verification/SeasonCapture.thy ===== *)
theory SeasonCapture
  imports DeletionRecords
begin

text \<open>
  \<open>worker/deletion_coordinator.py\<close>, the checks of a season deletion: the captured season and
  its episodes, its folder and metadata, the jobs of its episodes, what Sonarr lists, and the
  torrents that serve it.  \<open>storage_registry\<close> is \<open>None\<close>.
\<close>

section \<open>The captured payload\<close>

definition season_media_key :: "int \<Rightarrow> int \<Rightarrow> string" where
  "season_media_key tmdb season = ''season:tmdb:'' @ show_int tmdb @ '':'' @ show_int season"

definition season_identity_ok :: "(string \<times> json) list \<Rightarrow> bool" where
  "season_identity_ok p =
     (list_all (\<lambda>k. positive_int (jget p k)) [''series_tmdb_id'', ''series_tvdb_id'', ''sonarr_series_id''] \<and>
      natural_int (jget p ''season'') \<and>
      jget p ''media_key'' = JStr (season_media_key (pint p ''series_tmdb_id'') (pint p ''season'')))"

definition season_directory_ok :: "(string \<times> json) list \<Rightarrow> bool" where
  "season_directory_ok p =
     ((case as_str (jget p ''file_path'') of None \<Rightarrow> False | Some s \<Rightarrow> s \<noteq> []) \<and>
      (case as_obj (jget p ''directory_identity'') of
         None \<Rightarrow> False
       | Some i \<Rightarrow> natural_int (jget i ''device'') \<and> natural_int (jget i ''inode'')) \<and>
      is_list (get_or p ''metadata_files'' (JList [])))"

definition metadata_entries :: "(string \<times> json) list \<Rightarrow> json list" where
  "metadata_entries p = (case as_list (get_or p ''metadata_files'' (JList [])) of Some xs \<Rightarrow> xs | None \<Rightarrow> [])"

definition metadata_entry_ok :: "json \<Rightarrow> failure + unit" where
  "metadata_entry_ok entry =
     (case as_obj entry of
        None \<Rightarrow> Inl (Blocking ''season metadata capture is incomplete'')
      | Some e \<Rightarrow>
          if as_str (jget e ''file_path'') = None
          then Inl (Blocking ''season metadata capture is incomplete'')
          else
            (case as_obj (jget e ''file_identity'') of
               None \<Rightarrow> Inl (Blocking ''season metadata identity is incomplete'')
             | Some i \<Rightarrow>
                 guard (list_all (\<lambda>k. natural_int (jget i k)) identity_keys)
                   (Blocking ''season metadata identity is incomplete'')))"

definition plist :: "(string \<times> json) list \<Rightarrow> string \<Rightarrow> json list" where
  "plist p k = (case as_list (jget p k) of Some xs \<Rightarrow> xs | None \<Rightarrow> [])"

definition season_inventory_ok :: "(string \<times> json) list \<Rightarrow> bool" where
  "season_inventory_ok p =
     (plist p ''sonarr_episode_ids'' \<noteq> [] \<and> list_all positive_int (plist p ''sonarr_episode_ids'') \<and>
      distinct (plist p ''sonarr_episode_ids'') \<and> plist p ''episodes'' \<noteq> [])"

definition hex32 :: "string \<Rightarrow> bool" where
  "hex32 s = (length s = 32 \<and> list_all is_hex s)"

definition child_in_scope :: "deletion_job \<Rightarrow> (string \<times> json) list \<Rightarrow> (string \<times> json) list \<Rightarrow> bool" where
  "child_in_scope job p c =
     (py_eq (jget c ''parent_item_id'') (JStr (dj_item_id job)) \<and>
      py_eq (jget c ''series_tmdb_id'') (jget p ''series_tmdb_id'') \<and>
      py_eq (jget c ''sonarr_series_id'') (jget p ''sonarr_series_id'') \<and>
      py_eq (jget c ''season'') (jget p ''season'') \<and>
      jget c ''sonarr_episode_id'' \<in> set (plist p ''sonarr_episode_ids'') \<and>
      (case as_str (jget c ''file_path'') of
         None \<Rightarrow> False
       | Some s \<Rightarrow> s \<noteq> [] \<and> relative_to (posix_of s) (posix_of (pstr p ''file_path''))))"

definition episode_entry ::
    "deletion_job \<Rightarrow> (string \<times> json) list \<Rightarrow> string list \<Rightarrow> json \<Rightarrow> failure + string" where
  "episode_entry job p seen entry =
     (case as_obj entry of
        None \<Rightarrow> Inl (Blocking ''season child identity is invalid'')
      | Some e \<Rightarrow>
          (case as_str (jget e ''item_id'') of
             None \<Rightarrow> Inl (Blocking ''season child identity is invalid'')
           | Some item \<Rightarrow>
               ebind (captured_payload
                        (job\<lparr>dj_item_id := item, dj_item_type := ''Episode'', dj_payload := jget e ''payload''\<rparr>))
                 (\<lambda>c. if item \<in> set seen \<or> \<not> hex32 item \<or> \<not> child_in_scope job p c
                      then Inl (Blocking ''season child escaped captured scope'')
                      else Inr item)))"

fun episode_entries ::
    "deletion_job \<Rightarrow> (string \<times> json) list \<Rightarrow> string list \<Rightarrow> json list \<Rightarrow> failure + unit" where
  "episode_entries job p seen [] = Inr ()"
| "episode_entries job p seen (e # es) =
     ebind (episode_entry job p seen e) (\<lambda>item. episode_entries job p (item # seen) es)"

text \<open>\<open>_season_payload\<close>\<close>

definition season_payload :: "deletion_job \<Rightarrow> failure + (string \<times> json) list" where
  "season_payload job =
     (case as_obj (dj_payload job) of
        None \<Rightarrow> Inl (Blocking ''season capture is incomplete'')
      | Some p \<Rightarrow>
          ebind (guard (season_identity_ok p) (Blocking ''season identity is invalid'')) (\<lambda>_.
          ebind (guard (season_directory_ok p) (Blocking ''season directory capture is incomplete'')) (\<lambda>_.
          ebind (emap metadata_entry_ok (metadata_entries p)) (\<lambda>_.
          ebind (guard (season_inventory_ok p) (Blocking ''season episode inventory is incomplete'')) (\<lambda>_.
          ebind (episode_entries job p [] (plist p ''episodes'')) (\<lambda>_. Inr p))))))"

section \<open>The folder\<close>

definition season_within_library :: "'w env \<Rightarrow> config \<Rightarrow> posix \<Rightarrow> ('w, unit) act" where
  "season_within_library env cf path =
     (let tv = posix_join (cf_media_root cf) ''tv'' in
      if absolute path \<and> path \<noteq> tv \<and> relative_to path tv
      then abind (ask (\<lambda>w. e_inside env w path tv)) (\<lambda>b.
           check b (Blocking ''season folder escapes the TV library''))
      else blocked ''season folder escapes the TV library'')"

text \<open>\<open>stat\<close> where the caller catches no \<open>OSError\<close>.\<close>

definition stat_act :: "'w env \<Rightarrow> posix \<Rightarrow> ('w, file_stat) act" where
  "stat_act env path =
     abind (query (\<lambda>w. e_stat env w path)) (\<lambda>answer.
     case answer of
       Absent text \<Rightarrow> fail (Transient text)
     | Unreadable text \<Rightarrow> fail (Transient text)
     | Present st \<Rightarrow> ret st)"

text \<open>\<open>_season_folder\<close>\<close>

definition season_folder :: "'w env \<Rightarrow> config \<Rightarrow> deletion_job \<Rightarrow> bool \<Rightarrow> ('w, posix) act" where
  "season_folder env cf job must_exist =
     abind (pure_act (season_payload job)) (\<lambda>p.
     let path = posix_of (pstr p ''file_path''); i = pobj p ''directory_identity'' in
     abind (season_within_library env cf path) (\<lambda>_.
     abind (no_symlink env ''season folder contains a symlink'' (cf_data_root cf) (with_parents path)) (\<lambda>_.
     abind (ask (\<lambda>w. e_exists env w path)) (\<lambda>there.
     if \<not> there then (if must_exist then blocked ''season folder disappeared before cleanup'' else ret path)
     else
       abind (stat_act env path) (\<lambda>st.
       abind (ask (\<lambda>w. e_directory env w path)) (\<lambda>directory.
       if \<not> directory \<or> fs_device st \<noteq> pint i ''device'' \<or> fs_inode st \<noteq> pint i ''inode''
       then blocked ''season folder changed after capture''
       else ret path))))))"

text \<open>The names \<open>_season_metadata\<close> accepts, in lower case.\<close>

definition metadata_names :: "string list" where
  "metadata_names =
     ''season.nfo'' #
     [stem @ ext. stem \<leftarrow> [''folder'', ''poster'', ''banner'', ''fanart'', ''thumb'', ''landscape''],
                  ext \<leftarrow> [''.jpg'', ''.jpeg'', ''.png'', ''.webp'']]"

definition metadata_path_ok :: "posix \<Rightarrow> posix \<Rightarrow> bool" where
  "metadata_path_ok folder file = (parent_of file = folder \<and> lower (name_of file) \<in> set metadata_names)"

definition metadata_file ::
    "'w env \<Rightarrow> posix \<Rightarrow> bool \<Rightarrow> (string \<times> json) list \<Rightarrow> ('w, posix list) act" where
  "metadata_file env folder must_exist e =
     (let file = posix_of (pstr e ''file_path'') in
      if \<not> metadata_path_ok folder file then blocked ''season metadata escaped selected folder''
      else
        abind (ask (\<lambda>w. e_symlink env w file)) (\<lambda>link.
        if link then blocked ''season metadata escaped selected folder''
        else
          abind (ask (\<lambda>w. e_exists env w file)) (\<lambda>there.
          if \<not> there then
            (if must_exist then blocked ''season metadata disappeared after capture'' else ret [])
          else
            abind (stat_act env file) (\<lambda>st.
            if \<not> same_identity (pobj e ''file_identity'') st
            then blocked ''season metadata changed after capture''
            else if \<not> fs_regular st then blocked ''season metadata is not a regular file''
            else ret [file]))))"

fun metadata_files ::
    "'w env \<Rightarrow> posix \<Rightarrow> bool \<Rightarrow> (string \<times> json) list list \<Rightarrow> ('w, posix list) act" where
  "metadata_files env folder must_exist [] = ret []"
| "metadata_files env folder must_exist (e # es) =
     abind (metadata_file env folder must_exist e) (\<lambda>found.
     abind (metadata_files env folder must_exist es) (\<lambda>rest. ret (found @ rest)))"

text \<open>\<open>_season_metadata\<close>\<close>

definition season_metadata :: "'w env \<Rightarrow> config \<Rightarrow> deletion_job \<Rightarrow> bool \<Rightarrow> ('w, posix list) act" where
  "season_metadata env cf job must_exist =
     abind (season_folder env cf job False) (\<lambda>folder.
     abind (pure_act (season_payload job)) (\<lambda>p.
     metadata_files env folder must_exist (dicts (metadata_entries p))))"

section \<open>The episodes\<close>

text \<open>\<open>_season_children\<close>: the jobs of the captured episodes, as they are now.\<close>

definition season_child_job :: "deletion_job list \<Rightarrow> (string \<times> json) list \<Rightarrow> failure + deletion_job" where
  "season_child_job jobs e =
     (case get_job (pstr e ''item_id'') jobs of
        None \<Rightarrow> Inl (Blocking ''season child job changed or disappeared'')
      | Some child \<Rightarrow>
          if dj_item_type child \<noteq> ''Episode'' \<or> \<not> py_eq (dj_payload child) (jget e ''payload'')
          then Inl (Blocking ''season child job changed or disappeared'')
          else if dj_stage child = Blocked then Inl (Blocking ''a season episode requires review'')
          else Inr child)"

definition season_child_jobs :: "deletion_job \<Rightarrow> ('w, deletion_job list) act" where
  "season_child_jobs job =
     abind (pure_act (season_payload job)) (\<lambda>p.
     abind (read_state co_jobs) (\<lambda>jobs.
     pure_act (emap (season_child_job jobs) (dicts (plist p ''episodes'')))))"

text \<open>The Sonarr file captured for an episode: the last of the entries with its identifier.\<close>

definition captured_episode_file :: "(string \<times> json) list \<Rightarrow> json \<Rightarrow> json" where
  "captured_episode_file p i =
     (case find_row (\<lambda>e. py_eq (jget (pobj e ''payload'') ''sonarr_episode_id'') i)
                    (rev (dicts (plist p ''episodes''))) of
        None \<Rightarrow> JNull
      | Some e \<Rightarrow> jget (pobj e ''payload'') ''sonarr_episode_file_id'')"

definition same_id_set :: "json list \<Rightarrow> json list \<Rightarrow> bool" where
  "same_id_set xs ys =
     (list_all (\<lambda>x. list_ex (py_eq x) ys) xs \<and> list_all (\<lambda>y. list_ex (py_eq y) xs) ys)"

definition listed_episode_ok :: "(string \<times> json) list \<Rightarrow> (string \<times> json) list \<Rightarrow> failure + unit" where
  "listed_episode_ok p e =
     (if \<not> py_eq (jget e ''seriesId'') (jget p ''sonarr_series_id'')
      then Inl (Blocking ''episode belongs to another series'')
      else
        guard (\<not> truthy (jget e ''episodeFileId'') \<or>
               py_eq (captured_episode_file p (jget e ''id'')) (jget e ''episodeFileId''))
          (Blocking ''new or changed season file is outside the capture''))"

definition listed_season ::
    "(string \<times> json) list \<Rightarrow> json \<Rightarrow> failure + (string \<times> json) list list" where
  "listed_season p answer =
     (case as_list answer of
        None \<Rightarrow> Inl (Retryable ''Sonarr season inventory is invalid'')
      | Some items \<Rightarrow>
          if list_ex (\<lambda>j. as_obj j = None) items
          then Inl (Retryable ''Sonarr season inventory is invalid'')
          else
            let selected = filter (\<lambda>e. py_eq (jget e ''seasonNumber'') (jget p ''season'')) (dicts items) in
            if list_ex (\<lambda>e. \<not> hashable (jget e ''id'')) selected then Inl Unexpected
            else if \<not> same_id_set (map (\<lambda>e. jget e ''id'') selected) (plist p ''sonarr_episode_ids'')
            then Inl (Blocking ''Sonarr season episodes changed after capture'')
            else ebind (emap (listed_episode_ok p) selected) (\<lambda>_. Inr selected))"

text \<open>\<open>_season_preflight\<close>\<close>

definition season_preflight ::
    "'w env \<Rightarrow> deletion_job \<Rightarrow> ('w, (string \<times> json) list \<times> (string \<times> json) list list) act" where
  "season_preflight env job =
     abind (pure_act (season_payload job)) (\<lambda>p.
     abind (get_json env Sonarr (''/api/v3/series/'' @ show_int (pint p ''sonarr_series_id'')) [] False) (\<lambda>series.
     case as_obj series of
       None \<Rightarrow> blocked ''Sonarr series changed after season capture''
     | Some sr \<Rightarrow>
         if \<not> py_eq (jget sr ''id'') (jget p ''sonarr_series_id'') \<or>
            \<not> py_eq (jget sr ''tvdbId'') (jget p ''series_tvdb_id'')
         then blocked ''Sonarr series changed after season capture''
         else
           abind (get_json env Sonarr ''/api/v3/episode'' [(''seriesId'', jget p ''sonarr_series_id'')] False)
             (\<lambda>answer. abind (pure_act (listed_season p answer)) (\<lambda>selected. ret (sr, selected)))))"

section \<open>The torrents\<close>

definition purge_state :: "permit_state \<Rightarrow> bool" where
  "purge_state s =
     (s \<in> {Authorized, Dispatching, Unknown, Confirmed, Superseded, ProbeRejected})"

text \<open>The season of \<open>S([0-9]{2,})(?:E[0-9]{2,}|PACK)\<close>.\<close>

definition scope_season :: "string \<Rightarrow> string option" where
  "scope_season s =
     (case pack_scope s of Some a \<Rightarrow> Some a | None \<Rightarrow> map_option fst (episode_scope s))"

definition season_of_scope :: "string option \<Rightarrow> (string \<times> json) list \<Rightarrow> failure + bool" where
  "season_of_scope digits p =
     (case digits of
        None \<Rightarrow> Inr False
      | Some a \<Rightarrow> ebind (int_of_digits a) (\<lambda>n. Inr (n = pint p ''season'')))"

definition binding_ok :: "(string \<times> json) list \<Rightarrow> string \<Rightarrow> failure + unit" where
  "binding_ok p b =
     ebind (season_of_scope (map_option fst (episode_scope b)) p) (\<lambda>ok.
     guard ok (Blocking ''season pack serves another season''))"

definition source_bindings :: "db \<Rightarrow> (string \<times> json) list \<Rightarrow> permit \<Rightarrow> string \<Rightarrow> failure + string list" where
  "source_bindings d p m scope =
     (if pm_state m = Unknown \<or> pm_state m = Dispatching
      then Inl (Blocking ''season torrent admission is uncertain'')
      else if \<not> ends_with ''PACK'' scope then Inr [scope]
      else if pm_state m \<noteq> Authorized \<and> pm_state m \<noteq> Confirmed
      then Inl (Blocking ''historical season pack requires review'')
      else
        let bs = map pk_scope_key (filter (\<lambda>e. pk_parent_permit_id e = pm_id m) (pack_episodes d)) in
        if bs = [] then Inl (Blocking ''season pack has no verified episode bindings'')
        else ebind (emap (binding_ok p) bs) (\<lambda>_. Inr bs))"

definition season_source ::
    "config \<Rightarrow> db \<Rightarrow> (string \<times> json) list \<Rightarrow> permit \<times> reservation_row \<Rightarrow>
     failure + permit \<times> string \<times> string list" where
  "season_source cf d p mr =
     (case mr of (m, r) \<Rightarrow>
        let scope = (case pm_scope_key m of Some s \<Rightarrow> s | None \<Rightarrow> []) in
        ebind (season_of_scope (scope_season scope) p) (\<lambda>same.
        if \<not> same \<or> pm_category m \<noteq> ''sonarr'' \<or> pm_destination m \<noteq> ''/data/torrents'' \<or>
           rs_filesystem_id r \<noteq> cf_filesystem_id cf
        then Inl (Blocking ''torrent source escaped selected season'')
        else ebind (source_bindings d p m scope) (\<lambda>bs. Inr (m, hd bs, bs))))"

text \<open>\<open>_season_source_inventory\<close>: the permit, the scope it is deleted under, and the scopes it binds.\<close>

definition season_source_inventory ::
    "config \<Rightarrow> deletion_job \<Rightarrow> ('w, (permit \<times> string \<times> string list) list) act" where
  "season_source_inventory cf job =
     abind (pure_act (season_payload job)) (\<lambda>p.
     abind (read_state co_db) (\<lambda>d.
     pure_act (emap (season_source cf d p)
       [(m, r). m \<leftarrow> permits d, purge_state (pm_state m), r \<leftarrow> reservations d,
                pm_reservation_id m = Some (rs_id r) \<and> rs_media_key r = pstr p ''media_key''])))"

end
