(* ===== verification/DeletionProcess.thy ===== *)
theory DeletionProcess
  imports SeasonCapture PermitLifecycle
begin

text \<open>
  \<open>worker/deletion_coordinator.py\<close>, the coordinator itself: the steps of a season deletion,
  the stages of an item and of a season, and \<open>run_once\<close>, which processes one job and settles
  its outcome.
\<close>

section \<open>Stages and tombstones\<close>

definition advance :: "'w env \<Rightarrow> deletion_job \<Rightarrow> job_stage \<Rightarrow> ('w, deletion_job) act" where
  "advance env job st =
     abind (query (e_now env)) (\<lambda>now.
     abind (read_state co_jobs) (\<lambda>jobs.
     case set_stage (dj_item_id job) (stage_text st) None now jobs of
       Inl e \<Rightarrow> fail Unexpected
     | Inr (jobs', j) \<Rightarrow> abind (write_state (\<lambda>s. s\<lparr>co_jobs := jobs'\<rparr>)) (\<lambda>_. ret j)))"

definition put_tombstone :: "'w env \<Rightarrow> deletion_job \<Rightarrow> string \<Rightarrow> ('w, unit) act" where
  "put_tombstone env job key =
     abind (query (e_now env)) (\<lambda>now.
     write_state (\<lambda>s. s\<lparr>co_db := tombstone key (dj_item_id job) now (co_db s)\<rparr>))"

text \<open>A transaction on the database: an exception rolls it back.\<close>

definition transact :: "(db \<Rightarrow> failure + db \<times> 'a) \<Rightarrow> ('w, 'a) act" where
  "transact f s =
     (case f (co_db s) of Inl e \<Rightarrow> (Inl e, s) | Inr (d, x) \<Rightarrow> (Inr x, s\<lparr>co_db := d\<rparr>))"

section \<open>A season\<close>

definition cancel_season_request :: "config \<Rightarrow> string \<Rightarrow> db \<Rightarrow> failure + db \<times> unit" where
  "cancel_season_request cf key d =
     (let rows = filter (\<lambda>r. rs_media_key r = key) (reservations d) in
      if list_ex (\<lambda>r. rs_filesystem_id r \<noteq> cf_filesystem_id cf) rows \<or> 1 < length rows
      then Inl (Blocking ''season reservation identity is ambiguous'')
      else Inr (d\<lparr>requests := update_rows (\<lambda>q. rq_id q \<in> set (map rs_request_id rows))
                              (\<lambda>q. q\<lparr>rq_state := RqCancelled\<rparr>) (requests d)\<rparr>, ()))"

definition unmonitored :: "(string \<times> json) list \<Rightarrow> json \<Rightarrow> json" where
  "unmonitored p s =
     (case as_obj s of
        None \<Rightarrow> s
      | Some d \<Rightarrow>
          if py_eq (jget d ''seasonNumber'') (jget p ''season'')
          then JObj (AList.update ''monitored'' (JBool False) d) else s)"

definition season_unmonitored ::
    "(string \<times> json) list \<Rightarrow> (string \<times> json) list \<Rightarrow> failure + (string \<times> json) list" where
  "season_unmonitored p series =
     (case as_list (jget series ''seasons'') of
        None \<Rightarrow> Inl (Blocking ''Sonarr season identity changed'')
      | Some seasons \<Rightarrow>
          if list_ex (\<lambda>s. as_obj s = None) seasons \<or>
             length (filter (\<lambda>d. py_eq (jget d ''seasonNumber'') (jget p ''season'')) (dicts seasons)) \<noteq> 1
          then Inl (Blocking ''Sonarr season identity changed'')
          else Inr (AList.update ''seasons'' (JList (map (unmonitored p) seasons)) series))"

text \<open>\<open>_cancel_season\<close>\<close>

definition cancel_season :: "'w env \<Rightarrow> config \<Rightarrow> deletion_job \<Rightarrow> ('w, unit) act" where
  "cancel_season env cf job =
     abind (pure_act (season_payload job)) (\<lambda>p.
     abind (put_tombstone env job (pstr p ''media_key'')) (\<lambda>_.
     abind (transact (cancel_season_request cf (pstr p ''media_key''))) (\<lambda>_.
     abind (season_preflight env job) (\<lambda>(series, episodes).
     abind (pure_act (season_unmonitored p series)) (\<lambda>series'.
     abind (guard_mount env cf) (\<lambda>_.
     abind (send env PUT Sonarr (''/api/v3/series/'' @ show_int (pint p ''sonarr_series_id'')) []
              (JObj series')) (\<lambda>rp.
     abind (status_act False rp) (\<lambda>_.
     abind (send env PUT Sonarr ''/api/v3/episode/monitor'' []
              (JObj [(''episodeIds'', JList (map (\<lambda>e. jget e ''id'') episodes)),
                     (''monitored'', JBool False)])) (\<lambda>rp.
     status_act False rp)))))))))"

definition listed_episode_key :: "(string \<times> json) list \<Rightarrow> (string \<times> json) list \<Rightarrow> failure + string" where
  "listed_episode_key p e =
     ebind (two_digit_text (jget p ''season'')) (\<lambda>s.
     ebind (two_digit_text (jget e ''episodeNumber'')) (\<lambda>n.
     Inr (episode_key (show_int (pint p ''series_tmdb_id'')) (''S'' @ s @ ''E'' @ n))))"

definition tombstone_listed ::
    "'w env \<Rightarrow> deletion_job \<Rightarrow> (string \<times> json) list \<Rightarrow> (string \<times> json) list \<Rightarrow> ('w, unit) act" where
  "tombstone_listed env job p e =
     abind (pure_act (listed_episode_key p e)) (\<lambda>key. put_tombstone env job key)"

definition cancel_permit_row :: "string \<Rightarrow> db \<Rightarrow> failure + db \<times> bool" where
  "cancel_permit_row token d =
     (case PermitLifecycle.cancel_authorized token d of
        Inl e \<Rightarrow> Inl (if e = IntegrityError then Transient ''CHECK constraint failed: budget_bytes >= 0''
                      else Unexpected)
      | Inr r \<Rightarrow> Inr r)"

definition cancel_permit :: "string \<Rightarrow> ('w, unit) act" where
  "cancel_permit token =
     abind (transact (cancel_permit_row token)) (\<lambda>done.
     check done (Retryable ''season admission changed during cancellation''))"

definition source_removed :: "json \<Rightarrow> failure + unit" where
  "source_removed result =
     (case as_obj result of
        None \<Rightarrow> Inl (Blocking ''season source is still shared or unconfirmed'')
      | Some r \<Rightarrow>
          if \<not> hashable (jget r ''state'') then Inl Unexpected
          else guard (jget r ''state'' = JStr ''deleted'' \<or> jget r ''state'' = JStr ''missing'')
                 (Blocking ''season source is still shared or unconfirmed''))"

definition purge_source ::
    "'w env \<Rightarrow> config \<Rightarrow> deletion_job \<Rightarrow> (string \<times> json) list \<Rightarrow> permit \<times> string \<times> string list \<Rightarrow>
     ('w, unit) act" where
  "purge_source env cf job p src =
     (case src of (m, scope, bindings) \<Rightarrow>
        abind (guard_mount env cf) (\<lambda>_.
        if pm_state m = Authorized then cancel_permit (pm_token m)
        else
          abind (for_each (\<lambda>b. put_tombstone env job (episode_key (show_int (pint p ''series_tmdb_id'')) b)) bindings)
            (\<lambda>_.
          abind (send env POST Gateway ''/internal/delete-source'' []
                   (JObj [(''permit_token'', JStr (pm_token m)), (''media_key'', JStr (pstr p ''media_key'')),
                          (''scope_key'', JStr scope)])) (\<lambda>rp.
          pure_act (ebind (json_body rp False) source_removed)))))"

definition cancel_reservations :: "string \<Rightarrow> db \<Rightarrow> db" where
  "cancel_reservations key d =
     d\<lparr>reservations := update_rows (\<lambda>r. rs_media_key r = key)
         (\<lambda>r. r\<lparr>rs_state := RsCancelled, rs_budget_bytes := 0\<rparr>) (reservations d)\<rparr>"

text \<open>\<open>_delete_pending_season_sources\<close>\<close>

definition delete_pending_season_sources :: "'w env \<Rightarrow> config \<Rightarrow> deletion_job \<Rightarrow> ('w, unit) act" where
  "delete_pending_season_sources env cf job =
     abind (pure_act (season_payload job)) (\<lambda>p.
     abind (season_preflight env job) (\<lambda>(series, episodes).
     if list_ex (\<lambda>e. truthy (jget e ''episodeFileId'')) episodes
     then blocked ''season still has imported files before torrent purge''
     else
       abind (season_source_inventory cf job) (\<lambda>sources.
       abind (for_each (tombstone_listed env job p) episodes) (\<lambda>_.
       abind (for_each (purge_source env cf job p) sources) (\<lambda>_.
       write_state (\<lambda>s. s\<lparr>co_db := cancel_reservations (pstr p ''media_key'') (co_db s)\<rparr>))))))"

text \<open>\<open>([1-9][0-9]*):([0-9]+)\<close>\<close>

definition season_source_id :: "string \<Rightarrow> (string \<times> string) option" where
  "season_source_id s =
     (case two_numbers [] '':'' s of Some (a, b) \<Rightarrow> if posnum a then Some (a, b) else None | None \<Rightarrow> None)"

text \<open>The seasons of a Seerr request that is still the one selected.\<close>

definition season_request_seasons ::
    "(string \<times> json) list \<Rightarrow> string \<Rightarrow> json \<Rightarrow> failure + json list" where
  "season_request_seasons p digits request =
     (case as_obj request of
        None \<Rightarrow> Inl (Blocking ''Seerr request changed after season selection'')
      | Some r \<Rightarrow>
          (case as_obj (jget r ''media'') of
             None \<Rightarrow> Inl (Blocking ''Seerr request changed after season selection'')
           | Some media \<Rightarrow>
               ebind (int_of_digits digits) (\<lambda>n.
               if \<not> py_eq (jget r ''id'') (JInt n) \<or>
                  \<not> py_eq (jget media ''tmdbId'') (jget p ''series_tmdb_id'') \<or>
                  jget media ''mediaType'' \<noteq> JStr ''tv'' \<or> plist r ''seasons'' = [] \<or>
                  list_ex (\<lambda>s. case as_obj s of None \<Rightarrow> True | Some d \<Rightarrow> as_int (jget d ''seasonNumber'') = None)
                    (plist r ''seasons'')
               then Inl (Blocking ''Seerr request changed after season selection'')
               else Inr (map (\<lambda>d. jget d ''seasonNumber'') (dicts (plist r ''seasons''))))))"

definition delete_season_request ::
    "'w env \<Rightarrow> config \<Rightarrow> (string \<times> json) list \<Rightarrow> string \<Rightarrow> ('w, unit) act" where
  "delete_season_request env cf p source_id =
     abind (pure_act (season_of_scope (map_option snd (season_source_id source_id)) p)) (\<lambda>same.
     if \<not> same then blocked ''Seerr season request identity is invalid''
     else
       let digits = (case season_source_id source_id of Some (a, b) \<Rightarrow> a | None \<Rightarrow> []) in
       abind (get_json env Seerr (''/api/v1/request/'' @ digits) [] True) (\<lambda>request.
       if request = JNull then ret ()
       else
         abind (pure_act (season_request_seasons p digits request)) (\<lambda>seasons.
         if list_all (\<lambda>n. py_eq n (jget p ''season'')) seasons
         then
           abind (guard_mount env cf) (\<lambda>_.
           abind (send env DELETE Seerr (''/api/v1/request/'' @ digits) [] JNull) (\<lambda>rp.
           status_act True rp))
         else ret ())))"

text \<open>\<open>_delete_season_seerr\<close>\<close>

definition delete_season_seerr :: "'w env \<Rightarrow> config \<Rightarrow> deletion_job \<Rightarrow> ('w, unit) act" where
  "delete_season_seerr env cf job =
     abind (pure_act (season_payload job)) (\<lambda>p.
     abind (read_state (\<lambda>s. map (\<lambda>(r, q). rq_source_id q)
              (reservation_rows (co_db s) (pstr p ''media_key'')))) (\<lambda>sources.
     for_each (delete_season_request env cf p) sources))"

definition unlink_metadata :: "'w env \<Rightarrow> config \<Rightarrow> deletion_job \<Rightarrow> posix \<Rightarrow> ('w, unit) act" where
  "unlink_metadata env cf job file =
     abind (guard_mount env cf) (\<lambda>_.
     abind (season_folder env cf job True) (\<lambda>_.
     abind (season_metadata env cf job False) (\<lambda>now.
     if file \<notin> set now then ret ()
     else
       abind (unlink env file) (\<lambda>answer.
       case answer of
         UnlinkOk \<Rightarrow> ret ()
       | UnlinkAbsent text \<Rightarrow> fail (Transient text)
       | UnlinkFailed text \<Rightarrow> fail (Transient text)))))"

text \<open>\<open>_remove_season_folder\<close>\<close>

definition remove_season_folder :: "'w env \<Rightarrow> config \<Rightarrow> deletion_job \<Rightarrow> ('w, posix) act" where
  "remove_season_folder env cf job =
     abind (season_folder env cf job False) (\<lambda>path.
     abind (ask (\<lambda>w. e_exists env w path)) (\<lambda>there.
     if \<not> there then ret path
     else
       abind (season_metadata env cf job False) (\<lambda>files.
       abind (for_each (unlink_metadata env cf job) files) (\<lambda>_.
       abind (guard_mount env cf) (\<lambda>_.
       abind (season_folder env cf job False) (\<lambda>folder.
       abind (ask (\<lambda>w. e_exists env w folder)) (\<lambda>still.
       if \<not> still then ret path
       else
         abind (rmdir env path) (\<lambda>answer.
         case answer of
           RmdirOk \<Rightarrow> ret path
         | NotEmpty \<Rightarrow> blocked ''season folder contains uncaptured files''
         | RmdirFailed text \<Rightarrow> fail (Transient text)))))))))"

definition check_season_child :: "'w env \<Rightarrow> config \<Rightarrow> deletion_job \<Rightarrow> ('w, unit) act" where
  "check_season_child env cf child =
     abind (captured_file env cf child True) (\<lambda>_.
     abind (association cf child) (\<lambda>_.
     abind (arr_preflight env child True) (\<lambda>_. ret ())))"

text \<open>One turn of the loop of \<open>_process_season\<close>: the job in its next stage, \<open>None\<close> once complete.\<close>

definition season_step :: "'w env \<Rightarrow> config \<Rightarrow> deletion_job \<Rightarrow> ('w, deletion_job option) act" where
  "season_step env cf job =
     abind (guard_mount env cf) (\<lambda>_.
     case dj_stage job of
       Queued \<Rightarrow>
         abind (season_folder env cf job True) (\<lambda>_.
         abind (season_metadata env cf job True) (\<lambda>_.
         abind (season_source_inventory cf job) (\<lambda>_.
         abind (season_preflight env job) (\<lambda>_.
         abind (season_child_jobs job) (\<lambda>children.
         abind (for_each (check_season_child env cf) children) (\<lambda>_.
         abind (advance env job Validated) (\<lambda>j. ret (Some j))))))))
     | Validated \<Rightarrow>
         abind (cancel_season env cf job) (\<lambda>_.
         abind (advance env job Tombstoned) (\<lambda>j. ret (Some j)))
     | Tombstoned \<Rightarrow>
         abind (season_child_jobs job) (\<lambda>children.
         if list_ex (\<lambda>c. dj_stage c \<noteq> Complete) children
         then retry ''season episode cleanup is still processing''
         else
           abind (delete_pending_season_sources env cf job) (\<lambda>_.
           abind (advance env job TorrentsRemoved) (\<lambda>j. ret (Some j))))
     | TorrentsRemoved \<Rightarrow>
         abind (delete_season_seerr env cf job) (\<lambda>_.
         abind (advance env job SeerrRemoved) (\<lambda>j. ret (Some j)))
     | SeerrRemoved \<Rightarrow>
         abind (remove_season_folder env cf job) (\<lambda>path.
         abind (forget_jellyfin_item env cf (dj_item_id job) path) (\<lambda>_.
         abind (advance env job JellyfinRemoved) (\<lambda>j. ret (Some j))))
     | JellyfinRemoved \<Rightarrow>
         abind (send env POST Seerr ''/api/v1/settings/jellyfin/sync'' []
                  (JObj [(''start'', JBool True), (''cancel'', JBool False)])) (\<lambda>rp.
         abind (status_act False rp) (\<lambda>_.
         abind (advance env job Complete) (\<lambda>_. ret None)))
     | _ \<Rightarrow> blocked ''unknown season deletion stage'')"

section \<open>A movie or an episode\<close>

text \<open>An episode of a season waits until the season has passed its own preflight.\<close>

definition parent_ready :: "deletion_job \<Rightarrow> ('w, unit) act" where
  "parent_ready job =
     (case as_obj (dj_payload job) of
        None \<Rightarrow> fail Unexpected
      | Some p \<Rightarrow>
          let parent_id = jget p ''parent_item_id'' in
          if \<not> truthy parent_id then ret ()
          else if \<not> hashable parent_id then fail (Transient ''type is not supported'')
          else
            abind (read_state (\<lambda>s. Option.bind (as_str parent_id) (\<lambda>i. get_job i (co_jobs s)))) (\<lambda>found.
            case found of
              None \<Rightarrow> blocked ''season deletion parent is unavailable or blocked''
            | Some parent \<Rightarrow>
                if dj_item_type parent \<noteq> ''Season'' \<or> dj_stage parent = Blocked
                then blocked ''season deletion parent is unavailable or blocked''
                else check (dj_stage parent \<noteq> Queued \<and> dj_stage parent \<noteq> Validated)
                       (Retryable ''season batch has not passed preflight'')))"

text \<open>One turn of the loop of \<open>_process\<close>.\<close>

definition item_step :: "'w env \<Rightarrow> config \<Rightarrow> deletion_job \<Rightarrow> ('w, deletion_job option) act" where
  "item_step env cf job =
     abind (guard_mount env cf) (\<lambda>_.
     case dj_stage job of
       Queued \<Rightarrow>
         abind (captured_file env cf job True) (\<lambda>_.
         abind (association cf job) (\<lambda>_.
         abind (arr_preflight env job True) (\<lambda>_.
         abind (advance env job Validated) (\<lambda>j. ret (Some j)))))
     | Validated \<Rightarrow>
         abind (captured_file env cf job True) (\<lambda>_.
         abind (pure_act (captured_payload job)) (\<lambda>p.
         abind (put_tombstone env job (pstr p ''media_key'')) (\<lambda>_.
         abind (advance env job Tombstoned) (\<lambda>j. ret (Some j)))))
     | Tombstoned \<Rightarrow>
         abind (delete_source env cf job) (\<lambda>_.
         abind (advance env job TorrentsRemoved) (\<lambda>j. ret (Some j)))
     | TorrentsRemoved \<Rightarrow>
         abind (delete_arr env cf job) (\<lambda>_.
         abind (advance env job ArrRemoved) (\<lambda>j. ret (Some j)))
     | ArrRemoved \<Rightarrow>
         abind (delete_seerr env cf job) (\<lambda>_.
         abind (advance env job SeerrRemoved) (\<lambda>j. ret (Some j)))
     | SeerrRemoved \<Rightarrow>
         abind (delete_jellyfin env cf job) (\<lambda>_.
         abind (advance env job JellyfinRemoved) (\<lambda>j. ret (Some j)))
     | JellyfinRemoved \<Rightarrow>
         abind (delete_seerr_media_cache env cf job) (\<lambda>_.
         abind (advance env job Complete) (\<lambda>_. ret None))
     | _ \<Rightarrow> blocked ''unknown deletion stage'')"

section \<open>The coordinator\<close>

text \<open>A \<open>while True\<close> over stages; a job has at most seven turns before it is complete.\<close>

fun stage_loop :: "nat \<Rightarrow> (deletion_job \<Rightarrow> ('w, deletion_job option) act) \<Rightarrow> deletion_job \<Rightarrow> ('w, unit) act" where
  "stage_loop 0 step job = fail OutOfFuel"
| "stage_loop (Suc fuel) step job =
     abind (step job) (\<lambda>next. case next of None \<Rightarrow> ret () | Some j \<Rightarrow> stage_loop fuel step j)"

definition stage_fuel :: nat where
  "stage_fuel = 8"

text \<open>\<open>_process\<close>\<close>

definition process :: "'w env \<Rightarrow> config \<Rightarrow> deletion_job \<Rightarrow> ('w, unit) act" where
  "process env cf job =
     (if dj_item_type job = ''Season'' then stage_loop stage_fuel (season_step env cf) job
      else abind (parent_ready job) (\<lambda>_. stage_loop stage_fuel (item_step env cf) job))"

definition settle :: "'w env \<Rightarrow> deletion_job \<Rightarrow> job_stage \<Rightarrow> string \<Rightarrow> ('w, unit) act" where
  "settle env job st text =
     abind (query (e_now env)) (\<lambda>now.
     abind (read_state co_jobs) (\<lambda>jobs.
     case set_stage (dj_item_id job) (stage_text st) (Some text) now jobs of
       Inl e \<Rightarrow> fail Unexpected
     | Inr (jobs', j) \<Rightarrow> write_state (\<lambda>s. s\<lparr>co_jobs := jobs'\<rparr>)))"

definition settle_retry :: "'w env \<Rightarrow> deletion_job \<Rightarrow> string \<Rightarrow> ('w, unit) act" where
  "settle_retry env job text =
     abind (read_state (\<lambda>s. get_job (dj_item_id job) (co_jobs s))) (\<lambda>current.
     case current of
       None \<Rightarrow> ret ()
     | Some c \<Rightarrow>
         abind (settle env job (dj_stage c) text) (\<lambda>_.
         abind (query (e_now env)) (\<lambda>now.
         write_state (\<lambda>s. s\<lparr>co_jobs := touch (dj_item_id job) now (co_jobs s)\<rparr>))))"

definition on_outcome ::
    "(failure \<Rightarrow> ('w, 'b) act) \<Rightarrow> ('a \<Rightarrow> ('w, 'b) act) \<Rightarrow> ('w, 'a) act \<Rightarrow> ('w, 'b) act" where
  "on_outcome handler f m s = (case m s of (Inl e, s') \<Rightarrow> handler e s' | (Inr x, s') \<Rightarrow> f x s')"

text \<open>\<open>run_once\<close>\<close>

definition run_once :: "'w env \<Rightarrow> config \<Rightarrow> ('w, string) act" where
  "run_once env cf =
     abind (read_state (\<lambda>s. next_queued (co_jobs s))) (\<lambda>found.
     case found of
       None \<Rightarrow> ret ''empty''
     | Some job \<Rightarrow>
         on_outcome
           (\<lambda>e. case e of
                  Blocking text \<Rightarrow> abind (settle env job Blocked text) (\<lambda>_. ret ''blocked'')
                | Retryable text \<Rightarrow> abind (settle_retry env job text) (\<lambda>_. ret ''retry'')
                | Transient text \<Rightarrow> abind (settle_retry env job text) (\<lambda>_. ret ''retry'')
                | _ \<Rightarrow> fail e)
           (\<lambda>_. ret ''complete'')
           (process env cf job))"

end
