(* ===== verification/DeletionFacts.thy ===== *)
theory DeletionFacts
  imports DeletionProcess
begin

text \<open>
  What every step of the deletion coordinator keeps.  \<open>allowed\<close> says that the environment
  keeps a predicate on the database and that the reads, and the calls to some services, are
  acceptable while the jobs are the given ones; each operation is then shown to make
  acceptable calls only.
\<close>

section \<open>Checks\<close>

lemma captured_payload_fuel [keeps_rules]: "fuel_free (captured_payload job)"
  unfolding captured_payload_def item_identity_def int_of_digits_def by (intro keeps_rules)

lemma two_digit_text_fuel [keeps_rules]: "fuel_free (two_digit_text j)"
  by (cases j) (auto intro!: keeps_rules)

lemma scope_fuel [keeps_rules]: "fuel_free (item_scope job p)"
  unfolding item_scope_def scope_text_def by (intro keeps_rules)

lemma associated_fuel [keeps_rules]: "fuel_free (associated cf key scope d)"
  unfolding associated_def by (intro keeps_rules)

lemma json_body_fuel [keeps_rules]: "fuel_free (status_ok rp missing)" "fuel_free (json_body rp missing)"
  unfolding json_body_def status_ok_def by (intro keeps_rules)+

lemma source_retained_fuel [keeps_rules]: "fuel_free (source_retained j)"
  unfolding source_retained_def by (intro keeps_rules)

lemma seerr_request_matches_fuel [keeps_rules]: "fuel_free (seerr_request_matches request source_id p)"
  unfolding seerr_request_matches_def int_of_digits_def by (intro keeps_rules)

lemma seerr_page_rows_fuel [keeps_rules]: "fuel_free (seerr_page_rows skip result)"
  unfolding seerr_page_rows_def Let_def by (intro keeps_rules)

lemma seerr_row_fuel [keeps_rules]: "fuel_free (seerr_row resource seen row)"
  unfolding seerr_row_def Let_def by (intro keeps_rules)

lemma seerr_batch_fuel [keeps_rules]: "fuel_free (seerr_batch resource rows batch)"
  by (induction batch arbitrary: rows) (auto intro!: keeps_rules)

lemma jellyfin_items_fuel [keeps_rules]: "fuel_free (jellyfin_items item result)"
  unfolding jellyfin_items_def by (intro keeps_rules)

section \<open>Acceptable calls\<close>

definition allowed ::
    "'w env \<Rightarrow> deletion_job list \<Rightarrow> (db \<Rightarrow> bool) \<Rightarrow> (logged \<Rightarrow> bool) \<Rightarrow> service set \<Rightarrow> bool" where
  "allowed env jobs D ok svs =
     (env_keeps env D \<and>
      (\<forall>rq d. (hq_method rq = GET \<or> hq_service rq \<in> svs) \<longrightarrow> D d \<longrightarrow>
              ok \<lparr>lg_call = Sent rq, lg_jobs = jobs, lg_db = d\<rparr>))"

lemma allowed_reads: "allowed env jobs D ok svs \<Longrightarrow> allowed env jobs D ok {}"
  by (simp add: allowed_def)

lemma keeps_allowed_http:
  assumes "allowed env jobs D ok svs" and "hq_method rq = GET \<or> hq_service rq \<in> svs"
  shows "keeps (since jobs D ok before) (http env rq)"
  by (rule keeps_http) (use assms in \<open>auto simp: allowed_def\<close>)

lemma keeps_send:
  "allowed env jobs D ok svs \<Longrightarrow> sv \<in> svs \<Longrightarrow>
   keeps (since jobs D ok before) (send env m sv path params body)"
  unfolding send_def by (rule keeps_allowed_http) auto

lemma keeps_blocked [keeps_rules]: "keeps I (blocked text)"
  unfolding blocked_def by (intro keeps_rules)

lemma keeps_retry [keeps_rules]: "keeps I (retry text)"
  unfolding retry_def by (intro keeps_rules)

lemma ends_blocked: "ends I (blocked text) Q"
  unfolding blocked_def by (intro ends_fail keeps_rules)

lemma ends_retry: "ends I (retry text) Q"
  unfolding retry_def by (intro ends_fail keeps_rules)

lemma keeps_status_act [keeps_rules]: "keeps I (status_act missing rp)"
  unfolding status_act_def by (intro keeps_rules)

lemma keeps_list [keeps_rules]:
  "keeps I m \<Longrightarrow> (\<And>x xs. keeps I (f x xs)) \<Longrightarrow> keeps I (case v of [] \<Rightarrow> m | x # xs \<Rightarrow> f x xs)"
  by (cases v) auto

lemma keeps_get_json [keeps_rules]:
  "allowed env jobs D ok svs \<Longrightarrow> keeps (since jobs D ok before) (get_json env sv path params missing)"
  unfolding get_json_def by (intro keeps_rules keeps_allowed_http) auto

lemma keeps_guard_mount [keeps_rules]: "keeps (since jobs D ok before) (guard_mount env cf)"
  unfolding guard_mount_def by (intro keeps_rules)

lemma keeps_no_symlink [keeps_rules]: "keeps (since jobs D ok before) (no_symlink env text data cs)"
  by (induction cs) (auto intro!: keeps_rules)

lemma keeps_within_library [keeps_rules]: "keeps (since jobs D ok before) (within_library env cf job path)"
  unfolding within_library_def by (intro keeps_rules)

lemma keeps_captured_file [keeps_rules]:
  "keeps (since jobs D ok before) (captured_file env cf job must_exist)"
  unfolding captured_file_def Let_def by (intro keeps_rules)

lemma keeps_association [keeps_rules]: "keeps (since jobs D ok before) (association cf job)"
  unfolding association_def by (intro keeps_rules)

lemma keeps_movie_preflight [keeps_rules]:
  "allowed env jobs D ok svs \<Longrightarrow> keeps (since jobs D ok before) (movie_preflight env p b)"
  unfolding movie_preflight_def by (intro keeps_rules)

lemma keeps_episode_preflight [keeps_rules]:
  "allowed env jobs D ok svs \<Longrightarrow> keeps (since jobs D ok before) (episode_preflight env p b)"
  unfolding episode_preflight_def Let_def by (intro keeps_rules)

lemma keeps_arr_preflight [keeps_rules]:
  "allowed env jobs D ok svs \<Longrightarrow> keeps (since jobs D ok before) (arr_preflight env job b)"
  unfolding arr_preflight_def by (intro keeps_rules)

lemma keeps_jellyfin_item_present [keeps_rules]:
  "allowed env jobs D ok svs \<Longrightarrow> keeps (since jobs D ok before) (jellyfin_item_present env item)"
  unfolding jellyfin_item_present_def by (intro keeps_rules)

lemma keeps_seerr_page [keeps_rules]:
  "allowed env jobs D ok svs \<Longrightarrow> keeps (since jobs D ok before) (seerr_page env cf resource known rows)"
  unfolding seerr_page_def Let_def by (intro keeps_rules)

text \<open>A page brings a row as long as the listing is not complete, so its length is enough fuel.\<close>

lemma seerr_batch_length: "seerr_batch resource rows batch = Inr rows' \<Longrightarrow> length rows' = length rows + length batch"
  by (induction batch arbitrary: rows) (auto simp: err_simps)

lemma seerr_page_value:
  assumes "seerr_page env cf resource known rows s = (Inr (n, rows'), s')"
  shows "0 \<le> n" and "int (length rows') = int (length rows) + min 100 (max (n - int (length rows)) 0)"
    and "known = None \<or> known = Some n"
proof -
  from assms obtain result batch where "seerr_page_rows (int (length rows)) result = Inr (n, batch)"
      and "seerr_batch resource rows batch = Inr rows'" and "known = None \<or> known = Some n"
    unfolding seerr_page_def Let_def act_simps
    by (auto simp: act_simps blocked_def simp del: append.simps split: if_splits)
  then show "0 \<le> n" and "int (length rows') = int (length rows) + min 100 (max (n - int (length rows)) 0)"
      and "known = None \<or> known = Some n"
    by (auto simp: seerr_page_rows_def Let_def seerr_batch_length split: option.splits if_splits)
qed

lemma keeps_seerr_more:
  assumes "allowed env jobs D ok svs" and "int (length rows) \<le> n" and "n - int (length rows) \<le> int fuel"
  shows "keeps (since jobs D ok before) (seerr_more fuel env cf resource n rows)"
  using assms(2,3)
proof (induction fuel arbitrary: rows)
  case 0
  then show ?case by (subst seerr_more.simps) (auto intro!: keeps_rules)
next
  case (Suc fuel)
  show ?case
  proof (cases "int (length rows) = n")
    case True
    then show ?thesis by (subst seerr_more.simps) (auto intro!: keeps_rules)
  next
    case False
    have "keeps (since jobs D ok before)
       (abind (seerr_page env cf resource (Some n) rows) (\<lambda>(_, rows'). seerr_more fuel env cf resource n rows'))"
    proof (rule keeps_bind_value, rule keeps_seerr_page [OF assms(1)])
      fix s v s'
      assume page: "seerr_page env cf resource (Some n) rows s = (Inr v, s')"
      obtain m rows' where v: "v = (m, rows')" by (cases v)
      from page have m: "m = n" using seerr_page_value(3) v by fastforce
      with page v have "int (length rows') = int (length rows) + min 100 (max (n - int (length rows)) 0)"
        by (auto dest: seerr_page_value(2))
      with False Suc.prems have "int (length rows') \<le> n" and "n - int (length rows') \<le> int fuel" by auto
      then show "keeps (since jobs D ok before) (case v of (_, rows') \<Rightarrow> seerr_more fuel env cf resource n rows')"
        using Suc.IH by (simp add: v)
    qed
    with False show ?thesis by (subst seerr_more.simps) simp
  qed
qed

lemma keeps_seerr_rows [keeps_rules]:
  assumes "allowed env jobs D ok svs"
  shows "keeps (since jobs D ok before) (seerr_rows env cf resource)"
  unfolding seerr_rows_def
proof (rule keeps_bind_value, rule keeps_seerr_page [OF assms])
  fix s v s'
  assume page: "seerr_page env cf resource None [] s = (Inr v, s')"
  obtain n rows where v: "v = (n, rows)" by (cases v)
  from page v have "0 \<le> n" and "int (length rows) = min 100 (max n 0)" by (auto dest: seerr_page_value)
  then show "keeps (since jobs D ok before) (case v of (n, rows) \<Rightarrow> seerr_more (nat n) env cf resource n rows)"
    unfolding v prod.case by (intro keeps_seerr_more [OF assms]) auto
qed

lemma keeps_seerr_movie_cache [keeps_rules]:
  "allowed env jobs D ok svs \<Longrightarrow> keeps (since jobs D ok before) (seerr_movie_cache env cf tmdb)"
  unfolding seerr_movie_cache_def by (intro keeps_rules)

section \<open>The steps of a movie or an episode\<close>

lemma keeps_unlink_since [keeps_rules]: "keeps (since jobs D ok before) (unlink_since env item st)"
  unfolding unlink_since_def by (intro keeps_rules) auto

lemma keeps_forget_unlink [keeps_rules]: "keeps (since jobs D ok before) (forget_unlink item)"
  unfolding forget_unlink_def by (intro keeps_rules) auto

lemma keeps_stop_probe [keeps_rules]:
  "allowed env jobs D ok svs \<Longrightarrow> Gateway \<in> svs \<Longrightarrow> keeps (since jobs D ok before) (stop_probe env token)"
  unfolding stop_probe_def by (intro keeps_rules keeps_send)

lemma keeps_delete_source:
  "allowed env jobs D ok svs \<Longrightarrow> Gateway \<in> svs \<Longrightarrow> keeps (since jobs D ok before) (delete_source env cf job)"
  unfolding delete_source_def remove_torrent_def by (intro keeps_rules keeps_send)

text \<open>Only a sidecar of the video is unlinked.\<close>

definition sidecar_of :: "posix \<Rightarrow> posix \<Rightarrow> bool" where
  "sidecar_of video path = (parent_of path = parent_of video \<and> is_sidecar video (name_of path))"

definition unlinks_allowed :: "deletion_job list \<Rightarrow> (db \<Rightarrow> bool) \<Rightarrow> (logged \<Rightarrow> bool) \<Rightarrow> (posix \<Rightarrow> bool) \<Rightarrow> bool" where
  "unlinks_allowed jobs D ok P =
     (\<forall>p d. P p \<longrightarrow> D d \<longrightarrow> ok \<lparr>lg_call = Unlink p, lg_jobs = jobs, lg_db = d\<rparr>)"

lemma keeps_allowed_unlink:
  "unlinks_allowed jobs D ok P \<Longrightarrow> P p \<Longrightarrow> keeps (since jobs D ok before) (unlink env p)"
  by (rule keeps_unlink) (auto simp: unlinks_allowed_def)

lemma keeps_remove_sidecar:
  "unlinks_allowed jobs D ok P \<Longrightarrow> P p \<Longrightarrow> keeps (since jobs D ok before) (remove_sidecar env cf p)"
  unfolding remove_sidecar_def by (intro keeps_rules keeps_allowed_unlink)

lemma keeps_consider_sidecar:
  assumes "unlinks_allowed jobs D ok (sidecar_of video)"
  shows "keeps (since jobs D ok before) (consider_sidecar env cf video name)"
  unfolding consider_sidecar_def
  by (intro keeps_rules keeps_remove_sidecar [OF assms])
    (simp_all add: sidecar_of_def parent_of_def name_of_def)

lemma keeps_cleanup_sidecars:
  assumes "unlinks_allowed jobs D ok (sidecar_of video)"
  shows "keeps (since jobs D ok before) (cleanup_sidecars env cf video)"
  unfolding cleanup_sidecars_def Let_def
  by (intro keeps_rules keeps_consider_sidecar [OF assms])

lemma keeps_delete_media:
  assumes "allowed env jobs D ok svs" and "Radarr \<in> svs" and "Sonarr \<in> svs"
  shows "keeps (since jobs D ok before) (delete_movie env cf job p b)"
    and "keeps (since jobs D ok before) (delete_episode env cf job p b)"
  unfolding delete_movie_def delete_movie_file_def delete_episode_def
  by (intro keeps_rules keeps_send [OF assms(1)] assms(2,3))+

lemma captured_file_path:
  assumes "captured_file env cf job b s = (Inr (path, current), s')"
  shows "\<exists>p. captured_payload job = Inr p \<and> path = posix_of (pstr p ''file_path'')"
  using assms
  by (cases "captured_payload job")
    (auto simp: captured_file_def abind_def pure_act_def ret_def blocked_def retry_def fail_def query_def
      pstr_def Let_def split: option.splits if_splits prod.splits sum.splits stat_answer.splits)

definition payload_of :: "deletion_job \<Rightarrow> (string \<times> json) list" where
  "payload_of job = (case as_obj (dj_payload job) of Some p \<Rightarrow> p | None \<Rightarrow> [])"

lemma captured_payload_of: "captured_payload job = Inr p \<Longrightarrow> p = payload_of job"
  by (auto simp: captured_payload_def payload_of_def err_simps split: option.splits if_splits)

definition video_of :: "deletion_job \<Rightarrow> posix" where
  "video_of job = posix_of (pstr (payload_of job) ''file_path'')"

lemma keeps_delete_arr:
  assumes "allowed env jobs D ok svs" and "Radarr \<in> svs" and "Sonarr \<in> svs"
    and "unlinks_allowed jobs D ok (sidecar_of (video_of job))"
  shows "keeps (since jobs D ok before) (delete_arr env cf job)"
  unfolding delete_arr_def
proof (rule keeps_bind_value, rule keeps_captured_file)
  fix s v s'
  assume "captured_file env cf job False s = (Inr v, s')"
  then have "fst v = video_of job"
    by (cases v) (auto dest!: captured_file_path captured_payload_of simp: video_of_def)
  moreover obtain path current where "v = (path, current)" by (cases v)
  ultimately have v: "v = (video_of job, current)" by simp
  show "keeps (since jobs D ok before)
     (case v of (path, current) \<Rightarrow>
        abind (pure_act (captured_payload job)) (\<lambda>p.
        abind (guard_mount env cf) (\<lambda>_.
        abind (arr_preflight env job (current \<noteq> None)) (\<lambda>has_arr_file.
        abind (if dj_item_type job = ''Movie''
               then (if has_arr_file then delete_movie env cf job p (current \<noteq> None) else ret ())
               else delete_episode env cf job p has_arr_file) (\<lambda>_.
        abind (guard_mount env cf) (\<lambda>_.
        abind (captured_file env cf job False) (\<lambda>(_, remaining).
        if remaining \<noteq> None then blocked ''Arr did not remove the captured media file''
        else cleanup_sidecars env cf path)))))))"
    unfolding v prod.case
    by (intro keeps_rules keeps_arr_preflight [OF assms(1)] keeps_delete_media [OF assms(1-3)]
      keeps_cleanup_sidecars [OF assms(4)])
qed

section \<open>Records\<close>

lemma keeps_delete_seerr:
  "allowed env jobs D ok svs \<Longrightarrow> Seerr \<in> svs \<Longrightarrow> keeps (since jobs D ok before) (delete_seerr env cf job)"
  unfolding delete_seerr_def by (intro keeps_rules keeps_send)

lemma keeps_forget_notified [keeps_rules]: "keeps (since jobs D ok before) (forget_notified item)"
  unfolding forget_notified_def by (intro keeps_rules) auto

lemma keeps_forget_refreshed [keeps_rules]: "keeps (since jobs D ok before) (forget_refreshed item)"
  unfolding forget_refreshed_def by (intro keeps_rules) auto

lemma keeps_notified [keeps_rules]:
  "keeps (since jobs D ok before) (write_state (\<lambda>s. s\<lparr>co_notify_at := f s\<rparr>))"
  "keeps (since jobs D ok before) (write_state (\<lambda>s. s\<lparr>co_refresh_at := f s\<rparr>))"
  by (auto intro!: keeps_write)

lemma keeps_forget_jellyfin_item [keeps_rules]:
  "allowed env jobs D ok svs \<Longrightarrow> Jellyfin \<in> svs \<Longrightarrow>
   keeps (since jobs D ok before) (forget_jellyfin_item env cf item path)"
  unfolding forget_jellyfin_item_def notify_jellyfin_def refresh_jellyfin_def
  by (intro keeps_rules keeps_send)

lemma keeps_delete_jellyfin:
  "allowed env jobs D ok svs \<Longrightarrow> Jellyfin \<in> svs \<Longrightarrow>
   keeps (since jobs D ok before) (delete_jellyfin env cf job)"
  unfolding delete_jellyfin_def by (intro keeps_rules)

lemma keeps_delete_seerr_media_cache:
  "allowed env jobs D ok svs \<Longrightarrow> Seerr \<in> svs \<Longrightarrow>
   keeps (since jobs D ok before) (delete_seerr_media_cache env cf job)"
  unfolding delete_seerr_media_cache_def remove_cache_def confirm_cache_removed_def
  by (intro keeps_rules keeps_send)

lemma keeps_parent_ready [keeps_rules]: "keeps (since jobs D ok before) (parent_ready job)"
  unfolding parent_ready_def Let_def by (intro keeps_rules)

end
