(* ===== verification/SeasonFacts.thy ===== *)
theory SeasonFacts
  imports DeletionFacts
begin

text \<open>
  What every step of a season deletion keeps.  It also writes to the shared database; the
  predicates it keeps are those that more tombstones cannot break and that depend on
  nothing else.
\<close>

section \<open>Predicates on tombstones\<close>

definition upward :: "(db \<Rightarrow> bool) \<Rightarrow> bool" where
  "upward D = (\<forall>d d'. D d \<longrightarrow> (\<forall>k. tombstoned d k \<longrightarrow> tombstoned d' k) \<longrightarrow> D d')"

lemma tombstoned_tombstone: "tombstoned (tombstone key g now d) k \<longleftrightarrow> k = key \<or> tombstoned d k"
  by (auto simp: tombstone_def tombstoned_def table_simps)

lemma cancel_authorized_tombstones:
  assumes "PermitLifecycle.cancel_authorized token d = Inr (d', done)"
  shows "tombstones d' = tombstones d"
  using assms
  by (auto simp: PermitLifecycle.cancel_authorized_def err_simps Let_def refresh_budget_def set_budget_frame
      split: option.splits dest: set_budget_frame(4))

lemma keeps_transact:
  assumes "upward D" and "\<And>d. fuel_free (f d)"
    and "\<And>d d' x k. f d = Inr (d', x) \<Longrightarrow> tombstoned d k \<Longrightarrow> tombstoned d' k"
  shows "keeps (since jobs D ok before) (transact f)"
  unfolding keeps_def
proof (intro allI impI)
  fix s :: "'c co"
  assume "since jobs D ok before s"
  then show "since jobs D ok before (snd (transact f s)) \<and> fuel_free (fst (transact f s))"
    using assms(1,3) assms(2) [of "co_db s"]
    by (cases "f (co_db s)") (auto simp: transact_def since_def upward_def fuel_free_def)
qed

lemma keeps_db:
  assumes "upward D" and "\<And>s k. tombstoned (co_db s) k \<Longrightarrow> tombstoned (f s) k"
  shows "keeps (since jobs D ok before) (write_state (\<lambda>s. s\<lparr>co_db := f s\<rparr>))"
  using assms by (auto simp: keeps_def since_def write_state_def fuel_free_def upward_def)

lemma keeps_put_tombstone [keeps_rules]:
  "upward D \<Longrightarrow> keeps (since jobs D ok before) (put_tombstone env job key)"
  unfolding put_tombstone_def by (intro keeps_rules keeps_db) (simp_all add: tombstoned_tombstone)

text \<open>After \<open>put_tombstone\<close> the rest may rely on the tombstone.\<close>

definition marked :: "(db \<Rightarrow> bool) \<Rightarrow> string \<Rightarrow> db \<Rightarrow> bool" where
  "marked D key d = (D d \<and> tombstoned d key)"

lemma upward_marked: "upward D \<Longrightarrow> upward (marked D key)"
  by (auto simp: upward_def marked_def)

lemma since_marked: "since jobs (marked D key) ok before s \<Longrightarrow> since jobs D ok before s"
  by (auto simp: since_def marked_def)

lemma put_tombstone_ends:
  "upward D \<Longrightarrow>
   ends (since jobs D ok before) (put_tombstone env job key) (\<lambda>_. since jobs (marked D key) ok before)"
  by (auto simp: ends_def put_tombstone_def abind_def query_def write_state_def since_def marked_def upward_def
      tombstoned_tombstone split: prod.splits)

lemma ends_after_tombstone:
  assumes "upward D" and "keeps (since jobs (marked D key) ok before) m"
  shows "ends (since jobs D ok before) (abind (put_tombstone env job key) (\<lambda>_. m))
           (\<lambda>_. since jobs (marked D key) ok before)"
  by (rule ends_seq [OF put_tombstone_ends [OF assms(1)] ends_of_keeps [OF assms(2)]])
    (auto intro: since_marked)

section \<open>Checks\<close>

lemma season_payload_fuel [keeps_rules]: "fuel_free (season_payload job)"
proof -
  have "fuel_free (episode_entries job p seen es)" for p seen es
    by (induction es arbitrary: seen) (auto simp: episode_entry_def intro!: keeps_rules)
  then show ?thesis unfolding season_payload_def metadata_entry_ok_def by (intro keeps_rules)
qed

lemma season_child_job_fuel [keeps_rules]: "fuel_free (season_child_job jobs e)"
  unfolding season_child_job_def by (intro keeps_rules)

lemma listed_season_fuel [keeps_rules]: "fuel_free (listed_season p answer)"
  unfolding listed_season_def listed_episode_ok_def Let_def by (intro keeps_rules)

lemma season_of_scope_fuel [keeps_rules]: "fuel_free (season_of_scope digits p)"
  unfolding season_of_scope_def int_of_digits_def by (intro keeps_rules)

lemma season_source_fuel [keeps_rules]: "fuel_free (season_source cf d p mr)"
  unfolding season_source_def source_bindings_def binding_ok_def Let_def by (intro keeps_rules)

lemma season_checks_fuel [keeps_rules]:
  "fuel_free (cancel_season_request cf key d)" "fuel_free (season_unmonitored p series)"
  "fuel_free (listed_episode_key p e)" "fuel_free (source_removed j)"
  "fuel_free (season_request_seasons p digits request)"
  unfolding cancel_season_request_def season_unmonitored_def listed_episode_key_def source_removed_def
    season_request_seasons_def int_of_digits_def Let_def
  by (intro keeps_rules)+

section \<open>Reads\<close>

lemma keeps_stat_act [keeps_rules]: "keeps (since jobs D ok before) (stat_act env path)"
  unfolding stat_act_def by (intro keeps_rules)

lemma keeps_season_folder [keeps_rules]: "keeps (since jobs D ok before) (season_folder env cf job b)"
  unfolding season_folder_def season_within_library_def Let_def by (intro keeps_rules)

lemma keeps_metadata_files [keeps_rules]:
  "keeps (since jobs D ok before) (metadata_files env folder b es)"
  by (induction es) (auto simp: metadata_file_def Let_def intro!: keeps_rules)

lemma keeps_season_metadata [keeps_rules]: "keeps (since jobs D ok before) (season_metadata env cf job b)"
  unfolding season_metadata_def by (intro keeps_rules)

lemma keeps_season_child_jobs [keeps_rules]: "keeps (since jobs D ok before) (season_child_jobs job)"
  unfolding season_child_jobs_def by (intro keeps_rules)

lemma keeps_season_preflight [keeps_rules]:
  "allowed env jobs D ok svs \<Longrightarrow> keeps (since jobs D ok before) (season_preflight env job)"
  unfolding season_preflight_def by (intro keeps_rules)

lemma keeps_season_source_inventory [keeps_rules]:
  "keeps (since jobs D ok before) (season_source_inventory cf job)"
  unfolding season_source_inventory_def by (intro keeps_rules)

lemma keeps_check_season_child [keeps_rules]:
  "allowed env jobs D ok svs \<Longrightarrow> keeps (since jobs D ok before) (check_season_child env cf child)"
  unfolding check_season_child_def by (intro keeps_rules)

section \<open>Steps\<close>

lemma season_payload_of: "season_payload job = Inr p \<Longrightarrow> p = payload_of job"
  by (auto simp: season_payload_def payload_of_def err_simps split: option.splits)

definition job_key :: "deletion_job \<Rightarrow> string" where
  "job_key job = pstr (payload_of job) ''media_key''"

lemma keeps_cancel_season_request:
  "upward D \<Longrightarrow> keeps (since jobs D ok before) (transact (cancel_season_request cf key))"
  by (rule keeps_transact)
    (auto simp: cancel_season_request_def Let_def tombstoned_def split: if_splits intro!: keeps_rules)

lemma cancel_season_ends:
  assumes allow: "allowed env jobs (marked D (job_key job)) ok svs" and "Sonarr \<in> svs" and up: "upward D"
  shows "ends (since jobs D ok before) (cancel_season env cf job)
           (\<lambda>_. since jobs (marked D (job_key job)) ok before)"
  unfolding cancel_season_def
proof (rule ends_bind_value)
  show "keeps (since jobs D ok before) (pure_act (season_payload job))" by (intro keeps_rules)
next
  fix s p s'
  assume "pure_act (season_payload job) s = (Inr p, s')"
  then have key: "pstr p ''media_key'' = job_key job"
    by (auto simp: act_simps job_key_def dest: season_payload_of)
  show "ends (since jobs D ok before)
     (abind (put_tombstone env job (pstr p ''media_key'')) (\<lambda>_.
     abind (transact (cancel_season_request cf (pstr p ''media_key''))) (\<lambda>_.
     abind (season_preflight env job) (\<lambda>(series, episodes).
     abind (pure_act (season_unmonitored p series)) (\<lambda>series'.
     abind (guard_mount env cf) (\<lambda>_.
     abind (send env PUT Sonarr (''/api/v3/series/'' @ show_int (pint p ''sonarr_series_id'')) []
              (JObj series')) (\<lambda>rp.
     abind (status_act False rp) (\<lambda>_.
     abind (send env PUT Sonarr ''/api/v3/episode/monitor'' []
              (JObj [(''episodeIds'', JList (map (\<lambda>e. jget e ''id'') episodes)),
                     (''monitored'', JBool False)])) (\<lambda>rp.
     status_act False rp)))))))))
     (\<lambda>_. since jobs (marked D (job_key job)) ok before)"
    unfolding key
    by (rule ends_after_tombstone [OF up]) (intro keeps_rules keeps_cancel_season_request upward_marked [OF up]
      keeps_send [OF allow] keeps_season_preflight [OF allow] assms(2))
qed

lemma keeps_tombstone_listed [keeps_rules]:
  "upward D \<Longrightarrow> keeps (since jobs D ok before) (tombstone_listed env job p e)"
  unfolding tombstone_listed_def by (intro keeps_rules)

lemma keeps_cancel_permit [keeps_rules]: "upward D \<Longrightarrow> keeps (since jobs D ok before) (cancel_permit token)"
  unfolding cancel_permit_def
  by (intro keeps_rules keeps_transact)
    (auto simp: cancel_permit_row_def tombstoned_def cancel_authorized_tombstones
      intro!: keeps_rules split: sum.splits)

lemma keeps_purge_source [keeps_rules]:
  "allowed env jobs D ok svs \<Longrightarrow> Gateway \<in> svs \<Longrightarrow> upward D \<Longrightarrow>
   keeps (since jobs D ok before) (purge_source env cf job p src)"
  unfolding purge_source_def by (intro keeps_rules keeps_send)

lemma keeps_delete_pending_season_sources:
  "allowed env jobs D ok svs \<Longrightarrow> Gateway \<in> svs \<Longrightarrow> upward D \<Longrightarrow>
   keeps (since jobs D ok before) (delete_pending_season_sources env cf job)"
  unfolding delete_pending_season_sources_def
  by (intro keeps_rules keeps_db) (simp_all add: cancel_reservations_def tombstoned_def)

lemma keeps_delete_season_seerr:
  "allowed env jobs D ok svs \<Longrightarrow> Seerr \<in> svs \<Longrightarrow>
   keeps (since jobs D ok before) (delete_season_seerr env cf job)"
  unfolding delete_season_seerr_def delete_season_request_def Let_def by (intro keeps_rules keeps_send)

section \<open>The folder\<close>

lemma season_folder_path: "season_folder env cf job b s = (Inr path, s') \<Longrightarrow> path = video_of job"
  by (auto simp: season_folder_def act_simps video_of_def Let_def blocked_def split: if_splits
      dest: season_payload_of)

lemma metadata_files_ok:
  "metadata_files env folder b es s = (Inr files, s') \<Longrightarrow> \<forall>f\<in>set files. metadata_path_ok folder f"
proof (induction es arbitrary: files s s')
  case Nil
  then show ?case by (simp add: act_simps)
next
  case (Cons e es)
  then obtain found rest s1 s2 where found: "metadata_file env folder b e s = (Inr found, s1)"
      and rest: "metadata_files env folder b es s1 = (Inr rest, s2)" and files: "files = found @ rest"
    by (auto simp: act_simps)
  from found have "\<forall>f\<in>set found. metadata_path_ok folder f"
    by (auto simp: metadata_file_def Let_def act_simps blocked_def split: if_splits)
  with Cons.IH [OF rest] files show ?case by auto
qed

lemma season_metadata_ok:
  "season_metadata env cf job b s = (Inr files, s') \<Longrightarrow> \<forall>f\<in>set files. metadata_path_ok (video_of job) f"
  by (auto simp: season_metadata_def act_simps dest!: season_folder_path metadata_files_ok)

lemma keeps_unlink_metadata:
  assumes "unlinks_allowed jobs D ok P" and "P file"
  shows "keeps (since jobs D ok before) (unlink_metadata env cf job file)"
  unfolding unlink_metadata_def by (intro keeps_rules keeps_allowed_unlink [OF assms])

lemma keeps_for_each_mem: "(\<And>x. x \<in> set xs \<Longrightarrow> keeps I (f x)) \<Longrightarrow> keeps I (for_each f xs)"
  by (induction xs) (auto intro!: keeps_rules)

lemma keeps_remove_season_folder:
  assumes unlinks: "unlinks_allowed jobs D ok (metadata_path_ok (video_of job))"
    and rmdirs: "\<And>d. D d \<Longrightarrow> ok \<lparr>lg_call = Rmdir (video_of job), lg_jobs = jobs, lg_db = d\<rparr>"
  shows "keeps (since jobs D ok before) (remove_season_folder env cf job)"
  unfolding remove_season_folder_def
proof (rule keeps_bind_value, rule keeps_season_folder)
  fix s path s'
  assume "season_folder env cf job False s = (Inr path, s')"
  then have path: "path = video_of job" by (rule season_folder_path)
  have files: "keeps (since jobs D ok before)
     (abind (season_metadata env cf job False) (\<lambda>files. for_each (unlink_metadata env cf job) files))"
    by (rule keeps_bind_value, rule keeps_season_metadata)
      (auto intro!: keeps_for_each_mem keeps_unlink_metadata [OF unlinks] dest: season_metadata_ok)
  have split: "abind (season_metadata env cf job False) (\<lambda>files.
       abind (for_each (unlink_metadata env cf job) files) f) =
     abind (abind (season_metadata env cf job False) (\<lambda>files. for_each (unlink_metadata env cf job) files)) f"
    for f :: "unit \<Rightarrow> ('a, posix) act"
    by (auto simp: abind_def fun_eq_iff split: prod.splits sum.splits)
  show "keeps (since jobs D ok before)
     (abind (ask (\<lambda>w. e_exists env w path)) (\<lambda>there.
      if \<not> there then ret path
      else
        abind (season_metadata env cf job False) (\<lambda>files.
        abind (for_each (unlink_metadata env cf job) files) (\<lambda>_.
        abind (guard_mount env cf) (\<lambda>_.
        abind (season_folder env cf job False) (\<lambda>folder.
        abind (ask (\<lambda>w. e_exists env w folder)) (\<lambda>still.
        if \<not> still then ret path
        else
          abind (rmdir env path) (\<lambda>answer.
          case answer of
            RmdirOk \<Rightarrow> ret path
          | NotEmpty \<Rightarrow> blocked ''season folder contains uncaptured files''
          | RmdirFailed text \<Rightarrow> fail (Transient text)))))))))"
    unfolding path split by (intro keeps_rules files keeps_rmdir rmdirs)
qed

end
