(* ===== verification/DeletionRounds.thy ===== *)
theory DeletionRounds
  imports SeasonFacts
begin

text \<open>
  The deletion worker as a state machine: the pipeline of stages, the calls a job may make in
  each stage, the steps of the coordinator against both, and the states the worker reaches
  when deletions are requested, rounds are run and other processes write in between.
\<close>

section \<open>The pipeline\<close>

abbreviation is_season :: "deletion_job \<Rightarrow> bool" where
  "is_season j \<equiv> dj_item_type j = ''Season''"

fun next_stage :: "bool \<Rightarrow> job_stage \<Rightarrow> job_stage option" where
  "next_stage season Queued = Some Validated"
| "next_stage season Validated = Some Tombstoned"
| "next_stage season Tombstoned = Some TorrentsRemoved"
| "next_stage season TorrentsRemoved = Some (if season then SeerrRemoved else ArrRemoved)"
| "next_stage season ArrRemoved = (if season then None else Some SeerrRemoved)"
| "next_stage season SeerrRemoved = Some JellyfinRemoved"
| "next_stage season JellyfinRemoved = Some Complete"
| "next_stage season _ = None"

inductive pipeline :: "bool \<Rightarrow> job_stage \<Rightarrow> job_stage \<Rightarrow> bool" for season where
  stay: "pipeline season st st"
| move: "pipeline season st st' \<Longrightarrow> next_stage season st' = Some st'' \<Longrightarrow> pipeline season st st''"

fun stages_left :: "job_stage \<Rightarrow> nat" where
  "stages_left Queued = 7"
| "stages_left Validated = 6"
| "stages_left Tombstoned = 5"
| "stages_left TorrentsRemoved = 4"
| "stages_left ArrRemoved = 3"
| "stages_left SeerrRemoved = 2"
| "stages_left JellyfinRemoved = 1"
| "stages_left _ = 0"

text \<open>The stages between the tombstone and the end.\<close>

fun past_tombstone :: "job_stage \<Rightarrow> bool" where
  "past_tombstone Tombstoned = True"
| "past_tombstone TorrentsRemoved = True"
| "past_tombstone ArrRemoved = True"
| "past_tombstone SeerrRemoved = True"
| "past_tombstone JellyfinRemoved = True"
| "past_tombstone _ = False"

lemma next_stage_left: "next_stage season st = Some st' \<Longrightarrow> stages_left st' < stages_left st"
  by (cases st) (auto split: if_splits)

lemma next_stage_not_blocked: "next_stage season st = Some st' \<Longrightarrow> st' \<noteq> Blocked"
  by (cases st) (auto split: if_splits)

section \<open>The calls of a stage\<close>

fun stage_services :: "bool \<Rightarrow> job_stage \<Rightarrow> service set" where
  "stage_services season Validated = (if season then {Sonarr} else {})"
| "stage_services season Tombstoned = {Gateway}"
| "stage_services season TorrentsRemoved = (if season then {Seerr} else {Radarr, Sonarr})"
| "stage_services season ArrRemoved = {Seerr}"
| "stage_services season SeerrRemoved = {Jellyfin}"
| "stage_services season JellyfinRemoved = {Seerr}"
| "stage_services season _ = {}"

definition is_read :: "call \<Rightarrow> bool" where
  "is_read c = (case c of Sent rq \<Rightarrow> hq_method rq = GET | _ \<Rightarrow> False)"

definition permitted :: "deletion_job \<Rightarrow> call \<Rightarrow> bool" where
  "permitted j c =
     (case c of
        Sent rq \<Rightarrow> hq_service rq \<in> stage_services (is_season j) (dj_stage j)
      | Unlink p \<Rightarrow>
          if is_season j then dj_stage j = SeerrRemoved \<and> metadata_path_ok (video_of j) p
          else dj_stage j = TorrentsRemoved \<and> sidecar_of (video_of j) p
      | Rmdir p \<Rightarrow> is_season j \<and> dj_stage j = SeerrRemoved \<and> p = video_of j)"

text \<open>Every call is a read, or one its job may make, with the tombstone of its media in place.\<close>

definition accounted :: "logged \<Rightarrow> bool" where
  "accounted c =
     (is_read (lg_call c) \<or>
      (\<exists>j\<in>set (lg_jobs c). permitted j (lg_call c) \<and> tombstoned (lg_db c) (job_key j)))"

definition grows :: "db \<Rightarrow> db \<Rightarrow> bool" where
  "grows d d' = (\<forall>k. tombstoned d k \<longrightarrow> tombstoned d' k)"

text \<open>Other processes never remove a tombstone: no statement of the repository does.\<close>

definition env_monotone :: "'w env \<Rightarrow> bool" where
  "env_monotone env = (\<forall>w d rq. grows d (fst (snd (e_http env w d rq))))"

definition worker_inv :: "'w co \<Rightarrow> bool" where
  "worker_inv s =
     (jobs_wf (co_jobs s) \<and>
      (\<forall>j\<in>set (co_jobs s). past_tombstone (dj_stage j) \<longrightarrow> tombstoned (co_db s) (job_key j)) \<and>
      (\<forall>c\<in>set (co_log s). accounted c))"

lemma upward_grows: "upward (grows d)"
  by (auto simp: upward_def grows_def)

lemma env_keeps_grows: "env_monotone env \<Longrightarrow> env_keeps env (grows d)"
  by (auto simp: env_monotone_def env_keeps_def grows_def)

lemma env_keeps_tombstoned: "env_monotone env \<Longrightarrow> env_keeps env (\<lambda>d. tombstoned d k)"
  by (auto simp: env_monotone_def env_keeps_def grows_def)

lemma allowed_stage:
  assumes "env_keeps env D" and "job \<in> set jobs" and "\<And>d. D d \<Longrightarrow> tombstoned d (job_key job)"
  shows "allowed env jobs D accounted (stage_services (is_season job) (dj_stage job))"
  using assms by (auto simp: allowed_def accounted_def is_read_def permitted_def)

lemma allowed_none: "env_keeps env D \<Longrightarrow> allowed env jobs D accounted {}"
  by (auto simp: allowed_def accounted_def is_read_def)

section \<open>One step\<close>

definition reached ::
    "deletion_job list \<Rightarrow> deletion_job \<Rightarrow> job_stage \<Rightarrow> (db \<Rightarrow> bool) \<Rightarrow> logged list \<Rightarrow>
     deletion_job option \<Rightarrow> 'w co \<Rightarrow> bool" where
  "reached jobs job st D before next s =
     (\<exists>jobs' j now. set_stage (dj_item_id job) (stage_text st) None now jobs = Inr (jobs', j) \<and>
        since jobs' D accounted before s \<and> next = (if st = Complete then None else Some j))"

lemma advance_cases:
  assumes "since jobs D accounted before s" and "advance env job st s = (r, s')"
  shows "(r = Inl Unexpected \<and> since jobs D accounted before s') \<or>
     (\<exists>jobs' j now. r = Inr j \<and> set_stage (dj_item_id job) (stage_text st) None now jobs = Inr (jobs', j) \<and>
        since jobs' D accounted before s')"
proof -
  obtain now w where now: "e_now env (co_world s) = (now, w)" by (cases "e_now env (co_world s)")
  from assms(1) have "co_jobs s = jobs" by (simp add: since_def)
  with now assms show ?thesis
    by (cases "set_stage (dj_item_id job) (stage_text st) None now jobs")
      (auto simp: advance_def abind_def query_def read_state_def write_state_def fail_def pure_act_def
        ret_def since_def)
qed

lemma ends_advance:
  "ends (since jobs D accounted before)
     (abind (advance env job st) (\<lambda>j. ret (if st = Complete then None else Some j)))
     (reached jobs job st D before)"
  unfolding ends_def
proof (intro allI impI)
  fix s :: "'a co"
  assume s: "since jobs D accounted before s"
  obtain r s' where a: "advance env job st s = (r, s')" by (cases "advance env job st s")
  from advance_cases [OF s a] a
  show "case abind (advance env job st) (\<lambda>j. ret (if st = Complete then None else Some j)) s of
      (Inl e, s') \<Rightarrow> since jobs D accounted before s' \<and> fueled e
    | (Inr x, s') \<Rightarrow> reached jobs job st D before x s'"
    by (auto simp: abind_def ret_def pure_act_def reached_def fueled_def) blast+
qed

lemmas ends_next = ends_advance [where st = Validated, simplified] ends_advance [where st = Tombstoned, simplified]
  ends_advance [where st = TorrentsRemoved, simplified] ends_advance [where st = ArrRemoved, simplified]
  ends_advance [where st = SeerrRemoved, simplified] ends_advance [where st = JellyfinRemoved, simplified]
  ends_advance [where st = Complete, simplified]

text \<open>The step taken: the next stage, under a predicate that includes the tombstone where it is due.\<close>

definition stepped ::
    "deletion_job list \<Rightarrow> deletion_job \<Rightarrow> (db \<Rightarrow> bool) \<Rightarrow> logged list \<Rightarrow> deletion_job option \<Rightarrow> 'w co \<Rightarrow> bool" where
  "stepped jobs job D before next s =
     (\<exists>st D'. next_stage (is_season job) (dj_stage job) = Some st \<and> (\<forall>d. D' d \<longrightarrow> D d) \<and>
        (past_tombstone st \<longrightarrow> (\<forall>d. D' d \<longrightarrow> tombstoned d (job_key job))) \<and>
        reached jobs job st D' before next s)"

lemma ends_stepped:
  assumes "ends (since jobs D accounted before) m (reached jobs job st D before)"
    and "next_stage (is_season job) (dj_stage job) = Some st"
    and "past_tombstone st \<Longrightarrow> \<forall>d. D d \<longrightarrow> tombstoned d (job_key job)"
  shows "ends (since jobs D accounted before) m (stepped jobs job D before)"
  by (rule ends_mono [OF assms(1)]) (use assms(2,3) in \<open>unfold stepped_def, blast\<close>)

lemma ends_marked:
  assumes "ends (since jobs D accounted before) m (\<lambda>_. since jobs (marked D (job_key job)) accounted before)"
    and k: "\<And>x. ends (since jobs (marked D (job_key job)) accounted before) (k x)
              (reached jobs job Tombstoned (marked D (job_key job)) before)"
    and "dj_stage job = Validated"
  shows "ends (since jobs D accounted before) (abind m k) (stepped jobs job D before)"
proof (rule ends_seq [OF assms(1)])
  fix x
  show "ends (since jobs (marked D (job_key job)) accounted before) (k x) (stepped jobs job D before)"
    by (rule ends_mono [OF k], unfold stepped_def, rule exI [of _ Tombstoned],
        rule exI [of _ "marked D (job_key job)"]) (simp add: marked_def assms(3))
qed (auto intro: since_marked)

text \<open>What a step relies on.\<close>

definition step_ready :: "'w env \<Rightarrow> deletion_job list \<Rightarrow> deletion_job \<Rightarrow> (db \<Rightarrow> bool) \<Rightarrow> bool" where
  "step_ready env jobs job D =
     (env_monotone env \<and> env_keeps env D \<and> upward D \<and> job \<in> set jobs \<and>
      (past_tombstone (dj_stage job) \<longrightarrow> (\<forall>d. D d \<longrightarrow> tombstoned d (job_key job))))"

lemma ready_reads: "step_ready env jobs job D \<Longrightarrow> allowed env jobs D accounted {}"
  by (simp add: step_ready_def allowed_none)

lemma ready_acts:
  "step_ready env jobs job D \<Longrightarrow> past_tombstone (dj_stage job) \<Longrightarrow>
   allowed env jobs D accounted (stage_services (is_season job) (dj_stage job))"
  by (auto simp: step_ready_def intro: allowed_stage)

lemma ready_marked:
  assumes "step_ready env jobs job D"
  shows "allowed env jobs (marked D (job_key job)) accounted (stage_services (is_season job) (dj_stage job))"
proof (rule allowed_stage)
  show "env_keeps env (marked D (job_key job))"
    using assms env_keeps_tombstoned [of env "job_key job"]
    by (auto simp: step_ready_def marked_def env_keeps_def)
qed (use assms in \<open>auto simp: step_ready_def marked_def\<close>)

lemma ready_sidecars:
  "step_ready env jobs job D \<Longrightarrow> \<not> is_season job \<Longrightarrow> dj_stage job = TorrentsRemoved \<Longrightarrow>
   unlinks_allowed jobs D accounted (sidecar_of (video_of job))"
  by (auto simp: step_ready_def unlinks_allowed_def accounted_def permitted_def)

lemma ready_metadata:
  "step_ready env jobs job D \<Longrightarrow> is_season job \<Longrightarrow> dj_stage job = SeerrRemoved \<Longrightarrow>
   unlinks_allowed jobs D accounted (metadata_path_ok (video_of job))"
  by (auto simp: step_ready_def unlinks_allowed_def accounted_def permitted_def)

lemma ready_rmdir:
  "step_ready env jobs job D \<Longrightarrow> is_season job \<Longrightarrow> dj_stage job = SeerrRemoved \<Longrightarrow> D d \<Longrightarrow>
   accounted \<lparr>lg_call = Rmdir (video_of job), lg_jobs = jobs, lg_db = d\<rparr>"
  by (auto simp: step_ready_def accounted_def permitted_def)

lemma ends_guarded:
  assumes "keeps (since jobs D ok before) m" and "ends (since jobs D ok before) k Q"
  shows "ends (since jobs D ok before) (abind (guard_mount env cf) (\<lambda>_. abind m (\<lambda>_. k))) Q"
  by (rule ends_bind, rule keeps_guard_mount, rule ends_bind, rule assms(1), rule assms(2))

lemma ends_guarded':
  assumes "keeps (since jobs D ok before) m" and "\<And>x. ends (since jobs D ok before) (k x) Q"
  shows "ends (since jobs D ok before) (abind (guard_mount env cf) (\<lambda>_. abind m k)) Q"
  by (rule ends_bind, rule keeps_guard_mount, rule ends_bind, rule assms(1), rule assms(2))

lemma item_validated_ends:
  assumes ready: "step_ready env jobs job D" and job: "\<not> is_season job" "dj_stage job = Validated"
  shows "ends (since jobs D accounted before) (item_step env cf job) (stepped jobs job D before)"
  unfolding item_step_def job(2) job_stage.case
proof (rule ends_bind, rule keeps_guard_mount, rule ends_bind, rule keeps_captured_file, rule ends_bind_value)
  show "keeps (since jobs D accounted before) (pure_act (captured_payload job))" by (intro keeps_rules)
next
  fix s p s'
  assume "pure_act (captured_payload job) s = (Inr p, s')"
  then have key: "pstr p ''media_key'' = job_key job"
    by (auto simp: act_simps job_key_def dest: captured_payload_of)
  have up: "upward D" using ready by (simp add: step_ready_def)
  show "ends (since jobs D accounted before)
     (abind (put_tombstone env job (pstr p ''media_key'')) (\<lambda>_.
      abind (advance env job Tombstoned) (\<lambda>j. ret (Some j)))) (stepped jobs job D before)"
    unfolding key by (rule ends_marked [OF put_tombstone_ends [OF up] ends_next(2) job(2)])
qed

lemma item_step_ends:
  assumes ready: "step_ready env jobs job D" and item: "\<not> is_season job"
  shows "ends (since jobs D accounted before) (item_step env cf job) (stepped jobs job D before)"
proof -
  note reads = ready_reads [OF ready]
  have marks: "past_tombstone (dj_stage job) \<Longrightarrow> \<forall>d. D d \<longrightarrow> tombstoned d (job_key job)"
    using ready by (simp add: step_ready_def)
  have acts: "past_tombstone (dj_stage job) \<Longrightarrow> allowed env jobs D accounted (stage_services False (dj_stage job))"
    using ready_acts [OF ready] item by simp
  show ?thesis
  proof (cases "dj_stage job")
    case Queued
    have "ends (since jobs D accounted before) (item_step env cf job) (reached jobs job Validated D before)"
      unfolding item_step_def Queued job_stage.case
      by (intro ends_bind ends_next keeps_guard_mount keeps_captured_file keeps_association
          keeps_arr_preflight [OF reads])
    then show ?thesis by (rule ends_stepped) (simp_all add: item Queued)
  next
    case Validated
    with ready item show ?thesis by (rule item_validated_ends)
  next
    case Tombstoned
    have "ends (since jobs D accounted before) (item_step env cf job) (reached jobs job TorrentsRemoved D before)"
      unfolding item_step_def Tombstoned job_stage.case
      by (rule ends_guarded [OF _ ends_next(3)], rule keeps_delete_source)
        (use acts in \<open>auto simp: Tombstoned\<close>)
    then show ?thesis by (rule ends_stepped) (use marks in \<open>simp_all add: item Tombstoned\<close>)
  next
    case TorrentsRemoved
    have "ends (since jobs D accounted before) (item_step env cf job) (reached jobs job ArrRemoved D before)"
      unfolding item_step_def TorrentsRemoved job_stage.case
      by (rule ends_guarded [OF _ ends_next(4)], rule keeps_delete_arr)
        (use acts ready_sidecars [OF ready item TorrentsRemoved] in \<open>auto simp: TorrentsRemoved\<close>)
    then show ?thesis by (rule ends_stepped) (use marks in \<open>simp_all add: item TorrentsRemoved\<close>)
  next
    case ArrRemoved
    have "ends (since jobs D accounted before) (item_step env cf job) (reached jobs job SeerrRemoved D before)"
      unfolding item_step_def ArrRemoved job_stage.case
      by (rule ends_guarded [OF _ ends_next(5)], rule keeps_delete_seerr)
        (use acts in \<open>auto simp: ArrRemoved\<close>)
    then show ?thesis by (rule ends_stepped) (use marks in \<open>simp_all add: item ArrRemoved\<close>)
  next
    case SeerrRemoved
    have "ends (since jobs D accounted before) (item_step env cf job) (reached jobs job JellyfinRemoved D before)"
      unfolding item_step_def SeerrRemoved job_stage.case
      by (rule ends_guarded [OF _ ends_next(6)], rule keeps_delete_jellyfin)
        (use acts in \<open>auto simp: SeerrRemoved\<close>)
    then show ?thesis by (rule ends_stepped) (use marks in \<open>simp_all add: item SeerrRemoved\<close>)
  next
    case JellyfinRemoved
    have "ends (since jobs D accounted before) (item_step env cf job) (reached jobs job Complete D before)"
      unfolding item_step_def JellyfinRemoved job_stage.case
      by (rule ends_guarded [OF _ ends_next(7)], rule keeps_delete_seerr_media_cache)
        (use acts in \<open>auto simp: JellyfinRemoved\<close>)
    then show ?thesis by (rule ends_stepped) (use marks in \<open>simp_all add: item JellyfinRemoved\<close>)
  next
    case Complete
    show ?thesis unfolding item_step_def Complete job_stage.case
      by (intro ends_bind keeps_guard_mount ends_blocked)
  next
    case Blocked
    show ?thesis unfolding item_step_def Blocked job_stage.case
      by (intro ends_bind keeps_guard_mount ends_blocked)
  qed
qed

lemma season_validated_ends:
  assumes ready: "step_ready env jobs job D" and job: "is_season job" "dj_stage job = Validated"
  shows "ends (since jobs D accounted before) (season_step env cf job) (stepped jobs job D before)"
proof -
  have up: "upward D" using ready by (simp add: step_ready_def)
  have sonarr: "Sonarr \<in> stage_services (is_season job) (dj_stage job)" by (simp add: job)
  show ?thesis
    unfolding season_step_def job(2) job_stage.case
    by (rule ends_bind, rule keeps_guard_mount)
      (rule ends_marked [OF cancel_season_ends [OF ready_marked [OF ready] sonarr up] ends_next(2) job(2)])
qed

lemma season_step_ends:
  assumes ready: "step_ready env jobs job D" and season: "is_season job"
  shows "ends (since jobs D accounted before) (season_step env cf job) (stepped jobs job D before)"
proof -
  note reads = ready_reads [OF ready]
  have up: "upward D" using ready by (simp add: step_ready_def)
  have marks: "past_tombstone (dj_stage job) \<Longrightarrow> \<forall>d. D d \<longrightarrow> tombstoned d (job_key job)"
    using ready by (simp add: step_ready_def)
  have acts: "past_tombstone (dj_stage job) \<Longrightarrow> allowed env jobs D accounted (stage_services True (dj_stage job))"
    using ready_acts [OF ready] season by simp
  show ?thesis
  proof (cases "dj_stage job")
    case Queued
    have "ends (since jobs D accounted before) (season_step env cf job) (reached jobs job Validated D before)"
      unfolding season_step_def Queued job_stage.case
      by (intro ends_bind ends_next keeps_guard_mount keeps_season_folder keeps_season_metadata
          keeps_season_source_inventory keeps_season_preflight [OF reads] keeps_season_child_jobs
          keeps_for_each keeps_check_season_child [OF reads])
    then show ?thesis by (rule ends_stepped) (simp_all add: season Queued)
  next
    case Validated
    with ready season show ?thesis by (rule season_validated_ends)
  next
    case Tombstoned
    have pending: "keeps (since jobs D accounted before) (delete_pending_season_sources env cf job)"
      by (rule keeps_delete_pending_season_sources) (use acts up in \<open>auto simp: Tombstoned\<close>)
    have "ends (since jobs D accounted before) (season_step env cf job) (reached jobs job TorrentsRemoved D before)"
      unfolding season_step_def Tombstoned job_stage.case
      by (rule ends_guarded' [OF keeps_season_child_jobs], rule ends_if, rule ends_retry)
        (rule ends_bind [OF pending ends_next(3)])
    then show ?thesis by (rule ends_stepped) (use marks in \<open>simp_all add: season Tombstoned\<close>)
  next
    case TorrentsRemoved
    have "ends (since jobs D accounted before) (season_step env cf job) (reached jobs job SeerrRemoved D before)"
      unfolding season_step_def TorrentsRemoved job_stage.case
      by (rule ends_guarded [OF _ ends_next(5)], rule keeps_delete_season_seerr)
        (use acts in \<open>auto simp: TorrentsRemoved\<close>)
    then show ?thesis by (rule ends_stepped) (use marks in \<open>simp_all add: season TorrentsRemoved\<close>)
  next
    case SeerrRemoved
    have folder: "keeps (since jobs D accounted before) (remove_season_folder env cf job)"
      by (rule keeps_remove_season_folder)
        (rule ready_metadata [OF ready season SeerrRemoved] ready_rmdir [OF ready season SeerrRemoved], assumption?)+
    have forget: "keeps (since jobs D accounted before) (forget_jellyfin_item env cf (dj_item_id job) path)" for path
      by (rule keeps_forget_jellyfin_item) (use acts in \<open>auto simp: SeerrRemoved\<close>)
    have "ends (since jobs D accounted before) (season_step env cf job) (reached jobs job JellyfinRemoved D before)"
      unfolding season_step_def SeerrRemoved job_stage.case
      by (rule ends_guarded' [OF folder], rule ends_bind [OF forget ends_next(6)])
    then show ?thesis by (rule ends_stepped) (use marks in \<open>simp_all add: season SeerrRemoved\<close>)
  next
    case JellyfinRemoved
    have sync: "keeps (since jobs D accounted before) (send env POST Seerr path [] body)" for path body
      by (rule keeps_send) (use acts in \<open>auto simp: JellyfinRemoved\<close>)
    have "ends (since jobs D accounted before) (season_step env cf job) (reached jobs job Complete D before)"
      unfolding season_step_def JellyfinRemoved job_stage.case
      by (rule ends_guarded' [OF sync], rule ends_bind [OF keeps_status_act ends_next(7)])
    then show ?thesis by (rule ends_stepped) (use marks in \<open>simp_all add: season JellyfinRemoved\<close>)
  next
    case ArrRemoved
    show ?thesis unfolding season_step_def ArrRemoved job_stage.case
      by (intro ends_bind keeps_guard_mount ends_blocked)
  next
    case Complete
    show ?thesis unfolding season_step_def Complete job_stage.case
      by (intro ends_bind keeps_guard_mount ends_blocked)
  next
    case Blocked
    show ?thesis unfolding season_step_def Blocked job_stage.case
      by (intro ends_bind keeps_guard_mount ends_blocked)
  qed
qed

end
