(* ===== verification/DeletionWorker.thy ===== *)
theory DeletionWorker
  imports DeletionRounds
begin

text \<open>
  Rounds of the deletion worker: the loop over the stages, \<open>run_once\<close>, and the states the
  worker reaches when deletions are requested, rounds are run, the worker is restarted and
  other processes write to the database in between.
\<close>

section \<open>The row of a job\<close>

text \<open>What a job keeps while it is processed.\<close>

definition same_capture :: "deletion_job \<Rightarrow> deletion_job \<Rightarrow> bool" where
  "same_capture j j' =
     (dj_item_id j' = dj_item_id j \<and> dj_item_type j' = dj_item_type j \<and> dj_payload j' = dj_payload j \<and>
      dj_created_at j' = dj_created_at j)"

lemma same_capture_refl [simp]: "same_capture j j"
  by (simp add: same_capture_def)

lemma same_capture_trans: "same_capture a b \<Longrightarrow> same_capture b c \<Longrightarrow> same_capture a c"
  by (simp add: same_capture_def)

lemma same_capture_key: "same_capture j j' \<Longrightarrow> job_key j' = job_key j"
  by (simp add: same_capture_def job_key_def payload_of_def)

lemma find_job_member: "jobs_wf jobs \<Longrightarrow> j \<in> set jobs \<Longrightarrow> find_job (dj_item_id j) jobs = Some j"
  by (simp add: find_job_def find_row_unique jobs_wf_def)

lemma set_stage_row:
  assumes "set_stage item text error now jobs = Inr (jobs', j)" and "find_job item jobs = Some j0"
  shows "same_capture j0 j"
proof -
  obtain st where "stage_of text = Some st" using assms(1) by (cases "stage_of text") (auto simp: set_stage_def)
  with assms show ?thesis
    by (auto simp: set_stage_def Let_def find_staged staged_def same_capture_def split: if_splits)
qed

text \<open>Every row of the table after \<open>set_stage\<close> is an old one or the new row of the item.\<close>

lemma set_stage_rows:
  assumes "set_stage item text error now jobs = Inr (jobs', j)" and "jobs_wf jobs" and "r \<in> set jobs'"
  shows "r \<in> set jobs \<or> r = j"
proof (cases "dj_item_id r = item")
  case True
  have "jobs_wf jobs'" by (rule set_stage_wf [OF assms(1,2)])
  then have "find_job item jobs' = Some r" using True assms(3) by (auto dest: find_job_member)
  with set_stage_find [OF assms(1)] show ?thesis by simp
next
  case False
  have "jobs_wf jobs'" by (rule set_stage_wf [OF assms(1,2)])
  then have "find_job (dj_item_id r) jobs' = Some r" using assms(3) by (rule find_job_member)
  with False set_stage_find [OF assms(1)] have "find_job (dj_item_id r) jobs = Some r" by simp
  then show ?thesis by (auto dest: find_job_Some)
qed

text \<open>The jobs of other items are as they were.\<close>

definition others_kept :: "string \<Rightarrow> deletion_job list \<Rightarrow> deletion_job list \<Rightarrow> bool" where
  "others_kept item jobs jobs' = (\<forall>k. k \<noteq> item \<longrightarrow> find_job k jobs' = find_job k jobs)"

section \<open>One turn\<close>

definition step_of :: "bool \<Rightarrow> 'w env \<Rightarrow> config \<Rightarrow> deletion_job \<Rightarrow> ('w, deletion_job option) act" where
  "step_of season env cf = (if season then season_step env cf else item_step env cf)"

lemma step_of_ends:
  "step_ready env jobs job D \<Longrightarrow> ends (since jobs D accounted before) (step_of (is_season job) env cf job) (stepped jobs job D before)"
  by (simp add: step_of_def item_step_ends season_step_ends)

text \<open>The invariant, with the job in its table.\<close>

definition at_job :: "'w co \<Rightarrow> deletion_job \<Rightarrow> bool" where
  "at_job s job = (worker_inv s \<and> find_job (dj_item_id job) (co_jobs s) = Some job)"

lemma at_job_ready:
  "env_monotone env \<Longrightarrow> at_job s job \<Longrightarrow> step_ready env (co_jobs s) job (grows (co_db s))"
  by (auto simp: step_ready_def env_keeps_grows upward_grows at_job_def worker_inv_def grows_def
      dest: find_job_Some)

lemma at_job_since: "worker_inv s \<Longrightarrow> since (co_jobs s) (grows (co_db s)) accounted (co_log s) s"
  by (simp add: since_def grows_def)

lemma since_worker_inv:
  assumes "worker_inv s" and "since (co_jobs s) (grows (co_db s)) accounted (co_log s) s'"
  shows "worker_inv s'"
  using assms by (auto simp: worker_inv_def since_def grows_def)

lemma reached_worker_inv:
  assumes inv: "at_job s job"
    and set: "set_stage (dj_item_id job) text error now (co_jobs s) = Inr (jobs', j)"
    and since: "since jobs' D accounted (co_log s) s'"
    and D: "\<And>d. D d \<Longrightarrow> grows (co_db s) d"
    and past: "past_tombstone (dj_stage j) \<Longrightarrow> \<forall>d. D d \<longrightarrow> tombstoned d (job_key job)"
  shows "at_job s' j \<and> same_capture job j \<and> others_kept (dj_item_id job) (co_jobs s) (co_jobs s')"
proof -
  from inv have wf: "jobs_wf (co_jobs s)" and find: "find_job (dj_item_id job) (co_jobs s) = Some job"
    by (auto simp: at_job_def worker_inv_def)
  from since have jobs': "co_jobs s' = jobs'" and d: "D (co_db s')" by (auto simp: since_def)
  have capture: "same_capture job j" by (rule set_stage_row [OF set find])
  have "tombstoned (co_db s') (job_key r)" if r: "r \<in> set jobs'" and p: "past_tombstone (dj_stage r)" for r
    using set_stage_rows [OF set wf r]
  proof
    assume "r \<in> set (co_jobs s)"
    with inv p D [OF d] show ?thesis by (auto simp: at_job_def worker_inv_def grows_def)
  next
    assume "r = j"
    with past p d capture show ?thesis by (simp add: same_capture_key)
  qed
  moreover have "\<forall>c\<in>set (co_log s'). accounted c"
    using inv since by (auto simp: at_job_def worker_inv_def since_def)
  moreover have "jobs_wf jobs'" by (rule set_stage_wf [OF set wf])
  ultimately have "worker_inv s'" by (auto simp: worker_inv_def jobs')
  with set_stage_find [OF set] capture show ?thesis
    by (auto simp: at_job_def others_kept_def same_capture_def jobs')
qed

lemma step_of_round:
  assumes env: "env_monotone env" and at: "at_job s job" and step: "step_of (is_season job) env cf job s = (r, s')"
  shows "case r of
           Inl e \<Rightarrow> fueled e \<and> worker_inv s' \<and> co_jobs s' = co_jobs s
         | Inr nx \<Rightarrow>
             \<exists>j. next_stage (is_season job) (dj_stage job) = Some (dj_stage j) \<and> at_job s' j \<and>
                 same_capture job j \<and> others_kept (dj_item_id job) (co_jobs s) (co_jobs s') \<and>
                 nx = (if dj_stage j = Complete then None else Some j)"
proof -
  have inv: "worker_inv s" using at by (simp add: at_job_def)
  from step_of_ends [OF at_job_ready [OF env at], of "co_log s" cf] at_job_since [OF inv] step
  have ends: "case r of Inl e \<Rightarrow> since (co_jobs s) (grows (co_db s)) accounted (co_log s) s' \<and> fueled e
      | Inr x \<Rightarrow> stepped (co_jobs s) job (grows (co_db s)) (co_log s) x s'"
    unfolding ends_def by (fastforce split: sum.splits)
  show ?thesis
  proof (cases r)
    case (Inl e)
    with ends inv show ?thesis by (auto intro: since_worker_inv simp: since_def)
  next
    case (Inr nx)
    with ends obtain st D' where st: "next_stage (is_season job) (dj_stage job) = Some st"
        and D': "\<And>d. D' d \<Longrightarrow> grows (co_db s) d"
        and past: "past_tombstone st \<Longrightarrow> \<forall>d. D' d \<longrightarrow> tombstoned d (job_key job)"
        and reached: "reached (co_jobs s) job st D' (co_log s) nx s'"
      by (auto simp: stepped_def)
    from reached obtain jobs' j now
      where set: "set_stage (dj_item_id job) (stage_text st) None now (co_jobs s) = Inr (jobs', j)"
        and since: "since jobs' D' accounted (co_log s) s'"
        and nx: "nx = (if st = Complete then None else Some j)" by (auto simp: reached_def)
    have j: "dj_stage j = st" using set_stage_find [OF set] by (simp add: stage_of_text)
    have "past_tombstone (dj_stage j) \<Longrightarrow> \<forall>d. D' d \<longrightarrow> tombstoned d (job_key job)" using past j by simp
    from reached_worker_inv [OF at set since D' this] Inr st nx j show ?thesis by auto
  qed
qed

section \<open>The loop\<close>

lemma pipeline_trans: "pipeline season b c \<Longrightarrow> pipeline season a b \<Longrightarrow> pipeline season a c"
  by (induction rule: pipeline.induct) (auto intro: pipeline.intros)

lemma pipeline_step: "next_stage season a = Some b \<Longrightarrow> pipeline season b c \<Longrightarrow> pipeline season a c"
  by (rule pipeline_trans) (auto intro: pipeline.intros)

text \<open>
  What a round does to the job it processes: it advances along the pipeline; an exception
  leaves it in a stage that is not final, a normal end leaves it complete.
\<close>

definition round_result :: "deletion_job \<Rightarrow> deletion_job list \<Rightarrow> failure + unit \<Rightarrow> 'w co \<Rightarrow> bool" where
  "round_result job jobs r s' =
     (fuel_free r \<and>
      (\<exists>j. at_job s' j \<and> same_capture job j \<and> pipeline (is_season job) (dj_stage job) (dj_stage j) \<and>
           others_kept (dj_item_id job) jobs (co_jobs s') \<and>
           (case r of Inl e \<Rightarrow> dj_stage j \<noteq> Complete \<or> j = job | Inr _ \<Rightarrow> dj_stage j = Complete)))"

lemma stage_loop_round:
  assumes env: "env_monotone env"
  shows "at_job s job \<Longrightarrow> is_season job = season \<Longrightarrow> stages_left (dj_stage job) < fuel \<Longrightarrow>
    stage_loop fuel (step_of season env cf) job s = (r, s') \<Longrightarrow> round_result job (co_jobs s) r s'"
proof (induction fuel arbitrary: s job)
  case 0
  then show ?case by simp
next
  case (Suc fuel)
  obtain r1 s1 where step: "step_of season env cf job s = (r1, s1)" by (cases "step_of season env cf job s")
  have round: "case r1 of
      Inl e \<Rightarrow> fueled e \<and> worker_inv s1 \<and> co_jobs s1 = co_jobs s
    | Inr nx \<Rightarrow>
        \<exists>j. next_stage (is_season job) (dj_stage job) = Some (dj_stage j) \<and> at_job s1 j \<and>
            same_capture job j \<and> others_kept (dj_item_id job) (co_jobs s) (co_jobs s1) \<and>
            nx = (if dj_stage j = Complete then None else Some j)"
    by (rule step_of_round [OF env Suc.prems(1)]) (use Suc.prems(2) step in simp)
  show ?case
  proof (cases r1)
    case (Inl e)
    with round Suc.prems(1) have "at_job s1 job" and "fueled e" and "co_jobs s1 = co_jobs s"
      by (auto simp: at_job_def)
    moreover have "r = Inl e" and "s' = s1" using Suc.prems(4) step Inl by (auto simp: abind_def)
    ultimately show ?thesis
      by (auto simp: round_result_def fuel_free_def fueled_def others_kept_def intro: pipeline.intros)
  next
    case (Inr nx)
    with round obtain j where st: "next_stage (is_season job) (dj_stage job) = Some (dj_stage j)"
        and at: "at_job s1 j" and capture: "same_capture job j"
        and others: "others_kept (dj_item_id job) (co_jobs s) (co_jobs s1)"
        and nx: "nx = (if dj_stage j = Complete then None else Some j)" by auto
    have type: "dj_item_type j = dj_item_type job" and item: "dj_item_id j = dj_item_id job"
      using capture by (auto simp: same_capture_def)
    show ?thesis
    proof (cases "dj_stage j = Complete")
      case True
      with Suc.prems(4) step Inr nx have "r = Inr ()" and "s' = s1" by (auto simp: abind_def ret_def pure_act_def)
      moreover have "pipeline (is_season job) (dj_stage job) (dj_stage j)"
        by (rule pipeline.move [OF pipeline.stay st])
      ultimately show ?thesis unfolding round_result_def using True at capture others
        by (intro conjI exI [of _ j]) (simp_all add: fuel_free_def)
    next
      case False
      with Suc.prems(4) step Inr nx have loop: "stage_loop fuel (step_of season env cf) j s1 = (r, s')"
        by (simp add: abind_def)
      have "stages_left (dj_stage j) < fuel" using next_stage_left [OF st] Suc.prems(3) by simp
      from Suc.IH [OF at _ this loop] Suc.prems(2) obtain j' where "fuel_free r" and "at_job s' j'" and "same_capture j j'"
          and "pipeline (is_season job) (dj_stage j) (dj_stage j')"
          and "others_kept (dj_item_id job) (co_jobs s1) (co_jobs s')"
          and "case r of Inl e \<Rightarrow> dj_stage j' \<noteq> Complete \<or> j' = j | Inr _ \<Rightarrow> dj_stage j' = Complete"
        by (auto simp: round_result_def type item)
      with capture others st False show ?thesis
        unfolding round_result_def
        by (intro conjI exI [of _ j'])
          (auto simp: others_kept_def split: sum.splits intro: same_capture_trans pipeline_step)
    qed
  qed
qed

section \<open>A round\<close>

lemma parent_ready_kept:
  assumes "worker_inv s" and "parent_ready job s = (r, s')"
  shows "worker_inv s' \<and> fuel_free r \<and> co_jobs s' = co_jobs s"
  using keepsD [OF keeps_parent_ready at_job_since [OF assms(1)] assms(2)] since_worker_inv [OF assms(1)]
  by (auto simp: since_def)

lemma process_round:
  assumes env: "env_monotone env" and at: "at_job s job" and process: "process env cf job s = (r, s')"
  shows "round_result job (co_jobs s) r s'"
proof (cases "is_season job")
  case True
  have "stages_left (dj_stage job) < stage_fuel" by (cases "dj_stage job") (simp_all add: stage_fuel_def)
  with True process at show ?thesis
    using stage_loop_round [OF env at, where season = True] by (simp add: process_def step_of_def)
next
  case False
  obtain r1 s1 where parent: "parent_ready job s = (r1, s1)" by (cases "parent_ready job s")
  have kept: "worker_inv s1 \<and> fuel_free r1 \<and> co_jobs s1 = co_jobs s"
    by (rule parent_ready_kept [OF _ parent]) (use at in \<open>simp add: at_job_def\<close>)
  then have at1: "at_job s1 job" using at by (simp add: at_job_def)
  show ?thesis
  proof (cases r1)
    case (Inl e)
    with process parent False have "r = Inl e" and "s' = s1" by (auto simp: process_def abind_def)
    with kept at1 Inl show ?thesis unfolding round_result_def
      by (intro conjI exI [of _ job]) (auto simp: fuel_free_def others_kept_def intro: pipeline.intros)
  next
    case (Inr u)
    have "stages_left (dj_stage job) < stage_fuel" by (cases "dj_stage job") (simp_all add: stage_fuel_def)
    with Inr process parent False kept at1 show ?thesis
      using stage_loop_round [OF env at1, where season = False and cf = cf]
      by (simp add: process_def step_of_def abind_def)
  qed
qed

lemma settle_row:
  assumes at: "at_job s j" and item: "dj_item_id job = dj_item_id j"
    and st: "past_tombstone st \<Longrightarrow> st = dj_stage j" and settle: "settle env job st text s = (r, s')"
  shows "r = Inr () \<and> (\<exists>j'. at_job s' j' \<and> same_capture j j' \<and> dj_stage j' = st \<and> dj_error j' = Some text \<and>
           others_kept (dj_item_id j) (co_jobs s) (co_jobs s'))"
proof -
  obtain now w where now: "e_now env (co_world s) = (now, w)" by (cases "e_now env (co_world s)")
  from at have find: "find_job (dj_item_id j) (co_jobs s) = Some j" by (simp add: at_job_def)
  obtain jobs' j' where set: "set_stage (dj_item_id j) (stage_text st) (Some text) now (co_jobs s) = Inr (jobs', j')"
    using find
    by (cases "set_stage (dj_item_id j) (stage_text st) (Some text) now (co_jobs s)")
      (auto simp: set_stage_def stage_of_text Let_def split: if_splits)
  have r: "r = Inr ()" and s': "s' = s\<lparr>co_world := w, co_jobs := jobs'\<rparr>"
    using settle now set item
    by (auto simp: settle_def abind_def query_def read_state_def write_state_def)
  have stage: "dj_stage j' = st" and error: "dj_error j' = Some text"
    using set_stage_find [OF set] by (simp_all add: stage_of_text)
  have "at_job s' j' \<and> same_capture j j' \<and> others_kept (dj_item_id j) (co_jobs s) (co_jobs s')"
  proof (rule reached_worker_inv [OF at set])
    show "since jobs' (grows (co_db s)) accounted (co_log s) s'" by (simp add: since_def s' grows_def)
    assume "past_tombstone (dj_stage j')"
    with st stage at show "\<forall>d. grows (co_db s) d \<longrightarrow> tombstoned d (job_key j)"
      by (auto simp: at_job_def worker_inv_def grows_def dest: find_job_Some)
  qed
  with r stage error show ?thesis by blast
qed

lemma touch_row:
  assumes "at_job s j"
  shows "\<exists>j'. at_job (s\<lparr>co_jobs := touch (dj_item_id j) now (co_jobs s)\<rparr>) j' \<and> same_capture j j' \<and>
           dj_stage j' = dj_stage j \<and> dj_error j' = dj_error j \<and>
           others_kept (dj_item_id j) (co_jobs s) (touch (dj_item_id j) now (co_jobs s))"
proof -
  let ?f = "dj_updated_at_update (\<lambda>_. now)"
  have found: "find_job k (touch (dj_item_id j) now jobs) =
      (if k = dj_item_id j then map_option ?f (find_job k jobs) else find_job k jobs)" for k jobs
    unfolding find_job_def touch_def job_touched.find_updated
    by (cases "find_row (\<lambda>j. dj_item_id j = k) jobs") (auto dest: find_row_Some)
  have "r \<in> set (touch (dj_item_id j) now (co_jobs s)) \<Longrightarrow>
      \<exists>q\<in>set (co_jobs s). same_capture q r \<and> dj_stage r = dj_stage q" for r
  proof -
    assume "r \<in> set (touch (dj_item_id j) now (co_jobs s))"
    then obtain q where "q \<in> set (co_jobs s)" and "r = (if dj_item_id q = dj_item_id j then ?f q else q)"
      unfolding touch_def set_update_rows by blast
    then show ?thesis by (intro bexI [of _ q]) (simp_all add: same_capture_def)
  qed
  then have "worker_inv (s\<lparr>co_jobs := touch (dj_item_id j) now (co_jobs s)\<rparr>)"
    using assms same_capture_key
    by (auto simp: at_job_def worker_inv_def jobs_wf_def touch_def job_touched.keys_kept) (metis same_capture_key)
  with assms found show ?thesis
    by (intro exI [of _ "?f j"]) (auto simp: at_job_def same_capture_def others_kept_def)
qed

lemma next_queued_member: "next_queued jobs = Some job \<Longrightarrow> job \<in> set jobs \<and> \<not> terminal_stage (dj_stage job)"
proof -
  assume "next_queued jobs = Some job"
  then obtain rest where e: "sort_key dj_updated_at (sort_key dj_created_at
      (filter (\<lambda>j. \<not> terminal_stage (dj_stage j)) jobs)) = job # rest"
    by (auto simp: next_queued_def split: list.splits)
  have "job \<in> set (sort_key dj_updated_at (sort_key dj_created_at
      (filter (\<lambda>j. \<not> terminal_stage (dj_stage j)) jobs)))" unfolding e by simp
  then show ?thesis by simp
qed

text \<open>What \<open>run_once\<close> reports and what it leaves in the table.\<close>

definition reported :: "deletion_job \<Rightarrow> deletion_job \<Rightarrow> failure + string \<Rightarrow> bool" where
  "reported job j r =
     (r = Inr ''complete'' \<and> dj_stage j = Complete \<and> pipeline (is_season job) (dj_stage job) Complete \<or>
      r = Inr ''blocked'' \<and> dj_stage j = Blocked \<and> dj_error j \<noteq> None \<or>
      r = Inr ''retry'' \<and> \<not> terminal_stage (dj_stage j) \<and> dj_error j \<noteq> None \<and>
        pipeline (is_season job) (dj_stage job) (dj_stage j) \<or>
      r = Inl Unexpected \<and> \<not> terminal_stage (dj_stage j) \<and>
        pipeline (is_season job) (dj_stage job) (dj_stage j))"

lemma pipeline_open: "pipeline season a b \<Longrightarrow> a \<noteq> Blocked \<Longrightarrow> b \<noteq> Blocked"
  by (induction rule: pipeline.induct) (auto dest: next_stage_not_blocked)

lemma terminal_iff: "terminal_stage st \<longleftrightarrow> st = Complete \<or> st = Blocked"
  by (cases st) auto

lemma settle_retry_row:
  assumes at: "at_job s j" and item: "dj_item_id job = dj_item_id j"
    and settle: "settle_retry env job text s = (r, s')"
  shows "r = Inr () \<and> (\<exists>j'. at_job s' j' \<and> same_capture j j' \<and> dj_stage j' = dj_stage j \<and>
           dj_error j' = Some text \<and> others_kept (dj_item_id j) (co_jobs s) (co_jobs s'))"
proof -
  from at have find: "get_job (dj_item_id job) (co_jobs s) = Some j" by (simp add: at_job_def get_job_def item)
  obtain r1 s1 where s1: "settle env job (dj_stage j) text s = (r1, s1)"
    by (cases "settle env job (dj_stage j) text s")
  from settle_row [OF at item _ s1] obtain j1 where r1: "r1 = Inr ()" and at1: "at_job s1 j1"
      and j1: "same_capture j j1" "dj_stage j1 = dj_stage j" "dj_error j1 = Some text"
      and others: "others_kept (dj_item_id j) (co_jobs s) (co_jobs s1)" by auto
  obtain now w where now: "e_now env (co_world s1) = (now, w)" by (cases "e_now env (co_world s1)")
  have i1: "dj_item_id j1 = dj_item_id job" using j1(1) item by (simp add: same_capture_def)
  have s': "s' = s1\<lparr>co_world := w, co_jobs := touch (dj_item_id j1) now (co_jobs s1)\<rparr>" and r: "r = Inr ()"
    using settle find s1 r1 now i1
    by (auto simp: settle_retry_def abind_def read_state_def query_def write_state_def)
  have "at_job (s1\<lparr>co_world := w\<rparr>) j1" using at1 by (simp add: at_job_def worker_inv_def)
  from touch_row [OF this, of now] obtain j2 where "at_job s' j2" and "same_capture j1 j2"
      and "dj_stage j2 = dj_stage j1" and "dj_error j2 = dj_error j1"
      and "others_kept (dj_item_id j1) (co_jobs s1) (co_jobs s')" by (auto simp: s')
  with r j1 others i1 item show ?thesis
    by (auto simp: others_kept_def intro!: exI [of _ j2] intro: same_capture_trans)
qed

lemma run_once_round:
  assumes env: "env_monotone env" and inv: "worker_inv s" and queued: "next_queued (co_jobs s) = Some job"
    and run: "run_once env cf s = (r, s')"
  shows "\<exists>j. at_job s' j \<and> same_capture job j \<and> others_kept (dj_item_id job) (co_jobs s) (co_jobs s') \<and>
             reported job j r"
proof -
  have nonfinal: "\<not> terminal_stage (dj_stage job)" and "job \<in> set (co_jobs s)"
    using next_queued_member [OF queued] by auto
  then have at: "at_job s job" using inv by (simp add: at_job_def worker_inv_def find_job_member)
  obtain r1 s1 where process: "process env cf job s = (r1, s1)" by (cases "process env cf job s")
  from process_round [OF env at process] obtain j where free: "fuel_free r1" and at1: "at_job s1 j"
      and capture: "same_capture job j" and pipe: "pipeline (is_season job) (dj_stage job) (dj_stage j)"
      and others: "others_kept (dj_item_id job) (co_jobs s) (co_jobs s1)"
      and outcome: "case r1 of Inl e \<Rightarrow> dj_stage j \<noteq> Complete \<or> j = job | Inr _ \<Rightarrow> dj_stage j = Complete"
    by (auto simp: round_result_def)
  have item: "dj_item_id job = dj_item_id j" using capture by (simp add: same_capture_def)
  have not_blocked: "dj_stage j \<noteq> Blocked" using pipeline_open [OF pipe] nonfinal by (auto simp: terminal_iff)
  have run1: "(case r1 of
       Inl (Blocking text) \<Rightarrow> abind (settle env job Blocked text) (\<lambda>_. ret ''blocked'')
     | Inl (Retryable text) \<Rightarrow> abind (settle_retry env job text) (\<lambda>_. ret ''retry'')
     | Inl (Transient text) \<Rightarrow> abind (settle_retry env job text) (\<lambda>_. ret ''retry'')
     | Inl e \<Rightarrow> fail e
     | Inr _ \<Rightarrow> ret ''complete'') s1 = (r, s')"
    using run queued process
    by (auto simp: run_once_def on_outcome_def abind_def [of "read_state _"] read_state_def split: sum.splits failure.splits)
  have retried: ?thesis
    if retry: "abind (settle_retry env job msg) (\<lambda>_. ret ''retry'') s1 = (r, s')" and "r1 = Inl failed" for msg failed
  proof -
    obtain r2 s2 where s2: "settle_retry env job msg s1 = (r2, s2)" by (cases "settle_retry env job msg s1")
    from settle_retry_row [OF at1 item s2] obtain j' where "r2 = Inr ()" and "at_job s2 j'" and "same_capture j j'"
        and "dj_stage j' = dj_stage j" and "dj_error j' = Some msg"
        and "others_kept (dj_item_id j) (co_jobs s1) (co_jobs s2)" by auto
    with retry s2 capture others item pipe not_blocked outcome nonfinal that(2) show ?thesis
      by (intro exI [of _ j'])
        (auto simp: abind_def ret_def pure_act_def reported_def others_kept_def terminal_iff
          intro: same_capture_trans)
  qed
  show ?thesis
  proof (cases r1)
    case (Inr u)
    with run1 outcome at1 capture others pipe show ?thesis
      by (auto simp: reported_def ret_def pure_act_def)
  next
    case (Inl e)
    show ?thesis
    proof (cases e)
      case (Blocking msg)
      obtain r2 s2 where s2: "settle env job Blocked msg s1 = (r2, s2)"
        by (cases "settle env job Blocked msg s1")
      from settle_row [OF at1 item _ s2] obtain j' where "r2 = Inr ()" and "at_job s2 j'" and "same_capture j j'"
          and "dj_stage j' = Blocked" and "dj_error j' = Some msg"
          and "others_kept (dj_item_id j) (co_jobs s1) (co_jobs s2)" by auto
      with Inl Blocking run1 s2 capture others item show ?thesis
        by (intro exI [of _ j'])
          (auto simp: abind_def ret_def pure_act_def reported_def others_kept_def intro: same_capture_trans)
    next
      case (Retryable msg)
      with Inl run1 show ?thesis by (auto intro: retried)
    next
      case (Transient msg)
      with Inl run1 show ?thesis by (auto intro: retried)
    next
      case Unexpected
      with Inl run1 at1 capture others pipe not_blocked outcome nonfinal show ?thesis
        by (auto simp: fail_def pure_act_def reported_def terminal_iff)
    next
      case OutOfFuel
      with Inl free show ?thesis by (simp add: fuel_free_def)
    qed
  qed
qed

end
