(* ===== verification/DeletionProperties.thy ===== *)
theory DeletionProperties
  imports DeletionWorker
begin

text \<open>
  Properties of the deletion coordinator (\<open>worker/deletion_coordinator.py\<close>), and a world in
  which the deletion of a movie runs to its end, where they are evaluated.
\<close>

section \<open>The states of the worker\<close>

text \<open>
  The API requests deletions, a round is run, the worker starts again with empty timers, and
  other processes change the database and the world.
\<close>

inductive worker_reachable :: "'w env \<Rightarrow> config \<Rightarrow> 'w co \<Rightarrow> bool" for env cf where
  start: "co_jobs s = [] \<Longrightarrow> co_log s = [] \<Longrightarrow> worker_reachable env cf s"
| request: "worker_reachable env cf s \<Longrightarrow> enqueue item kind payload now (co_jobs s) = (jobs, j) \<Longrightarrow>
    worker_reachable env cf (s\<lparr>co_jobs := jobs\<rparr>)"
| request_season: "worker_reachable env cf s \<Longrightarrow>
    enqueue_season item payload now (co_jobs s) = Inr (jobs, j) \<Longrightarrow>
    worker_reachable env cf (s\<lparr>co_jobs := jobs\<rparr>)"
| round: "worker_reachable env cf s \<Longrightarrow> run_once env cf s = (r, s') \<Longrightarrow> worker_reachable env cf s'"
| restart: "worker_reachable env cf s \<Longrightarrow>
    worker_reachable env cf (s\<lparr>co_notify_at := [], co_refresh_at := [], co_unlink_since := []\<rparr>)"
| others: "worker_reachable env cf s \<Longrightarrow> grows (co_db s) d \<Longrightarrow>
    worker_reachable env cf (s\<lparr>co_db := d, co_world := w\<rparr>)"

lemma worker_inv_insert:
  assumes "worker_inv s" and "dj_stage x = Queued"
  shows "worker_inv (s\<lparr>co_jobs := insert_job x (co_jobs s)\<rparr>)"
proof -
  have "r \<in> set (insert_job x (co_jobs s)) \<Longrightarrow> r \<in> set (co_jobs s) \<or> dj_stage r = Queued" for r
    using assms(2) by (auto simp: insert_job_def split: if_splits)
  with assms(1) show ?thesis by (auto simp: worker_inv_def insert_job_wf) (metis past_tombstone.simps(6))
qed

lemma worker_inv_children:
  "worker_inv (s\<lparr>co_jobs := jobs\<rparr>) \<Longrightarrow>
   worker_inv (s\<lparr>co_jobs := fold (\<lambda>(cid, p). insert_job (new_job cid ''Episode'' p now)) children jobs\<rparr>)"
proof (induction children arbitrary: jobs)
  case Nil
  then show ?case by simp
next
  case (Cons c children)
  obtain cid p where c: "c = (cid, p)" by (cases c)
  from worker_inv_insert [OF Cons.prems, of "new_job cid ''Episode'' p now"]
  have "worker_inv (s\<lparr>co_jobs := insert_job (new_job cid ''Episode'' p now) jobs\<rparr>)" by (simp add: new_job_def)
  from Cons.IH [OF this] show ?case by (simp add: c)
qed

lemma worker_inv_season:
  assumes inv: "worker_inv s" and enq: "enqueue_season item payload now (co_jobs s) = Inr (jobs, j)"
  shows "worker_inv (s\<lparr>co_jobs := jobs\<rparr>)"
proof (cases "find_job item (co_jobs s)")
  case None
  let ?parent = "new_job item ''Season'' payload now"
  from None have parent: "co_jobs s @ [?parent] = insert_job ?parent (co_jobs s)"
    by (simp add: insert_job_def new_job_def)
  have "worker_inv (s\<lparr>co_jobs := co_jobs s @ [?parent]\<rparr>)"
    unfolding parent by (rule worker_inv_insert [OF inv]) (simp add: new_job_def)
  then have children: "worker_inv (s\<lparr>co_jobs := fold (\<lambda>(cid, p). insert_job (new_job cid ''Episode'' p now)) cs
      (co_jobs s @ [?parent])\<rparr>)" for cs by (rule worker_inv_children)
  obtain e es where "as_list (jget payload ''episodes'') = Some (e # es)"
    using None enq by (auto simp: enqueue_season_def split: option.splits list.splits)
  with None enq obtain cs where "jobs = fold (\<lambda>(cid, p). insert_job (new_job cid ''Episode'' p now)) cs
      (co_jobs s @ [?parent])"
    by (auto simp: enqueue_season_def ebind_Inr Let_def simp del: season_children.simps)
  with children [of cs] show ?thesis by simp
next
  case (Some j0)
  with enq inv show ?thesis by (auto simp: enqueue_season_def split: if_splits)
qed

lemma run_once_empty: "next_queued (co_jobs s) = None \<Longrightarrow> run_once env cf s = (Inr ''empty'', s)"
  by (simp add: run_once_def abind_def read_state_def ret_def pure_act_def)

lemma reachable_inv: "worker_reachable env cf s \<Longrightarrow> env_monotone env \<Longrightarrow> worker_inv s"
proof (induction rule: worker_reachable.induct)
  case (start s)
  then show ?case by (simp add: worker_inv_def jobs_wf_def)
next
  case (request s item kind payload now jobs j)
  then have jobs: "jobs = insert_job (new_job item kind payload now) (co_jobs s)"
    by (simp add: enqueue_def Let_def)
  show ?case unfolding jobs by (rule worker_inv_insert) (use request in \<open>simp_all add: new_job_def\<close>)
next
  case (request_season s item payload now jobs j)
  then show ?case by (auto intro: worker_inv_season)
next
  case (round s r s')
  then show ?case
    by (cases "next_queued (co_jobs s)")
      (auto simp: run_once_empty at_job_def dest!: run_once_round [OF round.prems])
next
  case (restart s)
  then show ?case by (simp add: worker_inv_def)
next
  case (others s d w)
  then show ?case by (auto simp: worker_inv_def grows_def)
qed

section \<open>A movie that is deleted\<close>

definition sample_payload :: "(string \<times> json) list" where
  "sample_payload =
     [(''file_identity'', JObj [(''device'', JInt 1), (''inode'', JInt 2), (''mtime_ns'', JInt 4), (''size'', JInt 3)]),
      (''file_path'', JStr ''/m/movies/a.mkv''), (''media_key'', JStr ''movie:tmdb:7''),
      (''radarr_file_id'', JInt 2), (''radarr_id'', JInt 1), (''tmdb_id'', JInt 7)]"

definition sample_answer :: "json \<Rightarrow> string + response" where
  "sample_answer j = Inr \<lparr>rp_status = 200, rp_host = ''h'', rp_error_text = [], rp_body = Some j\<rparr>"

definition sample_movie :: json where
  "sample_movie =
     JObj [(''id'', JInt 1), (''tmdbId'', JInt 7),
           (''movieFile'', JObj [(''id'', JInt 2), (''path'', JStr ''/m/movies/a.mkv''), (''size'', JInt 3)])]"

text \<open>The world remembers whether the video is there; Radarr removes it.\<close>

definition sample_http :: "bool \<Rightarrow> db \<Rightarrow> request \<Rightarrow> (string + response) \<times> db \<times> bool" where
  "sample_http w d rq =
     (case (hq_service rq, hq_method rq) of
        (Radarr, GET) \<Rightarrow> (sample_answer sample_movie, d, w)
      | (Radarr, DELETE) \<Rightarrow> (sample_answer JNull, d, False)
      | (Jellyfin, _) \<Rightarrow> (sample_answer (JObj [(''Items'', JList [])]), d, w)
      | _ \<Rightarrow> (sample_answer JNull, d, w))"

definition sample_stat :: "int \<Rightarrow> file_stat" where
  "sample_stat inode =
     \<lparr>fs_device = 1, fs_inode = inode, fs_size = 3, fs_mtime_ns = 4, fs_nlink = 1, fs_regular = True,
      fs_directory = False\<rparr>"

definition sample_env :: "bool env" where
  "sample_env =
     \<lparr>e_http = sample_http,
      e_snapshot = (\<lambda>w. ((Some (JObj [(''filesystem_id'', JStr ''fs''), (''measured_at'', JInt 0)]), 0, True), w)),
      e_inside = (\<lambda>w p q. (Inr True, w)), e_symlink = (\<lambda>w p. (Inr False, w)),
      e_exists = (\<lambda>w p. (Inr True, w)), e_directory = (\<lambda>w p. (Inr True, w)),
      e_stat = (\<lambda>w p. (if w then Present (sample_stat 2) else Absent [], w)),
      e_lstat = (\<lambda>w p. (Present (sample_stat 5), w)), e_listdir = (\<lambda>w p. (Some [''a.srt'', ''b.srt''], w)),
      e_unlink = (\<lambda>w p. (UnlinkOk, w)), e_rmdir = (\<lambda>w p. (RmdirOk, w)),
      e_monotonic = (\<lambda>w. (0, w)), e_now = (\<lambda>w. (1, w))\<rparr>"

definition sample_config :: config where
  "sample_config =
     \<lparr>cf_media_root = posix_of ''/m'', cf_data_root = posix_of ''/'', cf_filesystem_id = ''fs''\<rparr>"

definition sample_worker :: "bool co" where
  "sample_worker =
     \<lparr>co_world = True, co_jobs = fst (enqueue ''i'' ''Movie'' sample_payload 0 []), co_db = empty_db,
      co_notify_at = [], co_refresh_at = [], co_unlink_since = [], co_log = []\<rparr>"

definition sample_row :: "job_stage \<Rightarrow> time \<Rightarrow> deletion_job" where
  "sample_row st t =
     \<lparr>dj_item_id = ''i'', dj_item_type = ''Movie'', dj_payload = JObj sample_payload, dj_stage = st,
      dj_error = None, dj_created_at = 0, dj_updated_at = t\<rparr>"

definition sample_video :: posix where
  "sample_video = \<lparr>px_root = ''/'', px_parts = [''m'', ''movies'', ''a.mkv'']\<rparr>"

lemma sample_enqueued: "co_jobs sample_worker = [sample_row Queued 0]"
  by code_simp

lemma sample_mount: "guard_mount sample_env sample_config s = (Inr (), s)"
proof -
  have "mount_valid sample_config (JObj [(''filesystem_id'', JStr ''fs''), (''measured_at'', JInt 0)]) 0 True"
    by code_simp
  then show ?thesis
    by (simp add: guard_mount_def sample_env_def abind_def query_def check_def ret_def pure_act_def)
qed

lemma sample_captured: "captured_payload (sample_row st t) = Inr sample_payload"
  by code_simp

lemma sample_file:
  "captured_file sample_env sample_config (sample_row st t) b s =
     (if co_world s then (Inr (sample_video, Some (sample_stat 2)), s)
      else if b then (Inl (Blocking ''captured file disappeared before source cleanup''), s)
      else (Inr (sample_video, None), s))"
proof -
  have path: "as_str (jget sample_payload ''file_path'') = Some ''/m/movies/a.mkv''"
    and video: "posix_of ''/m/movies/a.mkv'' = sample_video"
    and within: "absolute sample_video \<and> sample_video \<noteq> library sample_config (sample_row st t) \<and>
      relative_to sample_video (library sample_config (sample_row st t))"
    and ident: "same_identity (pobj sample_payload ''file_identity'') (sample_stat 2)"
    by code_simp+
  have link: "no_symlink sample_env msg top cs s = (Inr (), s)" for msg top cs s
    by (induction cs)
      (simp_all add: ret_def pure_act_def abind_def ask_def query_def sample_env_def)
  have inside: "within_library sample_env sample_config (sample_row st t) sample_video s = (Inr (), s)"
    unfolding within_library_def using within
    by (simp add: abind_def query_def sample_env_def check_def ret_def pure_act_def)
  have stat: "query (\<lambda>w. e_stat sample_env w sample_video) s =
      (Inr (if co_world s then Present (sample_stat 2) else Absent []), s)"
    by (simp add: query_def sample_env_def)
  have regular: "fs_regular (sample_stat 2)" by (simp add: sample_stat_def)
  show ?thesis
    by (simp add: captured_file_def sample_captured path video Let_def abind_def inside link stat regular
        ident ret_def pure_act_def blocked_def fail_def)
qed

lemma record_call_fields [simp]:
  "co_world (record_call c s) = co_world s" "co_jobs (record_call c s) = co_jobs s"
  "co_db (record_call c s) = co_db s" "co_notify_at (record_call c s) = co_notify_at s"
  "co_refresh_at (record_call c s) = co_refresh_at s" "co_unlink_since (record_call c s) = co_unlink_since s"
  "co_log (record_call c s) = co_log s @ [\<lparr>lg_call = c, lg_jobs = co_jobs s, lg_db = co_db s\<rparr>]"
  by (simp_all add: record_call_def)

lemma sample_status: "status_ok \<lparr>rp_status = 200, rp_host = h, rp_error_text = e, rp_body = b\<rparr> missing = Inr True"
  by (simp add: status_ok_def)

lemma sample_get:
  "get_json sample_env Radarr path params missing s =
     (Inr sample_movie, record_call (Sent \<lparr>hq_method = GET, hq_service = Radarr, hq_path = path,
        hq_params = params, hq_body = JNull\<rparr>) s)"
  "get_json sample_env Jellyfin path params missing s =
     (Inr (JObj [(''Items'', JList [])]), record_call (Sent \<lparr>hq_method = GET, hq_service = Jellyfin,
        hq_path = path, hq_params = params, hq_body = JNull\<rparr>) s)"
  by (simp_all add: get_json_def abind_def http_def sample_env_def sample_http_def sample_answer_def
      pure_act_def json_body_def sample_status Let_def)

lemma sample_delete:
  "send sample_env DELETE Radarr path params body s =
     (Inr \<lparr>rp_status = 200, rp_host = ''h'', rp_error_text = [], rp_body = Some JNull\<rparr>,
      (record_call (Sent \<lparr>hq_method = DELETE, hq_service = Radarr, hq_path = path, hq_params = params,
         hq_body = body\<rparr>) s)\<lparr>co_world := False\<rparr>)"
  by (simp add: send_def http_def sample_env_def sample_http_def sample_answer_def Let_def)

lemma sample_association:
  "reservations (co_db s) = [] \<Longrightarrow> association sample_config (sample_row st t) s = (Inr (None, None, None), s)"
  by (simp add: association_def sample_captured abind_def pure_act_def item_scope_def read_state_def
      associated_def reservation_rows_def) (simp add: sample_row_def)

lemma sample_preflight:
  "arr_preflight sample_env (sample_row st t) b s =
     (Inr True, record_call (Sent \<lparr>hq_method = GET, hq_service = Radarr, hq_path = ''/api/v3/movie/1'',
        hq_params = [], hq_body = JNull\<rparr>) s)"
proof -
  obtain m f where m: "as_obj sample_movie = Some m" and f: "as_obj (jget m ''movieFile'') = Some f"
    and ids: "py_eq (jget m ''id'') (jget sample_payload ''radarr_id'')"
      "py_eq (jget m ''tmdbId'') (jget sample_payload ''tmdb_id'')" "jget m ''movieFile'' \<noteq> JNull"
      "py_eq (jget f ''id'') (jget sample_payload ''radarr_file_id'')"
      "py_eq (jget f ''path'') (jget sample_payload ''file_path'')"
      "py_eq (jget f ''size'') (jget (pobj sample_payload ''file_identity'') ''size'')"
  proof
    show "as_obj sample_movie = Some (case sample_movie of JObj d \<Rightarrow> d | _ \<Rightarrow> [])" by code_simp
  qed code_simp+
  have movie: "sample_movie \<noteq> JNull" by (simp add: sample_movie_def)
  have id: "show_int (pint sample_payload ''radarr_id'') = ''1''" by code_simp
  have type: "dj_item_type (sample_row st t) = ''Movie''" by (simp add: sample_row_def)
  show ?thesis
    unfolding arr_preflight_def movie_preflight_def type
    by (simp add: id sample_captured abind_def pure_act_def sample_get movie m f ids ret_def)
qed

lemma sample_advance:
  assumes "co_jobs s = [sample_row st t]" and "st' \<noteq> st"
  shows "advance sample_env (sample_row st t) st' s =
    (Inr (sample_row st' 1), s\<lparr>co_jobs := [sample_row st' 1]\<rparr>)"
proof -
  have now: "query (e_now sample_env) s = (Inr 1, s)" by (simp add: query_def sample_env_def)
  show ?thesis
    unfolding advance_def using assms
    by (simp add: abind_def now read_state_def set_stage_def stage_of_text find_job_def sample_row_def
        update_rows_def staged_def Let_def write_state_def ret_def pure_act_def)
qed

lemma sample_types: "dj_item_type (sample_row st t) = ''Movie''" "dj_item_id (sample_row st t) = ''i''"
  "dj_stage (sample_row st t) = st" "dj_payload (sample_row st t) = JObj sample_payload"
  by (simp_all add: sample_row_def)

lemma sample_files:
  "e_exists sample_env w p = (Inr True, w)" "e_symlink sample_env w p = (Inr False, w)"
  "e_directory sample_env w p = (Inr True, w)" "e_listdir sample_env w p = (Some [''a.srt'', ''b.srt''], w)"
  "e_lstat sample_env w p = (Present (sample_stat 5), w)" "e_unlink sample_env w p = (UnlinkOk, w)"
  "e_now sample_env w = (1, w)"
  by (simp_all add: sample_env_def)

lemma sample_cleanup:
  "cleanup_sidecars sample_env sample_config sample_video s =
     (Inr (), record_call (Unlink \<lparr>px_root = ''/'', px_parts = [''m'', ''movies'', ''a.srt'']\<rparr>) s)"
proof -
  have names: "is_sidecar sample_video ''a.srt''" "\<not> is_sidecar sample_video ''b.srt''" by code_simp+
  have parent: "parent_of sample_video = \<lparr>px_root = ''/'', px_parts = [''m'', ''movies'']\<rparr>"
    by (simp add: parent_of_def sample_video_def)
  show ?thesis
    by (simp add: cleanup_sidecars_def Let_def abind_def ask_def query_def sample_files ret_def pure_act_def
        consider_sidecar_def names remove_sidecar_def sample_mount parent sample_stat_def unlink_def)
qed

lemma sample_jellyfin:
  "jellyfin_item_present sample_env ''i'' s =
     (Inr False, record_call (Sent \<lparr>hq_method = GET, hq_service = Jellyfin, hq_path = ''/Items'',
        hq_params = [(''Ids'', JStr ''i''), (''Recursive'', JStr ''true'')], hq_body = JNull\<rparr>) s)"
proof -
  have "jellyfin_items ''i'' (JObj [(''Items'', JList [])]) = Inr False" by code_simp
  then show ?thesis by (simp add: jellyfin_item_present_def abind_def sample_get pure_act_def)
qed

lemmas sample_evals = sample_mount sample_file sample_association sample_preflight sample_advance sample_types
  sample_cleanup sample_jellyfin sample_captured sample_delete sample_status abind_def ret_def pure_act_def

text \<open>Before Radarr is called: the job as it was queued, and the video there.\<close>

lemma sample_removal:
  assumes "co_world s" and "co_jobs s = [sample_row TorrentsRemoved 1]"
  shows "\<exists>s'. delete_arr sample_env sample_config (sample_row TorrentsRemoved 1) s = (Inr (), s') \<and>
    \<not> co_world s' \<and> co_jobs s' = co_jobs s \<and> co_db s' = co_db s \<and>
    (\<exists>c\<in>set (co_log s'). lg_call c = Unlink \<lparr>px_root = ''/'', px_parts = [''m'', ''movies'', ''a.srt'']\<rparr>)"
  using assms
  by (simp add: delete_arr_def delete_movie_def delete_movie_file_def sample_evals status_act_def
      check_def sample_stat_def)

lemma sample_steps:
  assumes "reservations (co_db s) = []" and jobs: "co_jobs s = [sample_row st t]"
  shows "st = Queued \<Longrightarrow> co_world s \<Longrightarrow>
      \<exists>s'. item_step sample_env sample_config (sample_row st t) s = (Inr (Some (sample_row Validated 1)), s') \<and>
        co_world s' \<and> co_jobs s' = [sample_row Validated 1] \<and> co_db s' = co_db s"
    and "st = Validated \<Longrightarrow> co_world s \<Longrightarrow>
      \<exists>s'. item_step sample_env sample_config (sample_row st t) s = (Inr (Some (sample_row Tombstoned 1)), s') \<and>
        co_world s' \<and> co_jobs s' = [sample_row Tombstoned 1] \<and> reservations (co_db s') = []"
    and "st = Tombstoned \<Longrightarrow> co_world s \<Longrightarrow>
      \<exists>s'. item_step sample_env sample_config (sample_row st t) s = (Inr (Some (sample_row TorrentsRemoved 1)), s') \<and>
        co_world s' \<and> co_jobs s' = [sample_row TorrentsRemoved 1] \<and> co_db s' = co_db s"
proof -
  assume "st = Queued" and "co_world s"
  with assms show "\<exists>s'. item_step sample_env sample_config (sample_row st t) s =
      (Inr (Some (sample_row Validated 1)), s') \<and>
      co_world s' \<and> co_jobs s' = [sample_row Validated 1] \<and> co_db s' = co_db s"
    by (simp add: item_step_def sample_evals)
next
  assume "st = Validated" and "co_world s"
  with assms show "\<exists>s'. item_step sample_env sample_config (sample_row st t) s =
      (Inr (Some (sample_row Tombstoned 1)), s') \<and>
      co_world s' \<and> co_jobs s' = [sample_row Tombstoned 1] \<and> reservations (co_db s') = []"
    by (simp add: item_step_def sample_evals put_tombstone_def query_def write_state_def tombstone_def
        sample_files)
next
  assume "st = Tombstoned" and "co_world s"
  with assms show "\<exists>s'. item_step sample_env sample_config (sample_row st t) s =
      (Inr (Some (sample_row TorrentsRemoved 1)), s') \<and>
      co_world s' \<and> co_jobs s' = [sample_row TorrentsRemoved 1] \<and> co_db s' = co_db s"
    by (simp add: item_step_def sample_evals delete_source_def check_def sample_stat_def)
qed

lemma sample_last_steps:
  assumes "reservations (co_db s) = []" and jobs: "co_jobs s = [sample_row st 1]"
  shows "st = TorrentsRemoved \<Longrightarrow> co_world s \<Longrightarrow>
      \<exists>s'. item_step sample_env sample_config (sample_row st 1) s = (Inr (Some (sample_row ArrRemoved 1)), s') \<and>
        \<not> co_world s' \<and> co_jobs s' = [sample_row ArrRemoved 1] \<and> co_db s' = co_db s \<and>
        (\<exists>c\<in>set (co_log s'). lg_call c = Unlink \<lparr>px_root = ''/'', px_parts = [''m'', ''movies'', ''a.srt'']\<rparr>)"
    and "st = ArrRemoved \<Longrightarrow> \<not> co_world s \<Longrightarrow>
      item_step sample_env sample_config (sample_row st 1) s =
        (Inr (Some (sample_row SeerrRemoved 1)), s\<lparr>co_jobs := [sample_row SeerrRemoved 1]\<rparr>)"
    and "st = SeerrRemoved \<Longrightarrow> \<not> co_world s \<Longrightarrow>
      \<exists>s'. item_step sample_env sample_config (sample_row st 1) s = (Inr (Some (sample_row JellyfinRemoved 1)), s') \<and>
        co_jobs s' = [sample_row JellyfinRemoved 1] \<and> co_db s' = co_db s \<and> set (co_log s) \<subseteq> set (co_log s')"
    and "st = JellyfinRemoved \<Longrightarrow>
      item_step sample_env sample_config (sample_row st 1) s = (Inr None, s\<lparr>co_jobs := [sample_row Complete 1]\<rparr>)"
proof -
  assume "st = TorrentsRemoved" and "co_world s"
  with sample_removal [of s] jobs obtain s' where
    "delete_arr sample_env sample_config (sample_row st 1) s = (Inr (), s')" and
    "\<not> co_world s' \<and> co_jobs s' = co_jobs s \<and> co_db s' = co_db s \<and>
     (\<exists>c\<in>set (co_log s'). lg_call c = Unlink \<lparr>px_root = ''/'', px_parts = [''m'', ''movies'', ''a.srt'']\<rparr>)"
    by auto
  with assms \<open>st = TorrentsRemoved\<close> show "\<exists>s'. item_step sample_env sample_config (sample_row st 1) s =
      (Inr (Some (sample_row ArrRemoved 1)), s') \<and>
      \<not> co_world s' \<and> co_jobs s' = [sample_row ArrRemoved 1] \<and> co_db s' = co_db s \<and>
      (\<exists>c\<in>set (co_log s'). lg_call c = Unlink \<lparr>px_root = ''/'', px_parts = [''m'', ''movies'', ''a.srt'']\<rparr>)"
    by (simp add: item_step_def sample_evals)
next
  assume "st = ArrRemoved"
  with assms show "item_step sample_env sample_config (sample_row st 1) s =
      (Inr (Some (sample_row SeerrRemoved 1)), s\<lparr>co_jobs := [sample_row SeerrRemoved 1]\<rparr>)"
    by (simp add: item_step_def sample_evals delete_seerr_def)
next
  assume "st = SeerrRemoved" and "\<not> co_world s"
  with assms show "\<exists>s'. item_step sample_env sample_config (sample_row st 1) s =
      (Inr (Some (sample_row JellyfinRemoved 1)), s') \<and>
      co_jobs s' = [sample_row JellyfinRemoved 1] \<and> co_db s' = co_db s \<and> set (co_log s) \<subseteq> set (co_log s')"
    by (simp add: item_step_def sample_evals delete_jellyfin_def forget_jellyfin_item_def forget_notified_def
        forget_refreshed_def write_state_def)
      auto
next
  assume "st = JellyfinRemoved"
  with assms show "item_step sample_env sample_config (sample_row st 1) s =
      (Inr None, s\<lparr>co_jobs := [sample_row Complete 1]\<rparr>)"
    by (simp add: item_step_def sample_evals delete_seerr_media_cache_def)
qed

definition sample_done :: "bool co" where
  "sample_done = snd (run_once sample_env sample_config sample_worker)"

lemma movie_run:
  "run_once sample_env sample_config sample_worker = (Inr ''complete'', sample_done) \<and>
   co_jobs sample_done = [sample_row Complete 1] \<and>
   (\<exists>c\<in>set (co_log sample_done). lg_call c = Unlink \<lparr>px_root = ''/'', px_parts = [''m'', ''movies'', ''a.srt'']\<rparr>)"
proof -
  let ?step = "item_step sample_env sample_config"
  have s0: "reservations (co_db sample_worker) = []" "co_world sample_worker"
    by (simp_all add: sample_worker_def empty_db_def)
  obtain s1 where s1: "?step (sample_row Queued 0) sample_worker = (Inr (Some (sample_row Validated 1)), s1)"
      "co_world s1" "co_jobs s1 = [sample_row Validated 1]" "co_db s1 = co_db sample_worker"
    using sample_steps(1) [OF s0(1) sample_enqueued] s0(2) by auto
  obtain s2 where s2: "?step (sample_row Validated 1) s1 = (Inr (Some (sample_row Tombstoned 1)), s2)"
      "co_world s2" "co_jobs s2 = [sample_row Tombstoned 1]" "reservations (co_db s2) = []"
    using sample_steps(2) [of s1 Validated 1] s1 s0 by auto
  obtain s3 where s3: "?step (sample_row Tombstoned 1) s2 = (Inr (Some (sample_row TorrentsRemoved 1)), s3)"
      "co_world s3" "co_jobs s3 = [sample_row TorrentsRemoved 1]" "co_db s3 = co_db s2"
    using sample_steps(3) [of s2 Tombstoned 1] s2 by auto
  obtain s4 c where s4: "?step (sample_row TorrentsRemoved 1) s3 = (Inr (Some (sample_row ArrRemoved 1)), s4)"
      "\<not> co_world s4" "co_jobs s4 = [sample_row ArrRemoved 1]" "co_db s4 = co_db s3"
      and c: "c \<in> set (co_log s4)"
        "lg_call c = Unlink \<lparr>px_root = ''/'', px_parts = [''m'', ''movies'', ''a.srt'']\<rparr>"
    using sample_last_steps(1) [of s3 TorrentsRemoved] s3 s2 by auto
  let ?s5 = "s4\<lparr>co_jobs := [sample_row SeerrRemoved 1]\<rparr>"
  have s5: "?step (sample_row ArrRemoved 1) s4 = (Inr (Some (sample_row SeerrRemoved 1)), ?s5)"
    using sample_last_steps(2) [of s4 ArrRemoved] s4 s3 s2 by auto
  obtain s6 where s6: "?step (sample_row SeerrRemoved 1) ?s5 = (Inr (Some (sample_row JellyfinRemoved 1)), s6)"
      "co_jobs s6 = [sample_row JellyfinRemoved 1]" "co_db s6 = co_db s4" "set (co_log s4) \<subseteq> set (co_log s6)"
    using sample_last_steps(3) [of ?s5 SeerrRemoved] s4 s3 s2 by auto
  have s7: "?step (sample_row JellyfinRemoved 1) s6 = (Inr None, s6\<lparr>co_jobs := [sample_row Complete 1]\<rparr>)"
    using sample_last_steps(4) [of s6 JellyfinRemoved] s6 s4 s3 s2 by auto
  have ready: "parent_ready (sample_row Queued 0) sample_worker = (Inr (), sample_worker)" by code_simp
  have loop: "process sample_env sample_config (sample_row Queued 0) sample_worker =
      (Inr (), s6\<lparr>co_jobs := [sample_row Complete 1]\<rparr>)"
    by (simp add: process_def sample_types abind_def ready stage_fuel_def eval_nat_numeral s1(1) s2(1) s3(1)
        s4(1) s5 s6(1) s7 ret_def pure_act_def)
  have "next_queued (co_jobs sample_worker) = Some (sample_row Queued 0)"
    by (simp add: sample_enqueued next_queued_def sample_row_def)
  then have run: "run_once sample_env sample_config sample_worker =
      (Inr ''complete'', s6\<lparr>co_jobs := [sample_row Complete 1]\<rparr>)"
    by (simp add: run_once_def abind_def read_state_def on_outcome_def loop ret_def pure_act_def)
  then show ?thesis using c s6(4) by (auto simp: sample_done_def)
qed

lemma sample_monotone: "env_monotone sample_env"
  by (auto simp: env_monotone_def grows_def sample_env_def sample_http_def
      split: service.splits http_method.splits)

lemma sample_worker_reachable: "worker_reachable sample_env sample_config sample_worker"
proof -
  have "worker_reachable sample_env sample_config (sample_worker\<lparr>co_jobs := []\<rparr>)"
    by (rule worker_reachable.start) (simp_all add: sample_worker_def)
  then have "worker_reachable sample_env sample_config (sample_worker\<lparr>co_jobs := [],
      co_jobs := co_jobs sample_worker\<rparr>)"
    by (rule worker_reachable.request) (simp add: sample_worker_def enqueue_def Let_def)
  then show ?thesis by simp
qed

lemma sample_done_reachable: "worker_reachable sample_env sample_config sample_done"
  using worker_reachable.round [OF sample_worker_reachable] movie_run by blast

section \<open>What the worker may do\<close>

text \<open>
  C35 (deletions_accounted): whatever the services answer and however rounds, requests,
  restarts and other processes are interleaved, every call of the deletion worker that is not
  a read is one its job may make in the stage it is then in (torrents only once tombstoned,
  Radarr and Sonarr only once the torrent is gone, Seerr and Jellyfin after them; of the
  file system only sidecars of the captured video, captured season metadata and the season
  folder itself), and the media key of that job is tombstoned at that moment.
\<close>

theorem deletions_accounted:
  assumes "env_monotone env" and "worker_reachable env cf s"
    and "c \<in> set (co_log s)" and "\<not> is_read (lg_call c)"
  shows "\<exists>j\<in>set (lg_jobs c). permitted j (lg_call c) \<and> tombstoned (lg_db c) (job_key j)"
  using reachable_inv [OF assms(2,1)] assms(3,4) by (auto simp: worker_inv_def accounted_def)

lemma deletions_accounted_witness:
  "\<exists>c\<in>set (co_log sample_done). lg_call c = Unlink \<lparr>px_root = ''/'', px_parts = [''m'', ''movies'', ''a.srt'']\<rparr> \<and>
     (\<exists>j\<in>set (lg_jobs c). permitted j (lg_call c) \<and> tombstoned (lg_db c) (job_key j))"
proof -
  obtain c where c: "c \<in> set (co_log sample_done)"
      "lg_call c = Unlink \<lparr>px_root = ''/'', px_parts = [''m'', ''movies'', ''a.srt'']\<rparr>"
    using movie_run by blast
  then have "\<not> is_read (lg_call c)" by (simp add: is_read_def)
  from deletions_accounted [OF sample_monotone sample_done_reachable c(1) this] c show ?thesis by blast
qed

text \<open>
  C15 (rounds_follow_pipeline): a round of the deletion worker refines the pipeline of stages:
  it touches the job \<open>next_queued\<close> gives and no other, keeps its capture, moves it forward
  along the pipeline only, and reports what it left: \<open>complete\<close> for a job that is complete,
  \<open>blocked\<close> for one stopped for review with a reason, \<open>retry\<close> for one in the stage it reached
  with the error noted; an unforeseen exception passes through with the stages reached kept.
  No loop of the round runs forever.
\<close>

theorem rounds_follow_pipeline:
  assumes "env_monotone env" and "worker_reachable env cf s"
    and "next_queued (co_jobs s) = Some job" and "run_once env cf s = (r, s')"
  shows "\<exists>j. find_job (dj_item_id job) (co_jobs s') = Some j \<and> same_capture job j \<and>
             others_kept (dj_item_id job) (co_jobs s) (co_jobs s') \<and> reported job j r"
  using run_once_round [OF assms(1) reachable_inv [OF assms(2,1)] assms(3,4)]
  by (auto simp: at_job_def same_capture_def)

lemma rounds_follow_pipeline_witness:
  "\<exists>j. find_job ''i'' (co_jobs sample_done) = Some j \<and> reported (sample_row Queued 0) j (Inr ''complete'')"
proof -
  have "next_queued (co_jobs sample_worker) = Some (sample_row Queued 0)"
    by (simp add: sample_enqueued next_queued_def sample_row_def)
  from rounds_follow_pipeline [OF sample_monotone sample_worker_reachable this] movie_run
  show ?thesis by (auto simp: sample_types)
qed

section \<open>Listings\<close>

definition rows_sound :: "(string \<times> json) list list \<Rightarrow> bool" where
  "rows_sound rows = (distinct (map (\<lambda>r. pint r ''id'') rows) \<and> list_all (\<lambda>r. 0 < pint r ''id'') rows)"

lemma seerr_row_sound:
  assumes "seerr_row resource (map (\<lambda>r. pint r ''id'') rows) row = Inr r" and "rows_sound rows"
  shows "rows_sound (rows @ [r])"
proof -
  from assms(1) have "positive_int (jget r ''id'')" and "pint r ''id'' \<notin> set (map (\<lambda>r. pint r ''id'') rows)"
    by (auto simp: seerr_row_def Let_def split: if_splits option.splits)
  then have "0 < pint r ''id''" by (auto simp: positive_int_def pint_def split: option.splits)
  with assms(2) \<open>pint r ''id'' \<notin> set (map (\<lambda>r. pint r ''id'') rows)\<close> show ?thesis
    by (simp add: rows_sound_def)
qed

lemma seerr_batch_sound: "seerr_batch resource rows batch = Inr rows' \<Longrightarrow> rows_sound rows \<Longrightarrow> rows_sound rows'"
  by (induction batch arbitrary: rows) (auto simp: ebind_Inr dest: seerr_row_sound)

lemma seerr_page_sound:
  "seerr_page env cf resource known rows s = (Inr (n, rows'), s') \<Longrightarrow> rows_sound rows \<Longrightarrow> rows_sound rows'"
  unfolding seerr_page_def Let_def act_simps
  by (auto simp: act_simps blocked_def simp del: append.simps split: if_splits dest: seerr_batch_sound)

lemma seerr_more_sound:
  "seerr_more fuel env cf resource n rows s = (Inr rows', s') \<Longrightarrow> rows_sound rows \<Longrightarrow> rows_sound rows'"
proof (induction fuel arbitrary: rows s)
  case 0
  then show ?case by (subst (asm) seerr_more.simps) (auto simp: act_simps split: if_splits)
next
  case (Suc fuel)
  show ?case
  proof (cases "int (length rows) = n")
    case True
    with Suc.prems show ?thesis by (subst (asm) seerr_more.simps) (simp add: act_simps)
  next
    case False
    with Suc.prems(1) obtain m rows1 s1 where page: "seerr_page env cf resource (Some n) rows s = (Inr (m, rows1), s1)"
        and more: "seerr_more fuel env cf resource n rows1 s1 = (Inr rows', s')"
      by (subst (asm) seerr_more.simps) (auto simp: act_simps)
    from seerr_page_sound [OF page Suc.prems(2)] have "rows_sound rows1" .
    with Suc.IH [OF more] show ?thesis .
  qed
qed

lemma seerr_rows_sound: "seerr_rows env cf resource s = (Inr rows, s') \<Longrightarrow> rows_sound rows"
  by (auto simp: seerr_rows_def act_simps rows_sound_def [of "[]"]
      dest!: seerr_page_sound seerr_more_sound)

text \<open>
  C36 (seerr_listing_complete): \<open>_seerr_rows\<close> returns or raises after finitely many pages,
  whatever Seerr answers, and a listing it returns has positive identifiers, no two the same.
\<close>

theorem seerr_listing_complete:
  "fst (seerr_rows env cf resource s) \<noteq> Inl OutOfFuel \<and>
   (case fst (seerr_rows env cf resource s) of
      Inl e \<Rightarrow> True
    | Inr rows \<Rightarrow> distinct (map (\<lambda>r. pint r ''id'') rows) \<and> list_all (\<lambda>r. 0 < pint r ''id'') rows)"
proof -
  have "allowed env (co_jobs s) (\<lambda>_. True) (\<lambda>_. True) {}" by (simp add: allowed_def env_keeps_def)
  from keepsD [OF keeps_seerr_rows [OF this], of "co_log s" s]
  have "fuel_free (fst (seerr_rows env cf resource s))" by (auto simp: since_def) (metis prod.collapse)
  moreover obtain r s' where "seerr_rows env cf resource s = (r, s')" by (cases "seerr_rows env cf resource s")
  ultimately show ?thesis
    by (auto simp: fuel_free_def rows_sound_def [symmetric] split: sum.splits dest: seerr_rows_sound)
qed

section \<open>Captures\<close>

text \<open>The shape of a capture the coordinator works on: every number it goes on to use is an \<open>int\<close>.\<close>

definition typed_capture :: "deletion_job \<Rightarrow> (string \<times> json) list \<Rightarrow> bool" where
  "typed_capture job p =
     (dj_payload job = JObj p \<and>
      list_all (\<lambda>k. natural_int (jget (pobj p ''file_identity'') k)) identity_keys \<and>
      (dj_item_type job = ''Movie'' \<and>
         list_all (\<lambda>k. positive_int (jget p k)) [''radarr_id'', ''radarr_file_id'', ''tmdb_id''] \<and>
         movie_number (pstr p ''media_key'') \<noteq> None \<and>
         pint p ''tmdb_id'' = int (to_nat (the (movie_number (pstr p ''media_key'')))) \<or>
       dj_item_type job = ''Episode'' \<and>
         list_all (\<lambda>k. positive_int (jget p k)) [''sonarr_series_id'', ''sonarr_episode_id'', ''sonarr_episode_file_id''] \<and>
         episode_numbers (pstr p ''media_key'') \<noteq> None))"

lemma py_eq_int: "py_eq (JInt a) (JInt b) \<longleftrightarrow> a = b"
  by (simp add: py_eq_def)

text \<open>
  C37 (captures_typed): a payload that passes \<open>_payload\<close> is the JSON object of a movie or an
  episode whose service identifiers are positive \<open>int\<close>s, whose file identity is four natural
  numbers, and whose media key is well formed; for a movie it names the very TMDB number
  that Radarr and Seerr are asked about.
\<close>

theorem captures_typed:
  assumes "captured_payload job = Inr p"
  shows "typed_capture job p"
proof -
  obtain i where p: "dj_payload job = JObj p"
      and kind: "dj_item_type job = ''Movie'' \<or> dj_item_type job = ''Episode''"
      and identity: "as_obj (jget p ''file_identity'') = Some i"
        "list_all (\<lambda>k. natural_int (jget i k)) identity_keys"
    using assms
    by (auto simp: captured_payload_def err_simps as_obj_Some list_ex_iff list_all_iff
        split: option.splits if_splits)
  obtain ids where ids: "item_identity job p = Inr ids" "list_all (\<lambda>k. positive_int (jget p k)) ids"
    using assms p kind
    by (auto simp: captured_payload_def err_simps list_ex_iff list_all_iff split: option.splits if_splits)
  have "list_all (\<lambda>k. natural_int (jget (pobj p ''file_identity'') k)) identity_keys"
    using identity by (simp add: pobj_def)
  moreover have "list_all (\<lambda>k. positive_int (jget p k)) [''radarr_id'', ''radarr_file_id'', ''tmdb_id''] \<and>
      movie_number (pstr p ''media_key'') \<noteq> None \<and>
      pint p ''tmdb_id'' = int (to_nat (the (movie_number (pstr p ''media_key''))))"
    if movie: "dj_item_type job = ''Movie''"
  proof -
    obtain key n where key: "as_str (jget p ''media_key'') = Some key" "movie_number key = Some n"
        and tmdb: "py_eq (jget p ''tmdb_id'') (JInt (int (to_nat n)))"
        and shape: "ids = [''radarr_id'', ''radarr_file_id'', ''tmdb_id'']"
      using ids(1) movie
      by (auto simp: item_identity_def int_of_digits_def err_simps bind_eq_Some_conv
          split: option.splits if_splits)
    from ids(2) shape obtain t where "jget p ''tmdb_id'' = JInt t"
      by (auto simp: positive_int_def as_int_Some split: option.splits)
    with ids(2) shape key tmdb show ?thesis by (simp add: pstr_def pint_def py_eq_int)
  qed
  moreover have "list_all (\<lambda>k. positive_int (jget p k))
      [''sonarr_series_id'', ''sonarr_episode_id'', ''sonarr_episode_file_id''] \<and>
      episode_numbers (pstr p ''media_key'') \<noteq> None"
    if episode: "dj_item_type job = ''Episode''"
  proof -
    have "ids = [''sonarr_series_id'', ''sonarr_episode_id'', ''sonarr_episode_file_id''] \<and>
        (\<exists>key n. as_str (jget p ''media_key'') = Some key \<and> episode_numbers key = Some n)"
      using ids(1) episode
      by (auto simp: item_identity_def int_of_digits_def err_simps bind_eq_Some_conv
          split: option.splits if_splits)
    with ids(2) show ?thesis by (auto simp: pstr_def)
  qed
  ultimately show ?thesis using p kind by (auto simp: typed_capture_def)
qed

lemma captures_typed_witness: "typed_capture (sample_row Queued 0) sample_payload"
  by (rule captures_typed) (rule sample_captured)

end
