(* ===== verification/ReleaseQuality.thy ===== *)
theory ReleaseQuality
  imports Json MediaKeys
begin

text \<open>
  \<open>worker/release_quality.py\<close>: the rank of a release under an operator's policy, from the
  metadata Radarr and Sonarr give (decoded JSON).  Floats of a policy are exact rationals;
  letter case and white space are those of ASCII.  \<open>ReleasePolicy.from_environment\<close>, which
  parses the configuration, is left out.
\<close>

section \<open>Text\<close>

text \<open>
  \<open>(?<![a-z0-9])...(?![a-z0-9])\<close> ignoring case, searched: \<open>m\<close> gives what may follow the word at
  the start of a text in lower case.
\<close>

fun word_search :: "(string \<Rightarrow> string list) \<Rightarrow> bool \<Rightarrow> string \<Rightarrow> bool" where
  "word_search m boundary [] = (boundary \<and> list_ex (\<lambda>r. r = [] \<or> \<not> is_alnum (hd r)) (m []))"
| "word_search m boundary (c # s) =
     (boundary \<and> list_ex (\<lambda>r. r = [] \<or> \<not> is_alnum (hd r)) (m (c # s)) \<or>
      word_search m (\<not> is_alnum c) s)"

definition has_word :: "(string \<Rightarrow> string list) \<Rightarrow> string \<Rightarrow> bool" where
  "has_word m s = word_search m True (lower s)"

definition after_words :: "string list \<Rightarrow> string \<Rightarrow> string list" where
  "after_words ws s = List.map_filter (\<lambda>w. strip_prefix w s) ws"

text \<open>\<open>dv|dovi|dolby[ ._-]*vision\<close> and \<open>atmos\<close>\<close>

definition after_dolby_vision :: "string \<Rightarrow> string list" where
  "after_dolby_vision s =
     after_words [''dv'', ''dovi''] s @
     (case strip_prefix ''dolby'' s of
        None \<Rightarrow> [] | Some r \<Rightarrow> after_words [''vision''] (dropWhile (\<lambda>c. c \<in> set '' ._-'') r))"

definition dolby_vision :: "string \<Rightarrow> bool" where
  "dolby_vision s = has_word after_dolby_vision s"

definition atmos :: "string \<Rightarrow> bool" where
  "atmos s = has_word (after_words [''atmos'']) s"

section \<open>Languages\<close>

definition language_aliases :: "(string \<times> string) list" where
  "language_aliases =
     [(''english'', ''en''), (''eng'', ''en''), (''portuguese'', ''pt''), (''por'', ''pt''),
      (''brazilian portuguese'', ''pt-br''), (''portuguese (brazil)'', ''pt-br''), (''pob'', ''pt-br''),
      (''french'', ''fr''), (''fra'', ''fr''), (''fre'', ''fr''), (''spanish'', ''es''), (''spa'', ''es''),
      (''german'', ''de''), (''deu'', ''de''), (''ger'', ''de''), (''italian'', ''it''), (''ita'', ''it''),
      (''japanese'', ''ja''), (''jpn'', ''ja''), (''chinese'', ''zh''), (''zho'', ''zh''), (''chi'', ''zh''),
      (''korean'', ''ko''), (''kor'', ''ko''), (''russian'', ''ru''), (''rus'', ''ru'')]"

definition is_lower :: "char \<Rightarrow> bool" where
  "is_lower c = (97 \<le> code c \<and> code c \<le> 122)"

text \<open>\<open>[a-z]{2,3}(?:-[a-z0-9]{2,8})*\<close>\<close>

definition language_tag :: "string \<Rightarrow> bool" where
  "language_tag s =
     (case split_on CHR ''-'' s of
        [] \<Rightarrow> False
      | w # ws \<Rightarrow>
          (length w = 2 \<or> length w = 3) \<and> list_all is_lower w \<and>
          list_all (\<lambda>v. 2 \<le> length v \<and> length v \<le> 8 \<and> list_all (\<lambda>c. is_lower c \<or> is_digit c) v) ws)"

definition language_keys :: "string list" where
  "language_keys = [''code'', ''isoCode'', ''iso6391'', ''iso6392'', ''languageCode'', ''name'']"

definition declared_text :: "string \<Rightarrow> string option" where
  "declared_text s =
     (let n = map (\<lambda>c. if c = CHR ''_'' then CHR ''-'' else c) (lower (strip s));
          t = get_or language_aliases n n
      in if t = ''und'' \<or> \<not> language_tag t then None else Some t)"

fun first_of :: "('a \<Rightarrow> 'b option) \<Rightarrow> 'a list \<Rightarrow> 'b option" where
  "first_of f [] = None"
| "first_of f (x # xs) = (case f x of None \<Rightarrow> first_of f xs | Some y \<Rightarrow> Some y)"

lemma first_of_cong [fundef_cong]:
  "xs = ys \<Longrightarrow> (\<And>x. x \<in> set ys \<Longrightarrow> f x = g x) \<Longrightarrow> first_of f xs = first_of g ys"
  by (induction ys arbitrary: xs) (auto split: option.split)

text \<open>\<open>_declared_language\<close>: the keys of an object are read in the order of \<open>language_keys\<close>.\<close>

function declared_language :: "json \<Rightarrow> string option" where
  "declared_language (JObj d) =
     first_of (\<lambda>k. case map_of d k of None \<Rightarrow> None | Some v \<Rightarrow> declared_language v) language_keys"
| "declared_language (JStr s) = declared_text s"
| "declared_language JNull = None"
| "declared_language (JBool b) = None"
| "declared_language (JInt n) = None"
| "declared_language (JFloat x) = None"
| "declared_language (JList xs) = None"
  by pat_completeness auto

lemma size_map_of: "map_of d k = Some v \<Longrightarrow> size v < Suc (size_list (size_prod (\<lambda>_. 0) size) d)"
  by (induction d) (auto split: if_splits)

termination declared_language
proof (relation "measure size", simp)
  fix d :: "(string \<times> json) list" and k v
  assume "map_of d k = Some v"
  then show "(v, JObj d) \<in> measure size" using size_map_of by fastforce
qed

definition audio_wanted :: "json \<Rightarrow> string \<Rightarrow> string option" where
  "audio_wanted original p =
     (if lower (strip p) = ''original'' then declared_language original else declared_language (JStr p))"

definition speaks :: "string list \<Rightarrow> string \<Rightarrow> bool" where
  "speaks languages wanted =
     list_ex (\<lambda>l. l = wanted \<or> CHR ''-'' \<notin> set wanted \<and> starts_with (wanted @ ''-'') l) languages"

fun audio_rank :: "string list \<Rightarrow> json \<Rightarrow> string list \<Rightarrow> nat" where
  "audio_rank languages original [] = 0"
| "audio_rank languages original (p # ps) =
     (case audio_wanted original p of
        None \<Rightarrow> audio_rank languages original ps
      | Some w \<Rightarrow> if speaks languages w then Suc (length ps) else audio_rank languages original ps)"

text \<open>\<open>_audio_preference\<close>: the earlier the preference, the higher.\<close>

definition audio_preference :: "(string \<times> json) list \<Rightarrow> string list \<Rightarrow> json \<Rightarrow> nat" where
  "audio_preference release preferences original =
     (case as_list (jget release ''languages'') of
        None \<Rightarrow> 0
      | Some declared \<Rightarrow> audio_rank (List.map_filter declared_language declared) original preferences)"

section \<open>Releases\<close>

definition release_seeders :: "(string \<times> json) list \<Rightarrow> int option" where
  "release_seeders release =
     (case as_int (jget release ''seeders'') of
        None \<Rightarrow> None | Some n \<Rightarrow> if 0 \<le> n then Some n else None)"

text \<open>The indexer name without its suffix \<open>\s*\(prowlarr\)\s*\<close>.\<close>

definition indexer_name :: "string \<Rightarrow> string" where
  "indexer_name s =
     (let n = lower (strip s)
      in if ends_with ''(prowlarr)'' n then strip_right (take (length n - 10) n) else n)"

definition release_indexer :: "(string \<times> json) list \<Rightarrow> string option" where
  "release_indexer release =
     (case as_str (jget release ''indexer'') of
        None \<Rightarrow> None
      | Some s \<Rightarrow>
          if indexer_name s \<in> set [''uindex'', ''uindex.org'', ''www.uindex.org''] then Some ''uindex''
          else if indexer_name s \<in> set [''1337x'', ''1337x.to'', ''www.1337x.to''] then Some ''1337x''
          else None)"

record release_policy =
  qp_resolutions :: "int list"
  qp_sources :: "string list"
  qp_dolby_vision :: bool
  qp_atmos :: bool
  qp_upgrades :: bool
  qp_audio :: "string list"
  qp_floors :: "(int \<times> pyfloat) list"
  qp_indexers :: "string list"
  qp_fallback_seeders :: int

definition default_release_policy :: release_policy where
  "default_release_policy =
     \<lparr>qp_resolutions = [2160, 1080], qp_sources = [''remux'', ''bluray'', ''webdl''], qp_dolby_vision = True,
      qp_atmos = True, qp_upgrades = False, qp_audio = [''original''],
      qp_floors = [(720, Fin 10), (1080, Fin 20), (2160, Fin 50)],
      qp_indexers = [''uindex'', ''1337x''], qp_fallback_seeders = 20\<rparr>"

text \<open>\<open>release["quality"]["quality"]\<close> when both are objects.\<close>

definition quality_detail :: "(string \<times> json) list \<Rightarrow> (string \<times> json) list option" where
  "quality_detail release =
     (case as_obj (jget release ''quality'') of None \<Rightarrow> None | Some q \<Rightarrow> as_obj (jget q ''quality''))"

definition name_is_webdl :: "(string \<times> json) list \<Rightarrow> bool" where
  "name_is_webdl detail =
     (case as_str (jget detail ''name'') of None \<Rightarrow> False | Some n \<Rightarrow> starts_with ''webdl'' (lower n))"

definition source_family :: "(string \<times> json) list \<Rightarrow> string option" where
  "source_family detail =
     (let source = jget detail ''source''; modifier = get_or detail ''modifier'' (JStr ''none'')
      in if source = JStr ''blurayRaw'' \<or> source = JStr ''bluray'' \<and> modifier = JStr ''remux'' then Some ''remux''
         else if source = JStr ''bluray'' \<and> modifier = JStr ''none'' then Some ''bluray''
         else if modifier = JStr ''none'' \<and>
                 (source = JStr ''webdl'' \<or> source = JStr ''web'' \<and> name_is_webdl detail) then Some ''webdl''
         else None)"

text \<open>\<open>len(sources) - sources.index(family)\<close>\<close>

fun source_tier :: "string list \<Rightarrow> string \<Rightarrow> nat option" where
  "source_tier [] family = None"
| "source_tier (s # ss) family = (if s = family then Some (Suc (length ss)) else source_tier ss family)"

definition title_text :: "(string \<times> json) list \<Rightarrow> string" where
  "title_text release = (case as_str (jget release ''title'') of None \<Rightarrow> [] | Some t \<Rightarrow> t)"

definition release_resolution :: "release_policy \<Rightarrow> (string \<times> json) list \<Rightarrow> int option" where
  "release_resolution policy detail =
     (case as_int_or_bool (jget detail ''resolution'') of
        None \<Rightarrow> None | Some n \<Rightarrow> if n \<in> set (qp_resolutions policy) then Some n else None)"

text \<open>\<open>release_rank\<close>: a key compared from the left, \<open>None\<close> for a forbidden source.\<close>

definition release_rank :: "(string \<times> json) list \<Rightarrow> release_policy \<Rightarrow> json \<Rightarrow> int list option" where
  "release_rank release policy original =
     (case quality_detail release of
        None \<Rightarrow> None
      | Some detail \<Rightarrow>
          (case (release_resolution policy detail, Option.bind (source_family detail) (source_tier (qp_sources policy))) of
             (Some resolution, Some tier) \<Rightarrow>
               Some [resolution, int (audio_preference release (qp_audio policy) original),
                     (case release_seeders release of None \<Rightarrow> -1 | Some n \<Rightarrow> n), int tier,
                     of_bool (qp_dolby_vision policy \<and> dolby_vision (title_text release)),
                     of_bool (qp_atmos policy \<and> atmos (title_text release)),
                     (case as_int_or_bool (jget release ''size'') of
                        None \<Rightarrow> 0 | Some n \<Rightarrow> if 0 < n then n else 0)]
           | _ \<Rightarrow> None))"

section \<open>Size floors\<close>

fun positive_minutes :: "json \<Rightarrow> rat option" where
  "positive_minutes (JInt n) = (if 0 < n then Some (of_int n) else None)"
| "positive_minutes (JFloat (Fin r)) = (if 0 < r then Some r else None)"
| "positive_minutes _ = None"

definition media_runtime_minutes :: "json list \<Rightarrow> rat option" where
  "media_runtime_minutes values = first_of positive_minutes values"

text \<open>\<open>dict(pairs).get(key)\<close>: the last pair counts.\<close>

definition dict_get :: "('a \<times> 'b) list \<Rightarrow> 'a \<Rightarrow> 'b option" where
  "dict_get ps k = map_of (rev ps) k"

definition accepts_size :: "release_policy \<Rightarrow> (string \<times> json) list \<Rightarrow> json \<Rightarrow> json \<Rightarrow> bool" where
  "accepts_size policy release video_bytes runtime =
     (case (release_rank release policy JNull, as_int video_bytes,
            Option.bind (quality_detail release) (\<lambda>d. as_int_or_bool (jget d ''resolution''))) of
        (Some rank, Some bytes, Some resolution) \<Rightarrow>
          0 < bytes \<and>
          (case dict_get (qp_floors policy) resolution of
             Some (Fin lowest) \<Rightarrow>
               0 \<le> lowest \<and>
               (lowest = 0 \<or>
                (case media_runtime_minutes [runtime] of
                   None \<Rightarrow> False | Some minutes \<Rightarrow> lowest * minutes * 1048576 \<le> of_int bytes))
           | _ \<Rightarrow> False)
      | _ \<Rightarrow> False)"

end
