(* ===== verification/SubtitleLanguage.thy ===== *)
theory SubtitleLanguage
  imports MediaKeys Complex_Main
begin

text \<open>
  \<open>worker/subtitle_language.py\<close>, the labels of subtitle files: which external subtitle a
  policy accepts from the name of the file.  \<open>ascii_fold\<close> is NFKD normalisation followed by
  dropping what is not ASCII, which is the identity on ASCII text; it is an argument.  The
  checks on probed media streams are in \<open>Subtitles\<close>.
\<close>

definition posix_stem :: "string \<Rightarrow> string" where
  "posix_stem path = take (length (posix_name path) - length (posix_suffix path)) (posix_name path)"

text \<open>\<open>_tokens\<close>: the runs of \<open>[a-z0-9]\<close>.\<close>

definition tokens :: "(string \<Rightarrow> string) \<Rightarrow> string \<Rightarrow> string list" where
  "tokens ascii_fold value =
     filter (\<lambda>w. w \<noteq> [])
       (split_on CHR '' '' (map (\<lambda>c. if is_alnum c then c else CHR '' '') (lower (ascii_fold value))))"

fun adjacent :: "(string \<Rightarrow> string \<Rightarrow> bool) \<Rightarrow> string list \<Rightarrow> bool" where
  "adjacent P (a # b # ws) = (P a b \<or> adjacent P (b # ws))"
| "adjacent P _ = False"

definition brazilian_subtitle :: "(string \<Rightarrow> string) \<Rightarrow> string \<Rightarrow> bool" where
  "brazilian_subtitle ascii_fold path =
     (let ws = tokens ascii_fold (posix_stem path)
      in ws \<noteq> [] \<and> ''portugal'' \<notin> set ws \<and> ''european'' \<notin> set ws \<and>
         \<not> adjacent (\<lambda>a b. a = ''pt'' \<and> b = ''pt'') ws \<and>
         (list_ex (\<lambda>w. w \<in> set [''ptbr'', ''pob'', ''brazilian'', ''brasileiro'', ''brasileira'']) ws \<or>
          adjacent (\<lambda>a b. a \<in> set [''pt'', ''por'', ''portuguese'', ''portugues''] \<and>
                          b \<in> set [''br'', ''brazil'', ''brasil'']) ws))"

definition trailing_flags :: "string list" where
  "trailing_flags = [''cc'', ''default'', ''forced'', ''hi'', ''sdh'']"

definition regions :: "string list" where
  "regions = [''au'', ''ca'', ''gb'', ''uk'', ''us'']"

text \<open>The tokens from the last to the first, without the flags at the end.\<close>

definition label_tokens :: "(string \<Rightarrow> string) \<Rightarrow> string \<Rightarrow> string list" where
  "label_tokens ascii_fold path =
     dropWhile (\<lambda>w. w \<in> set trailing_flags) (rev (tokens ascii_fold (posix_stem path)))"

definition english_subtitle :: "(string \<Rightarrow> string) \<Rightarrow> string \<Rightarrow> bool" where
  "english_subtitle ascii_fold path =
     (\<not> brazilian_subtitle ascii_fold path \<and>
      (case label_tokens ascii_fold path of
         [] \<Rightarrow> False
       | [w] \<Rightarrow> w \<in> set [''en'', ''eng'', ''english'']
       | w # v # ws \<Rightarrow>
           if w \<in> set regions then v \<in> set [''en'', ''eng'']
           else w \<in> set [''en'', ''eng'', ''english'']))"

record subtitle_policy =
  sp_languages :: "string list"
  sp_match_modes :: "string list"
  sp_skip_audio :: "string list"
  sp_generic_english :: bool
  sp_credits_margin :: rat
  sp_providers :: "string list"

definition default_subtitle_policy :: subtitle_policy where
  "default_subtitle_policy =
     \<lparr>sp_languages = [''pt-BR'', ''en-US''], sp_match_modes = [''release'', ''compatible_edition''],
      sp_skip_audio = [''pt-BR''], sp_generic_english = True, sp_credits_margin = 600,
      sp_providers = [''bazarr'', ''subdl'']\<rparr>"

text \<open>\<open>SubtitlePolicy.matches\<close>\<close>

definition subtitle_matches :: "(string \<Rightarrow> string) \<Rightarrow> subtitle_policy \<Rightarrow> string \<Rightarrow> bool" where
  "subtitle_matches ascii_fold policy path =
     (if ''pt-BR'' \<in> set (sp_languages policy) \<and> brazilian_subtitle ascii_fold path then True
      else if ''en-US'' \<notin> set (sp_languages policy) \<or> \<not> english_subtitle ascii_fold path then False
      else
        (case label_tokens ascii_fold path of
           w # v # ws \<Rightarrow> if w \<in> set regions then w = ''us'' else sp_generic_english policy
         | _ \<Rightarrow> sp_generic_english policy))"

definition select_sidecars :: "(string \<Rightarrow> string) \<Rightarrow> subtitle_policy \<Rightarrow> string list \<Rightarrow> string list" where
  "select_sidecars ascii_fold policy files = filter (subtitle_matches ascii_fold policy) files"

end
