(* ===== verification/PackInspection.thy ===== *)
theory PackInspection
  imports TorrentBytes ReleaseQuality SubtitleLanguage
begin

text \<open>
  \<open>worker/season_packs.py\<close>: the inspection of a season pack, which binds every episode of the
  season to its files, or refuses the torrent.  \<open>worker/acquisition.py\<close> gives the suffixes and
  the test for sample videos.
\<close>

definition pack_video_suffixes :: "string list" where
  "pack_video_suffixes = [''.mkv'', ''.mp4'', ''.m4v'', ''.avi'', ''.mov'']"

definition subtitle_suffixes :: "string list" where
  "subtitle_suffixes = [''.srt'', ''.ass'', ''.ssa'', ''.vtt'']"

text \<open>\<open>(?:^|[._ -])sample$\<close>, where \<open>$\<close> also matches before a final newline.\<close>

definition ends_in_sample :: "string \<Rightarrow> bool" where
  "ends_in_sample t = (t = ''sample'' \<or> list_ex (\<lambda>c. ends_with (c # ''sample'') t) ''._ -'')"

definition sample_stem :: "string \<Rightarrow> bool" where
  "sample_stem t = (ends_in_sample t \<or> t \<noteq> [] \<and> code (last t) = 10 \<and> ends_in_sample (butlast t))"

definition posix_path_parts :: "string \<Rightarrow> string list" where
  "posix_path_parts path = filter (\<lambda>w. w \<noteq> [] \<and> w \<noteq> ''.'') (split_on CHR ''/'' path)"

text \<open>\<open>_is_sample_video\<close>\<close>

definition is_sample_video :: "string \<Rightarrow> bool" where
  "is_sample_video path =
     (list_ex (\<lambda>w. lower w = ''sample'') (butlast (posix_path_parts path)) \<or>
      sample_stem (lower (posix_stem path)))"

section \<open>Episode numbers\<close>

text \<open>
  \<open>(?<![a-z0-9])s([0-9]{1,3})e([0-9]{1,3})(?![0-9]|e[0-9]|[ ._-]*[-e][0-9])\<close> at the start of a
  text in lower case, with its groups.
\<close>

definition episode_tag_at :: "string \<Rightarrow> (string \<times> string) list" where
  "episode_tag_at t =
     (case strip_prefix ''s'' t of
        None \<Rightarrow> []
      | Some r \<Rightarrow>
          (case strip_prefix ''e'' (dropWhile is_digit r) of
             None \<Rightarrow> []
           | Some r2 \<Rightarrow>
               let a = takeWhile is_digit r; b = takeWhile is_digit r2 in
               if 1 \<le> length a \<and> length a \<le> 3 \<and> 1 \<le> length b \<and> length b \<le> 3 \<and>
                  tag_ends (dropWhile is_digit r2)
               then [(a, b)] else []))"

fun episode_tags :: "bool \<Rightarrow> string \<Rightarrow> (string \<times> string) list" where
  "episode_tags boundary [] = []"
| "episode_tags boundary (c # s) =
     (if boundary then episode_tag_at (c # s) else []) @ episode_tags (\<not> is_alnum c) s"

text \<open>\<open>_episode_number\<close>\<close>

definition episode_number :: "string \<Rightarrow> nat \<Rightarrow> nat option" where
  "episode_number path season =
     (case episode_tags True (lower (posix_name path)) of
        [(a, b)] \<Rightarrow> if to_nat a = season \<and> 0 < to_nat b then Some (to_nat b) else None
      | _ \<Rightarrow> None)"

text \<open>The words of \<open>_RESOLUTION\<close> in a path.\<close>

definition resolution_words :: "string list" where
  "resolution_words = [''480p'', ''576p'', ''720p'', ''1080p'', ''2160p'', ''4k'']"

definition resolution_at :: "string \<Rightarrow> string list" where
  "resolution_at t =
     filter (\<lambda>w. case strip_prefix w t of None \<Rightarrow> False | Some r \<Rightarrow> r = [] \<or> \<not> is_alnum (hd r)) resolution_words"

fun resolutions_in :: "bool \<Rightarrow> string \<Rightarrow> string list" where
  "resolutions_in boundary [] = []"
| "resolutions_in boundary (c # s) =
     (if boundary then resolution_at (c # s) else []) @ resolutions_in (\<not> is_alnum c) s"

definition other_resolution :: "string \<Rightarrow> bool" where
  "other_resolution path = list_ex (\<lambda>w. w \<noteq> ''1080p'') (resolutions_in True (lower path))"

definition names_remux :: "string \<Rightarrow> bool" where
  "names_remux title = has_word (after_words [''remux'']) title"

section \<open>Inspection\<close>

record season_pack_manifest =
  sm_infohash :: string
  sm_sha256 :: string
  sm_files :: "string list"
  sm_budget :: int
  sm_episodes :: "(string \<times> string list) list"

text \<open>The release as it is ranked: any web source counts as WEB-DL, any Blu-ray as disc or remux.\<close>

definition normalized_quality :: "(string \<times> json) list \<Rightarrow> (string \<times> json) list \<Rightarrow> (string \<times> json) list" where
  "normalized_quality release detail =
     (let source = jget detail ''source'' in
      if source = JStr ''web''
      then AList.update ''modifier'' (JStr ''none'') (AList.update ''source'' (JStr ''webdl'') detail)
      else if source = JStr ''bluray'' \<or> source = JStr ''blurayRaw''
      then AList.update ''modifier''
             (JStr (if source = JStr ''blurayRaw'' \<or> names_remux (title_text release) then ''remux'' else ''none''))
             (AList.update ''source'' (JStr ''bluray'') detail)
      else detail)"

definition normalized_release :: "(string \<times> json) list \<Rightarrow> (string \<times> json) list option" where
  "normalized_release release =
     (case quality_detail release of
        None \<Rightarrow> None
      | Some detail \<Rightarrow>
          if jget detail ''resolution'' = JInt 1080
          then Some (AList.update ''quality''
                       (JObj [(''quality'', JObj (normalized_quality release detail))]) release)
          else None)"

definition suffix_in :: "string list \<Rightarrow> string \<Rightarrow> bool" where
  "suffix_in exts path = (lower (posix_suffix path) \<in> set exts)"

text \<open>The loop over the files: the video of each episode, in the order of the torrent.\<close>

fun pack_videos ::
    "release_policy \<Rightarrow> (string \<times> json) list \<Rightarrow> nat \<Rightarrow> (nat \<times> json) list \<Rightarrow> (nat \<times> manifest_file) list \<Rightarrow>
     manifest_file list \<Rightarrow> (nat \<times> manifest_file) list option" where
  "pack_videos policy release season runtimes videos [] = Some videos"
| "pack_videos policy release season runtimes videos (f # fs) =
     (if \<not> suffix_in pack_video_suffixes (file_path f) \<or> is_sample_video (file_path f)
      then pack_videos policy release season runtimes videos fs
      else
        (case episode_number (file_path f) season of
           None \<Rightarrow> None
         | Some n \<Rightarrow>
             (case map_of runtimes n of
                None \<Rightarrow> None
              | Some runtime \<Rightarrow>
                  if map_of videos n \<noteq> None \<or> other_resolution (file_path f) \<or>
                     \<not> accepts_size policy release (JInt (file_length f)) runtime
                  then None
                  else pack_videos policy release season runtimes (videos @ [(n, f)]) fs)))"

definition pack_subtitles ::
    "(string \<Rightarrow> string) \<Rightarrow> subtitle_policy \<Rightarrow> nat \<Rightarrow> manifest_file list \<Rightarrow> nat \<Rightarrow> string list" where
  "pack_subtitles ascii_fold subtitles season files n =
     filter (\<lambda>path. suffix_in subtitle_suffixes path \<and> episode_number path season = Some n \<and>
                    subtitle_matches ascii_fold subtitles path) (map file_path files)"

definition scope_of :: "nat \<Rightarrow> nat \<Rightarrow> string" where
  "scope_of season n = ''S'' @ show02 season @ ''E'' @ show02 n"

fun pack_bindings ::
    "bool \<Rightarrow> nat \<Rightarrow> (nat \<Rightarrow> string list) \<Rightarrow> (nat \<times> manifest_file) list \<Rightarrow> (string \<times> string list) list option" where
  "pack_bindings external season matching [] = Some []"
| "pack_bindings external season matching ((n, f) # videos) =
     (if matching n = [] \<and> \<not> external then None
      else map_option (\<lambda>rest. (scope_of season n, file_path f # matching n) # rest)
             (pack_bindings external season matching videos))"

text \<open>
  \<open>inspect_season_pack\<close>.  The numbers of the episodes are the keys of a dictionary of \<open>int\<close>s;
  the policy is the given one, or the default with 1080 lines.
\<close>

definition inspect_season_pack ::
    "(string \<Rightarrow> string) \<Rightarrow> (string \<Rightarrow> string) \<Rightarrow> (string \<Rightarrow> string) \<Rightarrow> string \<Rightarrow> int \<Rightarrow> (int \<times> json) list \<Rightarrow>
     (string \<times> json) list \<Rightarrow> release_policy option \<Rightarrow> bool \<Rightarrow> subtitle_policy option \<Rightarrow>
     season_pack_manifest option" where
  "inspect_season_pack sha1 sha256 ascii_fold torrent season runtimes release policy external subtitles =
     (if season \<le> 0 \<or> runtimes = [] \<or> list_ex (\<lambda>(n, r). n \<le> 0) runtimes then None
      else
        (case normalized_release release of
           None \<Rightarrow> None
         | Some normal \<Rightarrow>
             let pol = (case policy of Some q \<Rightarrow> q | None \<Rightarrow> default_release_policy\<lparr>qp_resolutions := [1080]\<rparr>);
                 subs = (case subtitles of Some q \<Rightarrow> q | None \<Rightarrow> default_subtitle_policy);
                 times = map (\<lambda>(n, r). (nat n, r)) runtimes in
             if release_rank normal pol JNull = None then None
             else
               (case inspect_torrent sha1 sha256 torrent of
                  Inl e \<Rightarrow> None
                | Inr t \<Rightarrow>
                    (case pack_videos pol normal (nat season) times [] (torrent_files t) of
                       None \<Rightarrow> None
                     | Some videos \<Rightarrow>
                         if set (map fst videos) \<noteq> set (map fst times) then None
                         else
                           map_option (\<lambda>episodes.
                             \<lparr>sm_infohash = torrent_infohash t, sm_sha256 = torrent_sha256 t,
                              sm_files = map file_path (torrent_files t),
                              sm_budget = total_bytes (torrent_files t), sm_episodes = episodes\<rparr>)
                             (pack_bindings external (nat season)
                                (pack_subtitles ascii_fold subs (nat season) (torrent_files t))
                                (sort_key fst videos))))))"

end
