(* ===== verification/InspectionProperties.thy ===== *)
theory InspectionProperties
  imports PackInspection TorrentProperties PermitGuards Samples
begin

text \<open>
  The inspection of a season pack against the permit registry: the files bound to an episode
  pass the test the registry makes before it stores a binding.
\<close>

section \<open>Episode tags\<close>

lemma is_alnum_lower [simp]: "is_alnum (lower_char c) = is_alnum c"
  by (auto simp: is_alnum_def is_digit_def is_alpha_def lower_char_def code_char_of)

lemma strip_zeros_posnum:
  assumes "\<forall>c\<in>set a. is_digit c" and "0 < nat_of_digits 0 a"
  shows "posnum (strip_zeros a) \<and> nat_of_digits 0 (strip_zeros a) = nat_of_digits 0 a"
  using assms
proof (induction a)
  case Nil
  then show ?case by simp
next
  case (Cons c a)
  then show ?case
    by (cases "c = CHR ''0''") (auto simp: strip_zeros_def posnum_def digits1_def list_all_iff code_zero)
qed

lemma strip_zeros_numeral:
  assumes "\<forall>c\<in>set a. is_digit c" and "0 < to_nat a"
  shows "strip_zeros (a @ r) = show_nat (to_nat a) @ r"
proof -
  have p: "posnum (strip_zeros a)" "nat_of_digits 0 (strip_zeros a) = to_nat a"
    using strip_zeros_posnum assms by (auto simp: to_nat_def)
  then have "strip_zeros a \<noteq> []" by (simp add: posnum_def digits1_def)
  then have "strip_zeros (a @ r) = strip_zeros a @ r"
    by (auto simp: strip_zeros_def dropWhile_append)
  with show_posnum [OF p(1)] p(2) show ?thesis by simp
qed

lemma tag_at_lower:
  assumes "(a, b) \<in> set (episode_tag_at (lower s))" and "to_nat a = season" and "0 < season"
    and "0 < to_nat b"
  shows "tag_at season (to_nat b) s"
proof -
  from assms(1) obtain r r2 where r: "strip_prefix ''s'' (lower s) = Some r"
    and r2: "strip_prefix ''e'' (dropWhile is_digit r) = Some r2"
    and a: "a = takeWhile is_digit r" and b: "b = takeWhile is_digit r2"
    and e: "tag_ends (dropWhile is_digit r2)"
    by (auto simp: episode_tag_at_def Let_def split: option.split_asm if_split_asm dest: sym)
  have dig: "\<forall>c\<in>set a. is_digit c" "\<forall>c\<in>set b. is_digit c"
    by (auto simp: a b dest: set_takeWhileD)
  have "r = a @ ''e'' @ r2" "r2 = b @ dropWhile is_digit r2"
    using r2 a b by (auto simp: strip_prefix_iff) (metis takeWhile_dropWhile_id)
  then have z: "strip_zeros r = (show_nat season @ ''e'') @ r2"
    "strip_zeros r2 = show_nat (to_nat b) @ dropWhile is_digit r2"
    using strip_zeros_numeral [OF dig(1)] strip_zeros_numeral [OF dig(2)] assms by (metis append_assoc)+
  have s: "strip_prefix p (p @ q) = Some q" for p q :: string by (simp add: strip_prefix_iff)
  show ?thesis unfolding tag_at_def r option.case z s using e by simp
qed

lemma tag_found:
  assumes "(a, b) \<in> set (episode_tags boundary (lower s))" and "to_nat a = season" and "0 < season"
    and "0 < to_nat b"
  shows "tag_search season (to_nat b) boundary s"
  using assms
proof (induction s arbitrary: boundary)
  case (Cons c s)
  have "lower (c # s) = lower_char c # lower s" by (simp add: lower_def)
  with Cons show ?case using tag_at_lower [of a b "c # s"] by (auto split: if_splits)
qed (simp add: lower_def)

lemma episode_number_tag:
  assumes "episode_number path season = Some n" and "0 < season"
  shows "has_episode_tag season n path" and "0 < n"
proof -
  from assms obtain a b where ab: "episode_tags True (lower (posix_name path)) = [(a, b)]"
    and n: "to_nat a = season" "0 < to_nat b" "n = to_nat b"
    by (auto simp: episode_number_def split: list.splits if_splits)
  then show "0 < n" by simp
  show "has_episode_tag season n path"
    using tag_found [of a b True "posix_name path" season] ab n assms(2)
    by (simp add: has_episode_tag_def)
qed

lemma video_suffix: "suffix_in pack_video_suffixes path \<Longrightarrow> is_video path"
  by (auto simp: suffix_in_def is_video_def pack_video_suffixes_def video_suffixes_def)

lemma subtitle_suffix: "suffix_in subtitle_suffixes path \<Longrightarrow> \<not> is_video path"
  by (auto simp: suffix_in_def is_video_def subtitle_suffixes_def video_suffixes_def)

lemma scope_of_parses: "episode_scope (scope_of season n) = Some (show02 season, show02 n)"
proof -
  have "two_numbers ''S'' ''E'' (''S'' @ show02 season @ ''E'' @ show02 n) = Some (show02 season, show02 n)"
    using show02_digits by (intro two_numbers_complete) (auto simp: is_digit_def code_def)
  then show ?thesis
    using show02_length by (simp add: episode_scope_def episode_scope_any_def scope_of_def)
qed

section \<open>The loops\<close>

definition found_videos ::
    "release_policy \<Rightarrow> (string \<times> json) list \<Rightarrow> nat \<Rightarrow> (nat \<times> json) list \<Rightarrow> manifest_file list \<Rightarrow>
     (nat \<times> manifest_file) list \<Rightarrow> bool" where
  "found_videos policy release season runtimes files videos =
     (distinct (map fst videos) \<and>
      (\<forall>(n, f)\<in>set videos. f \<in> set files \<and> suffix_in pack_video_suffixes (file_path f) \<and>
         episode_number (file_path f) season = Some n \<and>
         (\<exists>runtime. map_of runtimes n = Some runtime \<and>
            accepts_size policy release (JInt (file_length f)) runtime)))"

lemma pack_videos_found:
  assumes "pack_videos policy release season runtimes videos fs = Some vs" and "set fs \<subseteq> set files"
    and "found_videos policy release season runtimes files videos"
  shows "found_videos policy release season runtimes files vs"
  using assms
proof (induction fs arbitrary: videos)
  case (Cons f fs)
  show ?case
  proof (cases "\<not> suffix_in pack_video_suffixes (file_path f) \<or> is_sample_video (file_path f)")
    case True
    with Cons show ?thesis by (auto split: if_splits)
  next
    case False
    with Cons.prems(1) obtain n runtime where n: "episode_number (file_path f) season = Some n"
      "map_of runtimes n = Some runtime" "map_of videos n = None"
      "accepts_size policy release (JInt (file_length f)) runtime"
      and rest: "pack_videos policy release season runtimes (videos @ [(n, f)]) fs = Some vs"
      by (auto split: option.splits if_splits)
    have "n \<notin> fst ` set videos" using n(3) by (simp add: map_of_eq_None_iff)
    then have "found_videos policy release season runtimes files (videos @ [(n, f)])"
      using Cons.prems(2,3) n False by (auto simp: found_videos_def)
    with Cons.IH [OF rest] Cons.prems(2) show ?thesis by simp
  qed
qed simp

lemma pack_bindings_entries:
  assumes "pack_bindings external season matching videos = Some es"
  shows "es = map (\<lambda>(n, f). (scope_of season n, file_path f # matching n)) videos \<and>
         (external \<or> (\<forall>v\<in>set videos. matching (fst v) \<noteq> []))"
  using assms by (induction videos arbitrary: es) (fastforce split: if_splits)+

lemma bound_episode:
  assumes "(n, f) \<in> set videos" and "found_videos policy release season runtimes files videos"
    and "distinct (map file_path files)" and "0 < season"
    and "file_path ` set files \<subseteq> set (pm_selected_files parent)"
  shows "valid_pack_episode parent season
           (scope_of season n, file_path f # pack_subtitles ascii_fold subs season files n) = Inr ()"
proof -
  let ?subs = "pack_subtitles ascii_fold subs season files n"
  from assms(1,2) have f: "f \<in> set files" "suffix_in pack_video_suffixes (file_path f)"
    "episode_number (file_path f) season = Some n" by (auto simp: found_videos_def)
  have sub: "\<And>path. path \<in> set ?subs \<Longrightarrow> path \<in> file_path ` set files \<and>
      \<not> is_video path \<and> has_episode_tag season n path"
    using subtitle_suffix episode_number_tag assms(4) by (auto simp: pack_subtitles_def)
  have none: "filter is_video ?subs = []" using sub by (auto simp: filter_empty_conv)
  have v: "is_video (file_path f)" by (rule video_suffix [OF f(2)])
  have d: "distinct (file_path f # ?subs)"
    using assms(3) sub v by (auto simp: pack_subtitles_def)
  have tags: "list_all (has_episode_tag season n) (file_path f # ?subs)"
    using sub episode_number_tag [OF f(3) assms(4)] by (auto simp: list_all_iff)
  have inside: "list_all (\<lambda>x. x \<in> set (pm_selected_files parent)) (file_path f # ?subs)"
    using assms(5) sub f(1) by (auto simp: list_all_iff)
  show ?thesis
    using d tags inside none v episode_number_tag(2) [OF f(3) assms(4)]
    by (simp add: valid_pack_episode_def scope_of_parses)
qed

lemma inspection_found:
  assumes "inspect_season_pack sha1 sha256 ascii_fold torrent season runtimes release policy external subtitles = Some m"
  shows "\<exists>t pol subs normal videos. inspect_torrent sha1 sha256 torrent = Inr t \<and> 0 < season \<and>
    normalized_release release = Some normal \<and>
    pol = (case policy of Some q \<Rightarrow> q | None \<Rightarrow> default_release_policy\<lparr>qp_resolutions := [1080]\<rparr>) \<and>
    found_videos pol normal (nat season) (map (\<lambda>(n, r). (nat n, r)) runtimes) (torrent_files t) videos \<and>
    set (map fst videos) = nat ` fst ` set runtimes \<and>
    sm_files m = map file_path (torrent_files t) \<and> sm_budget m = total_bytes (torrent_files t) \<and>
    sm_infohash m = torrent_infohash t \<and>
    (let matching = pack_subtitles ascii_fold subs (nat season) (torrent_files t) in
       sm_episodes m = map (\<lambda>(n, f). (scope_of (nat season) n, file_path f # matching n)) (sort_key fst videos) \<and>
       (external \<or> (\<forall>v\<in>set videos. matching (fst v) \<noteq> [])))"
proof -
  define pol where "pol = (case policy of Some q \<Rightarrow> q | None \<Rightarrow> default_release_policy\<lparr>qp_resolutions := [1080]\<rparr>)"
  define subs where "subs = (case subtitles of Some q \<Rightarrow> q | None \<Rightarrow> default_subtitle_policy)"
  define minutes where "minutes = map (\<lambda>(n, r). (nat n, r :: json)) runtimes"
  from assms obtain normal t videos es where s: "0 < season"
    and n: "normalized_release release = Some normal"
    and t: "inspect_torrent sha1 sha256 torrent = Inr t"
    and v: "pack_videos pol normal (nat season) minutes [] (torrent_files t) = Some videos"
    and k: "set (map fst videos) = set (map fst minutes)"
    and e: "pack_bindings external (nat season) (pack_subtitles ascii_fold subs (nat season) (torrent_files t))
              (sort_key fst videos) = Some es"
    and m: "m = \<lparr>sm_infohash = torrent_infohash t, sm_sha256 = torrent_sha256 t,
              sm_files = map file_path (torrent_files t), sm_budget = total_bytes (torrent_files t),
              sm_episodes = es\<rparr>"
    unfolding inspect_season_pack_def Let_def pol_def [symmetric] subs_def [symmetric] minutes_def [symmetric]
    by (simp split: if_split_asm option.split_asm sum.split_asm) blast
  have "found_videos pol normal (nat season) minutes (torrent_files t) videos"
    using pack_videos_found [OF v subset_refl] by (simp add: found_videos_def)
  moreover have "set (map fst minutes) = nat ` fst ` set runtimes"
    by (force simp: minutes_def image_iff)
  ultimately show ?thesis
    using s n t k m pack_bindings_entries [OF e] unfolding pol_def minutes_def Let_def by auto
qed

lemma entry_scopes:
  assumes "map fst videos = numbers"
  shows "map fst (map (\<lambda>(n, f). (scope n, g n f)) videos) = map scope numbers"
  using assms by auto

section \<open>A season pack and its permit\<close>

text \<open>
  C18 (inspected_pack_binds): when the inspection of a season pack returns a manifest, its
  entries are exactly the episodes of the season that were asked for, in ascending order,
  each with a video of its own that the release policy accepts in size, and (unless external
  subtitles are allowed) a subtitle file; the registry accepts every entry as a binding of a
  permit that admits the files of the torrent; and the budget is the size of all files.
\<close>

theorem inspected_pack_binds:
  assumes "inspect_season_pack sha1 sha256 ascii_fold torrent season runtimes release policy external subtitles = Some m"
    and "set (sm_files m) \<subseteq> set (pm_selected_files parent)"
  shows "(\<forall>e\<in>set (sm_episodes m). valid_pack_episode parent (nat season) e = Inr () \<and>
            (external \<or> 2 \<le> length (snd e))) \<and>
         map fst (sm_episodes m) =
           map (scope_of (nat season)) (sorted_list_of_set (nat ` fst ` set runtimes)) \<and>
         (\<exists>files. inspect_torrent sha1 sha256 torrent = Inr files \<and>
            sm_files m = map file_path (torrent_files files) \<and>
            sm_budget m = total_bytes (torrent_files files))"
proof -
  from inspection_found [OF assms(1)] obtain t pol subs normal videos
    where t: "inspect_torrent sha1 sha256 torrent = Inr t" and s: "0 < season"
      and f: "found_videos pol normal (nat season) (map (\<lambda>(n, r). (nat n, r)) runtimes) (torrent_files t) videos"
      and k: "set (map fst videos) = nat ` fst ` set runtimes"
      and m: "sm_files m = map file_path (torrent_files t)" "sm_budget m = total_bytes (torrent_files t)"
      and e: "sm_episodes m = map (\<lambda>(n, f). (scope_of (nat season) n,
                 file_path f # pack_subtitles ascii_fold subs (nat season) (torrent_files t) n)) (sort_key fst videos)"
      and x: "external \<or> (\<forall>v\<in>set videos. pack_subtitles ascii_fold subs (nat season) (torrent_files t) (fst v) \<noteq> [])"
    unfolding Let_def by blast
  have "mset (map fst (sort_key fst videos)) = mset (map fst videos)" by simp
  then have "distinct (map fst (sort_key fst videos))"
    using f mset_eq_imp_distinct_iff [of "map fst (sort_key fst videos)" "map fst videos"]
    by (simp add: found_videos_def)
  then have "map fst (sort_key fst videos) = sorted_list_of_set (nat ` fst ` set runtimes)"
    using k by (intro sorted_distinct_set_unique) auto
  then have keys: "map fst (sm_episodes m) =
      map (scope_of (nat season)) (sorted_list_of_set (nat ` fst ` set runtimes))"
    unfolding e by (rule entry_scopes)
  have "valid_pack_episode parent (nat season) y = Inr () \<and> (external \<or> 2 \<le> length (snd y))"
    if "y \<in> set (sm_episodes m)" for y
  proof -
    from that e obtain n g where g: "(n, g) \<in> set videos"
      and y: "y = (scope_of (nat season) n,
                file_path g # pack_subtitles ascii_fold subs (nat season) (torrent_files t) n)" by auto
    have "external \<or> Suc 0 \<le> length (pack_subtitles ascii_fold subs (nat season) (torrent_files t) n)"
      using x g by (force simp: Suc_le_eq)
    moreover have "valid_pack_episode parent (nat season) y = Inr ()"
      unfolding y using g f s assms(2) m inspected_clean(2) [OF t] by (intro bound_episode) auto
    ultimately show ?thesis by (auto simp: y)
  qed
  with keys t m show ?thesis by blast
qed


text \<open>A season of one episode in a torrent of one file.\<close>

definition pack_info :: bval where
  "pack_info =
     BDict [(''length'', BInt 7), (''name'', BStr ''s01e02.mkv''), (''piece length'', BInt 9),
            (''pieces'', BStr ''aaaaaaaaaaaaaaaaaaaa'')]"

definition pack_root :: "(string \<times> bval \<times> string) list" where
  "pack_root = [(''info'', pack_info, bencode pack_info)]"

definition pack_torrent :: string where
  "pack_torrent =
     ''d4:infod6:lengthi7e4:name10:s01e02.mkv12:piece lengthi9e6:pieces20:aaaaaaaaaaaaaaaaaaaaee''"

definition pack_release :: "(string \<times> json) list" where
  "pack_release =
     [(''title'', JStr ''x''),
      (''quality'', JObj [(''quality'', JObj [(''resolution'', JInt 1080), (''source'', JStr ''web'')])])]"

definition pack_policy :: release_policy where
  "pack_policy = default_release_policy\<lparr>qp_resolutions := [1080], qp_floors := [(1080, Fin 0)]\<rparr>"

definition pack_manifest :: season_pack_manifest where
  "pack_manifest =
     \<lparr>sm_infohash = ''d6:lengt'', sm_sha256 = ''d4:infod'', sm_files = [''s01e02.mkv''], sm_budget = 7,
      sm_episodes = [(''S01E02'', [''s01e02.mkv''])]\<rparr>"

lemma pack_root_ok: "root_ok pack_root"
proof -
  have "fits 16 pack_info"
  proof -
    have "sorted_wrt (<) (map fst [(''length'', BInt 7), (''name'', BStr ''s01e02.mkv''),
        (''piece length'', BInt 9), (''pieces'', BStr ''aaaaaaaaaaaaaaaaaaaa'')])" by code_simp
    moreover have "show_nat 7 = ''7''" "show_nat 9 = ''9''" by code_simp+
    ultimately show ?thesis by (simp add: pack_info_def numeral_eq_Suc short_str_fits)
  qed
  then show ?thesis by (simp add: root_ok_def pack_root_def root_entry_def fits_str short_str_fits)
qed

lemma pack_inspect:
  "inspect_torrent short_digest short_digest pack_torrent =
   Inr \<lparr>torrent_infohash = ''d6:lengt'', torrent_sha256 = ''d4:infod'',
        torrent_files = [\<lparr>file_path = ''s01e02.mkv'', file_length = 7\<rparr>]\<rparr>"
proof -
  have i: "inspect_info pack_info = Inr [\<lparr>file_path = ''s01e02.mkv'', file_length = 7\<rparr>]" by code_simp
  have d: "short_digest (bencode pack_info) = ''d6:lengt''" "short_digest pack_torrent = ''d4:infod''"
    by code_simp+
  have l: "length pack_torrent \<le> max_torrent" by (simp add: pack_torrent_def max_torrent_def)
  have r: "pack_torrent = root_octets pack_root" by code_simp
  have m: "map_of pack_root ''info'' = Some (pack_info, bencode pack_info)" by (simp add: pack_root_def)
  show ?thesis unfolding inspect_torrent_iff using pack_root_ok r l m i d by metis
qed

definition pack_normal :: "(string \<times> json) list" where
  "pack_normal = the (normalized_release pack_release)"

lemma pack_inspected:
  "inspect_season_pack short_digest short_digest id pack_torrent 1 [(2, JNull)] pack_release (Some pack_policy) True None =
   Some pack_manifest"
proof -
  let ?file = "\<lparr>file_path = ''s01e02.mkv'', file_length = 7\<rparr>"
  have n: "normalized_release pack_release = Some pack_normal" by code_simp
  have r: "release_rank pack_normal pack_policy JNull \<noteq> None" by code_simp
  have v: "pack_videos pack_policy pack_normal 1 [(2, JNull)] [] [?file] = Some [(2, ?file)]" by code_simp
  have b: "pack_bindings True 1 (pack_subtitles id default_subtitle_policy 1 [?file])
             (sort_key fst [(2, ?file)]) = Some [(''S01E02'', [''s01e02.mkv''])]" by code_simp
  have two: "nat 2 = 2" by simp
  show ?thesis unfolding inspect_season_pack_def pack_inspect Let_def n
    using r v b by (simp add: pack_manifest_def total_bytes_def)
qed

lemma sample_scope: "scope_of (Suc 0) 2 = ''S01E02''"
  by code_simp

theorem inspected_pack_binds_witness:
  "valid_pack_episode (movie_permit\<lparr>pm_selected_files := [''s01e02.mkv'']\<rparr>) 1 (''S01E02'', [''s01e02.mkv'']) = Inr ()"
  using inspected_pack_binds [OF pack_inspected, of "movie_permit\<lparr>pm_selected_files := [''s01e02.mkv'']\<rparr>"]
  by (simp add: pack_manifest_def sample_scope)

end
