(* ===== verification/Requests.thy ===== *)
theory Requests
  imports Prelude
begin

text \<open>
  A request handler: it passes on a state, and returns a value or an exception; what it did
  to the state before an exception stays done.  \<open>triple\<close> states what a handler guarantees
  when it returns and when it raises, with one rule per combinator.
\<close>

section \<open>Handlers\<close>

type_synonym ('s, 'e, 'a) handler = "'s \<Rightarrow> ('e + 'a) \<times> 's"

definition give :: "'e + 'a \<Rightarrow> ('s, 'e, 'a) handler" where
  "give r s = (r, s)"

definition rbind :: "('s, 'e, 'a) handler \<Rightarrow> ('a \<Rightarrow> ('s, 'e, 'b) handler) \<Rightarrow> ('s, 'e, 'b) handler" where
  "rbind m f s = (case m s of (Inl e, s') \<Rightarrow> (Inl e, s') | (Inr x, s') \<Rightarrow> f x s')"

section \<open>Results\<close>

named_theorems req_simps \<open>when a handler returns\<close>

lemma give_Inr [req_simps]: "give r s = (Inr x, s') \<longleftrightarrow> r = Inr x \<and> s' = s"
  by (auto simp: give_def)

lemma rbind_Inr [req_simps]: "rbind m f s = (Inr y, s') \<longleftrightarrow> (\<exists>x s1. m s = (Inr x, s1) \<and> f x s1 = (Inr y, s'))"
  by (cases "m s") (auto simp: rbind_def split: sum.splits)

named_theorems branch_simps \<open>when a case analysis returns\<close>

lemma option_returns [branch_simps]:
  "(case v of None \<Rightarrow> f | Some x \<Rightarrow> g x) s = (Inr y, s') \<longleftrightarrow>
   v = None \<and> f s = (Inr y, s') \<or> (\<exists>x. v = Some x \<and> g x s = (Inr y, s'))"
  by (cases v) auto

lemma list_returns [branch_simps]:
  "(case v of [] \<Rightarrow> f | x # xs \<Rightarrow> g x xs) s = (Inr y, s') \<longleftrightarrow>
   v = [] \<and> f s = (Inr y, s') \<or> (\<exists>x xs. v = x # xs \<and> g x xs s = (Inr y, s'))"
  by (cases v) auto

lemma pair_returns [branch_simps]:
  "(case v of (x, z) \<Rightarrow> g x z) s = (Inr y, s') \<longleftrightarrow> (\<exists>x z. v = (x, z) \<and> g x z s = (Inr y, s'))"
  by (cases v) auto

lemma if_returns [branch_simps]:
  "(if b then f else g) s = (Inr y, s') \<longleftrightarrow> b \<and> f s = (Inr y, s') \<or> \<not> b \<and> g s = (Inr y, s')"
  by simp

section \<open>Triples\<close>

definition triple ::
    "('s \<Rightarrow> bool) \<Rightarrow> ('s, 'e, 'a) handler \<Rightarrow> ('a \<Rightarrow> 's \<Rightarrow> bool) \<Rightarrow> ('s \<Rightarrow> bool) \<Rightarrow> bool" where
  "triple P m Q E = (\<forall>s. P s \<longrightarrow> (case m s of (Inl e, s') \<Rightarrow> E s' | (Inr x, s') \<Rightarrow> Q x s'))"

named_theorems triple_rules \<open>rules for triples, one per combinator\<close>

lemma tripleI: "(\<And>s. P s \<Longrightarrow> (case m s of (Inl e, s') \<Rightarrow> E s' | (Inr x, s') \<Rightarrow> Q x s')) \<Longrightarrow> triple P m Q E"
  by (simp add: triple_def)

lemma triple_returns: "triple P m Q E \<Longrightarrow> P s \<Longrightarrow> m s = (Inr x, s') \<Longrightarrow> Q x s'"
  by (fastforce simp: triple_def)

lemma triple_raises: "triple P m Q E \<Longrightarrow> P s \<Longrightarrow> m s = (Inl e, s') \<Longrightarrow> E s'"
  by (fastforce simp: triple_def)

lemma triple_end: "triple P m (\<lambda>_. Q) Q \<Longrightarrow> P s \<Longrightarrow> Q (snd (m s))"
  by (cases "m s"; cases "fst (m s)") (auto simp: triple_def)

lemma triple_weaken:
  "triple P m Q E \<Longrightarrow> (\<And>s. P' s \<Longrightarrow> P s) \<Longrightarrow> (\<And>x s. Q x s \<Longrightarrow> Q' x s) \<Longrightarrow> (\<And>s. E s \<Longrightarrow> E' s) \<Longrightarrow>
   triple P' m Q' E'"
  by (fastforce simp: triple_def split: prod.splits sum.splits)

lemma triple_give: "(\<And>x s. r = Inr x \<Longrightarrow> P s \<Longrightarrow> Q x s) \<Longrightarrow> (\<And>s. P s \<Longrightarrow> E s) \<Longrightarrow> triple P (give r) Q E"
  by (auto simp: triple_def give_def split: sum.splits)

lemma triple_bind: "triple P m R E \<Longrightarrow> (\<And>x. triple (R x) (f x) Q E) \<Longrightarrow> triple P (rbind m f) Q E"
  by (fastforce simp: triple_def rbind_def split: prod.splits sum.splits)

lemma triple_if: "(b \<Longrightarrow> triple P m Q E) \<Longrightarrow> (\<not> b \<Longrightarrow> triple P n Q E) \<Longrightarrow> triple P (if b then m else n) Q E"
  by simp

lemma triple_option:
  "(v = None \<Longrightarrow> triple P m Q E) \<Longrightarrow> (\<And>x. v = Some x \<Longrightarrow> triple P (f x) Q E) \<Longrightarrow>
   triple P (case v of None \<Rightarrow> m | Some x \<Rightarrow> f x) Q E"
  by (cases v) auto

lemma triple_sum:
  "(\<And>e. v = Inl e \<Longrightarrow> triple P (g e) Q E) \<Longrightarrow> (\<And>x. v = Inr x \<Longrightarrow> triple P (f x) Q E) \<Longrightarrow>
   triple P (case v of Inl e \<Rightarrow> g e | Inr x \<Rightarrow> f x) Q E"
  by (cases v) auto

lemma triple_prod: "(\<And>x y. v = (x, y) \<Longrightarrow> triple P (f x y) Q E) \<Longrightarrow> triple P (case v of (x, y) \<Rightarrow> f x y) Q E"
  by (cases v) auto

lemma triple_list:
  "(v = [] \<Longrightarrow> triple P m Q E) \<Longrightarrow> (\<And>x xs. v = x # xs \<Longrightarrow> triple P (f x xs) Q E) \<Longrightarrow>
   triple P (case v of [] \<Rightarrow> m | x # xs \<Rightarrow> f x xs) Q E"
  by (cases v) auto

text \<open>A predicate that a handler keeps, however it ends.\<close>

abbreviation leaves :: "('s \<Rightarrow> bool) \<Rightarrow> ('s, 'e, 'a) handler \<Rightarrow> bool" where
  "leaves P m \<equiv> triple P m (\<lambda>_. P) P"

lemma leaves_give [triple_rules]: "leaves P (give r)"
  by (rule triple_give)

lemma leaves_bind [triple_rules]: "leaves P m \<Longrightarrow> (\<And>x. leaves P (f x)) \<Longrightarrow> leaves P (rbind m f)"
  by (rule triple_bind)

lemmas leaves_branches [triple_rules] =
  triple_if [where Q = "\<lambda>_. P" and P = P and E = P for P]
  triple_option [where Q = "\<lambda>_. P" and P = P and E = P for P]
  triple_sum [where Q = "\<lambda>_. P" and P = P and E = P for P]
  triple_prod [where Q = "\<lambda>_. P" and P = P and E = P for P]
  triple_list [where Q = "\<lambda>_. P" and P = P and E = P for P]

end
