(* ===== verification/DeletionAdmission.thy ===== *)
theory DeletionAdmission
  imports SeasonCapture Requests
begin

text \<open>
  \<open>api/deletion_capture.py\<close>: the capture of an explicit Jellyfin deletion, before the item
  leaves the catalog, and its admission as a job.  \<open>storage_registry\<close> is \<open>None\<close>, so a file
  has no captured sidecars.  What is outside (services, file system, clock, and the other
  processes that change the jobs while a request waits) is the record of functions
  \<open>'w api_env\<close> over any world.
\<close>

section \<open>Requests\<close>

text \<open>\<open>gq_credential\<close> is the value of \<open>X-Emby-Token\<close> or \<open>X-Api-Key\<close>.\<close>

record get_request =
  gq_service :: service
  gq_path :: string
  gq_credential :: string
  gq_params :: "(string \<times> json) list"

text \<open>
  \<open>a_get\<close> answers \<open>None\<close> for an \<open>httpx.HTTPError\<close>; the body is \<open>None\<close> when \<open>json()\<close> raises.
  \<open>a_inside\<close> and \<open>a_inside_strict\<close> are \<open>path.resolve(strict=...).is_relative_to(root.resolve(strict=True))\<close>
  with \<open>strict\<close> false and true; every \<open>None\<close> of the file system is an \<open>OSError\<close>.
\<close>

record 'w api_env =
  a_get :: "'w \<Rightarrow> deletion_job list \<Rightarrow> get_request \<Rightarrow> response option \<times> deletion_job list \<times> 'w"
  a_snapshot :: "'w \<Rightarrow> (json option \<times> rat) \<times> 'w"
  a_inside :: "'w \<Rightarrow> posix \<Rightarrow> posix \<Rightarrow> bool option \<times> 'w"
  a_inside_strict :: "'w \<Rightarrow> posix \<Rightarrow> posix \<Rightarrow> bool option \<times> 'w"
  a_symlink :: "'w \<Rightarrow> posix \<Rightarrow> bool option \<times> 'w"
  a_stat :: "'w \<Rightarrow> posix \<Rightarrow> file_stat option \<times> 'w"
  a_listdir :: "'w \<Rightarrow> posix \<Rightarrow> string list option \<times> 'w"
  a_now :: "'w \<Rightarrow> time \<times> 'w"

record admission_config =
  ac_media_root :: posix
  ac_filesystem_id :: string
  ac_radarr_key :: string
  ac_sonarr_key :: string
  ac_radarr_url :: bool
  ac_sonarr_url :: bool

record 'w admission =
  ad_world :: 'w
  ad_jobs :: "deletion_job list"

text \<open>\<open>DeletionCaptureError\<close>, or any other exception.\<close>

datatype refusal = Refused int string | Crashed

type_synonym ('w, 'a) req = "('w admission, refusal, 'a) handler"

definition refuse :: "int \<Rightarrow> string \<Rightarrow> ('w, 'a) req" where
  "refuse status detail = give (Inl (Refused status detail))"

definition require :: "bool \<Rightarrow> int \<Rightarrow> string \<Rightarrow> ('w, unit) req" where
  "require ok status detail = (if ok then give (Inr ()) else refuse status detail)"

text \<open>A look at the world, whose \<open>None\<close> is the given exception.\<close>

definition look :: "('w \<Rightarrow> 'a option \<times> 'w) \<Rightarrow> refusal \<Rightarrow> ('w, 'a) req" where
  "look f e s =
     (case f (ad_world s) of
        (None, w) \<Rightarrow> (Inl e, s\<lparr>ad_world := w\<rparr>) | (Some x, w) \<Rightarrow> (Inr x, s\<lparr>ad_world := w\<rparr>))"

text \<open>\<open>_get_json\<close>\<close>

definition answer_json :: "response option \<Rightarrow> refusal + json" where
  "answer_json answer =
     (case answer of
        None \<Rightarrow> Inl (Refused 503 ''media service unavailable'')
      | Some rp \<Rightarrow>
          if rp_status rp \<in> {401, 403} then Inl (Refused 403 ''Jellyfin session is not authorized'')
          else if rp_status rp = 404 then Inl (Refused 404 ''media item was not found'')
          else if rp_status rp \<noteq> 200 then Inl (Refused 503 ''media service failed preflight'')
          else (case rp_body rp of
                  None \<Rightarrow> Inl (Refused 503 ''media service returned invalid data'') | Some j \<Rightarrow> Inr j))"

definition fetch :: "'w api_env \<Rightarrow> get_request \<Rightarrow> ('w, json) req" where
  "fetch env rq s =
     (case a_get env (ad_world s) (ad_jobs s) rq of
        (answer, jobs, w) \<Rightarrow> (answer_json answer, \<lparr>ad_world = w, ad_jobs = jobs\<rparr>))"

section \<open>Values\<close>

text \<open>\<open>str(value)\<close> when it is decimal.\<close>

fun decimal_text :: "json \<Rightarrow> string option" where
  "decimal_text (JInt n) = (if 0 \<le> n then Some (show_nat (nat n)) else None)"
| "decimal_text (JStr s) = (if digits1 s then Some s else None)"
| "decimal_text _ = None"

text \<open>\<open>not value.isdecimal() or int(value) <= 0\<close>, of \<open>str(value)\<close>: the digits and the number.\<close>

definition positive_decimal :: "string \<Rightarrow> json \<Rightarrow> refusal + string \<times> int" where
  "positive_decimal detail j =
     (case decimal_text j of
        None \<Rightarrow> Inl (Refused 409 detail)
      | Some s \<Rightarrow>
          if length s > 4300 then Inl Crashed
          else if to_nat s = 0 then Inl (Refused 409 detail)
          else Inr (s, int (to_nat s)))"

text \<open>\<open>(value or {})\<close> before \<open>.get\<close>: what is true and no dictionary raises.\<close>

definition or_empty :: "json \<Rightarrow> refusal + (string \<times> json) list" where
  "or_empty j =
     (if \<not> truthy j then Inr []
      else (case as_obj j of None \<Rightarrow> Inl Crashed | Some d \<Rightarrow> Inr d))"

text \<open>The dictionaries of a list, read with \<open>.get\<close>; \<open>[]\<close> for what is no list.\<close>

definition entries_of :: "json \<Rightarrow> refusal + (string \<times> json) list list" where
  "entries_of j =
     (case as_list j of
        None \<Rightarrow> Inr []
      | Some xs \<Rightarrow> if list_ex (\<lambda>x. as_obj x = None) xs then Inl Crashed else Inr (dicts xs))"

definition identity_json :: "file_stat \<Rightarrow> (string \<times> json) list" where
  "identity_json st =
     [(''device'', JInt (fs_device st)), (''inode'', JInt (fs_inode st)), (''size'', JInt (fs_size st)),
      (''mtime_ns'', JInt (fs_mtime_ns st)), (''nlink'', JInt (fs_nlink st))]"

section \<open>The mount and the file\<close>

definition mount_evidence :: "string \<Rightarrow> json \<Rightarrow> rat \<Rightarrow> bool" where
  "mount_evidence filesystem snapshot now =
     (case as_obj snapshot of
        None \<Rightarrow> False
      | Some d \<Rightarrow>
          jget d ''filesystem_id'' = JStr filesystem \<and>
          (case as_number (jget d ''measured_at'') of None \<Rightarrow> False | Some m \<Rightarrow> age_within now m 30))"

text \<open>\<open>_check_mount\<close>\<close>

definition check_mount :: "'w api_env \<Rightarrow> admission_config \<Rightarrow> ('w, unit) req" where
  "check_mount env cf =
     rbind (look (\<lambda>w. case a_snapshot env w of (r, w') \<Rightarrow> (Some r, w')) Crashed) (\<lambda>(snapshot, now).
     case snapshot of
       None \<Rightarrow> refuse 503 ''media mount evidence unavailable''
     | Some j \<Rightarrow>
         require (mount_evidence (ac_filesystem_id cf) j now) 503
           ''media mount evidence is stale or mismatched'')"

text \<open>The loop over a path and its parents, up to the parent of the media root.\<close>

fun no_link :: "'w api_env \<Rightarrow> posix \<Rightarrow> string \<Rightarrow> posix list \<Rightarrow> ('w, unit) req" where
  "no_link env stop detail [] = give (Inr ())"
| "no_link env stop detail (c # cs) =
     (if c = stop then give (Inr ())
      else
        rbind (look (\<lambda>w. a_symlink env w c) Crashed) (\<lambda>link.
        if link then refuse 409 detail else no_link env stop detail cs))"

text \<open>\<open>_file_identity\<close>\<close>

definition file_identity ::
    "'w api_env \<Rightarrow> admission_config \<Rightarrow> json \<Rightarrow> string \<Rightarrow> ('w, posix \<times> file_stat) req" where
  "file_identity env cf raw lib =
     (case as_str raw of
        None \<Rightarrow> refuse 409 ''item has no local media file''
      | Some text_path \<Rightarrow>
          if text_path = [] then refuse 409 ''item has no local media file''
          else
            let path = posix_of text_path; base = posix_join (ac_media_root cf) lib in
            rbind (look (\<lambda>w. a_inside env w path base) (Refused 503 ''media library is unavailable'')) (\<lambda>inside.
            if \<not> absolute path \<or> \<not> relative_to path base \<or> ''..'' \<in> set (px_parts path) \<or> \<not> inside
            then refuse 409 ''item path is outside the expected library''
            else
              rbind (no_link env (parent_of (ac_media_root cf)) ''media path contains a symlink'' (with_parents path)) (\<lambda>_.
              rbind (look (\<lambda>w. a_stat env w path) (Refused 409 ''media file is unavailable'')) (\<lambda>st.
              if \<not> fs_regular st then refuse 409 ''media file is not regular''
              else give (Inr (path, st))))))"

section \<open>A movie\<close>

definition arr_get :: "service \<Rightarrow> string \<Rightarrow> string \<Rightarrow> (string \<times> json) list \<Rightarrow> get_request" where
  "arr_get sv key path params = \<lparr>gq_service = sv, gq_path = path, gq_credential = key, gq_params = params\<rparr>"

text \<open>The one entry whose identifier reads as the given digits.\<close>

definition single_match ::
    "string \<Rightarrow> string \<Rightarrow> string \<Rightarrow> (string \<times> json) list list \<Rightarrow> refusal + (string \<times> json) list" where
  "single_match detail field digits ds =
     (case filter (\<lambda>d. decimal_text (jget d field) = Some digits) ds of
        [d] \<Rightarrow> Inr d | _ \<Rightarrow> Inl (Refused 409 detail))"

definition radarr_file :: "posix \<Rightarrow> file_stat \<Rightarrow> (string \<times> json) list \<Rightarrow> refusal + json \<times> json" where
  "radarr_file path st movie =
     ebind (or_empty (jget movie ''movieFile'')) (\<lambda>file.
     if jget file ''path'' = JStr (posix_text path) \<and> py_eq (jget file ''size'') (JInt (fs_size st)) \<and>
        as_int_or_bool (jget movie ''id'') \<noteq> None \<and>
        (case as_int_or_bool (jget file ''id'') of None \<Rightarrow> False | Some n \<Rightarrow> 0 < n)
     then Inr (jget movie ''id'', jget file ''id'')
     else Inl (Refused 409 ''Radarr file does not match Jellyfin''))"

definition movie_payload ::
    "posix \<Rightarrow> file_stat \<Rightarrow> string \<times> int \<Rightarrow> json \<times> json \<Rightarrow> (string \<times> json) list" where
  "movie_payload path st tmdb ids =
     [(''media_key'', JStr (''movie:tmdb:'' @ fst tmdb)), (''file_path'', JStr (posix_text path)),
      (''file_identity'', JObj (identity_json st)), (''sidecar_files'', JList []),
      (''radarr_id'', fst ids), (''radarr_file_id'', snd ids), (''tmdb_id'', JInt (snd tmdb))]"

text \<open>\<open>_capture_movie\<close>\<close>

definition capture_movie ::
    "'w api_env \<Rightarrow> admission_config \<Rightarrow> (string \<times> json) list \<Rightarrow> ('w, (string \<times> json) list) req" where
  "capture_movie env cf item =
     rbind (file_identity env cf (jget item ''Path'') ''movies'') (\<lambda>(path, st).
     rbind (give (or_empty (jget item ''ProviderIds''))) (\<lambda>providers.
     rbind (give (positive_decimal ''movie has no TMDB identity'' (jget providers ''Tmdb''))) (\<lambda>tmdb.
     rbind (require (ac_radarr_url cf \<and> ac_radarr_key cf \<noteq> []) 503 ''Radarr is not configured'') (\<lambda>_.
     rbind (fetch env (arr_get Radarr (ac_radarr_key cf) ''/api/v3/movie'' [(''tmdbId'', JStr (fst tmdb))])) (\<lambda>answer.
     rbind (give (ebind (entries_of answer)
                    (single_match ''movie does not match one Radarr entry'' ''tmdbId'' (fst tmdb)))) (\<lambda>movie.
     rbind (give (radarr_file path st movie)) (\<lambda>ids.
     give (Inr (movie_payload path st tmdb ids)))))))))"

section \<open>An episode\<close>

definition jellyfin_get :: "string \<Rightarrow> string \<Rightarrow> (string \<times> json) list \<Rightarrow> get_request" where
  "jellyfin_get token path params =
     \<lparr>gq_service = Jellyfin, gq_path = path, gq_credential = token, gq_params = params\<rparr>"

text \<open>\<open>f"{n:02d}"\<close> and \<open>f"{n}"\<close> of an \<open>int\<close> or a \<open>bool\<close>.\<close>

definition two_digits :: "json \<Rightarrow> string" where
  "two_digits j = (case two_digit_text j of Inr s \<Rightarrow> s | Inl e \<Rightarrow> [])"

definition series_numbers :: "(string \<times> json) list \<Rightarrow> refusal + (string \<times> int) \<times> (string \<times> int)" where
  "series_numbers providers =
     ebind (positive_decimal ''series identity unavailable'' (jget providers ''Tvdb'')) (\<lambda>tvdb.
     ebind (positive_decimal ''series identity unavailable'' (jget providers ''Tmdb'')) (\<lambda>tmdb.
     Inr (tvdb, tmdb)))"

definition sonarr_series :: "(string \<times> json) list \<Rightarrow> refusal + json" where
  "sonarr_series d =
     (case as_int_or_bool (jget d ''id'') of
        None \<Rightarrow> Inl (Refused 409 ''Sonarr series ID is invalid'')
      | Some n \<Rightarrow> if n \<le> 0 then Inl (Refused 409 ''Sonarr series ID is invalid'') else Inr (jget d ''id''))"

definition sonarr_episode ::
    "json \<Rightarrow> json \<Rightarrow> (string \<times> json) list list \<Rightarrow> refusal + (string \<times> json) list" where
  "sonarr_episode season episode ds =
     (case filter (\<lambda>d. py_eq (jget d ''seasonNumber'') season \<and> py_eq (jget d ''episodeNumber'') episode) ds of
        [d] \<Rightarrow>
          if as_int_or_bool (jget d ''id'') = None \<or> as_int_or_bool (jget d ''episodeFileId'') = None
          then Inl (Refused 409 ''episode does not match one Sonarr file'')
          else if length (filter (\<lambda>x. py_eq (jget x ''episodeFileId'') (jget d ''episodeFileId'')) ds) \<noteq> 1
          then Inl (Refused 409 ''episode file is shared with another episode'')
          else Inr d
      | _ \<Rightarrow> Inl (Refused 409 ''episode does not match one Sonarr file''))"

definition sonarr_file_matches :: "json \<Rightarrow> posix \<Rightarrow> file_stat \<Rightarrow> (string \<times> json) list \<Rightarrow> bool" where
  "sonarr_file_matches file_id path st d =
     (py_eq (jget d ''id'') file_id \<and> jget d ''path'' = JStr (posix_text path) \<and>
      py_eq (jget d ''size'') (JInt (fs_size st)))"

definition episode_media_key :: "string \<Rightarrow> json \<Rightarrow> json \<Rightarrow> string" where
  "episode_media_key tmdb season episode =
     ''episode:tmdb:'' @ tmdb @ '':S'' @ two_digits season @ ''E'' @ two_digits episode"

definition episode_payload ::
    "posix \<Rightarrow> file_stat \<Rightarrow> json \<Rightarrow> (string \<times> json) list \<Rightarrow> string \<times> int \<Rightarrow> json \<Rightarrow> json \<Rightarrow> (string \<times> json) list" where
  "episode_payload path st series_id entry tmdb season episode =
     [(''media_key'', JStr (episode_media_key (fst tmdb) season episode)),
      (''file_path'', JStr (posix_text path)), (''file_identity'', JObj (identity_json st)),
      (''sidecar_files'', JList []), (''sonarr_series_id'', series_id),
      (''sonarr_episode_id'', jget entry ''id''), (''sonarr_episode_file_id'', jget entry ''episodeFileId''),
      (''series_tmdb_id'', JInt (snd tmdb)), (''season'', season), (''episode'', episode)]"

text \<open>A dictionary that is read with \<open>.get\<close> without a test.\<close>

definition as_dict :: "json \<Rightarrow> refusal + (string \<times> json) list" where
  "as_dict j = (case as_obj j of None \<Rightarrow> Inl Crashed | Some d \<Rightarrow> Inr d)"

text \<open>\<open>_capture_episode\<close>\<close>

definition capture_episode ::
    "'w api_env \<Rightarrow> admission_config \<Rightarrow> string \<Rightarrow> string \<Rightarrow> (string \<times> json) list \<Rightarrow> ('w, (string \<times> json) list) req" where
  "capture_episode env cf token user item =
     rbind (file_identity env cf (jget item ''Path'') ''tv'') (\<lambda>(path, st).
     let season = jget item ''ParentIndexNumber''; episode = jget item ''IndexNumber'' in
     case as_str (jget item ''SeriesId'') of
       None \<Rightarrow> refuse 409 ''episode coordinates unavailable''
     | Some series \<Rightarrow>
         if as_int_or_bool season = None \<or> as_int_or_bool episode = None
         then refuse 409 ''episode coordinates unavailable''
         else
           rbind (fetch env (jellyfin_get token (''/Users/'' @ user @ ''/Items/'' @ series) [])) (\<lambda>series_item.
           rbind (give (ebind (as_dict series_item) (\<lambda>d. or_empty (jget d ''ProviderIds'')))) (\<lambda>providers.
           rbind (give (series_numbers providers)) (\<lambda>(tvdb, tmdb).
           rbind (require (ac_sonarr_url cf \<and> ac_sonarr_key cf \<noteq> []) 503 ''Sonarr is not configured'') (\<lambda>_.
           rbind (fetch env (arr_get Sonarr (ac_sonarr_key cf) ''/api/v3/series'' [])) (\<lambda>all_series.
           rbind (give (ebind (ebind (entries_of all_series)
                          (single_match ''series does not match one Sonarr entry'' ''tvdbId'' (fst tvdb))) sonarr_series)) (\<lambda>series_id.
           rbind (fetch env (arr_get Sonarr (ac_sonarr_key cf) ''/api/v3/episode'' [(''seriesId'', JStr (plain_text series_id))])) (\<lambda>episodes.
           rbind (give (ebind (entries_of episodes) (sonarr_episode season episode))) (\<lambda>entry.
           rbind (fetch env (arr_get Sonarr (ac_sonarr_key cf)
                    (''/api/v3/episodefile/'' @ plain_text (jget entry ''episodeFileId'')) [])) (\<lambda>file.
           rbind (give (as_dict file)) (\<lambda>fd.
           if \<not> sonarr_file_matches (jget entry ''episodeFileId'') path st fd
           then refuse 409 ''Sonarr file does not match Jellyfin''
           else give (Inr (episode_payload path st series_id entry tmdb season episode)))))))))))))"

section \<open>A season\<close>

text \<open>\<open>_season_directory\<close>\<close>

definition season_directory ::
    "'w api_env \<Rightarrow> admission_config \<Rightarrow> json \<Rightarrow> ('w, posix \<times> file_stat) req" where
  "season_directory env cf raw =
     (case as_str raw of
        None \<Rightarrow> refuse 409 ''season has no local directory''
      | Some text_path \<Rightarrow>
          if text_path = [] then refuse 409 ''season has no local directory''
          else
            let path = posix_of text_path; base = posix_join (ac_media_root cf) ''tv'' in
            rbind (look (\<lambda>w. a_inside_strict env w path base) (Refused 409 ''season directory is unavailable'')) (\<lambda>inside.
            if \<not> absolute path \<or> path = base \<or> ''..'' \<in> set (px_parts path) \<or> \<not> relative_to path base \<or> \<not> inside
            then refuse 409 ''season path is outside the expected library''
            else
              rbind (no_link env (parent_of (ac_media_root cf)) ''season path contains a symlink'' (with_parents path)) (\<lambda>_.
              rbind (look (\<lambda>w. a_stat env w path) Crashed) (\<lambda>st.
              if \<not> fs_directory st then refuse 409 ''season path is not a directory''
              else give (Inr (path, st))))))"

definition provider_dict :: "json \<Rightarrow> refusal + (string \<times> json) list" where
  "provider_dict j =
     (if \<not> truthy j then Inr []
      else (case as_obj j of None \<Rightarrow> Inl (Refused 409 ''series identity unavailable'') | Some d \<Rightarrow> Inr d))"

definition season_series :: "string \<Rightarrow> posix \<Rightarrow> json \<Rightarrow> refusal + int" where
  "season_series digits directory answer =
     (let ds = (case as_list answer of None \<Rightarrow> [] | Some xs \<Rightarrow> dicts xs) in
      (case filter (\<lambda>d. decimal_text (jget d ''tvdbId'') = Some digits) ds of
         [d] \<Rightarrow>
           if \<not> positive_int (jget d ''id'') then Inl (Refused 409 ''series does not match one Sonarr entry'')
           else if jget d ''path'' \<noteq> JStr (posix_text directory)
           then Inl (Refused 409 ''Sonarr series directory does not match Jellyfin'')
           else Inr (pint d ''id'')
       | _ \<Rightarrow> Inl (Refused 409 ''series does not match one Sonarr entry'')))"

definition listed_episode :: "int \<Rightarrow> json \<Rightarrow> bool" where
  "listed_episode series_id j =
     (case as_obj j of
        None \<Rightarrow> False
      | Some d \<Rightarrow>
          positive_int (jget d ''id'') \<and> py_eq (jget d ''seriesId'') (JInt series_id) \<and>
          natural_int (jget d ''seasonNumber'') \<and> natural_int (jget d ''episodeNumber'') \<and>
          natural_int (jget d ''episodeFileId''))"

text \<open>The episodes of Sonarr: all of them, and those of the season.\<close>

definition season_listing ::
    "int \<Rightarrow> int \<Rightarrow> json \<Rightarrow> refusal + (string \<times> json) list list \<times> (string \<times> json) list list" where
  "season_listing series_id season answer =
     (case as_list answer of
        None \<Rightarrow> Inl (Refused 409 ''Sonarr episode snapshot is incomplete'')
      | Some xs \<Rightarrow>
          if \<not> list_all (listed_episode series_id) xs
          then Inl (Refused 409 ''Sonarr episode snapshot is incomplete'')
          else
            let ds = dicts xs; selected = filter (\<lambda>d. pint d ''seasonNumber'' = season) ds in
            if selected = [] \<or> \<not> distinct (map (\<lambda>d. pint d ''id'') ds) \<or>
               \<not> distinct (map (\<lambda>d. pint d ''episodeNumber'') selected)
            then Inl (Refused 409 ''Sonarr season identity is ambiguous'')
            else Inr (ds, selected))"

definition season_items :: "json \<Rightarrow> refusal + json list" where
  "season_items answer =
     (case as_obj answer of
        None \<Rightarrow> Inl (Refused 409 ''Jellyfin season snapshot is incomplete'')
      | Some d \<Rightarrow>
          (case as_list (jget d ''Items'') of
             None \<Rightarrow> Inl (Refused 409 ''Jellyfin season snapshot is incomplete'')
           | Some xs \<Rightarrow>
               if xs = [] \<or> jget d ''TotalRecordCount'' \<noteq> JInt (int (length xs)) \<or>
                  map_of d ''StartIndex'' \<noteq> None \<and> \<not> py_eq (jget d ''StartIndex'') (JInt 0)
               then Inl (Refused 409 ''Jellyfin season snapshot is incomplete'')
               else Inr xs))"

text \<open>What the loop over the children has seen: items, episodes and paths.\<close>

record season_seen =
  sn_items :: "string list"
  sn_episodes :: "int list"
  sn_paths :: "posix list"

record season_scope =
  sc_item :: json
  sc_series :: string
  sc_season :: int
  sc_directory :: posix
  sc_tmdb :: "string \<times> int"
  sc_series_id :: int
  sc_listed :: "(string \<times> json) list list"
  sc_selected :: "(string \<times> json) list list"

definition child_of_season :: "season_scope \<Rightarrow> season_seen \<Rightarrow> (string \<times> json) list \<Rightarrow> bool" where
  "child_of_season sc seen c =
     (jget c ''Type'' = JStr ''Episode'' \<and> jget c ''SeriesId'' = JStr (sc_series sc) \<and>
      py_eq (jget c ''SeasonId'') (sc_item sc) \<and>
      py_eq (jget c ''ParentIndexNumber'') (JInt (sc_season sc)) \<and> as_int (jget c ''IndexNumber'') \<noteq> None \<and>
      (case as_str (jget c ''Id'') of
         None \<Rightarrow> False
       | Some i \<Rightarrow> hex32 i \<and> i \<notin> set (sn_items seen) \<and> JStr i \<noteq> sc_item sc))"

text \<open>The episode of Sonarr behind a child.\<close>

definition season_entry :: "season_scope \<Rightarrow> season_seen \<Rightarrow> int \<Rightarrow> refusal + (string \<times> json) list" where
  "season_entry sc seen number =
     (case filter (\<lambda>d. pint d ''episodeNumber'' = number) (sc_selected sc) of
        [d] \<Rightarrow>
          if pint d ''episodeFileId'' \<le> 0 then Inl (Refused 409 ''episode does not match one Sonarr file'')
          else if pint d ''id'' \<in> set (sn_episodes seen) \<or>
                  length (filter (\<lambda>x. pint x ''episodeFileId'' = pint d ''episodeFileId'') (sc_listed sc)) \<noteq> 1
          then Inl (Refused 409 ''episode file is shared with another episode'')
          else Inr d
      | _ \<Rightarrow> Inl (Refused 409 ''episode does not match one Sonarr file''))"

definition child_payload :: "season_scope \<Rightarrow> posix \<Rightarrow> file_stat \<Rightarrow> (string \<times> json) list \<Rightarrow> (string \<times> json) list" where
  "child_payload sc path st entry =
     episode_payload path st (JInt (sc_series_id sc)) entry (sc_tmdb sc) (JInt (sc_season sc))
       (jget entry ''episodeNumber'') @ [(''parent_item_id'', sc_item sc)]"

definition capture_child ::
    "'w api_env \<Rightarrow> admission_config \<Rightarrow> season_scope \<Rightarrow> season_seen \<Rightarrow> json \<Rightarrow>
     ('w, season_seen \<times> int \<times> json) req" where
  "capture_child env cf sc seen child =
     (case as_obj child of
        None \<Rightarrow> refuse 409 ''Jellyfin child is outside the captured season''
      | Some c \<Rightarrow>
          rbind (require (child_of_season sc seen c) 409 ''Jellyfin child is outside the captured season'') (\<lambda>_.
          rbind (file_identity env cf (jget c ''Path'') ''tv'') (\<lambda>(path, st).
          rbind (require (relative_to path (sc_directory sc) \<and> path \<notin> set (sn_paths seen)) 409
                   ''episode path is outside the captured season'') (\<lambda>_.
          rbind (give (season_entry sc seen (pint c ''IndexNumber''))) (\<lambda>entry.
          rbind (fetch env (arr_get Sonarr (ac_sonarr_key cf)
                   (''/api/v3/episodefile/'' @ show_int (pint entry ''episodeFileId'')) [])) (\<lambda>file.
          rbind (require (case as_obj file of None \<Rightarrow> False
                          | Some fd \<Rightarrow> sonarr_file_matches (jget entry ''episodeFileId'') path st fd) 409
                   ''Sonarr file does not match Jellyfin'') (\<lambda>_.
          give (Inr (seen\<lparr>sn_items := pstr c ''Id'' # sn_items seen,
                          sn_episodes := pint entry ''id'' # sn_episodes seen,
                          sn_paths := path # sn_paths seen\<rparr>,
                     pint entry ''episodeNumber'',
                     JObj [(''item_id'', jget c ''Id''), (''payload'', JObj (child_payload sc path st entry))])))))))))"

fun capture_children ::
    "'w api_env \<Rightarrow> admission_config \<Rightarrow> season_scope \<Rightarrow> season_seen \<Rightarrow> json list \<Rightarrow>
     ('w, season_seen \<times> (int \<times> json) list) req" where
  "capture_children env cf sc seen [] = give (Inr (seen, []))"
| "capture_children env cf sc seen (c # cs) =
     rbind (capture_child env cf sc seen c) (\<lambda>(seen', number, entry).
     rbind (capture_children env cf sc seen' cs) (\<lambda>(last_seen, rest).
     give (Inr (last_seen, (number, entry) # rest))))"

text \<open>The metadata files of the directory: names \<open>_SEASON_METADATA\<close> matches.\<close>

fun capture_metadata ::
    "'w api_env \<Rightarrow> admission_config \<Rightarrow> posix \<Rightarrow> string list \<Rightarrow> ('w, json list) req" where
  "capture_metadata env cf directory [] = give (Inr [])"
| "capture_metadata env cf directory (name # names) =
     (if lower name \<notin> set metadata_names then capture_metadata env cf directory names
      else
        rbind (file_identity env cf (JStr (posix_text (posix_join directory name))) ''tv'') (\<lambda>(path, st).
        if 50000000 < fs_size st then refuse 409 ''season metadata is not a small regular file''
        else
          rbind (capture_metadata env cf directory names) (\<lambda>rest.
          give (Inr (JObj [(''file_path'', JStr (posix_text path)),
                           (''file_identity'', JObj (identity_json st))] # rest)))))"

definition season_captured_payload ::
    "season_scope \<Rightarrow> int \<Rightarrow> file_stat \<Rightarrow> (int \<times> json) list \<Rightarrow> json list \<Rightarrow> (string \<times> json) list" where
  "season_captured_payload sc tvdb st children metadata =
     [(''media_key'', JStr (''season:tmdb:'' @ fst (sc_tmdb sc) @ '':'' @ show_int (sc_season sc))),
      (''series_tmdb_id'', JInt (snd (sc_tmdb sc))), (''series_tvdb_id'', JInt tvdb),
      (''sonarr_series_id'', JInt (sc_series_id sc)), (''season'', JInt (sc_season sc)),
      (''file_path'', JStr (posix_text (sc_directory sc))),
      (''directory_identity'', JObj [(''device'', JInt (fs_device st)), (''inode'', JInt (fs_inode st))]),
      (''episodes'', JList (map snd (sort_key fst children))),
      (''sonarr_episode_ids'', JList (map JInt (sort (map (\<lambda>d. pint d ''id'') (sc_selected sc))))),
      (''metadata_files'', JList metadata)]"

text \<open>The children and the metadata, once the scope of the season is known.\<close>

definition capture_contents ::
    "'w api_env \<Rightarrow> admission_config \<Rightarrow> season_scope \<Rightarrow> int \<Rightarrow> file_stat \<Rightarrow> json list \<Rightarrow>
     ('w, (string \<times> json) list) req" where
  "capture_contents env cf sc tvdb st items =
     rbind (capture_children env cf sc \<lparr>sn_items = [], sn_episodes = [], sn_paths = []\<rparr> items) (\<lambda>(seen, children).
     rbind (require (set (sn_episodes seen) =
                     set (map (\<lambda>d. pint d ''id'') (filter (\<lambda>d. 0 < pint d ''episodeFileId'') (sc_selected sc))))
              409 ''Jellyfin season does not cover every Sonarr file'') (\<lambda>_.
     rbind (look (\<lambda>w. a_listdir env w (sc_directory sc)) Crashed) (\<lambda>names.
     rbind (capture_metadata env cf (sc_directory sc) (sort names)) (\<lambda>metadata.
     give (Inr (season_captured_payload sc tvdb st children metadata))))))"

definition same_series :: "string \<Rightarrow> json \<Rightarrow> refusal + (string \<times> json) list" where
  "same_series series_id j =
     (case as_obj j of
        None \<Rightarrow> Inl (Refused 409 ''Jellyfin series identity changed'')
      | Some d \<Rightarrow>
          if jget d ''Id'' \<noteq> JStr series_id \<or> jget d ''Type'' \<noteq> JStr ''Series''
          then Inl (Refused 409 ''Jellyfin series identity changed'') else Inr d)"

text \<open>\<open>_capture_season\<close>\<close>

definition capture_season ::
    "'w api_env \<Rightarrow> admission_config \<Rightarrow> string \<Rightarrow> string \<Rightarrow> (string \<times> json) list \<Rightarrow> ('w, (string \<times> json) list) req" where
  "capture_season env cf token user item =
     rbind (season_directory env cf (jget item ''Path'')) (\<lambda>(directory, st).
     case (as_int (jget item ''IndexNumber''), as_str (jget item ''SeriesId'')) of
       (Some season, Some series_id) \<Rightarrow>
         rbind (require (0 \<le> season \<and> hex32 series_id) 409 ''season coordinates unavailable'') (\<lambda>_.
         rbind (fetch env (jellyfin_get token (''/Users/'' @ user @ ''/Items/'' @ series_id) [])) (\<lambda>answer.
         rbind (give (same_series series_id answer)) (\<lambda>series.
         rbind (season_directory env cf (jget series ''Path'')) (\<lambda>(series_directory, _).
         rbind (require (directory \<noteq> series_directory \<and> relative_to directory series_directory) 409
                  ''season path is not a separate series subdirectory'') (\<lambda>_.
         rbind (give (ebind (provider_dict (jget series ''ProviderIds'')) series_numbers)) (\<lambda>(tvdb, tmdb).
         rbind (require (ac_sonarr_url cf \<and> ac_sonarr_key cf \<noteq> []) 503 ''Sonarr is not configured'') (\<lambda>_.
         rbind (fetch env (arr_get Sonarr (ac_sonarr_key cf) ''/api/v3/series'' [])) (\<lambda>all_series.
         rbind (give (season_series (fst tvdb) series_directory all_series)) (\<lambda>sonarr_id.
         rbind (fetch env (arr_get Sonarr (ac_sonarr_key cf) ''/api/v3/episode''
                  [(''seriesId'', JStr (show_int sonarr_id))])) (\<lambda>episodes.
         rbind (give (season_listing sonarr_id season episodes)) (\<lambda>(listed, selected).
         rbind (fetch env (jellyfin_get token (''/Shows/'' @ series_id @ ''/Episodes'')
                  [(''userId'', JStr user), (''seasonId'', jget item ''Id''), (''fields'', JStr ''Path''),
                   (''isMissing'', JStr ''false'')])) (\<lambda>result.
         rbind (give (season_items result)) (\<lambda>items.
         capture_contents env cf
           \<lparr>sc_item = jget item ''Id'', sc_series = series_id, sc_season = season, sc_directory = directory,
            sc_tmdb = tmdb, sc_series_id = sonarr_id, sc_listed = listed, sc_selected = selected\<rparr>
           (snd tvdb) st items)))))))))))))
     | _ \<Rightarrow> refuse 409 ''season coordinates unavailable'')"

section \<open>Admission\<close>

text \<open>\<open>str(item.get("Id", "")).lower() == item_id.lower()\<close>\<close>

definition id_text :: "json \<Rightarrow> string option" where
  "id_text j = (case j of JStr s \<Rightarrow> Some s | JInt n \<Rightarrow> Some (show_int n) | _ \<Rightarrow> None)"

definition same_item :: "string \<Rightarrow> json \<Rightarrow> refusal + (string \<times> json) list" where
  "same_item item_id j =
     (case as_obj j of
        None \<Rightarrow> Inl (Refused 409 ''Jellyfin item identity changed'')
      | Some d \<Rightarrow>
          if map_option lower (id_text (jget d ''Id'')) \<noteq> Some (lower item_id)
          then Inl (Refused 409 ''Jellyfin item identity changed'') else Inr d)"

text \<open>The user behind the token: an administrator who may delete.\<close>

definition session_user :: "json \<Rightarrow> refusal + string" where
  "session_user j =
     (case Option.bind (as_obj j) (\<lambda>d. map_option (Pair d) (as_str (jget d ''Id''))) of
        None \<Rightarrow> Inl (Refused 403 ''Jellyfin session is not authorized'')
      | Some (d, user) \<Rightarrow>
          ebind (or_empty (jget d ''Policy'')) (\<lambda>policy.
          if truthy (jget policy ''IsAdministrator'') \<and> truthy (jget policy ''EnableContentDeletion'')
          then Inr user
          else Inl (Refused 403 ''Jellyfin administrator deletion permission required'')))"

definition admit_job :: "'w api_env \<Rightarrow> string \<Rightarrow> string \<Rightarrow> (string \<times> json) list \<Rightarrow> ('w, deletion_job) req" where
  "admit_job env item_id kind payload =
     rbind (look (\<lambda>w. case a_now env w of (t, w') \<Rightarrow> (Some t, w')) Crashed) (\<lambda>now s.
     case enqueue item_id kind payload now (ad_jobs s) of (jobs, j) \<Rightarrow> (Inr j, s\<lparr>ad_jobs := jobs\<rparr>))"

definition admit_season :: "'w api_env \<Rightarrow> string \<Rightarrow> (string \<times> json) list \<Rightarrow> ('w, deletion_job) req" where
  "admit_season env item_id payload =
     rbind (look (\<lambda>w. case a_now env w of (t, w') \<Rightarrow> (Some t, w')) Crashed) (\<lambda>now s.
     case enqueue_season item_id payload now (ad_jobs s) of
       Inl e \<Rightarrow> (Inl (case e of ValueError detail \<Rightarrow> Refused 409 detail | _ \<Rightarrow> Crashed), s)
     | Inr (jobs, j) \<Rightarrow> (Inr j, s\<lparr>ad_jobs := jobs\<rparr>))"

definition capture_item ::
    "'w api_env \<Rightarrow> admission_config \<Rightarrow> string \<Rightarrow> string \<Rightarrow> string \<Rightarrow> (string \<times> json) list \<Rightarrow> ('w, deletion_job) req" where
  "capture_item env cf item_id token user item =
     (let kind = jget item ''Type'' in
      if kind = JStr ''Movie'' then
        rbind (capture_movie env cf item) (admit_job env item_id ''Movie'')
      else if kind = JStr ''Episode'' then
        rbind (capture_episode env cf token user item) (admit_job env item_id ''Episode'')
      else if kind = JStr ''Season'' then
        rbind (capture_season env cf token user item) (admit_season env item_id)
      else refuse 422 ''delete movies, episodes or a season'')"

text \<open>\<open>capture\<close>\<close>

definition capture_deletion ::
    "'w api_env \<Rightarrow> admission_config \<Rightarrow> string \<Rightarrow> string \<Rightarrow> ('w, deletion_job) req" where
  "capture_deletion env cf item_id token =
     rbind (require (hex32 item_id \<and> token \<noteq> []) 401 ''valid Jellyfin session required'') (\<lambda>_.
     rbind (fetch env (jellyfin_get token ''/Users/Me'' [])) (\<lambda>me.
     rbind (give (session_user me)) (\<lambda>user.
     rbind (check_mount env cf) (\<lambda>_.
     rbind (\<lambda>s. (Inr (get_job item_id (ad_jobs s)), s)) (\<lambda>existing.
     case existing of
       Some j \<Rightarrow> give (Inr j)
     | None \<Rightarrow>
         rbind (fetch env (jellyfin_get token (''/Users/'' @ user @ ''/Items/'' @ item_id) [])) (\<lambda>answer.
         rbind (give (same_item item_id answer)) (capture_item env cf item_id token user)))))))"

end
