(* ===== verification/CaptureFacts.thy ===== *)
theory CaptureFacts
  imports DeletionAdmission Bencode
begin

text \<open>
  What a captured payload contains, and that the deletion worker's checks accept it: facts on
  canonical JSON, on paths that are printed and read again, and on the loops of the capture
  of a season.
\<close>

section \<open>Results of requests\<close>

lemma refuse_Inr [req_simps]: "refuse n detail s \<noteq> (Inr x, s')"
  by (simp add: refuse_def give_def)

lemma require_Inr [req_simps]: "require b n detail s = (Inr x, s') \<longleftrightarrow> b \<and> s' = s"
  by (auto simp: require_def req_simps)

lemma look_Inr [req_simps]:
  "look f e s = (Inr x, s') \<longleftrightarrow> (\<exists>w. f (ad_world s) = (Some x, w) \<and> s' = s\<lparr>ad_world := w\<rparr>)"
  by (auto simp: look_def split: prod.splits option.splits)

section \<open>Canonical JSON\<close>

definition sorted_dict :: "(string \<times> json) list \<Rightarrow> (string \<times> json) list" where
  "sorted_dict d = sort_key fst (map (\<lambda>(k, v). (k, sort_json v)) d)"

lemma sort_obj: "sort_json (JObj d) = JObj (sorted_dict d)"
  by (simp add: sorted_dict_def)

lemma map_of_sorted:
  assumes "distinct (map fst fs)"
  shows "map_of (sort_key fst fs) k = map_of fs k"
proof -
  have "mset (map fst (sort_key fst fs)) = mset (map fst fs)" by simp
  with assms have "distinct (map fst (sort_key fst fs))" by (metis mset_eq_imp_distinct_iff)
  with assms show ?thesis by (metis map_of_inject_set set_sort)
qed

lemma sorted_get:
  assumes "distinct (map fst d)"
  shows "jget (sorted_dict d) k = sort_json (jget d k)"
proof -
  have "map fst (map (\<lambda>(k, v). (k, sort_json v)) d) = map fst d" by (simp add: case_prod_beta comp_def)
  with assms have "map_of (sorted_dict d) k = map_option sort_json (map_of d k)"
    unfolding sorted_dict_def by (simp only: map_of_sorted map_of_map comp_apply)
  then show ?thesis by (cases "map_of d k") (simp_all add: jget_def get_or_def)
qed

lemma sorted_str [simp]: "as_str (sort_json j) = as_str j"
  by (cases j) auto

lemma sorted_int [simp]: "as_int (sort_json j) = as_int j"
  by (cases j) auto

lemma sorted_numbers [simp]:
  "positive_int (sort_json j) = positive_int j" "natural_int (sort_json j) = natural_int j"
  by (simp_all add: positive_int_def natural_int_def)

lemma sorted_scalar [simp]: "sort_json j = JStr s \<longleftrightarrow> j = JStr s" "sort_json j = JInt n \<longleftrightarrow> j = JInt n"
  by (cases j; simp)+

section \<open>Paths\<close>

definition plain_path :: "posix \<Rightarrow> bool" where
  "plain_path p =
     (px_root p \<in> {''/'', ''//''} \<and>
      (\<forall>w\<in>set (px_parts p). w \<noteq> [] \<and> w \<noteq> ''.'' \<and> CHR ''/'' \<notin> set w))"

lemma posix_of_plain: "absolute (posix_of s) \<Longrightarrow> plain_path (posix_of s)"
  by (auto simp: plain_path_def posix_of_def absolute_def dest: split_on_no_sep split: if_splits)

lemma starts_with_Cons: "starts_with (c # q) (c # t) = starts_with q t"
  by (simp add: starts_with_def)

lemma starts_with_Nil: "starts_with [] t"
  by (simp add: starts_with_def)

lemma posix_of_slashes:
  assumes "filter (\<lambda>w. w \<noteq> [] \<and> w \<noteq> ''.'') (split_on CHR ''/'' j) = ws" and "\<not> starts_with ''/'' j"
  shows "posix_of (CHR ''/'' # j) = \<lparr>px_root = ''/'', px_parts = ws\<rparr>"
    and "posix_of (CHR ''/'' # CHR ''/'' # j) = \<lparr>px_root = ''//'', px_parts = ws\<rparr>"
  unfolding posix_of_def using assms by (simp_all add: starts_with_Cons starts_with_Nil)

lemma posix_read:
  assumes "plain_path p"
  shows "posix_of (posix_text p) = p"
proof -
  let ?j = "join_with ''/'' (px_parts p)"
  have parts: "filter (\<lambda>w. w \<noteq> [] \<and> w \<noteq> ''.'') (split_on CHR ''/'' ?j) = px_parts p"
  proof (cases "px_parts p = []")
    case True
    then show ?thesis by simp
  next
    case False
    then have "split_on CHR ''/'' ?j = px_parts p"
      using assms by (intro split_join) (auto simp: plain_path_def)
    then show ?thesis using assms by (auto simp: plain_path_def filter_id_conv)
  qed
  have slash: "\<not> starts_with ''/'' ?j"
  proof (cases "px_parts p")
    case Nil
    then show ?thesis by (simp add: starts_with_def)
  next
    case (Cons w ws)
    with assms have "w \<noteq> []" "CHR ''/'' \<notin> set w" by (auto simp: plain_path_def)
    then obtain c cs where w: "w = c # cs" "c \<noteq> CHR ''/''" by (cases w) auto
    show ?thesis by (cases ws) (simp_all add: Cons w starts_with_def)
  qed
  note read = posix_of_slashes [OF parts slash]
  from assms consider "px_root p = ''/''" | "px_root p = ''//''" by (auto simp: plain_path_def)
  then show ?thesis
  proof cases
    case 1
    then have t: "posix_text p = CHR ''/'' # ?j" by (simp add: posix_text_def)
    have "posix_of (posix_text p) = \<lparr>px_root = ''/'', px_parts = px_parts p\<rparr>" unfolding t by (rule read(1))
    also have "\<dots> = p" using 1 by (intro posix.equality) simp_all
    finally show ?thesis .
  next
    case 2
    then have t: "posix_text p = CHR ''/'' # CHR ''/'' # ?j" by (simp add: posix_text_def)
    have "posix_of (posix_text p) = \<lparr>px_root = ''//'', px_parts = px_parts p\<rparr>" unfolding t by (rule read(2))
    also have "\<dots> = p" using 2 by (intro posix.equality) simp_all
    finally show ?thesis .
  qed
qed

lemma posix_text_nonempty:
  assumes "plain_path p"
  shows "posix_text p \<noteq> []"
proof -
  have "px_root p \<noteq> []" using assms unfolding plain_path_def by (metis insertE list.discI singletonD)
  then show ?thesis by (simp add: posix_text_def)
qed

section \<open>Captured files\<close>

definition stat_natural :: "file_stat \<Rightarrow> bool" where
  "stat_natural st = (0 \<le> fs_device st \<and> 0 \<le> fs_inode st \<and> 0 \<le> fs_size st \<and> 0 \<le> fs_mtime_ns st)"

lemma file_identity_Inr:
  assumes "file_identity env cf raw lib s = (Inr (path, st), s')"
  shows "plain_path path \<and> relative_to path (posix_join (ac_media_root cf) lib) \<and> fs_regular st \<and>
    (\<exists>w w'. a_stat env w path = (Some st, w'))"
proof -
  have p: "absolute path \<and> relative_to path (posix_join (ac_media_root cf) lib) \<and> fs_regular st \<and>
    (\<exists>w w'. a_stat env w path = (Some st, w')) \<and> (\<exists>t. path = posix_of t)"
    using assms by (auto simp: file_identity_def req_simps Let_def split: option.splits if_splits)
  then show ?thesis using posix_of_plain by auto
qed

lemma sorted_identity:
  "jget (sorted_dict (identity_json st)) ''device'' = JInt (fs_device st)"
  "jget (sorted_dict (identity_json st)) ''inode'' = JInt (fs_inode st)"
  "jget (sorted_dict (identity_json st)) ''size'' = JInt (fs_size st)"
  "jget (sorted_dict (identity_json st)) ''mtime_ns'' = JInt (fs_mtime_ns st)"
  by (subst sorted_get; simp add: identity_json_def jget_def get_or_def)+

lemma identity_natural:
  "list_ex (\<lambda>k. \<not> natural_int (jget (sorted_dict (identity_json st)) k)) identity_keys \<longleftrightarrow> \<not> stat_natural st"
  by (auto simp: identity_keys_def sorted_identity natural_int_def stat_natural_def)

lemma positive_decimal_Inr:
  assumes "positive_decimal detail j = Inr (s, n)"
  shows "digits1 s \<and> length s \<le> 4300 \<and> n = int (to_nat s) \<and> 0 < n"
proof -
  have "digits1 (show_nat m)" for m
    using show_nat_digits [of m] by (simp add: digits1_def list_all_iff)
  then have "digits1 t" if "decimal_text j = Some t" for t
    using that by (cases j) (auto split: if_splits)
  with assms show ?thesis by (auto simp: positive_decimal_def split: option.splits if_splits)
qed

section \<open>A captured movie\<close>

lemma capture_movie_Inr:
  assumes "capture_movie env cf item s = (Inr payload, s')"
  shows "\<exists>path st digits ids. payload = movie_payload path st (digits, int (to_nat digits)) ids \<and>
    plain_path path \<and> digits1 digits \<and> length digits \<le> 4300 \<and> 0 < to_nat digits \<and>
    (\<exists>w w'. a_stat env w path = (Some st, w'))"
proof -
  obtain path st tmdb ids providers s1 where f: "file_identity env cf (jget item ''Path'') ''movies'' s = (Inr (path, st), s1)"
    and t: "positive_decimal ''movie has no TMDB identity'' (jget providers ''Tmdb'') = Inr tmdb"
    and p: "payload = movie_payload path st tmdb ids"
    using assms unfolding capture_movie_def by (auto simp: req_simps split: prod.splits)
  obtain digits n where tm: "tmdb = (digits, n)" by (cases tmdb)
  with t have d: "digits1 digits \<and> length digits \<le> 4300 \<and> n = int (to_nat digits) \<and> 0 < n"
    using positive_decimal_Inr by simp
  with p tm have "payload = movie_payload path st (digits, int (to_nat digits)) ids" and "0 < to_nat digits"
    by auto
  then show ?thesis using file_identity_Inr [OF f] d by blast
qed

lemma distinct_movie: "distinct (map fst (movie_payload path st tmdb ids))"
  by (simp add: movie_payload_def)

lemma movie_fields:
  "jget (sorted_dict (movie_payload path st tmdb ids)) ''media_key'' = JStr (''movie:tmdb:'' @ fst tmdb)"
  "jget (sorted_dict (movie_payload path st tmdb ids)) ''tmdb_id'' = JInt (snd tmdb)"
  "jget (sorted_dict (movie_payload path st tmdb ids)) ''radarr_id'' = sort_json (fst ids)"
  "jget (sorted_dict (movie_payload path st tmdb ids)) ''radarr_file_id'' = sort_json (snd ids)"
  "jget (sorted_dict (movie_payload path st tmdb ids)) ''file_path'' = JStr (posix_text path)"
  "jget (sorted_dict (movie_payload path st tmdb ids)) ''file_identity'' = JObj (sorted_dict (identity_json st))"
  unfolding sorted_get [OF distinct_movie] by (simp_all add: movie_payload_def jget_def get_or_def sorted_dict_def)

lemma movie_accepted:
  assumes "digits1 digits" and "length digits \<le> 4300" and "0 < to_nat digits"
  shows "is_ok (captured_payload (new_job item_id ''Movie'' (movie_payload path st (digits, int (to_nat digits)) ids) now)) \<longleftrightarrow>
    posnum digits \<and> positive_int (fst ids) \<and> positive_int (snd ids) \<and> stat_natural st"
proof -
  let ?p = "sorted_dict (movie_payload path st (digits, int (to_nat digits)) ids)"
  let ?job = "new_job item_id ''Movie'' (movie_payload path st (digits, int (to_nat digits)) ids) now"
  have p: "as_obj (dj_payload ?job) = Some ?p" by (simp add: new_job_def sort_obj del: sort_json.simps)
  have k: "dj_item_type ?job = ''Movie''" by (simp add: new_job_def)
  have eq: "py_eq (JInt n) (JInt n)" for n by (simp add: py_eq_def)
  have m: "movie_number (''movie:tmdb:'' @ digits) = (if posnum digits then Some digits else None)"
    by (simp add: movie_number_def strip_prefix_def starts_with_def)
  have ident: "item_identity ?job ?p =
      (if posnum digits then Inr [''radarr_id'', ''radarr_file_id'', ''tmdb_id'']
       else Inl (Blocking ''movie identity is invalid''))"
    using assms(2) by (simp add: item_identity_def k movie_fields m [simplified] int_of_digits_def eq)
  have t: "positive_int (JInt (int (to_nat digits)))" using assms(3) by (simp add: positive_int_def)
  show ?thesis
    unfolding captured_payload_def p k option.case ident
    using identity_natural [of st] t
    by (auto simp: movie_fields is_ok_def)
qed

section \<open>A captured season\<close>

text \<open>The loop over the children.\<close>

definition entry_id :: "json \<Rightarrow> string" where
  "entry_id j = (case as_obj j of None \<Rightarrow> [] | Some d \<Rightarrow> pstr d ''item_id'')"

definition captured_child :: "'w api_env \<Rightarrow> season_scope \<Rightarrow> int \<times> json \<Rightarrow> bool" where
  "captured_child env sc child =
     (\<exists>path st e. snd child = JObj [(''item_id'', JStr (entry_id (snd child))),
                                    (''payload'', JObj (child_payload sc path st e))] \<and>
        hex32 (entry_id (snd child)) \<and> JStr (entry_id (snd child)) \<noteq> sc_item sc \<and>
        plain_path path \<and> relative_to path (sc_directory sc) \<and> (\<exists>w w'. a_stat env w path = (Some st, w')) \<and>
        e \<in> set (sc_selected sc) \<and> 0 < pint e ''episodeFileId'' \<and> fst child = pint e ''episodeNumber'')"

lemma capture_child_Inr:
  assumes "capture_child env cf sc seen child s = (Inr (seen', n, j), s')"
  shows "captured_child env sc (n, j) \<and> entry_id j \<notin> set (sn_items seen) \<and>
    sn_items seen' = entry_id j # sn_items seen"
proof -
  obtain c path st e s1 where c: "child_of_season sc seen c"
    and f: "file_identity env cf (jget c ''Path'') ''tv'' s = (Inr (path, st), s1)"
    and r: "relative_to path (sc_directory sc)"
    and e: "season_entry sc seen (pint c ''IndexNumber'') = Inr e"
    and out: "seen' = seen\<lparr>sn_items := pstr c ''Id'' # sn_items seen, sn_episodes := pint e ''id'' # sn_episodes seen,
                         sn_paths := path # sn_paths seen\<rparr>"
      "n = pint e ''episodeNumber''"
      "j = JObj [(''item_id'', jget c ''Id''), (''payload'', JObj (child_payload sc path st e))]"
    using assms by (auto simp: capture_child_def req_simps split: option.splits prod.splits)
  from c obtain i where i: "jget c ''Id'' = JStr i" "hex32 i" "i \<notin> set (sn_items seen)" "JStr i \<noteq> sc_item sc"
    by (auto simp: child_of_season_def as_str_Some split: option.splits)
  have id: "entry_id j = i" by (simp add: entry_id_def out(3) pstr_def jget_def get_or_def i(1) [unfolded jget_def get_or_def])
  have sel: "e \<in> set (sc_selected sc) \<and> 0 < pint e ''episodeFileId''"
  proof -
    have "filter (\<lambda>d. pint d ''episodeNumber'' = pint c ''IndexNumber'') (sc_selected sc) = [e]"
      and pos: "0 < pint e ''episodeFileId''"
      using e by (auto simp: season_entry_def split: list.splits if_splits)
    then have "e \<in> set (filter (\<lambda>d. pint d ''episodeNumber'' = pint c ''IndexNumber'') (sc_selected sc))"
      by (metis list.set_intros(1))
    with pos show ?thesis by simp
  qed
  have "captured_child env sc (n, j)" unfolding captured_child_def fst_conv snd_conv id
    using file_identity_Inr [OF f] r sel i out by (intro exI [of _ path] exI [of _ st] exI [of _ e]) simp
  with i id out show ?thesis by (simp add: pstr_def)
qed

lemma capture_children_Inr:
  assumes "capture_children env cf sc seen cs s = (Inr (last_seen, children), s')"
  shows "(\<forall>c\<in>set children. captured_child env sc c) \<and> distinct (map (entry_id \<circ> snd) children) \<and>
    set (map (entry_id \<circ> snd) children) \<inter> set (sn_items seen) = {} \<and> length children = length cs"
  using assms
proof (induction cs arbitrary: seen s children)
  case Nil
  then show ?case by (simp add: req_simps)
next
  case (Cons c cs)
  from Cons.prems obtain seen' n j s1 rest where c: "capture_child env cf sc seen c s = (Inr (seen', n, j), s1)"
    and rest: "capture_children env cf sc seen' cs s1 = (Inr (last_seen, rest), s')"
    and out: "children = (n, j) # rest"
    by (auto simp: req_simps)
  from capture_child_Inr [OF c] Cons.IH [OF rest] out show ?case by auto
qed

text \<open>The scope of a season.\<close>

definition scope_wf :: "season_scope \<Rightarrow> bool" where
  "scope_wf sc =
     (plain_path (sc_directory sc) \<and> digits1 (fst (sc_tmdb sc)) \<and> length (fst (sc_tmdb sc)) \<le> 4300 \<and>
      snd (sc_tmdb sc) = int (to_nat (fst (sc_tmdb sc))) \<and> 0 < snd (sc_tmdb sc) \<and>
      0 < sc_series_id sc \<and> 0 \<le> sc_season sc \<and> sc_selected sc \<noteq> [] \<and>
      distinct (map (\<lambda>d. pint d ''id'') (sc_selected sc)) \<and>
      (\<forall>e\<in>set (sc_selected sc). positive_int (jget e ''id'') \<and> natural_int (jget e ''episodeNumber'') \<and>
         natural_int (jget e ''episodeFileId'')))"

lemma season_directory_Inr:
  assumes "season_directory env cf raw s = (Inr (path, st), s')"
  shows "plain_path path \<and> (\<exists>w w'. a_stat env w path = (Some st, w'))"
proof -
  have "absolute path \<and> (\<exists>w w'. a_stat env w path = (Some st, w')) \<and> (\<exists>t. path = posix_of t)"
    using assms by (auto simp: season_directory_def req_simps Let_def split: option.splits if_splits)
  then show ?thesis using posix_of_plain by auto
qed

lemma season_listing_Inr:
  assumes "season_listing series_id season answer = Inr (ds, selected)"
  shows "selected \<noteq> [] \<and> distinct (map (\<lambda>d. pint d ''id'') selected) \<and>
    (\<forall>e\<in>set selected. positive_int (jget e ''id'') \<and> natural_int (jget e ''episodeNumber'') \<and>
       natural_int (jget e ''episodeFileId''))"
proof -
  obtain xs where xs: "list_all (listed_episode series_id) xs" "ds = dicts xs"
    and sel: "selected = filter (\<lambda>d. pint d ''seasonNumber'' = season) ds"
    and ok: "selected \<noteq> []" "distinct (map (\<lambda>d. pint d ''id'') ds)"
    using assms by (auto simp: season_listing_def Let_def split: option.splits if_splits)
  have "positive_int (jget e ''id'') \<and> natural_int (jget e ''episodeNumber'') \<and> natural_int (jget e ''episodeFileId'')"
    if "e \<in> set ds" for e
  proof -
    from that xs(2) obtain x where "x \<in> set xs" "as_obj x = Some e"
      by (auto simp: dicts_def List.map_filter_def)
    with xs(1) show ?thesis by (auto simp: list_all_iff listed_episode_def)
  qed
  with sel ok show ?thesis by (auto simp: distinct_map_filter)
qed

text \<open>The payload of a child, as the worker reads it.\<close>

lemma distinct_child: "distinct (map fst (child_payload sc path st e))"
  by (simp add: child_payload_def episode_payload_def)

lemma child_fields:
  "jget (sorted_dict (child_payload sc path st e)) ''media_key'' =
     JStr (episode_media_key (fst (sc_tmdb sc)) (JInt (sc_season sc)) (jget e ''episodeNumber''))"
  "jget (sorted_dict (child_payload sc path st e)) ''file_path'' = JStr (posix_text path)"
  "jget (sorted_dict (child_payload sc path st e)) ''file_identity'' = JObj (sorted_dict (identity_json st))"
  "jget (sorted_dict (child_payload sc path st e)) ''sonarr_series_id'' = JInt (sc_series_id sc)"
  "jget (sorted_dict (child_payload sc path st e)) ''sonarr_episode_id'' = sort_json (jget e ''id'')"
  "jget (sorted_dict (child_payload sc path st e)) ''sonarr_episode_file_id'' = sort_json (jget e ''episodeFileId'')"
  "jget (sorted_dict (child_payload sc path st e)) ''series_tmdb_id'' = JInt (snd (sc_tmdb sc))"
  "jget (sorted_dict (child_payload sc path st e)) ''season'' = JInt (sc_season sc)"
  "jget (sorted_dict (child_payload sc path st e)) ''episode'' = sort_json (jget e ''episodeNumber'')"
  "jget (sorted_dict (child_payload sc path st e)) ''parent_item_id'' = sort_json (sc_item sc)"
  unfolding sorted_get [OF distinct_child]
  by (simp_all add: child_payload_def episode_payload_def jget_def get_or_def sorted_dict_def)

lemma show02_two: "n < 100 \<Longrightarrow> length (show02 n) = 2"
proof -
  assume n: "n < 100"
  have one: "length (show_nat m) = 1" if "m < 10" for m using that by (subst show_nat.simps) simp
  have "length (show_nat n) = 2" if "\<not> n < 10"
    using that n one [of "n div 10"] by (subst show_nat.simps) simp
  with one [of n] show ?thesis by (simp add: show02_def)
qed

lemma episode_numbers_key:
  assumes "posnum digits" and "0 \<le> season" and "season < 100" and "0 \<le> number" and "number < 100"
  shows "episode_numbers (episode_media_key digits (JInt season) (JInt number)) =
    Some (digits, show02 (nat season), show02 (nat number))"
proof -
  let ?s = "show02 (nat season)" and ?e = "show02 (nat number)"
  have key: "episode_media_key digits (JInt season) (JInt number) =
      ''episode:tmdb:'' @ digits @ '':'' @ (''S'' @ ?s @ ''E'' @ ?e)"
    using assms by (simp add: episode_media_key_def two_digits_def)
  have pre: "strip_prefix p (p @ q) = Some q" for p q :: string by (simp add: strip_prefix_iff)
  have d: "\<forall>c\<in>set digits. is_digit c" using assms(1) by (simp add: posnum_def digits1_def list_all_iff)
  have colon: "\<not> is_digit CHR '':''" by (simp add: is_digit_def code_def)
  have split: "takeWhile is_digit (digits @ '':'' @ q) = digits" "dropWhile is_digit (digits @ '':'' @ q) = '':'' @ q" for q
    using d colon by (auto simp: takeWhile_append dropWhile_append)
  have scope: "episode_scope_any (''S'' @ ?s @ ''E'' @ ?e) = Some (?s, ?e)"
    unfolding episode_scope_any_def
    using show02_digits by (intro two_numbers_complete) (auto simp: is_digit_def code_def)
  have two: "length ?s = 2" "length ?e = 2" using assms by (auto intro: show02_two)
  show ?thesis unfolding key episode_numbers_def pre option.case split scope prod.case
    using assms(1) two by simp
qed

lemma natural_value: "natural_int j \<Longrightarrow> jget d k = j \<Longrightarrow> j = JInt (pint d k) \<and> 0 \<le> pint d k"
  by (cases j) (auto simp: natural_int_def pint_def)

lemma positive_value: "positive_int j \<Longrightarrow> jget d k = j \<Longrightarrow> j = JInt (pint d k) \<and> 0 < pint d k"
  by (cases j) (auto simp: positive_int_def pint_def)

lemma child_accepted:
  assumes wf: "scope_wf sc" and digits: "posnum (fst (sc_tmdb sc))" and season: "sc_season sc < 100"
    and e: "e \<in> set (sc_selected sc)" "0 < pint e ''episodeFileId''" "pint e ''episodeNumber'' < 100"
    and st: "stat_natural st"
  shows "captured_payload (job\<lparr>dj_item_id := i, dj_item_type := ''Episode'',
           dj_payload := JObj (sorted_dict (child_payload sc path st e))\<rparr>) =
         Inr (sorted_dict (child_payload sc path st e))"
proof -
  let ?c = "sorted_dict (child_payload sc path st e)"
  let ?job = "job\<lparr>dj_item_id := i, dj_item_type := ''Episode'', dj_payload := JObj ?c\<rparr>"
  let ?key = "episode_media_key (fst (sc_tmdb sc)) (JInt (sc_season sc)) (JInt (pint e ''episodeNumber''))"
  have fields: "jget e ''id'' = JInt (pint e ''id'')" "0 < pint e ''id''"
    "jget e ''episodeNumber'' = JInt (pint e ''episodeNumber'')" "0 \<le> pint e ''episodeNumber''"
    "jget e ''episodeFileId'' = JInt (pint e ''episodeFileId'')"
    using wf e(1) positive_value natural_value unfolding scope_wf_def by blast+
  have numbers: "episode_numbers ?key =
      Some (fst (sc_tmdb sc), show02 (nat (sc_season sc)), show02 (nat (pint e ''episodeNumber'')))"
    using wf season e(3) fields(4) by (intro episode_numbers_key [OF digits]) (auto simp: scope_wf_def)
  have tmdb: "int_of_digits (fst (sc_tmdb sc)) = Inr (snd (sc_tmdb sc))"
    using wf by (simp add: scope_wf_def int_of_digits_def)
  have eq: "py_eq (JInt n) (JInt n)" for n by (simp add: py_eq_def)
  have signs: "0 \<le> sc_season sc" "0 \<le> pint e ''episodeNumber''"
    using wf fields(4) by (simp_all add: scope_wf_def)
  have ident: "item_identity ?job ?c =
      Inr [''sonarr_series_id'', ''sonarr_episode_id'', ''sonarr_episode_file_id'']"
    unfolding item_identity_def
    by (simp add: child_fields fields(3) numbers tmdb eq signs)
  have pos: "positive_int (JInt (sc_series_id sc))" "positive_int (jget e ''id'')" "positive_int (jget e ''episodeFileId'')"
    using wf fields(1,2,5) e(2) by (simp_all add: scope_wf_def positive_int_def)
  have "as_obj (dj_payload ?job) = Some ?c" by simp
  then show ?thesis
    unfolding captured_payload_def option.case ident
    using identity_natural [of st] st pos by (simp add: child_fields ident)
qed

text \<open>The payload of the season, as the worker reads it.\<close>

lemma distinct_season: "distinct (map fst (season_captured_payload sc tvdb st children metadata))"
  by (simp add: season_captured_payload_def)

lemma season_fields:
  fixes sc tvdb st children metadata
  defines "p \<equiv> sorted_dict (season_captured_payload sc tvdb st children metadata)"
  shows "jget p ''media_key'' = JStr (''season:tmdb:'' @ fst (sc_tmdb sc) @ '':'' @ Outside.show_int (sc_season sc))"
    and "jget p ''series_tmdb_id'' = JInt (snd (sc_tmdb sc))"
    and "jget p ''series_tvdb_id'' = JInt tvdb"
    and "jget p ''sonarr_series_id'' = JInt (sc_series_id sc)"
    and "jget p ''season'' = JInt (sc_season sc)"
    and "jget p ''file_path'' = JStr (posix_text (sc_directory sc))"
    and "jget p ''directory_identity'' =
      JObj (sorted_dict [(''device'', JInt (fs_device st)), (''inode'', JInt (fs_inode st))])"
    and "jget p ''episodes'' = JList (map sort_json (map snd (sort_key fst children)))"
    and "jget p ''sonarr_episode_ids'' = JList (map JInt (sort (map (\<lambda>d. pint d ''id'') (sc_selected sc))))"
    and "jget p ''metadata_files'' = JList (map sort_json metadata)"
  unfolding p_def sorted_get [OF distinct_season]
  by (simp_all add: season_captured_payload_def jget_def get_or_def sorted_dict_def comp_def)

lemma metadata_accepted:
  assumes "capture_metadata env cf directory names s = (Inr metadata, s')"
    and "\<And>w p st w'. a_stat env w p = (Some st, w') \<Longrightarrow> stat_natural st"
  shows "\<forall>m\<in>set metadata. metadata_entry_ok (sort_json m) = Inr ()"
  using assms(1)
proof (induction names arbitrary: s metadata s')
  case Nil
  then show ?case by (simp add: req_simps)
next
  case (Cons name names)
  show ?case
  proof (cases "lower name \<notin> set metadata_names")
    case True
    with Cons show ?thesis by auto
  next
    case False
    with Cons.prems obtain path st s1 s2 rest
      where f: "file_identity env cf (JStr (posix_text (posix_join directory name))) ''tv'' s = (Inr (path, st), s1)"
        and rest: "capture_metadata env cf directory names s1 = (Inr rest, s2)"
        and m: "metadata = JObj [(''file_path'', JStr (posix_text path)), (''file_identity'', JObj (identity_json st))] # rest"
      by (auto simp: req_simps refuse_Inr split: if_splits)
    let ?m = "[(''file_path'', JStr (posix_text path)), (''file_identity'', JObj (identity_json st))]"
    have g: "jget (sorted_dict ?m) k = sort_json (jget ?m k)" for k by (rule sorted_get) simp
    have "stat_natural st" using file_identity_Inr [OF f] assms(2) by blast
    then have "list_all (\<lambda>k. natural_int (jget (sorted_dict (identity_json st)) k)) identity_keys"
      using identity_natural [of st] by (simp add: list_all_iff list_ex_iff)
    then have "metadata_entry_ok (JObj (sorted_dict ?m)) = Inr ()"
      by (simp add: metadata_entry_ok_def g) (simp add: jget_def get_or_def sorted_dict_def guard_def)
    with Cons.IH [OF rest] m show ?thesis by (simp add: sorted_dict_def)
  qed
qed

lemma entries_accepted:
  assumes "\<forall>e\<in>set es. \<exists>d. e = JObj d \<and> as_str (jget d ''item_id'') = Some (entry_id e) \<and>
       hex32 (entry_id e) \<and>
       (\<exists>c. captured_payload (job\<lparr>dj_item_id := entry_id e, dj_item_type := ''Episode'',
                                     dj_payload := jget d ''payload''\<rparr>) = Inr c \<and> child_in_scope job p c)"
    and "distinct (map entry_id es)" and "set (map entry_id es) \<inter> set seen = {}"
  shows "episode_entries job p seen es = Inr ()"
  using assms
proof (induction es arbitrary: seen)
  case Nil
  then show ?case by simp
next
  case (Cons e es)
  then have "episode_entry job p seen e = Inr (entry_id e)"
    by (auto simp: episode_entry_def)
  moreover have "episode_entries job p (entry_id e # seen) es = Inr ()"
    using Cons.prems by (intro Cons.IH) auto
  ultimately show ?case by simp
qed

end
