(* ===== verification/CaptureSamples.thy ===== *)
theory CaptureSamples
  imports DeletionAdmission
begin

text \<open>
  A media server with one movie and one season of one episode, for the instances of the
  properties of the capture.  The world is a unit: the services answer from the request alone.
\<close>

definition id_a :: string where "id_a = replicate 32 CHR ''a''"

definition id_b :: string where "id_b = replicate 32 CHR ''b''"

definition id_c :: string where "id_c = replicate 32 CHR ''c''"

definition api_answer :: "json \<Rightarrow> response option" where
  "api_answer j = Some \<lparr>rp_status = 200, rp_host = ''h'', rp_error_text = [], rp_body = Some j\<rparr>"

definition api_movie_item :: "(string \<times> json) list" where
  "api_movie_item =
     [(''Id'', JStr id_a), (''Type'', JStr ''Movie''), (''Path'', JStr ''/m/movies/a.mkv''),
      (''ProviderIds'', JObj [(''Tmdb'', JStr ''7'')])]"

definition api_season_item :: "(string \<times> json) list" where
  "api_season_item =
     [(''Id'', JStr id_a), (''Type'', JStr ''Season''), (''Path'', JStr ''/m/tv/s/1''),
      (''IndexNumber'', JInt 1), (''SeriesId'', JStr id_b)]"

definition api_series :: "(string \<times> json) list" where
  "api_series =
     [(''Id'', JStr id_b), (''Type'', JStr ''Series''), (''Path'', JStr ''/m/tv/s''),
      (''ProviderIds'', JObj [(''Tvdb'', JInt 9), (''Tmdb'', JStr ''7'')])]"

definition api_episode :: "(string \<times> json) list" where
  "api_episode =
     [(''Id'', JStr id_c), (''Type'', JStr ''Episode''), (''SeriesId'', JStr id_b), (''SeasonId'', JStr id_a),
      (''ParentIndexNumber'', JInt 1), (''IndexNumber'', JInt 2), (''Path'', JStr ''/m/tv/s/1/e.mkv'')]"

definition api_body :: "string \<Rightarrow> json" where
  "api_body path =
     (if path = ''/Users/Me'' then
        JObj [(''Id'', JStr ''u''),
              (''Policy'', JObj [(''IsAdministrator'', JBool True), (''EnableContentDeletion'', JBool True)])]
      else if path = ''/Users/u/Items/'' @ id_a then JObj api_movie_item
      else if path = ''/Users/u/Items/'' @ id_b then JObj api_series
      else if path = ''/api/v3/movie'' then
        JList [JObj [(''id'', JInt 1), (''tmdbId'', JInt 7),
                     (''movieFile'', JObj [(''id'', JInt 2), (''path'', JStr ''/m/movies/a.mkv''), (''size'', JInt 3)])]]
      else if path = ''/api/v3/series'' then
        JList [JObj [(''id'', JInt 5), (''tvdbId'', JInt 9), (''path'', JStr ''/m/tv/s'')]]
      else if path = ''/api/v3/episode'' then
        JList [JObj [(''id'', JInt 6), (''seriesId'', JInt 5), (''seasonNumber'', JInt 1),
                     (''episodeNumber'', JInt 2), (''episodeFileId'', JInt 8)]]
      else if path = ''/Shows/'' @ id_b @ ''/Episodes'' then
        JObj [(''Items'', JList [JObj api_episode]), (''TotalRecordCount'', JInt 1)]
      else JObj [(''id'', JInt 8), (''path'', JStr ''/m/tv/s/1/e.mkv''), (''size'', JInt 3)])"

definition api_stat :: file_stat where
  "api_stat =
     \<lparr>fs_device = 1, fs_inode = 2, fs_size = 3, fs_mtime_ns = 4, fs_nlink = 1, fs_regular = True,
      fs_directory = True\<rparr>"

definition sample_api :: "unit api_env" where
  "sample_api =
     \<lparr>a_get = (\<lambda>w jobs rq. (api_answer (api_body (gq_path rq)), jobs, w)),
      a_snapshot = (\<lambda>w. ((Some (JObj [(''filesystem_id'', JStr ''fs''), (''measured_at'', JInt 0)]), 0), w)),
      a_inside = (\<lambda>w p q. (Some True, w)), a_inside_strict = (\<lambda>w p q. (Some True, w)),
      a_symlink = (\<lambda>w p. (Some False, w)), a_stat = (\<lambda>w p. (Some api_stat, w)),
      a_listdir = (\<lambda>w p. (Some [''e.mkv''], w)), a_now = (\<lambda>w. (5, w))\<rparr>"

definition sample_admission :: admission_config where
  "sample_admission =
     \<lparr>ac_media_root = posix_of ''/m'', ac_filesystem_id = ''fs'', ac_radarr_key = ''k'', ac_sonarr_key = ''k'',
      ac_radarr_url = True, ac_sonarr_url = True\<rparr>"

definition idle_api :: "unit admission" where
  "idle_api = \<lparr>ad_world = (), ad_jobs = []\<rparr>"

definition sample_movie_payload :: "(string \<times> json) list" where
  "sample_movie_payload = movie_payload (posix_of ''/m/movies/a.mkv'') api_stat (''7'', 7) (JInt 1, JInt 2)"

definition sample_season_payload :: "(string \<times> json) list" where
  "sample_season_payload =
     [(''media_key'', JStr ''season:tmdb:7:1''), (''series_tmdb_id'', JInt 7), (''series_tvdb_id'', JInt 9),
      (''sonarr_series_id'', JInt 5), (''season'', JInt 1), (''file_path'', JStr ''/m/tv/s/1''),
      (''directory_identity'', JObj [(''device'', JInt 1), (''inode'', JInt 2)]),
      (''episodes'', JList [JObj [(''item_id'', JStr id_c),
         (''payload'', JObj (episode_payload (posix_of ''/m/tv/s/1/e.mkv'') api_stat (JInt 5)
            [(''id'', JInt 6), (''episodeFileId'', JInt 8)] (''7'', 7) (JInt 1) (JInt 2) @
            [(''parent_item_id'', JStr id_a)]))]]),
      (''sonarr_episode_ids'', JList [JInt 6]), (''metadata_files'', JList [])]"

lemma captured_movie_run:
  "capture_movie sample_api sample_admission api_movie_item idle_api = (Inr sample_movie_payload, idle_api)"
  by code_simp

lemma captured_season_run:
  "capture_season sample_api sample_admission ''t'' ''u'' api_season_item idle_api = (Inr sample_season_payload, idle_api)"
  by code_simp

definition sample_movie_job :: deletion_job where
  "sample_movie_job = new_job id_a ''Movie'' sample_movie_payload 5"

lemma deletion_run:
  "capture_deletion sample_api sample_admission id_a ''t'' idle_api =
   (Inr sample_movie_job, idle_api\<lparr>ad_jobs := [sample_movie_job]\<rparr>)"
  by code_simp

end
