(* ===== verification/CaptureProperties.thy ===== *)
theory CaptureProperties
  imports CaptureFacts CaptureSamples DeletionWorker
begin

text \<open>
  The capture of deletions against the worker that executes them: what the API admits, the
  worker's checks accept, and nothing is admitted for a session that may not delete.
\<close>

section \<open>Movies\<close>

text \<open>
  A captured movie is accepted by the worker exactly when the
  TMDB number of Jellyfin has no leading zero, Radarr's identifiers are positive \<open>int\<close>s and
  the file's identity is natural numbers; what is then accepted is the capture itself.
\<close>

theorem movie_capture_accepted:
  assumes "capture_movie env cf item s = (Inr payload, s')"
  shows "\<exists>digits st. jget payload ''media_key'' = JStr (''movie:tmdb:'' @ digits) \<and>
    jget payload ''file_identity'' = JObj (identity_json st) \<and>
    (is_ok (captured_payload (new_job item_id ''Movie'' payload now)) \<longleftrightarrow>
       hd digits \<noteq> CHR ''0'' \<and> stat_natural st \<and>
       positive_int (jget payload ''radarr_id'') \<and> positive_int (jget payload ''radarr_file_id''))"
proof -
  obtain path st digits ids where p: "payload = movie_payload path st (digits, int (to_nat digits)) ids"
    and d: "digits1 digits" "length digits \<le> 4300" "0 < to_nat digits"
    using capture_movie_Inr [OF assms] by blast
  have "jget payload ''media_key'' = JStr (''movie:tmdb:'' @ digits)"
    "jget payload ''file_identity'' = JObj (identity_json st)"
    "jget payload ''radarr_id'' = fst ids" "jget payload ''radarr_file_id'' = snd ids"
    by (simp_all add: p movie_payload_def jget_def get_or_def)
  with movie_accepted [OF d, of item_id path st ids now] d(1) show ?thesis
    unfolding p by (auto simp: posnum_def)
qed

theorem movie_capture_accepted_witness:
  "is_ok (captured_payload (new_job id_a ''Movie'' sample_movie_payload 5))"
proof -
  have k: "jget sample_movie_payload ''media_key'' = JStr (''movie:tmdb:'' @ ''7'')"
    and i: "jget sample_movie_payload ''file_identity'' = JObj (identity_json api_stat)"
    and n: "positive_int (jget sample_movie_payload ''radarr_id'')" "positive_int (jget sample_movie_payload ''radarr_file_id'')"
    by code_simp+
  have "stat_natural st" if "identity_json st = identity_json api_stat" for st
    using that by (simp add: identity_json_def stat_natural_def api_stat_def)
  with movie_capture_accepted [OF captured_movie_run, where item_id = id_a and now = 5] show ?thesis
    unfolding k i using n by auto
qed

section \<open>Seasons\<close>

lemma option_Inr:
  "(case v of None \<Rightarrow> refuse n detail | Some x \<Rightarrow> f x) s = (Inr r, s') \<longleftrightarrow>
   (\<exists>x. v = Some x \<and> f x s = (Inr r, s'))"
  by (cases v) (simp_all add: refuse_Inr)

lemma capture_season_steps:
  assumes "capture_season env cf token user item s = (Inr payload, s')"
  shows "\<exists>directory st s0 season series_id providers tvdb tmdb answer2 sonarr_id listed selected items s1 directory2 answer1.
    season_directory env cf (jget item ''Path'') s = (Inr (directory, st), s0) \<and> 0 \<le> season \<and>
    series_numbers providers = Inr (tvdb, tmdb) \<and> season_series (fst tvdb) directory2 answer1 = Inr sonarr_id \<and>
    season_listing sonarr_id season answer2 = Inr (listed, selected) \<and> items \<noteq> [] \<and>
    capture_contents env cf
      \<lparr>sc_item = jget item ''Id'', sc_series = series_id, sc_season = season, sc_directory = directory,
       sc_tmdb = tmdb, sc_series_id = sonarr_id, sc_listed = listed, sc_selected = selected\<rparr>
      (snd tvdb) st items s1 = (Inr payload, s')"
proof -
  have items: "xs \<noteq> []" if "season_items j = Inr xs" for j xs
    using that by (auto simp: season_items_def split: option.splits if_splits)
  from assms show ?thesis
    unfolding capture_season_def rbind_Inr pair_returns option_Inr require_Inr give_Inr ebind_Inr
    by (elim exE conjE) (blast dest: items)
qed

lemma series_numbers_Inr:
  assumes "series_numbers providers = Inr (tvdb, tmdb)"
  shows "digits1 (fst tmdb) \<and> length (fst tmdb) \<le> 4300 \<and> snd tmdb = int (to_nat (fst tmdb)) \<and>
    0 < snd tmdb \<and> 0 < snd tvdb"
  using assms positive_decimal_Inr by (cases tvdb; cases tmdb) (fastforce simp: series_numbers_def err_simps)

lemma season_series_Inr: "season_series digits directory answer = Inr n \<Longrightarrow> 0 < n"
  by (auto simp: season_series_def Let_def positive_int_def pint_def split: list.splits option.splits if_splits)

lemma capture_season_Inr:
  assumes "capture_season env cf token user item s = (Inr payload, s')"
  shows "\<exists>sc tvdb st children names metadata s1 s2. payload = season_captured_payload sc tvdb st children metadata \<and>
    scope_wf sc \<and> sc_item sc = jget item ''Id'' \<and> 0 < tvdb \<and> (\<exists>w w'. a_stat env w (sc_directory sc) = (Some st, w')) \<and>
    children \<noteq> [] \<and> (\<forall>c\<in>set children. captured_child env sc c) \<and> distinct (map (entry_id \<circ> snd) children) \<and>
    capture_metadata env cf (sc_directory sc) names s1 = (Inr metadata, s2)"
proof -
  obtain directory st s0 season series_id providers tvdb tmdb answer2 sonarr_id listed selected items s1 directory2 answer1
    where dir: "season_directory env cf (jget item ''Path'') s = (Inr (directory, st), s0)" and season: "0 \<le> season"
      and nums: "series_numbers providers = Inr (tvdb, tmdb)"
      and series: "season_series (fst tvdb) directory2 answer1 = Inr sonarr_id"
      and listing: "season_listing sonarr_id season answer2 = Inr (listed, selected)" and items: "items \<noteq> []"
      and contents: "capture_contents env cf
        \<lparr>sc_item = jget item ''Id'', sc_series = series_id, sc_season = season, sc_directory = directory,
         sc_tmdb = tmdb, sc_series_id = sonarr_id, sc_listed = listed, sc_selected = selected\<rparr>
        (snd tvdb) st items s1 = (Inr payload, s')"
    using capture_season_steps [OF assms] by blast
  define sc where "sc = \<lparr>sc_item = jget item ''Id'', sc_series = series_id, sc_season = season, sc_directory = directory,
    sc_tmdb = tmdb, sc_series_id = sonarr_id, sc_listed = listed, sc_selected = selected\<rparr>"
  from contents obtain seen children s2 s3 names metadata s4
    where ch: "capture_children env cf sc \<lparr>sn_items = [], sn_episodes = [], sn_paths = []\<rparr> items s1 = (Inr (seen, children), s2)"
      and meta: "capture_metadata env cf directory names s3 = (Inr metadata, s4)"
      and p: "payload = season_captured_payload sc (snd tvdb) st children metadata"
    unfolding sc_def [symmetric] capture_contents_def rbind_Inr pair_returns require_Inr give_Inr look_Inr
    by (auto simp: sc_def)
  have wf: "scope_wf sc" using season_directory_Inr [OF dir] series_numbers_Inr [OF nums] season
      season_series_Inr [OF series] season_listing_Inr [OF listing]
    by (simp add: scope_wf_def sc_def)
  have kids: "(\<forall>c\<in>set children. captured_child env sc c) \<and> distinct (map (entry_id \<circ> snd) children) \<and> children \<noteq> []"
    using capture_children_Inr [OF ch] items by auto
  have "sc_directory sc = directory" "sc_item sc = jget item ''Id''" by (simp_all add: sc_def)
  with p wf kids meta series_numbers_Inr [OF nums] season_directory_Inr [OF dir] show ?thesis by metis
qed

text \<open>What the worker reads of the children.\<close>

lemma sorted_child:
  assumes "captured_child env sc (n, j)"
  shows "\<exists>path st e. sort_json j = JObj (sorted_dict [(''item_id'', JStr (entry_id j)),
              (''payload'', JObj (child_payload sc path st e))]) \<and>
     jget (sorted_dict [(''item_id'', JStr (entry_id j)), (''payload'', JObj (child_payload sc path st e))]) ''item_id'' =
       JStr (entry_id j) \<and>
     jget (sorted_dict [(''item_id'', JStr (entry_id j)), (''payload'', JObj (child_payload sc path st e))]) ''payload'' =
       JObj (sorted_dict (child_payload sc path st e)) \<and>
     hex32 (entry_id j) \<and> plain_path path \<and> relative_to path (sc_directory sc) \<and>
     (\<exists>w w'. a_stat env w path = (Some st, w')) \<and> e \<in> set (sc_selected sc) \<and> 0 < pint e ''episodeFileId'' \<and>
     n = pint e ''episodeNumber''"
proof -
  obtain path st e where j: "j = JObj [(''item_id'', JStr (entry_id j)), (''payload'', JObj (child_payload sc path st e))]"
    and rest: "hex32 (entry_id j)" "plain_path path" "relative_to path (sc_directory sc)"
      "\<exists>w w'. a_stat env w path = (Some st, w')" "e \<in> set (sc_selected sc)" "0 < pint e ''episodeFileId''"
      "n = pint e ''episodeNumber''"
    using assms unfolding captured_child_def fst_conv snd_conv by blast
  let ?d = "[(''item_id'', JStr (entry_id j)), (''payload'', JObj (child_payload sc path st e))]"
  have "jget (sorted_dict ?d) k = sort_json (jget ?d k)" for k by (rule sorted_get) simp
  moreover have "sort_json j = JObj (sorted_dict ?d)" by (subst j) (rule sort_obj)
  ultimately show ?thesis using rest
    by (intro exI [of _ path] exI [of _ st] exI [of _ e]) (simp add: jget_def get_or_def sort_obj del: sort_json.simps)
qed

lemma child_scoped:
  assumes wf: "scope_wf sc" and path: "plain_path path" "relative_to path (sc_directory sc)"
    and e: "e \<in> set (sc_selected sc)" and item: "sc_item sc = JStr (dj_item_id job)"
  shows "child_in_scope job (sorted_dict (season_captured_payload sc tvdb st children metadata))
    (sorted_dict (child_payload sc path cst e))"
proof -
  let ?p = "sorted_dict (season_captured_payload sc tvdb st children metadata)"
  have eq: "py_eq (JInt n) (JInt n)" "py_eq (JStr t) (JStr t)" for n t by (simp_all add: py_eq_def)
  have id: "jget e ''id'' = JInt (pint e ''id'')"
    using wf e positive_value unfolding scope_wf_def by blast
  have "plist ?p ''sonarr_episode_ids'' = map JInt (sort (map (\<lambda>d. pint d ''id'') (sc_selected sc)))"
    by (simp add: plist_def season_fields)
  then have ids: "JInt (pint e ''id'') \<in> set (plist ?p ''sonarr_episode_ids'')" using e by auto
  have dir: "posix_of (pstr ?p ''file_path'') = sc_directory sc"
    using wf posix_read by (simp add: pstr_def season_fields scope_wf_def)
  show ?thesis unfolding child_in_scope_def child_fields item season_fields id
    using eq ids path posix_read [OF path(1)] posix_text_nonempty [OF path(1)] by (simp add: dir)
qed

lemma emap_unit: "\<forall>x\<in>set xs. f x = Inr () \<Longrightarrow> \<exists>us. emap f xs = Inr us"
  by (induction xs) auto

lemma get_or_list: "jget p k = JList xs \<Longrightarrow> get_or p k (JList []) = JList xs"
  by (auto simp: jget_def get_or_def split: option.splits)

lemma canonical_digits:
  assumes "''season:tmdb:'' @ digits @ '':'' @ rest = season_media_key n season" and "rest = Outside.show_int season"
    and "0 < n"
  shows "posnum digits" and "digits = Outside.show_int n"
proof -
  show d: "digits = Outside.show_int n"
    using assms(1,2) by (simp add: season_media_key_def)
  have "Outside.show_int n = show_nat (nat n)" using assms(3) by (simp add: Outside.show_int_def)
  then show "posnum digits" using d show_nat_posnum assms(3) by simp
qed

lemma season_accepted:
  assumes wf: "scope_wf sc" and tvdb: "0 < tvdb" and st: "stat_natural st" and some: "children \<noteq> []"
    and item: "sc_item sc = JStr item_id" and digits: "posnum (fst (sc_tmdb sc))"
    and key: "fst (sc_tmdb sc) = Outside.show_int (snd (sc_tmdb sc))" and season: "sc_season sc < 100"
    and kids: "\<forall>c\<in>set children. captured_child env sc c \<and> fst c < 100"
    and dist: "distinct (map (entry_id \<circ> snd) children)"
    and meta: "\<forall>m\<in>set metadata. metadata_entry_ok (sort_json m) = Inr ()"
    and stats: "\<And>w p st w'. a_stat env w p = (Some st, w') \<Longrightarrow> stat_natural st"
  shows "season_payload (new_job item_id ''Season'' (season_captured_payload sc tvdb st children metadata) now) =
    Inr (sorted_dict (season_captured_payload sc tvdb st children metadata))"
proof -
  let ?payload = "season_captured_payload sc tvdb st children metadata"
  let ?job = "new_job item_id ''Season'' ?payload now"
  let ?p = "sorted_dict ?payload"
  let ?es = "map sort_json (map snd (sort_key fst children))"
  have ident: "season_identity_ok ?p"
    using wf tvdb key by (simp add: season_identity_ok_def season_fields positive_int_def natural_int_def pint_def
        season_media_key_def scope_wf_def)
  have di: "jget (sorted_dict [(''device'', JInt (fs_device st)), (''inode'', JInt (fs_inode st))]) k =
      sort_json (jget [(''device'', JInt (fs_device st)), (''inode'', JInt (fs_inode st))] k)" for k
    by (rule sorted_get) simp
  have ml: "get_or ?p ''metadata_files'' (JList []) = JList (map sort_json metadata)"
    by (rule get_or_list) (simp add: season_fields)
  have dir: "season_directory_ok ?p"
    using st wf posix_text_nonempty
    by (simp add: season_directory_ok_def season_fields di ml is_list_def stat_natural_def scope_wf_def)
       (simp add: jget_def get_or_def natural_int_def)
  obtain us where us: "emap metadata_entry_ok (metadata_entries ?p) = Inr us"
    using emap_unit [of "map sort_json metadata" metadata_entry_ok] meta by (auto simp: metadata_entries_def ml)
  have ids: "list_all positive_int (map JInt (sort (map (\<lambda>d. pint d ''id'') (sc_selected sc))))"
    using wf positive_value by (auto simp: list_all_iff scope_wf_def positive_int_def)
  have inventory: "season_inventory_ok ?p"
  proof -
    have nil: "sort_key f xs = [] \<longleftrightarrow> xs = []" for f :: "'k \<Rightarrow> 'm::linorder" and xs
      by (metis set_empty set_sort)
    have "distinct (sort (map (\<lambda>d. pint d ''id'') (sc_selected sc)))" using wf by (simp add: scope_wf_def)
    then have "distinct (map JInt (sort (map (\<lambda>d. pint d ''id'') (sc_selected sc))))"
      by (rule distinct_map [THEN iffD2, OF conjI]) (simp add: inj_on_def)
    with wf ids some show ?thesis
      by (simp add: season_inventory_ok_def plist_def season_fields scope_wf_def nil del: distinct_map)
  qed
  have "episode_entries ?job ?p [] ?es = Inr ()"
  proof (rule entries_accepted)
    show "set (map entry_id ?es) \<inter> set [] = {}" by simp
    have eid: "entry_id (sort_json (snd c)) = entry_id (snd c)" if c: "c \<in> set children" for c
    proof -
      from kids c have "captured_child env sc (fst c, snd c)" by simp
      from sorted_child [OF this] show ?thesis by (auto simp: entry_id_def pstr_def)
    qed
    have "mset (map (entry_id \<circ> snd) (sort_key fst children)) = mset (map (entry_id \<circ> snd) children)" by simp
    with dist have "distinct (map (entry_id \<circ> snd) (sort_key fst children))" by (metis mset_eq_imp_distinct_iff)
    moreover have "map entry_id ?es = map (entry_id \<circ> snd) (sort_key fst children)"
      unfolding map_map by (rule map_cong [OF refl]) (use eid in simp)
    ultimately show "distinct (map entry_id ?es)" by (simp only:)
    show "\<forall>e\<in>set ?es. \<exists>d. e = JObj d \<and> as_str (jget d ''item_id'') = Some (entry_id e) \<and> hex32 (entry_id e) \<and>
       (\<exists>c. captured_payload (?job\<lparr>dj_item_id := entry_id e, dj_item_type := ''Episode'',
                                     dj_payload := jget d ''payload''\<rparr>) = Inr c \<and> child_in_scope ?job ?p c)"
    proof
      fix x
      assume "x \<in> set ?es"
      then obtain c where c: "c \<in> set children" "x = sort_json (snd c)" by auto
      from kids c have "captured_child env sc (fst c, snd c)" by simp
      from sorted_child [OF this] obtain path cst e d where d: "x = JObj d"
          "jget d ''item_id'' = JStr (entry_id x)" "jget d ''payload'' = JObj (sorted_dict (child_payload sc path cst e))"
          "hex32 (entry_id x)" "plain_path path" "relative_to path (sc_directory sc)"
          "e \<in> set (sc_selected sc)" "0 < pint e ''episodeFileId''" "pint e ''episodeNumber'' < 100" "stat_natural cst"
        using c eid kids stats by metis
      have scope: "child_in_scope ?job ?p (sorted_dict (child_payload sc path cst e))"
        by (rule child_scoped [OF wf d(5-7)]) (simp add: item new_job_def)
      show "\<exists>d. x = JObj d \<and> as_str (jget d ''item_id'') = Some (entry_id x) \<and> hex32 (entry_id x) \<and>
         (\<exists>c. captured_payload (?job\<lparr>dj_item_id := entry_id x, dj_item_type := ''Episode'',
                                       dj_payload := jget d ''payload''\<rparr>) = Inr c \<and> child_in_scope ?job ?p c)"
        using d scope child_accepted [OF wf digits season d(7-10), where job = ?job and i = "entry_id x"]
        by (intro exI [of _ d] conjI exI [of _ "sorted_dict (child_payload sc path cst e)"]) simp_all
    qed
  qed
  moreover have "plist ?p ''episodes'' = ?es" by (simp add: plist_def season_fields)
  moreover have "as_obj (dj_payload ?job) = Some ?p" by (simp add: new_job_def sort_obj del: sort_json.simps)
  ultimately show ?thesis using ident dir us inventory by (simp add: season_payload_def guard_def)
qed

lemma dict_listed: "JObj d \<in> set xs \<Longrightarrow> d \<in> set (dicts xs)"
  by (force simp: dicts_def List.map_filter_def)

text \<open>The season as the job store admits it.\<close>

lemma children_admitted:
  assumes "\<forall>c\<in>set children. captured_child env sc c" and "sc_item sc = JStr item_id"
    and "distinct (map (entry_id \<circ> snd) children)"
    and "set (map (entry_id \<circ> snd) children) \<inter> set seen = {}"
    and "\<forall>c\<in>set children. find_job (entry_id (snd c)) jobs = None"
  shows "\<exists>rows. season_children item_id seen jobs (map snd children) = Inr rows"
  using assms
proof (induction children arbitrary: seen)
  case Nil
  then show ?case by simp
next
  case (Cons c children)
  obtain path st e where j: "snd c = JObj [(''item_id'', JStr (entry_id (snd c))), (''payload'', JObj (child_payload sc path st e))]"
    and hex: "hex32 (entry_id (snd c))"
    using Cons.prems(1) unfolding captured_child_def by auto
  have parent: "jget (child_payload sc path st e) ''parent_item_id'' = JStr item_id"
    using Cons.prems(2) by (simp add: child_payload_def episode_payload_def jget_def get_or_def)
  have "season_child item_id seen jobs (snd c) = Inr (entry_id (snd c), child_payload sc path st e)"
    unfolding season_child_def
    by (subst j) (use Cons.prems parent hex in \<open>auto simp: jget_def get_or_def hex32_def\<close>)
  moreover have "\<exists>rows. season_children item_id (entry_id (snd c) # seen) jobs (map snd children) = Inr rows"
    using Cons.prems by (intro Cons.IH) auto
  ultimately show ?case by auto
qed

lemma season_shape:
  assumes "payload = season_captured_payload sc tvdb st children metadata"
  shows "jget payload ''media_key'' = JStr (''season:tmdb:'' @ fst (sc_tmdb sc) @ '':'' @ Outside.show_int (sc_season sc))"
    and "pint payload ''series_tmdb_id'' = snd (sc_tmdb sc)" and "pint payload ''season'' = sc_season sc"
    and "plist payload ''episodes'' = map snd (sort_key fst children)"
    and "jget payload ''episodes'' = JList (map snd (sort_key fst children))"
  by (simp_all add: assms season_captured_payload_def jget_def get_or_def pint_def plist_def)

lemma child_numbered:
  assumes wf: "scope_wf sc" and kid: "captured_child env sc c" and c: "c \<in> set children"
  shows "\<exists>d. d \<in> set (dicts (map snd (sort_key fst children))) \<and> pstr d ''item_id'' = entry_id (snd c) \<and>
    pint (pobj d ''payload'') ''episode'' = fst c"
proof -
  obtain path st e where j: "snd c = JObj [(''item_id'', JStr (entry_id (snd c))), (''payload'', JObj (child_payload sc path st e))]"
    and e: "e \<in> set (sc_selected sc)" "fst c = pint e ''episodeNumber''"
    using kid unfolding captured_child_def by blast
  have "natural_int (jget e ''episodeNumber'')" using wf e(1) by (simp add: scope_wf_def)
  then have "jget e ''episodeNumber'' = JInt (fst c)" using natural_value e(2) by auto
  then have "pint (child_payload sc path st e) ''episode'' = fst c"
    by (simp add: child_payload_def episode_payload_def pint_def jget_def get_or_def)
  moreover have "[(''item_id'', JStr (entry_id (snd c))), (''payload'', JObj (child_payload sc path st e))]
      \<in> set (dicts (map snd (sort_key fst children)))"
    by (rule dict_listed) (use c j in \<open>metis image_eqI list.set_map set_sort\<close>)
  ultimately show ?thesis by (auto simp: pstr_def pobj_def jget_def get_or_def)
qed

lemma season_enqueued:
  assumes p: "payload = season_captured_payload sc tvdb st children metadata" and some: "children \<noteq> []"
    and kids: "\<forall>c\<in>set children. captured_child env sc c" and wf: "scope_wf sc"
    and dist: "distinct (map (entry_id \<circ> snd) children)" and item: "sc_item sc = JStr item_id"
    and fresh: "find_job item_id jobs = None"
      "\<forall>d\<in>set (dicts (plist payload ''episodes'')). find_job (pstr d ''item_id'') jobs = None"
  shows "is_ok (enqueue_season item_id payload now jobs)"
proof -
  let ?sorted = "sort_key fst children"
  have "mset (map (entry_id \<circ> snd) ?sorted) = mset (map (entry_id \<circ> snd) children)" by simp
  with dist have "distinct (map (entry_id \<circ> snd) ?sorted)" by (metis mset_eq_imp_distinct_iff)
  moreover have "set (map (entry_id \<circ> snd) ?sorted) \<inter> set [item_id] = {}"
    using kids item by (auto simp: captured_child_def)
  moreover have "\<forall>c\<in>set ?sorted. find_job (entry_id (snd c)) jobs = None"
    using child_numbered [OF wf] kids fresh(2) season_shape(4) [OF p] by (metis set_sort)
  ultimately obtain rows where "season_children item_id [item_id] jobs (map snd ?sorted) = Inr rows"
    using children_admitted [of ?sorted env sc item_id "[item_id]" jobs] kids item by auto
  moreover have "map snd ?sorted \<noteq> []" using some by (metis map_is_Nil_conv set_empty set_sort)
  then obtain e es where "map snd ?sorted = e # es" by (cases "map snd ?sorted") auto
  ultimately show ?thesis using fresh(1) season_shape(5) [OF p]
    by (auto simp: enqueue_season_def Let_def simp del: season_children.simps)
qed

text \<open>
  C14 (season_capture_accepted): what the capture of a season returns, the job store admits
  when none of its items has a job yet, and the worker's check of a season payload accepts,
  with every episode in it; provided the TMDB number has no leading zero and the season and
  its episodes are numbered below 100 (which is what the worker's keys can hold), and the
  file system reports natural numbers.
\<close>

theorem season_capture_accepted:
  assumes "capture_season env cf token user item s = (Inr payload, s')" and "jget item ''Id'' = JStr item_id"
    and "\<And>w p st w'. a_stat env w p = (Some st, w') \<Longrightarrow> stat_natural st"
    and "jget payload ''media_key'' =
      JStr (season_media_key (pint payload ''series_tmdb_id'') (pint payload ''season''))"
    and "pint payload ''season'' < 100"
    and "\<forall>d\<in>set (dicts (plist payload ''episodes'')). pint (pobj d ''payload'') ''episode'' < 100"
  shows "is_ok (season_payload (new_job item_id ''Season'' payload now)) \<and>
    (find_job item_id jobs = None \<longrightarrow>
     (\<forall>d\<in>set (dicts (plist payload ''episodes'')). find_job (pstr d ''item_id'') jobs = None) \<longrightarrow>
     is_ok (enqueue_season item_id payload now jobs))"
proof -
  obtain sc tvdb st children names metadata s1 s2
    where p: "payload = season_captured_payload sc tvdb st children metadata"
      and wf: "scope_wf sc" and "sc_item sc = jget item ''Id''" and tvdb: "0 < tvdb"
      and dst: "\<exists>w w'. a_stat env w (sc_directory sc) = (Some st, w')"
      and some: "children \<noteq> []" and kids: "\<forall>c\<in>set children. captured_child env sc c"
      and dist: "distinct (map (entry_id \<circ> snd) children)"
      and meta: "capture_metadata env cf (sc_directory sc) names s1 = (Inr metadata, s2)"
    using capture_season_Inr [OF assms(1)] by blast
  then have item: "sc_item sc = JStr item_id" using assms(2) by simp
  note shape = season_shape [OF p]
  have tmdb: "0 < snd (sc_tmdb sc)" using wf by (simp add: scope_wf_def)
  have key: "''season:tmdb:'' @ fst (sc_tmdb sc) @ '':'' @ Outside.show_int (sc_season sc) =
      season_media_key (snd (sc_tmdb sc)) (sc_season sc)"
    using assms(4) unfolding shape by simp
  note digits = canonical_digits [OF key refl tmdb]
  have numbered: "\<forall>c\<in>set children. captured_child env sc c \<and> fst c < 100"
    using child_numbered [OF wf] kids assms(6) shape(4) by metis
  have "stat_natural st" and small: "sc_season sc < 100" using dst assms(3,5) shape(3) by auto
  then have "season_payload (new_job item_id ''Season'' payload now) = Inr (sorted_dict payload)"
    unfolding p using numbered assms(3) metadata_accepted [OF meta assms(3)]
    by (intro season_accepted [OF wf tvdb _ some item digits small numbered dist]) auto
  then show ?thesis using season_enqueued [OF p some kids wf dist item] by simp
qed

lemma sample_stats: "a_stat sample_api w p = (Some st, w') \<Longrightarrow> stat_natural st"
  by (auto simp: sample_api_def stat_natural_def api_stat_def)

lemma sample_season_facts:
  "jget api_season_item ''Id'' = JStr id_a"
  "jget sample_season_payload ''media_key'' =
     JStr (season_media_key (pint sample_season_payload ''series_tmdb_id'') (pint sample_season_payload ''season''))"
  "pint sample_season_payload ''season'' < 100"
  "\<forall>d\<in>set (dicts (plist sample_season_payload ''episodes'')). pint (pobj d ''payload'') ''episode'' < 100"
  by code_simp+

theorem season_capture_accepted_witness:
  "is_ok (season_payload (new_job id_a ''Season'' sample_season_payload 5)) \<and>
   is_ok (enqueue_season id_a sample_season_payload 5 [])"
  using season_capture_accepted [OF captured_season_run sample_season_facts(1) sample_stats sample_season_facts(2-4), where jobs = "[]" and now = 5]
  by (simp add: find_job_def)

section \<open>Who may delete\<close>

text \<open>No other request or worker writes the jobs while the services answer.\<close>

definition quiet :: "'w api_env \<Rightarrow> bool" where
  "quiet env = (\<forall>w jobs rq. fst (snd (a_get env w jobs rq)) = jobs)"

text \<open>A request that leaves the jobs as they are, however it ends.\<close>

definition steady :: "('w, 'a) req \<Rightarrow> bool" where
  "steady m = (\<forall>s. ad_jobs (snd (m s)) = ad_jobs s)"

named_theorems steady_rules \<open>introduction rules for requests that only read\<close>

lemma steadyD: "steady m \<Longrightarrow> m s = (r, s') \<Longrightarrow> ad_jobs s' = ad_jobs s"
  by (metis snd_conv steady_def)

lemma steady_give [steady_rules]: "steady (give r)"
  by (simp add: steady_def give_def)

lemma steady_refuse [steady_rules]: "steady (refuse n detail)"
  unfolding refuse_def by (rule steady_give)

lemma steady_require [steady_rules]: "steady (require b n detail)"
  by (simp add: require_def steady_rules)

lemma steady_look [steady_rules]: "steady (look f e)"
  by (auto simp: steady_def look_def split: prod.splits option.splits)

lemma steady_rbind [steady_rules]:
  assumes "steady m" and "\<And>x. steady (f x)"
  shows "steady (rbind m f)"
  unfolding steady_def
proof
  fix s
  obtain r s1 where m: "m s = (r, s1)" by (cases "m s")
  from steadyD [OF assms(1) m] have "ad_jobs s1 = ad_jobs s" .
  with m assms(2) show "ad_jobs (snd (rbind m f s)) = ad_jobs s"
    by (cases r) (auto simp: rbind_def steady_def)
qed

lemma steady_if [steady_rules]: "steady m \<Longrightarrow> steady n \<Longrightarrow> steady (if b then m else n)"
  by simp

lemma steady_option [steady_rules]: "steady m \<Longrightarrow> (\<And>x. steady (f x)) \<Longrightarrow> steady (case v of None \<Rightarrow> m | Some x \<Rightarrow> f x)"
  by (cases v) auto

lemma steady_prod [steady_rules]: "(\<And>x y. steady (f x y)) \<Longrightarrow> steady (case v of (x, y) \<Rightarrow> f x y)"
  by (cases v) auto

lemma steady_fetch: "quiet env \<Longrightarrow> steady (fetch env rq)"
  by (auto simp: steady_def fetch_def quiet_def split: prod.splits) (metis fst_conv snd_conv)

lemma steady_no_link [steady_rules]: "steady (no_link env stop detail cs)"
  by (induction cs) (auto intro!: steady_rules)

lemma steady_file_identity [steady_rules]: "steady (file_identity env cf raw lib)"
  unfolding file_identity_def Let_def by (intro steady_rules)

lemma steady_season_directory [steady_rules]: "steady (season_directory env cf raw)"
  unfolding season_directory_def Let_def by (intro steady_rules)

lemma steady_metadata [steady_rules]: "steady (capture_metadata env cf directory names)"
  by (induction names) (auto intro!: steady_rules)

lemma steady_movie: "quiet env \<Longrightarrow> steady (capture_movie env cf item)"
  unfolding capture_movie_def by (intro steady_rules steady_fetch)

lemma steady_episode: "quiet env \<Longrightarrow> steady (capture_episode env cf token user item)"
  unfolding capture_episode_def Let_def by (intro steady_rules steady_fetch)

lemma steady_children: "quiet env \<Longrightarrow> steady (capture_children env cf sc seen cs)"
  by (induction cs arbitrary: seen) (auto simp: capture_child_def intro!: steady_rules steady_fetch)

lemma steady_season: "quiet env \<Longrightarrow> steady (capture_season env cf token user item)"
  unfolding capture_season_def capture_contents_def
  by (intro steady_rules steady_fetch steady_children)

text \<open>The admission of a job: it is found under its identifier, and no other job changes.\<close>

definition admits :: "bool \<Rightarrow> string \<Rightarrow> ('w, deletion_job) req \<Rightarrow> bool" where
  "admits alone item_id m =
     (\<forall>s. case m s of
        (Inl e, s') \<Rightarrow> alone \<longrightarrow> ad_jobs s' = ad_jobs s
      | (Inr j, s') \<Rightarrow> find_job item_id (ad_jobs s') = Some j \<and>
          (alone \<longrightarrow> (\<forall>k x. find_job k (ad_jobs s) = Some x \<longrightarrow> find_job k (ad_jobs s') = Some x)))"

lemma admit_job_admits: "admits alone item_id (admit_job env item_id kind payload)"
proof -
  let ?j = "new_job item_id kind payload"
  have "\<exists>x. find_job item_id (insert_job (?j t) jobs) = Some x" for t jobs
    using insert_job_found [of "?j t" jobs] by (simp add: new_job_def)
  then show ?thesis
    by (auto simp: admits_def admit_job_def rbind_def look_def enqueue_def Let_def insert_job_keeps split: prod.splits)
qed

lemma fold_insert_keeps:
  "find_job k jobs = Some x \<Longrightarrow> find_job k (fold (\<lambda>(cid, p). insert_job (new_job cid kind p now)) cs jobs) = Some x"
  by (induction cs arbitrary: jobs) (auto simp: insert_job_keeps)

lemma enqueue_season_admits:
  assumes "enqueue_season item_id payload now jobs = Inr (jobs', j)"
  shows "find_job item_id jobs' = Some j \<and> (\<forall>k x. find_job k jobs = Some x \<longrightarrow> find_job k jobs' = Some x)"
proof (cases "find_job item_id jobs")
  case None
  let ?start = "jobs @ [new_job item_id ''Season'' payload now]"
  let ?ins = "fold (\<lambda>(cid, p). insert_job (new_job cid ''Episode'' p now))"
  obtain e es where "as_list (jget payload ''episodes'') = Some (e # es)"
    using None assms by (auto simp: enqueue_season_def split: option.splits list.splits)
  with None assms obtain cs where out: "jobs' = ?ins cs ?start" "j = the (find_job item_id jobs')"
    by (auto simp: enqueue_season_def ebind_Inr Let_def simp del: season_children.simps)
  have "find_job item_id ?start = Some (new_job item_id ''Season'' payload now)"
    using None by (simp add: find_job_append new_job_def)
  then have "find_job item_id jobs' = Some (new_job item_id ''Season'' payload now)"
    unfolding out(1) by (rule fold_insert_keeps)
  moreover have "find_job k jobs' = Some x" if "find_job k jobs = Some x" for k x
    unfolding out(1) using that by (intro fold_insert_keeps) (simp add: find_job_append)
  ultimately show ?thesis using out(2) by simp
next
  case (Some j0)
  with assms show ?thesis by (auto simp: enqueue_season_def split: if_splits)
qed

lemma admit_season_admits: "admits alone item_id (admit_season env item_id payload)"
  by (auto simp: admits_def admit_season_def rbind_def look_def
      dest: enqueue_season_admits split: prod.splits sum.splits)

lemma admits_give: "admits alone item_id (give (Inl e))"
  by (simp add: admits_def give_def)

lemma admits_refuse: "admits alone item_id (refuse n detail)"
  unfolding refuse_def by (rule admits_give)

lemma admits_rbind:
  assumes "alone \<Longrightarrow> steady m" and "\<And>x. admits alone item_id (f x)"
  shows "admits alone item_id (rbind m f)"
  unfolding admits_def
proof
  fix s
  obtain r s1 where m: "m s = (r, s1)" by (cases "m s")
  have jobs: "alone \<Longrightarrow> ad_jobs s1 = ad_jobs s" using steadyD [OF assms(1) m] .
  show "case rbind m f s of
        (Inl e, s') \<Rightarrow> alone \<longrightarrow> ad_jobs s' = ad_jobs s
      | (Inr j, s') \<Rightarrow> find_job item_id (ad_jobs s') = Some j \<and>
          (alone \<longrightarrow> (\<forall>k x. find_job k (ad_jobs s) = Some x \<longrightarrow> find_job k (ad_jobs s') = Some x))"
  proof (cases r)
    case (Inl e)
    with m jobs show ?thesis by (simp add: rbind_def)
  next
    case (Inr x)
    then have "rbind m f s = f x s1" using m by (simp add: rbind_def)
    moreover have "case f x s1 of
        (Inl e, s') \<Rightarrow> alone \<longrightarrow> ad_jobs s' = ad_jobs s1
      | (Inr j, s') \<Rightarrow> find_job item_id (ad_jobs s') = Some j \<and>
          (alone \<longrightarrow> (\<forall>k x. find_job k (ad_jobs s1) = Some x \<longrightarrow> find_job k (ad_jobs s') = Some x))"
      using assms(2) [of x] unfolding admits_def by (rule spec [where x = s1])
    ultimately show ?thesis using jobs by (auto split: prod.splits sum.splits)
  qed
qed

lemma capture_item_admits: "admits (quiet env) item_id (capture_item env cf item_id token user item)"
  unfolding capture_item_def Let_def
  by (auto intro!: admits_rbind admit_job_admits admit_season_admits admits_refuse
      steady_movie steady_episode steady_season)

lemma admits_existing:
  assumes "admits alone item_id g"
  shows "admits alone item_id (rbind (\<lambda>s. (Inr (get_job item_id (ad_jobs s)), s))
    (\<lambda>existing. case existing of Some j \<Rightarrow> give (Inr j) | None \<Rightarrow> g))"
  unfolding admits_def
proof
  fix s
  show "case rbind (\<lambda>s. (Inr (get_job item_id (ad_jobs s)), s))
          (\<lambda>existing. case existing of Some j \<Rightarrow> give (Inr j) | None \<Rightarrow> g) s of
        (Inl e, s') \<Rightarrow> alone \<longrightarrow> ad_jobs s' = ad_jobs s
      | (Inr j, s') \<Rightarrow> find_job item_id (ad_jobs s') = Some j \<and>
          (alone \<longrightarrow> (\<forall>k x. find_job k (ad_jobs s) = Some x \<longrightarrow> find_job k (ad_jobs s') = Some x))"
    using assms unfolding admits_def
    by (cases "get_job item_id (ad_jobs s)") (simp_all add: rbind_def give_def get_job_def)
qed

lemma capture_deletion_admits: "admits (quiet env) item_id (capture_deletion env cf item_id token)"
  unfolding capture_deletion_def check_mount_def
  by (intro admits_existing admits_rbind capture_item_admits steady_rules steady_fetch)

lemma capture_deletion_steps:
  assumes "capture_deletion env cf item_id token s = (Inr j, s')"
  shows "hex32 item_id \<and> token \<noteq> [] \<and>
    (\<exists>me s1 user s2. fetch env (jellyfin_get token ''/Users/Me'' []) s = (Inr me, s1) \<and> session_user me = Inr user \<and>
       check_mount env cf s1 = (Inr (), s2))"
proof -
  from assms show ?thesis
    unfolding capture_deletion_def rbind_Inr require_Inr give_Inr
    apply (elim exE conjE)
    subgoal for _ _ me s1 user _ u s2
      by (intro conjI exI [of _ me] exI [of _ s1] exI [of _ user] exI [of _ s2]) simp_all
    done
qed

text \<open>
  C13 (deletions_authorized): a deletion is admitted only for a well-formed identifier, in the
  session of a user whom Jellyfin shows as an administrator who may delete, and with fresh
  evidence that the media filesystem is the one configured; the job returned is the one
  stored under the identifier.  A request leaves every job there was as it is, and one that
  is refused or fails admits nothing.
\<close>

theorem deletions_authorized:
  assumes "capture_deletion env cf item_id token s = (r, s')"
  shows "(\<forall>j. r = Inr j \<longrightarrow>
      hex32 item_id \<and> token \<noteq> [] \<and> find_job item_id (ad_jobs s') = Some j \<and>
      (\<exists>d policy s1. fetch env (jellyfin_get token ''/Users/Me'' []) s = (Inr (JObj d), s1) \<and>
         jget d ''Policy'' = JObj policy \<and> truthy (jget policy ''IsAdministrator'') \<and>
         truthy (jget policy ''EnableContentDeletion'')) \<and>
      (\<exists>snapshot now w w'. a_snapshot env w = ((Some snapshot, now), w') \<and>
         mount_evidence (ac_filesystem_id cf) snapshot now)) \<and>
    (quiet env \<longrightarrow> (\<forall>k x. find_job k (ad_jobs s) = Some x \<longrightarrow> find_job k (ad_jobs s') = Some x)) \<and>
    (quiet env \<longrightarrow> (\<forall>e. r = Inl e \<longrightarrow> ad_jobs s' = ad_jobs s))"
proof -
  have jobs: "case (r, s') of
        (Inl e, s') \<Rightarrow> quiet env \<longrightarrow> ad_jobs s' = ad_jobs s
      | (Inr j, s') \<Rightarrow> find_job item_id (ad_jobs s') = Some j \<and>
          (quiet env \<longrightarrow> (\<forall>k x. find_job k (ad_jobs s) = Some x \<longrightarrow> find_job k (ad_jobs s') = Some x))"
    using capture_deletion_admits [of env item_id cf token] unfolding admits_def assms [symmetric] by (rule spec [where x = s])
  have "hex32 item_id \<and> token \<noteq> [] \<and>
      (\<exists>d policy s1. fetch env (jellyfin_get token ''/Users/Me'' []) s = (Inr (JObj d), s1) \<and>
         jget d ''Policy'' = JObj policy \<and> truthy (jget policy ''IsAdministrator'') \<and>
         truthy (jget policy ''EnableContentDeletion'')) \<and>
      (\<exists>snapshot now w w'. a_snapshot env w = ((Some snapshot, now), w') \<and>
         mount_evidence (ac_filesystem_id cf) snapshot now)" if ok_r: "r = Inr j" for j
  proof -
    obtain me s1 user s2 s3 where ok: "hex32 item_id" "token \<noteq> []"
      and me: "fetch env (jellyfin_get token ''/Users/Me'' []) s = (Inr me, s1)"
      and user: "session_user me = Inr user" and mount: "check_mount env cf s2 = (Inr (), s3)"
      using capture_deletion_steps [of env cf item_id token s j s'] assms ok_r by auto
    from user obtain d policy where d: "me = JObj d" "or_empty (jget d ''Policy'') = Inr policy"
      "truthy (jget policy ''IsAdministrator'')" "truthy (jget policy ''EnableContentDeletion'')"
      by (auto simp: session_user_def err_simps bind_eq_Some_conv json_access split: option.splits if_splits)
    have "policy \<noteq> []" using d(3) by (auto simp: jget_def get_or_def)
    with d(2) have "jget d ''Policy'' = JObj policy"
      by (auto simp: or_empty_def json_access split: option.splits if_splits)
    moreover obtain snapshot now w w' where "a_snapshot env w = ((Some snapshot, now), w')"
        "mount_evidence (ac_filesystem_id cf) snapshot now"
      using mount by (auto simp: check_mount_def req_simps split: prod.splits option.splits)
    ultimately show ?thesis using ok me d by blast
  qed
  with jobs show ?thesis by (auto split: sum.splits)
qed

theorem deletions_authorized_witness:
  "find_job id_a [sample_movie_job] = Some sample_movie_job \<and> hex32 id_a"
  using deletions_authorized [OF deletion_run] by simp

end
