(* ===== verification/WorkerGate.thy ===== *)
theory WorkerGate
  imports Json
begin

text \<open>
  What closes the gateway to new work: the marker of a restore (\<open>recovery.py\<close>) and the
  heartbeat of the worker (\<open>persistence/heartbeat.py\<close>).  White space and line ends are
  those of ASCII.  The table of the heartbeat has one row at most.
\<close>

section \<open>The recovery marker\<close>

text \<open>What the file system says of the marker; \<open>Broken\<close> is an \<open>OSError\<close> or a \<open>UnicodeError\<close>.\<close>

datatype marker = MarkerLink | MarkerMissing | MarkerOther | Broken | MarkerText string

text \<open>\<open>splitlines()\<close> after \<open>read_text\<close>, for which a carriage return ends a line too.\<close>

fun split_lines :: "string \<Rightarrow> string \<Rightarrow> string list" where
  "split_lines acc [] = (if acc = [] then [] else [rev acc])"
| "split_lines acc (c # s) =
     (if code c = 13 \<and> s \<noteq> [] \<and> code (hd s) = 10 then split_lines acc s
      else if code c \<in> {10, 11, 12, 13, 28, 29, 30} then rev acc # split_lines [] s
      else split_lines (c # acc) s)"

text \<open>\<open>partition("=")\<close>: the key and the value of a line that has the separator.\<close>

definition marker_line :: "string \<Rightarrow> (string \<times> string) option" where
  "marker_line line =
     (case dropWhile (\<lambda>c. c \<noteq> CHR ''='') line of
        [] \<Rightarrow> None
      | _ # rest \<Rightarrow> Some (strip (takeWhile (\<lambda>c. c \<noteq> CHR ''='') line), lower (strip rest)))"

text \<open>A later line overrides an earlier one.\<close>

definition marker_values :: "string \<Rightarrow> (string \<times> string) list" where
  "marker_values text = rev (List.map_filter marker_line (split_lines [] text))"

definition recovery_mode_blocks :: "string option \<Rightarrow> marker \<Rightarrow> bool" where
  "recovery_mode_blocks path m =
     (case path of
        None \<Rightarrow> False
      | Some text \<Rightarrow>
          if strip text = [] then False
          else (case m of
                  MarkerLink \<Rightarrow> True
                | MarkerMissing \<Rightarrow> False
                | MarkerOther \<Rightarrow> True
                | Broken \<Rightarrow> True
                | MarkerText body \<Rightarrow>
                    map_of (marker_values body) ''admission_enabled'' \<noteq> Some ''true''))"

section \<open>The heartbeat\<close>

record heartbeat =
  hb_last_seen_at :: rat
  hb_last_success_at :: "rat option"
  hb_initialized :: bool
  hb_state :: string
  hb_last_error :: "string option"
  hb_cycle_deadline_at :: "rat option"

text \<open>\<open>_valid_deadline\<close> of a number.\<close>

definition valid_deadline :: "pyfloat \<Rightarrow> bool" where
  "valid_deadline x = (case x of Fin t \<Rightarrow> 0 < t | _ \<Rightarrow> False)"

definition finite_value :: "pyfloat \<Rightarrow> rat" where
  "finite_value x = (case x of Fin t \<Rightarrow> t | _ \<Rightarrow> 0)"

text \<open>\<open>[A-Za-z][A-Za-z0-9]*Error\<close>\<close>

definition error_name :: "string \<Rightarrow> bool" where
  "error_name s =
     (ends_with ''Error'' s \<and> 5 < length s \<and> is_alpha (hd s) \<and>
      list_all (\<lambda>c. is_alpha c \<or> is_digit c) s)"

definition stored_error :: "string option \<Rightarrow> string option" where
  "stored_error error =
     (case error of
        None \<Rightarrow> None
      | Some e \<Rightarrow> Some (if e \<noteq> [] \<and> \<not> error_name e then ''OperationalError'' else e))"

definition write_heartbeat ::
    "pyfloat \<Rightarrow> bool \<Rightarrow> string \<Rightarrow> bool \<Rightarrow> string option \<Rightarrow> pyfloat option \<Rightarrow> heartbeat option \<Rightarrow>
     err + heartbeat option" where
  "write_heartbeat now initialized state success error deadline row =
     (case now of
        Fin t \<Rightarrow>
          if t < 0 \<or> state \<notin> {''starting'', ''running'', ''failed'', ''maintenance''}
            then Inl (ValueError ''invalid heartbeat'')
          else if \<exists>x\<in>set_option deadline. \<not> valid_deadline x
            then Inl (ValueError ''invalid cycle deadline'')
          else Inr (Some
            \<lparr>hb_last_seen_at = t,
             hb_last_success_at =
               (if success then Some t else case row of None \<Rightarrow> None | Some r \<Rightarrow> hb_last_success_at r),
             hb_initialized = initialized, hb_state = state, hb_last_error = stored_error error,
             hb_cycle_deadline_at = map_option finite_value deadline\<rparr>)
      | _ \<Rightarrow> Inl (ValueError ''invalid heartbeat''))"

definition worker_ready :: "rat \<Rightarrow> rat \<Rightarrow> heartbeat option \<Rightarrow> bool" where
  "worker_ready now max_age row =
     (case row of
        None \<Rightarrow> False
      | Some r \<Rightarrow>
          if \<not> (hb_initialized r \<and> hb_state r = ''running'' \<and> hb_last_error r = None \<and>
                 0 \<le> now - hb_last_seen_at r \<and> now - hb_last_seen_at r \<le> max_age)
            then False
          else (case hb_cycle_deadline_at r of
                  Some deadline \<Rightarrow> 0 < deadline \<and> now < deadline
                | None \<Rightarrow>
                    (case hb_last_success_at r of
                       None \<Rightarrow> False | Some t \<Rightarrow> 0 \<le> now - t \<and> now - t \<le> max_age)))"

section \<open>Facts\<close>

lemma finite_value_valid: "valid_deadline x \<Longrightarrow> 0 < finite_value x \<and> x = Fin (finite_value x)"
  by (auto simp: valid_deadline_def finite_value_def split: pyfloat.splits)

end
