(* ===== verification/Gateway.thy ===== *)
theory Gateway
  imports Requests WorkerGate Outside SourceHealth TorrentArtifacts PermitLookups
begin

text \<open>
  \<open>gateway/app.py\<close>: the state of the download gateway, the qBittorrent behind it, and the
  checks its handlers share.  \<open>create_app\<close> is modelled with the providers the module itself
  passes to it, over a registry with a database.  qBittorrent, the clocks and the files are
  functions over a world of any type; while a handler waits for qBittorrent or sleeps, other
  processes may change the database.  \<open>gw_log\<close> records the calls in order, each with the
  database at that moment and the answer; the code does not read it.
\<close>

section \<open>Calls\<close>

text \<open>
  The dictionary given to \<open>add_torrent\<close>: its JSON entries, and \<open>torrent_bytes\<close> when those
  are octets.
\<close>

record add_payload =
  tp_fields :: "(string \<times> json) list"
  tp_bytes :: "string option"

datatype upstream_call =
    Read string "(string \<times> string) list"
  | AddTorrent add_payload
  | SetRunning string bool
  | TopPriority string
  | DeleteTorrent string

text \<open>
  Exceptions: an \<open>HTTPException\<close>, the subclasses of \<open>UpstreamError\<close> the handlers tell apart,
  an \<open>OSError\<close>, and those of the registry.  What leaves a handler and is no \<open>Http\<close> is
  answered with status 500.
\<close>

datatype exn =
    Http int string
  | ContractError string
  | EffectUncertain string
  | UpstreamFault string
  | OsError
  | Python err

text \<open>
  \<open>g_call\<close> answers a call (the result of a mutation without result is not read).
  \<open>g_heartbeat\<close> is \<open>None\<close> when the store raises.  \<open>g_snapshot\<close> gives what one reading of
  the capacity needs: the dictionary of the snapshot file or the exception, the time, the
  answer of \<open>ismount\<close>, and the free bytes (\<open>None\<close> when \<open>statvfs\<close> raises).
\<close>

record 'w gateway_env =
  g_call :: "'w \<Rightarrow> db \<Rightarrow> upstream_call \<Rightarrow> (exn + json) \<times> db \<times> 'w"
  g_sleep :: "'w \<Rightarrow> db \<Rightarrow> db \<times> 'w"
  g_clock :: "'w \<Rightarrow> time \<times> 'w"
  g_time :: "'w \<Rightarrow> rat \<times> 'w"
  g_monotonic :: "'w \<Rightarrow> rat \<times> 'w"
  g_session_id :: "'w \<Rightarrow> string \<times> 'w"
  g_marker :: "'w \<Rightarrow> marker \<times> 'w"
  g_heartbeat :: "'w \<Rightarrow> heartbeat option option \<times> 'w"
  g_snapshot :: "'w \<Rightarrow> ((exn + (string \<times> json) list) \<times> rat \<times> bool \<times> int option) \<times> 'w"

text \<open>
  The arguments of \<open>create_app\<close> and the environment variables the handlers read:
  \<open>gc_store\<close> and \<open>gc_capacity\<close> tell whether there is a store of torrents and a capacity
  provider; \<open>gc_min_rate\<close> is \<open>None\<close> when the text is no finite number.
\<close>

record gateway_config =
  gc_storage :: "storage option"
  gc_arr_token :: string
  gc_store :: bool
  gc_capacity :: bool
  gc_recovery_path :: "string option"
  gc_heartbeat_age :: rat
  gc_protected :: string
  gc_min_rate :: "rat option"
  gc_filesystem :: "string option"
  gc_capacity_age :: rat
  gc_parse_iso :: "string \<Rightarrow> rat option"
  gc_sha1 :: "string \<Rightarrow> string"
  gc_sha256 :: "string \<Rightarrow> string"

record asked =
  aq_call :: upstream_call
  aq_db :: db
  aq_answer :: "exn + json"

record 'w gw =
  gw_world :: 'w
  gw_db :: db
  gw_sessions :: "(string \<times> rat) list"
  gw_log :: "asked list"

type_synonym ('w, 'a) gwreq = "('w gw, exn, 'a) handler"

definition deny :: "int \<Rightarrow> string \<Rightarrow> ('w, 'a) gwreq" where
  "deny status detail = give (Inl (Http status detail))"

definition demand :: "bool \<Rightarrow> int \<Rightarrow> string \<Rightarrow> ('w, unit) gwreq" where
  "demand ok status detail = (if ok then give (Inr ()) else deny status detail)"

definition python :: "err + 'a \<Rightarrow> exn + 'a" where
  "python r = (case r of Inl e \<Rightarrow> Inl (Python e) | Inr x \<Rightarrow> Inr x)"

definition ask_world :: "('w \<Rightarrow> 'a \<times> 'w) \<Rightarrow> ('w, 'a) gwreq" where
  "ask_world f s = (case f (gw_world s) of (x, w) \<Rightarrow> (Inr x, s\<lparr>gw_world := w\<rparr>))"

definition on_db :: "(db \<Rightarrow> 'a) \<Rightarrow> ('w, 'a) gwreq" where
  "on_db f s = (Inr (f (gw_db s)), s)"

text \<open>A reading that may raise, and one whose exception is the registry's.\<close>

definition ask_db :: "(db \<Rightarrow> exn + 'a) \<Rightarrow> ('w, 'a) gwreq" where
  "ask_db f s = (f (gw_db s), s)"

definition from_registry :: "(db \<Rightarrow> err + 'a) \<Rightarrow> ('w, 'a) gwreq" where
  "from_registry f = ask_db (\<lambda>d. python (f d))"

text \<open>A transaction of the registry.\<close>

definition registry_transaction :: "(db \<Rightarrow> err + (db \<times> 'a)) \<Rightarrow> ('w, 'a) gwreq" where
  "registry_transaction f s =
     (case f (gw_db s) of
        Inl e \<Rightarrow> (Inl (Python e), s) | Inr (d, x) \<Rightarrow> (Inr x, s\<lparr>gw_db := d\<rparr>))"

definition upstream :: "'w gateway_env \<Rightarrow> upstream_call \<Rightarrow> ('w, json) gwreq" where
  "upstream env c s =
     (case g_call env (gw_world s) (gw_db s) c of
        (r, d, w) \<Rightarrow>
          (r, s\<lparr>gw_log := gw_log s @ [\<lparr>aq_call = c, aq_db = gw_db s, aq_answer = r\<rparr>], gw_db := d, gw_world := w\<rparr>))"

definition pause :: "'w gateway_env \<Rightarrow> ('w, unit) gwreq" where
  "pause env s = (case g_sleep env (gw_world s) (gw_db s) of (d, w) \<Rightarrow> (Inr (), s\<lparr>gw_db := d, gw_world := w\<rparr>))"

text \<open>\<open>try ... except\<close>: \<open>f\<close> gives the new exception, itself where it is not caught.\<close>

definition reraise :: "(exn \<Rightarrow> exn) \<Rightarrow> ('w, 'a) gwreq \<Rightarrow> ('w, 'a) gwreq" where
  "reraise f m s = (case m s of (Inl e, s') \<Rightarrow> (Inl (f e), s') | (Inr x, s') \<Rightarrow> (Inr x, s'))"

section \<open>Exceptions\<close>

text \<open>\<open>PermissionError\<close> is a subclass of \<open>OSError\<close>; every \<open>UpstreamError\<close> is a \<open>RuntimeError\<close>.\<close>

fun runtime_error :: "exn \<Rightarrow> bool" where
  "runtime_error (ContractError t) = True"
| "runtime_error (EffectUncertain t) = True"
| "runtime_error (UpstreamFault t) = True"
| "runtime_error (Python (RuntimeError t)) = True"
| "runtime_error (Python (UpstreamError t)) = True"
| "runtime_error _ = False"

fun value_error :: "exn \<Rightarrow> bool" where
  "value_error (Python (ValueError t)) = True"
| "value_error _ = False"

fun os_error :: "exn \<Rightarrow> bool" where
  "os_error OsError = True"
| "os_error (Python (PermissionError t)) = True"
| "os_error _ = False"

text \<open>\<open>PermissionError\<close> becomes 403 and \<open>ValueError\<close> 409.\<close>

fun refused_403 :: "exn \<Rightarrow> exn" where
  "refused_403 (Python (PermissionError t)) = Http 403 t"
| "refused_403 e = e"

fun refused_403_409 :: "exn \<Rightarrow> exn" where
  "refused_403_409 (Python (PermissionError t)) = Http 403 t"
| "refused_403_409 (Python (ValueError t)) = Http 409 t"
| "refused_403_409 e = e"

fun refused_409 :: "exn \<Rightarrow> exn" where
  "refused_409 (Python (PermissionError t)) = Http 409 t"
| "refused_409 (Python (ValueError t)) = Http 409 t"
| "refused_409 e = e"

text \<open>Only the \<open>PermissionError\<close>, as 409.\<close>

fun conflict_409 :: "exn \<Rightarrow> exn" where
  "conflict_409 (Python (PermissionError t)) = Http 409 t"
| "conflict_409 e = e"

section \<open>Values of the torrent list\<close>

text \<open>Comparisons of a number with an exact bound; \<open>NaN\<close> satisfies none.\<close>

fun at_least :: "pyfloat \<Rightarrow> rat \<Rightarrow> bool" where
  "at_least (Fin x) r = (r \<le> x)"
| "at_least PosInf r = True"
| "at_least _ r = False"

text \<open>\<open>isinstance(v, (int, float))\<close>, \<open>bool\<close> included.\<close>

definition number_or_bool :: "json \<Rightarrow> pyfloat option" where
  "number_or_bool j = (case j of JBool b \<Rightarrow> Some (Fin (if b then 1 else 0)) | _ \<Rightarrow> as_number j)"

text \<open>\<open>v in {...}\<close> of a set of texts; a list or a dictionary is not hashable.\<close>

definition member_of :: "string list \<Rightarrow> json \<Rightarrow> exn + bool" where
  "member_of texts j =
     (if \<not> hashable j then Inl (Python (TypeError ''unhashable type''))
      else Inr (case as_str j of Some s \<Rightarrow> s \<in> set texts | None \<Rightarrow> False))"

text \<open>\<open>entry["hash"].lower() == infohash\<close>, of an entry whose hash is a text.\<close>

definition entry_is :: "string \<Rightarrow> (string \<times> json) list \<Rightarrow> bool" where
  "entry_is infohash entry = (case as_str (jget entry ''hash'') of Some h \<Rightarrow> lower h = infohash | None \<Rightarrow> False)"

definition dict_entries :: "json list \<Rightarrow> (string \<times> json) list list" where
  "dict_entries js = List.map_filter as_obj js"

definition all_dicts :: "json list \<Rightarrow> bool" where
  "all_dicts js = list_all (\<lambda>j. as_obj j \<noteq> None) js"

text \<open>\<open>current["save_path"].rstrip("/") == destination\<close> and the category.\<close>

definition placed_at :: "string \<Rightarrow> string \<Rightarrow> (string \<times> json) list \<Rightarrow> bool" where
  "placed_at category destination current =
     (jget current ''category'' = JStr category \<and>
      (case as_str (jget current ''save_path'') of
         Some path \<Rightarrow> rstrip_slash path = destination | None \<Rightarrow> False))"

definition keys_are :: "string list \<Rightarrow> (string \<times> json) list \<Rightarrow> bool" where
  "keys_are ks d = (set (map fst d) = set ks)"

section \<open>Who may call, and when\<close>

definition token_matches :: "string option \<Rightarrow> string \<Rightarrow> bool" where
  "token_matches presented expected =
     (case presented of None \<Rightarrow> False | Some text \<Rightarrow> expected \<noteq> [] \<and> text = expected)"

definition worker_credential :: "gateway_config \<Rightarrow> string option \<Rightarrow> bool" where
  "worker_credential cfg header =
     (gc_arr_token cfg \<noteq> ''unconfigured'' \<and> token_matches header (gc_arr_token cfg))"

definition require_worker :: "gateway_config \<Rightarrow> string option \<Rightarrow> ('w, unit) gwreq" where
  "require_worker cfg header = demand (worker_credential cfg header) 403 ''worker credential required''"

text \<open>\<open>_configured_worker_health\<close>; what it raises counts as not ready.\<close>

definition require_admission :: "'w gateway_env \<Rightarrow> gateway_config \<Rightarrow> ('w, unit) gwreq" where
  "require_admission env cfg =
     rbind (ask_world (g_marker env)) (\<lambda>m.
     rbind (demand (\<not> recovery_mode_blocks (gc_recovery_path cfg) m) 503 ''admission blocked by recovery mode'') (\<lambda>_.
     rbind (ask_world (g_time env)) (\<lambda>now.
     rbind (ask_world (g_heartbeat env)) (\<lambda>found.
       demand (case found of None \<Rightarrow> False | Some row \<Rightarrow> worker_ready now (gc_heartbeat_age cfg) row)
         503 ''admission blocked by worker health''))))"

definition body_json :: "json option \<Rightarrow> ('w, json) gwreq" where
  "body_json body = (case body of None \<Rightarrow> deny 422 ''invalid JSON body'' | Some j \<Rightarrow> give (Inr j))"

section \<open>Protected sources\<close>

definition protected_hashes :: "string \<Rightarrow> string list" where
  "protected_hashes text = map (\<lambda>v. lower (strip v)) (filter (\<lambda>v. strip v \<noteq> []) (split_on CHR '','' text))"

text \<open>\<open>_configured_protected_source\<close>\<close>

definition source_is_protected :: "gateway_config \<Rightarrow> string \<Rightarrow> db \<Rightarrow> bool" where
  "source_is_protected cfg infohash d =
     (lower infohash \<in> set (protected_hashes (gc_protected cfg)) \<or> is_protected infohash d)"

definition require_source_mutable :: "gateway_config \<Rightarrow> string \<Rightarrow> ('w, unit) gwreq" where
  "require_source_mutable cfg infohash =
     rbind (on_db (source_is_protected cfg infohash)) (\<lambda>protected.
       demand (\<not> protected) 403 ''source protected by operator'')"

definition reserved_source :: "string option \<Rightarrow> string option \<Rightarrow> db \<Rightarrow> permit option" where
  "reserved_source rid scope d =
     (case rid of None \<Rightarrow> None | Some r \<Rightarrow> get_for_reservation r scope d)"

definition require_permit_mutable :: "gateway_config \<Rightarrow> permit \<Rightarrow> ('w, unit) gwreq" where
  "require_permit_mutable cfg p =
     rbind (require_source_mutable cfg (pm_infohash p)) (\<lambda>_.
     rbind (on_db (pending_handover (pm_token p))) (\<lambda>handover.
     rbind (case pm_probe_parent_id p of
              None \<Rightarrow> give (Inr handover)
            | Some parent_id \<Rightarrow>
                rbind (on_db (reserved_source (pm_reservation_id p) (pm_scope_key p))) (\<lambda>parent.
                case parent of
                  None \<Rightarrow> deny 409 ''primary source changed''
                | Some q \<Rightarrow> if pm_id q \<noteq> parent_id then deny 409 ''primary source changed'' else give (Inr (Some q))))
     (\<lambda>parent. case parent of
        None \<Rightarrow> give (Inr ()) | Some q \<Rightarrow> require_source_mutable cfg (pm_infohash q))))"

section \<open>The permit and its torrent\<close>

definition source_permit_ok :: "gateway_config \<Rightarrow> permit \<Rightarrow> bool" where
  "source_permit_ok cfg p =
     (pm_state p = Confirmed \<and> pm_category p \<in> {''sonarr'', ''radarr''} \<and> pm_reservation_id p \<noteq> None \<and>
      placement_valid (gc_storage cfg) p \<and> lower_hex40 (pm_infohash p) \<and>
      (pm_category p = ''sonarr'' \<longrightarrow> pm_scope_key p \<noteq> None) \<and>
      (pm_category p = ''radarr'' \<longrightarrow> pm_scope_key p = None))"

definition find_permit :: "string option \<Rightarrow> db \<Rightarrow> permit option" where
  "find_permit token d = (case token of None \<Rightarrow> None | Some t \<Rightarrow> find_token d t)"

definition source_permit :: "gateway_config \<Rightarrow> string option \<Rightarrow> string option \<Rightarrow> ('w, permit) gwreq" where
  "source_permit cfg token header =
     rbind (require_worker cfg header) (\<lambda>_.
     rbind (on_db (find_permit token)) (\<lambda>found.
     case found of
       None \<Rightarrow> deny 403 ''confirmed source permit required''
     | Some p \<Rightarrow>
         rbind (demand (source_permit_ok cfg p) 403 ''confirmed source permit required'') (\<lambda>_.
         rbind (on_db (active_source p)) (\<lambda>active.
         rbind (demand active 403 ''active source permit required'') (\<lambda>_. give (Inr p))))))"

definition info_path :: string where
  "info_path = ''/api/v2/torrents/info''"

definition read_info :: "'w gateway_env \<Rightarrow> string \<Rightarrow> ('w, json) gwreq" where
  "read_info env infohash = upstream env (Read info_path [(''hashes'', infohash)])"

definition source_info :: "'w gateway_env \<Rightarrow> permit \<Rightarrow> ('w, (string \<times> json) list) gwreq" where
  "source_info env p =
     rbind (read_info env (pm_infohash p)) (\<lambda>entries.
     case as_list entries of
       None \<Rightarrow> deny 502 ''invalid torrent list''
     | Some js \<Rightarrow>
         (case filter (entry_is (pm_infohash p)) (dict_entries js) of
            [current] \<Rightarrow>
              rbind (demand (placed_at (pm_category p) (pm_destination p) current) 409 ''torrent identity changed'')
                (\<lambda>_. give (Inr current))
          | _ \<Rightarrow> deny 409 ''permitted torrent is unavailable''))"

section \<open>Capacity\<close>

text \<open>\<open>_configured_capacity\<close>\<close>

definition configured_capacity :: "'w gateway_env \<Rightarrow> gateway_config \<Rightarrow> ('w, capacity) gwreq" where
  "configured_capacity env cfg =
     rbind (upstream env (Read info_path [])) (\<lambda>entries.
     case as_list entries of
       None \<Rightarrow> give (Inl (Python (ValueError ''invalid queue evidence'')))
     | Some js \<Rightarrow>
         if \<not> all_dicts js then give (Inl (Python (ValueError ''invalid queue evidence'')))
         else
           rbind (from_registry (\<lambda>d. emap (\<lambda>e. queue_entry (gc_storage cfg) e d) (dict_entries js))) (\<lambda>items.
           rbind (ask_world (g_snapshot env)) (\<lambda>(snapshot, now, mounted, free).
           rbind (give snapshot) (\<lambda>snap.
             let payload = JList (map JObj items) in
             (case gc_storage cfg of
                Some st \<Rightarrow>
                  give (python (registered_capacity (gc_parse_iso cfg) (\<lambda>pool. st_inspect st pool False)
                                  now (gc_capacity_age cfg) snap payload))
              | None \<Rightarrow>
                  rbind (give (python (capacity_from_queue snap payload (gc_filesystem cfg) now
                                 (gc_capacity_age cfg) mounted (case free of Some n \<Rightarrow> n | None \<Rightarrow> 0)))) (\<lambda>c.
                  if free = None then give (Inl OsError) else give (Inr c)))))))"

definition pool_room :: "time \<Rightarrow> capacity \<Rightarrow> string option \<Rightarrow> string \<Rightarrow> db \<Rightarrow> err + bool" where
  "pool_room now c include pool d =
     ebind (pending_bytes d now c include pool) (\<lambda>pending.
       case capacity_pool c pool of
         None \<Rightarrow> Inl (ValueError ''pool_capacity_unavailable'')
       | Some q \<Rightarrow> Inr (pending \<le> cap_free_bytes q))"

text \<open>Whether the pending bytes of the pool fit, on fresh evidence.\<close>

definition measured_room ::
    "'w gateway_env \<Rightarrow> gateway_config \<Rightarrow> string option \<Rightarrow> string \<Rightarrow> ('w, bool) gwreq" where
  "measured_room env cfg include pool =
     rbind (configured_capacity env cfg) (\<lambda>c.
     rbind (ask_world (g_clock env)) (\<lambda>now.
       from_registry (pool_room now c include pool)))"

definition unavailable_503 :: "bool \<Rightarrow> exn \<Rightarrow> exn" where
  "unavailable_503 runtime e =
     (if value_error e \<or> os_error e \<or> runtime \<and> runtime_error e
      then Http 503 ''filesystem evidence unavailable'' else e)"

definition require_room ::
    "'w gateway_env \<Rightarrow> gateway_config \<Rightarrow> bool \<Rightarrow> string option \<Rightarrow> string \<Rightarrow> ('w, unit) gwreq" where
  "require_room env cfg runtime include pool =
     rbind (demand (gc_capacity cfg) 503 ''fresh filesystem evidence required'') (\<lambda>_.
     reraise (unavailable_503 runtime)
       (rbind (measured_room env cfg include pool) (\<lambda>room.
          if room then give (Inr ()) else give (Inl (Python (ValueError ''waiting_space''))))))"

definition require_pool_capacity :: "'w gateway_env \<Rightarrow> gateway_config \<Rightarrow> permit \<Rightarrow> ('w, unit) gwreq" where
  "require_pool_capacity env cfg p =
     (if gc_storage cfg = None then give (Inr ())
      else
        rbind (demand (placement_valid (gc_storage cfg) p) 503 ''storage placement unavailable'') (\<lambda>_.
          require_room env cfg True (Some (pm_infohash p)) (pm_pool_id p)))"

end
