(* ===== verification/GatewaySources.thy ===== *)
theory GatewaySources
  imports Gateway
begin

text \<open>
  The handlers of \<open>gateway/app.py\<close> that act on the torrent of one permit: deletion, health,
  start and stop, reconciliation, the queue of a series, and the repair of metadata.  A
  polling loop is a recursion on the number of attempts it has left.
\<close>

definition state_reply :: "string \<Rightarrow> json" where
  "state_reply text = JObj [(''state'', JStr text)]"

text \<open>The entries of a torrent list that must hold dictionaries only.\<close>

definition strict_entries :: "string \<Rightarrow> json \<Rightarrow> exn + (string \<times> json) list list" where
  "strict_entries detail j =
     (case as_list j of
        None \<Rightarrow> Inl (Http 502 detail)
      | Some js \<Rightarrow> if all_dicts js then Inr (dict_entries js) else Inl (Http 502 detail))"

definition torrent_store :: "gateway_config \<Rightarrow> ('w, unit) gwreq" where
  "torrent_store cfg = demand (gc_store cfg) 503 ''torrent metadata store unavailable''"

definition stored_torrent :: "gateway_config \<Rightarrow> permit \<Rightarrow> ('w, string option) gwreq" where
  "stored_torrent cfg p =
     from_registry (get_artifact (gc_sha1 cfg) (gc_sha256 cfg) p)"

text \<open>\<open>inspect_torrent\<close>, whose \<open>TorrentBytesError\<close> is answered with the given exception.\<close>

definition inspected ::
    "gateway_config \<Rightarrow> (string \<Rightarrow> exn) \<Rightarrow> string \<Rightarrow> exn + inspected_torrent" where
  "inspected cfg invalid content =
     (case inspect_torrent (gc_sha1 cfg) (gc_sha256 cfg) content of
        Inr i \<Rightarrow> Inr i
      | Inl (TorrentBytesError text) \<Rightarrow> Inl (invalid text)
      | Inl TooManyDigits \<Rightarrow>
          Inl (Python (ValueError ''Exceeds the limit (4300 digits) for integer string conversion'')))"

section \<open>Deletion\<close>

definition auxiliary_suffixes :: "string list" where
  "auxiliary_suffixes =
     [''.txt'', ''.nfo'', ''.srt'', ''.ass'', ''.ssa'', ''.vtt'', ''.jpg'', ''.jpeg'', ''.png'', ''.webp'']"

definition max_auxiliary_bytes :: int where
  "max_auxiliary_bytes = 50000000"

definition auxiliary_file :: "manifest_file \<Rightarrow> bool" where
  "auxiliary_file f =
     (lower (suffix_of (posix_of (file_path f))) \<in> set auxiliary_suffixes \<and>
      file_length f \<le> max_auxiliary_bytes)"

text \<open>The identity in the body of the request.\<close>

definition deletion_identity :: "json \<Rightarrow> exn + string \<times> string \<times> string option" where
  "deletion_identity j =
     (case as_obj j of
        None \<Rightarrow> Inl (Http 422 ''exact media source required'')
      | Some d \<Rightarrow>
          if \<not> keys_are [''permit_token'', ''media_key'', ''scope_key''] d
            then Inl (Http 422 ''exact media source required'')
          else (case (jget d ''permit_token'', jget d ''media_key'', jget d ''scope_key'') of
                  (JStr token, JStr media_key, JNull) \<Rightarrow> Inr (token, media_key, None)
                | (JStr token, JStr media_key, JStr scope) \<Rightarrow> Inr (token, media_key, Some scope)
                | _ \<Rightarrow> Inl (Http 422 ''invalid media source identity'')))"

text \<open>\<open>resolve_source\<close>: the permit of the torrent, and the episode of a season pack.\<close>

definition pack_episode ::
    "storage option \<Rightarrow> string \<Rightarrow> string \<Rightarrow> string option \<Rightarrow> db \<Rightarrow> err + permit" where
  "pack_episode st token media_key scope d =
     (case scope of
        Some sc \<Rightarrow> season_pack_deletion_source st token media_key sc d
      | None \<Rightarrow>
          ebind (pack_deletion_parent st token media_key d)
            (\<lambda>_. Inl (PermissionError ''confirmed pack episode required'')))"

definition resolve_source ::
    "storage option \<Rightarrow> string \<Rightarrow> string \<Rightarrow> string option \<Rightarrow> db \<Rightarrow> err + permit \<times> permit option" where
  "resolve_source st token media_key scope d =
     (case find_token d token of
        Some parent \<Rightarrow>
          if is_pack_permit parent
            then ebind (pack_episode st token media_key scope d) (\<lambda>episode.
                   if pm_season_pack_parent_id episode \<noteq> Some (pm_id parent)
                     then Inl (ValueError ''season pack parent changed'')
                   else Inr (parent, Some episode))
          else ebind (deletion_source st token media_key scope d) (\<lambda>p. Inr (p, None))
      | None \<Rightarrow> ebind (deletion_source st token media_key scope d) (\<lambda>p. Inr (p, None)))"

text \<open>The manifest has one entry per file, the selected files, and small companions only.\<close>

definition only_own_media :: "permit \<Rightarrow> manifest_file list \<Rightarrow> exn + bool" where
  "only_own_media p files =
     (if \<not> distinct (map (\<lambda>f. (file_path f, file_length f)) files) \<or>
         \<not> set (pm_selected_files p) \<subseteq> set (map file_path files) then Inr False
      else (case pm_budget_bytes p of
              None \<Rightarrow> Inl (Python (TypeError ''not supported between instances of int and NoneType''))
            | Some budget \<Rightarrow>
                Inr (total_bytes files \<le> budget \<and>
                     list_all (\<lambda>f. file_path f \<in> set (pm_selected_files p) \<or> auxiliary_file f) files)))"

definition checked_manifest :: "gateway_config \<Rightarrow> permit \<Rightarrow> permit option \<Rightarrow> ('w, manifest_file list) gwreq" where
  "checked_manifest cfg p episode =
     rbind (stored_torrent cfg p) (\<lambda>metadata.
     case metadata of
       None \<Rightarrow> deny 409 ''verified torrent metadata unavailable''
     | Some content \<Rightarrow>
         rbind (give (inspected cfg (\<lambda>_. Http 409 ''verified torrent metadata changed'') content)) (\<lambda>i.
         rbind (give (only_own_media p (torrent_files i))) (\<lambda>own.
         rbind (demand own 409 ''torrent contains other media'') (\<lambda>_.
         rbind (demand (case episode of
                          None \<Rightarrow> True
                        | Some e \<Rightarrow> set (pm_selected_files e) \<subseteq> set (map file_path (torrent_files i)))
                  409 ''season pack episode files changed'') (\<lambda>_.
           give (Inr (torrent_files i)))))))"

text \<open>One entry of the file list of qBittorrent.\<close>

definition actual_file :: "string list \<Rightarrow> (string \<times> json) list \<Rightarrow> (string \<times> int) option" where
  "actual_file selected item =
     (case (as_str (jget item ''name''), as_int (jget item ''size''), as_int (jget item ''priority'')) of
        (Some name, Some bytes, Some priority) \<Rightarrow>
          if name = [] \<or> bytes \<le> 0 \<or> priority < 0 \<or> priority = 0 \<and> name \<in> set selected then None
          else Some (name, bytes)
      | _ \<Rightarrow> None)"

definition same_files :: "string list \<Rightarrow> manifest_file list \<Rightarrow> (string \<times> json) list list \<Rightarrow> bool" where
  "same_files selected files items =
     (case those (map (actual_file selected) items) of
        None \<Rightarrow> False
      | Some found \<Rightarrow>
          distinct found \<and> set found = set (map (\<lambda>f. (file_path f, file_length f)) files))"

definition files_path :: string where
  "files_path = ''/api/v2/torrents/files''"

text \<open>Whether the torrent is there, with the place and the files of the permit.\<close>

definition deletable_torrent :: "'w gateway_env \<Rightarrow> permit \<Rightarrow> manifest_file list \<Rightarrow> ('w, bool) gwreq" where
  "deletable_torrent env p files =
     rbind (read_info env (pm_infohash p)) (\<lambda>listed.
     rbind (give (strict_entries ''invalid torrent list'' listed)) (\<lambda>entries.
     case filter (entry_is (pm_infohash p)) entries of
       [] \<Rightarrow> give (Inr False)
     | [current] \<Rightarrow>
         rbind (demand (placed_at (pm_category p) (rstrip_slash (pm_destination p)) current)
                  409 ''torrent identity changed'') (\<lambda>_.
         rbind (upstream env (Read files_path [(''hash'', pm_infohash p)])) (\<lambda>listing.
         rbind (give (strict_entries ''invalid torrent files'' listing)) (\<lambda>items.
         rbind (demand (same_files (pm_selected_files p) files items) 409 ''torrent files changed'')
           (\<lambda>_. give (Inr True)))))
     | _ \<Rightarrow> deny 409 ''ambiguous torrent identity''))"

text \<open>The binding and the owner once more, just before the torrent goes.\<close>

definition source_again ::
    "gateway_config \<Rightarrow> string \<Rightarrow> string \<Rightarrow> string option \<Rightarrow> ('w, permit \<times> permit option) gwreq" where
  "source_again cfg token media_key scope =
     reraise refused_409
       (from_registry (resolve_source (gc_storage cfg) token media_key scope))"

text \<open>Whether a pack may go: every episode bound to it was deleted explicitly.\<close>

definition pack_may_go ::
    "gateway_config \<Rightarrow> string \<Rightarrow> string \<Rightarrow> string option \<Rightarrow> permit \<Rightarrow> permit option \<Rightarrow> ('w, bool) gwreq" where
  "pack_may_go cfg token media_key scope p episode =
     (if episode = None then give (Inr True)
      else
        rbind (on_db (season_pack_fully_deleted (gc_storage cfg) token media_key)) (\<lambda>all_deleted.
        if \<not> all_deleted then give (Inr False)
        else
          rbind (source_again cfg token media_key scope) (\<lambda>again.
          rbind (on_db (season_pack_fully_deleted (gc_storage cfg) token media_key)) (\<lambda>still_deleted.
          rbind (demand (again = (p, episode) \<and> still_deleted) 409 ''season pack deletion scope changed'')
            (\<lambda>_. give (Inr True))))))"

definition purge_torrent :: "'w gateway_env \<Rightarrow> permit \<Rightarrow> ('w, json) gwreq" where
  "purge_torrent env p =
     rbind (upstream env (DeleteTorrent (pm_infohash p))) (\<lambda>_.
     rbind (read_info env (pm_infohash p)) (\<lambda>after.
     rbind (give (strict_entries ''invalid torrent list after deletion'' after)) (\<lambda>entries.
     rbind (demand (\<not> list_ex (entry_is (pm_infohash p)) entries) 503 ''torrent deletion is still pending'')
       (\<lambda>_. give (Inr (state_reply ''deleted''))))))"

definition delete_media_source ::
    "'w gateway_env \<Rightarrow> gateway_config \<Rightarrow> string option \<Rightarrow> json option \<Rightarrow> ('w, json) gwreq" where
  "delete_media_source env cfg header body =
     rbind (require_worker cfg header) (\<lambda>_.
     rbind (torrent_store cfg) (\<lambda>_.
     rbind (body_json body) (\<lambda>j.
     rbind (give (deletion_identity j)) (\<lambda>(token, media_key, scope).
     rbind (reraise refused_403_409
              (from_registry (resolve_source (gc_storage cfg) token media_key scope)))
     (\<lambda>(p, episode).
     rbind (checked_manifest cfg p episode) (\<lambda>files.
     rbind (deletable_torrent env p files) (\<lambda>there.
     if \<not> there then give (Inr (state_reply ''missing''))
     else
       rbind (source_again cfg token media_key scope) (\<lambda>again.
       rbind (demand (again = (p, episode)) 409 ''source permit changed'') (\<lambda>_.
       rbind (pack_may_go cfg token media_key scope p episode) (\<lambda>gone.
       if \<not> gone then give (Inr (state_reply ''retained_shared''))
       else purge_torrent env p))))))))))"

section \<open>Health\<close>

definition health_counters :: "string list" where
  "health_counters = [''downloaded'', ''amount_left'', ''num_seeds'', ''dlspeed'']"

definition healthy_fields :: "(string \<times> json) list \<Rightarrow> bool" where
  "healthy_fields current =
     (progress_value (jget current ''progress'') \<noteq> None \<and>
      (case as_str (jget current ''state'') of None \<Rightarrow> False | Some s \<Rightarrow> s \<noteq> []) \<and>
      list_all (\<lambda>k. counter (jget current k) \<noteq> None) health_counters)"

definition torrent_health_reply :: "permit \<Rightarrow> (string \<times> json) list \<Rightarrow> json" where
  "torrent_health_reply p current =
     JObj ((''hash'', JStr (pm_infohash p)) # (''progress'', jget current ''progress'') #
           map (\<lambda>k. (k, jget current k)) health_counters @ (''state'', jget current ''state'') #
           (case jget current ''name'' of JStr name \<Rightarrow> [(''name'', JStr name)] | _ \<Rightarrow> []))"

definition read_torrent_health ::
    "'w gateway_env \<Rightarrow> gateway_config \<Rightarrow> string option \<Rightarrow> string option \<Rightarrow> ('w, json) gwreq" where
  "read_torrent_health env cfg token header =
     rbind (source_permit cfg token header) (\<lambda>p.
     rbind (source_info env p) (\<lambda>current.
     rbind (demand (healthy_fields current) 502 ''invalid torrent health'') (\<lambda>_.
       give (Inr (torrent_health_reply p current)))))"

section \<open>Starting and stopping\<close>

text \<open>The token and whether to start, from a body with exactly the two fields.\<close>

definition wanted_action :: "string \<Rightarrow> json \<Rightarrow> exn + json \<times> bool" where
  "wanted_action unsupported j =
     (case as_obj j of
        None \<Rightarrow> Inl (Http 422 ''permit and action required'')
      | Some d \<Rightarrow>
          if \<not> keys_are [''permit_token'', ''action''] d then Inl (Http 422 ''permit and action required'')
          else ebind (member_of [''start'', ''stop''] (jget d ''action'')) (\<lambda>known.
            if \<not> known then Inl (Http 422 unsupported)
            else Inr (jget d ''permit_token'', jget d ''action'' = JStr ''start'')))"

text \<open>The progress, the bytes left and the state of a torrent.\<close>

definition torrent_progress :: "(string \<times> json) list \<Rightarrow> exn + pyfloat \<times> int \<times> string" where
  "torrent_progress current =
     (case (as_number (jget current ''progress''), as_int (jget current ''amount_left''),
            as_str (jget current ''state'')) of
        (Some progress, Some left, Some state) \<Rightarrow> Inr (progress, left, state)
      | _ \<Rightarrow> Inl (Http 502 ''invalid torrent state''))"

definition complete_entry :: "(string \<times> json) list \<Rightarrow> bool" where
  "complete_entry current =
     (py_eq (jget current ''progress'') (JInt 1) \<or> py_eq (jget current ''amount_left'') (JInt 0))"

fun confirm_state :: "'w gateway_env \<Rightarrow> permit \<Rightarrow> bool \<Rightarrow> nat \<Rightarrow> ('w, json) gwreq" where
  "confirm_state env p start 0 = deny 409 ''torrent state not confirmed''"
| "confirm_state env p start (Suc left) =
     rbind (source_info env p) (\<lambda>updated.
     case as_str (jget updated ''state'') of
       None \<Rightarrow> deny 502 ''invalid torrent state''
     | Some state \<Rightarrow>
         if \<not> start \<and> complete_entry updated then deny 409 ''source completed during stop''
         else if stopped_download state = (\<not> start)
           then give (Inr (state_reply (if start then ''started'' else ''stopped'')))
         else
           rbind (if left = 0 then give (Inr ()) else pause env) (\<lambda>_. confirm_state env p start left))"

definition polls :: nat where
  "polls = 26"

definition source_state ::
    "'w gateway_env \<Rightarrow> gateway_config \<Rightarrow> string option \<Rightarrow> json option \<Rightarrow> ('w, json) gwreq" where
  "source_state env cfg header body =
     rbind (require_worker cfg header) (\<lambda>_.
     rbind (body_json body) (\<lambda>j.
     rbind (give (wanted_action ''unsupported source action'' j)) (\<lambda>(token, start).
     rbind (source_permit cfg (as_str token) header) (\<lambda>p.
     rbind (require_source_mutable cfg (pm_infohash p)) (\<lambda>_.
     rbind (if \<not> start then give (Inr ())
            else
              rbind (require_admission env cfg) (\<lambda>_.
              rbind (require_pool_capacity env cfg p) (\<lambda>_.
              rbind (on_db (\<lambda>d. probe_reservation_active d p)) (\<lambda>active.
                demand active 409 ''acquisition cancelled or tombstoned'')))) (\<lambda>_.
     rbind (source_info env p) (\<lambda>current.
     rbind (give (torrent_progress current)) (\<lambda>(progress, left, state).
     rbind (demand (\<not> at_least progress 1 \<and> 0 < left) 409 ''source already complete'') (\<lambda>_.
     if \<not> start \<and> stopped_download state then give (Inr (state_reply ''already_stopped''))
     else if start \<and> \<not> stopped_download state then give (Inr (state_reply ''already_started''))
     else
       rbind (upstream env (SetRunning (pm_infohash p) start)) (\<lambda>_.
         confirm_state env p start polls))))))))))"

section \<open>Reconciliation\<close>

definition only_field :: "json \<Rightarrow> exn + json" where
  "only_field j =
     (case as_obj j of
        None \<Rightarrow> Inl (Http 422 ''permit token required'')
      | Some d \<Rightarrow>
          if keys_are [''permit_token''] d then Inr (jget d ''permit_token'')
          else Inl (Http 422 ''permit token required''))"

definition reconcilable :: "gateway_config \<Rightarrow> db \<Rightarrow> permit \<Rightarrow> bool" where
  "reconcilable cfg d p =
     (live p \<and> pm_category p \<in> {''sonarr'', ''radarr''} \<and> placement_valid (gc_storage cfg) p \<and>
      lower_hex40 (pm_infohash p) \<and>
      (case pm_reservation_id p of
         None \<Rightarrow> False
       | Some rid \<Rightarrow>
           pm_state p = Authorized \<and> pm_probe_parent_id p = None \<longrightarrow> had_superseded d rid (pm_scope_key p)))"

definition reconcile_source ::
    "'w gateway_env \<Rightarrow> gateway_config \<Rightarrow> string option \<Rightarrow> json option \<Rightarrow> ('w, json) gwreq" where
  "reconcile_source env cfg header body =
     rbind (require_worker cfg header) (\<lambda>_.
     rbind (body_json body) (\<lambda>j.
     rbind (give (only_field j)) (\<lambda>token.
     rbind (on_db (\<lambda>d. case find_permit (as_str token) d of
              None \<Rightarrow> None | Some p \<Rightarrow> if reconcilable cfg d p then Some p else None)) (\<lambda>found.
     case found of
       None \<Rightarrow> deny 403 ''reconcilable source permit required''
     | Some p \<Rightarrow>
         rbind (on_db (active_source p)) (\<lambda>active.
         rbind (demand active 403 ''active source permit required'') (\<lambda>_.
         rbind (torrent_store cfg) (\<lambda>_.
         rbind (stored_torrent cfg p) (\<lambda>metadata.
         case metadata of
           None \<Rightarrow> deny 409 ''verified metadata unavailable''
         | Some content \<Rightarrow>
             rbind (give (inspected cfg (\<lambda>t. Python (ValueError t)) content)) (\<lambda>i.
             rbind (demand (Some (total_bytes (torrent_files i)) = pm_budget_bytes p)
                      409 ''replacement size differs from permit'') (\<lambda>_.
             rbind (read_info env (pm_infohash p)) (\<lambda>listed.
             rbind (give (strict_entries ''invalid torrent list'' listed)) (\<lambda>entries.
             case filter (entry_is (pm_infohash p)) entries of
               [] \<Rightarrow> give (Inr (state_reply ''missing''))
             | [current] \<Rightarrow>
                 rbind (demand (placed_at (pm_category p) (pm_destination p) current \<and>
                                as_int (jget current ''total_size'') = pm_budget_bytes p \<and>
                                pm_budget_bytes p \<noteq> None)
                          409 ''replacement torrent identity changed'') (\<lambda>_.
                 rbind (reraise refused_403 (registry_transaction (confirm_reconciled_source (pm_token p)))) (\<lambda>_.
                   give (Inr (state_reply ''confirmed''))))
             | _ \<Rightarrow> deny 409 ''ambiguous torrent identity''))))))))))))"

section \<open>The queue of a series\<close>

definition queued_episode :: "gateway_config \<Rightarrow> permit \<Rightarrow> bool" where
  "queued_episode cfg p =
     (pm_state p = Confirmed \<and> pm_category p = ''sonarr'' \<and> pm_reservation_id p \<noteq> None \<and>
      (case pm_scope_key p of None \<Rightarrow> False | Some sc \<Rightarrow> episode_scope sc \<noteq> None) \<and>
      lower_hex40 (pm_infohash p) \<and> placement_valid (gc_storage cfg) p)"

text \<open>The torrent is looked up and checked as in \<open>source_info\<close>.\<close>

definition series_queue_state ::
    "'w gateway_env \<Rightarrow> gateway_config \<Rightarrow> string option \<Rightarrow> json option \<Rightarrow> ('w, json) gwreq" where
  "series_queue_state env cfg header body =
     rbind (require_worker cfg header) (\<lambda>_.
     rbind (body_json body) (\<lambda>j.
     rbind (give (wanted_action ''unsupported queue action'' j)) (\<lambda>(token, start).
     rbind (on_db (find_permit (as_str token))) (\<lambda>found.
     case found of
       None \<Rightarrow> deny 403 ''confirmed episode permit required''
     | Some p \<Rightarrow>
         rbind (demand (queued_episode cfg p) 403 ''confirmed episode permit required'') (\<lambda>_.
         rbind (require_source_mutable cfg (pm_infohash p)) (\<lambda>_.
         rbind (if \<not> start then give (Inr ())
                else rbind (require_admission env cfg) (\<lambda>_. require_pool_capacity env cfg p)) (\<lambda>_.
         rbind (source_info env p) (\<lambda>current.
         if (case as_number (jget current ''progress'') of None \<Rightarrow> False | Some x \<Rightarrow> at_least x 1)
           then give (Inr (state_reply ''complete''))
         else case as_str (jget current ''state'') of
             None \<Rightarrow> deny 502 ''invalid torrent state''
           | Some state \<Rightarrow>
               if \<not> start \<and> stopped_download state then give (Inr (state_reply ''already_stopped''))
               else if start \<and> \<not> stopped_download state then give (Inr (state_reply ''already_started''))
               else
                 rbind (upstream env (SetRunning (pm_infohash p) start)) (\<lambda>_.
                   give (Inr (state_reply (if start then ''started'' else ''stopped''))))))))))))"

section \<open>Repair of metadata\<close>

text \<open>\<open>torrent_info\<close>: the torrent of the permit, if it is there.\<close>

definition torrent_info :: "'w gateway_env \<Rightarrow> permit \<Rightarrow> ('w, (string \<times> json) list option) gwreq" where
  "torrent_info env p =
     rbind (read_info env (pm_infohash p)) (\<lambda>entries.
     case as_list entries of
       None \<Rightarrow> deny 502 ''invalid torrent list''
     | Some js \<Rightarrow>
         (case filter (entry_is (pm_infohash p)) (dict_entries js) of
            [] \<Rightarrow> give (Inr None)
          | [current] \<Rightarrow>
              rbind (demand (placed_at (pm_category p) (pm_destination p) current) 409 ''torrent identity changed'')
                (\<lambda>_. give (Inr (Some current)))
          | _ \<Rightarrow> deny 409 ''ambiguous torrent identity''))"

definition metadata_stalled :: "(string \<times> json) list \<Rightarrow> bool" where
  "metadata_stalled current =
     ((case as_int_or_bool (jget current ''total_size'') of None \<Rightarrow> False | Some n \<Rightarrow> n \<le> 0) \<and>
      py_eq (jget current ''downloaded'') (JInt 0) \<and> py_eq (jget current ''progress'') (JInt 0))"

definition metadata_present :: "(string \<times> json) list \<Rightarrow> bool" where
  "metadata_present current =
     (case as_int_or_bool (jget current ''total_size'') of None \<Rightarrow> False | Some n \<Rightarrow> 0 < n)"

fun refused_add :: "exn \<Rightarrow> bool" where
  "refused_add (ContractError t) = True"
| "refused_add (EffectUncertain t) = True"
| "refused_add _ = False"

text \<open>The add, whose refusal or uncertainty is ignored.\<close>

definition retry_add :: "'w gateway_env \<Rightarrow> add_payload \<Rightarrow> ('w, unit) gwreq" where
  "retry_add env payload s =
     (case upstream env (AddTorrent payload) s of
        (Inl e, s') \<Rightarrow> if refused_add e then (Inr (), s') else (Inl e, s')
      | (Inr _, s') \<Rightarrow> (Inr (), s'))"

definition permit_payload :: "permit \<Rightarrow> string \<Rightarrow> add_payload" where
  "permit_payload p content =
     \<lparr>tp_fields = [(''infohash'', JStr (pm_infohash p)), (''savepath'', JStr (pm_destination p)),
                   (''category'', JStr (pm_category p))],
      tp_bytes = Some content\<rparr>"

definition body_token :: "json \<Rightarrow> string option" where
  "body_token j = (case as_obj j of None \<Rightarrow> None | Some d \<Rightarrow> as_str (jget d ''permit_token''))"

definition repair_metadata ::
    "'w gateway_env \<Rightarrow> gateway_config \<Rightarrow> string option \<Rightarrow> json option \<Rightarrow> ('w, json) gwreq" where
  "repair_metadata env cfg header body =
     rbind (require_worker cfg header) (\<lambda>_.
     rbind (require_admission env cfg) (\<lambda>_.
     rbind (torrent_store cfg) (\<lambda>_.
     rbind (body_json body) (\<lambda>j.
     rbind (on_db (find_permit (body_token j))) (\<lambda>found.
     case found of
       None \<Rightarrow> deny 403 ''confirmed permit required''
     | Some p \<Rightarrow>
         rbind (demand (pm_state p = Confirmed) 403 ''confirmed permit required'') (\<lambda>_.
         rbind (require_permit_mutable cfg p) (\<lambda>_.
         rbind (require_pool_capacity env cfg p) (\<lambda>_.
         rbind (stored_torrent cfg p) (\<lambda>metadata.
         case metadata of
           None \<Rightarrow> deny 409 ''verified metadata unavailable''
         | Some content \<Rightarrow>
             rbind (torrent_info env p) (\<lambda>current.
             rbind (demand (case current of None \<Rightarrow> False | Some c \<Rightarrow> metadata_stalled c)
                      409 ''torrent is not metadata-stalled'') (\<lambda>_.
             rbind (require_permit_mutable cfg p) (\<lambda>_.
             rbind (require_pool_capacity env cfg p) (\<lambda>_.
             rbind (retry_add env (permit_payload p content)) (\<lambda>_.
             rbind (torrent_info env p) (\<lambda>updated.
             rbind (demand (case updated of None \<Rightarrow> False | Some c \<Rightarrow> metadata_present c)
                      409 ''metadata remains unavailable'') (\<lambda>_.
               give (Inr (state_reply ''metadata_available''))))))))))))))))))"

section \<open>The queue for the capacity reader\<close>

definition gateway_queue_capacity :: "'w gateway_env \<Rightarrow> gateway_config \<Rightarrow> string option \<Rightarrow> ('w, json) gwreq" where
  "gateway_queue_capacity env cfg header =
     rbind (require_worker cfg header) (\<lambda>_.
     rbind (upstream env (Read info_path [])) (\<lambda>result.
     case as_list result of
       None \<Rightarrow> deny 502 ''invalid torrent list''
     | Some js \<Rightarrow>
         rbind (demand (all_dicts js) 502 ''invalid torrent entry'') (\<lambda>_.
         rbind (from_registry (\<lambda>d. emap (\<lambda>e. queue_entry (gc_storage cfg) e d) (dict_entries js))) (\<lambda>items. give (Inr (JList (map JObj items)))))))"

end
