(* ===== verification/GatewayProbes.thy ===== *)
theory GatewayProbes
  imports GatewaySources
begin

text \<open>
  \<open>/internal/probe-decision\<close> of \<open>gateway/app.py\<close>: the end of the race between a source and
  its probe.  A rejected probe is stopped and kept; a promoted one takes over first in the
  registry (a pending handover), then in qBittorrent, where the old source is stopped.
\<close>

section \<open>The request\<close>

definition probe_order :: "json \<Rightarrow> exn + json \<times> bool" where
  "probe_order j =
     (case as_obj j of
        None \<Rightarrow> Inl (Http 422 ''probe token and decision required'')
      | Some d \<Rightarrow>
          if \<not> keys_are [''permit_token'', ''decision''] d
            then Inl (Http 422 ''probe token and decision required'')
          else ebind (member_of [''promote'', ''reject''] (jget d ''decision'')) (\<lambda>known.
            if \<not> known then Inl (Http 422 ''probe token and decision required'')
            else Inr (jget d ''permit_token'', jget d ''decision'' = JStr ''promote'')))"

text \<open>
  The token as a parameter of a query: sqlite takes any scalar, and no number is the text of
  a token, which has 43 characters; it refuses integers of more than 64 bits
  and containers, with exceptions nothing catches (a \<open>TypeError\<close> here).
\<close>

definition token_parameter :: "json \<Rightarrow> exn + string option" where
  "token_parameter j =
     (case j of
        JStr s \<Rightarrow> Inr (Some s)
      | JInt n \<Rightarrow>
          if - (2 ^ 63) \<le> n \<and> n < 2 ^ 63 then Inr None
          else Inl (Python (TypeError ''Python int too large to convert to SQLite INTEGER''))
      | _ \<Rightarrow>
          if hashable j then Inr None
          else Inl (Python (TypeError ''Error binding parameter: type is not supported'')))"

text \<open>The candidate and the source it races, or whose handover is pending.\<close>

definition probe_pair :: "json \<Rightarrow> ('w, permit \<times> permit) gwreq" where
  "probe_pair token =
     rbind (give (token_parameter token)) (\<lambda>t.
     rbind (on_db (find_permit t)) (\<lambda>found.
     case found of
       None \<Rightarrow> deny 403 ''probe required''
     | Some candidate \<Rightarrow>
         rbind (on_db (pending_handover (pm_token candidate))) (\<lambda>handover.
         case handover of
           Some parent \<Rightarrow> give (Inr (candidate, parent))
         | None \<Rightarrow>
             rbind (on_db (active_source candidate)) (\<lambda>active.
             rbind (demand (pm_probe_parent_id candidate \<noteq> None \<and> active) 403 ''active probe required'') (\<lambda>_.
             rbind (on_db (reserved_source (pm_reservation_id candidate) (pm_scope_key candidate))) (\<lambda>primary.
             case primary of
               None \<Rightarrow> deny 409 ''primary source unavailable''
             | Some parent \<Rightarrow> give (Inr (candidate, parent))))))))"

section \<open>Rejection\<close>

definition stopped_names :: "string list" where
  "stopped_names = [''stoppedDL'', ''stoppedUP'', ''pausedDL'', ''pausedUP'']"

text \<open>Whether the torrent of a permit is stopped.\<close>

definition seen_stopped :: "'w gateway_env \<Rightarrow> permit \<Rightarrow> ('w, bool) gwreq" where
  "seen_stopped env p =
     rbind (source_info env p) (\<lambda>current. give (member_of stopped_names (jget current ''state'')))"

text \<open>Polls until the torrent is stopped, and then runs the transaction that settles the race.\<close>

fun settle_stopped ::
    "'w gateway_env \<Rightarrow> permit \<Rightarrow> (db \<Rightarrow> err + db) \<Rightarrow> string \<Rightarrow> string \<Rightarrow> nat \<Rightarrow> ('w, json) gwreq" where
  "settle_stopped env p settle done unconfirmed 0 = deny 409 unconfirmed"
| "settle_stopped env p settle done unconfirmed (Suc left) =
     rbind (seen_stopped env p) (\<lambda>stopped.
     if stopped
       then rbind (registry_transaction (\<lambda>d. ebind (settle d) (\<lambda>d'. Inr (d', ())))) (\<lambda>_. give (Inr (state_reply done)))
     else
       rbind (if left = 0 then give (Inr ()) else pause env) (\<lambda>_.
         settle_stopped env p settle done unconfirmed left))"

definition reject_candidate :: "'w gateway_env \<Rightarrow> permit \<Rightarrow> ('w, json) gwreq" where
  "reject_candidate env candidate =
     rbind (demand (pm_probe_parent_id candidate \<noteq> None) 409 ''handover already committed'') (\<lambda>_.
     rbind (read_info env (pm_infohash candidate)) (\<lambda>entries.
     if as_list entries = Some []
       then rbind (registry_transaction (\<lambda>d. ebind (reject_probe (pm_token candidate) d) (\<lambda>d'. Inr (d', ())))) (\<lambda>_.
              give (Inr (state_reply ''rejected'')))
     else
       rbind (source_info env candidate) (\<lambda>_.
       rbind (upstream env (SetRunning (pm_infohash candidate) False)) (\<lambda>_.
         settle_stopped env candidate (reject_probe (pm_token candidate)) ''rejected''
           ''probe stop unconfirmed'' polls))))"

section \<open>Promotion\<close>

text \<open>
  The acquisition was cancelled: the candidate is stopped, and with a pending handover the
  parent too; nothing is started again.
\<close>

definition cancel_race :: "'w gateway_env \<Rightarrow> permit \<Rightarrow> permit \<Rightarrow> ('w, json) gwreq" where
  "cancel_race env candidate parent =
     rbind (upstream env (SetRunning (pm_infohash candidate) False)) (\<lambda>_.
     rbind (on_db (\<lambda>d. probe_cancelled d candidate)) (\<lambda>cancelled.
     if pm_probe_parent_id candidate = None \<and> cancelled
       then
         rbind (upstream env (SetRunning (pm_infohash parent) False)) (\<lambda>_.
         rbind (seen_stopped env parent) (\<lambda>parent_stopped.
         rbind (if parent_stopped then seen_stopped env candidate else give (Inr False)) (\<lambda>both_stopped.
         if both_stopped
           then rbind (registry_transaction (\<lambda>d. ebind (complete_handover (pm_token candidate) d) (\<lambda>d'. Inr (d', ())))) (\<lambda>_.
                  give (Inr (state_reply ''cancelled'')))
         else deny 409 ''acquisition cancelled or tombstoned'')))
     else deny 409 ''acquisition cancelled or tombstoned''))"

definition running_states :: "string list" where
  "running_states = [''downloading'', ''forcedDL'', ''uploading'', ''stalledUP'']"

text \<open>\<open>slow_threshold > 0 and previous.get("dlspeed", 0) >= slow_threshold\<close>, in bytes per second.\<close>

definition source_recovered :: "gateway_config \<Rightarrow> (string \<times> json) list \<Rightarrow> exn + bool" where
  "source_recovered cfg previous =
     (case gc_min_rate cfg of
        None \<Rightarrow> Inl (Python (ValueError ''could not convert string to float''))
      | Some rate \<Rightarrow>
          if rate * 1024 \<le> 0 then Inr False
          else (case number_or_bool (get_or previous ''dlspeed'' (JInt 0)) of
                  None \<Rightarrow> Inl (Python (TypeError ''not supported between instances''))
                | Some speed \<Rightarrow> Inr (at_least speed (rate * 1024))))"

definition received_some :: "(string \<times> json) list \<Rightarrow> bool" where
  "received_some current =
     (case as_int_or_bool (jget current ''downloaded'') of None \<Rightarrow> False | Some n \<Rightarrow> 0 < n)"

definition probe_evidence_age :: rat where
  "probe_evidence_age = 120"

text \<open>The conditions on a race that is still open, and its end in the registry.\<close>

definition decide_race ::
    "'w gateway_env \<Rightarrow> gateway_config \<Rightarrow> permit \<Rightarrow> (string \<times> json) list \<Rightarrow> (string \<times> json) list \<Rightarrow>
     ('w, unit) gwreq" where
  "decide_race env cfg candidate current previous =
     rbind (give (member_of [''downloading'', ''forcedDL'', ''stalledDL''] (jget previous ''state''))) (\<lambda>loading.
     rbind (demand loading 409 ''original is not actively downloading'') (\<lambda>_.
     rbind (demand (\<not> py_eq (jget previous ''amount_left'') (JInt 0) \<and>
                    \<not> py_eq (jget previous ''progress'') (JInt 1)) 409 ''original source completed'') (\<lambda>_.
     rbind (give (source_recovered cfg previous)) (\<lambda>recovered.
     rbind (demand (\<not> recovered) 409 ''original source recovered'') (\<lambda>_.
     rbind (ask_world (g_time env)) (\<lambda>now.
     rbind (on_db (probe_verified_faster now (pm_id candidate) probe_evidence_age)) (\<lambda>faster.
     rbind (demand (pm_state candidate = Confirmed \<and> faster \<and> received_some current)
              409 ''candidate speed not verified'') (\<lambda>_.
     rbind (reraise conflict_409 (registry_transaction (promote_probe (pm_token candidate)))) (\<lambda>_.
       give (Inr ()))))))))))"

definition promote_candidate ::
    "'w gateway_env \<Rightarrow> gateway_config \<Rightarrow> permit \<Rightarrow> permit \<Rightarrow> ('w, json) gwreq" where
  "promote_candidate env cfg candidate parent =
     rbind (require_admission env cfg) (\<lambda>_.
     rbind (source_info env candidate) (\<lambda>current.
     rbind (source_info env parent) (\<lambda>previous.
     rbind (on_db (\<lambda>d. probe_reservation_active d candidate)) (\<lambda>active.
     if \<not> active then cancel_race env candidate parent
     else
       rbind (require_room env cfg False None (pm_pool_id candidate)) (\<lambda>_.
       rbind (give (member_of running_states (jget current ''state''))) (\<lambda>running.
       rbind (demand running 409 ''candidate is not running'') (\<lambda>_.
       rbind (if pm_probe_parent_id candidate = None then give (Inr ())
              else decide_race env cfg candidate current previous) (\<lambda>_.
       rbind (upstream env (SetRunning (pm_infohash parent) False)) (\<lambda>_.
         settle_stopped env parent (complete_handover (pm_token candidate)) ''promoted''
           ''old source stop unconfirmed'' polls)))))))))"

text \<open>Both torrents must be open to change; then the order is carried out.\<close>

definition settle_race :: "'w gateway_env \<Rightarrow> gateway_config \<Rightarrow> json \<Rightarrow> bool \<Rightarrow> ('w, json) gwreq" where
  "settle_race env cfg token promote =
     rbind (probe_pair token) (\<lambda>(candidate, parent).
     rbind (require_source_mutable cfg (pm_infohash candidate)) (\<lambda>_.
     rbind (require_source_mutable cfg (pm_infohash parent)) (\<lambda>_.
       if promote then promote_candidate env cfg candidate parent
       else reject_candidate env candidate)))"

definition decide_probe ::
    "'w gateway_env \<Rightarrow> gateway_config \<Rightarrow> string option \<Rightarrow> json option \<Rightarrow> ('w, json) gwreq" where
  "decide_probe env cfg header body =
     rbind (require_worker cfg header) (\<lambda>_.
     rbind (body_json body) (\<lambda>j.
     rbind (give (probe_order j)) (\<lambda>(token, promote). settle_race env cfg token promote)))"

end
