(* ===== verification/GatewayQueue.thy ===== *)
theory GatewayQueue
  imports GatewayProbes "HOL-Library.Product_Lexorder"
begin

text \<open>
  \<open>/internal/prioritize-movies\<close> of \<open>gateway/app.py\<close>: the download queue is reordered, the
  next episode of every series first and the movies after them, those with more seeds
  earlier.  The order is confirmed on fresh answers of qBittorrent and of the registry.
\<close>

section \<open>The permits that take part\<close>

definition movie_permit_ok :: "gateway_config \<Rightarrow> permit \<Rightarrow> bool" where
  "movie_permit_ok cfg p =
     (pm_state p = Confirmed \<and> pm_category p = ''radarr'' \<and> pm_reservation_id p \<noteq> None \<and>
      pm_scope_key p = None \<and> placement_valid (gc_storage cfg) p \<and> lower_hex40 (pm_infohash p))"

definition active_movies :: "gateway_config \<Rightarrow> db \<Rightarrow> exn + (string \<times> permit) list" where
  "active_movies cfg d =
     (let ps = filter (movie_permit_ok cfg) (list_active_confirmed_movies d)
      in if distinct (map pm_infohash ps) then Inr (map (\<lambda>p. (pm_infohash p, p)) ps)
         else Inl (Http 409 ''ambiguous movie permit''))"

text \<open>An episode of a series, with its season and number.\<close>

definition numbered_episode :: "gateway_config \<Rightarrow> string \<times> permit \<Rightarrow> (string \<times> (nat \<times> nat) \<times> permit) option" where
  "numbered_episode cfg = (\<lambda>(series, p).
     case episode_scope (case pm_scope_key p of None \<Rightarrow> [] | Some sc \<Rightarrow> sc) of
       None \<Rightarrow> None
     | Some (s, e) \<Rightarrow>
         if series = [] \<or> pm_state p \<noteq> Confirmed \<or> pm_category p \<noteq> ''sonarr'' \<or>
            pm_reservation_id p = None \<or> \<not> placement_valid (gc_storage cfg) p \<or>
            \<not> lower_hex40 (pm_infohash p)
           then None
         else Some (series, (to_nat s, to_nat e), p))"

text \<open>The keys of a dictionary filled in this order.\<close>

definition first_keys :: "'a list \<Rightarrow> 'a list" where
  "first_keys ks = rev (remdups (rev ks))"

text \<open>The first episode of every series, whose torrent must belong to nothing else.\<close>

fun pick_first ::
    "(string \<times> (nat \<times> nat) \<times> permit) list \<Rightarrow> string list \<Rightarrow> string list \<Rightarrow> exn + (string \<times> permit) list" where
  "pick_first items [] taken = Inr []"
| "pick_first items (k # ks) taken =
     (case sort_key fst (map snd (filter (\<lambda>i. fst i = k) items)) of
        [] \<Rightarrow> pick_first items ks taken
      | (n, p) # rest \<Rightarrow>
          if rest \<noteq> [] \<and> fst (hd rest) = n then Inl (Http 409 ''ambiguous episode permit'')
          else if pm_infohash p \<in> set taken then Inl (Http 409 ''ambiguous torrent permit'')
          else ebind (pick_first items ks (pm_infohash p # taken)) (\<lambda>found. Inr ((k, p) # found)))"

definition first_episodes ::
    "gateway_config \<Rightarrow> (string \<times> permit) list \<Rightarrow> db \<Rightarrow> exn + (string \<times> permit) list" where
  "first_episodes cfg movies d =
     (let items = List.map_filter (numbered_episode cfg) (list_active_confirmed_episodes d)
      in pick_first items (first_keys (map fst items)) (map fst movies))"

section \<open>Torrents that may be moved\<close>

definition torrent_list :: "'w gateway_env \<Rightarrow> ('w, (string \<times> json) list list) gwreq" where
  "torrent_list env =
     rbind (upstream env (Read info_path [])) (\<lambda>result. give (strict_entries ''invalid torrent list'' result))"

text \<open>The permits known when the request began.\<close>

record lineup =
  ln_movies :: "(string \<times> permit) list"
  ln_episodes :: "(string \<times> permit) list"

definition lineup_permit :: "lineup \<Rightarrow> string \<Rightarrow> permit option" where
  "lineup_permit lu h =
     (case map_of (ln_movies lu) h of
        Some p \<Rightarrow> Some p
      | None \<Rightarrow> find_row (\<lambda>p. pm_infohash p = h) (map snd (ln_episodes lu)))"

definition queue_states :: "string list" where
  "queue_states = [''downloading'', ''stalledDL'', ''queuedDL'']"

definition unfinished_entry :: "(string \<times> json) list \<Rightarrow> bool" where
  "unfinished_entry item =
     ((case as_number (jget item ''progress'') of Some (Fin x) \<Rightarrow> 0 \<le> x \<and> x < 1 | _ \<Rightarrow> False) \<and>
      (case as_int (jget item ''amount_left'') of Some n \<Rightarrow> 0 < n | None \<Rightarrow> False))"

definition queue_priority :: "(string \<times> json) list \<Rightarrow> int" where
  "queue_priority item = (case as_int (jget item ''priority'') of Some n \<Rightarrow> n | None \<Rightarrow> 0)"

definition eligible ::
    "gateway_config \<Rightarrow> lineup \<Rightarrow> (string \<times> json) list \<Rightarrow> string \<Rightarrow> string \<Rightarrow> db \<Rightarrow> exn + bool" where
  "eligible cfg lu item h category d =
     (case lineup_permit lu h of
        None \<Rightarrow> Inr False
      | Some p \<Rightarrow>
          if jget item ''category'' \<noteq> JStr category \<or> jget item ''save_path'' \<noteq> JStr (pm_destination p)
            then Inr False
          else ebind (member_of queue_states (jget item ''state'')) (\<lambda>queued.
            Inr (queued \<and> jget item ''force_start'' = JBool False \<and> unfinished_entry item \<and>
                 0 < queue_priority item \<and> entry_is h item \<and> \<not> source_is_protected cfg h d)))"

text \<open>
  The seeds of a movie: the larger of two counters, or what the indexer reported for a
  torrent that is queued and shows none.
\<close>

definition movie_score :: "permit \<Rightarrow> (string \<times> json) list \<Rightarrow> int" where
  "movie_score p item =
     (let observed = List.map_filter (\<lambda>k. counter (jget item k)) [''num_complete'', ''num_seeds''];
          score = fold max observed (-1)
      in if jget item ''state'' = JStr ''queuedDL'' \<and> score \<le> 0
         then (case pm_reported_seeders p of None \<Rightarrow> score | Some n \<Rightarrow> max score n)
         else score)"

type_synonym movie_place = "int \<times> nat \<times> int \<times> string"

type_synonym episode_place = "int \<times> nat \<times> string \<times> string"

text \<open>The hashes of the movies in the queue, and the places of those with a score.\<close>

fun scan_movies ::
    "gateway_config \<Rightarrow> lineup \<Rightarrow> db \<Rightarrow> (nat \<times> (string \<times> json) list) list \<Rightarrow> string list \<Rightarrow>
     exn + string list \<times> movie_place list" where
  "scan_movies cfg lu d [] seen = Inr (seen, [])"
| "scan_movies cfg lu d ((i, item) # items) seen =
     (case as_str (jget item ''hash'') of
        None \<Rightarrow> scan_movies cfg lu d items seen
      | Some raw \<Rightarrow>
          (case map_of (ln_movies lu) (lower raw) of
             None \<Rightarrow> scan_movies cfg lu d items seen
           | Some p \<Rightarrow>
               ebind (eligible cfg lu item (lower raw) ''radarr'' d) (\<lambda>ok.
               if \<not> ok then scan_movies cfg lu d items seen
               else if lower raw \<in> set seen then Inl (Http 409 ''duplicate movie torrent'')
               else ebind (scan_movies cfg lu d items (lower raw # seen)) (\<lambda>(seen', found).
                 Inr (seen', if movie_score p item < 0 then found
                             else (queue_priority item, i, movie_score p item, lower raw) # found)))))"

fun scan_episodes ::
    "gateway_config \<Rightarrow> lineup \<Rightarrow> db \<Rightarrow> (nat \<times> (string \<times> json) list) list \<Rightarrow> (string \<times> permit) list \<Rightarrow>
     exn + episode_place list" where
  "scan_episodes cfg lu d items [] = Inr []"
| "scan_episodes cfg lu d items ((series, p) # rest) =
     (case filter (\<lambda>(i, item). entry_is (pm_infohash p) item) items of
        [(i, item)] \<Rightarrow>
          ebind (eligible cfg lu item (pm_infohash p) ''sonarr'' d) (\<lambda>ok.
          ebind (scan_episodes cfg lu d items rest) (\<lambda>found.
            Inr (if ok then (queue_priority item, i, pm_infohash p, series) # found else found)))
      | _ \<Rightarrow> scan_episodes cfg lu d items rest)"

section \<open>The order\<close>

record queue_plan =
  qp_movies_now :: "string list"
  qp_movies_wanted :: "string list"
  qp_episodes :: "string list"
  qp_series :: "string list"
  qp_now :: "string list"

definition queue_plan_of :: "movie_place list \<Rightarrow> episode_place list \<Rightarrow> queue_plan" where
  "queue_plan_of candidates episodes =
     (let current = sort candidates;
          desired = sort_key (\<lambda>(priority, i, score, h). (- score, priority, i)) current;
          ordered = sort episodes
      in \<lparr>qp_movies_now = map (\<lambda>(priority, i, score, h). h) current,
          qp_movies_wanted = map (\<lambda>(priority, i, score, h). h) desired,
          qp_episodes = map (\<lambda>(priority, i, h, series). h) ordered,
          qp_series = map (\<lambda>(priority, i, h, series). series) ordered,
          qp_now = map (\<lambda>(priority, i, h). h)
                     (sort (map (\<lambda>(priority, i, score, h). (priority, i, h)) current @
                            map (\<lambda>(priority, i, h, series). (priority, i, h)) ordered))\<rparr>)"

definition qp_wanted :: "queue_plan \<Rightarrow> string list" where
  "qp_wanted plan = qp_episodes plan @ qp_movies_wanted plan"

fun to_top :: "'w gateway_env \<Rightarrow> gateway_config \<Rightarrow> string list \<Rightarrow> ('w, unit) gwreq" where
  "to_top env cfg [] = give (Inr ())"
| "to_top env cfg (h # hs) =
     rbind (require_source_mutable cfg h) (\<lambda>_.
     rbind (upstream env (TopPriority h)) (\<lambda>_. to_top env cfg hs))"

section \<open>Confirmation\<close>

definition same_movie_permits :: "lineup \<Rightarrow> (string \<times> permit) list \<Rightarrow> string list \<Rightarrow> bool" where
  "same_movie_permits lu active hs =
     list_all (\<lambda>h. map_option pm_id (map_of active h) = map_option pm_id (map_of (ln_movies lu) h)) hs"

definition same_episode_permits :: "lineup \<Rightarrow> (string \<times> permit) list \<Rightarrow> string list \<Rightarrow> bool" where
  "same_episode_permits lu active series =
     list_all (\<lambda>k. map_of active k \<noteq> None \<and>
                    map_option pm_id (map_of active k) = map_option pm_id (map_of (ln_episodes lu) k)) series"

text \<open>The torrents of the plan that may still be moved, with their places.\<close>

fun still_queued ::
    "gateway_config \<Rightarrow> lineup \<Rightarrow> string list \<Rightarrow> string list \<Rightarrow> db \<Rightarrow> (nat \<times> (string \<times> json) list) list \<Rightarrow>
     exn + (int \<times> nat \<times> string) list" where
  "still_queued cfg lu movies wanted d [] = Inr []"
| "still_queued cfg lu movies wanted d ((i, item) # items) =
     (case as_str (jget item ''hash'') of
        None \<Rightarrow> still_queued cfg lu movies wanted d items
      | Some raw \<Rightarrow>
          if lower raw \<notin> set wanted then still_queued cfg lu movies wanted d items
          else
            ebind (eligible cfg lu item (lower raw) (if lower raw \<in> set movies then ''radarr'' else ''sonarr'') d)
            (\<lambda>ok. ebind (still_queued cfg lu movies wanted d items) (\<lambda>found.
              Inr (if ok then (queue_priority item, i, lower raw) # found else found))))"

definition queue_reply :: "string \<Rightarrow> nat \<Rightarrow> json" where
  "queue_reply text n = JObj [(''state'', JStr text), (''count'', JInt (int n))]"

fun confirm_order ::
    "'w gateway_env \<Rightarrow> gateway_config \<Rightarrow> lineup \<Rightarrow> string list \<Rightarrow> queue_plan \<Rightarrow> nat \<Rightarrow> ('w, json) gwreq" where
  "confirm_order env cfg lu movies plan 0 = deny 409 ''movie queue order not confirmed''"
| "confirm_order env cfg lu movies plan (Suc left) =
     rbind (ask_db (active_movies cfg)) (\<lambda>active.
     rbind (demand (same_movie_permits lu active (qp_movies_wanted plan)) 409 ''movie permit changed'') (\<lambda>_.
     rbind (ask_db (first_episodes cfg (ln_movies lu))) (\<lambda>episodes.
     rbind (demand (same_episode_permits lu episodes (qp_series plan)) 409 ''episode permit changed'') (\<lambda>_.
     rbind (torrent_list env) (\<lambda>entries.
     rbind (ask_db (\<lambda>d. still_queued cfg lu movies (qp_wanted plan) d (enumerate 0 entries))) (\<lambda>updated.
     rbind (demand (length updated = card (set (qp_wanted plan))) 409 ''prioritized torrent changed'') (\<lambda>_.
     if map (\<lambda>(priority, i, h). h) (sort updated) = qp_wanted plan
       then give (Inr (queue_reply ''reordered'' (length (qp_wanted plan))))
     else
       rbind (if left = 0 then give (Inr ()) else pause env) (\<lambda>_.
         confirm_order env cfg lu movies plan left))))))))"

section \<open>The handler\<close>

definition queueing_enabled :: "json \<Rightarrow> bool option" where
  "queueing_enabled j = (case as_obj j of None \<Rightarrow> None | Some d \<Rightarrow> as_bool (jget d ''queueing_enabled''))"

definition reorder_queue ::
    "'w gateway_env \<Rightarrow> gateway_config \<Rightarrow> lineup \<Rightarrow> string list \<Rightarrow> queue_plan \<Rightarrow> ('w, json) gwreq" where
  "reorder_queue env cfg lu movies plan =
     (if qp_now plan = qp_wanted plan then give (Inr (queue_reply ''unchanged'' 0))
      else
        rbind (if qp_movies_now plan \<noteq> qp_movies_wanted plan
               then to_top env cfg (rev (qp_movies_wanted plan)) else give (Inr ())) (\<lambda>_.
        rbind (to_top env cfg (rev (qp_episodes plan))) (\<lambda>_.
          confirm_order env cfg lu movies plan 5)))"

definition prioritize_movies :: "'w gateway_env \<Rightarrow> gateway_config \<Rightarrow> string option \<Rightarrow> ('w, json) gwreq" where
  "prioritize_movies env cfg header =
     rbind (require_worker cfg header) (\<lambda>_.
     rbind (require_admission env cfg) (\<lambda>_.
     rbind (upstream env (Read ''/api/v2/app/preferences'' [])) (\<lambda>preferences.
     case queueing_enabled preferences of
       None \<Rightarrow> deny 502 ''invalid qBittorrent preferences''
     | Some enabled \<Rightarrow>
         rbind (demand enabled 409 ''qBittorrent queue is disabled'') (\<lambda>_.
         rbind (ask_db (active_movies cfg)) (\<lambda>movies.
         rbind (ask_db (first_episodes cfg movies)) (\<lambda>episodes.
         rbind (torrent_list env) (\<lambda>entries.
         let lu = \<lparr>ln_movies = movies, ln_episodes = episodes\<rparr>; items = enumerate 0 entries in
         rbind (ask_db (\<lambda>d. scan_movies cfg lu d items [])) (\<lambda>(seen, candidates).
         rbind (ask_db (\<lambda>d. scan_episodes cfg lu d items episodes)) (\<lambda>places.
           reorder_queue env cfg lu seen (queue_plan_of candidates places))))))))))"

end
