(* ===== verification/MagnetLink.thy ===== *)
theory MagnetLink
  imports Prelude
begin

text \<open>
  \<open>domain/magnet.py\<close>: the info-hash of a magnet link with a single v1 hash.  \<open>urlsplit\<close> and
  \<open>parse_qsl\<close> are written out as far as a magnet link reaches them.  A text is its UTF-8
  octets; octets decoded from an escape that are no UTF-8 stay as they are here, where Python
  puts a replacement character: neither equals a key or matches the hash.
\<close>

text \<open>
  The text behind \<open>magnet:\<close> without leading controls and blanks and without tabs; an empty
  authority (\<open>//\<close>) is dropped, any other refuses the link.
\<close>

definition after_scheme :: "string \<Rightarrow> string option" where
  "after_scheme value =
     (let url = filter (\<lambda>c. code c \<noteq> 9) (dropWhile (\<lambda>c. code c \<le> 32) value);
          scheme = takeWhile (\<lambda>c. c \<noteq> CHR '':'') url;
          rest = drop (length scheme + 1) url
      in if lower scheme \<noteq> ''magnet'' \<or> length url = length scheme then None
         else if \<not> starts_with ''//'' rest then Some rest
         else if takeWhile (\<lambda>c. c \<notin> {CHR ''/'', CHR ''?'', CHR ''#''}) (drop 2 rest) \<noteq> [] then None
         else Some (drop 2 rest))"

text \<open>The query, when there is neither a path nor a fragment.\<close>

definition query_text :: "string \<Rightarrow> string option" where
  "query_text rest =
     (let url = takeWhile (\<lambda>c. c \<noteq> CHR ''#'') rest
      in if drop (length url + 1) rest \<noteq> [] then None
         else case url of [] \<Rightarrow> Some [] | c # q \<Rightarrow> if c = CHR ''?'' then Some q else None)"

definition hex_value :: "char \<Rightarrow> nat" where
  "hex_value c =
     (if is_digit c then code c - 48 else if code c \<le> 70 then code c - 55 else code c - 87)"

fun unquote :: "string \<Rightarrow> string" where
  "unquote (c # a # b # s) =
     (if c = CHR ''%'' \<and> is_hex a \<and> is_hex b then char_of (16 * hex_value a + hex_value b) # unquote s
      else c # unquote (a # b # s))"
| "unquote s = s"

definition decoded :: "string \<Rightarrow> string" where
  "decoded s = unquote (map (\<lambda>c. if c = CHR ''+'' then CHR '' '' else c) s)"

text \<open>A field with its \<open>=\<close>; \<open>None\<close> is the \<open>ValueError\<close> of strict parsing.\<close>

definition query_field :: "string \<Rightarrow> (string \<times> string) option" where
  "query_field f =
     (case dropWhile (\<lambda>c. c \<noteq> CHR ''='') f of
        [] \<Rightarrow> None | _ # v \<Rightarrow> Some (decoded (takeWhile (\<lambda>c. c \<noteq> CHR ''='') f), decoded v))"

definition max_fields :: nat where
  "max_fields = 80"

definition query_pairs :: "string \<Rightarrow> (string \<times> string) list option" where
  "query_pairs q =
     (let parts = split_on CHR ''&'' q
      in if q = [] then Some []
         else if max_fields < length parts then None else those (map query_field parts))"

text \<open>\<open>urn:btih:\<close> without regard to case: Python also matches the two dotless and dotted \<open>i\<close>.\<close>

definition any_i :: "string \<Rightarrow> string option" where
  "any_i s =
     (case s of
        c # r \<Rightarrow>
          if lower_char c = CHR ''i'' then Some r
          else (case r of
                  d # r' \<Rightarrow> if code c = 196 \<and> code d \<in> {176, 177} then Some r' else None
                | [] \<Rightarrow> None)
      | [] \<Rightarrow> None)"

definition btih :: "string \<Rightarrow> string option" where
  "btih xt =
     (if lower (take 6 xt) \<noteq> ''urn:bt'' then None
      else case any_i (drop 6 xt) of
             None \<Rightarrow> None
           | Some r \<Rightarrow> if lower (take 2 r) = ''h:'' \<and> hex40 (drop 2 r) then Some (lower (drop 2 r)) else None)"

definition max_magnet :: nat where
  "max_magnet = 16384"

definition magnet_infohash :: "string \<Rightarrow> string option" where
  "magnet_infohash value =
     (if \<not> (0 < py_len value \<and> py_len value \<le> max_magnet) \<or>
         list_ex (\<lambda>c. code c \<in> {0, 10, 13}) value then None
      else case Option.bind (after_scheme value) (\<lambda>rest. Option.bind (query_text rest) query_pairs) of
             None \<Rightarrow> None
           | Some pairs \<Rightarrow>
               if pairs = [] \<or> \<not> list_all (\<lambda>(k, v). k \<in> {''xt'', ''dn'', ''tr''}) pairs then None
               else (case map snd (filter (\<lambda>(k, v). k = ''xt'') pairs) of
                       [xt] \<Rightarrow>
                         if 1 < length (filter (\<lambda>(k, v). k = ''dn'') pairs) then None else btih xt
                     | _ \<Rightarrow> None))"

lemma magnet_infohash_hex: "magnet_infohash value = Some h \<Longrightarrow> lower_hex40 h"
  by (auto simp: magnet_infohash_def btih_def lower_hex40_lower split: if_splits option.splits list.splits)

end
