(* ===== verification/GatewayRoutes.thy ===== *)
theory GatewayRoutes
  imports GatewayQueue MagnetLink
begin

text \<open>
  The qBittorrent surface of \<open>gateway/app.py\<close>, with \<open>gateway/allowlist.py\<close> and
  \<open>gateway/auth.py\<close>: logins, the proxied reads, the one admitted mutation
  \<open>/api/v2/torrents/add\<close>, and the gateway as a whole (\<open>serve\<close>).
\<close>

section \<open>Routes\<close>

record route_rule =
  rt_method :: string
  rt_path :: string
  rt_mutation :: bool

definition allowed_routes :: "route_rule list" where
  "allowed_routes =
     [\<lparr>rt_method = ''POST'', rt_path = ''/api/v2/auth/login'', rt_mutation = False\<rparr>,
      \<lparr>rt_method = ''GET'', rt_path = ''/api/v2/app/version'', rt_mutation = False\<rparr>,
      \<lparr>rt_method = ''GET'', rt_path = ''/api/v2/app/webapiVersion'', rt_mutation = False\<rparr>,
      \<lparr>rt_method = ''GET'', rt_path = ''/api/v2/app/preferences'', rt_mutation = False\<rparr>,
      \<lparr>rt_method = ''GET'', rt_path = ''/api/v2/torrents/categories'', rt_mutation = False\<rparr>,
      \<lparr>rt_method = ''GET'', rt_path = ''/api/v2/torrents/info'', rt_mutation = False\<rparr>,
      \<lparr>rt_method = ''GET'', rt_path = ''/api/v2/torrents/properties'', rt_mutation = False\<rparr>,
      \<lparr>rt_method = ''GET'', rt_path = ''/api/v2/torrents/files'', rt_mutation = False\<rparr>,
      \<lparr>rt_method = ''POST'', rt_path = ''/api/v2/torrents/add'', rt_mutation = True\<rparr>]"

text \<open>The callers pass the method in upper case.\<close>

definition route_permits :: "string \<Rightarrow> string \<Rightarrow> bool" where
  "route_permits verb path = list_ex (\<lambda>r. rt_method r = verb \<and> rt_path r = path) allowed_routes"

definition require_route :: "string \<Rightarrow> string \<Rightarrow> ('w, unit) gwreq" where
  "require_route verb path = demand (route_permits verb path) 404 ''gateway path is not allowed''"

datatype reply = Json json | Plain int string | LoggedIn string

section \<open>Sessions\<close>

text \<open>Whether the caller used the internal header; otherwise its session must be alive.\<close>

definition authenticate ::
    "'w gateway_env \<Rightarrow> gateway_config \<Rightarrow> string option \<Rightarrow> string option \<Rightarrow> ('w, bool) gwreq" where
  "authenticate env cfg header sid =
     rbind (demand (gc_arr_token cfg \<noteq> ''unconfigured'') 403 ''gateway credential is not configured'') (\<lambda>_.
     if token_matches header (gc_arr_token cfg) then give (Inr True)
     else
       rbind (ask_world (g_monotonic env)) (\<lambda>now.
       rbind (\<lambda>s. (Inr (gw_sessions s), s)) (\<lambda>sessions.
         if (case sid of None \<Rightarrow> False | Some i \<Rightarrow> i \<noteq> [] \<and> now < get_or sessions i 0)
         then give (Inr False) else deny 403 ''gateway login required'')))"

datatype form_field = Text string | Upload string

type_synonym form = "(string \<times> form_field) list"

text \<open>\<open>form.get\<close>: of several fields with one name the last one counts.\<close>

definition form_get :: "form \<Rightarrow> string \<Rightarrow> form_field option" where
  "form_get form k = map_of (rev form) k"

definition form_list :: "form \<Rightarrow> string \<Rightarrow> form_field list" where
  "form_list form k = map snd (filter (\<lambda>(k', v). k' = k) form)"

definition form_keys_in :: "string list \<Rightarrow> form \<Rightarrow> bool" where
  "form_keys_in ks form = list_all (\<lambda>(k, v). k \<in> set ks) form"

fun text_of :: "form_field option \<Rightarrow> string option" where
  "text_of (Some (Text s)) = Some s"
| "text_of _ = None"

definition session_seconds :: rat where
  "session_seconds = 3600"

definition login :: "'w gateway_env \<Rightarrow> gateway_config \<Rightarrow> form \<Rightarrow> ('w, reply) gwreq" where
  "login env cfg form =
     rbind (require_route ''POST'' ''/api/v2/auth/login'') (\<lambda>_.
     if form_get form ''username'' \<noteq> Some (Text ''arr'') \<or>
        \<not> worker_credential cfg (text_of (form_get form ''password''))
       then give (Inr (Plain 403 ''Fails.''))
     else
       rbind (ask_world (g_session_id env)) (\<lambda>sid.
       rbind (ask_world (g_monotonic env)) (\<lambda>now.
       rbind (\<lambda>s. (Inr (), s\<lparr>gw_sessions := AList.update sid (now + session_seconds)
                     (if length (gw_sessions s) > 100 then [] else gw_sessions s)\<rparr>)) (\<lambda>_.
         give (Inr (LoggedIn sid))))))"

section \<open>Reads\<close>

definition safe_preferences :: "string list" where
  "safe_preferences =
     [''save_path'', ''queueing_enabled'', ''max_ratio_enabled'', ''max_ratio'',
      ''max_seeding_time_enabled'', ''max_seeding_time'', ''max_ratio_act'', ''dht'']"

definition app_read ::
    "'w gateway_env \<Rightarrow> gateway_config \<Rightarrow> string option \<Rightarrow> string option \<Rightarrow> string \<Rightarrow> ('w, reply) gwreq" where
  "app_read env cfg header sid item =
     (let path = ''/api/v2/app/'' @ item in
      rbind (require_route ''GET'' path) (\<lambda>_.
      rbind (authenticate env cfg header sid) (\<lambda>internal.
      rbind (upstream env (Read path [])) (\<lambda>result.
      if item = ''preferences''
        then (case as_obj result of
                None \<Rightarrow> deny 502 ''invalid qBittorrent preferences''
              | Some d \<Rightarrow> give (Inr (Json (JObj (filter (\<lambda>(k, v). k \<in> set safe_preferences) d)))))
      else (case as_str result of
              None \<Rightarrow> deny 502 ''invalid qBittorrent version''
            | Some text \<Rightarrow>
                if internal \<and> item = ''version'' then give (Inr (Json (JObj [(''version'', JStr text)])))
                else give (Inr (Plain 200 text)))))))"

text \<open>\<open>_validate_infohash\<close>\<close>

definition validate_infohash :: "json \<Rightarrow> exn + string" where
  "validate_infohash j =
     (case as_str j of
        None \<Rightarrow> Inl (Http 422 ''invalid infohash'')
      | Some h \<Rightarrow> if hex40 h \<or> hex64 h then Inr (lower h) else Inl (Http 422 ''invalid infohash''))"

definition admitted_entries :: "db \<Rightarrow> json list \<Rightarrow> json list" where
  "admitted_entries d js =
     filter (\<lambda>j. case as_obj j of
                   None \<Rightarrow> False
                 | Some e \<Rightarrow> (case as_str (jget e ''hash'') of None \<Rightarrow> False | Some h \<Rightarrow> is_admitted h d)) js"

definition torrent_read ::
    "'w gateway_env \<Rightarrow> gateway_config \<Rightarrow> string option \<Rightarrow> string option \<Rightarrow> string \<Rightarrow> (string \<times> string) list \<Rightarrow>
     ('w, reply) gwreq" where
  "torrent_read env cfg header sid item params =
     (let path = ''/api/v2/torrents/'' @ item in
      rbind (require_route ''GET'' path) (\<lambda>_.
      rbind (authenticate env cfg header sid) (\<lambda>_.
      if item = ''categories''
        then rbind (demand (params = []) 400 ''unexpected query'') (\<lambda>_.
               rbind (upstream env (Read path [])) (\<lambda>result. give (Inr (Json result))))
      else if item = ''info''
        then rbind (demand (set (map fst params) \<subseteq> {''category'', ''hashes''}) 400 ''unexpected query'') (\<lambda>_.
             rbind (upstream env (Read path params)) (\<lambda>result.
             case as_list result of
               None \<Rightarrow> deny 502 ''invalid torrent list''
             | Some js \<Rightarrow> rbind (on_db (\<lambda>d. admitted_entries d js)) (\<lambda>shown. give (Inr (Json (JList shown))))))
      else
        rbind (demand (set (map fst params) = {''hash''}) 400 ''torrent hash required'') (\<lambda>_.
        rbind (give (validate_infohash (JStr (get_or params ''hash'' [])))) (\<lambda>infohash.
        rbind (on_db (is_admitted infohash)) (\<lambda>admitted.
        rbind (demand admitted 403 ''torrent is not admitted'') (\<lambda>_.
        rbind (upstream env (Read path [(''hash'', infohash)])) (\<lambda>result. give (Inr (Json result))))))))))"

section \<open>Adding a torrent\<close>

text \<open>
  The request: \<open>ad_json\<close> and \<open>ad_form\<close> are \<open>None\<close> when the body cannot be read as such.
\<close>

record add_request =
  ad_arr_token :: "string option"
  ad_sid :: "string option"
  ad_permit :: "string option"
  ad_infohash :: "string option"
  ad_content_type :: string
  ad_json :: "json option"
  ad_form :: "form option"

text \<open>
  What the three ways of adding agree on: the token of the permit, the payload, the digest of
  the metadata, and the size of the torrent where it was inspected.
\<close>

record add_plan =
  an_token :: "string option"
  an_payload :: add_payload
  an_metadata :: "string option"
  an_total :: "int option"

definition given_token :: "string option \<Rightarrow> bool" where
  "given_token token = (token \<noteq> None \<and> token \<noteq> Some [])"

definition plan_json :: "add_request \<Rightarrow> bool \<Rightarrow> ('w, add_plan) gwreq" where
  "plan_json rq internal =
     rbind (demand (internal \<and> given_token (ad_permit rq)) 403 ''admission permit required'') (\<lambda>_.
     rbind (body_json (ad_json rq)) (\<lambda>j.
     case as_obj j of
       None \<Rightarrow> deny 422 ''JSON body must be an object''
     | Some d \<Rightarrow>
         (case jget d ''metadata_sha256'' of
            JNull \<Rightarrow> give (Inr \<lparr>an_token = ad_permit rq, an_payload = \<lparr>tp_fields = d, tp_bytes = None\<rparr>,
                                an_metadata = None, an_total = None\<rparr>)
          | JStr digest \<Rightarrow> give (Inr \<lparr>an_token = ad_permit rq, an_payload = \<lparr>tp_fields = d, tp_bytes = None\<rparr>,
                                an_metadata = Some digest, an_total = None\<rparr>)
          | _ \<Rightarrow> deny 422 ''invalid metadata digest'')))"

definition magnet_of :: "form_field list \<Rightarrow> string option" where
  "magnet_of urls = (case urls of [Text link] \<Rightarrow> Some link | _ \<Rightarrow> None)"

definition plan_magnet ::
    "'w gateway_env \<Rightarrow> gateway_config \<Rightarrow> form \<Rightarrow> string option \<Rightarrow> string option \<Rightarrow> ('w, add_plan) gwreq" where
  "plan_magnet env cfg form destination category =
     rbind (demand (form_keys_in [''urls'', ''category'', ''savepath'', ''stopped''] form)
              422 ''unsupported torrent options'') (\<lambda>_.
     case (magnet_of (form_list form ''urls''), category) of
       (Some link, Some (c # cs)) \<Rightarrow>
         (case (magnet_infohash link, destination) of
            (None, _) \<Rightarrow> deny 422 ''single v1 magnet and category required''
          | (_, None) \<Rightarrow> deny 422 ''invalid destination''
          | (Some infohash, Some dst) \<Rightarrow>
              rbind (ask_world (g_clock env)) (\<lambda>now.
              rbind (reraise refused_403
                 (from_registry (find_for_magnet (gc_storage cfg \<noteq> None) now infohash dst (c # cs)))) (\<lambda>matched.
              rbind (if gc_store cfg then stored_torrent cfg matched else give (Inr None)) (\<lambda>verified.
              rbind (demand (\<not> (verified = None \<and> gc_store cfg \<and> pm_state matched = Authorized))
                       403 ''verified torrent metadata required'') (\<lambda>_.
              rbind (case verified of
                       None \<Rightarrow> give (Inr None)
                     | Some content \<Rightarrow>
                         rbind (give (inspected cfg (\<lambda>t. Python (ValueError t)) content))
                           (\<lambda>i. give (Inr (Some (total_bytes (torrent_files i)))))) (\<lambda>size_found.
                give (Inr
                  \<lparr>an_token = Some (pm_token matched),
                   an_payload =
                     \<lparr>tp_fields = [(''infohash'', JStr infohash), (''savepath'', JStr (pm_destination matched)),
                                   (''category'', JStr (c # cs))] @
                                  (if verified = None then [(''magnet_url'', JStr link)] else []),
                      tp_bytes = verified\<rparr>,
                   an_metadata = pm_metadata_sha256 matched, an_total = size_found\<rparr>)))))))
     | _ \<Rightarrow> deny 422 ''single v1 magnet and category required'')"

definition torrent_payload :: "string \<Rightarrow> string \<Rightarrow> string option \<Rightarrow> string \<Rightarrow> add_payload" where
  "torrent_payload infohash destination category content =
     \<lparr>tp_fields = [(''infohash'', JStr infohash), (''savepath'', JStr destination),
                   (''category'', case category of None \<Rightarrow> JNull | Some c \<Rightarrow> JStr c)],
      tp_bytes = Some content\<rparr>"

text \<open>The permit behind an uploaded torrent, found by its hash, digest, place and category.\<close>

definition plan_inspected ::
    "'w gateway_env \<Rightarrow> gateway_config \<Rightarrow> add_request \<Rightarrow> bool \<Rightarrow> string \<Rightarrow> string option \<Rightarrow> string \<Rightarrow>
     ('w, add_plan) gwreq" where
  "plan_inspected env cfg rq internal destination category content =
     rbind (give (inspected cfg (Http 422) content)) (\<lambda>i.
     case category of
       Some (c # cs) \<Rightarrow>
         rbind (ask_world (g_clock env)) (\<lambda>now.
         rbind (reraise refused_403
            (from_registry (find_for_metadata (gc_storage cfg \<noteq> None) now (torrent_infohash i)
                         (Some (torrent_sha256 i)) destination (c # cs)))) (\<lambda>matched.
         rbind (demand (internal \<longrightarrow> ad_permit rq = Some (pm_token matched)) 403 ''admission permit mismatch'') (\<lambda>_.
           give (Inr \<lparr>an_token = Some (pm_token matched),
                      an_payload = torrent_payload (torrent_infohash i) (pm_destination matched)
                                     (Some (c # cs)) content,
                      an_metadata = Some (torrent_sha256 i),
                      an_total = Some (total_bytes (torrent_files i))\<rparr>))))
     | _ \<Rightarrow> deny 422 ''category is required'')"

text \<open>An uploaded torrent; an internal caller may name the hash and the permit itself.\<close>

definition plan_upload ::
    "'w gateway_env \<Rightarrow> gateway_config \<Rightarrow> add_request \<Rightarrow> bool \<Rightarrow> form \<Rightarrow> string option \<Rightarrow> string option \<Rightarrow>
     ('w, add_plan) gwreq" where
  "plan_upload env cfg rq internal form destination category =
     rbind (demand (starts_with ''multipart/form-data'' (ad_content_type rq)) 403 ''verified torrent required'') (\<lambda>_.
     rbind (demand (form_keys_in [''torrents'', ''category'', ''savepath'', ''stopped''] form)
              422 ''unsupported torrent options'') (\<lambda>_.
     case (form_list form ''torrents'', destination) of
       ([Upload content], Some dst) \<Rightarrow>
         rbind (demand (length content \<le> max_torrent) 413 ''torrent metadata is too large'') (\<lambda>_.
         if internal \<and> given_token (ad_infohash rq) \<and> given_token (ad_permit rq)
           then give (Inr \<lparr>an_token = ad_permit rq,
                           an_payload = torrent_payload (case ad_infohash rq of None \<Rightarrow> [] | Some h \<Rightarrow> h)
                                          dst category content,
                           an_metadata = Some (gc_sha256 cfg content), an_total = None\<rparr>)
         else plan_inspected env cfg rq internal dst category content)
     | _ \<Rightarrow> deny 422 ''torrent file and destination are required''))"

definition plan_form :: "'w gateway_env \<Rightarrow> gateway_config \<Rightarrow> add_request \<Rightarrow> bool \<Rightarrow> ('w, add_plan) gwreq" where
  "plan_form env cfg rq internal =
     rbind (demand (internal \<longrightarrow> given_token (ad_permit rq)) 403 ''admission permit required'') (\<lambda>_.
     case ad_form rq of
       None \<Rightarrow> deny 422 ''invalid multipart body''
     | Some form \<Rightarrow>
         rbind (demand (case form_get form ''stopped'' of
                          None \<Rightarrow> True | Some (Text t) \<Rightarrow> lower t = ''false'' | Some (Upload _) \<Rightarrow> False)
                  422 ''unsupported torrent state'') (\<lambda>_.
         let destination = (case form_get form ''savepath'' of None \<Rightarrow> Some torrents_root | v \<Rightarrow> text_of v);
             category = (case form_get form ''category'' of None \<Rightarrow> Some [] | v \<Rightarrow> text_of v)
         in if form_get form ''urls'' \<noteq> None then plan_magnet env cfg form destination category
            else plan_upload env cfg rq internal form destination category))"

definition plan_add :: "'w gateway_env \<Rightarrow> gateway_config \<Rightarrow> add_request \<Rightarrow> bool \<Rightarrow> ('w, add_plan) gwreq" where
  "plan_add env cfg rq internal =
     (if starts_with ''application/json'' (ad_content_type rq) then plan_json rq internal
      else if starts_with ''multipart/form-data'' (ad_content_type rq) \<or>
              starts_with ''application/x-www-form-urlencoded'' (ad_content_type rq)
        then plan_form env cfg rq internal
      else deny 403 ''verified torrent required'')"

section \<open>The dispatch\<close>

text \<open>A probe may only start while the pending bytes of its pool fit.\<close>

definition require_probe_room :: "'w gateway_env \<Rightarrow> gateway_config \<Rightarrow> permit \<Rightarrow> ('w, unit) gwreq" where
  "require_probe_room env cfg p =
     (if pm_probe_parent_id p = None then give (Inr ())
      else if \<not> gc_capacity cfg then give (Inl (Python (PermissionError ''fresh_filesystem_evidence_required'')))
      else
        rbind (measured_room env cfg None (pm_pool_id p)) (\<lambda>room.
          if room then give (Inr ()) else give (Inl (Python (PermissionError ''waiting_space'')))))"

definition dispatched_payload :: "gateway_config \<Rightarrow> permit \<Rightarrow> string \<Rightarrow> add_payload \<Rightarrow> add_payload" where
  "dispatched_payload cfg p infohash payload =
     payload\<lparr>tp_fields :=
       (if gc_storage cfg = None then id
        else (\<lambda>d. AList.update ''downloadPath'' (JStr (pm_destination p))
               (AList.update ''useDownloadPath'' (JBool False) (AList.update ''autoTMM'' (JBool False) d))))
       (AList.update ''savepath'' (JStr (pm_destination p))
         (AList.update ''infohash'' (JStr infohash) (tp_fields payload)))\<rparr>"

definition dispatch :: "'w gateway_env \<Rightarrow> gateway_config \<Rightarrow> string \<Rightarrow> add_payload \<Rightarrow> permit \<Rightarrow> ('w, json) gwreq" where
  "dispatch env cfg infohash payload p =
     rbind (require_permit_mutable cfg p) (\<lambda>_.
     rbind (if gc_storage cfg \<noteq> None \<and> \<not> placement_valid (gc_storage cfg) p
            then give (Inl (Python (PermissionError ''storage placement unavailable''))) else give (Inr ())) (\<lambda>_.
     rbind (require_probe_room env cfg p) (\<lambda>_.
       upstream env (AddTorrent (dispatched_payload cfg p infohash payload)))))"

text \<open>
  \<open>PermitRegistry.authorize\<close> around the effect: the claim and its checks, the effect, and
  the record of its result; an exception in between leaves the permit \<open>unknown\<close>.
\<close>

definition unknown_on_error :: "string \<Rightarrow> ('w, 'a) gwreq \<Rightarrow> ('w, 'a) gwreq" where
  "unknown_on_error token m s =
     (case m s of
        (Inl e, s') \<Rightarrow> (Inl e, s'\<lparr>gw_db := mark_unknown token (gw_db s')\<rparr>)
      | (Inr x, s') \<Rightarrow> (Inr x, s'))"

definition claimed_effect ::
    "gateway_config \<Rightarrow> string \<Rightarrow> (permit \<Rightarrow> ('w, json) gwreq) \<Rightarrow> permit \<Rightarrow> ('w, json) gwreq" where
  "claimed_effect cfg token effect p =
     rbind (unknown_on_error token
       (rbind (from_registry (\<lambda>d. dispatch_guard (gc_storage cfg) d p)) (\<lambda>_. effect p)))
     (\<lambda>result. registry_transaction (authorize_finish token result))"

definition authorized_effect ::
    "'w gateway_env \<Rightarrow> gateway_config \<Rightarrow> string \<Rightarrow> string \<Rightarrow> string \<Rightarrow> string option \<Rightarrow>
     (permit \<Rightarrow> ('w, json) gwreq) \<Rightarrow> ('w, json) gwreq" where
  "authorized_effect env cfg token infohash destination metadata effect =
     rbind (ask_world (g_clock env)) (\<lambda>now.
     rbind (registry_transaction (authorize_claim (gc_storage cfg) now token infohash destination metadata)) (\<lambda>claim.
     case claim of
       Replay result \<Rightarrow> give (Inr result)
     | Proceed p _ \<Rightarrow> claimed_effect cfg token effect p))"

definition in_data_torrents :: "string \<Rightarrow> bool" where
  "in_data_torrents path = (path = torrents_root \<or> starts_with (torrents_root @ ''/'') path)"

definition plan_destination :: "add_plan \<Rightarrow> ('w, string) gwreq" where
  "plan_destination plan =
     (case as_str (jget (tp_fields (an_payload plan)) ''savepath'') of
        None \<Rightarrow> deny 422 ''invalid destination''
      | Some path \<Rightarrow> if in_data_torrents path then give (Inr path) else deny 422 ''invalid destination'')"

text \<open>The checks on the permit before the claim; with a registry its place replaces the given one.\<close>

definition placed_request :: "gateway_config \<Rightarrow> string \<Rightarrow> permit option \<Rightarrow> ('w, string) gwreq" where
  "placed_request cfg path permit =
     (case permit of
        None \<Rightarrow> give (Inr path)
      | Some p \<Rightarrow>
          rbind (require_permit_mutable cfg p) (\<lambda>_.
          if gc_storage cfg = None then give (Inr path)
          else rbind (demand (placement_valid (gc_storage cfg) p) 503 ''storage placement unavailable'')
                 (\<lambda>_. give (Inr (pm_destination p)))))"

definition within_budget :: "permit option \<Rightarrow> int option \<Rightarrow> bool" where
  "within_budget permit size_found =
     (case size_found of
        None \<Rightarrow> True
      | Some n \<Rightarrow> (case Option.bind permit pm_budget_bytes of None \<Rightarrow> False | Some b \<Rightarrow> n \<le> b))"

definition add_planned ::
    "'w gateway_env \<Rightarrow> gateway_config \<Rightarrow> bool \<Rightarrow> add_plan \<Rightarrow> ('w, reply) gwreq" where
  "add_planned env cfg internal plan =
     rbind (give (validate_infohash (jget (tp_fields (an_payload plan)) ''infohash''))) (\<lambda>infohash.
     rbind (plan_destination plan) (\<lambda>path.
     case an_token plan of
       None \<Rightarrow> deny 403 ''admission permit required''
     | Some [] \<Rightarrow> deny 403 ''admission permit required''
     | Some (c # cs) \<Rightarrow>
         rbind (require_source_mutable cfg infohash) (\<lambda>_.
         rbind (on_db (find_permit (Some (c # cs)))) (\<lambda>permit.
         rbind (placed_request cfg path permit) (\<lambda>destination.
         rbind (demand (within_budget permit (an_total plan)) 403 ''torrent exceeds reserved budget'') (\<lambda>_.
         rbind (reraise refused_403_409
                  (authorized_effect env cfg (c # cs) infohash destination (an_metadata plan)
                     (dispatch env cfg infohash (an_payload plan)))) (\<lambda>result.
           give (Inr (if internal then Json result else Plain 200 ''Ok.'')))))))))"

definition add_torrent :: "'w gateway_env \<Rightarrow> gateway_config \<Rightarrow> add_request \<Rightarrow> ('w, reply) gwreq" where
  "add_torrent env cfg rq =
     rbind (require_route ''POST'' ''/api/v2/torrents/add'') (\<lambda>_.
     rbind (authenticate env cfg (ad_arr_token rq) (ad_sid rq)) (\<lambda>internal.
     rbind (require_admission env cfg) (\<lambda>_.
     rbind (plan_add env cfg rq internal) (\<lambda>plan. add_planned env cfg internal plan))))"

section \<open>The gateway\<close>

datatype gateway_request =
    PostDeleteSource "string option" "json option"
  | GetTorrentHealth "string option" "string option"
  | PostProbeDecision "string option" "json option"
  | PostSourceState "string option" "json option"
  | PostReconcileSource "string option" "json option"
  | PostSeriesQueueState "string option" "json option"
  | PostRepairMetadata "string option" "json option"
  | GetQueueCapacity "string option"
  | PostPrioritizeMovies "string option"
  | GetHealthLive
  | PostLogin form
  | GetApp "string option" "string option" string
  | GetTorrents "string option" "string option" string "(string \<times> string) list"
  | PostAdd add_request
  | PostTorrents string

definition json_reply :: "('w, json) gwreq \<Rightarrow> ('w, reply) gwreq" where
  "json_reply m = rbind m (\<lambda>j. give (Inr (Json j)))"

fun serve :: "'w gateway_env \<Rightarrow> gateway_config \<Rightarrow> gateway_request \<Rightarrow> ('w, reply) gwreq" where
  "serve env cfg (PostDeleteSource header body) = json_reply (delete_media_source env cfg header body)"
| "serve env cfg (GetTorrentHealth token header) = json_reply (read_torrent_health env cfg token header)"
| "serve env cfg (PostProbeDecision header body) = json_reply (decide_probe env cfg header body)"
| "serve env cfg (PostSourceState header body) = json_reply (source_state env cfg header body)"
| "serve env cfg (PostReconcileSource header body) = json_reply (reconcile_source env cfg header body)"
| "serve env cfg (PostSeriesQueueState header body) = json_reply (series_queue_state env cfg header body)"
| "serve env cfg (PostRepairMetadata header body) = json_reply (repair_metadata env cfg header body)"
| "serve env cfg (GetQueueCapacity header) = json_reply (gateway_queue_capacity env cfg header)"
| "serve env cfg (PostPrioritizeMovies header) = json_reply (prioritize_movies env cfg header)"
| "serve env cfg GetHealthLive = give (Inr (Json (JObj [(''status'', JStr ''ok'')])))"
| "serve env cfg (PostLogin form) = login env cfg form"
| "serve env cfg (GetApp header sid item) = app_read env cfg header sid item"
| "serve env cfg (GetTorrents header sid item params) = torrent_read env cfg header sid item params"
| "serve env cfg (PostAdd rq) = add_torrent env cfg rq"
| "serve env cfg (PostTorrents item) = deny 404 ''gateway path is not allowed''"

end
