(* ===== verification/GatewayFacts.thy ===== *)
theory GatewayFacts
  imports GatewayRoutes PermitSystem
begin

text \<open>
  The rules with which the handlers of the gateway are verified.  Other processes are
  \<open>lawful\<close>: they change the database by steps of the registry's transition system only.  An
  assertion is a \<open>trail\<close>: the database is well formed and satisfies a predicate, and every
  call made since some point satisfies a condition on calls.  A predicate is \<open>stable\<close> when
  steps of the registry keep it; only then it survives a call, a sleep or a transaction.
\<close>

section \<open>Other processes\<close>

definition registry_run :: "db \<Rightarrow> db \<Rightarrow> bool" where
  "registry_run d d' \<longleftrightarrow> (\<exists>ls. run permit_step d ls d')"

definition lawful :: "'w gateway_env \<Rightarrow> bool" where
  "lawful env \<longleftrightarrow>
     (\<forall>w d c. registry_run d (fst (snd (g_call env w d c)))) \<and>
     (\<forall>w d. registry_run d (fst (g_sleep env w d)))"

definition stable :: "(db \<Rightarrow> bool) \<Rightarrow> bool" where
  "stable D \<longleftrightarrow> (\<forall>d l d'. db_wf d \<longrightarrow> permit_step d l d' \<longrightarrow> D d \<longrightarrow> D d')"

lemma registry_run_refl [simp]: "registry_run d d"
  unfolding registry_run_def by (rule exI [of _ "[]"]) simp

lemma registry_run_step:
  assumes "registry_run d d'" and "permit_step d' l d''"
  shows "registry_run d d''"
proof -
  from assms(1) obtain ls where "run permit_step d ls d'" by (auto simp: registry_run_def)
  from run_snoc [OF this assms(2)] show ?thesis unfolding registry_run_def by (rule exI)
qed

lemma run_stable:
  "run permit_step d ls d' \<Longrightarrow> db_wf d \<Longrightarrow> stable D \<Longrightarrow> D d \<Longrightarrow> D d' \<and> db_wf d'"
proof (induction rule: run.induct)
  case (run_cons s l t ls u)
  then show ?case unfolding stable_def using permit_step_refines by blast
qed simp

lemma registry_run_stable:
  "registry_run d d' \<Longrightarrow> db_wf d \<Longrightarrow> stable D \<Longrightarrow> D d \<Longrightarrow> D d' \<and> db_wf d'"
  unfolding registry_run_def using run_stable by blast

named_theorems stable_rules \<open>predicates that steps of the registry keep\<close>

lemma stable_conj [stable_rules]: "stable D \<Longrightarrow> stable E \<Longrightarrow> stable (\<lambda>d. D d \<and> E d)"
  by (auto simp: stable_def)

lemma stable_const [stable_rules]: "stable (\<lambda>d. c)"
  by (simp add: stable_def)

lemma stable_run [stable_rules]: "stable (registry_run d)"
  unfolding stable_def using registry_run_step by blast

text \<open>A torrent of the registry: some permit with its hash has been dispatched.\<close>

definition owned :: "string \<Rightarrow> db \<Rightarrow> bool" where
  "owned h d = list_ex (\<lambda>p. pm_infohash p = h \<and> pm_state p \<noteq> Authorized) (permits d)"

text \<open>A dispatched permit for this torrent at this place.\<close>

definition placed :: "string \<Rightarrow> string \<Rightarrow> db \<Rightarrow> bool" where
  "placed h destination d =
     list_ex (\<lambda>p. pm_infohash p = h \<and> pm_destination p = destination \<and> pm_state p \<noteq> Authorized) (permits d)"

lemma stable_dispatched:
  assumes "\<And>p q. same_source p q \<Longrightarrow> pm_destination p = pm_destination q \<Longrightarrow> Q p \<Longrightarrow> Q q"
  shows "stable (\<lambda>d. list_ex (\<lambda>p. Q p \<and> pm_state p \<noteq> Authorized) (permits d))"
  unfolding stable_def
proof (intro allI impI)
  fix d l d'
  assume d: "db_wf d" "permit_step d l d'" "list_ex (\<lambda>p. Q p \<and> pm_state p \<noteq> Authorized) (permits d)"
  from d(3) obtain p where p: "p \<in> set (permits d)" "Q p" "pm_state p \<noteq> Authorized" by (auto simp: list_ex_iff)
  from history_step [OF d(2,1) p(1,3)] obtain q where q: "q \<in> set (permits d')" "advances p q" .
  from advances_parts [OF q(2)] have "Q q" "pm_state q \<noteq> Authorized"
    using assms p no_return by (auto simp: same_source_def)
  with q(1) show "list_ex (\<lambda>p. Q p \<and> pm_state p \<noteq> Authorized) (permits d')" by (auto simp: list_ex_iff)
qed

lemma stable_owned [stable_rules]: "stable (owned h)"
  using stable_dispatched [of "\<lambda>p. pm_infohash p = h"] by (simp add: owned_def [abs_def] same_source_def)

lemma stable_placed [stable_rules]: "stable (placed h destination)"
  using stable_dispatched [of "\<lambda>p. pm_infohash p = h \<and> pm_destination p = destination"]
  by (simp add: placed_def [abs_def] same_source_def)

section \<open>Trails\<close>

definition trail :: "(asked \<Rightarrow> bool) \<Rightarrow> asked list \<Rightarrow> (db \<Rightarrow> bool) \<Rightarrow> 'w gw \<Rightarrow> bool" where
  "trail ok before D s =
     (db_wf (gw_db s) \<and> D (gw_db s) \<and> (\<exists>calls. gw_log s = before @ calls \<and> list_all ok calls))"

text \<open>
  From a trail with \<open>D\<close> the handler returns to one with what \<open>R\<close> says of its value, and
  raises with \<open>E\<close>.
\<close>

abbreviation moves ::
    "(asked \<Rightarrow> bool) \<Rightarrow> asked list \<Rightarrow> (db \<Rightarrow> bool) \<Rightarrow> ('w, 'a) gwreq \<Rightarrow> ('a \<Rightarrow> db \<Rightarrow> bool) \<Rightarrow> (db \<Rightarrow> bool) \<Rightarrow> bool" where
  "moves ok before D m R E \<equiv> triple (trail ok before D) m (\<lambda>x. trail ok before (R x)) (trail ok before E)"

lemma moves_weaken:
  "moves ok b D m R E \<Longrightarrow> (\<And>d. D' d \<Longrightarrow> D d) \<Longrightarrow> (\<And>x d. R x d \<Longrightarrow> R' x d) \<Longrightarrow> (\<And>d. E d \<Longrightarrow> E' d) \<Longrightarrow>
   moves ok b D' m R' E'"
  by (erule triple_weaken) (auto simp: trail_def)

lemma moves_bind: "moves ok b D m R E \<Longrightarrow> (\<And>x. moves ok b (R x) (f x) Q E) \<Longrightarrow> moves ok b D (rbind m f) Q E"
  by (rule triple_bind)

lemma moves_give: "(\<And>x d. r = Inr x \<Longrightarrow> D d \<Longrightarrow> R x d) \<Longrightarrow> (\<And>d. D d \<Longrightarrow> E d) \<Longrightarrow> moves ok b D (give r) R E"
  by (rule triple_give) (auto simp: trail_def)

lemma moves_deny: "(\<And>d. D d \<Longrightarrow> E d) \<Longrightarrow> moves ok b D (deny status detail) R E"
  by (auto simp: deny_def intro: moves_give)

lemma moves_demand: "(\<And>d. D d \<Longrightarrow> E d) \<Longrightarrow> moves ok b D (demand c status detail) (\<lambda>_ d. D d \<and> c) E"
  by (auto simp: demand_def intro!: triple_if moves_give moves_deny)

lemma moves_on_db: "moves ok b D (on_db f) (\<lambda>x d. D d \<and> f d = x) E"
  by (auto simp: triple_def on_db_def trail_def)

lemma moves_ask_world: "moves ok b D (ask_world f) (\<lambda>_. D) E"
  by (auto simp: triple_def ask_world_def trail_def split: prod.splits)

lemma moves_reraise: "moves ok b D m R E \<Longrightarrow> moves ok b D (reraise f m) R E"
  by (fastforce simp: triple_def reraise_def split: prod.splits sum.splits)

lemma moves_transaction:
  fixes f :: "db \<Rightarrow> err + (db \<times> 'a)"
  assumes "\<And>d d' x. db_wf d \<Longrightarrow> f d = Inr (d', x) \<Longrightarrow> \<exists>l. permit_step d l d'"
    and "stable D" and "\<And>d. D d \<Longrightarrow> E d"
  shows "moves ok b D (registry_transaction f :: ('w, 'a) gwreq) (\<lambda>_. D) E"
proof (rule tripleI)
  fix s :: "'w gw"
  assume s: "trail ok b D s"
  show "case registry_transaction f s of (Inl e, s') \<Rightarrow> trail ok b E s' | (Inr x, s') \<Rightarrow> trail ok b D s'"
  proof (cases "f (gw_db s)")
    case (Inl e)
    then show ?thesis using s assms(3) by (auto simp: registry_transaction_def trail_def)
  next
    case (Inr v)
    obtain d' x where v: "v = (d', x)" by (cases v)
    from s have "db_wf (gw_db s)" by (simp add: trail_def)
    from assms(1) [OF this] Inr v obtain l where "permit_step (gw_db s) l d'" by blast
    with s assms(2) have "D d' \<and> db_wf d'"
      unfolding stable_def trail_def using permit_step_refines by blast
    with s show ?thesis by (auto simp: registry_transaction_def Inr v trail_def)
  qed
qed

lemma moves_upstream:
  fixes env :: "'w gateway_env"
  assumes "lawful env" and "stable D" and "\<And>d. P d \<Longrightarrow> D d" and "\<And>d. D d \<Longrightarrow> E d"
    and "\<And>d r. db_wf d \<Longrightarrow> P d \<Longrightarrow> ok \<lparr>aq_call = c, aq_db = d, aq_answer = r\<rparr>"
  shows "moves ok b P (upstream env c) (\<lambda>_. D) E"
proof (rule tripleI)
  fix s :: "'w gw"
  assume s: "trail ok b P s"
  obtain r d w where call: "g_call env (gw_world s) (gw_db s) c = (r, d, w)" by (metis prod_cases3)
  from assms(1) have "registry_run (gw_db s) d" unfolding lawful_def by (metis call fst_conv snd_conv)
  with s assms(2,3) have "D d \<and> db_wf d" using registry_run_stable unfolding trail_def by blast
  moreover from s have "ok \<lparr>aq_call = c, aq_db = gw_db s, aq_answer = r\<rparr>"
    using assms(5) unfolding trail_def by blast
  ultimately show "case upstream env c s of (Inl e, s') \<Rightarrow> trail ok b E s' | (Inr x, s') \<Rightarrow> trail ok b D s'"
    using s assms(4) by (auto simp: upstream_def call trail_def split: sum.splits)
qed

lemma moves_pause:
  fixes env :: "'w gateway_env"
  assumes "lawful env" and "stable D"
  shows "moves ok b D (pause env) (\<lambda>_. D) E"
proof (rule tripleI)
  fix s :: "'w gw"
  assume s: "trail ok b D s"
  obtain d w where sleep: "g_sleep env (gw_world s) (gw_db s) = (d, w)" by (cases "g_sleep env (gw_world s) (gw_db s)")
  from assms(1) have "registry_run (gw_db s) d" unfolding lawful_def by (metis sleep fst_conv)
  with s assms(2) have "D d \<and> db_wf d" using registry_run_stable unfolding trail_def by blast
  with s show "case pause env s of (Inl e, s') \<Rightarrow> trail ok b E s' | (Inr x, s') \<Rightarrow> trail ok b D s'"
    by (auto simp: pause_def sleep trail_def)
qed

section \<open>Handlers that only look\<close>

text \<open>A handler that keeps a predicate, however it ends.\<close>

abbreviation stays :: "(asked \<Rightarrow> bool) \<Rightarrow> asked list \<Rightarrow> (db \<Rightarrow> bool) \<Rightarrow> ('w, 'a) gwreq \<Rightarrow> bool" where
  "stays ok before D m \<equiv> moves ok before D m (\<lambda>_. D) D"

definition admits_reads :: "(asked \<Rightarrow> bool) \<Rightarrow> bool" where
  "admits_reads ok \<longleftrightarrow>
     (\<forall>path params d r. route_permits ''GET'' path \<longrightarrow>
        ok \<lparr>aq_call = Read path params, aq_db = d, aq_answer = r\<rparr>)"

named_theorems stay_rules \<open>handlers that keep a stable predicate\<close>

lemmas stays_branches [stay_rules] =
  leaves_branches [where P = "trail ok before D" for ok before D]

lemma stays_bind [stay_rules]:
  "stays ok b D m \<Longrightarrow> (\<And>x. stays ok b D (f x)) \<Longrightarrow> stays ok b D (rbind m f)"
  by (rule moves_bind)

lemma stays_give [stay_rules]: "stays ok b D (give r)"
  by (rule moves_give)

lemma stays_deny [stay_rules]: "stays ok b D (deny status detail)"
  by (rule moves_deny)

lemma stays_demand [stay_rules]: "stays ok b D (demand c status detail)"
  by (rule moves_weaken [OF moves_demand [where D = D and E = D]]) auto

lemma stays_on_db [stay_rules]: "stays ok b D (on_db f)"
  by (rule moves_weaken [OF moves_on_db [where D = D and E = D]]) auto

lemma moves_ask_db: "(\<And>d. D d \<Longrightarrow> E d) \<Longrightarrow> moves ok b D (ask_db f) (\<lambda>x d. D d \<and> f d = Inr x) E"
  by (auto simp: triple_def ask_db_def trail_def split: sum.splits)

lemma stays_ask_db [stay_rules]: "stays ok b D (ask_db f)"
  by (rule moves_weaken [OF moves_ask_db [where D = D and E = D]]) auto

lemma stays_from_registry [stay_rules]: "stays ok b D (from_registry f)"
  unfolding from_registry_def by (rule stays_ask_db)

lemma stays_ask_world [stay_rules]: "stays ok b D (ask_world f)"
  by (rule moves_ask_world)

lemma stays_reraise [stay_rules]: "stays ok b D m \<Longrightarrow> stays ok b D (reraise f m)"
  by (rule moves_reraise)

lemma stays_pause [stay_rules]: "lawful env \<Longrightarrow> stable D \<Longrightarrow> stays ok b D (pause env)"
  by (rule moves_pause)

lemma stays_read [stay_rules]:
  "lawful env \<Longrightarrow> stable D \<Longrightarrow> admits_reads ok \<Longrightarrow> route_permits ''GET'' path \<Longrightarrow>
   stays ok b D (upstream env (Read path params))"
  by (rule moves_upstream) (auto simp: admits_reads_def)

lemma registry_steps:
  "confirm_reconciled_source token d = Inr (d', p) \<Longrightarrow> \<exists>l. permit_step d l d'"
  "promote_probe token d = Inr (d', p) \<Longrightarrow> \<exists>l. permit_step d l d'"
  "reject_probe token d = Inr d' \<Longrightarrow> \<exists>l. permit_step d l d'"
  "complete_handover token d = Inr d' \<Longrightarrow> \<exists>l. permit_step d l d'"
  "authorize_finish token result d = Inr (d', r) \<Longrightarrow> \<exists>l. permit_step d l d'"
  using permit_step.reconcile permit_step.promote permit_step.reject permit_step.handover_done
    permit_step.settle by blast+

lemma stays_transact [stay_rules]:
  assumes "stable D"
  shows "stays ok b D (registry_transaction (confirm_reconciled_source token))"
    and "stays ok b D (registry_transaction (promote_probe token))"
    and "stays ok b D (registry_transaction (\<lambda>d. ebind (reject_probe token d) (\<lambda>d'. Inr (d', ()))))"
    and "stays ok b D (registry_transaction (\<lambda>d. ebind (complete_handover token d) (\<lambda>d'. Inr (d', ()))))"
    and "stays ok b D (registry_transaction (authorize_finish token result))"
  using assms by (auto intro!: moves_transaction simp: err_simps dest: registry_steps)

lemma read_routes [stay_rules]:
  "route_permits ''GET'' info_path" "route_permits ''GET'' files_path"
  "route_permits ''GET'' ''/api/v2/app/preferences''"
  by (simp_all add: route_permits_def allowed_routes_def info_path_def files_path_def)

lemma stays_checks [stay_rules]:
  "stays ok b D (require_worker cfg header)"
  "stays ok b D (require_admission env cfg)"
  "stays ok b D (body_json body)"
  "stays ok b D (require_source_mutable cfg h)"
  "stays ok b D (require_permit_mutable cfg p)"
  "stays ok b D (source_permit cfg token header)"
  "stays ok b D (torrent_store cfg)"
  "stays ok b D (stored_torrent cfg p)"
  "stays ok b D (require_route verb path)"
  unfolding require_worker_def require_admission_def body_json_def require_source_mutable_def
    require_permit_mutable_def source_permit_def torrent_store_def stored_torrent_def require_route_def
  by (intro stay_rules)+

lemma stays_looks [stay_rules]:
  assumes "lawful env" and "stable D" and "admits_reads ok"
  shows "stays ok b D (read_info env h)"
    and "stays ok b D (source_info env p)"
    and "stays ok b D (torrent_info env p)"
    and "stays ok b D (torrent_list env)"
    and "stays ok b D (seen_stopped env p)"
    and "stays ok b D (configured_capacity env cfg)"
  unfolding source_info_def torrent_info_def seen_stopped_def read_info_def torrent_list_def configured_capacity_def Let_def
  by (intro stay_rules assms)+

lemma stays_room [stay_rules]:
  assumes "lawful env" and "stable D" and "admits_reads ok"
  shows "stays ok b D (measured_room env cfg include pool)"
    and "stays ok b D (require_room env cfg runtime include pool)"
    and "stays ok b D (require_pool_capacity env cfg p)"
    and "stays ok b D (require_probe_room env cfg p)"
  unfolding require_pool_capacity_def require_room_def require_probe_room_def measured_room_def
  by (intro stay_rules assms)+

end
