(* ===== verification/GatewaySafety.thy ===== *)
theory GatewaySafety
  imports GatewayFacts
begin

text \<open>
  What the gateway may do to qBittorrent: every call of every handler is one the registry
  answers for at that moment.
\<close>

section \<open>Results of the combinators\<close>

lemma deny_Inr [req_simps]: "deny status detail s \<noteq> (Inr x, s')"
  by (simp add: deny_def give_def)

lemma demand_Inr [req_simps]: "demand c status detail s = (Inr x, s') \<longleftrightarrow> c \<and> s' = s"
  by (auto simp: demand_def req_simps)

lemma on_db_Inr [req_simps]: "on_db f s = (Inr x, s') \<longleftrightarrow> x = f (gw_db s) \<and> s' = s"
  by (auto simp: on_db_def)

lemma reraise_Inr [req_simps]: "reraise f m s = (Inr x, s') \<longleftrightarrow> m s = (Inr x, s')"
  by (auto simp: reraise_def split: prod.splits sum.splits)

lemma python_Inr [req_simps]: "python r = Inr x \<longleftrightarrow> r = Inr x"
  by (auto simp: python_def split: sum.splits)

lemma ask_db_Inr [req_simps]: "ask_db f s = (Inr x, s') \<longleftrightarrow> f (gw_db s) = Inr x \<and> s' = s"
  by (auto simp: ask_db_def)

lemma from_registry_Inr [req_simps]: "from_registry f s = (Inr x, s') \<longleftrightarrow> f (gw_db s) = Inr x \<and> s' = s"
  by (auto simp: from_registry_def req_simps)

lemma require_worker_Inr [req_simps]: "require_worker cfg header s = (Inr x, s') \<longleftrightarrow> worker_credential cfg header \<and> s' = s"
  by (auto simp: require_worker_def req_simps)

text \<open>What a handler returns, added to what it keeps.\<close>

lemma moves_value:
  assumes "stays ok b D m" and "\<And>s x s'. m s = (Inr x, s') \<Longrightarrow> R x (gw_db s')"
  shows "moves ok b D m (\<lambda>x d. D d \<and> R x d) D"
  using assms by (fastforce simp: triple_def trail_def split: prod.splits sum.splits)

lemma stays_forget: "stays ok b (\<lambda>d. D d \<and> E d) m \<Longrightarrow> moves ok b (\<lambda>d. D d \<and> E d) m (\<lambda>_. D) D"
  by (erule moves_weaken) auto

lemma stays_found:
  "moves ok b D m (\<lambda>x d. D d \<and> R x d) D \<Longrightarrow> (\<And>x. stays ok b (\<lambda>d. D d \<and> R x d) (f x)) \<Longrightarrow>
   stays ok b D (rbind m f)"
  by (erule moves_bind) (rule stays_forget)

section \<open>What the registry answers for\<close>

definition registered :: "string \<Rightarrow> db \<Rightarrow> bool" where
  "registered h d = list_ex (\<lambda>p. pm_infohash p = h) (permits d)"

text \<open>
  Reads follow the allowlist.  A torrent is added at the place of a permit that has been
  dispatched; one is started or moved in the queue when a permit with its hash has been
  dispatched, and stopped when, in addition, the request at least found one (\<open>d0\<close> is the
  database at its start).  One is deleted when the registry names it as the source of the
  media to delete and, if it is a season pack, when all its episodes are deleted.
\<close>

fun answers_for :: "gateway_config \<Rightarrow> db \<Rightarrow> upstream_call \<Rightarrow> db \<Rightarrow> bool" where
  "answers_for cfg d0 (Read path params) d = route_permits ''GET'' path"
| "answers_for cfg d0 (AddTorrent payload) d =
     (case (jget (tp_fields payload) ''infohash'', jget (tp_fields payload) ''savepath'') of
        (JStr h, JStr destination) \<Rightarrow> placed h destination d | _ \<Rightarrow> False)"
| "answers_for cfg d0 (SetRunning h start) d = (owned h d \<or> \<not> start \<and> registered h d0)"
| "answers_for cfg d0 (TopPriority h) d = owned h d"
| "answers_for cfg d0 (DeleteTorrent h) d =
     (\<exists>token media_key scope p episode.
        resolve_source (gc_storage cfg) token media_key scope d = Inr (p, episode) \<and> pm_infohash p = h \<and>
        (episode \<noteq> None \<longrightarrow> season_pack_fully_deleted (gc_storage cfg) token media_key d))"

definition authorised :: "gateway_config \<Rightarrow> db \<Rightarrow> asked \<Rightarrow> bool" where
  "authorised cfg d0 c = answers_for cfg d0 (aq_call c) (aq_db c)"

lemma authorised_reads [stay_rules]: "admits_reads (authorised cfg d0)"
  by (simp add: admits_reads_def authorised_def)

lemma moves_call:
  assumes "lawful env" and "stable D" and "\<And>d. P d \<Longrightarrow> D d" and "\<And>d. D d \<Longrightarrow> E d"
    and "\<And>d. db_wf d \<Longrightarrow> P d \<Longrightarrow> answers_for cfg d0 c d"
  shows "moves (authorised cfg d0) b P (upstream env c) (\<lambda>_. D) E"
  using assms by (intro moves_upstream) (auto simp: authorised_def)

lemma stays_call:
  "lawful env \<Longrightarrow> stable D \<Longrightarrow> (\<And>d. db_wf d \<Longrightarrow> D d \<Longrightarrow> answers_for cfg d0 c d) \<Longrightarrow>
   stays (authorised cfg d0) b D (upstream env c)"
  by (rule moves_call)

section \<open>Starting, stopping and health\<close>

text \<open>A permit that has been dispatched keeps its torrent in the hands of the registry.\<close>

definition held :: "permit \<Rightarrow> db \<Rightarrow> bool" where
  "held p = placed (pm_infohash p) (pm_destination p)"

lemma stable_held [stable_rules]: "stable (held p)"
  by (simp add: held_def stable_placed)

lemma held_owned: "held p d \<Longrightarrow> owned (pm_infohash p) d"
  by (auto simp: held_def placed_def owned_def list_ex_iff)

lemma member_held: "p \<in> set (permits d) \<Longrightarrow> pm_state p \<noteq> Authorized \<Longrightarrow> held p d"
  by (auto simp: held_def placed_def list_ex_iff)

lemma find_permit_member: "find_permit token d = Some p \<Longrightarrow> p \<in> set (permits d)"
  using find_token_Some by (fastforce simp: find_permit_def split: option.splits)

lemma source_permit_held: "source_permit cfg token header s = (Inr p, s') \<Longrightarrow> held p (gw_db s')"
  by (auto simp: source_permit_def req_simps source_permit_ok_def
      intro!: member_held find_permit_member split: option.splits)

lemma stays_source_permit:
  "(\<And>p. stays ok b (\<lambda>d. D d \<and> held p d) (f p)) \<Longrightarrow>
   stays ok b D (rbind (source_permit cfg token header) f)"
  by (rule stays_found [OF moves_value [where R = held]]) (auto intro: stay_rules source_permit_held)

text \<open>A permit found by its token, once it is known to be confirmed.\<close>

lemma stays_confirmed:
  assumes "\<And>p. C p \<Longrightarrow> pm_state p = Confirmed" and "\<And>p. stays ok b (\<lambda>d. D d \<and> held p d) (f p)"
  shows "stays ok b D (rbind (on_db (find_permit token)) (\<lambda>found.
           case found of None \<Rightarrow> deny n t | Some p \<Rightarrow> rbind (demand (C p) n' t') (\<lambda>_. f p)))"
proof (rule moves_bind [OF moves_on_db], rule triple_option)
  fix found :: "permit option" and p
  assume found: "found = Some p"
  show "moves ok b (\<lambda>d. D d \<and> find_permit token d = found) (rbind (demand (C p) n' t') (\<lambda>_. f p)) (\<lambda>_. D) D"
  proof (rule moves_bind [OF moves_demand])
    show "moves ok b (\<lambda>d. (D d \<and> find_permit token d = found) \<and> C p) (f p) (\<lambda>_. D) D"
      by (rule moves_weaken [OF assms(2) [of p]])
        (auto simp: found assms(1) intro!: member_held find_permit_member)
  qed simp
qed (auto intro: moves_deny)

lemma stays_confirm_state:
  assumes "lawful env" and "stable D" and "admits_reads ok"
  shows "stays ok b D (confirm_state env p start n)"
  by (induction n) (simp_all only: confirm_state.simps, (rule stay_rules assms | assumption)+)

lemma stays_source_state:
  assumes "lawful env" and "stable D"
  shows "stays (authorised cfg d0) b D (source_state env cfg header body)"
  unfolding source_state_def
  by (rule stays_source_permit stay_rules stays_call stays_confirm_state stable_rules assms
      | simp add: held_owned)+

lemma stays_health:
  assumes "lawful env" and "stable D"
  shows "stays (authorised cfg d0) b D (read_torrent_health env cfg token header)"
  unfolding read_torrent_health_def by (rule stay_rules assms)+

lemma stays_reconcile:
  assumes "lawful env" and "stable D"
  shows "stays (authorised cfg d0) b D (reconcile_source env cfg header body)"
  unfolding reconcile_source_def
  by (rule stay_rules assms)+

lemma stays_series_queue:
  assumes "lawful env" and "stable D"
  shows "stays (authorised cfg d0) b D (series_queue_state env cfg header body)"
  unfolding series_queue_state_def
  by (rule stays_confirmed stay_rules stays_call stable_rules assms | simp add: queued_episode_def held_owned)+

lemma stays_retry_add: "stays ok b D (upstream env (AddTorrent payload)) \<Longrightarrow> stays ok b D (retry_add env payload)"
  by (fastforce simp: triple_def retry_add_def split: prod.splits sum.splits)

lemma stays_repair:
  assumes "lawful env" and "stable D"
  shows "stays (authorised cfg d0) b D (repair_metadata env cfg header body)"
  unfolding repair_metadata_def
  by (rule stays_confirmed stay_rules stays_retry_add stays_call stable_rules assms
      | simp add: permit_payload_def jget_def get_or_def held_def)+

lemma stays_queue_capacity:
  assumes "lawful env" and "stable D"
  shows "stays (authorised cfg d0) b D (gateway_queue_capacity env cfg header)"
  unfolding gateway_queue_capacity_def by (rule stay_rules assms)+

section \<open>Deletion\<close>

lemma pack_may_go_True:
  "pack_may_go cfg token media_key scope p episode s = (Inr gone, s') \<Longrightarrow>
   gone \<Longrightarrow> episode \<noteq> None \<Longrightarrow> season_pack_fully_deleted (gc_storage cfg) token media_key (gw_db s')"
  by (auto simp: pack_may_go_def source_again_def req_simps split: if_splits)

lemma source_again_value:
  "source_again cfg token media_key scope s = (Inr again, s') \<Longrightarrow>
   resolve_source (gc_storage cfg) token media_key scope (gw_db s') = Inr again"
  by (auto simp: source_again_def req_simps)

lemma stays_purge:
  assumes "lawful env" and "stable D"
    and "\<And>d. P d \<Longrightarrow> D d" and "\<And>d. P d \<Longrightarrow> answers_for cfg d0 (DeleteTorrent (pm_infohash p)) d"
  shows "moves (authorised cfg d0) b P (purge_torrent env p) (\<lambda>_. D) D"
  unfolding purge_torrent_def
proof (rule moves_bind)
  show "moves (authorised cfg d0) b P (upstream env (DeleteTorrent (pm_infohash p))) (\<lambda>_. D) D"
    using assms by (intro moves_call) auto
qed (rule stay_rules assms(1,2))+

lemma stays_pack_may_go [stay_rules]: "stays ok b D (pack_may_go cfg token media_key scope p episode)"
  unfolding pack_may_go_def source_again_def by (rule stay_rules)+

lemma stays_source_again [stay_rules]: "stays ok b D (source_again cfg token media_key scope)"
  unfolding source_again_def by (rule stay_rules)+

lemma stays_checked_manifest [stay_rules]: "stays ok b D (checked_manifest cfg p episode)"
  unfolding checked_manifest_def by (rule stay_rules)+

lemma stays_deletable [stay_rules]:
  "lawful env \<Longrightarrow> stable D \<Longrightarrow> admits_reads ok \<Longrightarrow> stays ok b D (deletable_torrent env p files)"
  unfolding deletable_torrent_def by (rule stay_rules | assumption)+

text \<open>From the second look at the source on, nothing happens before the torrent is deleted.\<close>

lemma stays_final_look:
  assumes env: "lawful env" and D: "stable D"
  shows "stays (authorised cfg d0) b D
    (rbind (source_again cfg token media_key scope) (\<lambda>again.
     rbind (demand (again = (p, episode)) 409 ''source permit changed'') (\<lambda>_.
     rbind (pack_may_go cfg token media_key scope p episode) (\<lambda>gone.
     if \<not> gone then give (Inr (state_reply ''retained_shared'')) else purge_torrent env p))))"
proof (rule moves_bind [OF moves_value [where R = "\<lambda>again d. resolve_source (gc_storage cfg) token media_key scope d = Inr again"]])
  fix again
  let ?P = "\<lambda>d. (D d \<and> resolve_source (gc_storage cfg) token media_key scope d = Inr again) \<and> again = (p, episode)"
  let ?Q = "\<lambda>gone d. ?P d \<and> (gone \<longrightarrow> episode \<noteq> None \<longrightarrow> season_pack_fully_deleted (gc_storage cfg) token media_key d)"
  have last: "moves (authorised cfg d0) b (?Q gone)
      (if \<not> gone then give (Inr (state_reply ''retained_shared'')) else purge_torrent env p) (\<lambda>_. D) D" for gone
    by (rule triple_if) (rule moves_give stays_purge [OF env D] | force)+
  have "moves (authorised cfg d0) b ?P (pack_may_go cfg token media_key scope p episode) ?Q D"
    by (rule moves_weaken [OF moves_value [where D = ?P and
          R = "\<lambda>gone d. gone \<longrightarrow> episode \<noteq> None \<longrightarrow> season_pack_fully_deleted (gc_storage cfg) token media_key d"]])
      (auto intro: stay_rules pack_may_go_True)
  note rest = moves_bind [OF this last]
  show "moves (authorised cfg d0) b (\<lambda>d. D d \<and> resolve_source (gc_storage cfg) token media_key scope d = Inr again)
     (rbind (demand (again = (p, episode)) 409 ''source permit changed'') (\<lambda>_.
      rbind (pack_may_go cfg token media_key scope p episode) (\<lambda>gone.
      if \<not> gone then give (Inr (state_reply ''retained_shared'')) else purge_torrent env p))) (\<lambda>_. D) D"
    by (rule moves_bind, rule moves_demand, simp, rule rest)
qed (auto intro: stay_rules source_again_value)

lemma stays_delete_source:
  assumes "lawful env" and "stable D"
  shows "stays (authorised cfg d0) b D (delete_media_source env cfg header body)"
  unfolding delete_media_source_def
  by (rule stays_final_look stay_rules assms)+

section \<open>Probes\<close>

lemma registered_member: "p \<in> set (permits d) \<Longrightarrow> registered (pm_infohash p) d"
  by (auto simp: registered_def list_ex_iff)

lemma reserved_source_registered: "reserved_source rid scope d = Some q \<Longrightarrow> registered (pm_infohash q) d"
  by (auto simp: reserved_source_def get_for_reservation_def season_pack_view_def
      intro: registered_member dest!: find_row_Some split: option.splits)

lemma handover_registered: "pending_handover token d = Some q \<Longrightarrow> registered (pm_infohash q) d"
  by (auto simp: pending_handover_def intro: registered_member dest: find_row_Some split: option.splits)

lemma probe_pair_found:
  "probe_pair token s = (Inr (candidate, parent), s') \<Longrightarrow>
   registered (pm_infohash candidate) (gw_db s') \<and> registered (pm_infohash parent) (gw_db s')"
  by (auto simp: probe_pair_def req_simps branch_simps
      intro: registered_member find_permit_member handover_registered reserved_source_registered)

lemma stays_probe_pair [stay_rules]: "stays ok b D (probe_pair token)"
  unfolding probe_pair_def by (rule stay_rules)+

lemma stays_settle:
  fixes env :: "'w gateway_env"
  assumes "lawful env" and "stable D" and "admits_reads ok"
    and "\<And>D. stable D \<Longrightarrow> stays ok b D (registry_transaction (\<lambda>d. ebind (settle d) (\<lambda>d'. Inr (d', ()))) :: ('w, unit) gwreq)"
  shows "stays ok b D (settle_stopped env p settle done unconfirmed n)"
  by (induction n) (simp_all only: settle_stopped.simps, (rule stay_rules assms | assumption)+)

text \<open>A stop is allowed for a torrent the request found.\<close>

definition admits_stop :: "(asked \<Rightarrow> bool) \<Rightarrow> string \<Rightarrow> bool" where
  "admits_stop ok h \<longleftrightarrow> (\<forall>d r. ok \<lparr>aq_call = SetRunning h False, aq_db = d, aq_answer = r\<rparr>)"

lemma authorised_stop [stay_rules]: "registered h d0 \<Longrightarrow> admits_stop (authorised cfg d0) h"
  by (simp add: admits_stop_def authorised_def)

lemma stays_stop [stay_rules]:
  assumes "lawful env" and "stable D" and "admits_stop ok h"
  shows "stays ok b D (upstream env (SetRunning h False))"
  using assms by (intro moves_upstream) (auto simp: admits_stop_def)

lemma stays_reject:
  assumes "lawful env" and "stable D" and "admits_reads ok" and "admits_stop ok (pm_infohash candidate)"
  shows "stays ok b D (reject_candidate env candidate)"
  unfolding reject_candidate_def by (rule stay_rules stays_settle assms | assumption)+

lemma stays_promote:
  assumes "lawful env" and "stable D" and "admits_reads ok"
    and "admits_stop ok (pm_infohash candidate)" and "admits_stop ok (pm_infohash parent)"
  shows "stays ok b D (promote_candidate env cfg candidate parent)"
  unfolding promote_candidate_def cancel_race_def decide_race_def
  by (rule stay_rules stays_settle assms | assumption)+

lemma moves_prefix:
  assumes "stays ok b P m" and "\<And>d. P d \<Longrightarrow> D d" and "\<And>x. moves ok b P (f x) (\<lambda>_. D) D"
  shows "moves ok b P (rbind m f) (\<lambda>_. D) D"
proof (rule moves_bind)
  show "moves ok b P m (\<lambda>_. P) D" using assms(1) by (rule moves_weaken) (auto intro: assms(2))
qed (rule assms(3))

lemma moves_settle_race:
  assumes "lawful env" and "stable D" and "D d0"
  shows "moves (authorised cfg d0) b (\<lambda>d. d = d0) (settle_race env cfg token promote) (\<lambda>_. D) D"
  unfolding settle_race_def
proof (rule moves_bind)
  let ?R = "\<lambda>x d. registered (pm_infohash (fst x)) d \<and> registered (pm_infohash (snd x)) d"
  show "moves (authorised cfg d0) b (\<lambda>d. d = d0) (probe_pair token) (\<lambda>x d. D d \<and> ?R x d0) D"
    by (rule moves_weaken [OF moves_value [where D = "\<lambda>d. d = d0" and R = ?R]])
      (auto intro: stay_rules dest: probe_pair_found simp: assms(3))
  fix pair
  show "moves (authorised cfg d0) b (\<lambda>d. D d \<and> ?R pair d0)
     (case pair of (candidate, parent) \<Rightarrow>
        rbind (require_source_mutable cfg (pm_infohash candidate)) (\<lambda>_.
        rbind (require_source_mutable cfg (pm_infohash parent)) (\<lambda>_.
          if promote then promote_candidate env cfg candidate parent
          else reject_candidate env candidate))) (\<lambda>_. D) D"
  proof (cases "?R pair d0")
    case True
    have "stays (authorised cfg d0) b D
       (case pair of (candidate, parent) \<Rightarrow>
          rbind (require_source_mutable cfg (pm_infohash candidate)) (\<lambda>_.
          rbind (require_source_mutable cfg (pm_infohash parent)) (\<lambda>_.
            if promote then promote_candidate env cfg candidate parent
            else reject_candidate env candidate)))"
      using True by (cases pair) (auto intro!: stay_rules stays_promote stays_reject assms(1,2))
    then show ?thesis by (rule moves_weaken) auto
  next
    case False
    then show ?thesis by (intro tripleI) (simp add: trail_def)
  qed
qed

text \<open>Until the pair is found the database is the one at the start of the request.\<close>

lemma moves_probe_decision:
  assumes "lawful env" and "stable D" and "D d0"
  shows "moves (authorised cfg d0) b (\<lambda>d. d = d0) (decide_probe env cfg header body) (\<lambda>_. D) D"
  unfolding decide_probe_def
  by (rule moves_prefix stay_rules triple_prod moves_settle_race assms | (simp add: assms(3); fail))+

section \<open>The queue\<close>

lemma stable_list_all [stable_rules]:
  "(\<And>x. stable (P x)) \<Longrightarrow> stable (\<lambda>d. list_all (\<lambda>x. P x d) xs)"
  unfolding stable_def list_all_iff by blast

definition movies_owned :: "(string \<times> permit) list \<Rightarrow> db \<Rightarrow> bool" where
  "movies_owned movies d = list_all (\<lambda>x. owned (fst x) d) movies"

definition episodes_owned :: "(string \<times> permit) list \<Rightarrow> db \<Rightarrow> bool" where
  "episodes_owned episodes d = list_all (\<lambda>x. owned (pm_infohash (snd x)) d) episodes"

definition all_owned :: "string list \<Rightarrow> db \<Rightarrow> bool" where
  "all_owned hs d = list_all (\<lambda>h. owned h d) hs"

lemma stable_all_owned [stable_rules]:
  "stable (movies_owned movies)" "stable (episodes_owned movies)" "stable (all_owned hs)"
  unfolding movies_owned_def [abs_def] episodes_owned_def [abs_def] all_owned_def [abs_def]
  by (intro stable_rules)+

lemma member_owned: "p \<in> set (permits d) \<Longrightarrow> pm_state p = Confirmed \<Longrightarrow> owned (pm_infohash p) d"
  by (auto simp: owned_def list_ex_iff)

lemma active_movies_owned: "active_movies cfg d = Inr movies \<Longrightarrow> movies_owned movies d"
  by (auto simp: movies_owned_def active_movies_def Let_def list_all_iff list_active_confirmed_movies_def
      intro: member_owned split: if_splits)

lemma episode_views_infohash: "p \<in> set (episode_views d q) \<Longrightarrow> pm_infohash p = pm_infohash q"
  unfolding episode_views_def season_pack_view_def by (auto split: if_split_asm)

lemma active_episodes_owned:
  assumes "(k, p) \<in> set (list_active_confirmed_episodes d)"
  shows "owned (pm_infohash p) d"
proof -
  from assms obtain q where q: "q \<in> set (permits d)" "pm_state q = Confirmed"
      and p: "(k, p) \<in> set (case series_key d q of None \<Rightarrow> [] | Some k \<Rightarrow> map (Pair k) (episode_views d q))"
    unfolding list_active_confirmed_episodes_def by auto
  from p have "p \<in> set (episode_views d q)" by (cases "series_key d q") auto
  from member_owned [OF q] episode_views_infohash [OF this] show ?thesis by simp
qed

lemma pick_first_members:
  "pick_first items ks taken = Inr found \<Longrightarrow> x \<in> set found \<Longrightarrow> \<exists>n. (fst x, n, snd x) \<in> set items"
proof (induction items ks taken arbitrary: found rule: pick_first.induct)
  case (2 items k ks taken)
  let ?own = "sort_key fst (map snd (filter (\<lambda>i. fst i = k) items))"
  have own: "\<exists>n. (k, n, p) \<in> set items" if "(m, p) # rest = ?own" for m p rest
  proof -
    from that have "(m, p) \<in> set ?own" by (metis list.set_intros(1))
    then show ?thesis by (intro exI [of _ m]) auto
  qed
  show ?case using 2 own
    by (fastforce simp: err_simps split: list.splits prod.splits if_splits)
qed simp

lemma numbered_members:
  "x \<in> set (List.map_filter (numbered_episode cfg) items) \<Longrightarrow> (fst x, snd (snd x)) \<in> set items"
  by (auto simp: map_filter_mem numbered_episode_def split: option.splits if_splits)

lemma first_episodes_owned: "first_episodes cfg movies d = Inr episodes \<Longrightarrow> episodes_owned episodes d"
  by (fastforce simp: first_episodes_def Let_def episodes_owned_def list_all_iff
      dest!: pick_first_members numbered_members intro: active_episodes_owned)

lemma map_of_key: "map_of m k = Some v \<Longrightarrow> k \<in> fst ` set m"
  by (metis domI dom_map_of_conv_image_fst)

lemma scan_movies_hashes:
  "scan_movies cfg lu d items seen = Inr (seen', found) \<Longrightarrow> (n, i, score, h) \<in> set found \<Longrightarrow>
   h \<in> fst ` set (ln_movies lu)"
proof (induction cfg lu d items seen arbitrary: seen' found rule: scan_movies.induct)
  case (2 cfg lu d i' item items seen)
  then show ?case
    by (auto simp: err_simps split: option.splits if_splits sum.splits prod.splits
        intro: map_of_key)
qed simp

lemma scan_episodes_hashes:
  "scan_episodes cfg lu d items rest = Inr places \<Longrightarrow> (n, i, h, series) \<in> set places \<Longrightarrow>
   h \<in> (\<lambda>x. pm_infohash (snd x)) ` set rest"
proof (induction cfg lu d items rest arbitrary: places rule: scan_episodes.induct)
  case (2 cfg lu d items series p rest)
  then show ?case
    by (auto simp: err_simps split: list.splits prod.splits if_splits) blast+
qed simp

lemma plan_hashes:
  "set (qp_movies_wanted (queue_plan_of candidates places)) = (\<lambda>(n, i, score, h). h) ` set candidates"
  "set (qp_episodes (queue_plan_of candidates places)) = (\<lambda>(n, i, h, series). h) ` set places"
  by (simp_all add: queue_plan_of_def Let_def)

lemma plan_owned:
  assumes "scan_movies cfg lu d' items [] = Inr (seen, candidates)"
    and "scan_episodes cfg lu d'' items' episodes = Inr places"
    and "movies_owned (ln_movies lu) d" and "episodes_owned episodes d"
  shows "all_owned (qp_movies_wanted (queue_plan_of candidates places)) d"
    and "all_owned (qp_episodes (queue_plan_of candidates places)) d"
  using assms(3,4) scan_movies_hashes [OF assms(1)] scan_episodes_hashes [OF assms(2)]
  by (fastforce simp: all_owned_def movies_owned_def episodes_owned_def list_all_iff plan_hashes)+

lemma stays_to_top:
  assumes "lawful env" and "stable D" and "\<And>d h. D d \<Longrightarrow> h \<in> set hs \<Longrightarrow> owned h d"
  shows "stays (authorised cfg d0) b D (to_top env cfg hs)"
  using assms(3)
proof (induction hs)
  case (Cons h hs)
  have "stays (authorised cfg d0) b D (upstream env (TopPriority h))"
    using assms(1,2) Cons.prems by (intro stays_call) auto
  moreover have "stays (authorised cfg d0) b D (to_top env cfg hs)"
    by (rule Cons.IH) (use Cons.prems in auto)
  ultimately show ?case by (simp only: to_top.simps) (intro stay_rules)
qed (simp add: stays_give)

lemma stays_confirm_order:
  assumes "lawful env" and "stable D" and "admits_reads ok"
  shows "stays ok b D (confirm_order env cfg lu movies plan n)"
  by (induction n) (simp_all only: confirm_order.simps, (rule stay_rules assms | assumption)+)

lemma stays_reorder:
  assumes "lawful env" and "stable D"
    and "\<And>d. D d \<Longrightarrow> all_owned (qp_movies_wanted plan) d" and "\<And>d. D d \<Longrightarrow> all_owned (qp_episodes plan) d"
  shows "stays (authorised cfg d0) b D (reorder_queue env cfg lu movies plan)"
proof -
  have owned: "owned h d" if "D d" "h \<in> set (qp_movies_wanted plan) \<or> h \<in> set (qp_episodes plan)" for h d
    using that assms(3,4) [of d] by (auto simp: all_owned_def list_all_iff)
  show ?thesis
    unfolding reorder_queue_def
    by (rule stays_to_top [OF assms(1,2)] stays_confirm_order stay_rules assms(1,2) | simp add: owned)+
qed

lemma stays_movies:
  assumes "\<And>movies. stays ok b (\<lambda>d. D d \<and> movies_owned movies d) (f movies)"
  shows "stays ok b D (rbind (ask_db (active_movies cfg)) f)"
proof (rule stays_found)
  show "moves ok b D (ask_db (active_movies cfg)) (\<lambda>movies d. D d \<and> movies_owned movies d) D"
    by (rule moves_weaken [OF moves_ask_db [where D = D and E = D]]) (auto intro: active_movies_owned)
qed (rule assms)

lemma stays_episodes:
  assumes "\<And>episodes. stays ok b (\<lambda>d. D d \<and> episodes_owned episodes d) (f episodes)"
  shows "stays ok b D (rbind (ask_db (first_episodes cfg movies)) f)"
proof (rule stays_found)
  show "moves ok b D (ask_db (first_episodes cfg movies)) (\<lambda>episodes d. D d \<and> episodes_owned episodes d) D"
    by (rule moves_weaken [OF moves_ask_db [where D = D and E = D]]) (auto intro: first_episodes_owned)
qed (rule assms)

lemma stays_answer:
  fixes f :: "'a \<Rightarrow> ('w, 'b) gwreq"
  assumes "\<And>x d. g d = Inr x \<Longrightarrow> stays ok b D (f x)"
  shows "stays ok b D (rbind (ask_db g) f)"
proof (rule tripleI)
  fix s :: "'w gw"
  assume "trail ok b D s"
  then show "case rbind (ask_db g) f s of (Inl e, s') \<Rightarrow> trail ok b D s' | (Inr x, s') \<Rightarrow> trail ok b D s'"
    using assms by (cases "g (gw_db s)") (auto simp: rbind_def ask_db_def triple_def)
qed

lemma stays_prioritize:
  assumes "lawful env" and "stable D"
  shows "stays (authorised cfg d0) b D (prioritize_movies env cfg header)"
  unfolding prioritize_movies_def Let_def
  by (rule stays_movies stays_episodes stays_answer stays_reorder stay_rules stable_rules assms
      | (clarsimp, rule plan_owned, assumption, assumption, simp, simp))+

section \<open>Sessions and reads\<close>

lemma stays_authenticate [stay_rules]: "stays ok b D (authenticate env cfg header sid)"
  unfolding authenticate_def by (rule stay_rules | simp add: triple_def)+

lemma stays_login: "stays ok b D (login env cfg form)"
  unfolding login_def by (rule stay_rules | simp add: triple_def trail_def)+

lemma require_route_Inr [req_simps]: "require_route verb path s = (Inr x, s') \<longleftrightarrow> route_permits verb path \<and> s' = s"
  by (auto simp: require_route_def req_simps)

lemma stays_route:
  assumes "route_permits verb path \<Longrightarrow> \<forall>x. stays ok b D (f x)"
  shows "stays ok b D (rbind (require_route verb path) f)"
  using assms stays_deny [of ok b D]
  by (cases "route_permits verb path")
    (auto simp: require_route_def demand_def rbind_def triple_def give_def deny_def)

lemma stays_app_read:
  assumes "lawful env" and "stable D" and "admits_reads ok"
  shows "stays ok b D (app_read env cfg header sid item)"
  unfolding app_read_def Let_def by (rule stays_route allI stay_rules assms | assumption)+

lemma stays_torrent_read:
  assumes "lawful env" and "stable D" and "admits_reads ok"
  shows "stays ok b D (torrent_read env cfg header sid item params)"
  unfolding torrent_read_def Let_def by (rule stays_route allI stay_rules assms | assumption)+

section \<open>Adding\<close>

lemma stays_field [stay_rules]:
  "(\<And>t. stays ok b D (f t)) \<Longrightarrow> (\<And>c. stays ok b D (g c)) \<Longrightarrow>
   stays ok b D (case v of Text t \<Rightarrow> f t | Upload c \<Rightarrow> g c)"
  by (cases v) auto

lemma stays_plans [stay_rules]:
  "stays ok b D (plan_json rq internal)"
  "stays ok b D (plan_magnet env cfg form destination category)"
  "stays ok b D (plan_inspected env cfg rq internal dst category content)"
  "stays ok b D (plan_upload env cfg rq internal form destination category)"
  "stays ok b D (plan_form env cfg rq internal)"
  "stays ok b D (plan_add env cfg rq internal)"
proof -
  show json: "stays ok b D (plan_json rq internal)"
    unfolding plan_json_def by (rule stay_rules | simp add: stays_give stays_deny split: json.split)+
  show magnet: "stays ok b D (plan_magnet env cfg form destination category)"
    for form destination category
    unfolding plan_magnet_def by (rule stay_rules)+
  show inspected: "stays ok b D (plan_inspected env cfg rq internal dst category content)" for dst category content
    unfolding plan_inspected_def by (rule stay_rules)+
  show upload: "stays ok b D (plan_upload env cfg rq internal form destination category)" for form destination category
    unfolding plan_upload_def by (rule stay_rules inspected)+
  show form: "stays ok b D (plan_form env cfg rq internal)"
    unfolding plan_form_def Let_def by (rule stay_rules magnet upload)+
  show "stays ok b D (plan_add env cfg rq internal)"
    unfolding plan_add_def by (rule stay_rules json form)+
qed

lemma stays_pure:
  fixes f :: "'a \<Rightarrow> ('w, 'b) gwreq"
  assumes "\<And>x. r = Inr x \<Longrightarrow> stays ok b D (f x)"
  shows "stays ok b D (rbind (give r) f)"
  using assms by (cases r) (auto simp: rbind_def give_def triple_def)

lemma stays_unknown:
  fixes m :: "('w, 'a) gwreq"
  assumes "stable D" and "stays ok b D m"
  shows "stays ok b D (unknown_on_error token m)"
proof (rule tripleI)
  fix s :: "'w gw"
  assume s: "trail ok b D s"
  obtain r s' where m: "m s = (r, s')" by (cases "m s")
  with assms(2) s have t: "trail ok b D s'" by (auto simp: triple_def split: sum.splits)
  have "permit_step (gw_db s') Change (mark_unknown token (gw_db s'))" by (rule permit_step.lose)
  with assms(1) t have "D (mark_unknown token (gw_db s')) \<and> db_wf (mark_unknown token (gw_db s'))"
    unfolding stable_def trail_def using permit_step_refines by blast
  with t m show "case unknown_on_error token m s of (Inl e, s') \<Rightarrow> trail ok b D s' | (Inr x, s') \<Rightarrow> trail ok b D s'"
    by (auto simp: unknown_on_error_def trail_def split: sum.splits)
qed

text \<open>A claim leaves its permit dispatched, for the torrent it names.\<close>

definition claimed :: "string \<Rightarrow> claim \<Rightarrow> db \<Rightarrow> bool" where
  "claimed infohash c d =
     (case c of Replay r \<Rightarrow> True | Proceed p pack \<Rightarrow> held p d \<and> pm_infohash p = lower infohash)"

lemma claim_held:
  assumes "authorize_claim st now token infohash destination metadata d = Inr (d', c)"
  shows "claimed infohash c d'"
proof (cases c)
  case (Proceed p pack)
  note parts = authorize_claim_Proceed [OF assms [unfolded Proceed]]
  have p: "p \<in> set (permits d)" "pm_token p = token" using find_token_Some [OF parts(1)] by auto
  then have "p\<lparr>pm_state := Dispatching\<rparr> \<in> set (permits d')"
    unfolding parts(4) with_permits_def by (auto simp: set_update_rows intro: rev_image_eqI)
  then have "held (p\<lparr>pm_state := Dispatching\<rparr>) d'" by (rule member_held) simp
  then show ?thesis using parts(5) Proceed by (simp add: claimed_def held_def)
qed (simp add: claimed_def)

lemma claim_step:
  assumes "authorize_claim st now token infohash destination metadata d = Inr (d', c)" and "db_wf d"
  shows "\<exists>l. permit_step d l d'"
proof (cases c)
  case (Replay r)
  with assms have "d' = d" using authorize_claim_Replay(1) by blast
  then show ?thesis using assms(2) permit_step.other [of d d] by blast
next
  case (Proceed p pack)
  with assms show ?thesis using permit_step.claim by blast
qed

lemma moves_claim:
  fixes infohash :: string
  assumes "stable D"
  shows "moves ok b D (registry_transaction (authorize_claim st now token infohash destination metadata) :: ('w, claim) gwreq)
           (\<lambda>c d. D d \<and> claimed infohash c d) D"
proof (rule moves_value)
  show "stays ok b D (registry_transaction (authorize_claim st now token infohash destination metadata) :: ('w, claim) gwreq)"
    using assms by (intro moves_transaction) (auto intro: claim_step)
  fix s c and s' :: "'w gw"
  assume "registry_transaction (authorize_claim st now token infohash destination metadata) s = (Inr c, s')"
  then show "claimed infohash c (gw_db s')"
    by (auto simp: registry_transaction_def intro: claim_held split: sum.splits)
qed

lemma stays_authorized_effect:
  fixes env :: "'w gateway_env"
  assumes "stable D"
    and "\<And>p. pm_infohash p = lower infohash \<Longrightarrow> stays ok b (\<lambda>d. D d \<and> held p d) (effect p)"
  shows "stays ok b D (authorized_effect env cfg token infohash destination metadata effect)"
  unfolding authorized_effect_def
proof (rule stays_bind [OF stays_ask_world], rule stays_found [OF moves_claim [OF assms(1)]])
  fix now c
  show "stays ok b (\<lambda>d. D d \<and> claimed infohash c d)
      (case c of Replay result \<Rightarrow> give (Inr result) | Proceed p x \<Rightarrow> claimed_effect cfg token effect p)"
  proof (cases c)
    case (Proceed p pack)
    show ?thesis
    proof (cases "pm_infohash p = lower infohash")
      case True
      have S: "stable (\<lambda>d. D d \<and> held p d)" using assms(1) by (intro stable_rules)
      have "stays ok b (\<lambda>d. D d \<and> held p d) (claimed_effect cfg token effect p)"
        unfolding claimed_effect_def
        by (rule stays_unknown stay_rules assms(2) S True)+
      then show ?thesis unfolding Proceed claim.case by (rule moves_weaken) (simp_all add: claimed_def True)
    next
      case False
      then show ?thesis by (intro tripleI) (simp add: trail_def Proceed claimed_def)
    qed
  qed (simp add: stays_give)
qed

lemma stays_dispatch:
  assumes "lawful env" and "stable D" and "pm_infohash p = infohash"
  shows "stays (authorised cfg d0) b (\<lambda>d. D d \<and> held p d) (dispatch env cfg infohash payload p)"
  unfolding dispatch_def
  by (rule stays_call stay_rules stable_rules assms
      | simp add: dispatched_payload_def held_def assms(3))+

lemma validate_infohash_lower: "validate_infohash j = Inr h \<Longrightarrow> lower h = h"
  by (auto simp: validate_infohash_def split: option.splits if_splits)

lemma stays_add_planned:
  assumes "lawful env" and "stable D"
  shows "stays (authorised cfg d0) b D (add_planned env cfg internal plan)"
  unfolding add_planned_def placed_request_def plan_destination_def
  by (rule stays_pure stays_authorized_effect stays_dispatch stay_rules stable_rules assms
      | simp add: validate_infohash_lower)+

lemma stays_add_torrent:
  assumes "lawful env" and "stable D"
  shows "stays (authorised cfg d0) b D (add_torrent env cfg rq)"
  unfolding add_torrent_def by (rule stays_add_planned stay_rules assms)+

section \<open>The gateway\<close>

lemma moves_serve:
  assumes "lawful env" and "stable D" and "D d0"
  shows "moves (authorised cfg d0) b (\<lambda>d. d = d0) (serve env cfg rq) (\<lambda>_. D) D"
proof (cases "\<exists>header body. rq = PostProbeDecision header body")
  case True
  then show ?thesis
    by (auto simp: json_reply_def intro!: moves_bind [OF moves_probe_decision [OF assms]] stay_rules)
next
  case False
  then have "stays (authorised cfg d0) b D (serve env cfg rq)"
    by (cases rq) (auto simp: json_reply_def intro!: stay_rules stays_delete_source stays_health stays_source_state
        stays_reconcile stays_series_queue stays_repair stays_queue_capacity stays_prioritize stays_login
        stays_app_read stays_torrent_read stays_add_torrent assms)
  then show ?thesis by (rule moves_weaken) (auto simp: assms(3))
qed

lemma serve_trail:
  assumes "serve env cfg rq s = (r, s')" and "lawful env" and "db_wf (gw_db s)" and "stable D" and "D (gw_db s)"
  shows "trail (authorised cfg (gw_db s)) (gw_log s) D s'"
proof -
  have start: "trail (authorised cfg (gw_db s)) (gw_log s) (\<lambda>d. d = gw_db s) s" using assms(3) by (simp add: trail_def)
  have "moves (authorised cfg (gw_db s)) (gw_log s) (\<lambda>d. d = gw_db s) (serve env cfg rq) (\<lambda>_. D) D"
    by (rule moves_serve [OF assms(2,4,5)])
  from triple_end [OF this start] show ?thesis by (simp add: assms(1))
qed

end
