(* ===== verification/GatewaySamples.thy ===== *)
theory GatewaySamples
  imports GatewayFacts TorrentProperties PackProperties
begin

text \<open>
  A gateway whose qBittorrent answers from a script, without a storage registry, over the
  databases of the samples: a healthy worker, fresh capacity, and one movie torrent.
\<close>

section \<open>The environment\<close>

type_synonym script = "(exn + json) list"

definition sample_heartbeat :: heartbeat where
  "sample_heartbeat = \<lparr>hb_last_seen_at = 10, hb_last_success_at = Some 10, hb_initialized = True,
     hb_state = ''running'', hb_last_error = None, hb_cycle_deadline_at = None\<rparr>"

definition gw_snapshot :: "(string \<times> json) list" where
  "gw_snapshot = [(''filesystem_id'', JStr ''fs1''), (''measured_at'', JInt 10)]"

text \<open>An exhausted script answers \<open>null\<close>; nothing else changes the database.\<close>

definition scripted :: "script gateway_env" where
  "scripted =
     \<lparr>g_call = (\<lambda>w d c. case w of [] \<Rightarrow> (Inr JNull, d, []) | r # rest \<Rightarrow> (r, d, rest)),
      g_sleep = (\<lambda>w d. (d, w)), g_clock = (\<lambda>w. (10, w)), g_time = (\<lambda>w. (10, w)),
      g_monotonic = (\<lambda>w. (10, w)), g_session_id = (\<lambda>w. (''s1'', w)), g_marker = (\<lambda>w. (MarkerMissing, w)),
      g_heartbeat = (\<lambda>w. (Some (Some sample_heartbeat), w)),
      g_snapshot = (\<lambda>w. ((Inr gw_snapshot, 10, True, Some 1000), w))\<rparr>"

definition gw_config :: gateway_config where
  "gw_config =
     \<lparr>gc_storage = None, gc_arr_token = ''arr'', gc_store = True, gc_capacity = True,
      gc_recovery_path = None, gc_heartbeat_age = 60, gc_protected = [], gc_min_rate = Some 0,
      gc_filesystem = Some ''fs1'', gc_capacity_age = 60, gc_parse_iso = (\<lambda>_. None),
      gc_sha1 = (\<lambda>_. hash_a), gc_sha256 = (\<lambda>_. digest_c)\<rparr>"

definition begin_with :: "db \<Rightarrow> script \<Rightarrow> script gw" where
  "begin_with d script = \<lparr>gw_world = script, gw_db = d, gw_sessions = [], gw_log = []\<rparr>"

lemma begin_with_db [simp]: "gw_db (begin_with d script) = d" "gw_log (begin_with d script) = []"
  by (simp_all add: begin_with_def)

lemma scripted_lawful: "lawful scripted"
  by (auto simp: lawful_def scripted_def registry_run_refl split: list.splits)

text \<open>An entry of the torrent list.\<close>

definition torrent_entry :: "string \<Rightarrow> string \<Rightarrow> json" where
  "torrent_entry h state =
     JObj [(''hash'', JStr h), (''category'', JStr ''radarr''), (''save_path'', JStr torrents_root),
           (''state'', JStr state), (''progress'', JInt 0), (''amount_left'', JInt 300),
           (''priority'', JInt 1), (''num_seeds'', JInt 5), (''downloaded'', JInt 100)]"

definition listing :: "json list \<Rightarrow> exn + json" where
  "listing js = Inr (JList js)"

text \<open>A chain of handlers that return.\<close>

lemma rbind_gives: "m s = (Inr x, s') \<Longrightarrow> rbind m f s = f x s'"
  by (simp add: rbind_def)

section \<open>One movie torrent\<close>

definition movie_info :: bval where
  "movie_info =
     BDict [(''length'', BInt 7), (''name'', BStr ''m.mkv''), (''piece length'', BInt 9),
            (''pieces'', BStr ''aaaaaaaaaaaaaaaaaaaa'')]"

definition movie_torrent :: string where
  "movie_torrent = ''d4:infod6:lengthi7e4:name5:m.mkv12:piece lengthi9e6:pieces20:aaaaaaaaaaaaaaaaaaaaee''"

definition stored_db :: db where
  "stored_db = confirmed_db\<lparr>torrent_artifacts := Some
     [\<lparr>ta_permit_id = ''p1'', ta_infohash = hash_a, ta_metadata_sha256 = digest_c, ta_content = movie_torrent\<rparr>]\<rparr>"

definition movie_file :: manifest_file where
  "movie_file = \<lparr>file_path = ''m.mkv'', file_length = 7\<rparr>"

lemma stored_db_wf: "db_wf stored_db"
  by code_simp

lemma movie_inspected:
  "inspect_torrent (\<lambda>_. hash_a) (\<lambda>_. digest_c) movie_torrent =
   Inr \<lparr>torrent_infohash = hash_a, torrent_sha256 = digest_c, torrent_files = [movie_file]\<rparr>"
proof -
  let ?root = "[(''info'', movie_info, bencode movie_info)]"
  have "sorted_wrt (<) (map fst [(''length'', BInt 7), (''name'', BStr ''m.mkv''),
      (''piece length'', BInt 9), (''pieces'', BStr ''aaaaaaaaaaaaaaaaaaaa'')])" by code_simp
  moreover have "show_nat 7 = ''7''" "show_nat 9 = ''9''" by code_simp+
  ultimately have "fits 16 movie_info" by (simp add: movie_info_def numeral_eq_Suc short_str_fits)
  then have k: "root_ok ?root" by (simp add: root_ok_def root_entry_def fits_str short_str_fits)
  have i: "inspect_info movie_info = Inr [movie_file]" by code_simp
  have l: "length movie_torrent \<le> max_torrent" by (simp add: movie_torrent_def max_torrent_def)
  have r: "movie_torrent = root_octets ?root" by code_simp
  have m: "map_of ?root ''info'' = Some (movie_info, bencode movie_info)" by simp
  show ?thesis unfolding inspect_torrent_iff using k r l m i by metis
qed

definition delete_body :: json where
  "delete_body = JObj [(''permit_token'', JStr ''t1''), (''media_key'', JStr ''movie:tmdb:7''), (''scope_key'', JNull)]"

definition delete_script :: script where
  "delete_script =
     [listing [torrent_entry hash_a ''downloading''],
      listing [JObj [(''name'', JStr ''m.mkv''), (''size'', JInt 7), (''priority'', JInt 1)]],
      Inr JNull, listing []]"

lemma movie_checked: "checked_manifest gw_config confirmed_permit None (begin_with stored_db script) =
   (Inr [movie_file], begin_with stored_db script)"
proof -
  have m: "find_row (\<lambda>a. ta_permit_id a = pm_id confirmed_permit) (artifact_table stored_db) =
      Some \<lparr>ta_permit_id = ''p1'', ta_infohash = hash_a, ta_metadata_sha256 = digest_c, ta_content = movie_torrent\<rparr>"
    by code_simp
  have o: "only_own_media confirmed_permit [movie_file] = Inr True" by code_simp
  have a: "admits_torrent confirmed_permit
      \<lparr>torrent_infohash = hash_a, torrent_sha256 = digest_c, torrent_files = [movie_file]\<rparr>" by code_simp
  have l: "length movie_torrent = 83" "max_torrent > 83" by (simp_all add: movie_torrent_def max_torrent_def)
  have c: "artifact_matches confirmed_permit
      \<lparr>ta_permit_id = ''p1'', ta_infohash = hash_a, ta_metadata_sha256 = digest_c, ta_content = movie_torrent\<rparr>"
    by code_simp
  have g: "gc_sha1 gw_config = (\<lambda>_. hash_a)" "gc_sha256 gw_config = (\<lambda>_. digest_c)"
    by (simp_all add: gw_config_def)
  show ?thesis
    using m o a l c
    by (simp add: checked_manifest_def stored_torrent_def from_registry_def ask_db_def get_artifact_def python_def g
        valid_artifact_def movie_inspected inspected_def rbind_def give_def demand_def err_simps)
qed

lemma movie_deleted:
  "fst (delete_media_source scripted gw_config (Some ''arr'') (Some delete_body) (begin_with stored_db delete_script))
     = Inr (state_reply ''deleted'')"
proof -
  let ?s = "begin_with stored_db delete_script"
  have w: "require_worker gw_config (Some ''arr'') ?s = (Inr (), ?s)"
    and t: "torrent_store gw_config ?s = (Inr (), ?s)"
    and b: "body_json (Some delete_body) ?s = (Inr delete_body, ?s)"
    and i: "give (deletion_identity delete_body) ?s = (Inr (''t1'', ''movie:tmdb:7'', None), ?s)"
    by (simp_all add: require_worker_def worker_credential_def token_matches_def gw_config_def demand_def
        give_def torrent_store_def body_json_def deletion_identity_def delete_body_def keys_are_def jget_def get_or_def insert_commute)
  have "resolve_source (gc_storage gw_config) ''t1'' ''movie:tmdb:7'' None stored_db = Inr (confirmed_permit, None)"
    by code_simp
  then have r: "reraise refused_403_409 (from_registry
      (resolve_source (gc_storage gw_config) ''t1'' ''movie:tmdb:7'' None)) ?s = (Inr (confirmed_permit, None), ?s)"
    by (simp add: reraise_def from_registry_def ask_db_def python_def)
  show ?thesis
    unfolding delete_media_source_def
    by ((subst rbind_gives, rule w t b)+, subst rbind_gives, rule i, simp only: prod.case,
        subst rbind_gives, rule r, simp only: prod.case, subst rbind_gives, rule movie_checked, code_simp)
qed

section \<open>A promotion\<close>

definition promote_body :: json where
  "promote_body = JObj [(''permit_token'', JStr ''t2''), (''decision'', JStr ''promote'')]"

definition promote_script :: script where
  "promote_script =
     [listing [torrent_entry hash_b ''downloading''], listing [torrent_entry hash_a ''downloading''],
      listing [], Inr JNull, listing [torrent_entry hash_a ''stoppedDL'']]"

definition promote_start :: "script gw" where
  "promote_start = begin_with promoted_db promote_script"

lemma promoted_db_wf: "db_wf promoted_db"
  by code_simp

lemma probe_promoted:
  "fst (decide_probe scripted gw_config (Some ''arr'') (Some promote_body) promote_start)
     = Inr (state_reply ''promoted'')"
  by code_simp

section \<open>Two movies in the queue\<close>

definition second_movie :: permit where
  "second_movie = confirmed_permit\<lparr>pm_id := ''p3'', pm_token := ''t3'', pm_operation_id := ''o3'',
     pm_infohash := hash_b, pm_reservation_id := Some ''r3''\<rparr>"

definition two_movies_db :: db where
  "two_movies_db = confirmed_db
     \<lparr>requests := [movie_request, movie_request\<lparr>rq_id := ''q3'', rq_source_id := ''seerr-3'', rq_media_key := ''movie:tmdb:8''\<rparr>],
      reservations := [movie_reservation\<lparr>rs_budget_bytes := 600\<rparr>,
        movie_reservation\<lparr>rs_id := ''r3'', rs_request_id := ''q3'', rs_media_key := ''movie:tmdb:8'', rs_budget_bytes := 600\<rparr>],
      permits := [confirmed_permit,
second_movie]\<rparr>"

definition queued_entry :: "string \<Rightarrow> int \<Rightarrow> int \<Rightarrow> json" where
  "queued_entry h priority seeds =
     JObj [(''hash'', JStr h), (''category'', JStr ''radarr''), (''save_path'', JStr torrents_root),
           (''state'', JStr ''downloading''), (''progress'', JInt 0), (''amount_left'', JInt 300),
           (''priority'', JInt priority), (''num_seeds'', JInt seeds), (''force_start'', JBool False)]"

definition entry_fields :: "json \<Rightarrow> (string \<times> json) list" where
  "entry_fields j = (case as_obj j of None \<Rightarrow> [] | Some d \<Rightarrow> d)"

definition movies_plan :: queue_plan where
  "movies_plan = \<lparr>qp_movies_now = [hash_a, hash_b], qp_movies_wanted = [hash_b, hash_a], qp_episodes = [],
     qp_series = [], qp_now = [hash_a, hash_b]\<rparr>"

definition queue_script :: script where
  "queue_script =
     [Inr (JObj [(''queueing_enabled'', JBool True)]),
      listing [queued_entry hash_a 1 2, queued_entry hash_b 2 9], Inr JNull, Inr JNull,
      listing [queued_entry hash_a 2 2, queued_entry hash_b 1 9]]"

definition queued_movies :: lineup where
  "queued_movies = \<lparr>ln_movies = [(hash_a, confirmed_permit), (hash_b, second_movie)], ln_episodes = []\<rparr>"

lemma movies_scanned:
  "scan_movies gw_config queued_movies two_movies_db
     [(0, entry_fields (queued_entry hash_a 1 2)), (1, entry_fields (queued_entry hash_b 2 9))] [] =
   Inr ([hash_b, hash_a], [(1, 0, 2, hash_a), (2, 1, 9, hash_b)])"
  by code_simp

lemma movies_planned:
  "queue_plan_of [(1, 0, 2, hash_a), (2, 1, 9, hash_b)] [] = movies_plan"
  by code_simp

definition queue_at :: "script \<Rightarrow> asked list \<Rightarrow> script gw" where
  "queue_at script calls = \<lparr>gw_world = script, gw_db = two_movies_db, gw_sessions = [], gw_log = calls\<rparr>"

lemma plan_carried_out:
  "fst (reorder_queue scripted gw_config queued_movies [hash_b, hash_a] movies_plan
     (queue_at (drop 2 queue_script) calls)) = Inr (queue_reply ''reordered'' 2)"
  by code_simp

lemma movies_reordered:
  "fst (prioritize_movies scripted gw_config (Some ''arr'') (queue_at queue_script []))
     = Inr (queue_reply ''reordered'' 2)"
proof -
  have read: "upstream scripted c (queue_at (x # rest) calls) =
      (x, queue_at rest (calls @ [\<lparr>aq_call = c, aq_db = two_movies_db, aq_answer = x\<rparr>]))" for c x rest calls
    by (simp add: upstream_def scripted_def queue_at_def)
  let ?listing = "[entry_fields (queued_entry hash_a 1 2), entry_fields (queued_entry hash_b 2 9)]"
  have w: "require_worker gw_config (Some ''arr'') (queue_at r calls) = (Inr (), queue_at r calls)"
    and a: "require_admission scripted gw_config (queue_at r calls) = (Inr (), queue_at r calls)" for r calls
    by code_simp+
  have d: "demand True n t s = (Inr (), s)" for n t and s :: "script gw"
    by (simp add: demand_def give_def)
  have q: "queue_script = Inr (JObj [(''queueing_enabled'', JBool True)]) # listing [queued_entry hash_a 1 2, queued_entry hash_b 2 9]
      # drop 2 queue_script" by (simp add: queue_script_def)
  have e: "queueing_enabled (JObj [(''queueing_enabled'', JBool True)]) = Some True" by code_simp
  have m: "active_movies gw_config two_movies_db = Inr (ln_movies queued_movies)" by code_simp
  have f: "first_episodes gw_config (ln_movies queued_movies) two_movies_db = Inr []" by code_simp
  have k: "ask_db g (queue_at r calls) = (g two_movies_db, queue_at r calls)" for g :: "db \<Rightarrow> exn + 'b" and r calls
    by (simp add: ask_db_def queue_at_def)
  have st: "strict_entries t (JList [queued_entry hash_a 1 2, queued_entry hash_b 2 9]) = Inr ?listing" for t
    by (simp add: strict_entries_def all_dicts_def dict_entries_def List.map_filter_def queued_entry_def entry_fields_def)
  have l: "torrent_list scripted (queue_at (listing [queued_entry hash_a 1 2, queued_entry hash_b 2 9] # r) c) =
      (Inr ?listing, queue_at r (c @ [\<lparr>aq_call = Read info_path [], aq_db = two_movies_db,
         aq_answer = listing [queued_entry hash_a 1 2, queued_entry hash_b 2 9]\<rparr>]))" for r c
    by (simp add: torrent_list_def rbind_def read listing_def give_def st)
  have u: "enumerate 0 ?listing = [(0, entry_fields (queued_entry hash_a 1 2)), (1, entry_fields (queued_entry hash_b 2 9))]"
    by simp
  have lu: "\<lparr>ln_movies = ln_movies queued_movies, ln_episodes = []\<rparr> = queued_movies" by (simp add: queued_movies_def)
  show ?thesis
    unfolding prioritize_movies_def
    by (subst rbind_gives, rule w, subst rbind_gives, rule a, subst q, subst rbind_gives, rule read,
        subst e, subst option.case, subst rbind_gives, rule d,
        subst rbind_gives, subst k, subst m, rule refl, subst rbind_gives, subst k, subst f, rule refl,
        subst rbind_gives, rule l, simp only: Let_def u lu,
        subst rbind_gives, subst k, subst movies_scanned, rule refl, simp only: prod.case,
        subst rbind_gives, subst k, subst scan_episodes.simps, rule refl,
        simp only: movies_planned plan_carried_out)
qed

section \<open>An admitted torrent\<close>

definition add_body :: add_request where
  "add_body =
     \<lparr>ad_arr_token = Some ''arr'', ad_sid = None, ad_permit = Some ''t1'', ad_infohash = None,
      ad_content_type = ''application/json'',
      ad_json = Some (JObj [(''infohash'', JStr hash_a), (''savepath'', JStr torrents_root),
                            (''metadata_sha256'', JStr digest_c)]),
      ad_form = None\<rparr>"

definition add_start :: "script gw" where
  "add_start = begin_with admitted_db [Inr (accepted_result hash_a)]"

lemma movie_added:
  "fst (add_torrent scripted gw_config add_body add_start) = Inr (Json (accepted_result hash_a))"
  "length (gw_log (snd (add_torrent scripted gw_config add_body add_start))) = 1"
  by code_simp+

end
