(* ===== verification/GatewayProperties.thy ===== *)
theory GatewayProperties
  imports GatewaySafety GatewaySamples
begin

text \<open>The properties of the gateway's handlers.\<close>

section \<open>Deletion removes own media only\<close>




definition no_effect :: "('w, 'a) gwreq \<Rightarrow> bool" where
  "no_effect m \<longleftrightarrow> (\<forall>s. \<exists>r. m s = (r, s))"

lemma quietE: "no_effect m \<Longrightarrow> (\<And>r. m s = (r, s) \<Longrightarrow> thesis) \<Longrightarrow> thesis"
  unfolding no_effect_def by blast


named_theorems quiet_rules \<open>handlers that change nothing\<close>

lemma quiet_basic [quiet_rules]:
  "no_effect (give r)" "no_effect (deny status detail)" "no_effect (demand c status detail)" "no_effect (on_db f)"
  "no_effect (ask_db g)" "no_effect (from_registry h)"
  by (simp_all add: no_effect_def give_def deny_def demand_def on_db_def ask_db_def from_registry_def)

lemma quiet_bind [quiet_rules]:
  assumes "no_effect m" and "\<And>x. no_effect (f x)"
  shows "no_effect (rbind m f)"
  unfolding no_effect_def
proof
  fix s
  from assms(1) obtain r where r: "m s = (r, s)" by (rule quietE)
  show "\<exists>r. rbind m f s = (r, s)"
  proof (cases r)
    case (Inr x)
    from assms(2) obtain r' where "f x s = (r', s)" by (rule quietE)
    with r Inr show ?thesis by (simp add: rbind_def)
  qed (simp add: rbind_def r)
qed

lemma quiet_reraise [quiet_rules]:
  assumes "no_effect m"
  shows "no_effect (reraise f m)"
  unfolding no_effect_def
proof
  fix s
  from assms obtain r where "m s = (r, s)" by (rule quietE)
  then show "\<exists>r. reraise f m s = (r, s)" by (cases r) (simp_all add: reraise_def)
qed

lemma quiet_if [quiet_rules]: "no_effect m \<Longrightarrow> no_effect n \<Longrightarrow> no_effect (if c then m else n)"
  by simp

lemma quiet_source_again [quiet_rules]: "no_effect (source_again cfg token media_key scope)"
  unfolding source_again_def by (intro quiet_rules)

lemma quiet_pack_may_go [quiet_rules]: "no_effect (pack_may_go cfg token media_key scope p episode)"
  unfolding pack_may_go_def by (intro quiet_rules)







lemma upstream_log: "upstream env c s = (r, s') \<Longrightarrow> \<exists>e. gw_log s' = gw_log s @ [e] \<and> aq_call e = c \<and> aq_answer e = r"
  by (auto simp: upstream_def split: prod.splits)











section \<open>The gateway and the registry\<close>



text \<open>
  C2 (gateway_refines_registry): a request, together with what other processes commit while
  it waits, is a run of the registry's transition system; so every invariant of that system
  holds across the gateway.
\<close>

theorem gateway_refines_registry:
  assumes "serve env cfg rq s = (r, s')" and "lawful env" and "db_wf (gw_db s)"
  shows "(\<exists>ls. run permit_step (gw_db s) ls (gw_db s')) \<and> db_wf (gw_db s')"
  using serve_trail [OF assms stable_run [of "gw_db s"]] by (auto simp: trail_def registry_run_def)

theorem gateway_refines_registry_witness:
  "\<exists>ls. run permit_step admitted_db ls (gw_db (snd (serve scripted gw_config (PostAdd add_body) add_start)))"
  using gateway_refines_registry [OF surjective_pairing scripted_lawful, of add_start gw_config "PostAdd add_body"]
    admitted_db_wf
  by (simp add: add_start_def)

section \<open>Credentials\<close>

fun header_of :: "gateway_request \<Rightarrow> string option" where
  "header_of (PostDeleteSource header body) = header"
| "header_of (GetTorrentHealth token header) = header"
| "header_of (PostProbeDecision header body) = header"
| "header_of (PostSourceState header body) = header"
| "header_of (PostReconcileSource header body) = header"
| "header_of (PostSeriesQueueState header body) = header"
| "header_of (PostRepairMetadata header body) = header"
| "header_of (GetQueueCapacity header) = header"
| "header_of (PostPrioritizeMovies header) = header"
| "header_of (GetApp header sid item) = header"
| "header_of (GetTorrents header sid item params) = header"
| "header_of (PostAdd rq) = ad_arr_token rq"
| "header_of _ = None"

fun session_of :: "gateway_request \<Rightarrow> string option" where
  "session_of (GetApp header sid item) = sid"
| "session_of (GetTorrents header sid item params) = sid"
| "session_of (PostAdd rq) = ad_sid rq"
| "session_of _ = None"

definition live_session :: "'w gateway_env \<Rightarrow> string option \<Rightarrow> 'w gw \<Rightarrow> bool" where
  "live_session env sid s =
     (case sid of None \<Rightarrow> False
      | Some i \<Rightarrow> i \<noteq> [] \<and> fst (g_monotonic env (gw_world s)) < get_or (gw_sessions s) i 0)"

definition untouched :: "'w gw \<Rightarrow> 'w gw \<Rightarrow> bool" where
  "untouched s s' = (gw_db s' = gw_db s \<and> gw_log s' = gw_log s)"

lemma worker_refused:
  "\<not> worker_credential cfg header \<Longrightarrow> snd (rbind (require_worker cfg header) f s) = s"
  by (simp add: require_worker_def demand_def deny_def give_def rbind_def)

lemma worker_refused_inner:
  "\<not> worker_credential cfg header \<Longrightarrow> snd (rbind (rbind (require_worker cfg header) f) g s) = s"
  by (simp add: require_worker_def demand_def deny_def give_def rbind_def)

lemma json_reply_snd: "snd (json_reply m s) = snd (m s)"
  by (auto simp: json_reply_def rbind_def give_def split: prod.splits sum.splits)

lemma authenticate_refused:
  assumes "\<not> worker_credential cfg header" and "\<not> live_session env sid s"
  shows "\<exists>e w. authenticate env cfg header sid s = (Inl e, s\<lparr>gw_world := w\<rparr>)"
proof (cases "gc_arr_token cfg = ''unconfigured''")
  case True
  then show ?thesis
    by (auto simp: authenticate_def demand_def deny_def give_def rbind_def intro!: exI [of _ "gw_world s"])
next
  case False
  with assms(1) have "\<not> token_matches header (gc_arr_token cfg)" by (simp add: worker_credential_def)
  with False assms(2) show ?thesis
    by (auto simp: authenticate_def demand_def deny_def give_def rbind_def ask_world_def live_session_def
        split: prod.splits option.splits)
qed

lemma route_untouched:
  assumes "\<not> worker_credential cfg header" and "\<not> live_session env sid s"
  shows "untouched s (snd (rbind (require_route verb path) (\<lambda>_. rbind (authenticate env cfg header sid) f) s))"
  using authenticate_refused [OF assms]
  by (auto simp: require_route_def demand_def deny_def give_def rbind_def untouched_def)

lemma login_untouched: "untouched s (snd (login env cfg form s))"
  by (auto simp: login_def require_route_def demand_def deny_def give_def rbind_def ask_world_def untouched_def
      split: prod.splits)

text \<open>
  C19 (gateway_needs_credential): a request with neither the service token nor a live session
  makes no call to qBittorrent and leaves the database alone.
\<close>

theorem gateway_needs_credential:
  assumes "serve env cfg rq s = (r, s')"
    and "\<not> worker_credential cfg (header_of rq)" and "\<not> live_session env (session_of rq) s"
  shows "untouched s s'"
proof -
  have "untouched s (snd (serve env cfg rq s))"
  proof (cases rq)
    case (GetTorrentHealth token header)
    with assms(2) show ?thesis
      by (simp add: json_reply_snd read_torrent_health_def source_permit_def worker_refused_inner untouched_def)
  next
    case (GetApp header sid item)
    with assms(2,3) show ?thesis by (simp add: app_read_def Let_def route_untouched)
  next
    case (GetTorrents header sid item params)
    with assms(2,3) show ?thesis by (simp add: torrent_read_def Let_def route_untouched)
  next
    case (PostAdd rq)
    with assms(2,3) show ?thesis by (simp add: add_torrent_def route_untouched)
  qed (use assms(2) in \<open>simp_all add: json_reply_snd delete_media_source_def decide_probe_def source_state_def
      reconcile_source_def series_queue_state_def repair_metadata_def gateway_queue_capacity_def prioritize_movies_def
      worker_refused untouched_def give_def deny_def\<close>, simp add: login_untouched [unfolded untouched_def])
  then show ?thesis by (simp add: assms(1))
qed

theorem gateway_needs_credential_witness:
  "untouched promote_start
     (snd (serve scripted gw_config (PostProbeDecision (Some ''guess'') (Some promote_body)) promote_start))"
proof -
  have "\<not> worker_credential gw_config (header_of (PostProbeDecision (Some ''guess'') (Some promote_body)))"
    "\<not> live_session scripted (session_of (PostProbeDecision (Some ''guess'') (Some promote_body))) promote_start"
    by (simp_all add: worker_credential_def token_matches_def gw_config_def live_session_def)
  from gateway_needs_credential [OF surjective_pairing this] show ?thesis .
qed

section \<open>The end of a race\<close>

text \<open>The answer of qBittorrent in which the torrent of a permit is stopped.\<close>

definition stop_seen :: "permit \<Rightarrow> asked \<Rightarrow> bool" where
  "stop_seen p c \<longleftrightarrow>
     (\<exists>js current state. aq_call c = Read info_path [(''hashes'', pm_infohash p)] \<and> aq_answer c = Inr (JList js) \<and>
        filter (entry_is (pm_infohash p)) (dict_entries js) = [current] \<and>
        placed_at (pm_category p) (pm_destination p) current \<and>
        jget current ''state'' = JStr state \<and> stopped_download state)"

lemma source_info_seen:
  assumes "source_info env p s = (Inr current, s')"
  shows "\<exists>e js. gw_log s' = gw_log s @ [e] \<and> aq_call e = Read info_path [(''hashes'', pm_infohash p)] \<and>
    aq_answer e = Inr (JList js) \<and> filter (entry_is (pm_infohash p)) (dict_entries js) = [current] \<and>
    placed_at (pm_category p) (pm_destination p) current"
proof -
  from assms obtain entries js where
      l: "upstream env (Read info_path [(''hashes'', pm_infohash p)]) s = (Inr entries, s')"
    and js: "as_list entries = Some js" "filter (entry_is (pm_infohash p)) (dict_entries js) = [current]"
    and place: "placed_at (pm_category p) (pm_destination p) current"
    by (simp only: source_info_def read_info_def rbind_Inr option_returns list_returns give_Inr demand_Inr deny_Inr
        sum.inject simp_thms) blast
  from upstream_log [OF l] js place show ?thesis by (auto simp: as_list_Some)
qed

lemma seen_stopped_log:
  assumes "seen_stopped env p s = (Inr True, s')"
  shows "\<exists>e. gw_log s' = gw_log s @ [e] \<and> stop_seen p e"
proof -
  from assms obtain current where info: "source_info env p s = (Inr current, s')"
      and m: "member_of stopped_names (jget current ''state'') = Inr True"
    by (auto simp: seen_stopped_def req_simps)
  from m obtain state where "jget current ''state'' = JStr state" "stopped_download state"
    by (auto simp: member_of_def as_str_Some stopped_names_def stopped_download_def split: option.splits if_splits)
  with source_info_seen [OF info] show ?thesis unfolding stop_seen_def by blast
qed

lemma registry_transaction_Inr [req_simps]:
  "registry_transaction f s = (Inr x, s') \<longleftrightarrow> (\<exists>d. f (gw_db s) = Inr (d, x) \<and> s' = s\<lparr>gw_db := d\<rparr>)"
  by (auto simp: registry_transaction_def split: sum.splits)

lemma settle_stopped_seen:
  "settle_stopped env p settle done unconfirmed n s = (Inr j, s') \<Longrightarrow>
   j = state_reply done \<and> (\<exists>d l e. settle d = Inr (gw_db s') \<and> gw_log s' = l @ [e] \<and> stop_seen p e)"
proof (induction n arbitrary: s)
  case (Suc n)
  from Suc.prems obtain stopped s1 where seen: "seen_stopped env p s = (Inr stopped, s1)"
    and rest: "(if stopped
       then rbind (registry_transaction (\<lambda>d. ebind (settle d) (\<lambda>d'. Inr (d', ())))) (\<lambda>_. give (Inr (state_reply done)))
       else rbind (if n = 0 then give (Inr ()) else pause env) (\<lambda>_.
              settle_stopped env p settle done unconfirmed n)) s1 = (Inr j, s')"
    by (auto simp: req_simps)
  show ?case
  proof (cases stopped)
    case True
    with seen_stopped_log [of env p s s1] seen obtain e where "gw_log s1 = gw_log s @ [e]" "stop_seen p e" by auto
    with True rest show ?thesis by (auto simp: req_simps err_simps)
  next
    case False
    with rest obtain s2 where "settle_stopped env p settle done unconfirmed n s2 = (Inr j, s')"
      by (auto simp: req_simps)
    then show ?thesis by (rule Suc.IH)
  qed
qed (simp add: req_simps)

lemma complete_handover_closes: "complete_handover token d = Inr d' \<Longrightarrow> pending_handover token d' = None"
proof -
  assume c: "complete_handover token d = Inr d'"
  let ?hs = "update_rows (\<lambda>h. exists_row (\<lambda>p. pm_id p = ho_candidate_id h \<and> pm_token p = token) (permits d))
               (\<lambda>h. h\<lparr>ho_state := HoComplete\<rparr>) (handovers d)"
  from c have "permits d' = permits d" "handovers d' = ?hs"
    by (auto simp: complete_handover_def Let_def update_probe_budget_def dest: set_budget_frame split: option.splits)
  then show ?thesis
    by (auto simp: pending_handover_def exists_row_iff set_update_rows split: option.splits dest!: find_row_Some)
qed

lemma cancel_race_reply: "cancel_race env candidate parent s = (Inr j, s') \<Longrightarrow> j = state_reply ''cancelled''"
  by (auto simp: cancel_race_def req_simps branch_simps)

lemma promote_settles:
  assumes "promote_candidate env cfg candidate parent s = (Inr (state_reply ''promoted''), s')"
  shows "\<exists>d l e. complete_handover (pm_token candidate) d = Inr (gw_db s') \<and> gw_log s' = l @ [e] \<and> stop_seen parent e"
proof -
  from assms have "\<exists>s1. settle_stopped env parent (complete_handover (pm_token candidate)) ''promoted''
      ''old source stop unconfirmed'' polls s1 = (Inr (state_reply ''promoted''), s')"
    by (auto simp: promote_candidate_def req_simps branch_simps state_reply_def dest!: cancel_race_reply)
  with settle_stopped_seen show ?thesis by blast
qed

definition named_token :: "json option \<Rightarrow> string \<Rightarrow> bool" where
  "named_token body token = (\<exists>d. body = Some (JObj d) \<and> jget d ''permit_token'' = JStr token)"

text \<open>
  C9 (promotion_sees_stop): a promotion is reported only after qBittorrent showed the source
  it replaces as stopped; by then the handover of the candidate is closed.
\<close>

theorem promotion_sees_stop:
  assumes "decide_probe env cfg header body s = (Inr (state_reply ''promoted''), s')"
  shows "\<exists>token candidate parent. named_token body token \<and> find_token (gw_db s) token = Some candidate \<and>
    (pending_handover token (gw_db s) = Some parent \<or>
     reserved_source (pm_reservation_id candidate) (pm_scope_key candidate) (gw_db s) = Some parent) \<and>
    stop_seen parent (last (gw_log s')) \<and> pending_handover token (gw_db s') = None"
proof -
  from assms obtain j token promote where body: "body = Some j" and order: "probe_order j = Inr (token, promote)"
      and race: "settle_race env cfg token promote s = (Inr (state_reply ''promoted''), s')"
    by (auto simp: decide_probe_def body_json_def req_simps branch_simps)
  from race obtain candidate parent s1 where pair: "probe_pair token s = (Inr (candidate, parent), s1)"
      and go: "(if promote then promote_candidate env cfg candidate parent else reject_candidate env candidate) s1
        = (Inr (state_reply ''promoted''), s')"
    by (auto simp: settle_race_def require_source_mutable_def req_simps branch_simps)
  have promote: "promote"
    using go by (auto simp: reject_candidate_def req_simps branch_simps state_reply_def dest: settle_stopped_seen)
  with go have "promote_candidate env cfg candidate parent s1 = (Inr (state_reply ''promoted''), s')" by simp
  from promote_settles [OF this] obtain d l e where e: "complete_handover (pm_token candidate) d = Inr (gw_db s')"
      "gw_log s' = l @ [e]" "stop_seen parent e" by blast
  from pair obtain t where t: "token = JStr t" "find_token (gw_db s) t = Some candidate"
      "pending_handover t (gw_db s) = Some parent \<or>
       reserved_source (pm_reservation_id candidate) (pm_scope_key candidate) (gw_db s) = Some parent"
    by (auto simp: probe_pair_def find_permit_def token_parameter_def req_simps branch_simps
        dest: find_token_Some split: option.splits json.splits if_splits)
  from order t(1) body have "named_token body t"
    by (auto simp: named_token_def probe_order_def as_obj_Some err_simps split: option.splits if_splits)
  with t e complete_handover_closes [OF e(1)] find_token_Some [OF t(2)] show ?thesis by auto
qed

theorem promotion_sees_stop_witness:
  "\<exists>parent. stop_seen parent (last (gw_log (snd
     (decide_probe scripted gw_config (Some ''arr'') (Some promote_body) promote_start))))"
proof -
  have "decide_probe scripted gw_config (Some ''arr'') (Some promote_body) promote_start = (Inr (state_reply ''promoted''),
      snd (decide_probe scripted gw_config (Some ''arr'') (Some promote_body) promote_start))"
    using probe_promoted by (simp add: prod_eq_iff)
  from promotion_sees_stop [OF this] show ?thesis by blast
qed

definition only_stops :: "asked \<Rightarrow> bool" where
  "only_stops c = (case aq_call c of Read path params \<Rightarrow> True | SetRunning h start \<Rightarrow> \<not> start | _ \<Rightarrow> False)"

text \<open>
  A decision about a race never starts a torrent, adds one or
  deletes one: besides reading it only stops torrents.
\<close>

theorem probes_never_start:
  assumes "decide_probe env cfg header body s = (r, s')" and "lawful env" and "db_wf (gw_db s)"
  shows "\<exists>calls. gw_log s' = gw_log s @ calls \<and> list_all only_stops calls"
proof -
  have reads: "admits_reads only_stops" and stops: "admits_stop only_stops h" for h
    by (simp_all add: admits_reads_def admits_stop_def only_stops_def)
  have "stays only_stops (gw_log s) (\<lambda>_. True) (decide_probe env cfg header body)"
    unfolding decide_probe_def settle_race_def
    by (rule stays_promote stays_reject stay_rules stable_rules reads stops assms(2))+
  moreover have "trail only_stops (gw_log s) (\<lambda>_. True) s" using assms(3) by (simp add: trail_def)
  ultimately have "trail only_stops (gw_log s) (\<lambda>_. True) s'" using triple_end assms(1) by (metis snd_conv)
  then show ?thesis by (simp add: trail_def)
qed

theorem probes_never_start_witness:
  "list_all only_stops
     (gw_log (snd (decide_probe scripted gw_config (Some ''arr'') (Some promote_body) promote_start)))"
  using probes_never_start [OF surjective_pairing scripted_lawful, of promote_start] promoted_db_wf
  by (fastforce simp: promote_start_def)

section \<open>The order of the queue\<close>








end
