(* ===== verification/GatewayAdds.thy ===== *)
theory GatewayAdds
  imports GatewaySafety GatewaySamples
begin

text \<open>A request to add a torrent and the permit it uses.\<close>

section \<open>A permit is used up\<close>


fun is_add :: "upstream_call \<Rightarrow> bool" where
  "is_add (AddTorrent payload) = True"
| "is_add _ = False"

definition adds_nothing :: "asked \<Rightarrow> bool" where
  "adds_nothing c = (\<not> is_add (aq_call c))"



lemma adds_nothing_reads [stay_rules]: "admits_reads adds_nothing"
  by (simp add: admits_reads_def adds_nothing_def)












end
