(* ===== verification/Subtitles.thy ===== *)
theory Subtitles
  imports SubtitleLanguage TorrentBytes Outside
begin

text \<open>
  Subtitles and media streams: \<open>domain/subtitle_content.py\<close>, the store of
  \<open>persistence/subtitle_artifacts.py\<close>, \<open>domain/media_probe.py\<close>, and what
  \<open>worker/subtitle_language.py\<close> reads off a probed file.  Digits and white space are those of
  ASCII.  \<open>ascii_fold\<close> is an argument as in \<open>SubtitleLanguage\<close>.
\<close>

section \<open>SRT content\<close>

definition min_srt :: nat where
  "min_srt = 30"

definition max_srt :: nat where
  "max_srt = 1000000"

definition scanned_chars :: nat where
  "scanned_chars = 16384"

text \<open>\<open>decode("utf-8-sig")\<close>: the text without a byte order mark at its start.\<close>

definition bom :: string where
  "bom = map char_of [239 :: nat, 187, 191]"

definition decode_sig :: "string \<Rightarrow> string option" where
  "decode_sig data =
     (if \<not> utf8_valid data then None
      else Some (case strip_prefix bom data of None \<Rightarrow> data | Some r \<Rightarrow> r))"

text \<open>\<open>text[:n]\<close>: the first \<open>n\<close> characters.\<close>

fun take_chars :: "nat \<Rightarrow> string \<Rightarrow> string" where
  "take_chars n [] = []"
| "take_chars n (c # s) = (if cont c then c # take_chars n s
     else (case n of 0 \<Rightarrow> [] | Suc m \<Rightarrow> c # take_chars m s))"

definition drop_spaces :: "string \<Rightarrow> string" where
  "drop_spaces s = dropWhile is_space s"

text \<open>\<open>\d{2}:\d{2}:\d{2}\<close>, and the same with \<open>[,.]\d{3}\<close>: what follows.\<close>

definition clock_time :: "string \<Rightarrow> string option" where
  "clock_time s =
     (case s of
        a # b # x # c # d # y # e # f # r \<Rightarrow>
          if list_all is_digit [a, b, c, d, e, f] \<and> x = CHR '':'' \<and> y = CHR '':'' then Some r else None
      | _ \<Rightarrow> None)"

definition cue_time :: "string \<Rightarrow> string option" where
  "cue_time s =
     (case clock_time s of
        Some (p # a # b # c # r) \<Rightarrow>
          if p \<in> {CHR '','', CHR ''.''} \<and> list_all is_digit [a, b, c] then Some r else None
      | _ \<Rightarrow> None)"

definition arrow :: "string \<Rightarrow> string option" where
  "arrow s = map_option drop_spaces (strip_prefix ''-->'' (drop_spaces s))"

definition cue_at :: "string \<Rightarrow> bool" where
  "cue_at s = (Option.bind (Option.bind (cue_time s) arrow) cue_time \<noteq> None)"

fun search_text :: "(string \<Rightarrow> bool) \<Rightarrow> string \<Rightarrow> bool" where
  "search_text p [] = p []"
| "search_text p (c # s) = (p (c # s) \<or> search_text p s)"

definition valid_srt :: "string \<Rightarrow> bool" where
  "valid_srt data =
     (min_srt \<le> length data \<and> length data \<le> max_srt \<and>
      (case decode_sig data of
         None \<Rightarrow> False
       | Some t \<Rightarrow> search_text cue_at (take_chars scanned_chars t) \<and> CHR 0x00 \<notin> set t))"

text \<open>\<open>cp1252\<close>: the characters of the octets 128 to 159, five of which stand for nothing.\<close>

definition cp1252_high :: "nat list" where
  "cp1252_high =
     [0x20AC, 0, 0x201A, 0x0192, 0x201E, 0x2026, 0x2020, 0x2021, 0x02C6, 0x2030, 0x0160, 0x2039, 0x0152, 0, 0x017D, 0,
      0, 0x2018, 0x2019, 0x201C, 0x201D, 0x2022, 0x2013, 0x2014, 0x02DC, 0x2122, 0x0161, 0x203A, 0x0153, 0, 0x017E, 0x0178]"

definition cp1252_point :: "char \<Rightarrow> nat option" where
  "cp1252_point c =
     (let n = code c in
      if n < 128 \<or> 160 \<le> n then Some n
      else if cp1252_high ! (n - 128) = 0 then None else Some (cp1252_high ! (n - 128)))"

text \<open>The UTF-8 octets of a code point below 65536.\<close>

definition utf8_octets :: "nat \<Rightarrow> string" where
  "utf8_octets n = map char_of
     (if n < 128 then [n]
      else if n < 2048 then [192 + n div 64, 128 + n mod 64]
      else [224 + n div 4096, 128 + n div 64 mod 64, 128 + n mod 64])"

definition from_cp1252 :: "string \<Rightarrow> string option" where
  "from_cp1252 data = map_option (\<lambda>ns. concat (map utf8_octets ns)) (those (map cp1252_point data))"

definition normalize_srt :: "string \<Rightarrow> string option" where
  "normalize_srt data =
     (if valid_srt data then Some data
      else if \<not> (min_srt \<le> length data \<and> length data \<le> max_srt) then None
      else (case from_cp1252 data of
              None \<Rightarrow> None | Some text_found \<Rightarrow> if valid_srt text_found then Some text_found else None))"

section \<open>The store of subtitles\<close>

record subtitle_row =
  sa_reservation_id :: string
  sa_scope_key :: string
  sa_infohash :: string
  sa_source :: string
  sa_language :: string
  sa_sha256 :: string
  sa_content :: string

definition finalizer_source :: string where
  "finalizer_source = ''subdl_movie_finalizer''"

definition subtitle_languages :: "string list" where
  "subtitle_languages = [''BR_PT'', ''EN'']"

definition subtitle_sources :: "string list" where
  "subtitle_sources = [''subdl'', finalizer_source]"

definition artifact_scope :: "string option \<Rightarrow> string" where
  "artifact_scope scope = (case scope of None \<Rightarrow> [] | Some sc \<Rightarrow> sc)"

definition subtitle_at :: "string \<Rightarrow> string option \<Rightarrow> string \<Rightarrow> subtitle_row \<Rightarrow> bool" where
  "subtitle_at rid scope infohash r =
     (sa_reservation_id r = rid \<and> sa_scope_key r = artifact_scope scope \<and> sa_infohash r = lower infohash)"

definition set_subtitle :: "string \<Rightarrow> string \<Rightarrow> string \<Rightarrow> string \<Rightarrow> subtitle_row \<Rightarrow> subtitle_row" where
  "set_subtitle source language digest content r =
     r\<lparr>sa_source := source, sa_language := language, sa_sha256 := digest, sa_content := content\<rparr>"

text \<open>\<open>known\<close>: whether the reservation the row refers to exists.\<close>

definition put_subtitle ::
    "(string \<Rightarrow> string) \<Rightarrow> bool \<Rightarrow> string \<Rightarrow> string option \<Rightarrow> string \<Rightarrow> string \<Rightarrow> string \<Rightarrow> string \<Rightarrow> bool \<Rightarrow>
     subtitle_row list \<Rightarrow> err + subtitle_row list" where
  "put_subtitle sha256 known rid scope infohash content language source replace_language rows =
     (if language \<notin> set subtitle_languages then Inl (ValueError ''unsupported subtitle language'')
      else if source \<notin> set subtitle_sources then Inl (ValueError ''unsupported subtitle source'')
      else if \<not> (hex40 infohash \<or> hex64 infohash) then Inl (ValueError ''invalid subtitle torrent hash'')
      else if \<not> valid_srt content then Inl (ValueError ''invalid SRT'')
      else
        let digest = sha256 content;
            this = subtitle_at rid scope infohash;
            changed = Inr (update_rows this (set_subtitle source language digest content) rows)
        in
        (case find_row this rows of
           None \<Rightarrow>
             if known
               then Inr (rows @ [\<lparr>sa_reservation_id = rid, sa_scope_key = artifact_scope scope,
                                  sa_infohash = lower infohash, sa_source = source, sa_language = language,
                                  sa_sha256 = digest, sa_content = content\<rparr>])
             else Inl IntegrityError
         | Some r \<Rightarrow>
             if sa_source r = ''subdl'' \<and> source = finalizer_source then changed
             else if sa_source r \<noteq> source
               then Inl (ValueError ''subtitle artifact source conflicts with an existing permit'')
             else if sa_language r \<noteq> language \<and> replace_language \<or>
                     sa_language r = ''EN'' \<and> language = ''BR_PT'' then changed
             else if sa_language r = ''BR_PT'' \<and> language = ''EN'' then Inr rows
             else if sa_language r \<noteq> language \<or> sa_sha256 r \<noteq> digest \<or> sa_content r \<noteq> content
               then Inl (ValueError ''subtitle artifact conflicts with an existing permit'')
             else Inr rows))"

definition get_subtitle ::
    "(string \<Rightarrow> string) \<Rightarrow> string \<Rightarrow> string option \<Rightarrow> string \<Rightarrow> string \<Rightarrow> string \<Rightarrow> subtitle_row list \<Rightarrow>
     err + string option" where
  "get_subtitle sha256 rid scope infohash language source rows =
     (if language \<notin> set subtitle_languages then Inl (ValueError ''unsupported subtitle language'')
      else if source \<notin> set subtitle_sources then Inl (ValueError ''unsupported subtitle source'')
      else
        (case find_row (\<lambda>r. subtitle_at rid scope infohash r \<and> sa_source r = source \<and> sa_language r = language)
                rows of
           None \<Rightarrow> Inr None
         | Some r \<Rightarrow>
             if sha256 (sa_content r) \<noteq> sa_sha256 r \<or> \<not> valid_srt (sa_content r) then Inr None
             else Inr (Some (sa_content r))))"

section \<open>Probed media\<close>

text \<open>
  What running \<open>ffprobe\<close> gives: an \<open>OSError\<close> or a timeout, or the exit status with the JSON
  on its output (\<open>None\<close> when it is no JSON).  \<open>parse_float\<close> is \<open>float(text)\<close>.
\<close>

datatype ffprobe = ProbeFailed | ProbeExit int "json option"

record media_probe =
  mp_width :: int
  mp_height :: int
  mp_audio :: "string list"
  mp_subtitles :: "string list"
  mp_raw :: "(string \<times> json) list"
  mp_duration :: "rat option"

definition py_or :: "json \<Rightarrow> json \<Rightarrow> json" where
  "py_or a b = (if truthy a then a else b)"

definition stream_language :: "(string \<times> json) list \<Rightarrow> string" where
  "stream_language stream =
     (case as_obj (jget stream ''tags'') of
        None \<Rightarrow> ''und''
      | Some tags \<Rightarrow>
          (case as_str (py_or (jget tags ''language'') (jget tags ''LANGUAGE'')) of
             None \<Rightarrow> ''und'' | Some t \<Rightarrow> if strip t = [] then ''und'' else lower (strip t)))"

definition streams_of :: "string \<Rightarrow> (string \<times> json) list list \<Rightarrow> (string \<times> json) list list" where
  "streams_of kind streams = filter (\<lambda>s. jget s ''codec_type'' = JStr kind) streams"

text \<open>\<open>float(n)\<close> raises from this bound on.\<close>

definition float_limit :: int where
  "float_limit = 2 ^ 1024 - 2 ^ 970"

definition duration_value :: "(string \<Rightarrow> pyfloat option) \<Rightarrow> json \<Rightarrow> rat option" where
  "duration_value parse_float j =
     (case (case j of
              JStr s \<Rightarrow> parse_float s
            | JInt n \<Rightarrow> if abs n < float_limit then Some (Fin (of_int n)) else None
            | JFloat x \<Rightarrow> Some x
            | _ \<Rightarrow> None) of
        Some (Fin x) \<Rightarrow> if 0 < x then Some x else None
      | _ \<Rightarrow> None)"

definition probe_payload :: "(string \<Rightarrow> pyfloat option) \<Rightarrow> json \<Rightarrow> string + media_probe" where
  "probe_payload parse_float payload =
     (case as_obj payload of
        None \<Rightarrow> Inl ''ffprobe output has no streams list''
      | Some d \<Rightarrow>
          (case as_list (jget d ''streams'') of
             None \<Rightarrow> Inl ''ffprobe output has no streams list''
           | Some js \<Rightarrow>
               let streams = List.map_filter as_obj js in
               (case streams_of ''video'' streams of
                  [] \<Rightarrow> Inl ''ffprobe output has no video stream''
                | video # _ \<Rightarrow>
                    (case (as_int_or_bool (jget video ''width''), as_int_or_bool (jget video ''height'')) of
                       (Some w, Some h) \<Rightarrow>
                         if w \<le> 0 \<or> h \<le> 0 then Inl ''ffprobe video dimensions are invalid''
                         else Inr
                           \<lparr>mp_width = w, mp_height = h,
                            mp_audio = map stream_language (streams_of ''audio'' streams),
                            mp_subtitles = map stream_language (streams_of ''subtitle'' streams),
                            mp_raw = d,
                            mp_duration =
                              (case as_obj (jget d ''format'') of
                                 None \<Rightarrow> None | Some f \<Rightarrow> duration_value parse_float (jget f ''duration''))\<rparr>
                     | _ \<Rightarrow> Inl ''ffprobe video dimensions are invalid''))))"

definition probe_media :: "(string \<Rightarrow> pyfloat option) \<Rightarrow> ffprobe \<Rightarrow> string + media_probe" where
  "probe_media parse_float answer =
     (case answer of
        ProbeFailed \<Rightarrow> Inl ''ffprobe failed''
      | ProbeExit status output \<Rightarrow>
          if status \<noteq> 0 then Inl ''ffprobe returned an error''
          else (case output of
                  None \<Rightarrow> Inl ''ffprobe output is not valid JSON''
                | Some payload \<Rightarrow> probe_payload parse_float payload))"

section \<open>Labels of streams\<close>

text \<open>The first text among the tags whose key is one of these, ignoring case.\<close>

definition tag_texts :: "string list \<Rightarrow> (string \<times> json) list \<Rightarrow> string list" where
  "tag_texts ks tags = List.map_filter (\<lambda>(k, v). if lower k \<in> set ks then as_str v else None) tags"

definition tag_language :: "(string \<times> json) list \<Rightarrow> string" where
  "tag_language tags = (case tag_texts [''language''] tags of [] \<Rightarrow> [] | t # _ \<Rightarrow> t)"

definition tag_title :: "(string \<times> json) list \<Rightarrow> string" where
  "tag_title tags = join_with '' '' (tag_texts [''title'', ''handler_name''] tags)"

definition probe_streams :: "media_probe \<Rightarrow> (string \<times> json) list list option" where
  "probe_streams p = map_option (List.map_filter as_obj) (as_list (jget (mp_raw p) ''streams''))"

definition text_codecs :: "string list" where
  "text_codecs = [''subrip'', ''ass'', ''ssa'', ''webvtt'', ''mov_text'']"

definition english_tags :: "string list" where
  "english_tags = [''en'', ''eng'', ''english'', ''en-us'', ''en-gb'', ''en-uk'', ''en-au'', ''en-ca'']"

definition partial_words :: "string list" where
  "partial_words = [''forced'', ''sign'', ''signs'', ''song'', ''songs'', ''foreign'', ''partial'', ''commentary'']"

definition flagged :: "string \<Rightarrow> (string \<times> json) list \<Rightarrow> bool" where
  "flagged flag stream =
     (case as_obj (jget stream ''disposition'') of None \<Rightarrow> False | Some d \<Rightarrow> py_eq (jget d flag) (JInt 1))"

definition underscores :: "string \<Rightarrow> string" where
  "underscores s = map (\<lambda>c. if c = CHR ''_'' then CHR ''-'' else c) s"

definition full_english :: "(string \<Rightarrow> string) \<Rightarrow> (string \<times> json) list \<Rightarrow> bool" where
  "full_english ascii_fold stream =
     (\<not> flagged ''forced'' stream \<and>
      (case as_obj (jget stream ''tags'') of
         None \<Rightarrow> False
       | Some tags \<Rightarrow>
           underscores (lower (strip (tag_language tags))) \<in> set english_tags \<and>
           set (tokens ascii_fold (tag_title tags)) \<inter> set partial_words = {}))"

text \<open>\<open>has_embedded_english_subtitle\<close>; a codec name that is not hashable raises.\<close>

fun embedded_english :: "(string \<Rightarrow> string) \<Rightarrow> (string \<times> json) list list \<Rightarrow> err + bool" where
  "embedded_english ascii_fold [] = Inr False"
| "embedded_english ascii_fold (s # streams) =
     (if jget s ''codec_type'' \<noteq> JStr ''subtitle'' then embedded_english ascii_fold streams
      else if \<not> hashable (jget s ''codec_name'') then Inl (TypeError ''unhashable type'')
      else if (case as_str (jget s ''codec_name'') of None \<Rightarrow> False | Some t \<Rightarrow> t \<in> set text_codecs) \<and>
              full_english ascii_fold s then Inr True
      else embedded_english ascii_fold streams)"

definition has_embedded_english :: "(string \<Rightarrow> string) \<Rightarrow> media_probe \<Rightarrow> err + bool" where
  "has_embedded_english ascii_fold p =
     (case probe_streams p of None \<Rightarrow> Inr False | Some streams \<Rightarrow> embedded_english ascii_fold streams)"

definition portuguese_words :: "string list" where
  "portuguese_words = [''pt'', ''por'', ''portuguese'', ''portugues'']"

definition brazil_words :: "string list" where
  "brazil_words = [''br'', ''brazil'', ''brasil'', ''brazilian'', ''brasileiro'', ''brasileira'']"

definition explicit_ptbr :: "(string \<Rightarrow> string) \<Rightarrow> string \<Rightarrow> bool" where
  "explicit_ptbr ascii_fold value =
     (let ws = tokens ascii_fold value in
      list_ex (\<lambda>w. w \<in> {''pob'', ''ptbr''}) ws \<or>
      adjacent (\<lambda>a b. a \<in> set portuguese_words \<and> b \<in> set brazil_words \<or>
                      a \<in> set brazil_words \<and> b \<in> set portuguese_words) ws)"

definition stream_title :: "(string \<times> json) list \<Rightarrow> string" where
  "stream_title stream = (case as_obj (jget stream ''tags'') of None \<Rightarrow> [] | Some tags \<Rightarrow> tag_title tags)"

definition dubbed_words :: "string list" where
  "dubbed_words = [''dub'', ''dubbed'', ''dublado'', ''dublada'', ''dublagem'', ''commentary'']"

definition original_stream :: "(string \<Rightarrow> string) \<Rightarrow> (string \<times> json) list \<Rightarrow> bool" where
  "original_stream ascii_fold stream =
     (flagged ''original'' stream \<or> ''original'' \<in> set (tokens ascii_fold (stream_title stream)))"

definition brazilian_audio :: "(string \<Rightarrow> string) \<Rightarrow> media_probe \<Rightarrow> bool" where
  "brazilian_audio ascii_fold p =
     (case probe_streams p of
        None \<Rightarrow> False
      | Some streams \<Rightarrow>
          (case filter (original_stream ascii_fold) (streams_of ''audio'' streams) of
             [stream] \<Rightarrow>
               \<not> list_ex (\<lambda>w. w \<in> set dubbed_words) (tokens ascii_fold (stream_title stream)) \<and>
               (case as_obj (jget stream ''tags'') of
                  None \<Rightarrow> False
                | Some tags \<Rightarrow>
                    explicit_ptbr ascii_fold (tag_language tags) \<or>
                    (case tokens ascii_fold (tag_language tags) of [w] \<Rightarrow> w \<in> set portuguese_words | _ \<Rightarrow> False) \<and>
                    explicit_ptbr ascii_fold (stream_title stream))
           | _ \<Rightarrow> False))"

section \<open>The policy\<close>

definition waives_subtitles :: "(string \<Rightarrow> string) \<Rightarrow> subtitle_policy \<Rightarrow> media_probe \<Rightarrow> bool" where
  "waives_subtitles ascii_fold policy p = (''pt-BR'' \<in> set (sp_skip_audio policy) \<and> brazilian_audio ascii_fold p)"

text \<open>The languages and modes \<open>from_environment\<close> lets through; others have no entry.\<close>

fun language_code :: "string \<Rightarrow> string option" where
  "language_code l = (if l = ''pt-BR'' then Some ''BR_PT'' else if l = ''en-US'' then Some ''EN'' else None)"

fun mode_name :: "string \<Rightarrow> string option" where
  "mode_name m = (if m = ''release'' then Some ''exact''
     else if m = ''compatible_edition'' then Some ''same_duration'' else None)"

definition subtitle_attempts :: "subtitle_policy \<Rightarrow> (string \<times> string) list" where
  "subtitle_attempts policy =
     concat (map (\<lambda>l. List.map_filter (\<lambda>m. case (language_code l, mode_name m) of
                        (Some a, Some b) \<Rightarrow> Some (a, b) | _ \<Rightarrow> None) (sp_match_modes policy)) (sp_languages policy))"

end
