(* ===== verification/ImportFiles.thy ===== *)
theory ImportFiles
  imports Requests Subtitles Outside PackInspection Reservations PermitLookups
begin

text \<open>
  The finalizers of the worker (\<open>worker/finalization.py\<close>, \<open>worker/series_finalization.py\<close>):
  their state, what they ask of services and of the file system, and the parts they share:
  \<open>worker/imports.py\<close>, \<open>worker/validation.py\<close>, \<open>worker/subtitle_recovery.py\<close>, paths, and
  subtitles in the library.  \<open>storage_registry\<close> is \<open>None\<close>.  \<open>fn_log\<close> records what was
  asked and done, with the answer and the database at that moment; the code does not read it.
\<close>

section \<open>The environment\<close>

datatype link_answer = Linked | LinkExists | LinkFailed

text \<open>\<open>NamedTemporaryFile\<close> with the content written, flushed and synced, or how far it came.\<close>

datatype temp_answer = TempRefused | TempBroken posix | TempReady posix

record subtitle_query =
  sq_tmdb :: int
  sq_titles :: "string list"
  sq_season :: "(int \<times> int) option"
  sq_language :: string
  sq_mode :: string
  sq_duration :: "rat option"

text \<open>
  \<open>ValidationError\<close>; an exception of registry, store or Python itself; an \<open>httpx.HTTPError\<close>;
  an \<open>OSError\<close>; the \<open>ImportError\<close> of \<open>imports.py\<close>.
\<close>

datatype fault = Invalid string | Raised err | HttpFault | OsFault | ImportFault string

datatype event =
    Request request "string + response"
  | Resolved posix "posix option"
  | Existed posix "bool option"
  | WasLink posix "bool option"
  | WasFile posix "bool option"
  | WasDir posix "bool option"
  | Statted posix "file_stat option"
  | ReadBytes posix "string option"
  | Probed posix ffprobe
  | LinkTried posix posix link_answer
  | TempWritten posix string temp_answer
  | MadeReadable posix bool
  | MadeDirs posix bool
  | Removed posix bool
  | LinkProbed posix posix bool
  | Searched subtitle_query "fault + string option"
  | Measured "err + capacity"

text \<open>
  \<open>n_resolve\<close> is \<open>resolve(strict=True)\<close>; every \<open>None\<close> or \<open>False\<close> of the file system is an
  \<open>OSError\<close>.  \<open>n_link_probe\<close> is the child process of \<open>probe_hardlink_as\<close>, \<open>n_subtitle\<close>
  the search of \<open>worker/subdl.py\<close>, \<open>n_capacity\<close> the reader of the capacity.  While a request
  is answered, other processes may change the database.
\<close>

record 'w fin_env =
  n_http :: "'w \<Rightarrow> db \<Rightarrow> request \<Rightarrow> (string + response) \<times> db \<times> 'w"
  n_resolve :: "'w \<Rightarrow> posix \<Rightarrow> posix option \<times> 'w"
  n_exists :: "'w \<Rightarrow> posix \<Rightarrow> bool option \<times> 'w"
  n_symlink :: "'w \<Rightarrow> posix \<Rightarrow> bool option \<times> 'w"
  n_file :: "'w \<Rightarrow> posix \<Rightarrow> bool option \<times> 'w"
  n_directory :: "'w \<Rightarrow> posix \<Rightarrow> bool option \<times> 'w"
  n_stat :: "'w \<Rightarrow> posix \<Rightarrow> file_stat option \<times> 'w"
  n_read :: "'w \<Rightarrow> posix \<Rightarrow> string option \<times> 'w"
  n_ffprobe :: "'w \<Rightarrow> posix \<Rightarrow> ffprobe \<times> 'w"
  n_link :: "'w \<Rightarrow> posix \<Rightarrow> posix \<Rightarrow> link_answer \<times> 'w"
  n_temp :: "'w \<Rightarrow> posix \<Rightarrow> string \<Rightarrow> temp_answer \<times> 'w"
  n_chmod :: "'w \<Rightarrow> posix \<Rightarrow> bool \<times> 'w"
  n_mkdirs :: "'w \<Rightarrow> posix \<Rightarrow> bool \<times> 'w"
  n_unlink :: "'w \<Rightarrow> posix \<Rightarrow> bool \<times> 'w"
  n_link_probe :: "'w \<Rightarrow> posix \<Rightarrow> posix \<Rightarrow> bool \<times> 'w"
  n_subtitle :: "'w \<Rightarrow> db \<Rightarrow> subtitle_query \<Rightarrow> (fault + string option) \<times> db \<times> 'w"
  n_capacity :: "'w \<Rightarrow> db \<Rightarrow> (err + capacity) \<times> db \<times> 'w"
  n_now :: "'w \<Rightarrow> time \<times> 'w"

text \<open>
  The arguments of the constructor; \<open>fc_parse_iso\<close> is \<open>datetime.fromisoformat\<close> of a text with
  an offset, in seconds, \<open>None\<close> where it raises or has no offset.
\<close>

record fin_config =
  fc_torrent_root :: posix
  fc_media_root :: posix
  fc_policy :: subtitle_policy
  fc_subdl :: bool
  fc_capacity :: bool
  fc_owner :: "(int \<times> int) option"
  fc_ascii_fold :: "string \<Rightarrow> string"
  fc_parse_float :: "string \<Rightarrow> pyfloat option"
  fc_parse_iso :: "string \<Rightarrow> rat option"
  fc_sha256 :: "string \<Rightarrow> string"

record noted =
  nt_event :: event
  nt_db :: db

record 'w fin =
  fn_world :: 'w
  fn_db :: db
  fn_subtitles :: "subtitle_row list"
  fn_log :: "noted list"

type_synonym ('w, 'a) job = "('w fin, fault, 'a) handler"

section \<open>Primitives\<close>

definition noting :: "('a \<Rightarrow> event) \<Rightarrow> ('w \<Rightarrow> 'a \<times> 'w) \<Rightarrow> ('w, 'a) job" where
  "noting ev f s =
     (case f (fn_world s) of
        (x, w) \<Rightarrow> (Inr x, s\<lparr>fn_world := w, fn_log := fn_log s @ [\<lparr>nt_event = ev x, nt_db = fn_db s\<rparr>]\<rparr>))"

definition invalid :: "string \<Rightarrow> ('w, 'a) job" where
  "invalid detail = give (Inl (Invalid detail))"

definition insist :: "bool \<Rightarrow> string \<Rightarrow> ('w, unit) job" where
  "insist ok detail = (if ok then give (Inr ()) else invalid detail)"

definition raising :: "err + 'a \<Rightarrow> ('w, 'a) job" where
  "raising r = give (case r of Inl e \<Rightarrow> Inl (Raised e) | Inr x \<Rightarrow> Inr x)"

text \<open>An answer of the file system whose \<open>None\<close> is an \<open>OSError\<close>.\<close>

definition seen :: "('a option \<Rightarrow> event) \<Rightarrow> ('w \<Rightarrow> 'a option \<times> 'w) \<Rightarrow> ('w, 'a) job" where
  "seen ev f = rbind (noting ev f) (\<lambda>r. give (case r of None \<Rightarrow> Inl OsFault | Some x \<Rightarrow> Inr x))"

definition resolve_path :: "'w fin_env \<Rightarrow> posix \<Rightarrow> ('w, posix) job" where
  "resolve_path env p = seen (Resolved p) (\<lambda>w. n_resolve env w p)"

definition path_exists :: "'w fin_env \<Rightarrow> posix \<Rightarrow> ('w, bool) job" where
  "path_exists env p = seen (Existed p) (\<lambda>w. n_exists env w p)"

definition is_link :: "'w fin_env \<Rightarrow> posix \<Rightarrow> ('w, bool) job" where
  "is_link env p = seen (WasLink p) (\<lambda>w. n_symlink env w p)"

definition is_plain_file :: "'w fin_env \<Rightarrow> posix \<Rightarrow> ('w, bool) job" where
  "is_plain_file env p = seen (WasFile p) (\<lambda>w. n_file env w p)"

definition stat_of :: "'w fin_env \<Rightarrow> posix \<Rightarrow> ('w, file_stat) job" where
  "stat_of env p = seen (Statted p) (\<lambda>w. n_stat env w p)"

definition bytes_at :: "'w fin_env \<Rightarrow> posix \<Rightarrow> ('w, string) job" where
  "bytes_at env p = seen (ReadBytes p) (\<lambda>w. n_read env w p)"

definition database :: "(db \<Rightarrow> 'a) \<Rightarrow> ('w, 'a) job" where
  "database f s = (Inr (f (fn_db s)), s)"

definition subtitles :: "(subtitle_row list \<Rightarrow> err + 'a) \<Rightarrow> ('w, 'a) job" where
  "subtitles f s = (case f (fn_subtitles s) of Inl e \<Rightarrow> (Inl (Raised e), s) | Inr x \<Rightarrow> (Inr x, s))"

text \<open>A transaction on the database at the present time.\<close>

definition commit :: "'w fin_env \<Rightarrow> (time \<Rightarrow> db \<Rightarrow> db \<times> 'a) \<Rightarrow> ('w, 'a) job" where
  "commit env f s =
     (case n_now env (fn_world s) of
        (now, w) \<Rightarrow> (case f now (fn_db s) of (d, x) \<Rightarrow> (Inr x, s\<lparr>fn_world := w, fn_db := d\<rparr>)))"

definition clock :: "'w fin_env \<Rightarrow> ('w, time) job" where
  "clock env s = (case n_now env (fn_world s) of (now, w) \<Rightarrow> (Inr now, s\<lparr>fn_world := w\<rparr>))"

text \<open>A call during which other processes may change the database.\<close>

definition awaiting :: "('a \<Rightarrow> event) \<Rightarrow> ('w \<Rightarrow> db \<Rightarrow> 'a \<times> db \<times> 'w) \<Rightarrow> ('w, 'a) job" where
  "awaiting ev f s =
     (case f (fn_world s) (fn_db s) of
        (x, d, w) \<Rightarrow> (Inr x,
          s\<lparr>fn_world := w, fn_db := d, fn_log := fn_log s @ [\<lparr>nt_event = ev x, nt_db = fn_db s\<rparr>]\<rparr>))"

definition send_to :: "'w fin_env \<Rightarrow> request \<Rightarrow> ('w, json) job" where
  "send_to env rq =
     rbind (awaiting (Request rq) (\<lambda>w d. n_http env w d rq)) (\<lambda>answer.
     give (case answer of
             Inl _ \<Rightarrow> Inl HttpFault
           | Inr rp \<Rightarrow>
               if \<not> (200 \<le> rp_status rp \<and> rp_status rp < 300) then Inl HttpFault
               else (case rp_body rp of
                       None \<Rightarrow> Inl (Raised (ValueError ''invalid JSON'')) | Some j \<Rightarrow> Inr j)))"

definition fetch_json ::
    "'w fin_env \<Rightarrow> service \<Rightarrow> string \<Rightarrow> (string \<times> json) list \<Rightarrow> ('w, json) job" where
  "fetch_json env sv path params =
     send_to env \<lparr>hq_method = GET, hq_service = sv, hq_path = path, hq_params = params, hq_body = JNull\<rparr>"

definition post_json :: "'w fin_env \<Rightarrow> service \<Rightarrow> string \<Rightarrow> json \<Rightarrow> ('w, json) job" where
  "post_json env sv path body =
     send_to env \<lparr>hq_method = POST, hq_service = sv, hq_path = path, hq_params = [], hq_body = body\<rparr>"

text \<open>A loop that collects its results.\<close>

fun each :: "('a \<Rightarrow> ('w, 'b) job) \<Rightarrow> 'a list \<Rightarrow> ('w, 'b list) job" where
  "each f [] = give (Inr [])"
| "each f (x # xs) = rbind (f x) (\<lambda>y. rbind (each f xs) (\<lambda>ys. give (Inr (y # ys))))"

text \<open>The first element for which a test succeeds.\<close>

fun first_with :: "('a \<Rightarrow> ('w, bool) job) \<Rightarrow> 'a list \<Rightarrow> ('w, 'a option) job" where
  "first_with f [] = give (Inr None)"
| "first_with f (x # xs) = rbind (f x) (\<lambda>ok. if ok then give (Inr (Some x)) else first_with f xs)"

section \<open>Paths\<close>

definition torrents_prefix :: string where
  "torrents_prefix = ''/data/torrents''"

definition lstrip_slash :: "string \<Rightarrow> string" where
  "lstrip_slash s = dropWhile (\<lambda>c. c = CHR ''/'') s"

text \<open>\<open>source_logical_path\<close> of \<open>storage_paths.py\<close>.\<close>

definition logical_path :: "permit \<Rightarrow> string \<Rightarrow> string + string" where
  "logical_path p relative =
     (let destination = rstrip_slash (pm_destination p) in
      if relative = [] \<or> starts_with ''/'' relative \<or> CHR 0x5C \<in> set relative \<or>
         list_ex (\<lambda>w. w \<in> {[], ''.'', ''..''}) (split_on CHR ''/'' relative)
        then Inl ''invalid selected torrent path''
      else if \<not> (destination = torrents_prefix \<or> starts_with (torrents_prefix @ ''/'') destination) \<or>
              ''..'' \<in> set (split_on CHR ''/'' destination)
        then Inl ''invalid admitted destination''
      else Inr (destination @ ''/'' @ relative))"

definition below :: "posix \<Rightarrow> string list \<Rightarrow> posix" where
  "below p parts = p\<lparr>px_parts := px_parts p @ parts\<rparr>"

definition local_path :: "'w fin_env \<Rightarrow> fin_config \<Rightarrow> string \<Rightarrow> ('w, posix) job" where
  "local_path env cf raw =
     (if \<not> (raw = torrents_prefix \<or> starts_with (torrents_prefix @ ''/'') raw)
        then invalid ''torrent path is outside admitted root''
      else
        let parts = px_parts (posix_of (lstrip_slash (drop (length torrents_prefix) raw))) in
        if ''..'' \<in> set parts then invalid ''invalid torrent path''
        else
          rbind (resolve_path env (fc_torrent_root cf)) (\<lambda>top_dir.
          rbind (resolve_path env (below (fc_torrent_root cf) parts)) (\<lambda>resolved.
          rbind (insist (relative_to resolved top_dir) ''torrent path escapes admitted root'') (\<lambda>_.
            give (Inr resolved)))))"

definition source_path :: "'w fin_env \<Rightarrow> fin_config \<Rightarrow> permit \<Rightarrow> string \<Rightarrow> ('w, posix) job" where
  "source_path env cf p relative =
     (case logical_path p relative of Inl detail \<Rightarrow> invalid detail | Inr raw \<Rightarrow> local_path env cf raw)"

definition content_dir :: "'w fin_env \<Rightarrow> fin_config \<Rightarrow> permit \<Rightarrow> string \<Rightarrow> ('w, posix) job" where
  "content_dir env cf p raw =
     (let destination = rstrip_slash (pm_destination p) in
      if raw \<noteq> destination \<and> \<not> starts_with (destination @ ''/'') raw
        then invalid ''torrent content escaped admitted destination''
      else local_path env cf raw)"

definition suffix_among :: "string list \<Rightarrow> string \<Rightarrow> bool" where
  "suffix_among exts name = (lower (posix_suffix name) \<in> set exts)"

definition path_suffix_among :: "string list \<Rightarrow> posix \<Rightarrow> bool" where
  "path_suffix_among exts p = (lower (suffix_of p) \<in> set exts)"

section \<open>Validation\<close>

definition validate_size :: "'w fin_env \<Rightarrow> posix \<Rightarrow> int option \<Rightarrow> ('w, int) job" where
  "validate_size env p maximum =
     rbind (is_plain_file env p) (\<lambda>file.
     rbind (insist file ''media file does not exist'') (\<lambda>_.
     case maximum of
       None \<Rightarrow> give (Inl (Raised (TypeError ''not supported between instances of NoneType and int'')))
     | Some limit \<Rightarrow>
         rbind (insist (0 < limit) ''media size limit must be positive'') (\<lambda>_.
         rbind (stat_of env p) (\<lambda>st.
         rbind (insist (0 < fs_size st \<and> fs_size st \<le> limit) ''media size exceeds limit'') (\<lambda>_.
           give (Inr (fs_size st)))))))"

definition minimum_width :: int where
  "minimum_width = 1920"

definition minimum_height :: int where
  "minimum_height = 800"

definition validate_media :: "'w fin_env \<Rightarrow> fin_config \<Rightarrow> posix \<Rightarrow> int option \<Rightarrow> ('w, media_probe) job" where
  "validate_media env cf p maximum =
     rbind (validate_size env p maximum) (\<lambda>_.
     rbind (is_plain_file env p) (\<lambda>file.
     rbind (insist file ''media file does not exist'') (\<lambda>_.
     rbind (noting (Probed p) (\<lambda>w. n_ffprobe env w p)) (\<lambda>answer.
     case probe_media (fc_parse_float cf) answer of
       Inl detail \<Rightarrow> invalid detail
     | Inr probe \<Rightarrow>
         rbind (insist (minimum_width \<le> mp_width probe \<and> minimum_height \<le> mp_height probe)
                  ''video resolution is below the configured minimum'') (\<lambda>_. give (Inr probe))))))"

section \<open>Hard links\<close>

definition same_payload :: "'w fin_env \<Rightarrow> posix \<Rightarrow> posix \<Rightarrow> ('w, bool) job" where
  "same_payload env p q =
     rbind (stat_of env p) (\<lambda>a.
     rbind (stat_of env q) (\<lambda>b.
       give (Inr (fs_device a = fs_device b \<and> fs_inode a = fs_inode b \<and> fs_size a = fs_size b))))"

definition kept_payload :: "'w fin_env \<Rightarrow> posix \<Rightarrow> posix \<Rightarrow> ('w, unit) job" where
  "kept_payload env source target =
     rbind (same_payload env source target) (\<lambda>same.
     if same then rbind (stat_of env source) (\<lambda>_. give (Inr ()))
     else give (Inl (ImportFault ''destination contains a different payload'')))"

definition import_hardlink :: "'w fin_env \<Rightarrow> posix \<Rightarrow> posix \<Rightarrow> ('w, unit) job" where
  "import_hardlink env source target =
     rbind (is_link env source) (\<lambda>source_link.
     rbind (if source_link then give (Inr True) else is_link env target) (\<lambda>linked.
     if linked then give (Inl (ImportFault ''symlinks are not valid import paths''))
     else
       rbind (is_plain_file env source) (\<lambda>file.
       if \<not> file then give (Inl (ImportFault ''source file does not exist''))
       else
         rbind (path_exists env target) (\<lambda>there.
         if there then kept_payload env source target
         else
           rbind (noting (MadeDirs (parent_of target)) (\<lambda>w. n_mkdirs env w (parent_of target))) (\<lambda>made.
           if \<not> made then give (Inl OsFault)
           else
             rbind (noting (LinkTried source target) (\<lambda>w. n_link env w source target)) (\<lambda>answer.
             case answer of
               LinkExists \<Rightarrow> kept_payload env source target
             | LinkFailed \<Rightarrow> give (Inl (ImportFault ''hardlink import failed''))
             | Linked \<Rightarrow>
                 rbind (same_payload env source target) (\<lambda>same.
                 if same then rbind (stat_of env source) (\<lambda>_. give (Inr ()))
                 else rbind (noting (Removed target) (\<lambda>w. n_unlink env w target)) (\<lambda>_.
                   give (Inl (ImportFault ''hardlink identity could not be verified'')))))))))) "

text \<open>\<open>probe_hardlink_as\<close> up to the child process, which it trusts.\<close>

definition probe_hardlink :: "'w fin_env \<Rightarrow> (int \<times> int) option \<Rightarrow> posix \<Rightarrow> posix \<Rightarrow> ('w, bool) job" where
  "probe_hardlink env owner source directory =
     (case owner of
        None \<Rightarrow> give (Inr False)
      | Some (uid, gid) \<Rightarrow>
          if uid < 0 \<or> gid < 0 then give (Inr False)
          else
            rbind (noting (Statted source) (\<lambda>w. n_stat env w source)) (\<lambda>a.
            rbind (if a = None then give (Inr None)
                   else noting (Statted directory) (\<lambda>w. n_stat env w directory)) (\<lambda>b.
            case (a, b) of
              (Some x, Some y) \<Rightarrow>
                rbind (seen (WasDir directory) (\<lambda>w. n_directory env w directory)) (\<lambda>dir.
                if \<not> dir \<or> fs_device x \<noteq> fs_device y then give (Inr False)
                else noting (LinkProbed source directory) (\<lambda>w. n_link_probe env w source directory))
            | _ \<Rightarrow> give (Inr False))))"

end
