(* ===== verification/MovieFinalizer.thy ===== *)
theory MovieFinalizer
  imports ImportFiles
begin

text \<open>
  \<open>MovieFinalizer\<close> of \<open>worker/finalization.py\<close>: a finished download is validated, its import
  claimed in the database and asked of Radarr, and completed once the library file is known
  to be the downloaded one.
\<close>

section \<open>Subtitles in the library\<close>

definition max_subtitle_file :: int where
  "max_subtitle_file = 10000000"

definition scanned_octets :: nat where
  "scanned_octets = 16384"

text \<open>\<open>\d\d:\d\d:\d\d[,\.]\d+\s*-->\s*\d\d:\d\d:\d\d\<close> at the start of a text.\<close>

definition loose_cue_at :: "string \<Rightarrow> bool" where
  "loose_cue_at s =
     (case clock_time s of
        Some (p # r) \<Rightarrow>
          p \<in> {CHR '','', CHR ''.''} \<and> r \<noteq> [] \<and> is_digit (hd r) \<and>
          Option.bind (arrow (dropWhile is_digit r)) clock_time \<noteq> None
      | _ \<Rightarrow> False)"

definition has_text :: "string \<Rightarrow> string \<Rightarrow> bool" where
  "has_text pattern s = search_text (starts_with pattern) s"

definition subtitle_text_ok :: "string \<Rightarrow> string \<Rightarrow> bool" where
  "subtitle_text_ok ext t =
     (if ext = ''.srt'' then search_text loose_cue_at t
      else if ext \<in> {''.ass'', ''.ssa''} then has_text ''[Events]'' t \<and> has_text ''Dialogue:'' t
      else has_text ''WEBVTT'' t \<and> has_text ''-->'' t)"

text \<open>What \<open>_subtitle_has_content\<close> makes of the bytes of a file with this suffix.\<close>

definition content_ok :: "string \<Rightarrow> string \<Rightarrow> bool" where
  "content_ok ext content =
     (case decode_sig (take scanned_octets content) of
        None \<Rightarrow> False | Some t \<Rightarrow> subtitle_text_ok ext t)"

definition subtitle_has_content :: "'w fin_env \<Rightarrow> posix \<Rightarrow> ('w, bool) job" where
  "subtitle_has_content env p =
     rbind (is_plain_file env p) (\<lambda>file.
     if \<not> file then give (Inr False)
     else
       rbind (stat_of env p) (\<lambda>st.
       if \<not> (0 < fs_size st \<and> fs_size st \<le> max_subtitle_file) then give (Inr False)
       else
         rbind (bytes_at env p) (\<lambda>content. give (Inr (content_ok (lower (suffix_of p)) content)))))"

definition with_name :: "posix \<Rightarrow> string \<Rightarrow> posix" where
  "with_name p name = below (parent_of p) [name]"

definition differs :: string where
  "differs = ''existing library subtitle differs from verified source''"

definition same_subtitle :: "'w fin_env \<Rightarrow> posix \<Rightarrow> string \<Rightarrow> ('w, unit) job" where
  "same_subtitle env target content =
     rbind (is_link env target) (\<lambda>linked.
     if linked then invalid differs
     else rbind (bytes_at env target) (\<lambda>found. insist (found = content) differs))"

text \<open>The end of the \<open>finally\<close> block: an \<open>OSError\<close> there replaces the outcome.\<close>

definition removing :: "'w fin_env \<Rightarrow> posix \<Rightarrow> ('w, unit) job \<Rightarrow> ('w, unit) job" where
  "removing env temporary m s =
     (case m s of
        (r, s') \<Rightarrow>
          rbind (noting (Removed temporary) (\<lambda>w. n_unlink env w temporary))
            (\<lambda>ok. give (if ok then r else Inl OsFault)) s')"

definition link_temporary :: "'w fin_env \<Rightarrow> posix \<Rightarrow> posix \<Rightarrow> string \<Rightarrow> ('w, unit) job" where
  "link_temporary env temporary target content =
     rbind (noting (MadeReadable temporary) (\<lambda>w. n_chmod env w temporary)) (\<lambda>ok.
     if \<not> ok then give (Inl OsFault)
     else
       rbind (noting (LinkTried temporary target) (\<lambda>w. n_link env w temporary target)) (\<lambda>answer.
       case answer of
         Linked \<Rightarrow> give (Inr ())
       | LinkExists \<Rightarrow> same_subtitle env target content
       | LinkFailed \<Rightarrow> give (Inl OsFault)))"

definition in_library :: "'w fin_env \<Rightarrow> posix \<Rightarrow> posix \<Rightarrow> ('w, unit) job" where
  "in_library env library target =
     rbind (resolve_path env library) (\<lambda>top_dir.
     rbind (resolve_path env (parent_of target)) (\<lambda>dir.
       insist (relative_to dir top_dir) ''subtitle target escapes library''))"

text \<open>\<open>target.exists() or target.is_symlink()\<close>\<close>

definition occupied :: "'w fin_env \<Rightarrow> posix \<Rightarrow> ('w, bool) job" where
  "occupied env target =
     rbind (path_exists env target) (\<lambda>there. if there then give (Inr True) else is_link env target)"

definition write_subtitle :: "'w fin_env \<Rightarrow> posix \<Rightarrow> posix \<Rightarrow> string \<Rightarrow> string \<Rightarrow> ('w, unit) job" where
  "write_subtitle env library video content language =
     rbind (insist (language \<in> set subtitle_languages) ''unsupported subtitle language'') (\<lambda>_.
     rbind (insist (valid_srt content) ''subtitle content is not valid'') (\<lambda>_.
     let target = with_name video (stem_of video @ (if language = ''BR_PT'' then ''.pt-BR.srt'' else ''.en.srt'')) in
     rbind (in_library env library target) (\<lambda>_.
     rbind (occupied env target) (\<lambda>there.
     if there then same_subtitle env target content
     else
       rbind (noting (TempWritten (parent_of target) content) (\<lambda>w. n_temp env w (parent_of target) content)) (\<lambda>answer.
       case answer of
         TempRefused \<Rightarrow> give (Inl OsFault)
       | TempBroken temporary \<Rightarrow> removing env temporary (give (Inl OsFault))
       | TempReady temporary \<Rightarrow> removing env temporary (link_temporary env temporary target content))))))"

definition install_subtitle :: "'w fin_env \<Rightarrow> fin_config \<Rightarrow> posix \<Rightarrow> posix \<Rightarrow> string \<Rightarrow> ('w, unit) job" where
  "install_subtitle env cf video source label =
     (let target = with_name video (stem_of video @ ''.'' @ label @ lower (suffix_of source)) in
      rbind (path_exists env target) (\<lambda>there.
      if there
        then
          rbind (is_link env target) (\<lambda>linked.
          if linked then invalid differs
          else
            rbind (is_plain_file env target) (\<lambda>file.
            if \<not> file then invalid differs
            else
              rbind (bytes_at env target) (\<lambda>a.
              rbind (bytes_at env source) (\<lambda>b. insist (a = b) differs))))
      else
        rbind (in_library env (fc_media_root cf) target) (\<lambda>_. import_hardlink env source target)))"

section \<open>The library file\<close>

text \<open>\<open>int(media_key.rsplit(":", 1)[-1])\<close>: the numbers of media keys are decimal digits.\<close>

definition after_colon :: "string \<Rightarrow> string" where
  "after_colon key = rev (takeWhile (\<lambda>c. c \<noteq> CHR '':'') (rev key))"

definition key_number :: "string \<Rightarrow> err + int" where
  "key_number key =
     (let t = after_colon key in
      if digits1 t \<and> length t \<le> 4300 then Inr (int (to_nat t))
      else Inl (ValueError ''invalid literal for int() with base 10''))"

definition same_number :: "json \<Rightarrow> int \<Rightarrow> bool" where
  "same_number j n = py_eq j (JInt n)"

definition radarr_movie :: "'w fin_env \<Rightarrow> string \<Rightarrow> ('w, (string \<times> json) list option) job" where
  "radarr_movie env media_key =
     rbind (fetch_json env Radarr ''/api/v3/movie'' [(''tmdbId'', JStr (after_colon media_key))]) (\<lambda>payload.
     case as_list payload of
       None \<Rightarrow> invalid ''Radarr movie lookup is invalid''
     | Some js \<Rightarrow>
         (case List.map_filter as_obj js of
            [] \<Rightarrow> give (Inr None)
          | ds \<Rightarrow>
              rbind (raising (key_number media_key)) (\<lambda>n.
                give (Inr (find_row (\<lambda>d. same_number (jget d ''tmdbId'') n) ds)))))"

definition movies_prefix :: string where
  "movies_prefix = ''/data/media/movies''"

text \<open>\<open>joinpath(*parts)\<close>; the parts of an absolute path begin with its root, which starts anew.\<close>

definition joined :: "posix \<Rightarrow> posix \<Rightarrow> posix" where
  "joined p q = (if absolute q then q else below p (px_parts q))"

text \<open>What Radarr calls the file of a movie, below the root of the library.\<close>

definition movie_path :: "fin_config \<Rightarrow> (string \<times> json) list \<Rightarrow> posix option" where
  "movie_path cf movie =
     (case (as_str (jget movie ''path''),
            Option.bind (as_obj (jget movie ''movieFile'')) (\<lambda>f. as_str (jget f ''relativePath''))) of
        (Some path, Some relative) \<Rightarrow>
          if \<not> starts_with (movies_prefix @ ''/'') path \<or> relative = [] \<or> absolute (posix_of relative) \<or>
             ''..'' \<in> set (px_parts (posix_of relative)) then None
          else Some (below (joined (fc_media_root cf) (posix_of (drop (length movies_prefix + 1) path)))
                       (px_parts (posix_of relative)))
      | _ \<Rightarrow> None)"

definition movie_file_path :: "'w fin_env \<Rightarrow> fin_config \<Rightarrow> (string \<times> json) list \<Rightarrow> ('w, posix) job" where
  "movie_file_path env cf movie =
     (case movie_path cf movie of
        None \<Rightarrow> invalid ''Radarr imported movie path is invalid''
      | Some path \<Rightarrow>
          rbind (resolve_path env (fc_media_root cf)) (\<lambda>top_dir.
          rbind (resolve_path env path) (\<lambda>resolved.
          if \<not> relative_to resolved top_dir then invalid ''Radarr movie file is outside the library''
          else
            rbind (is_plain_file env resolved) (\<lambda>file.
            rbind (insist file ''Radarr movie file is outside the library'') (\<lambda>_. give (Inr resolved))))))"

definition video_sources :: "permit \<Rightarrow> string list" where
  "video_sources p = filter (suffix_among pack_video_suffixes) (pm_selected_files p)"

text \<open>\<open>_import_matches_source\<close>: one inode, or for a copy the same content.\<close>

definition import_matches :: "'w fin_env \<Rightarrow> fin_config \<Rightarrow> posix \<Rightarrow> permit \<Rightarrow> bool \<Rightarrow> ('w, bool) job" where
  "import_matches env cf video p copy_allowed =
     rbind (each (source_path env cf p) (video_sources p)) (\<lambda>sources.
     case sources of
       [source] \<Rightarrow>
         rbind (stat_of env source) (\<lambda>a.
         rbind (stat_of env video) (\<lambda>b.
         if fs_size a \<noteq> fs_size b then give (Inr False)
         else if fs_device a = fs_device b \<and> fs_inode a = fs_inode b then give (Inr True)
         else if \<not> copy_allowed then give (Inr False)
         else
           rbind (bytes_at env source) (\<lambda>x.
           rbind (bytes_at env video) (\<lambda>y. give (Inr (x = y))))))
     | _ \<Rightarrow> invalid ''permit does not identify one video file'')"

section \<open>The subtitle of an imported video\<close>

text \<open>The label of a language and the test on file names.\<close>

definition language_label :: "string \<Rightarrow> string" where
  "language_label language = (if language = ''BR_PT'' then ''pt-BR'' else ''en'')"

definition named_in :: "fin_config \<Rightarrow> string \<Rightarrow> string \<Rightarrow> bool" where
  "named_in cf language name =
     (suffix_among subtitle_suffixes name \<and>
      (if language = ''BR_PT'' then brazilian_subtitle (fc_ascii_fold cf) name
       else english_subtitle (fc_ascii_fold cf) name) \<and>
      subtitle_matches (fc_ascii_fold cf) (fc_policy cf) name)"

definition stored_subtitle ::
    "fin_config \<Rightarrow> string option \<Rightarrow> string option \<Rightarrow> string \<Rightarrow> string \<Rightarrow> string \<Rightarrow> ('w, string option) job" where
  "stored_subtitle cf reservation scope infohash language source =
     (case reservation of
        None \<Rightarrow> give (Inr None)
      | Some rid \<Rightarrow> subtitles (get_subtitle (fc_sha256 cf) rid scope infohash language source))"

definition ensured_otherwise :: "'w fin_env \<Rightarrow> fin_config \<Rightarrow> posix \<Rightarrow> permit \<Rightarrow> ('w, unit) job" where
  "ensured_otherwise env cf video p =
     rbind (validate_media env cf video (pm_budget_bytes p)) (\<lambda>probe.
     if waives_subtitles (fc_ascii_fold cf) (fc_policy cf) probe then give (Inr ())
     else if ''en-US'' \<in> set (sp_languages (fc_policy cf)) \<and> sp_generic_english (fc_policy cf)
       then rbind (raising (has_embedded_english (fc_ascii_fold cf) probe)) (\<lambda>embedded.
              insist embedded ''subtitle vanished after import'')
     else invalid ''subtitle vanished after import'')"

fun ensure_subtitle ::
    "'w fin_env \<Rightarrow> fin_config \<Rightarrow> posix \<Rightarrow> permit \<Rightarrow> string option \<Rightarrow> string list \<Rightarrow> ('w, unit) job" where
  "ensure_subtitle env cf video p scope [] = ensured_otherwise env cf video p"
| "ensure_subtitle env cf video p scope (preferred # languages) =
     (case language_code preferred of
        None \<Rightarrow> give (Inl (Raised (KeyError preferred)))
      | Some language \<Rightarrow>
          rbind (each (source_path env cf p) (filter (named_in cf language) (pm_selected_files p))) (\<lambda>files.
          rbind (first_with (subtitle_has_content env) files) (\<lambda>found.
          case found of
            Some source \<Rightarrow> install_subtitle env cf video source (language_label language)
          | None \<Rightarrow>
              if files \<noteq> [] then invalid ''selected subtitle vanished after import''
              else
                rbind (stored_subtitle cf (pm_reservation_id p) scope (pm_infohash p) language
                         (if scope = None then finalizer_source else ''subdl'')) (\<lambda>stored.
                case stored of
                  Some content \<Rightarrow> write_subtitle env (fc_media_root cf) video content language
                | None \<Rightarrow> ensure_subtitle env cf video p scope languages))))"

section \<open>The download\<close>

text \<open>\<open>item.get("hash", "").lower()\<close>: a hash that is no text raises when it is reached.\<close>

fun find_torrent :: "string \<Rightarrow> (string \<times> json) list list \<Rightarrow> err + (string \<times> json) list option" where
  "find_torrent infohash [] = Inr None"
| "find_torrent infohash (d # ds) =
     (case as_str (get_or d ''hash'' (JStr [])) of
        None \<Rightarrow> Inl (AttributeError ''lower'')
      | Some h \<Rightarrow> if lower h = infohash then Inr (Some d) else find_torrent infohash ds)"

definition gateway_torrent ::
    "'w fin_env \<Rightarrow> permit \<Rightarrow> ('w, (string \<times> json) list option) job" where
  "gateway_torrent env p =
     rbind (fetch_json env Gateway ''/api/v2/torrents/info'' [(''hashes'', JStr (pm_infohash p))]) (\<lambda>payload.
     case as_list payload of
       None \<Rightarrow> invalid ''gateway torrent response is invalid''
     | Some js \<Rightarrow> raising (find_torrent (pm_infohash p) (List.map_filter as_obj js)))"

definition finished :: "(string \<times> json) list \<Rightarrow> bool" where
  "finished torrent =
     (same_number (jget torrent ''progress'') 1 \<and> same_number (jget torrent ''amount_left'') 0)"

definition gateway_files :: "'w fin_env \<Rightarrow> permit \<Rightarrow> ('w, (string \<times> json) list list) job" where
  "gateway_files env p =
     rbind (fetch_json env Gateway ''/api/v2/torrents/files'' [(''hash'', JStr (pm_infohash p))]) (\<lambda>payload.
     case as_list payload of
       None \<Rightarrow> invalid ''gateway file response is invalid''
     | Some js \<Rightarrow> give (Inr (List.map_filter as_obj js)))"

text \<open>The sizes of the files; of several entries with one name the last one counts.\<close>

definition file_sizes :: "(string \<times> json) list list \<Rightarrow> (string \<times> int) list" where
  "file_sizes files =
     rev (List.map_filter (\<lambda>d. case (as_str (jget d ''name''), as_int_or_bool (jget d ''size'')) of
            (Some name, Some bytes) \<Rightarrow> Some (name, bytes) | _ \<Rightarrow> None) files)"

definition selected_path ::
    "'w fin_env \<Rightarrow> fin_config \<Rightarrow> permit \<Rightarrow> posix \<Rightarrow> (string \<times> int) list \<Rightarrow> string \<Rightarrow> ('w, posix) job" where
  "selected_path env cf p content sizes relative =
     rbind (source_path env cf p relative) (\<lambda>path.
     case map_of sizes relative of
       None \<Rightarrow> invalid ''torrent file does not match qBittorrent metadata''
     | Some bytes \<Rightarrow>
         rbind (stat_of env path) (\<lambda>st.
         rbind (insist (fs_size st = bytes) ''torrent file does not match qBittorrent metadata'') (\<lambda>_.
         rbind (insist (relative_to path content) ''selected file is outside torrent content'') (\<lambda>_.
           give (Inr path)))))"

record download =
  dl_video :: posix
  dl_probe :: media_probe
  dl_brazilian :: bool
  dl_english :: bool
  dl_selected :: "posix list"

text \<open>The checks on the selected files that movies and episodes share.\<close>

definition check_media ::
    "'w fin_env \<Rightarrow> fin_config \<Rightarrow> permit \<Rightarrow> (posix \<Rightarrow> bool) \<Rightarrow> posix list \<Rightarrow> ('w, download) job" where
  "check_media env cf p wanted selected =
     (let videos = filter (path_suffix_among pack_video_suffixes) selected;
          subs = filter (path_suffix_among subtitle_suffixes) selected;
          fold_text = fc_ascii_fold cf
      in
      rbind (insist (list_all (\<lambda>q. subtitle_matches fold_text (fc_policy cf) (posix_text q)) subs)
               ''selected subtitle is not Brazilian Portuguese or English'') (\<lambda>_.
      case videos of
        [video] \<Rightarrow>
          rbind (insist (wanted video) ''video or Brazilian Portuguese subtitle is missing'') (\<lambda>_.
          rbind (validate_media env cf video (pm_budget_bytes p)) (\<lambda>probe.
          rbind (insist (mp_audio probe \<noteq> []) ''no audio stream'') (\<lambda>_.
          rbind (first_with (\<lambda>q. rbind (subtitle_has_content env q) (\<lambda>ok. give (Inr (\<not> ok)))) subs) (\<lambda>bad.
          rbind (insist (bad = None) ''selected subtitle content is not valid'') (\<lambda>_.
            give (Inr \<lparr>dl_video = video, dl_probe = probe,
                       dl_brazilian = list_ex (\<lambda>q. brazilian_subtitle fold_text (posix_text q)) subs,
                       dl_english = list_ex (\<lambda>q. english_subtitle fold_text (posix_text q)) subs,
                       dl_selected = selected\<rparr>))))))
      | _ \<Rightarrow> invalid ''video or Brazilian Portuguese subtitle is missing''))"

section \<open>Missing subtitles\<close>

text \<open>\<open>has_brazilian\<close> and \<open>has_english\<close>, each evaluated as far as \<open>or\<close> goes.\<close>

definition subtitle_present ::
    "fin_config \<Rightarrow> string option \<Rightarrow> permit \<Rightarrow> string option \<Rightarrow> string \<Rightarrow> string \<Rightarrow> bool \<Rightarrow> ('w, bool) job" where
  "subtitle_present cf rid p scope source language named =
     (if named then give (Inr True)
      else
        rbind (stored_subtitle cf rid scope (pm_infohash p) language source) (\<lambda>stored.
          give (Inr (stored \<noteq> None))))"

definition english_present ::
    "fin_config \<Rightarrow> string option \<Rightarrow> permit \<Rightarrow> string option \<Rightarrow> string \<Rightarrow> download \<Rightarrow> ('w, bool) job" where
  "english_present cf rid p scope source dl =
     rbind (subtitle_present cf rid p scope source ''EN'' (dl_english dl)) (\<lambda>there.
     if there then give (Inr True)
     else if \<not> sp_generic_english (fc_policy cf) then give (Inr False)
     else raising (has_embedded_english (fc_ascii_fold cf) (dl_probe dl)))"

text \<open>\<open>recover_subtitle\<close>: the language and the content; an empty content is already there.\<close>

fun recover_subtitle ::
    "(string \<Rightarrow> bool) \<Rightarrow> bool \<Rightarrow> (string \<Rightarrow> string \<Rightarrow> ('w, string option) job) \<Rightarrow> (string \<times> string) list \<Rightarrow>
     ('w, (string \<times> string) option) job" where
  "recover_subtitle present searchable fetch_one [] = give (Inr None)"
| "recover_subtitle present searchable fetch_one ((language, mode) # attempts) =
     (if present language then give (Inr (Some (language, [])))
      else if \<not> searchable then recover_subtitle present searchable fetch_one attempts
      else
        rbind (fetch_one language mode) (\<lambda>content.
        case content of
          Some bytes \<Rightarrow> give (Inr (Some (language, bytes)))
        | None \<Rightarrow> recover_subtitle present searchable fetch_one attempts))"

definition search_subtitle :: "'w fin_env \<Rightarrow> fin_config \<Rightarrow> subtitle_query \<Rightarrow> ('w, string option) job" where
  "search_subtitle env cf q =
     (if \<not> fc_subdl cf then give (Inr None)
      else rbind (awaiting (Searched q) (\<lambda>w d. n_subtitle env w d q)) (\<lambda>answer. give answer))"

definition keep_subtitle ::
    "fin_config \<Rightarrow> string \<Rightarrow> string option \<Rightarrow> string \<Rightarrow> string \<Rightarrow> string \<Rightarrow> string \<Rightarrow> ('w, unit) job" where
  "keep_subtitle cf rid scope infohash source language content s =
     (case put_subtitle (fc_sha256 cf) (find_reservation (fn_db s) rid \<noteq> None) rid scope infohash content
             language source True (fn_subtitles s) of
        Inl e \<Rightarrow> (Inl (Raised e), s) | Inr rows \<Rightarrow> (Inr (), s\<lparr>fn_subtitles := rows\<rparr>))"

section \<open>The request to import\<close>

definition hardlink_import_enabled :: "'w fin_env \<Rightarrow> service \<Rightarrow> ('w, bool) job" where
  "hardlink_import_enabled env arr =
     rbind (fetch_json env arr ''/api/v3/config/mediamanagement'' []) (\<lambda>payload.
       give (Inr (case as_obj payload of
                    None \<Rightarrow> False
                  | Some d \<Rightarrow> jget d ''copyUsingHardlinks'' = JBool True \<and>
                              jget d ''importExtraFiles'' \<noteq> JBool True)))"

definition copy_fits :: "'w fin_env \<Rightarrow> fin_config \<Rightarrow> posix list \<Rightarrow> ('w, bool) job" where
  "copy_fits env cf selected =
     (if \<not> fc_capacity cf then give (Inl (Raised (ValueError ''fresh capacity evidence is required for import'')))
      else
        rbind (awaiting Measured (\<lambda>w d. n_capacity env w d)) (\<lambda>answer.
        rbind (raising answer) (\<lambda>evidence.
        rbind (clock env) (\<lambda>now.
        rbind (database (\<lambda>d. pending_bytes d now evidence None ''ssd'')) (\<lambda>pending_or.
        rbind (raising pending_or) (\<lambda>pending.
        rbind (each (stat_of env) selected) (\<lambda>stats.
          give (Inr (sum_list (map fs_size stats) \<le> max 0 (cap_free_bytes evidence - pending))))))))))"

text \<open>Whether a copy is needed, or \<open>None\<close> when neither a link nor a copy is possible.\<close>

definition import_mode ::
    "'w fin_env \<Rightarrow> fin_config \<Rightarrow> posix \<Rightarrow> posix list \<Rightarrow> ('w, bool option) job" where
  "import_mode env cf video selected =
     rbind (probe_hardlink env (fc_owner cf) video (fc_media_root cf)) (\<lambda>linkable.
     if linkable then give (Inr (Some False))
     else rbind (copy_fits env cf selected) (\<lambda>fits. give (Inr (if fits then Some True else None))))"

text \<open>\<open>upper()\<close> of an infohash, whose letters are \<open>a\<close> to \<open>f\<close>.\<close>

definition upper_char :: "char \<Rightarrow> char" where
  "upper_char c = (if 97 \<le> code c \<and> code c \<le> 122 then char_of (code c - 32) else c)"

definition scan_command :: "string \<Rightarrow> string \<Rightarrow> permit \<Rightarrow> json" where
  "scan_command name path p =
     JObj [(''name'', JStr name), (''path'', JStr path),
           (''downloadClientId'', JStr (map upper_char (pm_infohash p))), (''importMode'', JStr ''Copy'')]"

definition command_id :: "json \<Rightarrow> string option" where
  "command_id j =
     (case as_obj j of
        None \<Rightarrow> None
      | Some d \<Rightarrow>
          (case jget d ''id'' of
             JInt n \<Rightarrow> Some (Outside.show_int n)
           | JBool b \<Rightarrow> Some (if b then ''True'' else ''False'')
           | _ \<Rightarrow> None))"

definition request_scan :: "'w fin_env \<Rightarrow> service \<Rightarrow> string \<Rightarrow> string \<Rightarrow> permit \<Rightarrow> ('w, string) job" where
  "request_scan env arr name path p =
     rbind (post_json env arr ''/api/v3/command'' (scan_command name path p)) (\<lambda>command.
     case command_id command of
       None \<Rightarrow> invalid ''import response is invalid'' | Some i \<Rightarrow> give (Inr i))"

section \<open>The finalizer\<close>

text \<open>An import that was requested: complete once the library file is the downloaded one.\<close>

definition finish_movie_import ::
    "'w fin_env \<Rightarrow> fin_config \<Rightarrow> string \<Rightarrow> string \<Rightarrow> permit \<Rightarrow> bool \<Rightarrow> ('w, string) job" where
  "finish_movie_import env cf media_key rid p copy_allowed =
     rbind (radarr_movie env media_key) (\<lambda>movie.
     case movie of
       None \<Rightarrow> give (Inr ''import_pending'')
     | Some m \<Rightarrow>
         if \<not> truthy (jget m ''hasFile'') then give (Inr ''import_pending'')
         else
           rbind (movie_file_path env cf m) (\<lambda>video.
           rbind (import_matches env cf video p copy_allowed) (\<lambda>same.
           if \<not> same then give (Inr ''import_uncertain'')
           else
             rbind (movie_file_path env cf m) (\<lambda>video.
             rbind (ensure_subtitle env cf video p None (sp_languages (fc_policy cf))) (\<lambda>_.
             rbind (commit env (\<lambda>now d. (complete_movie_import now rid d, ()))) (\<lambda>_.
               give (Inr ''complete'')))))))"

definition movie_titles :: "posix \<Rightarrow> bool \<Rightarrow> posix \<Rightarrow> (string \<times> json) list \<Rightarrow> string list" where
  "movie_titles video content_is_dir content torrent =
     rev (remdups (rev (filter (\<lambda>t. t \<noteq> [])
       (stem_of video # (if content_is_dir then [name_of content] else []) @
        (case as_str (jget torrent ''name'') of None \<Rightarrow> [] | Some t \<Rightarrow> [t])))))"

text \<open>The checks on a finished download; \<open>None\<close> when it is not there or not finished.\<close>

definition check_movie ::
    "'w fin_env \<Rightarrow> fin_config \<Rightarrow> permit \<Rightarrow> (string \<times> json) list \<Rightarrow> ('w, string \<times> download \<times> string list) job" where
  "check_movie env cf p torrent =
     (case as_str (jget torrent ''content_path'') of
        None \<Rightarrow> invalid ''torrent content path is missing''
      | Some content_path \<Rightarrow>
          rbind (content_dir env cf p content_path) (\<lambda>content.
          rbind (insist (pm_selected_files p \<noteq> []) ''permit has no selected files'') (\<lambda>_.
          rbind (gateway_files env p) (\<lambda>files.
          rbind (each (selected_path env cf p content (file_sizes files)) (pm_selected_files p)) (\<lambda>selected.
          rbind (check_media env cf p (\<lambda>_. True) selected) (\<lambda>dl.
          rbind (seen (WasDir content) (\<lambda>w. n_directory env w content)) (\<lambda>dir.
            give (Inr (content_path, dl, movie_titles (dl_video dl) dir content torrent)))))))))"

definition movie_subtitles ::
    "'w fin_env \<Rightarrow> fin_config \<Rightarrow> string \<Rightarrow> string \<Rightarrow> permit \<Rightarrow> download \<Rightarrow> string list \<Rightarrow> ('w, bool) job" where
  "movie_subtitles env cf media_key rid p dl titles =
     rbind (subtitle_present cf (Some rid) p None finalizer_source ''BR_PT'' (dl_brazilian dl)) (\<lambda>brazilian.
     rbind (english_present cf (Some rid) p None finalizer_source dl) (\<lambda>english.
     if waives_subtitles (fc_ascii_fold cf) (fc_policy cf) (dl_probe dl) then give (Inr True)
     else
       rbind (recover_subtitle (\<lambda>l. if l = ''BR_PT'' then brazilian else english)
                (''subdl'' \<in> set (sp_providers (fc_policy cf)))
                (\<lambda>language mode.
                   if \<not> fc_subdl cf then give (Inr None)
                   else rbind (raising (key_number media_key)) (\<lambda>n.
                          search_subtitle env cf
                            \<lparr>sq_tmdb = n, sq_titles = titles, sq_season = None, sq_language = language, sq_mode = mode,
                             sq_duration = mp_duration (dl_probe dl)\<rparr>))
                (subtitle_attempts (fc_policy cf))) (\<lambda>found.
       case found of
         None \<Rightarrow> give (Inr False)
       | Some (language, content) \<Rightarrow>
           if content = [] then give (Inr True)
           else rbind (keep_subtitle cf rid None (pm_infohash p) finalizer_source language content)
                  (\<lambda>_. give (Inr True)))))"

definition start_movie_import ::
    "'w fin_env \<Rightarrow> fin_config \<Rightarrow> string \<Rightarrow> permit \<Rightarrow> string \<Rightarrow> download \<Rightarrow> ('w, string) job" where
  "start_movie_import env cf rid p content_path dl =
     rbind (hardlink_import_enabled env Radarr) (\<lambda>enabled.
     if \<not> enabled then give (Inr ''import_guard'')
     else
       rbind (import_mode env cf (dl_video dl) (dl_selected dl)) (\<lambda>mode.
       case mode of
         None \<Rightarrow> give (Inr ''waiting_space'')
       | Some copy \<Rightarrow>
           rbind (commit env (\<lambda>now d. claim_movie_import now rid copy d)) (\<lambda>claimed.
           if \<not> claimed then give (Inr ''import_pending'')
           else
             rbind (request_scan env Radarr ''DownloadedMoviesScan'' content_path p) (\<lambda>i.
             rbind (commit env (\<lambda>now d. (record_movie_import now rid i d, ()))) (\<lambda>_.
               give (Inr ''import_requested''))))))"

definition request_movie_import ::
    "'w fin_env \<Rightarrow> fin_config \<Rightarrow> string \<Rightarrow> string \<Rightarrow> permit \<Rightarrow> ('w, string) job" where
  "request_movie_import env cf media_key rid p =
     rbind (gateway_torrent env p) (\<lambda>found.
     case found of
       None \<Rightarrow> give (Inr ''torrent_not_visible'')
     | Some torrent \<Rightarrow>
         if \<not> finished torrent then give (Inr ''downloading'')
         else
           rbind (check_movie env cf p torrent) (\<lambda>(content_path, dl, titles).
           rbind (movie_subtitles env cf media_key rid p dl titles) (\<lambda>ready.
           if \<not> ready then give (Inr ''waiting_subtitles'')
           else start_movie_import env cf rid p content_path dl)))"

definition movie_import_state :: "string \<Rightarrow> db \<Rightarrow> import_state option" where
  "movie_import_state rid d = map_option mi_state (find_row (\<lambda>m. mi_reservation_id m = rid) (movie_imports d))"

definition reserved_for :: "string \<Rightarrow> string \<Rightarrow> db \<Rightarrow> bool" where
  "reserved_for rid media_key d =
     (case active_reservation rid d of None \<Rightarrow> False | Some r \<Rightarrow> rs_media_key r = media_key)"

definition confirmed_source :: "string \<Rightarrow> string option \<Rightarrow> db \<Rightarrow> permit option" where
  "confirmed_source rid scope d =
     (case get_for_reservation rid scope d of
        None \<Rightarrow> None | Some p \<Rightarrow> if pm_state p = Confirmed then Some p else None)"

definition finalize_movie ::
    "'w fin_env \<Rightarrow> fin_config \<Rightarrow> string \<Rightarrow> string \<Rightarrow> ('w, string) job" where
  "finalize_movie env cf media_key rid =
     rbind (database (reserved_for rid media_key)) (\<lambda>active.
     if \<not> active then give (Inr ''reservation_inactive'')
     else
       rbind (database (confirmed_source rid None)) (\<lambda>source.
       case source of
         None \<Rightarrow> give (Inr ''not_dispatched'')
       | Some p \<Rightarrow>
           rbind (database (movie_import_state rid)) (\<lambda>state.
           case state of
             None \<Rightarrow> request_movie_import env cf media_key rid p
           | Some ImComplete \<Rightarrow> give (Inr ''complete'')
           | Some ImAccepted \<Rightarrow> finish_movie_import env cf media_key rid p False
           | Some ImAcceptedCopy \<Rightarrow> finish_movie_import env cf media_key rid p True
           | Some _ \<Rightarrow> give (Inr ''import_uncertain''))))"

end
