(* ===== verification/SeriesFinalizer.thy ===== *)
theory SeriesFinalizer
  imports MovieFinalizer "HOL-Library.Product_Lexorder"
begin

text \<open>
  \<open>SeriesFinalizer\<close> of \<open>worker/series_finalization.py\<close>: the episodes of a season are imported
  in their order, each one as \<open>MovieFinalizer\<close> imports a movie, and the reservation is looked at
  again after every wait.  The tombstones are those of \<open>DeletionJobs\<close>; numbers have at most
  4300 digits.
\<close>

section \<open>Keys, names and dates\<close>

text \<open>\<open>season:tmdb:([1-9][0-9]*):([0-9]+)\<close>\<close>

definition season_numbers :: "string \<Rightarrow> (nat \<times> nat) option" where
  "season_numbers key =
     (case season_key_any key of
        None \<Rightarrow> None | Some (a, b) \<Rightarrow> if posnum a then Some (to_nat a, to_nat b) else None)"

definition season_active :: "string \<Rightarrow> string \<Rightarrow> db \<Rightarrow> bool" where
  "season_active rid media_key d = (reserved_for rid media_key d \<and> \<not> is_tombstoned media_key d)"

definition episode_gone :: "nat \<Rightarrow> nat \<Rightarrow> nat \<Rightarrow> db \<Rightarrow> bool" where
  "episode_gone tmdb season n d = is_tombstoned (episode_key (show_nat tmdb) (scope_of season n)) d"

text \<open>\<open>(?<![a-z0-9])TAG(?![a-z0-9]|[-_. ]?e[0-9])\<close>, ignoring case.\<close>

definition another_follows :: "string \<Rightarrow> bool" where
  "another_follows s =
     (case s of c # n # _ \<Rightarrow> lower_char c = CHR ''e'' \<and> is_digit n | _ \<Rightarrow> False)"

definition single_tag_ends :: "string \<Rightarrow> bool" where
  "single_tag_ends s =
     (case s of
        [] \<Rightarrow> True
      | c # r \<Rightarrow> \<not> is_alnum c \<and> \<not> another_follows s \<and> \<not> (c \<in> set ''-_. '' \<and> another_follows r))"

fun single_tag :: "string \<Rightarrow> bool \<Rightarrow> string \<Rightarrow> bool" where
  "single_tag tag boundary [] = False"
| "single_tag tag boundary (c # s) =
     (boundary \<and> lower (take (length tag) (c # s)) = lower tag \<and> single_tag_ends (drop (length tag) (c # s)) \<or>
      single_tag tag (\<not> is_alnum c) s)"

definition single_episode_name :: "string \<Rightarrow> nat \<Rightarrow> nat \<Rightarrow> bool" where
  "single_episode_name name season n = single_tag (scope_of season n) True name"

text \<open>\<open>_episode_aired\<close>, \<open>None\<close> for a date that says nothing.\<close>

definition episode_aired :: "'w fin_env \<Rightarrow> fin_config \<Rightarrow> (string \<times> json) list \<Rightarrow> ('w, bool option) job" where
  "episode_aired env cf e =
     (case Option.bind (as_str (jget e ''airDateUtc'')) (fc_parse_iso cf) of
        None \<Rightarrow> give (Inr None)
      | Some moment \<Rightarrow> rbind (clock env) (\<lambda>now. give (Inr (Some (moment \<le> of_int now)))))"

section \<open>What Sonarr knows\<close>

definition episodes_of :: "'w fin_env \<Rightarrow> nat \<Rightarrow> ('w, (string \<times> json) list list) job" where
  "episodes_of env tmdb =
     rbind (fetch_json env Sonarr ''/api/v3/series'' []) (\<lambda>payload.
     case as_list payload of
       None \<Rightarrow> invalid ''Sonarr series lookup is invalid''
     | Some js \<Rightarrow>
         (case find_row (\<lambda>d. same_number (jget d ''tmdbId'') (int tmdb) \<and> as_int_or_bool (jget d ''id'') \<noteq> None)
                 (List.map_filter as_obj js) of
            None \<Rightarrow> give (Inr [])
          | Some series \<Rightarrow>
              rbind (fetch_json env Sonarr ''/api/v3/episode'' [(''seriesId'', jget series ''id'')]) (\<lambda>payload.
              case as_list payload of
                None \<Rightarrow> invalid ''Sonarr episode lookup is invalid''
              | Some js \<Rightarrow> give (Inr (List.map_filter as_obj js)))))"

definition has_file :: "(string \<times> json) list \<Rightarrow> bool" where
  "has_file e = (jget e ''hasFile'' = JBool True)"

text \<open>\<open>f"{file_id}"\<close> of an identifier that is an integer above 0.\<close>

definition file_number :: "(string \<times> json) list \<Rightarrow> string option" where
  "file_number e =
     (case jget e ''episodeFileId'' of
        JInt n \<Rightarrow> if 0 < n then Some (Outside.show_int n) else None
      | JBool True \<Rightarrow> Some ''True''
      | _ \<Rightarrow> None)"

definition tv_prefix :: string where
  "tv_prefix = ''/data/media/tv/''"

definition imported_video :: "'w fin_env \<Rightarrow> fin_config \<Rightarrow> (string \<times> json) list \<Rightarrow> ('w, posix) job" where
  "imported_video env cf e =
     (case file_number e of
        None \<Rightarrow> invalid ''Sonarr episode file id is missing''
      | Some n \<Rightarrow>
          rbind (fetch_json env Sonarr (''/api/v3/episodefile/'' @ n) []) (\<lambda>payload.
          case Option.bind (Option.bind (as_obj payload) (\<lambda>d. as_str (jget d ''path''))) (strip_prefix tv_prefix) of
            None \<Rightarrow> invalid ''Sonarr episode file is outside the TV library''
          | Some relative \<Rightarrow>
              if ''..'' \<in> set (px_parts (posix_of relative)) then invalid ''Sonarr episode file path is invalid''
              else
                rbind (resolve_path env (fc_media_root cf)) (\<lambda>top_dir.
                rbind (resolve_path env (joined (fc_media_root cf) (posix_of relative))) (\<lambda>path.
                rbind (insist (relative_to path top_dir) ''Sonarr episode file is outside the TV library'') (\<lambda>_.
                rbind (is_plain_file env path) (\<lambda>file.
                rbind (insist file ''Sonarr episode file is outside the TV library'') (\<lambda>_. give (Inr path))))))))"

section \<open>The order of episodes\<close>

text \<open>The seasons of a series that have been asked for; of several reservations the last counts.\<close>

definition requested_seasons :: "nat \<Rightarrow> db \<Rightarrow> (nat \<times> string) list" where
  "requested_seasons tmdb d =
     rev (List.map_filter (\<lambda>(rid, _).
       (case active_reservation rid d of
          None \<Rightarrow> None
        | Some r \<Rightarrow>
            (case season_numbers (rs_media_key r) of
               None \<Rightarrow> None
             | Some (n, season) \<Rightarrow>
                 if n = tmdb \<and> \<not> is_tombstoned (rs_media_key r) d \<and> 0 < season then Some (season, rid) else None)))
       (active_seerr_requests d))"

definition with_season :: "nat \<Rightarrow> string \<Rightarrow> (nat \<times> string) list \<Rightarrow> (nat \<times> string) list" where
  "with_season season rid seasons = (if season \<in> fst ` set seasons then seasons else (season, rid) # seasons)"

text \<open>The season of an episode, if it has been asked for, and the number of the episode.\<close>

definition known_season :: "(nat \<times> string) list \<Rightarrow> (string \<times> json) list \<Rightarrow> nat option" where
  "known_season seasons e =
     (case jget e ''seasonNumber'' of
        JInt n \<Rightarrow> if 0 \<le> n \<and> nat n \<in> fst ` set seasons then Some (nat n) else None
      | _ \<Rightarrow> None)"

definition episode_at :: "(nat \<times> string) list \<Rightarrow> (string \<times> json) list \<Rightarrow> (nat \<times> nat) option" where
  "episode_at seasons e =
     (case (known_season seasons e, jget e ''episodeNumber'') of
        (Some season, JInt n) \<Rightarrow> if 0 < n then Some (season, nat n) else None
      | _ \<Rightarrow> None)"

type_synonym placement = "(nat \<times> nat) \<times> (string \<times> json) list"

text \<open>The episodes that count, in their order.\<close>

fun placed_episodes ::
    "'w fin_env \<Rightarrow> fin_config \<Rightarrow> (nat \<times> string) list \<Rightarrow> (string \<times> json) list list \<Rightarrow> ('w, placement list) job" where
  "placed_episodes env cf seasons [] = give (Inr [])"
| "placed_episodes env cf seasons (e # es) =
     (case episode_at seasons e of
        None \<Rightarrow> placed_episodes env cf seasons es
      | Some place \<Rightarrow>
          if jget e ''monitored'' = JBool False then placed_episodes env cf seasons es
          else
            rbind (episode_aired env cf e) (\<lambda>aired.
            rbind (placed_episodes env cf seasons es) (\<lambda>rest.
              give (Inr (if aired = Some False then rest else (place, e) # rest)))))"

definition chronological :: "placement list \<Rightarrow> placement list" where
  "chronological episodes = sort_key fst episodes"

definition episode_state :: "string \<Rightarrow> db \<Rightarrow> import_state option" where
  "episode_state pid d = map_option ei_state (find_row (\<lambda>e. ei_permit_id e = pid) (episode_imports d))"

definition episode_imported :: "nat \<Rightarrow> (nat \<times> string) list \<Rightarrow> db \<Rightarrow> placement \<Rightarrow> bool" where
  "episode_imported tmdb seasons d x =
     (case x of ((season, n), e) \<Rightarrow>
        is_tombstoned (''season:tmdb:'' @ show_nat tmdb @ '':'' @ show_nat season) d \<or>
        episode_gone tmdb season n d \<or>
        has_file e \<and>
        (case map_of seasons season of
           None \<Rightarrow> False
         | Some rid \<Rightarrow>
             (case confirmed_source rid (Some (scope_of season n)) d of
                None \<Rightarrow> True | Some p \<Rightarrow> episode_state (pm_id p) d = Some ImComplete)))"

record course =
  cr_media_key :: string
  cr_rid :: string
  cr_tmdb :: nat
  cr_season :: nat
  cr_gap :: bool
  cr_first :: "(nat \<times> nat) option"

text \<open>\<open>prior_season_missing\<close> and \<open>first_missing\<close>\<close>

definition plot_course ::
    "string \<Rightarrow> string \<Rightarrow> nat \<Rightarrow> nat \<Rightarrow> (nat \<times> string) list \<Rightarrow> (string \<times> json) list list \<Rightarrow> placement list \<Rightarrow> db \<Rightarrow> course"
    where
  "plot_course media_key rid tmdb season seasons episodes placed d =
     \<lparr>cr_media_key = media_key, cr_rid = rid, cr_tmdb = tmdb, cr_season = season,
      cr_gap = list_ex (\<lambda>(n, _). n < season \<and> n \<notin> set (List.map_filter (known_season seasons) episodes)) seasons,
      cr_first = map_option fst (find_row (\<lambda>x. \<not> episode_imported tmdb seasons d x) placed)\<rparr>"

section \<open>One episode\<close>

definition still_active :: "course \<Rightarrow> ('w, string) job \<Rightarrow> ('w, string) job" where
  "still_active cr m =
     rbind (database (season_active (cr_rid cr) (cr_media_key cr))) (\<lambda>active.
     if active then m else give (Inr ''reservation_inactive''))"

definition check_subtitle_names :: "permit \<Rightarrow> nat \<Rightarrow> nat \<Rightarrow> ('w, unit) job" where
  "check_subtitle_names p season n =
     insist (list_all (\<lambda>name. suffix_among subtitle_suffixes name \<longrightarrow> single_episode_name (posix_name name) season n)
               (pm_selected_files p)) ''selected subtitle belongs to another episode''"

definition ensure_episode_subtitle :: "'w fin_env \<Rightarrow> fin_config \<Rightarrow> posix \<Rightarrow> permit \<Rightarrow> ('w, unit) job" where
  "ensure_episode_subtitle env cf video p =
     (case Option.bind (pm_scope_key p) episode_scope of
        None \<Rightarrow> invalid ''episode permit scope is invalid''
      | Some (a, b) \<Rightarrow>
          rbind (check_subtitle_names p (to_nat a) (to_nat b)) (\<lambda>_.
            ensure_subtitle env cf video p (pm_scope_key p) (sp_languages (fc_policy cf))))"

definition finish_episode_import ::
    "'w fin_env \<Rightarrow> fin_config \<Rightarrow> course \<Rightarrow> permit \<Rightarrow> (string \<times> json) list \<Rightarrow> bool \<Rightarrow> ('w, string) job" where
  "finish_episode_import env cf cr p e copy_allowed =
     (if \<not> has_file e then give (Inr ''import_pending'')
      else
        rbind (imported_video env cf e) (\<lambda>video.
        still_active cr
          (rbind (import_matches env cf video p copy_allowed) (\<lambda>same.
           if \<not> same then give (Inr ''import_uncertain'')
           else
             rbind (ensure_episode_subtitle env cf video p) (\<lambda>_.
             rbind (commit env (\<lambda>now d. (complete_episode_import now (pm_id p) d, ()))) (\<lambda>_.
               give (Inr ''complete'')))))))"

text \<open>The names of the files that are complete.\<close>

definition completed_names :: "(string \<times> json) list list \<Rightarrow> string list" where
  "completed_names files =
     List.map_filter (\<lambda>d. if same_number (jget d ''progress'') 1 then as_str (jget d ''name'') else None) files"

record episode_download =
  ed_path :: string
  ed_brazilian :: bool
  ed_english :: bool
  ed_original :: bool
  ed_title :: "string option"

text \<open>The video that a scan of a season pack names; \<open>next\<close> without one ends a coroutine.\<close>

definition scan_path :: "permit \<Rightarrow> string \<Rightarrow> err + string" where
  "scan_path p content_path =
     (if pm_season_pack_parent_id p = None then Inr content_path
      else
        (case video_sources p of
           [] \<Rightarrow> Inl (RuntimeError ''coroutine raised StopIteration'')
         | relative # _ \<Rightarrow> Inr (rstrip_slash (pm_destination p) @ ''/'' @ relative)))"

definition check_episode ::
    "'w fin_env \<Rightarrow> fin_config \<Rightarrow> permit \<Rightarrow> nat \<Rightarrow> nat \<Rightarrow> (string \<times> json) list \<Rightarrow> string \<Rightarrow>
     (string \<times> json) list list \<Rightarrow> ('w, episode_download) job" where
  "check_episode env cf p season n torrent content_path files =
     rbind (content_dir env cf p content_path) (\<lambda>content.
     rbind (check_subtitle_names p season n) (\<lambda>_.
     rbind (each (selected_path env cf p content (file_sizes files)) (pm_selected_files p)) (\<lambda>selected.
     rbind (check_media env cf p (\<lambda>video. single_episode_name (name_of video) season n) selected) (\<lambda>dl.
     rbind (subtitle_present cf (pm_reservation_id p) p (pm_scope_key p) ''subdl'' ''BR_PT'' (dl_brazilian dl))
       (\<lambda>brazilian.
     rbind (english_present cf (pm_reservation_id p) p (pm_scope_key p) ''subdl'' dl) (\<lambda>english.
     rbind (raising (scan_path p content_path)) (\<lambda>path.
       give (Inr \<lparr>ed_path = path, ed_brazilian = brazilian, ed_english = english,
                  ed_original = waives_subtitles (fc_ascii_fold cf) (fc_policy cf) (dl_probe dl),
                  ed_title = as_str (jget torrent ''name'')\<rparr>))))))))"

definition validate_download ::
    "'w fin_env \<Rightarrow> fin_config \<Rightarrow> permit \<Rightarrow> nat \<Rightarrow> nat \<Rightarrow> ('w, episode_download option) job" where
  "validate_download env cf p season n =
     rbind (gateway_torrent env p) (\<lambda>found.
     case found of
       None \<Rightarrow> give (Inr None)
     | Some torrent \<Rightarrow>
         if pm_season_pack_parent_id p = None \<and> \<not> finished torrent then give (Inr None)
         else
           (case as_str (jget torrent ''content_path'') of
              None \<Rightarrow> invalid ''torrent content path is missing''
            | Some content_path \<Rightarrow>
                rbind (gateway_files env p) (\<lambda>files.
                if pm_season_pack_parent_id p \<noteq> None \<and> \<not> set (pm_selected_files p) \<subseteq> set (completed_names files)
                  then give (Inr None)
                else
                  rbind (check_episode env cf p season n torrent content_path files) (\<lambda>ed. give (Inr (Some ed))))))"

definition episode_subtitles ::
    "'w fin_env \<Rightarrow> fin_config \<Rightarrow> course \<Rightarrow> nat \<Rightarrow> permit \<Rightarrow> episode_download \<Rightarrow> ('w, string) job \<Rightarrow> ('w, string) job"
    where
  "episode_subtitles env cf cr n p ed continue =
     (if ed_original ed then continue
      else
        rbind (recover_subtitle (\<lambda>l. if l = ''BR_PT'' then ed_brazilian ed else ed_english ed)
                 (''subdl'' \<in> set (sp_providers (fc_policy cf)))
                 (\<lambda>language mode.
                    case ed_title ed of
                      None \<Rightarrow> give (Inr None)
                    | Some title \<Rightarrow>
                        if title = [] then give (Inr None)
                        else search_subtitle env cf
                               \<lparr>sq_tmdb = int (cr_tmdb cr), sq_titles = [title],
                                sq_season = Some (int (cr_season cr), int n), sq_language = language,
                                sq_mode = mode, sq_duration = None\<rparr>)
                 (subtitle_attempts (fc_policy cf))) (\<lambda>found.
        still_active cr
          (case found of
             None \<Rightarrow> give (Inr ''waiting_subtitles'')
           | Some (language, content) \<Rightarrow>
               if content = [] then continue
               else rbind (keep_subtitle cf (cr_rid cr) (pm_scope_key p) (pm_infohash p) ''subdl'' language content)
                      (\<lambda>_. continue))))"

definition start_episode_import ::
    "'w fin_env \<Rightarrow> fin_config \<Rightarrow> course \<Rightarrow> permit \<Rightarrow> episode_download \<Rightarrow> ('w, string) job" where
  "start_episode_import env cf cr p ed =
     rbind (hardlink_import_enabled env Sonarr) (\<lambda>enabled.
     if \<not> enabled then give (Inr ''import_guard'')
     else
       still_active cr
         (rbind (each (source_path env cf p) (pm_selected_files p)) (\<lambda>selected.
          case find_row (path_suffix_among pack_video_suffixes) selected of
            None \<Rightarrow> invalid ''permit does not identify one episode video''
          | Some video \<Rightarrow>
              rbind (import_mode env cf video selected) (\<lambda>mode.
              case mode of
                None \<Rightarrow> give (Inr ''waiting_space'')
              | Some copy \<Rightarrow>
                  still_active cr
                    (rbind (commit env (\<lambda>now d. claim_episode_import now (pm_id p) copy d)) (\<lambda>claimed.
                     if \<not> claimed then give (Inr ''import_pending'')
                     else
                       rbind (request_scan env Sonarr ''DownloadedEpisodesScan'' (ed_path ed) p) (\<lambda>i.
                       rbind (commit env (\<lambda>now d. (record_episode_import now (pm_id p) i d, ()))) (\<lambda>_.
                         give (Inr ''import_requested'')))))))))"

definition request_episode_import ::
    "'w fin_env \<Rightarrow> fin_config \<Rightarrow> course \<Rightarrow> nat \<Rightarrow> permit \<Rightarrow> (string \<times> json) list \<Rightarrow> ('w, string) job" where
  "request_episode_import env cf cr n p e =
     (if has_file e then give (Inr ''already_imported_without_validation'')
      else
        rbind (validate_download env cf p (cr_season cr) n) (\<lambda>validated.
        still_active cr
          (case validated of
             None \<Rightarrow> give (Inr ''downloading'')
           | Some ed \<Rightarrow> episode_subtitles env cf cr n p ed (start_episode_import env cf cr p ed))))"

section \<open>The finalizer\<close>

definition before_first :: "course \<Rightarrow> nat \<Rightarrow> string option" where
  "before_first cr n =
     (if cr_gap cr then Some ''waiting_previous_season''
      else (case cr_first cr of
              None \<Rightarrow> None
            | Some (season, number) \<Rightarrow>
                if (season, number) < (cr_season cr, n)
                  then Some (if season < cr_season cr then ''waiting_previous_season'' else ''waiting_previous_episode'')
                else None))"

fun finalize_episodes ::
    "'w fin_env \<Rightarrow> fin_config \<Rightarrow> course \<Rightarrow> bool \<Rightarrow> placement list \<Rightarrow> ('w, string) job" where
  "finalize_episodes env cf cr seen_complete [] = give (Inr (if seen_complete then ''complete'' else ''not_dispatched''))"
| "finalize_episodes env cf cr seen_complete (((season, n), e) # es) =
     still_active cr
       (rbind (database (episode_gone (cr_tmdb cr) (cr_season cr) n)) (\<lambda>gone.
        if gone then finalize_episodes env cf cr seen_complete es
        else
          rbind (database (confirmed_source (cr_rid cr) (Some (scope_of (cr_season cr) n)))) (\<lambda>source.
          case source of
            None \<Rightarrow> finalize_episodes env cf cr seen_complete es
          | Some p \<Rightarrow>
              (case before_first cr n of
                 Some answer \<Rightarrow> give (Inr answer)
               | None \<Rightarrow>
                   rbind (database (episode_state (pm_id p))) (\<lambda>state.
                   case state of
                     None \<Rightarrow> request_episode_import env cf cr n p e
                   | Some ImComplete \<Rightarrow> finalize_episodes env cf cr True es
                   | Some ImAccepted \<Rightarrow> finish_episode_import env cf cr p e False
                   | Some ImAcceptedCopy \<Rightarrow> finish_episode_import env cf cr p e True
                   | Some _ \<Rightarrow> give (Inr ''import_uncertain''))))))"

definition finalize_season ::
    "'w fin_env \<Rightarrow> fin_config \<Rightarrow> string \<Rightarrow> string \<Rightarrow> ('w, string) job" where
  "finalize_season env cf media_key rid =
     rbind (database (season_active rid media_key)) (\<lambda>active.
     if \<not> active then give (Inr ''reservation_inactive'')
     else
       (case season_numbers media_key of
          None \<Rightarrow> give (Inr ''unsupported_media'')
        | Some (tmdb, season) \<Rightarrow>
            rbind (episodes_of env tmdb) (\<lambda>episodes.
            rbind (database (season_active rid media_key)) (\<lambda>active.
            if \<not> active then give (Inr ''reservation_inactive'')
            else
              rbind (database (\<lambda>d. with_season season rid (requested_seasons tmdb d))) (\<lambda>seasons.
              rbind (placed_episodes env cf seasons episodes) (\<lambda>found.
              rbind (database (plot_course media_key rid tmdb season seasons episodes (chronological found))) (\<lambda>cr.
                finalize_episodes env cf cr False
                  (filter (\<lambda>((s, _), _). s = season) (chronological found)))))))))"

end
