(* ===== verification/FinalizerFacts.thy ===== *)
theory FinalizerFacts
  imports SeriesFinalizer
begin

text \<open>
  What the finalizers keep.  \<open>watched\<close> is the contract of a predicate on their state that
  survives everything short of a scan, a claim and a completion; under it each operation up to
  those is shown to leave the predicate as it is.  The log is watched first: it only grows.
\<close>

section \<open>The contract\<close>

definition events :: "'w fin \<Rightarrow> event set" where
  "events s = nt_event ` set (fn_log s)"

text \<open>Requests that change nothing, and what is read from the file system.\<close>

definition quiet_event :: "event \<Rightarrow> bool" where
  "quiet_event ev =
     (case ev of
        Request rq _ \<Rightarrow> hq_method rq = GET
      | TempWritten _ _ _ \<Rightarrow> False
      | Removed _ _ \<Rightarrow> False
      | LinkTried _ _ _ \<Rightarrow> False
      | _ \<Rightarrow> True)"

lemma quiet_simps [simp]:
  "quiet_event (Request rq answer) = (hq_method rq = GET)" "quiet_event (Resolved p q)"
  "quiet_event (Existed p b)" "quiet_event (WasLink p b)" "quiet_event (WasFile p b)"
  "quiet_event (WasDir p b)" "quiet_event (Statted p st)" "quiet_event (ReadBytes p c)"
  "quiet_event (Probed p f)" "quiet_event (MadeReadable p ok)" "quiet_event (MadeDirs p ok)"
  "quiet_event (LinkProbed p p2 ok)" "quiet_event (Searched lookup found)" "quiet_event (Measured cap)"
  by (simp_all add: quiet_event_def)

definition noted_in :: "event \<Rightarrow> 'w fin \<Rightarrow> 'w fin" where
  "noted_in ev s = s\<lparr>fn_log := fn_log s @ [\<lparr>nt_event = ev, nt_db = fn_db s\<rparr>]\<rparr>"

text \<open>What other processes may have made of the database when a call returns.\<close>

definition others :: "'w fin_env \<Rightarrow> db \<Rightarrow> db \<Rightarrow> bool" where
  "others env d d' \<longleftrightarrow>
     (\<exists>w rq x w'. n_http env w d rq = (x, d', w')) \<or>
     (\<exists>w q x w'. n_subtitle env w d q = (x, d', w')) \<or>
     (\<exists>w x w'. n_capacity env w d = (x, d', w'))"

lemma triple_answers:
  "(v = Linked \<Longrightarrow> triple P a Q E) \<Longrightarrow> (v = LinkExists \<Longrightarrow> triple P b Q E) \<Longrightarrow> (v = LinkFailed \<Longrightarrow> triple P c Q E) \<Longrightarrow>
   triple P (case v of Linked \<Rightarrow> a | LinkExists \<Rightarrow> b | LinkFailed \<Rightarrow> c) Q E"
  "(t = TempRefused \<Longrightarrow> triple P a' Q E) \<Longrightarrow> (\<And>p. t = TempBroken p \<Longrightarrow> triple P (f p) Q E) \<Longrightarrow>
   (\<And>p. t = TempReady p \<Longrightarrow> triple P (g p) Q E) \<Longrightarrow>
   triple P (case t of TempRefused \<Rightarrow> a' | TempBroken p \<Rightarrow> f p | TempReady p \<Rightarrow> g p) Q E"
  by (cases v; simp) (cases t; simp)

lemma noting_step:
  "f (fn_world s) = (x, w) \<Longrightarrow> noting ev f s = (Inr x, (noted_in (ev x) s)\<lparr>fn_world := w\<rparr>)"
  by (cases s) (simp add: noting_def noted_in_def)

locale unmoved =
  fixes env :: "'w fin_env" and P :: "'w fin \<Rightarrow> bool"
  assumes logs: "P s \<Longrightarrow> quiet_event ev \<Longrightarrow> P (noted_in ev s)"
    and turns: "P s \<Longrightarrow> P (s\<lparr>fn_world := w\<rparr>)"
    and waits: "P s \<Longrightarrow> others env (fn_db s) d \<Longrightarrow> P (s\<lparr>fn_db := d\<rparr>)"
    and stores: "P s \<Longrightarrow> P (s\<lparr>fn_subtitles := rows\<rparr>)"
begin

lemma leaves_noting:
  assumes "\<And>x. quiet_event (ev x)"
  shows "leaves P (noting ev f)"
proof (rule tripleI)
  fix s
  assume "P s"
  obtain x w where f: "f (fn_world s) = (x, w)" by fastforce
  have "P ((noted_in (ev x) s)\<lparr>fn_world := w\<rparr>)" using \<open>P s\<close> assms by (intro turns logs)
  then show "case noting ev f s of (Inl e, s') \<Rightarrow> P s' | (Inr y, s') \<Rightarrow> P s'"
    using noting_step [of f s x w ev] f by simp
qed

lemma leaves_awaiting:
  assumes "\<And>x. quiet_event (ev x)" and "\<And>w d x d' w'. f w d = (x, d', w') \<Longrightarrow> others env d d'"
  shows "leaves P (awaiting ev f)"
proof (rule tripleI)
  fix s
  assume "P s"
  obtain x d w where f: "f (fn_world s) (fn_db s) = (x, d, w)" by (metis prod_cases3)
  have "others env (fn_db (noted_in (ev x) s)) d"
    using assms(2) [OF f] by (simp add: noted_in_def)
  then have "P ((noted_in (ev x) s)\<lparr>fn_db := d, fn_world := w\<rparr>)"
    using \<open>P s\<close> assms(1) by (intro turns waits logs)
  moreover have "awaiting ev f s = (Inr x, (noted_in (ev x) s)\<lparr>fn_db := d, fn_world := w\<rparr>)"
    using f by (cases s) (simp add: awaiting_def noted_in_def)
  ultimately show "case awaiting ev f s of (Inl e, s') \<Rightarrow> P s' | (Inr y, s') \<Rightarrow> P s'" by simp
qed

section \<open>Primitives\<close>

lemma leaves_plain:
  "leaves P (database f)" "leaves P (subtitles g)" "leaves P (clock env)" "leaves P (invalid detail)"
  "leaves P (insist ok detail)" "leaves P (raising r)"
  by (auto simp: triple_def database_def subtitles_def clock_def invalid_def insist_def raising_def give_def
      split: prod.splits sum.splits intro: turns)

lemma leaves_seen: "(\<And>x. quiet_event (ev x)) \<Longrightarrow> leaves P (seen ev f)"
  unfolding seen_def by (intro triple_rules leaves_noting) auto

lemma leaves_files:
  "leaves P (resolve_path env p)" "leaves P (path_exists env p)" "leaves P (is_link env p)"
  "leaves P (is_plain_file env p)" "leaves P (stat_of env p)" "leaves P (bytes_at env p)"
  unfolding resolve_path_def path_exists_def is_link_def is_plain_file_def stat_of_def bytes_at_def
  by (intro leaves_seen quiet_simps)+

lemma leaves_get: "leaves P (fetch_json env sv path params)"
  unfolding fetch_json_def send_to_def
  by (intro triple_rules leaves_awaiting) (auto simp: others_def)

lemma leaves_each: "(\<And>x. leaves P (f x)) \<Longrightarrow> leaves P (each f xs)"
  by (induction xs) (auto intro!: triple_rules)

lemma leaves_first_with: "(\<And>x. leaves P (f x)) \<Longrightarrow> leaves P (first_with f xs)"
  by (induction xs) (auto intro!: triple_rules)

lemmas unmoved_rules = triple_rules leaves_plain leaves_files leaves_get leaves_each leaves_first_with
  leaves_noting leaves_seen quiet_simps

section \<open>Shared operations\<close>

lemma leaves_paths:
  "leaves P (local_path env cf raw)" "leaves P (source_path env cf p relative)" "leaves P (content_dir env cf p raw)"
proof -
  show local: "leaves P (local_path env cf raw)" for raw
    unfolding local_path_def Let_def by (intro unmoved_rules)
  show "leaves P (source_path env cf p relative)" "leaves P (content_dir env cf p raw)"
    unfolding source_path_def content_dir_def Let_def by (intro unmoved_rules local)+
qed

lemma leaves_validation:
  "leaves P (validate_size env p maximum)" "leaves P (validate_media env cf p maximum)"
proof -
  show size: "leaves P (validate_size env p maximum)"
    unfolding validate_size_def by (intro unmoved_rules)
  show "leaves P (validate_media env cf p maximum)"
    unfolding validate_media_def by (intro unmoved_rules size)
qed

lemma leaves_probe_hardlink: "leaves P (probe_hardlink env owner source directory)"
  unfolding probe_hardlink_def by (intro unmoved_rules)

lemma leaves_subtitle_files:
  "leaves P (subtitle_has_content env p)" "leaves P (in_library env library target)"
  "leaves P (stored_subtitle cf rid scope infohash language src)" "leaves P (occupied env target)"
  "leaves P (same_subtitle env target content)"
  unfolding subtitle_has_content_def stored_subtitle_def in_library_def occupied_def same_subtitle_def
  by (intro unmoved_rules)+

lemma leaves_import_matches: "leaves P (import_matches env cf video p copy_allowed)"
  unfolding import_matches_def by (intro unmoved_rules leaves_paths)

lemma leaves_gateway: "leaves P (gateway_torrent env p)" "leaves P (gateway_files env p)"
  unfolding gateway_torrent_def gateway_files_def by (intro unmoved_rules)+

lemma leaves_check_media: "leaves P (check_media env cf p wanted selected)"
  unfolding check_media_def Let_def by (intro unmoved_rules leaves_validation leaves_subtitle_files)

lemma leaves_selected_path: "leaves P (selected_path env cf p content sizes relative)"
  unfolding selected_path_def by (intro unmoved_rules leaves_paths)

lemma leaves_recover:
  assumes "\<And>language mode. leaves P (fetch_one language mode)"
  shows "leaves P (recover_subtitle present searchable fetch_one attempts)"
proof (induction attempts)
  case Nil
  show ?case by (simp only: recover_subtitle.simps) (intro unmoved_rules)
next
  case (Cons attempt attempts)
  obtain language mode where a: "attempt = (language, mode)" by fastforce
  from Cons show ?case unfolding a recover_subtitle.simps by (intro unmoved_rules assms)
qed

lemma leaves_subtitle_state:
  "leaves P (subtitle_present cf rid p scope source language named)"
  "leaves P (english_present cf rid p scope source dl)"
  "leaves P (search_subtitle env cf q)"
  "leaves P (keep_subtitle cf reservation scope infohash source language content)"
proof -
  show present: "leaves P (subtitle_present cf rid p scope source language named)" for language named
    unfolding subtitle_present_def by (intro unmoved_rules leaves_subtitle_files)
  show "leaves P (english_present cf rid p scope source dl)"
    unfolding english_present_def by (intro unmoved_rules present)
  show "leaves P (search_subtitle env cf q)"
    unfolding search_subtitle_def by (intro triple_rules leaves_awaiting) (auto simp: others_def)
  show "leaves P (keep_subtitle cf reservation scope infohash source language content)"
    by (auto simp: triple_def keep_subtitle_def split: sum.splits intro: stores)
qed

lemma leaves_import_mode:
  "leaves P (hardlink_import_enabled env arr)" "leaves P (import_mode env cf video selected)"
proof -
  show "leaves P (hardlink_import_enabled env arr)"
    unfolding hardlink_import_enabled_def by (intro unmoved_rules)
  have "leaves P (awaiting Measured (\<lambda>w d. n_capacity env w d))"
    by (rule leaves_awaiting) (auto simp: others_def)
  then show "leaves P (import_mode env cf video selected)"
    unfolding import_mode_def copy_fits_def by (intro unmoved_rules leaves_probe_hardlink)
qed

section \<open>Movies\<close>

lemma leaves_movie:
  "leaves P (radarr_movie env media_key)" "leaves P (movie_file_path env cf movie)"
  "leaves P (check_movie env cf p torrent)" "leaves P (movie_subtitles env cf media_key rid p dl titles)"
proof -
  show "leaves P (radarr_movie env media_key)" "leaves P (movie_file_path env cf movie)"
    unfolding radarr_movie_def movie_file_path_def by (intro unmoved_rules)+
  show "leaves P (check_movie env cf p torrent)"
    unfolding check_movie_def
    by (intro unmoved_rules leaves_paths leaves_gateway leaves_selected_path leaves_check_media)
  show "leaves P (movie_subtitles env cf media_key rid p dl titles)"
    unfolding movie_subtitles_def by (intro unmoved_rules leaves_subtitle_state leaves_recover)
qed

section \<open>Episodes\<close>

lemma leaves_episodes_of: "leaves P (episodes_of env tmdb)"
  unfolding episodes_of_def by (intro unmoved_rules)

lemma leaves_imported_video: "leaves P (imported_video env cf e)"
  unfolding imported_video_def by (intro unmoved_rules)

lemma leaves_placed: "leaves P (placed_episodes env cf seasons es)"
proof (induction es)
  case Nil
  show ?case by (simp only: placed_episodes.simps) (intro unmoved_rules)
next
  case (Cons e es)
  have "leaves P (episode_aired env cf e)" unfolding episode_aired_def by (intro unmoved_rules)
  with Cons show ?case by (simp only: placed_episodes.simps) (intro unmoved_rules)
qed

lemma leaves_validate_download: "leaves P (validate_download env cf p season n)"
  unfolding validate_download_def check_episode_def check_subtitle_names_def
  by (intro unmoved_rules leaves_gateway leaves_paths leaves_selected_path leaves_check_media leaves_subtitle_state)

end

section \<open>Writing to the library\<close>

text \<open>A predicate that also survives what writes a subtitle or links a file.\<close>

locale watched = unmoved +
  assumes writes: "leaves P (write_subtitle env library video content language)"
    and links: "leaves P (import_hardlink env source target)"
begin

lemma leaves_install_subtitle: "leaves P (install_subtitle env cf video source label)"
  unfolding install_subtitle_def Let_def by (intro unmoved_rules leaves_subtitle_files links)

lemma leaves_ensure_subtitle: "leaves P (ensure_subtitle env cf video p scope languages)"
proof (induction languages)
  case Nil
  show ?case by (simp only: ensure_subtitle.simps ensured_otherwise_def) (intro unmoved_rules leaves_validation)
next
  case (Cons l ls)
  then show ?case
    by (simp only: ensure_subtitle.simps)
      (intro unmoved_rules leaves_paths leaves_subtitle_files leaves_install_subtitle writes)
qed

lemma leaves_ensure_episode: "leaves P (ensure_episode_subtitle env cf video p)"
  unfolding ensure_episode_subtitle_def check_subtitle_names_def by (intro unmoved_rules leaves_ensure_subtitle)

end

section \<open>Anything but a scan\<close>

definition is_scan :: "event \<Rightarrow> bool" where
  "is_scan ev = (case ev of Request rq _ \<Rightarrow> hq_method rq \<noteq> GET | _ \<Rightarrow> False)"

lemma scan_simps [simp]:
  "is_scan (Request rq answer) = (hq_method rq \<noteq> GET)" "quiet_event ev \<Longrightarrow> \<not> is_scan ev"
  "\<not> is_scan (TempWritten p content found)" "\<not> is_scan (Removed p ok)" "\<not> is_scan (LinkTried p p2 done)"
  by (cases ev; simp add: is_scan_def quiet_event_def)+

text \<open>The temporary is removed whatever the step before did.\<close>

lemma removing_triple:
  fixes m :: "('w, unit) job"
  assumes "triple P m (\<lambda>_. R) R" and "\<And>r :: fault + unit. triple R (rbind (noting (Removed temporary) (\<lambda>w. n_unlink env w temporary))
      (\<lambda>ok. give (if ok then r else Inl OsFault))) (\<lambda>_. Q) Q"
  shows "triple P (removing env temporary m) (\<lambda>_. Q) Q"
proof (rule tripleI)
  fix s
  assume "P s"
  obtain r s1 where s1: "m s = (r, s1)" by fastforce
  then have "R s1" using triple_end [OF assms(1) \<open>P s\<close>] by simp
  then show "case removing env temporary m s of (Inl e, s') \<Rightarrow> Q s' | (Inr x, s') \<Rightarrow> Q s'"
    using assms(2) [of r] by (auto simp: removing_def s1 triple_def)
qed

locale calm =
  fixes env :: "'w fin_env" and P :: "'w fin \<Rightarrow> bool"
  assumes notices: "P s \<Longrightarrow> \<not> is_scan ev \<Longrightarrow> P (noted_in ev s)"
    and moves: "P s \<Longrightarrow> P (s\<lparr>fn_world := w\<rparr>)"
    and bears: "P s \<Longrightarrow> others env (fn_db s) d \<Longrightarrow> P (s\<lparr>fn_db := d\<rparr>)"
    and ignores: "P s \<Longrightarrow> P (s\<lparr>fn_subtitles := rows\<rparr>)"

sublocale calm \<subseteq> unmoved
  by unfold_locales (auto intro: notices moves bears ignores)

context calm
begin

lemma calm_noting:
  assumes "\<And>x. \<not> is_scan (ev x)"
  shows "leaves P (noting ev f)"
proof (rule tripleI)
  fix s
  assume "P s"
  obtain x w where f: "f (fn_world s) = (x, w)" by fastforce
  have "P ((noted_in (ev x) s)\<lparr>fn_world := w\<rparr>)" using \<open>P s\<close> assms by (intro moves notices)
  then show "case noting ev f s of (Inl e, s') \<Rightarrow> P s' | (Inr y, s') \<Rightarrow> P s'"
    using noting_step [of f s x w ev] f by simp
qed

lemma calm_write_subtitle: "leaves P (write_subtitle env library video content language)"
  unfolding write_subtitle_def link_temporary_def Let_def
  by (intro triple_rules leaves_plain leaves_subtitle_files calm_noting scan_simps quiet_simps triple_answers
        removing_triple [where R = P])

lemma calm_import_hardlink: "leaves P (import_hardlink env source target)"
  unfolding import_hardlink_def kept_payload_def same_payload_def
  by (intro triple_rules leaves_files calm_noting scan_simps quiet_simps triple_answers)

end

sublocale calm \<subseteq> watched
  by unfold_locales (rule calm_write_subtitle calm_import_hardlink)+

context calm
begin

lemma calm_is_quiet: "unmoved env P" and calm_is_watched: "watched env P"
  by unfold_locales

end

section \<open>The log grows\<close>

text \<open>A log that begins like this one, and an event that is in it.\<close>

definition logged_since :: "noted list \<Rightarrow> 'w fin \<Rightarrow> bool" where
  "logged_since l s = prefix l (fn_log s)"

definition growing :: "('w, 'a) job \<Rightarrow> bool" where
  "growing m = (\<forall>l. leaves (logged_since l) m)"

lemma growing_events: "growing m \<Longrightarrow> m s = (r, s') \<Longrightarrow> events s \<subseteq> events s'"
  using triple_end [of "logged_since (fn_log s)" m "logged_since (fn_log s)" s]
  by (fastforce simp: growing_def logged_since_def events_def prefix_def)

interpretation growth: calm env "logged_since l" for env :: "'w fin_env" and l
  by unfold_locales (auto simp: logged_since_def noted_in_def)

section \<open>Evidence\<close>

definition answered :: "event set \<Rightarrow> request \<Rightarrow> json \<Rightarrow> bool" where
  "answered E rq j \<longleftrightarrow>
     (\<exists>rp. Request rq (Inr rp) \<in> E \<and> 200 \<le> rp_status rp \<and> rp_status rp < 300 \<and> rp_body rp = Some j)"

lemma noting_event: "noting ev f s = (Inr x, s') \<Longrightarrow> ev x \<in> events s'"
  by (auto simp: noting_def events_def split: prod.splits)

lemma seen_event: "seen ev f s = (Inr x, s') \<Longrightarrow> ev (Some x) \<in> events s'"
  unfolding seen_def rbind_Inr give_Inr using noting_event by (fastforce split: option.splits)

lemma file_events:
  "resolve_path env p s = (Inr q, s') \<Longrightarrow> Resolved p (Some q) \<in> events s'"
  "is_link env p s = (Inr b, s') \<Longrightarrow> WasLink p (Some b) \<in> events s'"
  "is_plain_file env p s = (Inr b, s') \<Longrightarrow> WasFile p (Some b) \<in> events s'"
  "stat_of env p s = (Inr st, s') \<Longrightarrow> Statted p (Some st) \<in> events s'"
  "bytes_at env p s = (Inr c, s') \<Longrightarrow> ReadBytes p (Some c) \<in> events s'"
  by (auto simp: resolve_path_def is_link_def is_plain_file_def stat_of_def bytes_at_def dest: seen_event)

lemma get_answered:
  "fetch_json env sv path params s = (Inr j, s') \<Longrightarrow>
   answered (events s') \<lparr>hq_method = GET, hq_service = sv, hq_path = path, hq_params = params, hq_body = JNull\<rparr> j"
  unfolding fetch_json_def send_to_def rbind_Inr give_Inr
  by (fastforce simp: awaiting_def answered_def events_def split: prod.splits sum.splits if_splits option.splits)

end
