(* ===== verification/FinalizerEvidence.thy ===== *)
theory FinalizerEvidence
  imports FinalizerFacts
begin

text \<open>
  What has been seen when a check succeeds: the answers of qBittorrent, the sizes of the files,
  the probe of the video, the identity of the library file, and how an import will take place.
\<close>

lemma keeps_events:
  fixes m :: "('w, 'a) job"
  shows "(\<And>l. leaves (logged_since l) m) \<Longrightarrow> m s = (r, s') \<Longrightarrow> events s \<subseteq> events s'"
  using growing_events [of m s r s'] by (simp add: growing_def)

lemmas kept_events =
  keeps_events [OF growth.leaves_files(1)] keeps_events [OF growth.leaves_files(4)]
  keeps_events [OF growth.leaves_files(5)] keeps_events [OF growth.leaves_files(6)]
  keeps_events [OF growth.leaves_plain(5)] keeps_events [OF growth.leaves_plain(6)]
  keeps_events [OF growth.leaves_plain(3)] keeps_events [OF growth.leaves_plain(1)]
  keeps_events [OF growth.leaves_get] keeps_events [OF growth.leaves_paths(2)]
  keeps_events [OF growth.leaves_paths(3)]

lemma insist_returns [simp]: "insist ok detail s = (Inr x, s') \<longleftrightarrow> ok \<and> s' = s"
  by (auto simp: insist_def invalid_def give_def)

lemma invalid_fails [simp]: "invalid detail s \<noteq> (Inr x, s')"
  by (simp add: invalid_def give_def)

lemma raising_returns [simp]: "raising r s = (Inr x, s') \<longleftrightarrow> r = Inr x \<and> s' = s"
  by (auto simp: raising_def give_def split: sum.splits)

lemma database_returns [simp]: "database f s = (Inr x, s') \<longleftrightarrow> x = f (fn_db s) \<and> s' = s"
  by (auto simp: database_def)

lemma sum_returns:
  "(case v of Inl e \<Rightarrow> f e | Inr x \<Rightarrow> g x) s = (Inr y, s') \<longleftrightarrow>
   (\<exists>e. v = Inl e \<and> f e s = (Inr y, s')) \<or> (\<exists>x. v = Inr x \<and> g x s = (Inr y, s'))"
  by (cases v) auto

lemmas returns = rbind_Inr give_Inr option_returns list_returns pair_returns sum_returns if_returns

lemma each_events:
  assumes "each f xs s = (Inr ys, s')" and "\<And>x l. leaves (logged_since l) (f x)"
    and "\<And>x y s s'. f x s = (Inr y, s') \<Longrightarrow> Q (events s') x y"
    and "\<And>E E' x y. Q E x y \<Longrightarrow> E \<subseteq> E' \<Longrightarrow> Q E' x y"
  shows "list_all2 (Q (events s')) xs ys"
  using assms(1)
proof (induction xs arbitrary: s ys)
  case Nil
  then show ?case by (simp add: give_def)
next
  case (Cons x xs)
  then obtain y s1 ys' where y: "f x s = (Inr y, s1)" and ys: "each f xs s1 = (Inr ys', s')" "ys = y # ys'"
    by (auto simp: rbind_Inr give_Inr)
  have "events s1 \<subseteq> events s'"
    using keeps_events [OF growth.leaves_each ys(1)] assms(2) by blast
  with Cons.IH [OF ys(1)] assms(3) [OF y] assms(4) show ?case by (auto simp: ys(2))
qed

section \<open>The download\<close>

definition info_request :: "permit \<Rightarrow> request" where
  "info_request p =
     \<lparr>hq_method = GET, hq_service = Gateway, hq_path = ''/api/v2/torrents/info'',
      hq_params = [(''hashes'', JStr (pm_infohash p))], hq_body = JNull\<rparr>"

definition files_request :: "permit \<Rightarrow> request" where
  "files_request p =
     \<lparr>hq_method = GET, hq_service = Gateway, hq_path = ''/api/v2/torrents/files'',
      hq_params = [(''hash'', JStr (pm_infohash p))], hq_body = JNull\<rparr>"

text \<open>qBittorrent lists the download, and as complete.\<close>

definition download_listed :: "permit \<Rightarrow> (string \<times> json) list \<Rightarrow> event set \<Rightarrow> bool" where
  "download_listed p torrent E \<longleftrightarrow>
     (\<exists>js h. answered E (info_request p) (JList js) \<and> JObj torrent \<in> set js \<and>
             get_or torrent ''hash'' (JStr []) = JStr h \<and> lower h = pm_infohash p)"

lemma find_torrent_found:
  "find_torrent infohash ds = Inr (Some d) \<Longrightarrow>
   d \<in> set ds \<and> (\<exists>h. get_or d ''hash'' (JStr []) = JStr h \<and> lower h = infohash)"
  by (induction infohash ds rule: find_torrent.induct) (auto split: option.splits if_splits simp: as_str_Some)

lemma as_obj_member: "d \<in> set (List.map_filter as_obj js) \<longleftrightarrow> JObj d \<in> set js"
  by (auto simp: map_filter_def image_iff as_obj_Some)

lemma gateway_torrent_listed:
  assumes "gateway_torrent env p s = (Inr (Some torrent), s')"
  shows "download_listed p torrent (events s')"
proof -
  from assms obtain payload js where "fetch_json env Gateway ''/api/v2/torrents/info'' [(''hashes'', JStr (pm_infohash p))] s = (Inr payload, s')"
      and "as_list payload = Some js" and "find_torrent (pm_infohash p) (List.map_filter as_obj js) = Inr (Some torrent)"
    unfolding gateway_torrent_def rbind_Inr by (auto split: option.splits)
  then show ?thesis
    using get_answered find_torrent_found
    unfolding download_listed_def info_request_def by (metis as_list_Some as_obj_member)
qed

text \<open>One selected file, found with the size that qBittorrent gives.\<close>

definition file_sized :: "(string \<times> int) list \<Rightarrow> event set \<Rightarrow> string \<Rightarrow> posix \<Rightarrow> bool" where
  "file_sized sizes E name path \<longleftrightarrow> (\<exists>st. Statted path (Some st) \<in> E \<and> map_of sizes name = Some (fs_size st))"

lemma selected_path_sized:
  assumes "selected_path env cf p content sizes name s = (Inr path, s')"
  shows "file_sized sizes (events s') name path"
  using assms unfolding selected_path_def file_sized_def returns
  by (auto simp: returns dest: file_events(4))

definition files_sized :: "permit \<Rightarrow> posix list \<Rightarrow> event set \<Rightarrow> bool" where
  "files_sized p selected E \<longleftrightarrow>
     (\<exists>js. answered E (files_request p) (JList js) \<and>
           list_all2 (file_sized (file_sizes (List.map_filter as_obj js)) E) (pm_selected_files p) selected)"

text \<open>The video: the only one, within its budget, probed, large enough, with sound.\<close>

definition video_checked :: "fin_config \<Rightarrow> permit \<Rightarrow> posix \<Rightarrow> media_probe \<Rightarrow> event set \<Rightarrow> bool" where
  "video_checked cf p video probe E \<longleftrightarrow>
     (\<exists>st limit. Statted video (Some st) \<in> E \<and> pm_budget_bytes p = Some limit \<and> 0 < fs_size st \<and> fs_size st \<le> limit) \<and>
     (\<exists>answer. Probed video answer \<in> E \<and> probe_media (fc_parse_float cf) answer = Inr probe) \<and>
     minimum_width \<le> mp_width probe \<and> minimum_height \<le> mp_height probe \<and> mp_audio probe \<noteq> []"

definition download_checked :: "fin_config \<Rightarrow> permit \<Rightarrow> download \<Rightarrow> event set \<Rightarrow> bool" where
  "download_checked cf p dl E \<longleftrightarrow>
     files_sized p (dl_selected dl) E \<and>
     filter (path_suffix_among pack_video_suffixes) (dl_selected dl) = [dl_video dl] \<and>
     video_checked cf p (dl_video dl) (dl_probe dl) E"

lemma evidence_mono:
  "E \<subseteq> E' \<Longrightarrow> answered E rq j \<Longrightarrow> answered E' rq j"
  "E \<subseteq> E' \<Longrightarrow> download_listed p torrent E \<Longrightarrow> download_listed p torrent E'"
  "E \<subseteq> E' \<Longrightarrow> file_sized sizes E name path \<Longrightarrow> file_sized sizes E' name path"
  "E \<subseteq> E' \<Longrightarrow> files_sized p selected E \<Longrightarrow> files_sized p selected E'"
  "E \<subseteq> E' \<Longrightarrow> video_checked cf p video probe E \<Longrightarrow> video_checked cf p video probe E'"
  "E \<subseteq> E' \<Longrightarrow> download_checked cf p dl E \<Longrightarrow> download_checked cf p dl E'"
proof -
  show ans: "E \<subseteq> E' \<Longrightarrow> answered E rq j \<Longrightarrow> answered E' rq j" for E E' rq j
    unfolding answered_def by blast
  show "E \<subseteq> E' \<Longrightarrow> download_listed p torrent E \<Longrightarrow> download_listed p torrent E'" for E E'
    unfolding download_listed_def using ans by metis
  show sized: "E \<subseteq> E' \<Longrightarrow> file_sized sizes E name path \<Longrightarrow> file_sized sizes E' name path" for E E' sizes name path
    unfolding file_sized_def by blast
  show files: "E \<subseteq> E' \<Longrightarrow> files_sized p selected E \<Longrightarrow> files_sized p selected E'" for E E' selected
    unfolding files_sized_def using ans sized by (metis (mono_tags, lifting) list_all2_mono)
  show video: "E \<subseteq> E' \<Longrightarrow> video_checked cf p video probe E \<Longrightarrow> video_checked cf p video probe E'" for E E' video probe
    unfolding video_checked_def by blast
  show "E \<subseteq> E' \<Longrightarrow> download_checked cf p dl E \<Longrightarrow> download_checked cf p dl E'"
    unfolding download_checked_def using files video by blast
qed

lemma validate_media_checked:
  assumes "validate_media env cf video (pm_budget_bytes p) s = (Inr probe, s')" and "mp_audio probe \<noteq> []"
  shows "video_checked cf p video probe (events s')"
proof -
  from assms(1) obtain n s1 plain s2 answer s3
    where n: "validate_size env video (pm_budget_bytes p) s = (Inr n, s1)"
      and s2: "is_plain_file env video s1 = (Inr plain, s2)"
      and s3: "noting (Probed video) (\<lambda>w. n_ffprobe env w video) s2 = (Inr answer, s3)"
      and probe: "probe_media (fc_parse_float cf) answer = Inr probe" "s' = s3"
        "minimum_width \<le> mp_width probe" "minimum_height \<le> mp_height probe"
    unfolding validate_media_def returns by (auto simp: returns)
  from n obtain limit st s4 where limit: "pm_budget_bytes p = Some limit" "0 < fs_size st" "fs_size st \<le> limit"
      and st: "stat_of env video s4 = (Inr st, s1)"
    unfolding validate_size_def returns by (auto simp: returns)
  have "events s1 \<subseteq> events s3"
    using kept_events(2) [OF s2] keeps_events [OF growth.leaves_noting s3] by auto
  with file_events(4) [OF st] limit probe assms(2) noting_event [OF s3] show ?thesis
    unfolding video_checked_def by blast
qed

lemma check_media_checked:
  assumes "check_media env cf p wanted selected s = (Inr dl, s')"
  shows "dl_selected dl = selected" and "wanted (dl_video dl)"
    and "filter (path_suffix_among pack_video_suffixes) selected = [dl_video dl]"
    and "video_checked cf p (dl_video dl) (dl_probe dl) (events s')"
proof -
  define subs where "subs = filter (path_suffix_among subtitle_suffixes) selected"
  from assms obtain video probe s1 bad where
      video: "filter (path_suffix_among pack_video_suffixes) selected = [video]" "wanted video"
      and probe: "validate_media env cf video (pm_budget_bytes p) s = (Inr probe, s1)" "mp_audio probe \<noteq> []"
      and bad: "first_with (\<lambda>q. rbind (subtitle_has_content env q) (\<lambda>ok. give (Inr (\<not> ok)))) subs s1 = (Inr bad, s')"
      and dl: "dl_selected dl = selected" "dl_video dl = video" "dl_probe dl = probe"
    unfolding check_media_def Let_def returns subs_def by (auto simp: returns)
  have "events s1 \<subseteq> events s'"
    by (rule keeps_events [OF growth.leaves_first_with bad])
      (intro triple_rules growth.leaves_subtitle_files)
  with validate_media_checked [OF probe] show "video_checked cf p (dl_video dl) (dl_probe dl) (events s')"
    using dl evidence_mono(5) by metis
  show "dl_selected dl = selected" "wanted (dl_video dl)"
      "filter (path_suffix_among pack_video_suffixes) selected = [dl_video dl]"
    using video dl by simp_all
qed

text \<open>The selected files, sized and then checked, whatever is done between.\<close>

lemma selection_checked:
  assumes sizes: "answered (events s) (files_request p) (JList js)"
    and each_path: "each (selected_path env cf p content (file_sizes (List.map_filter as_obj js))) (pm_selected_files p) s
                    = (Inr selected, s1)"
    and media: "check_media env cf p wanted selected s1 = (Inr dl, s')"
  shows "download_checked cf p dl (events s')"
proof -
  have "events s \<subseteq> events s1"
    by (rule keeps_events [OF growth.leaves_each each_path]) (rule growth.leaves_selected_path)
  moreover have "events s1 \<subseteq> events s'" by (rule keeps_events [OF growth.leaves_check_media media])
  moreover have "list_all2 (file_sized (file_sizes (List.map_filter as_obj js)) (events s1)) (pm_selected_files p) selected"
    by (rule each_events [OF each_path]) (auto intro: growth.leaves_selected_path selected_path_sized evidence_mono)
  ultimately have "files_sized p selected (events s')"
    using sizes evidence_mono(1) evidence_mono(4) unfolding files_sized_def by (metis subset_trans)
  with check_media_checked [OF media] show ?thesis by (simp add: download_checked_def)
qed

lemma gateway_files_answered:
  assumes "gateway_files env p s = (Inr ds, s')"
  obtains js where "answered (events s') (files_request p) (JList js)" and "ds = List.map_filter as_obj js"
proof -
  from assms obtain js where js: "fetch_json env Gateway ''/api/v2/torrents/files'' [(''hash'', JStr (pm_infohash p))] s
                = (Inr (JList js), s')" and ds: "ds = List.map_filter as_obj js"
    unfolding gateway_files_def returns by (auto simp: returns as_list_Some)
  show ?thesis by (rule that [OF _ ds]) (use get_answered [OF js] in \<open>simp add: files_request_def\<close>)
qed

lemma check_movie_checked:
  assumes "check_movie env cf p torrent s = (Inr (content_path, dl, titles), s')"
  shows "download_checked cf p dl (events s')"
proof -
  from assms obtain content s1 ds s2 selected s3 s4 dir where
      ds: "gateway_files env p s1 = (Inr ds, s2)"
      and each_path: "each (selected_path env cf p content (file_sizes ds)) (pm_selected_files p) s2 = (Inr selected, s3)"
      and media: "check_media env cf p (\<lambda>_. True) selected s3 = (Inr dl, s4)"
      and dir: "seen (WasDir content) (\<lambda>w. n_directory env w content) s4 = (Inr dir, s')"
    unfolding check_movie_def returns by (auto simp: returns)
  from gateway_files_answered [OF ds] obtain js where js: "answered (events s2) (files_request p) (JList js)"
      and ds': "ds = List.map_filter as_obj js" by metis
  have "events s4 \<subseteq> events s'" by (rule keeps_events [OF growth.leaves_seen dir]) simp
  then show ?thesis
    using selection_checked [OF js each_path [unfolded ds'] media] evidence_mono(6) by metis
qed

section \<open>How the import will take place\<close>

definition hardlinks_configured :: "service \<Rightarrow> event set \<Rightarrow> bool" where
  "hardlinks_configured arr E \<longleftrightarrow>
     (\<exists>d. answered E \<lparr>hq_method = GET, hq_service = arr, hq_path = ''/api/v3/config/mediamanagement'',
                        hq_params = [], hq_body = JNull\<rparr> (JObj d) \<and>
          jget d ''copyUsingHardlinks'' = JBool True \<and> jget d ''importExtraFiles'' \<noteq> JBool True)"

lemma hardlinks_enabled_configured:
  assumes "hardlink_import_enabled env arr s = (Inr True, s')"
  shows "hardlinks_configured arr (events s')"
  using assms unfolding hardlink_import_enabled_def hardlinks_configured_def returns
  by (auto split: option.splits simp: as_obj_Some dest!: get_answered)

text \<open>A link was tried with the owner of the library, or a copy fits beside what is pending.\<close>

definition placeable :: "fin_config \<Rightarrow> bool \<Rightarrow> posix \<Rightarrow> posix list \<Rightarrow> event set \<Rightarrow> bool" where
  "placeable cf copy video selected E \<longleftrightarrow>
     (if copy then
        (\<exists>cap now d pending sts.
           Measured (Inr cap) \<in> E \<and> pending_bytes d now cap None ''ssd'' = Inr pending \<and>
           list_all2 (\<lambda>path st. Statted path (Some st) \<in> E) selected sts \<and>
           sum_list (map fs_size sts) \<le> max 0 (cap_free_bytes cap - pending))
      else LinkProbed video (fc_media_root cf) True \<in> E)"

lemma copy_fits_measured:
  assumes "copy_fits env cf selected s = (Inr True, s')"
  shows "placeable cf True video selected (events s')"
proof -
  from assms obtain cap s1 now s2 pending sts where
      cap: "awaiting Measured (\<lambda>w d. n_capacity env w d) s = (Inr (Inr cap), s1)"
      and now: "clock env s1 = (Inr now, s2)"
      and pending: "pending_bytes (fn_db s2) now cap None ''ssd'' = Inr pending"
      and sts: "each (stat_of env) selected s2 = (Inr sts, s')"
      and fits: "sum_list (map fs_size sts) \<le> max 0 (cap_free_bytes cap - pending)"
    unfolding copy_fits_def returns by (auto simp: returns)
  have "Measured (Inr cap) \<in> events s1"
    using cap by (auto simp: awaiting_def events_def split: prod.splits)
  moreover have "events s1 \<subseteq> events s'"
    using kept_events(7) [OF now] keeps_events [OF growth.leaves_each sts] growth.leaves_files by blast
  moreover have "list_all2 (\<lambda>path st. Statted path (Some st) \<in> events s') selected sts"
    by (rule each_events [OF sts, of "\<lambda>E path st. Statted path (Some st) \<in> E"])
      (auto intro: growth.leaves_files file_events(4))
  ultimately show ?thesis using pending fits unfolding placeable_def if_True by blast
qed

lemma probe_hardlink_probed:
  assumes "probe_hardlink env owner source directory s = (Inr True, s')"
  shows "LinkProbed source directory True \<in> events s'"
  using assms unfolding probe_hardlink_def returns
  by (auto simp: returns dest: noting_event)

lemma import_mode_placeable:
  assumes "import_mode env cf video selected s = (Inr (Some copy), s')"
  shows "placeable cf copy video selected (events s')"
proof -
  from assms consider "probe_hardlink env (fc_owner cf) video (fc_media_root cf) s = (Inr True, s')" "\<not> copy"
    | s1 where "copy_fits env cf selected s1 = (Inr True, s')" "copy"
    unfolding import_mode_def returns by (auto simp: returns split: if_splits)
  then show ?thesis
    by cases (auto simp: placeable_def [of cf False] dest: probe_hardlink_probed copy_fits_measured)
qed

section \<open>The identity of the library file\<close>

text \<open>Where a file of the torrent was found.\<close>

definition selected_file :: "fin_config \<Rightarrow> permit \<Rightarrow> string \<Rightarrow> posix \<Rightarrow> event set \<Rightarrow> bool" where
  "selected_file cf p name path E \<longleftrightarrow>
     (\<exists>raw. logical_path p name = Inr raw \<and>
        Resolved (below (fc_torrent_root cf) (px_parts (posix_of (lstrip_slash (drop (length torrents_prefix) raw)))))
          (Some path) \<in> E)"

lemma torrent_file_mono: "selected_file cf p name path E \<Longrightarrow> E \<subseteq> E' \<Longrightarrow> selected_file cf p name path E'"
  unfolding selected_file_def by blast

lemma source_path_found:
  assumes "source_path env cf p name s = (Inr path, s')"
  shows "selected_file cf p name path (events s')"
  using assms unfolding source_path_def local_path_def selected_file_def Let_def returns
  by (auto simp: returns dest: file_events(1))

definition same_file :: "fin_config \<Rightarrow> permit \<Rightarrow> posix \<Rightarrow> bool \<Rightarrow> event set \<Rightarrow> bool" where
  "same_file cf p video copy_allowed E \<longleftrightarrow>
     (\<exists>name source a b.
        video_sources p = [name] \<and> selected_file cf p name source E \<and>
        Statted source (Some a) \<in> E \<and> Statted video (Some b) \<in> E \<and> fs_size a = fs_size b \<and>
        (fs_device a = fs_device b \<and> fs_inode a = fs_inode b \<or>
         copy_allowed \<and> (\<exists>c. ReadBytes source (Some c) \<in> E \<and> ReadBytes video (Some c) \<in> E)))"

lemma same_file_mono: "E \<subseteq> E' \<Longrightarrow> same_file cf p video copy_allowed E \<Longrightarrow> same_file cf p video copy_allowed E'"
  unfolding same_file_def selected_file_def by blast

lemma import_matches_same:
  assumes "import_matches env cf video p copy_allowed s = (Inr True, s')"
  shows "same_file cf p video copy_allowed (events s')"
proof -
  from assms obtain source s1 a s2 b s3 where
      found: "each (source_path env cf p) (video_sources p) s = (Inr [source], s1)"
      and a: "stat_of env source s1 = (Inr a, s2)" and b: "stat_of env video s2 = (Inr b, s3)"
      and sz: "fs_size a = fs_size b"
      and rest: "fs_device a = fs_device b \<and> fs_inode a = fs_inode b \<and> s' = s3 \<or>
        copy_allowed \<and> (\<exists>x s4. bytes_at env source s3 = (Inr x, s4) \<and> bytes_at env video s4 = (Inr x, s'))"
    unfolding import_matches_def returns by (auto simp: returns)
  have "list_all2 (\<lambda>name path. selected_file cf p name path (events s1)) (video_sources p) [source]"
    by (rule each_events [OF found, of "\<lambda>E name path. selected_file cf p name path E"])
      (auto intro: growth.leaves_paths source_path_found torrent_file_mono)
  then obtain name where name: "video_sources p = [name]" "selected_file cf p name source (events s1)"
    by (auto simp: list_all2_Cons2)
  have sub: "events s1 \<subseteq> events s2" "events s2 \<subseteq> events s3"
    using kept_events(3) [OF a] kept_events(3) [OF b] by auto
  from rest show ?thesis
  proof
    assume "fs_device a = fs_device b \<and> fs_inode a = fs_inode b \<and> s' = s3"
    then show ?thesis
      using name sub sz file_events(4) [OF a] file_events(4) [OF b]
      unfolding same_file_def selected_file_def by blast
  next
    assume "copy_allowed \<and> (\<exists>x s4. bytes_at env source s3 = (Inr x, s4) \<and> bytes_at env video s4 = (Inr x, s'))"
    then obtain x s4 where x: "copy_allowed" "bytes_at env source s3 = (Inr x, s4)" "bytes_at env video s4 = (Inr x, s')"
      by blast
    have "events s3 \<subseteq> events s4" "events s4 \<subseteq> events s'"
      using kept_events(4) [OF x(2)] kept_events(4) [OF x(3)] by auto
    then show ?thesis
      using name sub sz x(1) file_events(4) [OF a] file_events(4) [OF b] file_events(5) [OF x(2)] file_events(5) [OF x(3)]
      unfolding same_file_def selected_file_def by blast
  qed
qed

end
