(* ===== verification/FinalizerRuns.thy ===== *)
theory FinalizerRuns
  imports FinalizerEvidence
begin

text \<open>
  The finalizers as a whole: what holds of a call follows from what holds of the two steps that
  matter, the start of an import and its completion, with the evidence that precedes each.
\<close>

section \<open>Rules for sequences\<close>

definition monotone_evidence :: "(event set \<Rightarrow> bool) \<Rightarrow> bool" where
  "monotone_evidence K = (\<forall>E E'. E \<subseteq> E' \<longrightarrow> K E \<longrightarrow> K E')"

lemma leaves_and_events:
  fixes m :: "('w, 'a) job"
  assumes "leaves P m" and "\<And>l. leaves (logged_since l) m" and "monotone_evidence K"
  shows "leaves (\<lambda>s. P s \<and> K (events s)) m"
proof (rule tripleI)
  fix s
  assume s: "P s \<and> K (events s)"
  obtain r s1 where m: "m s = (r, s1)" by fastforce
  have "P s1" using triple_end [OF assms(1)] s by (metis m snd_conv)
  moreover have "K (events s1)"
    using keeps_events [OF assms(2) m] s assms(3) unfolding monotone_evidence_def by blast
  ultimately show "case m s of (Inl e, s') \<Rightarrow> P s' \<and> K (events s') | (Inr x, s') \<Rightarrow> P s' \<and> K (events s')"
    by (simp add: m split: sum.splits)
qed

text \<open>A quiet step first, with what its return shows.\<close>

lemma bind_fact:
  fixes m :: "('w, 'a) job"
  assumes "leaves P m" and "\<And>s. P s \<Longrightarrow> Q s"
    and "\<And>x s1 s2. m s1 = (Inr x, s2) \<Longrightarrow> K x (events s2)"
    and "\<And>x s1 s2. m s1 = (Inr x, s2) \<Longrightarrow> triple (\<lambda>s. P s \<and> K x (events s)) (f x) (\<lambda>_. Q) Q"
  shows "triple P (rbind m f) (\<lambda>_. Q) Q"
proof (rule tripleI)
  fix s
  assume s: "P s"
  obtain r s1 where m: "m s = (r, s1)" by fastforce
  have P1: "P s1" using triple_end [OF assms(1) s] by (simp add: m)
  show "case rbind m f s of (Inl e, s') \<Rightarrow> Q s' | (Inr x, s') \<Rightarrow> Q s'"
  proof (cases r)
    case (Inl e)
    then show ?thesis using m P1 assms(2) by (simp add: rbind_def)
  next
    case (Inr x)
    have "triple (\<lambda>s. P s \<and> K x (events s)) (f x) (\<lambda>_. Q) Q" and "K x (events s1)"
      using assms(3,4) m Inr by blast+
    then show ?thesis using m Inr P1 by (simp add: rbind_def triple_def)
  qed
qed

lemma bind_quiet:
  fixes m :: "('w, 'a) job"
  assumes "leaves P m" and "\<And>s. P s \<Longrightarrow> Q s"
    and "\<And>x s1 s2. m s1 = (Inr x, s2) \<Longrightarrow> triple P (f x) (\<lambda>_. Q) Q"
  shows "triple P (rbind m f) (\<lambda>_. Q) Q"
  using bind_fact [of P m Q "\<lambda>_ _. True" f] assms by simp

lemma give_quiet: "(\<And>s. P s \<Longrightarrow> Q s) \<Longrightarrow> triple P (give r) (\<lambda>_. Q) Q"
  by (rule triple_give)

lemma quiet_ends: "leaves P m \<Longrightarrow> (\<And>s. P s \<Longrightarrow> Q s) \<Longrightarrow> triple P m (\<lambda>_. Q) Q"
  by (rule triple_weaken)

lemmas end_rules = give_quiet triple_if triple_option triple_prod

section \<open>Movies\<close>

definition movie_ready :: "fin_config \<Rightarrow> permit \<Rightarrow> download \<Rightarrow> event set \<Rightarrow> bool" where
  "movie_ready cf p dl E \<longleftrightarrow>
     (\<exists>torrent. download_listed p torrent E \<and> finished torrent) \<and> download_checked cf p dl E"

lemma evidence_monotone:
  "monotone_evidence (same_file cf p video copy)" "monotone_evidence (movie_ready cf p dl)"
  "monotone_evidence (download_listed p torrent)" "monotone_evidence (download_checked cf p dl)"
  "monotone_evidence (placeable cf copy video selected)" "monotone_evidence (hardlinks_configured arr)"
proof -
  show "monotone_evidence (same_file cf p video copy)"
    unfolding monotone_evidence_def using same_file_mono by blast
  show "monotone_evidence (movie_ready cf p dl)" "monotone_evidence (download_listed p torrent)"
      "monotone_evidence (download_checked cf p dl)" "monotone_evidence (hardlinks_configured arr)"
    unfolding monotone_evidence_def movie_ready_def hardlinks_configured_def
    by (blast intro: evidence_mono)+
  have *: "list_all2 (\<lambda>path st. Statted path (Some st) \<in> E') selected sts"
    if "E \<subseteq> E'" "list_all2 (\<lambda>path st. Statted path (Some st) \<in> E) selected sts" for E E' sts
    using that(2) by (rule list_all2_mono) (use that(1) in auto)
  show "monotone_evidence (placeable cf copy video selected)"
    unfolding monotone_evidence_def placeable_def
  proof (intro allI impI)
    fix E E' :: "event set"
    assume "E \<subseteq> E'" and "if copy then \<exists>cap now d pending sts.
           Measured (Inr cap) \<in> E \<and> pending_bytes d now cap None ''ssd'' = Inr pending \<and>
           list_all2 (\<lambda>path st. Statted path (Some st) \<in> E) selected sts \<and>
           sum_list (map fs_size sts) \<le> max 0 (cap_free_bytes cap - pending)
      else LinkProbed video (fc_media_root cf) True \<in> E"
    then show "if copy then \<exists>cap now d pending sts.
           Measured (Inr cap) \<in> E' \<and> pending_bytes d now cap None ''ssd'' = Inr pending \<and>
           list_all2 (\<lambda>path st. Statted path (Some st) \<in> E') selected sts \<and>
           sum_list (map fs_size sts) \<le> max 0 (cap_free_bytes cap - pending)
      else LinkProbed video (fc_media_root cf) True \<in> E'"
      using * [OF \<open>E \<subseteq> E'\<close>] by (cases copy) (simp only: if_True, blast, simp only: if_False, blast)
  qed
qed

context unmoved
begin

lemma quiet_and:
  assumes "monotone_evidence K"
  shows "unmoved env (\<lambda>s. P s \<and> K (events s))"
proof
  have grows: "K (events (noted_in ev s))" if "K (events s)" for ev and s :: "'a fin"
  proof -
    have "events s \<subseteq> events (noted_in ev s)" by (auto simp: events_def noted_in_def)
    with assms that show ?thesis unfolding monotone_evidence_def by blast
  qed
  show "P (noted_in ev s) \<and> K (events (noted_in ev s))" if "P s \<and> K (events s)" "quiet_event ev" for s ev
    using that logs grows by blast
  show "P (s\<lparr>fn_world := w\<rparr>) \<and> K (events (s\<lparr>fn_world := w\<rparr>))" if "P s \<and> K (events s)" for s w
    using that turns by (simp add: events_def)
  show "P (s\<lparr>fn_db := d\<rparr>) \<and> K (events (s\<lparr>fn_db := d\<rparr>))"
    if "P s \<and> K (events s)" "others env (fn_db s) d" for s d
    using that waits by (simp add: events_def)
  show "P (s\<lparr>fn_subtitles := rows\<rparr>) \<and> K (events (s\<lparr>fn_subtitles := rows\<rparr>))" if "P s \<and> K (events s)" for s rows
    using that stores by (simp add: events_def)
qed

end

context watched
begin

lemma watched_and: "monotone_evidence K \<Longrightarrow> watched env (\<lambda>s. P s \<and> K (events s))"
  by (intro watched.intro watched_axioms.intro quiet_and leaves_and_events writes links growth.writes growth.links)

lemma finish_movie_triple:
  assumes PQ: "\<And>s. P s \<Longrightarrow> Q s"
    and finish: "\<And>video. triple (\<lambda>s. P s \<and> same_file cf p video copy (events s))
         (commit env (\<lambda>now d. (complete_movie_import now rid d, ()))) (\<lambda>_. Q) Q"
  shows "triple P (finish_movie_import env cf media_key rid p copy) (\<lambda>_. Q) Q"
proof -
  have ending: "triple (\<lambda>s. P s \<and> same_file cf p video copy (events s))
      (rbind (movie_file_path env cf m) (\<lambda>video.
       rbind (ensure_subtitle env cf video p None (sp_languages (fc_policy cf))) (\<lambda>_.
       rbind (commit env (\<lambda>now d. (complete_movie_import now rid d, ()))) (\<lambda>_. give (Inr ''complete'')))))
      (\<lambda>_. Q) Q" for video m
  proof -
    have W: "watched env (\<lambda>s. P s \<and> same_file cf p video copy (events s))"
      by (rule watched_and [OF evidence_monotone(1)])
    show ?thesis
      by (rule bind_quiet unmoved.leaves_movie(2) [OF quiet_and [OF evidence_monotone(1)]] watched.leaves_ensure_subtitle [OF W]
            triple_bind [OF finish] triple_give | (erule conjE, rule PQ, assumption) | assumption)+
  qed
  have matched: "triple P
      (rbind (import_matches env cf video p copy) (\<lambda>same.
       if \<not> same then give (Inr ''import_uncertain'')
       else
         rbind (movie_file_path env cf m) (\<lambda>video.
         rbind (ensure_subtitle env cf video p None (sp_languages (fc_policy cf))) (\<lambda>_.
         rbind (commit env (\<lambda>now d. (complete_movie_import now rid d, ()))) (\<lambda>_. give (Inr ''complete''))))))
      (\<lambda>_. Q) Q" for video m
  proof (rule bind_fact [where K = "\<lambda>same E. same \<longrightarrow> same_file cf p video copy E"], goal_cases)
    case 1
    show ?case by (rule leaves_import_matches)
  next
    case (2 s)
    then show ?case by (rule PQ)
  next
    case (3 x s1 s2)
    then show ?case using import_matches_same by (cases x) auto
  next
    case (4 x s1 s2)
    show ?case using ending [of video m] PQ by (cases x) (auto intro: give_quiet)
  qed
  show ?thesis
    unfolding finish_movie_import_def
    by (rule matched leaves_movie end_rules bind_quiet | (rule PQ, assumption))+
qed

lemma request_movie_triple:
  assumes PQ: "\<And>s. P s \<Longrightarrow> Q s"
    and start: "\<And>content dl. triple (\<lambda>s. P s \<and> movie_ready cf p dl (events s))
         (start_movie_import env cf rid p content dl) (\<lambda>_. Q) Q"
  shows "triple P (request_movie_import env cf media_key rid p) (\<lambda>_. Q) Q"
proof -
  have ready: "triple (\<lambda>s. P s \<and> movie_ready cf p dl (events s))
      (rbind (movie_subtitles env cf media_key rid p dl titles) (\<lambda>ready.
       if \<not> ready then give (Inr ''waiting_subtitles'') else start_movie_import env cf rid p content dl))
      (\<lambda>_. Q) Q" for dl titles content
    by (rule bind_quiet unmoved.leaves_movie(4) [OF quiet_and [OF evidence_monotone(2)]] triple_if start
          give_quiet | (erule conjE, rule PQ, assumption))+
  have checked: "triple (\<lambda>s. P s \<and> download_listed p torrent (events s))
      (rbind (check_movie env cf p torrent) (\<lambda>(content, dl, titles).
       rbind (movie_subtitles env cf media_key rid p dl titles) (\<lambda>ready.
       if \<not> ready then give (Inr ''waiting_subtitles'') else start_movie_import env cf rid p content dl)))
      (\<lambda>_. Q) Q" if "finished torrent" for torrent
  proof (rule bind_fact [where K = "\<lambda>(content, dl, titles) E. download_checked cf p dl E"], goal_cases)
    case 1
    show ?case by (rule unmoved.leaves_movie(3) [OF quiet_and [OF evidence_monotone(3)]])
  next
    case (2 s)
    then show ?case using PQ by blast
  next
    case (3 x s1 s2)
    then show ?case by (cases x) (auto intro: check_movie_checked)
  next
    case (4 x s1 s2)
    obtain content dl titles where x: "x = (content, dl, titles)" by (metis prod_cases3)
    show ?case unfolding x prod.case
      by (rule triple_weaken [OF ready]) (use that in \<open>auto simp: movie_ready_def\<close>)
  qed
  show ?thesis
    unfolding request_movie_import_def
  proof (rule bind_fact [where K = "\<lambda>found E. \<forall>torrent. found = Some torrent \<longrightarrow> download_listed p torrent E"], goal_cases)
    case 1
    show ?case by (rule leaves_gateway)
  next
    case (2 s)
    then show ?case by (rule PQ)
  next
    case (3 x s1 s2)
    then show ?case using gateway_torrent_listed by blast
  next
    case (4 x s1 s2)
    show ?case
    proof (cases x)
      case None
      then show ?thesis using PQ by (auto intro: give_quiet)
    next
      case (Some torrent)
      show ?thesis using checked [of torrent] PQ by (auto simp: Some intro: give_quiet)
    qed
  qed
qed

text \<open>What the database says at the start, and the two steps.\<close>

lemma finalize_movie_ends:
  assumes PQ: "\<And>s. P s \<Longrightarrow> Q s" and "P s"
    and start: "\<And>p content dl. confirmed_source rid None (fn_db s) = Some p \<Longrightarrow> reserved_for rid media_key (fn_db s) \<Longrightarrow>
       triple (\<lambda>s. P s \<and> movie_ready cf p dl (events s)) (start_movie_import env cf rid p content dl) (\<lambda>_. Q) Q"
    and finish: "\<And>p video copy. confirmed_source rid None (fn_db s) = Some p \<Longrightarrow>
       movie_import_state rid (fn_db s) = Some (if copy then ImAcceptedCopy else ImAccepted) \<Longrightarrow>
       triple (\<lambda>s. P s \<and> same_file cf p video copy (events s))
         (commit env (\<lambda>now d. (complete_movie_import now rid d, ()))) (\<lambda>_. Q) Q"
  shows "Q (snd (finalize_movie env cf media_key rid s))"
proof (cases "reserved_for rid media_key (fn_db s)")
  case False
  then show ?thesis using PQ \<open>P s\<close> by (simp add: finalize_movie_def rbind_def database_def give_def)
next
  case active: True
  show ?thesis
  proof (cases "confirmed_source rid None (fn_db s)")
    case None
    then show ?thesis using PQ \<open>P s\<close> active by (simp add: finalize_movie_def rbind_def database_def give_def)
  next
    case p: (Some p)
    have fin: "Q (snd (finish_movie_import env cf media_key rid p copy s))"
      if "movie_import_state rid (fn_db s) = Some (if copy then ImAcceptedCopy else ImAccepted)" for copy
      by (rule triple_end [OF finish_movie_triple [OF PQ finish [OF p that]] \<open>P s\<close>])
    have req: "Q (snd (request_movie_import env cf media_key rid p s))"
      by (rule triple_end [OF request_movie_triple [OF PQ start [OF p active]] \<open>P s\<close>])
    show ?thesis
      using fin [of False] fin [of True] req PQ \<open>P s\<close> active p
      by (simp add: finalize_movie_def rbind_def database_def give_def split: option.split import_state.split)
  qed
qed

end

section \<open>Episodes\<close>

definition episode_ready :: "fin_config \<Rightarrow> permit \<Rightarrow> nat \<Rightarrow> nat \<Rightarrow> string \<Rightarrow> event set \<Rightarrow> bool" where
  "episode_ready cf p season n path E \<longleftrightarrow>
     (\<exists>torrent dl content_path js.
        download_listed p torrent E \<and> jget torrent ''content_path'' = JStr content_path \<and>
        scan_path p content_path = Inr path \<and> answered E (files_request p) (JList js) \<and>
        (if pm_season_pack_parent_id p = None then finished torrent
         else set (pm_selected_files p) \<subseteq> set (completed_names (List.map_filter as_obj js))) \<and>
        download_checked cf p dl E \<and> single_episode_name (name_of (dl_video dl)) season n)"

lemma episode_ready_monotone: "monotone_evidence (episode_ready cf p season n path)"
  unfolding monotone_evidence_def episode_ready_def by (blast intro: evidence_mono)

lemma validate_download_ready:
  assumes "validate_download env cf p season n s = (Inr (Some ed), s')"
  shows "episode_ready cf p season n (ed_path ed) (events s')"
proof -
  from assms obtain torrent s1 content_path ds s2 where
      torrent: "gateway_torrent env p s = (Inr (Some torrent), s1)"
      and content: "jget torrent ''content_path'' = JStr content_path"
      and ds: "gateway_files env p s1 = (Inr ds, s2)"
      and ok: "if pm_season_pack_parent_id p = None then finished torrent
               else set (pm_selected_files p) \<subseteq> set (completed_names ds)"
      and check: "check_episode env cf p season n torrent content_path ds s2 = (Inr ed, s')"
    unfolding validate_download_def returns by (auto simp: returns as_str_Some split: if_splits)
  from check obtain content s3 s4 selected s5 dl s6 br s7 en where
      e1: "content_dir env cf p content_path s2 = (Inr content, s3)"
      and e2: "check_subtitle_names p season n s3 = (Inr (), s4)"
      and e3: "each (selected_path env cf p content (file_sizes ds)) (pm_selected_files p) s4 = (Inr selected, s5)"
      and e4: "check_media env cf p (\<lambda>video. single_episode_name (name_of video) season n) selected s5 = (Inr dl, s6)"
      and e5: "subtitle_present cf (pm_reservation_id p) p (pm_scope_key p) ''subdl'' ''BR_PT'' (dl_brazilian dl) s6 = (Inr br, s7)"
      and e6: "english_present cf (pm_reservation_id p) p (pm_scope_key p) ''subdl'' dl s7 = (Inr en, s')"
      and path: "scan_path p content_path = Inr (ed_path ed)"
    unfolding check_episode_def returns by (auto simp: returns)
  have s4: "s4 = s3" using e2 by (auto simp: check_subtitle_names_def)
  from gateway_files_answered [OF ds] obtain js where js: "answered (events s2) (files_request p) (JList js)"
      and ds': "ds = List.map_filter as_obj js" by metis
  have sub: "events s1 \<subseteq> events s2" "events s2 \<subseteq> events s3" "events s3 \<subseteq> events s5" "events s5 \<subseteq> events s6" "events s6 \<subseteq> events s'"
    using keeps_events [OF growth.leaves_gateway(2) ds] kept_events(11) [OF e1]
      keeps_events [OF growth.leaves_each [OF growth.leaves_selected_path] e3] s4
      keeps_events [OF growth.leaves_check_media e4]
      keeps_events [OF growth.leaves_subtitle_state(1) e5] keeps_events [OF growth.leaves_subtitle_state(2) e6]
    by auto
  have js3: "answered (events s4) (files_request p) (JList js)" using js sub s4 evidence_mono(1) by metis
  have "download_checked cf p dl (events s')"
    using selection_checked [OF js3 e3 [unfolded ds'] e4] sub(5) evidence_mono(6) by metis
  moreover have "single_episode_name (name_of (dl_video dl)) season n" by (rule check_media_checked(2) [OF e4])
  moreover have "download_listed p torrent (events s')"
    using gateway_torrent_listed [OF torrent] sub evidence_mono(2) by (metis subset_trans)
  moreover have "answered (events s') (files_request p) (JList js)"
    using js sub evidence_mono(1) by (metis subset_trans)
  ultimately show ?thesis
    using content path ok unfolding episode_ready_def ds' by blast
qed

context watched
begin

lemma still_active_triple:
  assumes "\<And>s. P s \<Longrightarrow> Q s"
    and "triple (\<lambda>s. P s \<and> season_active (cr_rid cr) (cr_media_key cr) (fn_db s)) m (\<lambda>_. Q) Q"
  shows "triple P (still_active cr m) (\<lambda>_. Q) Q"
  using assms by (auto simp: triple_def still_active_def rbind_def database_def give_def split: prod.splits sum.splits)

lemma still_active_quiet:
  "(\<And>s. P s \<Longrightarrow> Q s) \<Longrightarrow> triple P m (\<lambda>_. Q) Q \<Longrightarrow> triple P (still_active cr m) (\<lambda>_. Q) Q"
  by (rule still_active_triple) (auto intro: triple_weaken)

lemma finish_episode_triple:
  assumes PQ: "\<And>s. P s \<Longrightarrow> Q s"
    and finish: "\<And>video. triple (\<lambda>s. P s \<and> same_file cf p video copy (events s))
         (commit env (\<lambda>now d. (complete_episode_import now (pm_id p) d, ()))) (\<lambda>_. Q) Q"
  shows "triple P (finish_episode_import env cf cr p e copy) (\<lambda>_. Q) Q"
proof -
  have ending: "triple (\<lambda>s. P s \<and> same_file cf p video copy (events s))
      (rbind (ensure_episode_subtitle env cf video p) (\<lambda>_.
       rbind (commit env (\<lambda>now d. (complete_episode_import now (pm_id p) d, ()))) (\<lambda>_. give (Inr ''complete''))))
      (\<lambda>_. Q) Q" for video
    by (rule bind_quiet watched.leaves_ensure_episode [OF watched_and [OF evidence_monotone(1)]]
          triple_bind [OF finish] triple_give | (erule conjE, rule PQ, assumption) | assumption)+
  have matched: "triple P
      (rbind (import_matches env cf video p copy) (\<lambda>same.
       if \<not> same then give (Inr ''import_uncertain'')
       else
         rbind (ensure_episode_subtitle env cf video p) (\<lambda>_.
         rbind (commit env (\<lambda>now d. (complete_episode_import now (pm_id p) d, ()))) (\<lambda>_. give (Inr ''complete'')))))
      (\<lambda>_. Q) Q" for video
  proof (rule bind_fact [where K = "\<lambda>same E. same \<longrightarrow> same_file cf p video copy E"], goal_cases)
    case 1
    show ?case by (rule leaves_import_matches)
  next
    case (2 s)
    then show ?case by (rule PQ)
  next
    case (3 x s1 s2)
    then show ?case using import_matches_same by (cases x) auto
  next
    case (4 x s1 s2)
    show ?case using ending [of video] PQ by (cases x) (auto intro: give_quiet)
  qed
  show ?thesis
    unfolding finish_episode_import_def
    by (rule matched leaves_imported_video still_active_quiet triple_if give_quiet bind_quiet | (rule PQ, assumption))+
qed

lemma episode_subtitles_triple:
  assumes PQ: "\<And>s. P s \<Longrightarrow> Q s" and "triple P m (\<lambda>_. Q) Q"
  shows "triple P (episode_subtitles env cf cr n p ed m) (\<lambda>_. Q) Q"
  unfolding episode_subtitles_def
  by (rule assms(2) triple_if give_quiet still_active_quiet bind_quiet leaves_recover triple_option triple_prod
        leaves_subtitle_state triple_rules | (rule PQ, assumption))+

lemma request_episode_triple:
  assumes PQ: "\<And>s. P s \<Longrightarrow> Q s"
    and start: "\<And>ed. triple (\<lambda>s. P s \<and> episode_ready cf p (cr_season cr) n (ed_path ed) (events s))
         (start_episode_import env cf cr p ed) (\<lambda>_. Q) Q"
  shows "triple P (request_episode_import env cf cr n p e) (\<lambda>_. Q) Q"
proof -
  have ready: "triple (\<lambda>s. P s \<and> episode_ready cf p (cr_season cr) n (ed_path ed) (events s))
      (episode_subtitles env cf cr n p ed (start_episode_import env cf cr p ed)) (\<lambda>_. Q) Q" for ed
    by (rule watched.episode_subtitles_triple [OF watched_and [OF episode_ready_monotone] _ start]) (auto intro: PQ)
  have valid: "triple P
      (rbind (validate_download env cf p (cr_season cr) n) (\<lambda>validated.
       still_active cr
         (case validated of
            None \<Rightarrow> give (Inr ''downloading'')
          | Some ed \<Rightarrow> episode_subtitles env cf cr n p ed (start_episode_import env cf cr p ed)))) (\<lambda>_. Q) Q"
  proof (rule bind_fact [where K = "\<lambda>v E. \<forall>ed. v = Some ed \<longrightarrow> episode_ready cf p (cr_season cr) n (ed_path ed) E"], goal_cases)
    case 1
    show ?case by (rule leaves_validate_download)
  next
    case (2 s)
    then show ?case by (rule PQ)
  next
    case (3 x s1 s2)
    then show ?case using validate_download_ready by blast
  next
    case (4 x s1 s2)
    have W: "watched env (\<lambda>s. P s \<and> (\<forall>ed. x = Some ed \<longrightarrow> episode_ready cf p (cr_season cr) n (ed_path ed) (events s)))"
      by (rule watched_and [of "\<lambda>E. \<forall>ed. x = Some ed \<longrightarrow> episode_ready cf p (cr_season cr) n (ed_path ed) E"])
        (use episode_ready_monotone in \<open>unfold monotone_evidence_def, blast\<close>)
    show ?case
    proof (rule watched.still_active_quiet [OF W])
      show "Q s" if "P s \<and> (\<forall>ed. x = Some ed \<longrightarrow> episode_ready cf p (cr_season cr) n (ed_path ed) (events s))" for s
        using that PQ by blast
      show "triple (\<lambda>s. P s \<and> (\<forall>ed. x = Some ed \<longrightarrow> episode_ready cf p (cr_season cr) n (ed_path ed) (events s)))
          (case x of None \<Rightarrow> give (Inr ''downloading'')
           | Some ed \<Rightarrow> episode_subtitles env cf cr n p ed (start_episode_import env cf cr p ed)) (\<lambda>_. Q) Q"
        using ready PQ by (cases x) (auto intro: give_quiet)
    qed
  qed
  show ?thesis
    unfolding request_episode_import_def
    by (rule valid triple_if give_quiet | (rule PQ, assumption))+
qed

end

text \<open>Up to the first wait the loop only reads the database.\<close>

lemma episodes_choice:
  fixes s :: "'w fin"
  shows "(\<exists>answer. finalize_episodes env cf cr seen_complete es s = (Inr answer, s)) \<or>
    (\<exists>season n e p. ((season, n), e) \<in> set es \<and>
       confirmed_source (cr_rid cr) (Some (scope_of (cr_season cr) n)) (fn_db s) = Some p \<and>
       before_first cr n = None \<and>
       (finalize_episodes env cf cr seen_complete es s = request_episode_import env cf cr n p e s \<or>
        (\<exists>copy. episode_state (pm_id p) (fn_db s) = Some (if copy then ImAcceptedCopy else ImAccepted) \<and>
                finalize_episodes env cf cr seen_complete es s = finish_episode_import env cf cr p e copy s)))"
    (is "?answer seen_complete es \<or> ?turn seen_complete es")
proof (induction es arbitrary: seen_complete)
  case Nil
  show ?case by (simp add: give_def)
next
  case (Cons x es)
  obtain season n e where x: "x = ((season, n), e)" by (metis surj_pair)
  have later: "?answer seen (x # es) \<or> ?turn seen (x # es)"
    if "finalize_episodes env cf cr seen (x # es) s = finalize_episodes env cf cr seen' es s" for seen seen'
    using Cons.IH [of seen'] unfolding that by (metis list.set_intros(2))
  show ?case
  proof (cases "season_active (cr_rid cr) (cr_media_key cr) (fn_db s)")
    case False
    then show ?thesis by (simp add: x still_active_def rbind_def database_def give_def)
  next
    case active: True
    show ?thesis
    proof (cases "episode_gone (cr_tmdb cr) (cr_season cr) n (fn_db s)")
      case True
      show ?thesis by (rule later) (simp add: x still_active_def rbind_def database_def active True)
    next
      case here: False
      show ?thesis
      proof (cases "confirmed_source (cr_rid cr) (Some (scope_of (cr_season cr) n)) (fn_db s)")
        case None
        show ?thesis by (rule later) (simp add: x still_active_def rbind_def database_def active here None)
      next
        case p: (Some p)
        show ?thesis
        proof (cases "before_first cr n")
          case (Some answer)
          then show ?thesis by (simp add: x still_active_def rbind_def database_def active here p give_def)
        next
          case first: None
          note simps = x still_active_def rbind_def database_def active here p first give_def
          show ?thesis
          proof (cases "episode_state (pm_id p) (fn_db s) = Some ImComplete")
            case True
            show ?thesis by (rule later) (simp add: simps True)
          next
            case False
            have "?answer seen_complete (x # es) \<or>
                finalize_episodes env cf cr seen_complete (x # es) s = request_episode_import env cf cr n p e s \<or>
                (\<exists>copy. episode_state (pm_id p) (fn_db s) = Some (if copy then ImAcceptedCopy else ImAccepted) \<and>
                  finalize_episodes env cf cr seen_complete (x # es) s = finish_episode_import env cf cr p e copy s)"
              using False
              by (cases "episode_state (pm_id p) (fn_db s)"; cases "the (episode_state (pm_id p) (fn_db s))")
                (simp_all add: simps ex_bool_eq)
            then show ?thesis using p first x by (metis list.set_intros(1))
          qed
        qed
      qed
    qed
  qed
qed

lemma placed_keeps:
  fixes s :: "'w fin"
  assumes "placed_episodes env cf seasons es s = (r, s')"
  shows "fn_db s' = fn_db s" and "fn_log s' = fn_log s"
proof -
  have "leaves (\<lambda>t. fn_db t = fn_db s \<and> fn_log t = fn_log s) (placed_episodes env cf seasons es)"
  proof (induction es)
    case Nil
    show ?case by (simp only: placed_episodes.simps) (intro triple_rules)
  next
    case (Cons e es)
    have "leaves (\<lambda>t. fn_db t = fn_db s \<and> fn_log t = fn_log s) (clock env)"
      by (auto simp: triple_def clock_def split: prod.splits)
    then have "leaves (\<lambda>t. fn_db t = fn_db s \<and> fn_log t = fn_log s) (episode_aired env cf e)"
      unfolding episode_aired_def by (intro triple_rules)
    with Cons show ?case by (simp only: placed_episodes.simps) (intro triple_rules)
  qed
  from triple_end [OF this, of s] assms show "fn_db s' = fn_db s" "fn_log s' = fn_log s" by simp_all
qed

lemma prefix_rbind:
  fixes m :: "('w, 'a) job" and f :: "'a \<Rightarrow> ('w, 'b) job"
  assumes "prefix l (fn_log (snd (m s)))" and "\<And>x. leaves (logged_since l) (f x)"
  shows "prefix l (fn_log (snd (rbind m f s)))"
proof -
  obtain r s1 where m: "m s = (r, s1)" by fastforce
  have "logged_since l s1" using assms(1) m by (simp add: logged_since_def)
  then have "logged_since l (snd (f x s1))" for x by (rule triple_end [OF assms(2)])
  then show ?thesis
    using m assms(1) by (cases r) (auto simp: rbind_def logged_since_def)
qed

end
