(* ===== verification/FinalizerOrder.thy ===== *)
theory FinalizerOrder
  imports FinalizerRuns
begin

text \<open>
  The order in which the episodes of a season are imported, as a call of the finalizer sees it:
  the seasons that were asked for, what Sonarr lists, and what counts as imported.
\<close>

section \<open>The order of the episodes\<close>

text \<open>
  An episode that counts: monitored, and its date, when it has one, is one that no reading of
  the clock precedes.
\<close>

definition episode_counts :: "'w fin_env \<Rightarrow> fin_config \<Rightarrow> (string \<times> json) list \<Rightarrow> bool" where
  "episode_counts env cf e \<longleftrightarrow>
     jget e ''monitored'' \<noteq> JBool False \<and>
     (\<forall>date w. Option.bind (as_str (jget e ''airDateUtc'')) (fc_parse_iso cf) = Some date \<longrightarrow>
               date \<le> of_int (fst (n_now env w)))"

definition earlier_imported ::
    "'w fin_env \<Rightarrow> fin_config \<Rightarrow> nat \<Rightarrow> nat \<Rightarrow> nat \<Rightarrow> (nat \<times> string) list \<Rightarrow> (string \<times> json) list list \<Rightarrow> db \<Rightarrow> bool"
    where
  "earlier_imported env cf tmdb season n seasons episodes d \<longleftrightarrow>
     (\<forall>(k, _)\<in>set seasons. k < season \<longrightarrow> (\<exists>e\<in>set episodes. known_season seasons e = Some k)) \<and>
     (\<forall>e\<in>set episodes. \<forall>place. episode_counts env cf e \<longrightarrow> episode_at seasons e = Some place \<longrightarrow>
        place < (season, n) \<longrightarrow> episode_imported tmdb seasons d (place, e))"

lemma placed_complete:
  "placed_episodes env cf seasons es s = (Inr found, s') \<Longrightarrow> e \<in> set es \<Longrightarrow> episode_counts env cf e \<Longrightarrow>
   episode_at seasons e = Some place \<Longrightarrow> (place, e) \<in> set found"
proof (induction es arbitrary: s found)
  case Nil
  then show ?case by simp
next
  case (Cons x es)
  have late: "aired \<noteq> Some False" if "episode_counts env cf x" "episode_aired env cf x s1 = (Inr aired, s2)" for s1 s2 aired
    using that by (auto simp: episode_aired_def episode_counts_def clock_def rbind_def give_def
        split: option.splits prod.splits) (metis fst_conv)
  show ?case
  proof (cases "x = e")
    case True
    then have m: "jget x ''monitored'' \<noteq> JBool False" using Cons.prems(3) by (simp add: episode_counts_def)
    from Cons.prems(1) show ?thesis
      unfolding placed_episodes.simps using m True Cons.prems(3,4) late
      by (auto simp: returns split: if_splits)
  next
    case False
    with Cons.prems(2) have "e \<in> set es" by simp
    note IH = Cons.IH [OF _ this Cons.prems(3,4)]
    from Cons.prems(1) show ?thesis
      unfolding placed_episodes.simps
      by (auto simp: returns split: option.splits if_splits dest!: IH)
  qed
qed

lemma first_of_sorted:
  fixes xs :: "('k :: linorder \<times> 'v) list"
  shows "sorted (map fst xs) \<Longrightarrow> find_row P xs = Some y \<Longrightarrow> x \<in> set xs \<Longrightarrow> P x \<Longrightarrow> fst y \<le> fst x"
  by (induction xs) (auto split: if_splits)

lemma course_in_order:
  assumes found: "placed_episodes env cf seasons episodes s1 = (Inr found, s2)"
    and n: "before_first (plot_course media_key rid tmdb season seasons episodes (chronological found) d) n = None"
  shows "earlier_imported env cf tmdb season n seasons episodes d"
proof -
  let ?cr = "plot_course media_key rid tmdb season seasons episodes (chronological found) d"
  have "\<not> cr_gap ?cr" using n by (auto simp: before_first_def split: if_splits)
  then have gap: "\<exists>e\<in>set episodes. known_season seasons e = Some k" if "(k, r) \<in> set seasons" "k < season" for k r
    using that by (fastforce simp: plot_course_def list_ex_iff map_filter_def)
  have "episode_imported tmdb seasons d (place, e)"
    if e: "e \<in> set episodes" "episode_counts env cf e" "episode_at seasons e = Some place" "place < (season, n)"
    for e place
  proof (rule ccontr)
    assume not: "\<not> episode_imported tmdb seasons d (place, e)"
    have mem: "(place, e) \<in> set (chronological found)"
      using placed_complete [OF found e(1,2,3)] by (simp add: chronological_def)
    then obtain y where y: "find_row (\<lambda>x. \<not> episode_imported tmdb seasons d x) (chronological found) = Some y"
      using find_row_ex [of "(place, e)" _ "\<lambda>x. \<not> episode_imported tmdb seasons d x"] not by blast
    have "sorted (map fst (chronological found))" by (simp add: chronological_def)
    from first_of_sorted [OF this y mem not] have "fst y \<le> place" by simp
    then have "fst y < (season, n)" using e(4) by (rule le_less_trans)
    then show False
      using n y by (cases "fst y") (auto simp: before_first_def plot_course_def split: if_splits)
  qed
  with gap show ?thesis unfolding earlier_imported_def by blast
qed

text \<open>What Sonarr answered about the series.\<close>

definition sonarr_request :: "string \<Rightarrow> (string \<times> json) list \<Rightarrow> request" where
  "sonarr_request path params =
     \<lparr>hq_method = GET, hq_service = Sonarr, hq_path = path, hq_params = params, hq_body = JNull\<rparr>"

definition episodes_listed :: "nat \<Rightarrow> (string \<times> json) list list \<Rightarrow> event set \<Rightarrow> bool" where
  "episodes_listed tmdb episodes E \<longleftrightarrow>
     episodes = [] \<or>
     (\<exists>series rows js. answered E (sonarr_request ''/api/v3/series'' []) (JList rows) \<and> JObj series \<in> set rows \<and>
        same_number (jget series ''tmdbId'') (int tmdb) \<and>
        answered E (sonarr_request ''/api/v3/episode'' [(''seriesId'', jget series ''id'')]) (JList js) \<and>
        episodes = List.map_filter as_obj js)"

lemma episodes_listed_monotone: "monotone_evidence (episodes_listed tmdb episodes)"
  unfolding monotone_evidence_def episodes_listed_def by (blast intro: evidence_mono)

lemma episodes_of_listed:
  assumes "episodes_of env tmdb s = (Inr episodes, s')"
  shows "episodes_listed tmdb episodes (events s')"
proof -
  from assms obtain rows s1 where rows: "fetch_json env Sonarr ''/api/v3/series'' [] s = (Inr (JList rows), s1)"
      and rest: "find_row (\<lambda>d. same_number (jget d ''tmdbId'') (int tmdb) \<and> as_int_or_bool (jget d ''id'') \<noteq> None)
                   (List.map_filter as_obj rows) = None \<and> episodes = [] \<or>
        (\<exists>series js. find_row (\<lambda>d. same_number (jget d ''tmdbId'') (int tmdb) \<and> as_int_or_bool (jget d ''id'') \<noteq> None)
                   (List.map_filter as_obj rows) = Some series \<and>
           fetch_json env Sonarr ''/api/v3/episode'' [(''seriesId'', jget series ''id'')] s1 = (Inr (JList js), s') \<and>
           episodes = List.map_filter as_obj js)"
    unfolding episodes_of_def returns by (auto simp: returns as_list_Some)
  from rest show ?thesis
  proof
    assume "\<exists>series js. find_row (\<lambda>d. same_number (jget d ''tmdbId'') (int tmdb) \<and> as_int_or_bool (jget d ''id'') \<noteq> None)
                   (List.map_filter as_obj rows) = Some series \<and>
           fetch_json env Sonarr ''/api/v3/episode'' [(''seriesId'', jget series ''id'')] s1 = (Inr (JList js), s') \<and>
           episodes = List.map_filter as_obj js"
    then obtain series js where series: "find_row (\<lambda>d. same_number (jget d ''tmdbId'') (int tmdb) \<and>
          as_int_or_bool (jget d ''id'') \<noteq> None) (List.map_filter as_obj rows) = Some series"
        and js: "fetch_json env Sonarr ''/api/v3/episode'' [(''seriesId'', jget series ''id'')] s1 = (Inr (JList js), s')"
        and eps: "episodes = List.map_filter as_obj js" by blast
    from find_row_Some [OF series] have "JObj series \<in> set rows" "same_number (jget series ''tmdbId'') (int tmdb)"
      by (simp_all add: as_obj_member)
    moreover have "answered (events s') (sonarr_request ''/api/v3/series'' []) (JList rows)"
      unfolding sonarr_request_def by (rule evidence_mono(1) [OF kept_events(9) [OF js] get_answered [OF rows]])
    moreover have "answered (events s') (sonarr_request ''/api/v3/episode'' [(''seriesId'', jget series ''id'')]) (JList js)"
      using get_answered [OF js] unfolding sonarr_request_def .
    ultimately show ?thesis unfolding episodes_listed_def eps by blast
  qed (simp add: episodes_listed_def)
qed

end
