(* ===== verification/FinalizerScans.thy ===== *)
theory FinalizerScans
  imports FinalizerOrder ImportExclusion
begin

text \<open>
  When a scan is asked for.  The scan is the last thing a finalizer does; it is preceded by
  the claim of the import, made with the same database, and by the evidence of \<open>FinalizerEvidence\<close>.
  For an episode the order of the episodes is kept as well.
\<close>

section \<open>Other processes\<close>

text \<open>While a call waits, others change the import tables by the operations of \<open>persistence/db.py\<close>.\<close>

definition imports_lawful :: "'w fin_env \<Rightarrow> bool" where
  "imports_lawful env \<longleftrightarrow>
     (\<forall>d d'. others env d d' \<longrightarrow>
        (\<exists>ls d1. run import_step d ls d1 \<and> movie_imports d' = movie_imports d1 \<and>
                 episode_imports d' = episode_imports d1))"

definition unscanned :: "'w fin \<Rightarrow> bool" where
  "unscanned s = (\<forall>ev\<in>events s. \<not> is_scan ev)"

lemma calm_unscanned:
  assumes "imports_lawful env"
  shows "calm env (\<lambda>s. unscanned s \<and> imports_exclusive (fn_db s))"
proof
  fix s :: "'a fin" and d
  assume s: "unscanned s \<and> imports_exclusive (fn_db s)" and "others env (fn_db s) d"
  with assms obtain ls d1 where "run import_step (fn_db s) ls d1"
      and same: "movie_imports d = movie_imports d1" "episode_imports d = episode_imports d1"
    unfolding imports_lawful_def by blast
  with s have "imports_exclusive d1" using importing.run_inv by blast
  then have "imports_exclusive d"
    using same by (simp add: imports_exclusive_def import_states_def)
  with s show "unscanned (s\<lparr>fn_db := d\<rparr>) \<and> imports_exclusive (fn_db (s\<lparr>fn_db := d\<rparr>))"
    by (simp add: unscanned_def events_def)
qed (auto simp: unscanned_def events_def noted_in_def)

section \<open>The claim and the scan\<close>

definition scan_request :: "service \<Rightarrow> string \<Rightarrow> string \<Rightarrow> permit \<Rightarrow> request" where
  "scan_request arr name path p =
     \<lparr>hq_method = POST, hq_service = arr, hq_path = ''/api/v3/command'', hq_params = [],
      hq_body = scan_command name path p\<rparr>"

text \<open>The log ends with its only scan, for which this holds.\<close>

definition scanned_last :: "(noted list \<Rightarrow> noted \<Rightarrow> bool) \<Rightarrow> 'w fin \<Rightarrow> bool" where
  "scanned_last ok s \<longleftrightarrow>
     (\<exists>before x. fn_log s = before @ [x] \<and> (\<forall>y\<in>set before. \<not> is_scan (nt_event y)) \<and> ok before x)"

lemma request_scan_log:
  "fn_log (snd (request_scan env arr name path p s)) =
     fn_log s @ [\<lparr>nt_event = Request (scan_request arr name path p)
                    (fst (n_http env (fn_world s) (fn_db s) (scan_request arr name path p))), nt_db = fn_db s\<rparr>]"
  by (cases "n_http env (fn_world s) (fn_db s) (scan_request arr name path p)")
    (auto simp: request_scan_def post_json_def send_to_def awaiting_def rbind_def give_def invalid_def scan_request_def
      split: sum.splits option.splits)

lemma commit_log: "fn_log (snd (commit env f s)) = fn_log s"
  by (auto simp: commit_def split: prod.splits)

lemma tripleI_snd: "(\<And>s. P s \<Longrightarrow> Q (snd (m s))) \<Longrightarrow> triple P m (\<lambda>_. Q) Q"
  by (rule tripleI) (fastforce split: prod.splits sum.splits)

lemma snd_rbind_log:
  assumes "\<And>x s. fn_log (snd (f x s)) = fn_log s"
  shows "fn_log (snd (rbind m f s)) = fn_log (snd (m s))"
proof -
  obtain r s1 where "m s = (r, s1)" by fastforce
  then show ?thesis using assms by (auto simp: rbind_def split: sum.splits)
qed

abbreviation scan_dispatch ::
    "'w fin_env \<Rightarrow> (time \<Rightarrow> db \<Rightarrow> db \<times> bool) \<Rightarrow> (string \<Rightarrow> time \<Rightarrow> db \<Rightarrow> db \<times> unit) \<Rightarrow> service \<Rightarrow> string \<Rightarrow>
     string \<Rightarrow> permit \<Rightarrow> ('w, string) job" where
  "scan_dispatch env claim record arr name path p \<equiv>
     rbind (commit env claim) (\<lambda>claimed.
     if \<not> claimed then give (Inr ''import_pending'')
     else
       rbind (request_scan env arr name path p) (\<lambda>i.
       rbind (commit env (record i)) (\<lambda>_. give (Inr ''import_requested''))))"

abbreviation scanned_well :: "(noted list \<Rightarrow> noted \<Rightarrow> bool) \<Rightarrow> 'w fin \<Rightarrow> bool" where
  "scanned_well ok s \<equiv> unscanned s \<or> scanned_last ok s"

lemma dispatch_triple:
  assumes "\<And>s. P s \<Longrightarrow> unscanned s"
    and "\<And>s now d1 answer. P s \<Longrightarrow> claim now (fn_db s) = (d1, True) \<Longrightarrow>
       ok (fn_log s) \<lparr>nt_event = Request (scan_request arr name path p) answer, nt_db = d1\<rparr>"
  shows "triple P (scan_dispatch env claim record arr name path p) (\<lambda>_. scanned_well ok) (scanned_well ok)"
proof (rule tripleI_snd)
  fix s
  assume s: "P s"
  obtain now w where n: "n_now env (fn_world s) = (now, w)" by fastforce
  obtain d1 claimed where c: "claim now (fn_db s) = (d1, claimed)" by fastforce
  define s1 where "s1 = s\<lparr>fn_world := w, fn_db := d1\<rparr>"
  have m: "commit env claim s = (Inr claimed, s1)" by (simp add: commit_def n c s1_def)
  show "scanned_well ok (snd (scan_dispatch env claim record arr name path p s))"
  proof (cases claimed)
    case False
    then show ?thesis using assms(1) [OF s] by (simp add: rbind_def m give_def s1_def unscanned_def events_def)
  next
    case True
    let ?m = "rbind (request_scan env arr name path p) (\<lambda>i.
         rbind (commit env (record i)) (\<lambda>_. give (Inr ''import_requested'')))"
    define x where "x = \<lparr>nt_event = Request (scan_request arr name path p)
                    (fst (n_http env (fn_world s1) (fn_db s1) (scan_request arr name path p))), nt_db = d1\<rparr>"
    have "fn_log (snd (?m s1)) = fn_log (snd (request_scan env arr name path p s1))"
      by (intro snd_rbind_log trans [OF snd_rbind_log commit_log]) (simp add: give_def)
    also have "\<dots> = fn_log s @ [x]" unfolding request_scan_log by (simp add: s1_def x_def)
    finally have log: "fn_log (snd (?m s1)) = fn_log s @ [x]" .
    have "ok (fn_log s) x" unfolding x_def by (rule assms(2) [OF s]) (use c True in simp)
    moreover have "\<forall>y\<in>set (fn_log s). \<not> is_scan (nt_event y)"
      using assms(1) [OF s] by (simp add: unscanned_def events_def)
    ultimately have "scanned_last ok (snd (?m s1))" using log unfolding scanned_last_def by blast
    then show ?thesis by (simp add: rbind_def [of "commit env claim"] m True)
  qed
qed

section \<open>The steps before the claim\<close>

text \<open>Where the files of the torrent were found when the scan is about to be asked for.\<close>

definition files_located :: "fin_config \<Rightarrow> permit \<Rightarrow> posix list \<Rightarrow> event set \<Rightarrow> bool" where
  "files_located cf p selected E \<longleftrightarrow>
     list_all2 (\<lambda>name path. selected_file cf p name path E) (pm_selected_files p) selected"

lemma files_located_monotone: "monotone_evidence (files_located cf p selected)"
  unfolding monotone_evidence_def files_located_def by (auto elim!: list_all2_mono intro: torrent_file_mono)

context unmoved
begin

lemma enabled_triple:
  assumes "\<And>s. P s \<Longrightarrow> Q s"
    and "triple (\<lambda>s. P s \<and> hardlinks_configured arr (events s)) m (\<lambda>_. Q) Q"
  shows "triple P (rbind (hardlink_import_enabled env arr) (\<lambda>enabled.
           if \<not> enabled then give (Inr ''import_guard'') else m)) (\<lambda>_. Q) Q"
proof (rule bind_fact [where K = "\<lambda>enabled E. enabled \<longrightarrow> hardlinks_configured arr E"], goal_cases)
  case 1
  show ?case by (rule leaves_import_mode)
next
  case (2 s)
  then show ?case by (rule assms(1))
next
  case (3 x s1 s2)
  then show ?case using hardlinks_enabled_configured by (cases x) auto
next
  case (4 x s1 s2)
  then show ?case using assms by (cases x) (auto intro!: give_quiet)
qed

lemma mode_triple:
  assumes "\<And>s. P s \<Longrightarrow> Q s"
    and "\<And>copy. triple (\<lambda>s. P s \<and> placeable cf copy video selected (events s)) (f copy) (\<lambda>_. Q) Q"
  shows "triple P (rbind (import_mode env cf video selected) (\<lambda>mode.
           case mode of None \<Rightarrow> give (Inr ''waiting_space'') | Some copy \<Rightarrow> f copy)) (\<lambda>_. Q) Q"
proof (rule bind_fact [where K = "\<lambda>mode E. \<forall>copy. mode = Some copy \<longrightarrow> placeable cf copy video selected E"], goal_cases)
  case 1
  show ?case by (rule leaves_import_mode)
next
  case (2 s)
  then show ?case by (rule assms(1))
next
  case (3 x s1 s2)
  then show ?case using import_mode_placeable by blast
next
  case (4 x s1 s2)
  then show ?case using assms by (cases x) (auto intro!: give_quiet)
qed

text \<open>The selected files are found again, the video among them.\<close>

lemma located_triple:
  assumes "\<And>s. P s \<Longrightarrow> Q s"
    and "\<And>video selected. video \<in> set selected \<Longrightarrow>
       triple (\<lambda>s. P s \<and> files_located cf p selected (events s)) (f selected video) (\<lambda>_. Q) Q"
  shows "triple P (rbind (each (source_path env cf p) (pm_selected_files p)) (\<lambda>selected.
           case find_row (path_suffix_among pack_video_suffixes) selected of
             None \<Rightarrow> invalid detail | Some video \<Rightarrow> f selected video)) (\<lambda>_. Q) Q"
proof (rule bind_fact [where K = "files_located cf p"], goal_cases)
  case 1
  show ?case by (intro leaves_each leaves_paths)
next
  case (2 s)
  then show ?case by (rule assms(1))
next
  case (3 x s1 s2)
  show ?case
    unfolding files_located_def
    by (rule each_events [OF 3, of "\<lambda>E name path. selected_file cf p name path E"])
      (auto intro: growth.leaves_paths source_path_found torrent_file_mono)
next
  case (4 selected s1 s2)
  show ?case
  proof (cases "find_row (path_suffix_among pack_video_suffixes) selected")
    case None
    then show ?thesis using assms(1) by (auto intro!: give_quiet simp: invalid_def)
  next
    case (Some video)
    then have "video \<in> set selected" using find_row_Some by metis
    from assms(2) [OF this] show ?thesis by (simp add: Some)
  qed
qed

end

section \<open>Movies\<close>

definition movie_scan_allowed :: "fin_config \<Rightarrow> string \<Rightarrow> permit \<Rightarrow> noted list \<Rightarrow> noted \<Rightarrow> bool" where
  "movie_scan_allowed cf rid p before x \<longleftrightarrow>
     (\<exists>content dl copy answer.
        nt_event x = Request (scan_request Radarr ''DownloadedMoviesScan'' content p) answer \<and>
        movie_ready cf p dl (nt_event ` set before) \<and> hardlinks_configured Radarr (nt_event ` set before) \<and>
        placeable cf copy (dl_video dl) (dl_selected dl) (nt_event ` set before) \<and>
        (\<exists>r. find_reservation (nt_db x) rid = Some r \<and> rs_state r \<in> {RsReserved, RsDownloading}) \<and>
        movie_import_state rid (nt_db x) = Some (if copy then ImDispatchingCopy else ImDispatching) \<and>
        imports_exclusive (nt_db x))"

lemma claim_movie_claims:
  assumes "claim_movie_import now rid copy d = (d', True)" and "imports_exclusive d"
  shows "\<exists>r. find_reservation d' rid = Some r \<and> rs_state r \<in> {RsReserved, RsDownloading}"
    and "movie_import_state rid d' = Some (if copy then ImDispatchingCopy else ImDispatching)"
    and "imports_exclusive d'"
proof -
  show "\<exists>r. find_reservation d' rid = Some r \<and> rs_state r \<in> {RsReserved, RsDownloading}"
    using assms(1) by (auto simp: claim_movie_import_def find_reservation_def split: option.splits if_splits)
  show "movie_import_state rid d' = Some (if copy then ImDispatchingCopy else ImDispatching)"
    using assms(1)
    by (auto simp: claim_movie_import_def movie_import_state_def table_simps
        dest!: find_row_Some split: option.splits if_splits)
  show "imports_exclusive d'"
    using assms import_step_exclusive import_step.claim_movie by blast
qed

lemma start_movie_scans:
  assumes "imports_lawful env"
  shows "triple (\<lambda>s. (unscanned s \<and> imports_exclusive (fn_db s)) \<and> movie_ready cf p dl (events s))
           (start_movie_import env cf rid p content dl)
           (\<lambda>_. scanned_well (movie_scan_allowed cf rid p)) (scanned_well (movie_scan_allowed cf rid p))"
proof -
  define ok where "ok = movie_scan_allowed cf rid p"
  define P :: "'a fin \<Rightarrow> bool" where
    "P s = ((unscanned s \<and> imports_exclusive (fn_db s)) \<and> movie_ready cf p dl (events s))" for s
  have C: "calm env (\<lambda>s. unscanned s \<and> imports_exclusive (fn_db s))" by (rule calm_unscanned [OF assms])
  have W: "unmoved env P"
    unfolding P_def by (rule unmoved.quiet_and [OF calm.calm_is_quiet [OF C] evidence_monotone(2)])
  have un: "unscanned s" if "P s" for s using that by (simp add: P_def)
  have send_to: "triple (\<lambda>s. (P s \<and> hardlinks_configured Radarr (events s)) \<and>
           placeable cf copy (dl_video dl) (dl_selected dl) (events s))
      (scan_dispatch env (\<lambda>now d. claim_movie_import now rid copy d) (\<lambda>i now d. (record_movie_import now rid i d, ()))
         Radarr ''DownloadedMoviesScan'' content p) (\<lambda>_. scanned_well ok) (scanned_well ok)" for copy
  proof (rule dispatch_triple)
    fix s :: "'a fin" and now d1 answer
    assume s: "(P s \<and> hardlinks_configured Radarr (events s)) \<and>
        placeable cf copy (dl_video dl) (dl_selected dl) (events s)"
      and c: "claim_movie_import now rid copy (fn_db s) = (d1, True)"
    then have "imports_exclusive (fn_db s)" by (simp add: P_def)
    note claims = claim_movie_claims [OF c this]
    have evidence: "movie_ready cf p dl (nt_event ` set (fn_log s))"
        "hardlinks_configured Radarr (nt_event ` set (fn_log s))"
        "placeable cf copy (dl_video dl) (dl_selected dl) (nt_event ` set (fn_log s))"
      using s unfolding P_def events_def by blast+
    show "ok (fn_log s) \<lparr>nt_event = Request (scan_request Radarr ''DownloadedMoviesScan'' content p) answer, nt_db = d1\<rparr>"
      unfolding ok_def movie_scan_allowed_def noted.simps
      by (rule exI [of _ content], rule exI [of _ dl], rule exI [of _ copy], rule exI [of _ answer])
        (intro conjI refl evidence claims)
  qed (auto intro: un)
  have W2: "unmoved env (\<lambda>s. P s \<and> hardlinks_configured Radarr (events s))"
    by (rule unmoved.quiet_and [OF W evidence_monotone(6)])
  show ?thesis
    unfolding P_def [symmetric] ok_def [symmetric] start_movie_import_def
    by (rule unmoved.enabled_triple [OF W _ unmoved.mode_triple [OF W2 _ send_to]]) (use un in blast)+
qed

lemma movie_scans:
  assumes "imports_lawful env" and "unscanned s" and "imports_exclusive (fn_db s)"
  shows "unscanned (snd (finalize_movie env cf media_key rid s)) \<or>
    (\<exists>p. confirmed_source rid None (fn_db s) = Some p \<and> reserved_for rid media_key (fn_db s) \<and>
         scanned_last (movie_scan_allowed cf rid p) (snd (finalize_movie env cf media_key rid s)))"
    (is "?Q (snd (finalize_movie env cf media_key rid s))")
proof (rule watched.finalize_movie_ends [OF calm.calm_is_watched [OF calm_unscanned [OF assms(1)]], where Q = ?Q])
  show "unscanned s \<and> imports_exclusive (fn_db s)" using assms(2,3) by simp
  show "triple (\<lambda>t. (unscanned t \<and> imports_exclusive (fn_db t)) \<and> movie_ready cf p dl (events t))
      (start_movie_import env cf rid p content dl) (\<lambda>_. ?Q) ?Q"
    if "confirmed_source rid None (fn_db s) = Some p" "reserved_for rid media_key (fn_db s)" for p content dl
    by (rule triple_weaken [OF start_movie_scans [OF assms(1)]]) (use that in auto)
  show "triple (\<lambda>t. (unscanned t \<and> imports_exclusive (fn_db t)) \<and> same_file cf p video copy (events t))
      (commit env (\<lambda>now d. (complete_movie_import now rid d, ()))) (\<lambda>_. ?Q) ?Q" for p video copy
    by (rule tripleI_snd) (simp add: unscanned_def events_def commit_log)
qed simp

section \<open>Episodes\<close>

lemma post_grows: "leaves (logged_since l) (request_scan env arr name path p)"
  by (rule tripleI_snd) (simp add: logged_since_def request_scan_log)

lemma commit_grows: "leaves (logged_since l) (commit env f)"
  by (rule tripleI_snd) (simp add: logged_since_def commit_log)

lemma start_episode_grows: "prefix (fn_log s) (fn_log (snd (start_episode_import env cf cr p ed s)))"
proof -
  have "leaves (logged_since l) (start_episode_import env cf cr p ed)" for l
    unfolding start_episode_import_def still_active_def
    by (intro growth.unmoved_rules growth.leaves_import_mode growth.leaves_paths post_grows commit_grows)
  from triple_end [OF this, of "fn_log s" s] show ?thesis by (simp add: logged_since_def)
qed


definition episode_scan_allowed ::
    "fin_config \<Rightarrow> string \<Rightarrow> string \<Rightarrow> nat \<Rightarrow> nat \<Rightarrow> permit \<Rightarrow> noted list \<Rightarrow> noted \<Rightarrow> bool" where
  "episode_scan_allowed cf media_key rid season n p before x \<longleftrightarrow>
     (\<exists>path copy video selected answer.
        nt_event x = Request (scan_request Sonarr ''DownloadedEpisodesScan'' path p) answer \<and>
        episode_ready cf p season n path (nt_event ` set before) \<and>
        hardlinks_configured Sonarr (nt_event ` set before) \<and>
        files_located cf p selected (nt_event ` set before) \<and>
        video \<in> set selected \<and> placeable cf copy video selected (nt_event ` set before) \<and>
        season_active rid media_key (nt_db x) \<and>
        episode_state (pm_id p) (nt_db x) = Some (if copy then ImDispatchingCopy else ImDispatching) \<and>
        imports_exclusive (nt_db x))"

lemma claim_episode_claims:
  assumes "claim_episode_import now pid copy d = (d', True)" and "imports_exclusive d"
  shows "episode_state pid d' = Some (if copy then ImDispatchingCopy else ImDispatching)"
    and "imports_exclusive d'" and "season_active rid media_key d' = season_active rid media_key d"
proof -
  show "episode_state pid d' = Some (if copy then ImDispatchingCopy else ImDispatching)"
    using assms(1)
    by (auto simp: claim_episode_import_def episode_state_def table_simps
        dest!: find_row_Some split: option.splits if_splits)
  show "imports_exclusive d'"
    using assms import_step_exclusive import_step.claim_episode by blast
  show "season_active rid media_key d' = season_active rid media_key d"
    using assms(1)
    by (auto simp: claim_episode_import_def season_active_def reserved_for_def active_reservation_def
        is_tombstoned_def tombstoned_def split: if_splits)
qed

lemma start_episode_scans:
  assumes "imports_lawful env"
  shows "triple (\<lambda>s. (unscanned s \<and> imports_exclusive (fn_db s)) \<and> episode_ready cf p season n (ed_path ed) (events s))
           (start_episode_import env cf cr p ed)
           (\<lambda>_. scanned_well (episode_scan_allowed cf (cr_media_key cr) (cr_rid cr) season n p))
           (scanned_well (episode_scan_allowed cf (cr_media_key cr) (cr_rid cr) season n p))"
proof -
  define ok where "ok = episode_scan_allowed cf (cr_media_key cr) (cr_rid cr) season n p"
  define P :: "'a fin \<Rightarrow> bool" where
    "P s = ((unscanned s \<and> imports_exclusive (fn_db s)) \<and> episode_ready cf p season n (ed_path ed) (events s))" for s
  have W1: "watched env P"
    unfolding P_def
    by (rule watched.watched_and [OF calm.calm_is_watched [OF calm_unscanned [OF assms]] episode_ready_monotone])
  have W2: "watched env (\<lambda>s. P s \<and> hardlinks_configured Sonarr (events s))"
    by (rule watched.watched_and [OF W1 evidence_monotone(6)])
  have W3: "watched env (\<lambda>s. (P s \<and> hardlinks_configured Sonarr (events s)) \<and> files_located cf p selected (events s))" for selected
    by (rule watched.watched_and [OF W2 files_located_monotone])
  have un: "unscanned s" if "P s" for s using that by (simp add: P_def)
  have send_to: "triple (\<lambda>s. (((P s \<and> hardlinks_configured Sonarr (events s)) \<and> files_located cf p selected (events s)) \<and>
           placeable cf copy video selected (events s)) \<and> season_active (cr_rid cr) (cr_media_key cr) (fn_db s))
      (scan_dispatch env (\<lambda>now d. claim_episode_import now (pm_id p) copy d) (\<lambda>i now d. (record_episode_import now (pm_id p) i d, ()))
         Sonarr ''DownloadedEpisodesScan'' (ed_path ed) p) (\<lambda>_. scanned_well ok) (scanned_well ok)"
    if "video \<in> set selected" for copy selected video
  proof (rule dispatch_triple)
    fix s :: "'a fin" and now d1 answer
    assume s: "(((P s \<and> hardlinks_configured Sonarr (events s)) \<and> files_located cf p selected (events s)) \<and>
        placeable cf copy video selected (events s)) \<and> season_active (cr_rid cr) (cr_media_key cr) (fn_db s)"
      and c: "claim_episode_import now (pm_id p) copy (fn_db s) = (d1, True)"
    then have "imports_exclusive (fn_db s)" by (simp add: P_def)
    note claims = claim_episode_claims [OF c this]
    have active: "season_active (cr_rid cr) (cr_media_key cr) d1" using claims(3) s by simp
    have evidence: "episode_ready cf p season n (ed_path ed) (nt_event ` set (fn_log s))"
        "hardlinks_configured Sonarr (nt_event ` set (fn_log s))"
        "files_located cf p selected (nt_event ` set (fn_log s))"
        "placeable cf copy video selected (nt_event ` set (fn_log s))"
      using s unfolding P_def events_def by blast+
    show "ok (fn_log s) \<lparr>nt_event = Request (scan_request Sonarr ''DownloadedEpisodesScan'' (ed_path ed) p) answer, nt_db = d1\<rparr>"
      unfolding ok_def episode_scan_allowed_def noted.simps
      by (rule exI [of _ "ed_path ed"], rule exI [of _ copy], rule exI [of _ video], rule exI [of _ selected],
          rule exI [of _ answer]) (intro conjI refl evidence claims(1,2) active that)
  qed (auto intro: un)
  have placed: "triple (\<lambda>s. (P s \<and> hardlinks_configured Sonarr (events s)) \<and> files_located cf p selected (events s))
      (rbind (import_mode env cf video selected) (\<lambda>mode.
       case mode of
         None \<Rightarrow> give (Inr ''waiting_space'')
       | Some copy \<Rightarrow>
           still_active cr
             (scan_dispatch env (\<lambda>now d. claim_episode_import now (pm_id p) copy d)
                (\<lambda>i now d. (record_episode_import now (pm_id p) i d, ()))
                Sonarr ''DownloadedEpisodesScan'' (ed_path ed) p))) (\<lambda>_. scanned_well ok) (scanned_well ok)"
    if "video \<in> set selected" for video selected
    by (rule unmoved.mode_triple [OF watched.axioms(1) [OF W3] _
          watched.still_active_triple [OF watched.watched_and [OF W3 evidence_monotone(5)] _ send_to [OF that]]])
      (use un in blast)+
  show ?thesis
    unfolding P_def [symmetric] ok_def [symmetric] start_episode_import_def
    by (rule unmoved.enabled_triple [OF watched.axioms(1) [OF W1] _ watched.still_active_quiet [OF W2 _
          unmoved.located_triple [OF watched.axioms(1) [OF W2] _ placed]]]) (use un in blast)+
qed

text \<open>
  The episode, its source, and that every earlier one was imported: as the database said when
  qBittorrent was asked about the source, which is in the log.
\<close>

definition turn_seen ::
    "'w fin_env \<Rightarrow> fin_config \<Rightarrow> nat \<Rightarrow> nat \<Rightarrow> nat \<Rightarrow> string \<Rightarrow> permit \<Rightarrow> noted list \<Rightarrow> bool" where
  "turn_seen env cf tmdb season n rid p before \<longleftrightarrow>
     (\<exists>y\<in>set before. \<exists>answer episodes.
        nt_event y = Request (info_request p) answer \<and>
        confirmed_source rid (Some (scope_of season n)) (nt_db y) = Some p \<and>
        episodes_listed tmdb episodes (nt_event ` set before) \<and>
        earlier_imported env cf tmdb season n (with_season season rid (requested_seasons tmdb (nt_db y))) episodes (nt_db y))"

definition season_scan_allowed ::
    "'w fin_env \<Rightarrow> fin_config \<Rightarrow> string \<Rightarrow> string \<Rightarrow> noted list \<Rightarrow> noted \<Rightarrow> bool" where
  "season_scan_allowed env cf media_key rid before x \<longleftrightarrow>
     (\<exists>tmdb season n p.
        season_numbers media_key = Some (tmdb, season) \<and>
        episode_scan_allowed cf media_key rid season n p before x \<and>
        turn_seen env cf tmdb season n rid p before)"

text \<open>The first thing a request to import does.\<close>

lemma request_asks_first:
  assumes "\<not> has_file e"
  shows "\<exists>answer. prefix (fn_log s @ [\<lparr>nt_event = Request (info_request p) answer, nt_db = fn_db s\<rparr>])
           (fn_log (snd (request_episode_import env cf cr n p e s)))"
proof -
  obtain x d w where http: "n_http env (fn_world s) (fn_db s) (info_request p) = (x, d, w)" by (metis prod_cases3)
  define l where "l = fn_log s @ [\<lparr>nt_event = Request (info_request p) x, nt_db = fn_db s\<rparr>]"
  have "prefix l (fn_log (snd (fetch_json env Gateway ''/api/v2/torrents/info'' [(''hashes'', JStr (pm_infohash p))] s)))"
    using http unfolding fetch_json_def send_to_def info_request_def [symmetric]
    by (intro prefix_rbind growth.unmoved_rules) (simp add: awaiting_def l_def)
  then have "prefix l (fn_log (snd (gateway_torrent env p s)))"
    unfolding gateway_torrent_def by (intro prefix_rbind growth.unmoved_rules)
  then have "prefix l (fn_log (snd (validate_download env cf p (cr_season cr) n s)))"
    unfolding validate_download_def check_episode_def check_subtitle_names_def
    by (intro prefix_rbind growth.unmoved_rules growth.leaves_gateway growth.leaves_paths growth.leaves_selected_path
          growth.leaves_check_media growth.leaves_subtitle_state)
  then have "prefix l (fn_log (snd (request_episode_import env cf cr n p e s)))"
    unfolding request_episode_import_def if_not_P [OF assms] episode_subtitles_def still_active_def
      start_episode_import_def
    by (intro prefix_rbind growth.unmoved_rules growth.leaves_recover growth.leaves_subtitle_state
          growth.leaves_import_mode growth.leaves_paths post_grows commit_grows)
  then show ?thesis unfolding l_def by blast
qed

lemma request_episode_scans:
  assumes lawful: "imports_lawful env" and s: "unscanned s" "imports_exclusive (fn_db s)"
    and source: "confirmed_source rid (Some (scope_of season n)) (fn_db s) = Some p"
    and cr: "cr_media_key cr = media_key" "cr_rid cr = rid" "cr_season cr = season"
    and key: "season_numbers media_key = Some (tmdb, season)"
    and listed: "episodes_listed tmdb episodes (events s)"
    and order: "earlier_imported env cf tmdb season n (with_season season rid (requested_seasons tmdb (fn_db s)))
                  episodes (fn_db s)"
  shows "scanned_well (season_scan_allowed env cf media_key rid) (snd (request_episode_import env cf cr n p e s))"
proof (cases "has_file e")
  case True
  then show ?thesis using s by (simp add: request_episode_import_def give_def)
next
  case False
  let ?t = "snd (request_episode_import env cf cr n p e s)"
  note W = calm.calm_is_watched [OF calm_unscanned [OF lawful]]
  have start: "triple (\<lambda>s. (unscanned s \<and> imports_exclusive (fn_db s)) \<and> episode_ready cf p (cr_season cr) n (ed_path ed) (events s))
       (start_episode_import env cf cr p ed) (\<lambda>_. scanned_well (episode_scan_allowed cf media_key rid season n p))
       (scanned_well (episode_scan_allowed cf media_key rid season n p))" for ed
    using start_episode_scans [OF lawful, of cf p season n ed cr] by (simp add: cr)
  have "scanned_well (episode_scan_allowed cf media_key rid season n p) ?t"
    by (rule triple_end [OF watched.request_episode_triple [OF W _ start]]) (use s in auto)
  moreover have "scanned_last (season_scan_allowed env cf media_key rid) ?t"
    if last: "scanned_last (episode_scan_allowed cf media_key rid season n p) ?t"
  proof -
    from last obtain before x where log: "fn_log ?t = before @ [x]" and b: "\<forall>y\<in>set before. \<not> is_scan (nt_event y)"
        and x: "episode_scan_allowed cf media_key rid season n p before x"
      unfolding scanned_last_def by blast
    obtain answer where pre: "prefix (fn_log s @ [\<lparr>nt_event = Request (info_request p) answer, nt_db = fn_db s\<rparr>])
        (before @ [x])"
      using request_asks_first [OF False, of s p env cf cr n] log by auto
    let ?y = "\<lparr>nt_event = Request (info_request p) answer, nt_db = fn_db s\<rparr>"
    have "is_scan (nt_event x)" using x by (auto simp: episode_scan_allowed_def scan_request_def)
    then have "x \<noteq> ?y" by (auto simp: info_request_def)
    with pre have pre': "prefix (fn_log s @ [?y]) before" by auto
    then have y: "?y \<in> set before" and sub: "set (fn_log s) \<subseteq> set before"
      by (auto dest!: set_mono_prefix)
    have "episodes_listed tmdb episodes (nt_event ` set before)"
      using listed sub episodes_listed_monotone unfolding monotone_evidence_def events_def by (meson image_mono)
    then have "turn_seen env cf tmdb season n rid p before"
      unfolding turn_seen_def by (intro bexI [OF _ y]) (use source order in auto)
    then show ?thesis using log b x key unfolding scanned_last_def season_scan_allowed_def by blast
  qed
  ultimately show ?thesis by blast
qed

lemma finish_episode_unscanned:
  assumes lawful: "imports_lawful env" and s: "unscanned s" "imports_exclusive (fn_db s)"
  shows "unscanned (snd (finish_episode_import env cf cr p e copy s))"
proof -
  note W = calm.calm_is_watched [OF calm_unscanned [OF lawful]]
  have fin: "triple (\<lambda>s. (unscanned s \<and> imports_exclusive (fn_db s)) \<and> same_file cf p video copy (events s))
     (commit env (\<lambda>now d. (complete_episode_import now (pm_id p) d, ()))) (\<lambda>_. unscanned) unscanned" for video
    by (rule tripleI_snd) (simp add: unscanned_def events_def commit_log)
  show ?thesis
    by (rule triple_end [OF watched.finish_episode_triple [OF W _ fin]]) (use s in auto)
qed

text \<open>The part of the finalizer after the episodes have been listed.\<close>

lemma listed_scans:
  assumes lawful: "imports_lawful env" and key: "season_numbers media_key = Some (tmdb, season)"
    and s: "unscanned s" "imports_exclusive (fn_db s)" "episodes_listed tmdb episodes (events s)"
  shows "scanned_well (season_scan_allowed env cf media_key rid) (snd (
      rbind (database (\<lambda>d. with_season season rid (requested_seasons tmdb d))) (\<lambda>seasons.
      rbind (placed_episodes env cf seasons episodes) (\<lambda>found.
      rbind (database (plot_course media_key rid tmdb season seasons episodes (chronological found))) (\<lambda>cr.
        finalize_episodes env cf cr False (filter (\<lambda>((s, _), _). s = season) (chronological found))))) s))"
proof -
  define seasons where "seasons = with_season season rid (requested_seasons tmdb (fn_db s))"
  obtain r s2 where placed: "placed_episodes env cf seasons episodes s = (r, s2)" by fastforce
  note same = placed_keeps [OF placed]
  have s2: "unscanned s2" "imports_exclusive (fn_db s2)" "episodes_listed tmdb episodes (events s2)"
    using s same by (simp_all add: unscanned_def events_def)
  show ?thesis
  proof (cases r)
    case (Inl err)
    then show ?thesis using placed s2 by (simp add: rbind_def database_def seasons_def [symmetric])
  next
    case (Inr found)
    define cr where "cr = plot_course media_key rid tmdb season seasons episodes (chronological found) (fn_db s2)"
    have cr': "cr_media_key cr = media_key" "cr_rid cr = rid" "cr_season cr = season" by (simp_all add: cr_def plot_course_def)
    let ?es = "filter (\<lambda>((s, _), _). s = season) (chronological found)"
    have "scanned_well (season_scan_allowed env cf media_key rid) (snd (finalize_episodes env cf cr False ?es s2))"
    proof -
      consider answer where "finalize_episodes env cf cr False ?es s2 = (Inr answer, s2)"
        | n e p where "confirmed_source rid (Some (scope_of season n)) (fn_db s2) = Some p" "before_first cr n = None"
            "finalize_episodes env cf cr False ?es s2 = request_episode_import env cf cr n p e s2"
        | e p copy where "finalize_episodes env cf cr False ?es s2 = finish_episode_import env cf cr p e copy s2"
        using episodes_choice [of env cf cr False ?es s2] unfolding cr' by blast
      then show ?thesis
      proof cases
        case 1
        then show ?thesis using s2 by simp
      next
        case (2 n e p)
        have order: "earlier_imported env cf tmdb season n (with_season season rid (requested_seasons tmdb (fn_db s2)))
                  episodes (fn_db s2)"
          using course_in_order [OF placed [unfolded Inr] 2(2) [unfolded cr_def]] same(1) by (simp add: seasons_def)
        show ?thesis
          unfolding 2(3) by (rule request_episode_scans [OF lawful s2(1,2) 2(1) cr' key s2(3) order])
      next
        case (3 e p copy)
        then show ?thesis using finish_episode_unscanned [OF lawful s2(1,2)] by simp
      qed
    qed
    then show ?thesis using placed Inr by (simp add: rbind_def database_def seasons_def [symmetric] cr_def)
  qed
qed

lemma season_scans:
  assumes lawful: "imports_lawful env" and "unscanned s" and "imports_exclusive (fn_db s)"
  shows "scanned_well (season_scan_allowed env cf media_key rid) (snd (finalize_season env cf media_key rid s))"
proof -
  note W = calm.calm_is_quiet [OF calm_unscanned [OF lawful]]
  let ?Q = "scanned_well (season_scan_allowed env cf media_key rid)"
  have "triple (\<lambda>s. unscanned s \<and> imports_exclusive (fn_db s)) (finalize_season env cf media_key rid) (\<lambda>_. ?Q) ?Q"
  proof (cases "season_numbers media_key")
    case None
    show ?thesis
      unfolding finalize_season_def None option.case
      by (rule bind_quiet [OF unmoved.leaves_plain(1) [OF W]] triple_if give_quiet | blast)+
  next
    case (Some key)
    obtain tmdb season where key: "key = (tmdb, season)" by fastforce
    have listed: "triple (\<lambda>s. (unscanned s \<and> imports_exclusive (fn_db s)) \<and> episodes_listed tmdb episodes (events s))
        (rbind (database (season_active rid media_key)) (\<lambda>active.
         if \<not> active then give (Inr ''reservation_inactive'')
         else
           rbind (database (\<lambda>d. with_season season rid (requested_seasons tmdb d))) (\<lambda>seasons.
           rbind (placed_episodes env cf seasons episodes) (\<lambda>found.
           rbind (database (plot_course media_key rid tmdb season seasons episodes (chronological found))) (\<lambda>cr.
             finalize_episodes env cf cr False (filter (\<lambda>((s, _), _). s = season) (chronological found)))))))
        (\<lambda>_. ?Q) ?Q" for episodes
      by (rule bind_quiet [OF unmoved.leaves_plain(1) [OF unmoved.quiet_and [OF W episodes_listed_monotone]]], blast,
          rule triple_if, rule give_quiet, blast, rule tripleI_snd, rule listed_scans [OF lawful])
        (simp_all add: Some key)
    show ?thesis
      unfolding finalize_season_def Some key option.case prod.case
      by (rule bind_fact [OF unmoved.leaves_episodes_of [OF W], where K = "episodes_listed tmdb"] episodes_of_listed listed
            bind_quiet [OF unmoved.leaves_plain(1) [OF W]] triple_if give_quiet | assumption | blast)+
  qed
  from triple_end [OF this] assms(2,3) show ?thesis by blast
qed

end
