(* ===== verification/FinalizerImports.thy ===== *)
theory FinalizerImports
  imports FinalizerOrder
begin

text \<open>
  What the finalizers do to the library and to the import tables: files that were there are
  neither replaced nor removed, and an import is completed only for the file that was downloaded.
\<close>

lemma all_ends: "(\<And>s. P s \<Longrightarrow> Q (snd (m s))) \<Longrightarrow> triple P m (\<lambda>_. Q) Q"
  by (rule tripleI) (fastforce split: prod.splits sum.splits)

section \<open>Predicates that everything keeps\<close>

context watched
begin

lemma leaves_still_active: "leaves P m \<Longrightarrow> leaves P (still_active cr m)"
  unfolding still_active_def by (intro unmoved_rules)

lemma leaves_starts:
  assumes "\<And>f. leaves P (commit env f :: ('a, bool) job)" and "\<And>f. leaves P (commit env f :: ('a, unit) job)"
    and "\<And>arr name path p. leaves P (request_scan env arr name path p)"
  shows "leaves P (start_movie_import env cf rid p content dl)" "leaves P (start_episode_import env cf cr p ed)"
  unfolding start_movie_import_def start_episode_import_def
  by (intro unmoved_rules leaves_still_active leaves_import_mode leaves_paths assms)+

lemma leaves_finalizers:
  assumes "\<And>f. leaves P (commit env f :: ('a, bool) job)" and commits: "\<And>f. leaves P (commit env f :: ('a, unit) job)"
    and "\<And>arr name path p. leaves P (request_scan env arr name path p)"
  shows "leaves P (finalize_movie env cf media_key rid)" "leaves P (finalize_season env cf media_key rid)"
proof -
  note starts = leaves_starts [OF assms]
  show "leaves P (finalize_movie env cf media_key rid)"
    by (rule all_ends, rule finalize_movie_ends [where Q = P])
      (auto intro: triple_weaken [OF starts(1)] triple_weaken [OF commits])
  have "leaves P (request_episode_import env cf cr n p e)" for cr n p e
    by (rule request_episode_triple) (auto intro: triple_weaken [OF starts(2)])
  moreover have "leaves P (finish_episode_import env cf cr p e copy)" for cr p e copy
    by (rule finish_episode_triple) (auto intro: triple_weaken [OF commits])
  ultimately have "P (snd (finalize_episodes env cf cr seen es s))" if "P s" for cr seen es s
    using episodes_choice [of env cf cr seen es s] that triple_end by (metis snd_conv)
  then have "leaves P (finalize_episodes env cf cr seen es)" for cr seen es by (intro all_ends)
  then show "leaves P (finalize_season env cf media_key rid)"
    unfolding finalize_season_def by (intro unmoved_rules leaves_episodes_of leaves_placed)
qed

end

section \<open>The library\<close>

text \<open>A file that was made in this call: a temporary, or the target of a link that was new.\<close>

definition made_here :: "event set \<Rightarrow> posix \<Rightarrow> bool" where
  "made_here E path \<longleftrightarrow>
     (\<exists>dir content. TempWritten dir content (TempReady path) \<in> E \<or> TempWritten dir content (TempBroken path) \<in> E) \<or>
     (\<exists>source. LinkTried source path Linked \<in> E)"

definition admissible :: "event set \<Rightarrow> event \<Rightarrow> bool" where
  "admissible E ev =
     (case ev of
        Removed path _ \<Rightarrow> made_here E path
      | TempWritten _ content _ \<Rightarrow> valid_srt content
      | LinkTried _ target _ \<Rightarrow> Existed target (Some False) \<in> E
      | _ \<Rightarrow> True)"

definition careful :: "'w fin \<Rightarrow> bool" where
  "careful s \<longleftrightarrow>
     (\<forall>before x after. fn_log s = before @ x # after \<longrightarrow> admissible (nt_event ` set before) (nt_event x))"

lemma careful_snoc:
  assumes "careful s" and "fn_log t = fn_log s @ [x]" and "admissible (events s) (nt_event x)"
  shows "careful t"
  unfolding careful_def
proof (intro allI impI)
  fix before y after
  assume log: "fn_log t = before @ y # after"
  show "admissible (nt_event ` set before) (nt_event y)"
  proof (cases after rule: rev_cases)
    case Nil
    then show ?thesis using log assms by (simp add: events_def)
  next
    case (snoc ys z)
    then show ?thesis using log assms by (auto simp: careful_def)
  qed
qed

lemma careful_log: "fn_log t = fn_log s \<Longrightarrow> careful t = careful s"
  by (simp add: careful_def)

lemma quiet_admissible: "quiet_event ev \<Longrightarrow> admissible E ev"
  by (cases ev) (simp_all add: admissible_def quiet_event_def)

interpretation library: unmoved env careful for env :: "'w fin_env"
proof
  show "careful (noted_in ev s)" if "careful s" "quiet_event ev" for s :: "'w fin" and ev
    by (rule careful_snoc [OF that(1), where x = "\<lparr>nt_event = ev, nt_db = fn_db s\<rparr>"])
      (simp_all add: noted_in_def quiet_admissible [OF that(2)])
qed (simp_all add: careful_def)

text \<open>A step that is admissible after these events.\<close>

definition after :: "event set \<Rightarrow> 'w fin \<Rightarrow> bool" where
  "after F s \<longleftrightarrow> careful s \<and> F \<subseteq> events s"

lemma after_quiet:
  fixes m :: "('w, 'a) job"
  assumes "leaves careful m" and "\<And>l. leaves (logged_since l) m"
  shows "leaves (after F) m"
proof -
  have "leaves (\<lambda>s. careful s \<and> F \<subseteq> events s) m"
    by (rule leaves_and_events [OF assms]) (auto simp: monotone_evidence_def)
  then show ?thesis unfolding after_def .
qed

lemma after_noting:
  fixes f :: "'w \<Rightarrow> 'a \<times> 'w"
  assumes "\<And>E x. F \<subseteq> E \<Longrightarrow> admissible E (ev x)"
  shows "triple (after F) (noting ev f) (\<lambda>x. after (insert (ev x) F)) (after {})"
proof (rule tripleI)
  fix s :: "'w fin"
  assume s: "after F s"
  obtain x w where f: "f (fn_world s) = (x, w)" by fastforce
  let ?t = "(noted_in (ev x) s)\<lparr>fn_world := w\<rparr>"
  have "careful ?t"
    by (rule careful_snoc [of s _ "\<lparr>nt_event = ev x, nt_db = fn_db s\<rparr>"]) (use s assms in \<open>simp_all add: noted_in_def after_def\<close>)
  moreover have "insert (ev x) F \<subseteq> events ?t" using s by (auto simp: after_def events_def noted_in_def)
  ultimately show "case noting ev f s of (Inl e, s') \<Rightarrow> after {} s' | (Inr y, s') \<Rightarrow> after (insert (ev y) F) s'"
    using noting_step [of f s x w ev] f by (simp add: after_def)
qed

lemma after_weaken: "after F s \<Longrightarrow> G \<subseteq> F \<Longrightarrow> after G s"
  by (auto simp: after_def)

lemma after_ends: "leaves (after F) m \<Longrightarrow> triple (after F) m (\<lambda>_. after {}) (after {})"
  by (erule triple_weaken) (auto intro: after_weaken)

lemma after_bind:
  assumes "leaves (after F) m" and "\<And>x. triple (after F) (f x) (\<lambda>_. after {}) (after {})"
  shows "triple (after F) (rbind m f) (\<lambda>_. after {}) (after {})"
  by (rule triple_bind [where R = "\<lambda>_. after F"]) (auto intro: assms triple_weaken [OF assms(1)] after_weaken)

lemma after_give: "triple (after F) (give r) (\<lambda>_. after {}) (after {})"
  by (rule triple_give) (auto intro: after_weaken)

lemma after_absent:
  assumes "\<And>there. triple (after (if there then {} else {Existed target (Some False)})) (f there) (\<lambda>_. after {}) (after {})"
  shows "triple (after {}) (rbind (path_exists env target) f) (\<lambda>_. after {}) (after {})"
proof -
  have "triple (after {}) (path_exists env target)
      (\<lambda>there. after (if there then {} else {Existed target (Some False)})) (after {})"
    unfolding path_exists_def seen_def
    by (rule triple_bind [OF after_noting]) (auto simp: admissible_def intro!: triple_give intro: after_weaken split: option.splits)
  then show ?thesis using assms by (rule triple_bind)
qed

lemma careful_import_hardlink: "leaves careful (import_hardlink env source target)"
proof -
  let ?F = "{Existed target (Some False)}"
  have kept: "leaves (after F) (kept_payload env source target)" for F
    unfolding kept_payload_def same_payload_def
    by (intro after_quiet) (intro library.unmoved_rules growth.unmoved_rules)+
  have linked: "triple (after (insert (LinkTried source target Linked) F))
     (rbind (same_payload env source target) (\<lambda>same.
        if same then rbind (stat_of env source) (\<lambda>_. give (Inr ()))
        else rbind (noting (Removed target) (\<lambda>w. n_unlink env w target)) (\<lambda>_.
          give (Inl (ImportFault ''hardlink identity could not be verified'')))))
     (\<lambda>_. after {}) (after {})" for F
  proof (rule after_bind)
    show "leaves (after (insert (LinkTried source target Linked) F)) (same_payload env source target)"
      unfolding same_payload_def by (intro after_quiet) (intro library.unmoved_rules growth.unmoved_rules)+
    show "triple (after (insert (LinkTried source target Linked) F))
       (if same then rbind (stat_of env source) (\<lambda>_. give (Inr ()))
        else rbind (noting (Removed target) (\<lambda>w. n_unlink env w target)) (\<lambda>_.
          give (Inl (ImportFault ''hardlink identity could not be verified'')))) (\<lambda>_. after {}) (after {})" for same
      by (intro triple_if after_bind after_quiet library.unmoved_rules growth.unmoved_rules after_give
            triple_bind [OF after_noting]) (auto simp: admissible_def made_here_def)
  qed
  have "triple (after {}) (import_hardlink env source target) (\<lambda>_. after {}) (after {})"
    unfolding import_hardlink_def
    apply (rule after_bind, intro after_quiet library.unmoved_rules growth.unmoved_rules)
    apply (rule after_bind, intro after_quiet library.unmoved_rules growth.unmoved_rules)
    apply (rule triple_if, rule after_give)
    apply (rule after_bind, intro after_quiet library.unmoved_rules growth.unmoved_rules)
    apply (rule triple_if, rule after_give)
    apply (rule after_absent)
    subgoal for a b c there
      apply (cases there)
       apply (simp add: after_ends kept)
      apply (simp only: if_False)
      apply (rule after_bind, intro after_quiet library.unmoved_rules growth.unmoved_rules)
      apply (rule triple_if, rule after_give)
      apply (rule triple_bind [OF after_noting], simp add: admissible_def)
      apply (rule triple_answers)
        apply (simp add: linked)
       apply (rule after_ends [OF kept])
      apply (rule after_give)
      done
    done
  then show ?thesis by (simp add: after_def [abs_def])
qed

lemma after_same_subtitle: "leaves (after F) (same_subtitle env target content)"
  by (intro after_quiet library.leaves_subtitle_files growth.leaves_subtitle_files)

lemma after_removed:
  fixes r :: "fault + unit"
  assumes "found = TempReady temporary \<or> found = TempBroken temporary"
  shows "triple (after {TempWritten dir content found})
      (rbind (noting (Removed temporary) (\<lambda>w. n_unlink env w temporary)) (\<lambda>ok. give (if ok then r else Inl OsFault)))
      (\<lambda>_. after {}) (after {})"
  by (rule triple_bind [OF after_noting]) (use assms in \<open>auto simp: admissible_def made_here_def intro: after_give\<close>)

lemma after_link_temporary:
  "triple (after {TempWritten dir content (TempReady temporary), Existed target (Some False)})
     (link_temporary env temporary target content)
     (\<lambda>_. after {TempWritten dir content (TempReady temporary)}) (after {TempWritten dir content (TempReady temporary)})"
proof (rule all_ends)
  fix s :: "'a fin"
  assume s: "after {TempWritten dir content (TempReady temporary), Existed target (Some False)} s"
  let ?t = "snd (link_temporary env temporary target content s)"
  have "triple (after {Existed target (Some False)}) (link_temporary env temporary target content) (\<lambda>_. after {}) (after {})"
    unfolding link_temporary_def
    apply (rule after_bind, intro after_quiet library.unmoved_rules growth.unmoved_rules)
    apply (rule triple_if, rule after_give)
    apply (rule triple_bind [OF after_noting], simp add: admissible_def)
    apply (intro triple_answers after_give after_ends after_same_subtitle)
    done
  then have "after {} ?t" by (rule triple_end) (use s in \<open>auto intro: after_weaken\<close>)
  moreover have "events s \<subseteq> events ?t"
  proof (rule keeps_events)
    show "link_temporary env temporary target content s = (fst (link_temporary env temporary target content s), ?t)" by simp
    show "leaves (logged_since l) (link_temporary env temporary target content)" for l
      unfolding link_temporary_def
      by (intro growth.unmoved_rules growth.calm_noting scan_simps triple_answers growth.leaves_subtitle_files)
  qed
  ultimately show "after {TempWritten dir content (TempReady temporary)} ?t" using s by (auto simp: after_def)
qed

lemma after_occupied:
  "triple (after {}) (occupied env target) (\<lambda>there. after (if there then {} else {Existed target (Some False)})) (after {})"
proof (rule tripleI)
  fix s :: "'a fin"
  assume s: "after {} s"
  obtain r t where t: "occupied env target s = (r, t)" by fastforce
  have "careful t"
    using triple_end [OF library.leaves_subtitle_files(4), of s env target] s by (simp add: after_def t)
  moreover have "Existed target (Some False) \<in> events t" if r: "r = Inr False"
  proof -
    from t r obtain s1 where "path_exists env target s = (Inr False, s1)" and "is_link env target s1 = (Inr False, t)"
      unfolding occupied_def by (auto simp: returns split: if_splits)
    then show ?thesis
      using seen_event [of "Existed target"] keeps_events [OF growth.leaves_files(3)] unfolding path_exists_def by blast
  qed
  ultimately show "case occupied env target s of (Inl e, s') \<Rightarrow> after {} s'
      | (Inr there, s') \<Rightarrow> after (if there then {} else {Existed target (Some False)}) s'"
    by (auto simp: t after_def split: sum.splits)
qed

lemma after_temporary:
  assumes "valid_srt content"
  shows "triple (after {Existed target (Some False)})
      (rbind (noting (TempWritten dir content) (\<lambda>w. n_temp env w dir content)) (\<lambda>answer.
       case answer of
         TempRefused \<Rightarrow> give (Inl OsFault)
       | TempBroken temporary \<Rightarrow> removing env temporary (give (Inl OsFault))
       | TempReady temporary \<Rightarrow> removing env temporary (link_temporary env temporary target content)))
      (\<lambda>_. after {}) (after {})"
  apply (rule triple_bind [OF after_noting], simp add: admissible_def assms)
  apply (rule triple_answers)
    apply (rule after_give)
   apply (rule removing_triple [OF _ after_removed], rule triple_give, rule after_weaken, assumption, simp,
      rule after_weaken, assumption, simp, simp)
  apply (hypsubst, rule removing_triple [OF after_link_temporary after_removed], simp)
  done

lemma careful_write_subtitle: "leaves careful (write_subtitle env library video content language)"
proof (cases "valid_srt content")
  case True
  have absent: "triple (after (if there then {} else {Existed target (Some False)}))
      (if there then same_subtitle env target content
       else
         rbind (noting (TempWritten (parent_of target) content) (\<lambda>w. n_temp env w (parent_of target) content)) (\<lambda>answer.
         case answer of
           TempRefused \<Rightarrow> give (Inl OsFault)
         | TempBroken temporary \<Rightarrow> removing env temporary (give (Inl OsFault))
         | TempReady temporary \<Rightarrow> removing env temporary (link_temporary env temporary target content)))
      (\<lambda>_. after {}) (after {})" for there target
    using after_temporary [OF True] by (cases there) (simp_all add: after_ends after_same_subtitle)
  have "triple (after {}) (write_subtitle env library video content language) (\<lambda>_. after {}) (after {})"
    unfolding write_subtitle_def Let_def
    by (rule absent triple_bind [OF after_occupied] after_bind after_quiet library.unmoved_rules growth.unmoved_rules
          library.leaves_subtitle_files growth.leaves_subtitle_files)+
  then show ?thesis by (simp add: after_def [abs_def])
next
  case False
  show ?thesis
    by (rule all_ends) (simp add: write_subtitle_def insist_def invalid_def rbind_def give_def False)
qed

interpretation library: watched env careful for env :: "'w fin_env"
  by unfold_locales (rule careful_write_subtitle careful_import_hardlink)+

lemma careful_commit: "leaves careful (commit env f)"
  by (rule all_ends) (auto simp: commit_def careful_def split: prod.splits)

lemma careful_post: "leaves careful (request_scan env arr name path p)"
proof -
  have "leaves careful (awaiting (Request rq) (\<lambda>w d. n_http env w d rq))" for rq
  proof (rule all_ends)
    fix s :: "'a fin"
    assume s: "careful s"
    obtain x d w where f: "n_http env (fn_world s) (fn_db s) rq = (x, d, w)" by (metis prod_cases3)
    show "careful (snd (awaiting (Request rq) (\<lambda>w d. n_http env w d rq) s))"
      by (rule careful_snoc [OF s, of _ "\<lparr>nt_event = Request rq x, nt_db = fn_db s\<rparr>"])
        (simp_all add: awaiting_def f admissible_def)
  qed
  then show ?thesis unfolding request_scan_def post_json_def send_to_def by (intro library.unmoved_rules)
qed

lemma finalizers_careful:
  "careful s \<Longrightarrow> careful (snd (finalize_movie env cf media_key rid s))"
  "careful s \<Longrightarrow> careful (snd (finalize_season env cf media_key rid s))"
  using triple_end [OF library.leaves_finalizers(1) [OF careful_commit careful_commit careful_post]]
    triple_end [OF library.leaves_finalizers(2) [OF careful_commit careful_commit careful_post]] by blast+

section \<open>Completion\<close>

text \<open>Others may complete no import meanwhile.\<close>

definition done_movies :: "db \<Rightarrow> string set" where
  "done_movies d = {rid. movie_import_state rid d = Some ImComplete}"

definition done_episodes :: "db \<Rightarrow> string set" where
  "done_episodes d = {pid. episode_state pid d = Some ImComplete}"

definition completes_alone :: "'w fin_env \<Rightarrow> bool" where
  "completes_alone env \<longleftrightarrow>
     (\<forall>d d'. others env d d' \<longrightarrow> done_movies d' \<subseteq> done_movies d \<and> done_episodes d' \<subseteq> done_episodes d)"

lemma find_row_updated:
  "(\<And>r. P (f r) = P r) \<Longrightarrow> find_row P (update_rows Q f rows) =
   map_option (\<lambda>r. if Q r then f r else r) (find_row P rows)"
  by (induction rows) (auto simp: update_rows_def)

lemma claims_complete_nothing:
  "done_movies (fst (claim_movie_import now rid copy d)) \<subseteq> done_movies d"
  "done_episodes (fst (claim_movie_import now rid copy d)) \<subseteq> done_episodes d"
  "done_movies (fst (claim_episode_import now pid copy d)) \<subseteq> done_movies d"
  "done_episodes (fst (claim_episode_import now pid copy d)) \<subseteq> done_episodes d"
  by (auto simp: claim_movie_import_def claim_episode_import_def done_movies_def done_episodes_def
      movie_import_state_def episode_state_def find_row_append split: option.splits if_splits)

lemma records_complete_nothing:
  "done_movies (record_movie_import now rid i d) \<subseteq> done_movies d"
  "done_episodes (record_movie_import now rid i d) \<subseteq> done_episodes d"
  "done_movies (record_episode_import now pid i d) \<subseteq> done_movies d"
  "done_episodes (record_episode_import now pid i d) \<subseteq> done_episodes d"
  by (auto simp: record_movie_import_def record_episode_import_def done_movies_def done_episodes_def
      movie_import_state_def episode_state_def find_row_updated accepted_state_def split: if_splits)

lemma completions:
  "done_movies (complete_movie_import now rid d) \<subseteq> insert rid (done_movies d)"
  "done_episodes (complete_movie_import now rid d) \<subseteq> done_episodes d"
  "done_movies (complete_episode_import now pid d) \<subseteq> done_movies d"
  "done_episodes (complete_episode_import now pid d) \<subseteq> insert pid (done_episodes d)"
  by (auto simp: complete_movie_import_def complete_episode_import_def set_request_state_def done_movies_def
      done_episodes_def movie_import_state_def episode_state_def find_row_updated Let_def
      dest: find_row_Some split: if_splits option.splits)

text \<open>At most these have been completed.\<close>

definition within_done :: "string set \<Rightarrow> string set \<Rightarrow> 'w fin \<Rightarrow> bool" where
  "within_done M E s \<longleftrightarrow> done_movies (fn_db s) \<subseteq> M \<and> done_episodes (fn_db s) \<subseteq> E"

lemma within_others:
  assumes "completes_alone env" and "others env (fn_db s) d" and "within_done M E s" and "fn_db t = d"
  shows "within_done M E t"
proof -
  from assms(1,2) have "done_movies d \<subseteq> done_movies (fn_db s)" and "done_episodes d \<subseteq> done_episodes (fn_db s)"
    unfolding completes_alone_def by blast+
  with assms(3,4) show ?thesis unfolding within_done_def by blast
qed

lemma calm_done:
  assumes "completes_alone env"
  shows "calm env (within_done M E)"
proof
  show "within_done M E (s\<lparr>fn_db := d\<rparr>)" if "within_done M E s" "others env (fn_db s) d" for s d
    by (rule within_others [OF assms that(2,1)]) simp
qed (simp_all add: within_done_def noted_in_def)

lemma commit_within:
  fixes env :: "'w fin_env"
  assumes "\<And>now d. done_movies (fst (f now d)) \<subseteq> done_movies d" and "\<And>now d. done_episodes (fst (f now d)) \<subseteq> done_episodes d"
  shows "leaves (within_done M E) (commit env f)"
proof (rule all_ends)
  fix s :: "'w fin"
  assume s: "within_done M E s"
  obtain now w where n: "n_now env (fn_world s) = (now, w)" by fastforce
  obtain d x where d: "f now (fn_db s) = (d, x)" by fastforce
  show "within_done M E (snd (commit env f s))"
    using assms [of now "fn_db s"] s by (auto simp: commit_def n d within_done_def)
qed

lemma post_within:
  assumes "completes_alone env"
  shows "leaves (within_done M E) (request_scan env arr name path p)"
proof -
  have "leaves (within_done M E) (awaiting (Request rq) (\<lambda>w d. n_http env w d rq))" for rq
  proof (rule all_ends)
    fix s :: "'a fin"
    assume s: "within_done M E s"
    obtain x d w where f: "n_http env (fn_world s) (fn_db s) rq = (x, d, w)" by (metis prod_cases3)
    then have "others env (fn_db s) d" unfolding others_def by blast
    then show "within_done M E (snd (awaiting (Request rq) (\<lambda>w d. n_http env w d rq) s))"
      by (rule within_others [OF assms _ s]) (simp add: awaiting_def f)
  qed
  then show ?thesis
    unfolding request_scan_def post_json_def send_to_def by (intro triple_rules) (simp_all add: invalid_def leaves_give)
qed

lemma starts_within:
  assumes "completes_alone env"
  shows "leaves (within_done M E) (start_movie_import env cf rid p content dl)"
    and "leaves (within_done M E) (start_episode_import env cf cr p ed)"
proof -
  have W: "watched env (within_done M E)" by (rule calm.calm_is_watched [OF calm_done [OF assms]])
  note Q = watched.axioms(1) [OF W]
  show "leaves (within_done M E) (start_movie_import env cf rid p content dl)"
    unfolding start_movie_import_def
    by (intro triple_rules unmoved.leaves_import_mode [OF Q] post_within [OF assms] commit_within)
      (simp_all add: claims_complete_nothing records_complete_nothing)
  show "leaves (within_done M E) (start_episode_import env cf cr p ed)"
    unfolding start_episode_import_def
    by (intro triple_rules watched.leaves_still_active [OF W] unmoved.leaves_import_mode [OF Q] unmoved.leaves_each [OF Q]
          unmoved.leaves_paths [OF Q] unmoved.leaves_plain [OF Q] post_within [OF assms] commit_within)
      (simp_all add: claims_complete_nothing records_complete_nothing)
qed

lemma movie_completions:
  fixes s :: "'w fin"
  assumes "completes_alone env"
  assumes t: "t = snd (finalize_movie env cf media_key rid s)"
  shows "done_movies (fn_db t) \<subseteq> done_movies (fn_db s) \<or>
    done_movies (fn_db t) \<subseteq> insert rid (done_movies (fn_db s)) \<and>
    (\<exists>p video copy. confirmed_source rid None (fn_db s) = Some p \<and>
       movie_import_state rid (fn_db s) = Some (if copy then ImAcceptedCopy else ImAccepted) \<and>
       same_file cf p video copy (events t))"
proof -
  let ?P = "within_done (done_movies (fn_db s)) (done_episodes (fn_db s))"
  let ?Q = "\<lambda>t. done_movies (fn_db t) \<subseteq> done_movies (fn_db s) \<or>
    done_movies (fn_db t) \<subseteq> insert rid (done_movies (fn_db s)) \<and>
    (\<exists>p video copy. confirmed_source rid None (fn_db s) = Some p \<and>
       movie_import_state rid (fn_db s) = Some (if copy then ImAcceptedCopy else ImAccepted) \<and>
       same_file cf p video copy (events t))"
  have "?Q (snd (finalize_movie env cf media_key rid s))"
  proof (rule watched.finalize_movie_ends [where Q = ?Q])
    show "watched env ?P" by (rule calm.calm_is_watched [OF calm_done [OF assms(1)]])
    show "?P s" by (simp add: within_done_def)
    show "?Q t" if "?P t" for t using that by (simp add: within_done_def)
    show "triple (\<lambda>t. ?P t \<and> movie_ready cf p dl (events t)) (start_movie_import env cf rid p content dl) (\<lambda>_. ?Q) ?Q"
      for p content dl
      by (rule triple_weaken [OF starts_within(1) [OF assms(1), where M = "done_movies (fn_db s)" and E = "done_episodes (fn_db s)"]])
        (simp_all add: within_done_def)
    show "triple (\<lambda>t. ?P t \<and> same_file cf p video copy (events t))
        (commit env (\<lambda>now d. (complete_movie_import now rid d, ()))) (\<lambda>_. ?Q) ?Q"
      if p: "confirmed_source rid None (fn_db s) = Some p"
        and state: "movie_import_state rid (fn_db s) = Some (if copy then ImAcceptedCopy else ImAccepted)" for p video copy
    proof (rule all_ends)
      fix t :: "'w fin"
      assume t: "?P t \<and> same_file cf p video copy (events t)"
      obtain now w where n: "n_now env (fn_world t) = (now, w)" by fastforce
      let ?u = "snd (commit env (\<lambda>now d. (complete_movie_import now rid d, ())) t)"
      have "done_movies (fn_db ?u) \<subseteq> insert rid (done_movies (fn_db s))"
        using completions(1) [of now rid "fn_db t"] t by (auto simp: commit_def n within_done_def)
      moreover have "same_file cf p video copy (events ?u)" using t by (simp add: commit_def n events_def)
      ultimately show "?Q ?u" using p state by blast
    qed
  qed
  then show ?thesis unfolding t .
qed

text \<open>The source is read in the moment its import is found accepted.\<close>

lemma finish_completions:
  fixes s :: "'w fin"
  assumes "completes_alone env" and "within_done M E s"
  assumes t: "t = snd (finish_episode_import env cf cr p e copy s)"
  shows "within_done M E t \<or> within_done M (insert (pm_id p) E) t \<and> (\<exists>video. same_file cf p video copy (events t))"
proof -
  let ?Q = "\<lambda>t. within_done M E t \<or>
      within_done M (insert (pm_id p) E) t \<and> (\<exists>video. same_file cf p video copy (events t))"
  have fin: "triple (\<lambda>t. within_done M E t \<and> same_file cf p video copy (events t))
      (commit env (\<lambda>now d. (complete_episode_import now (pm_id p) d, ()))) (\<lambda>_. ?Q) ?Q" for video
  proof (rule all_ends)
    fix t :: "'w fin"
    assume t: "within_done M E t \<and> same_file cf p video copy (events t)"
    obtain now w where n: "n_now env (fn_world t) = (now, w)" by fastforce
    let ?u = "snd (commit env (\<lambda>now d. (complete_episode_import now (pm_id p) d, ())) t)"
    have "within_done M (insert (pm_id p) E) ?u"
      using completions(3,4) [of now "pm_id p" "fn_db t"] t by (auto simp: commit_def n within_done_def)
    moreover have "same_file cf p video copy (events ?u)" using t by (simp add: commit_def n events_def)
    ultimately show "?Q ?u" by blast
  qed
  have "triple (within_done M E) (finish_episode_import env cf cr p e copy) (\<lambda>_. ?Q) ?Q"
    by (rule watched.finish_episode_triple [OF calm.calm_is_watched [OF calm_done [OF assms(1)]] _ fin]) blast
  from triple_end [OF this assms(2)] show ?thesis unfolding t .
qed

lemma finish_asks_first:
  "snd (finish_episode_import env cf cr p e copy s) = s \<or>
   (\<exists>y. nt_db y = fn_db s \<and> prefix (fn_log s @ [y]) (fn_log (snd (finish_episode_import env cf cr p e copy s))))"
proof (cases "has_file e \<and> file_number e \<noteq> None")
  case False
  then show ?thesis
    by (auto simp: finish_episode_import_def give_def imported_video_def invalid_def rbind_def)
next
  case True
  then obtain i where i: "file_number e = Some i" by blast
  obtain x d w where http: "n_http env (fn_world s) (fn_db s) (sonarr_request (''/api/v3/episodefile/'' @ i) []) = (x, d, w)"
    by (metis prod_cases3)
  define l where "l = fn_log s @ [\<lparr>nt_event = Request (sonarr_request (''/api/v3/episodefile/'' @ i) []) x, nt_db = fn_db s\<rparr>]"
  have "prefix l (fn_log (snd (fetch_json env Sonarr (''/api/v3/episodefile/'' @ i) [] s)))"
    using http unfolding fetch_json_def send_to_def sonarr_request_def [symmetric]
    by (intro prefix_rbind growth.unmoved_rules) (simp add: awaiting_def l_def)
  then have "prefix l (fn_log (snd (imported_video env cf e s)))"
    unfolding imported_video_def i option.case by (intro prefix_rbind growth.unmoved_rules)
  moreover have "leaves (logged_since l) (commit env f)" for f :: "time \<Rightarrow> db \<Rightarrow> db \<times> unit"
    by (rule all_ends) (auto simp: logged_since_def commit_def split: prod.splits)
  ultimately have "prefix l (fn_log (snd (finish_episode_import env cf cr p e copy s)))"
    unfolding finish_episode_import_def still_active_def using True
    by (simp only: not_True_eq_False simp_thms if_False)
      (intro prefix_rbind growth.unmoved_rules growth.leaves_import_matches growth.leaves_ensure_episode)
  then show ?thesis by (intro disjI2 exI [of _ "last l"]) (simp add: l_def)
qed

text \<open>The entry of the log that an accepted episode import of this source was read with.\<close>

definition accepted_seen :: "string \<Rightarrow> nat \<Rightarrow> permit \<Rightarrow> bool \<Rightarrow> 'w fin \<Rightarrow> bool" where
  "accepted_seen rid season p copy s \<longleftrightarrow>
     (\<exists>y\<in>set (fn_log s). \<exists>n. confirmed_source rid (Some (scope_of season n)) (nt_db y) = Some p \<and>
        episode_state (pm_id p) (nt_db y) = Some (if copy then ImAcceptedCopy else ImAccepted))"

definition completed_well :: "fin_config \<Rightarrow> string \<Rightarrow> nat \<Rightarrow> string set \<Rightarrow> string set \<Rightarrow> 'w fin \<Rightarrow> bool" where
  "completed_well cf rid season M E t \<longleftrightarrow>
     within_done M E t \<or>
     (\<exists>p video copy. accepted_seen rid season p copy t \<and> within_done M (insert (pm_id p) E) t \<and>
        same_file cf p video copy (events t))"

lemma episodes_completed_well:
  fixes s :: "'w fin"
  assumes alone: "completes_alone env" and s: "within_done M E s"
  shows "completed_well cf (cr_rid cr) (cr_season cr) M E (snd (finalize_episodes env cf cr finished_one es s))"
proof -
  let ?t = "snd (finalize_episodes env cf cr finished_one es s)"
  note W = calm.calm_is_watched [OF calm_done [OF alone]]
  have request: "within_done M E (snd (request_episode_import env cf cr n p e s))" for n p e
    by (rule triple_end [OF watched.request_episode_triple [OF W] s])
      (auto intro: triple_weaken [OF starts_within(2) [OF alone]])
  consider answer where "finalize_episodes env cf cr finished_one es s = (Inr answer, s)"
    | n e p where "finalize_episodes env cf cr finished_one es s = request_episode_import env cf cr n p e s"
    | n e p copy where "confirmed_source (cr_rid cr) (Some (scope_of (cr_season cr) n)) (fn_db s) = Some p"
        "episode_state (pm_id p) (fn_db s) = Some (if copy then ImAcceptedCopy else ImAccepted)"
        "finalize_episodes env cf cr finished_one es s = finish_episode_import env cf cr p e copy s"
    using episodes_choice [of env cf cr finished_one es s] by blast
  then show ?thesis
  proof cases
    case 1
    then show ?thesis using s by (simp add: completed_well_def)
  next
    case (2 n e p)
    then show ?thesis using request by (simp add: completed_well_def)
  next
    case (3 n e p copy)
    show ?thesis
      using finish_asks_first [of env cf cr p e copy s]
    proof
      assume "snd (finish_episode_import env cf cr p e copy s) = s"
      then show ?thesis using s by (simp add: completed_well_def 3(3))
    next
      assume "\<exists>y. nt_db y = fn_db s \<and> prefix (fn_log s @ [y]) (fn_log (snd (finish_episode_import env cf cr p e copy s)))"
      then obtain y where y: "nt_db y = fn_db s" "y \<in> set (fn_log ?t)"
        unfolding 3(3) by (auto dest!: set_mono_prefix)
      then have "accepted_seen (cr_rid cr) (cr_season cr) p copy ?t"
        unfolding accepted_seen_def using 3(1,2) by metis
      then show ?thesis
        using finish_completions [OF alone s refl, of cf cr p e copy] unfolding completed_well_def 3(3) by blast
    qed
  qed
qed

lemma season_completions:
  fixes s :: "'w fin"
  assumes alone: "completes_alone env" and key: "season_numbers media_key = Some (tmdb, season)"
    and s: "within_done M E s"
  shows "completed_well cf rid season M E (snd (finalize_season env cf media_key rid s))"
proof -
  note W = watched.axioms(1) [OF calm.calm_is_watched [OF calm_done [OF alone]]]
  have PQ: "completed_well cf rid season M E t" if "within_done M E t" for t :: "'w fin"
    using that by (simp add: completed_well_def)
  have last: "triple (within_done M E) (rbind (database (plot_course media_key rid tmdb season seasons episodes found)) (\<lambda>cr.
        finalize_episodes env cf cr False es)) (\<lambda>_. completed_well cf rid season M E) (completed_well cf rid season M E)"
    for seasons episodes found es
    by (rule all_ends)
      (use episodes_completed_well [OF alone, of M E _ cf "plot_course media_key rid tmdb season seasons episodes found _" False es]
        in \<open>simp add: rbind_def database_def plot_course_def\<close>)
  have "triple (within_done M E) (finalize_season env cf media_key rid)
      (\<lambda>_. completed_well cf rid season M E) (completed_well cf rid season M E)"
    unfolding finalize_season_def key option.case prod.case
    by (rule last bind_quiet [OF unmoved.leaves_plain(1) [OF W]] bind_quiet [OF unmoved.leaves_episodes_of [OF W]]
          bind_quiet [OF unmoved.leaves_placed [OF W]] triple_if give_quiet | (rule PQ, assumption))+
  from triple_end [OF this s] show ?thesis .
qed

end
