(* ===== verification/FinalizerSamples.thy ===== *)
theory FinalizerSamples
  imports FinalizerScans FinalizerImports Samples
begin

text \<open>
  A movie and an episode that are downloaded, in a world that answers every request the same
  way and in which nobody else writes to the database.
\<close>

definition torrent_path :: "string \<Rightarrow> posix" where
  "torrent_path name = \<lparr>px_root = ''/'', px_parts = [''data'', ''torrents'', name]\<rparr>"

definition home_probe :: json where
  "home_probe = JObj [(''streams'', JList
     [JObj [(''codec_type'', JStr ''video''), (''width'', JInt 1920), (''height'', JInt 800)],
      JObj [(''codec_type'', JStr ''audio'')],
      JObj [(''codec_type'', JStr ''subtitle''), (''codec_name'', JStr ''subrip''),
            (''tags'', JObj [(''language'', JStr ''eng'')])]])]"

definition listed_torrent :: "string \<Rightarrow> json" where
  "listed_torrent infohash = JObj [(''hash'', JStr infohash), (''progress'', JInt 1), (''amount_left'', JInt 0),
     (''content_path'', JStr ''/data/torrents''), (''name'', JStr ''T'')]"

definition listed_file :: "string \<Rightarrow> json" where
  "listed_file name = JObj [(''name'', JStr name), (''size'', JInt 600), (''progress'', JInt 1)]"

definition home_answer :: "request \<Rightarrow> json" where
  "home_answer rq =
     (if hq_path rq = ''/api/v2/torrents/info'' then JList [listed_torrent hash_a, listed_torrent hash_b]
      else if hq_path rq = ''/api/v2/torrents/files'' then JList [listed_file ''m.mkv'', listed_file ''S01E01.mkv'']
      else if hq_path rq = ''/api/v3/config/mediamanagement'' then JObj [(''copyUsingHardlinks'', JBool True)]
      else if hq_path rq = ''/api/v3/command'' then JObj [(''id'', JInt 5)]
      else if hq_path rq = ''/api/v3/movie'' then
        JList [JObj [(''tmdbId'', JInt 7), (''hasFile'', JBool True), (''path'', JStr ''/data/media/movies/M''),
                     (''movieFile'', JObj [(''relativePath'', JStr ''m.mkv'')])]]
      else if hq_path rq = ''/api/v3/series'' then JList [JObj [(''tmdbId'', JInt 9), (''id'', JInt 4)]]
      else if hq_path rq = ''/api/v3/episode'' then
        JList [JObj [(''seasonNumber'', JInt 1), (''episodeNumber'', JInt 1)]]
      else JNull)"

definition home_stat :: file_stat where
  "home_stat = \<lparr>fs_device = 1, fs_inode = 2, fs_size = 600, fs_mtime_ns = 0, fs_nlink = 1,
     fs_regular = True, fs_directory = False\<rparr>"

definition home_env :: "unit fin_env" where
  "home_env =
     \<lparr>n_http = \<lambda>w d rq. (Inr \<lparr>rp_status = 200, rp_host = [], rp_error_text = [], rp_body = Some (home_answer rq)\<rparr>, d, w),
      n_resolve = \<lambda>w p. (Some p, w), n_exists = \<lambda>w p. (Some False, w), n_symlink = \<lambda>w p. (Some False, w),
      n_file = \<lambda>w p. (Some True, w), n_directory = \<lambda>w p. (Some True, w), n_stat = \<lambda>w p. (Some home_stat, w),
      n_read = \<lambda>w p. (None, w), n_ffprobe = \<lambda>w p. (ProbeExit 0 (Some home_probe), w),
      n_link = \<lambda>w p q. (LinkFailed, w), n_temp = \<lambda>w p c. (TempRefused, w), n_chmod = \<lambda>w p. (False, w),
      n_mkdirs = \<lambda>w p. (False, w), n_unlink = \<lambda>w p. (False, w), n_link_probe = \<lambda>w p q. (True, w),
      n_subtitle = \<lambda>w d q. (Inr None, d, w), n_capacity = \<lambda>w d. (Inr sample_capacity, d, w), n_now = \<lambda>w. (10, w)\<rparr>"

definition home_config :: fin_config where
  "home_config =
     \<lparr>fc_torrent_root = \<lparr>px_root = ''/'', px_parts = [''data'', ''torrents'']\<rparr>,
      fc_media_root = \<lparr>px_root = ''/'', px_parts = [''media'']\<rparr>, fc_policy = default_subtitle_policy,
      fc_subdl = False, fc_capacity = True, fc_owner = Some (1, 1), fc_ascii_fold = id,
      fc_parse_float = \<lambda>_. None, fc_parse_iso = \<lambda>_. None, fc_sha256 = id\<rparr>"

definition starting :: "db \<Rightarrow> unit fin" where
  "starting d = \<lparr>fn_world = (), fn_db = d, fn_subtitles = [], fn_log = []\<rparr>"

text \<open>The movie before and after its import was asked for, and the episode.\<close>

definition accepted_db :: db where
  "accepted_db = confirmed_db\<lparr>movie_imports := [\<lparr>mi_reservation_id = ''r1'', mi_state = ImAccepted,
     mi_command_id = None, mi_updated_at = 0\<rparr>]\<rparr>"

definition episode_source :: permit where
  "episode_source = confirmed_permit\<lparr>pm_id := ''p3'', pm_token := ''t3'', pm_operation_id := ''o3'', pm_infohash := hash_b,
     pm_category := ''sonarr'', pm_reservation_id := Some ''r2'', pm_scope_key := Some ''S01E01'',
     pm_selected_files := [''S01E01.mkv'']\<rparr>"

definition episode_db :: db where
  "episode_db = confirmed_db\<lparr>permits := [confirmed_permit, episode_source]\<rparr>"

lemma sample_others: "others home_env d d' \<longleftrightarrow> d' = d"
  by (auto simp: others_def home_env_def)

section \<open>Running a call\<close>

text \<open>A call that returns this value and leaves database and subtitles as they are.\<close>

definition replies :: "db \<Rightarrow> (unit, 'a) job \<Rightarrow> 'a \<Rightarrow> bool" where
  "replies d m x \<longleftrightarrow>
     (\<forall>s. fn_db s = d \<longrightarrow> fn_subtitles s = [] \<longrightarrow> (\<exists>s'. m s = (Inr x, s') \<and> fn_db s' = d \<and> fn_subtitles s' = []))"

lemma replies_bind: "replies d m x \<Longrightarrow> replies d (f x) y \<Longrightarrow> replies d (rbind m f) y"
  unfolding replies_def rbind_def by fastforce

lemma replies_plain:
  "replies d (give (Inr x)) x" "replies d (database f) (f d)" "replies d (insist True detail) ()"
  "replies d (raising (Inr x)) x" "replies d (clock home_env) 10"
  by (simp_all add: replies_def give_def database_def insist_def raising_def clock_def home_env_def)

lemma replies_noting: "(\<And>w. f w = (x, w)) \<Longrightarrow> replies d (noting ev f) x"
  by (simp add: replies_def noting_def)

lemma replies_seen: "(\<And>w. f w = (Some x, w)) \<Longrightarrow> replies d (seen ev f) x"
  unfolding seen_def by (rule replies_bind [OF replies_noting]) (auto simp: replies_plain)

lemma replies_files:
  "replies d (resolve_path home_env p) p" "replies d (is_plain_file home_env p) True"
  "replies d (stat_of home_env p) home_stat" "replies d (seen (WasDir q) (\<lambda>w. n_directory home_env w q)) True"
  unfolding resolve_path_def is_plain_file_def stat_of_def
  by (intro replies_seen; simp add: home_env_def)+

lemma replies_get:
  "replies d (fetch_json home_env sv path params)
     (home_answer \<lparr>hq_method = GET, hq_service = sv, hq_path = path, hq_params = params, hq_body = JNull\<rparr>)"
  by (simp add: replies_def fetch_json_def send_to_def rbind_def awaiting_def home_env_def give_def)

lemma replies_each: "list_all2 (\<lambda>x y. replies d (f x) y) xs ys \<Longrightarrow> replies d (each f xs) ys"
  by (induction rule: list_all2_induct) (auto intro: replies_plain replies_bind)

lemmas reply_rules = replies_bind replies_plain replies_files replies_get

section \<open>The parts of a call\<close>

lemma replies_insist: "ok \<Longrightarrow> replies d (insist ok detail) ()"
  by (simp add: replies_plain)

lemma replies_give: "x = y \<Longrightarrow> replies d (give (Inr x)) y"
  by (simp add: replies_plain)

lemma replies_raising: "r = Inr x \<Longrightarrow> replies d (raising r) x"
  by (simp add: replies_plain)

lemma replies_if: "b \<Longrightarrow> replies d m x \<Longrightarrow> replies d (if b then m else n) x"
  "\<not> b \<Longrightarrow> replies d n x \<Longrightarrow> replies d (if b then m else n) x"
  by simp_all

lemma replies_cases:
  "v = Some z \<Longrightarrow> replies d (f z) x \<Longrightarrow> replies d (case v of None \<Rightarrow> m | Some z \<Rightarrow> f z) x"
  "u = Inr z \<Longrightarrow> replies d (f z) x \<Longrightarrow> replies d (case u of Inl e \<Rightarrow> g e | Inr z \<Rightarrow> f z) x"
  "w = [y] \<Longrightarrow> replies d (h y []) x \<Longrightarrow> replies d (case w of [] \<Rightarrow> m | y # ys \<Rightarrow> h y ys) x"
  by simp_all

lemma replies_local:
  assumes "raw = ''/data/torrents'' \<and> parts = [] \<or> raw = ''/data/torrents/'' @ name \<and> parts = [name] \<and> name \<in> {''m.mkv'', ''S01E01.mkv''}"
  shows "replies d (local_path home_env home_config raw) (below (fc_torrent_root home_config) parts)"
proof -
  have inside: "raw = torrents_prefix \<or> starts_with (torrents_prefix @ ''/'') raw"
    and parts: "px_parts (posix_of (lstrip_slash (drop (length torrents_prefix) raw))) = parts"
    and up: "''..'' \<notin> set parts"
    and rel: "relative_to (below (fc_torrent_root home_config) parts) (fc_torrent_root home_config)"
    using assms by (elim disjE conjE insertE emptyE; hypsubst; code_simp)+
  have "\<not> \<not> (raw = torrents_prefix \<or> starts_with (torrents_prefix @ ''/'') raw)" using inside by blast
  then show ?thesis
    unfolding local_path_def Let_def parts
    by (rule replies_if(2)) (rule replies_if(2) [OF up], (rule replies_files replies_bind replies_insist rel replies_plain)+)
qed

lemma replies_source:
  "replies d (source_path home_env home_config confirmed_permit ''m.mkv'') (torrent_path ''m.mkv'')"
  "replies d (source_path home_env home_config episode_source ''S01E01.mkv'') (torrent_path ''S01E01.mkv'')"
proof -
  have "logical_path confirmed_permit ''m.mkv'' = Inr (''/data/torrents/'' @ ''m.mkv'')"
    "logical_path episode_source ''S01E01.mkv'' = Inr (''/data/torrents/'' @ ''S01E01.mkv'')"
    "below (fc_torrent_root home_config) [''m.mkv''] = torrent_path ''m.mkv''"
    "below (fc_torrent_root home_config) [''S01E01.mkv''] = torrent_path ''S01E01.mkv''"
    by code_simp+
  then show "replies d (source_path home_env home_config confirmed_permit ''m.mkv'') (torrent_path ''m.mkv'')"
      "replies d (source_path home_env home_config episode_source ''S01E01.mkv'') (torrent_path ''S01E01.mkv'')"
    using replies_local [of _ "[''m.mkv'']" "''m.mkv''" d] replies_local [of _ "[''S01E01.mkv'']" "''S01E01.mkv''" d]
    by (simp_all add: source_path_def)
qed

text \<open>One probe for both videos.\<close>

definition probed :: media_probe where
  "probed = (case probe_media (fc_parse_float home_config) (ProbeExit 0 (Some home_probe)) of
     Inr p \<Rightarrow> p | Inl _ \<Rightarrow> undefined)"

lemma probed: "probe_media (fc_parse_float home_config) (ProbeExit 0 (Some home_probe)) = Inr probed"
  "minimum_width \<le> mp_width probed" "minimum_height \<le> mp_height probed" "mp_audio probed \<noteq> []"
  "has_embedded_english (fc_ascii_fold home_config) probed = Inr True"
  "\<not> waives_subtitles (fc_ascii_fold home_config) (fc_policy home_config) probed"
  by code_simp+

lemma replies_validate: "replies d (validate_media home_env home_config q (Some 600)) probed"
  unfolding validate_media_def validate_size_def option.case
  by (rule reply_rules replies_insist replies_noting [where x = "ProbeExit 0 (Some home_probe)"] replies_cases(2) conjI probed
      | (simp add: home_env_def home_stat_def; fail))+

definition torrent_of :: "permit \<Rightarrow> (string \<times> json) list" where
  "torrent_of p = the (as_obj (listed_torrent (pm_infohash p)))"

definition is_sample :: "permit \<Rightarrow> string \<Rightarrow> bool" where
  "is_sample p name \<longleftrightarrow> p = confirmed_permit \<and> name = ''m.mkv'' \<or> p = episode_source \<and> name = ''S01E01.mkv''"

definition listed_files :: "(string \<times> json) list list" where
  "listed_files = [the (as_obj (listed_file ''m.mkv'')), the (as_obj (listed_file ''S01E01.mkv''))]"

lemma replies_gateway:
  assumes "is_sample p name"
  shows "replies d (gateway_torrent home_env p) (Some (torrent_of p))"
    and "replies d (gateway_files home_env p) listed_files"
proof -
  have found: "find_torrent (pm_infohash p) (List.map_filter as_obj [listed_torrent hash_a, listed_torrent hash_b]) =
      Inr (Some (torrent_of p))"
    using assms unfolding is_sample_def by (elim disjE conjE; hypsubst; code_simp)
  have info: "as_list (home_answer \<lparr>hq_method = GET, hq_service = Gateway, hq_path = ''/api/v2/torrents/info'',
      hq_params = params, hq_body = JNull\<rparr>) = Some [listed_torrent hash_a, listed_torrent hash_b]"
    and files: "as_list (home_answer \<lparr>hq_method = GET, hq_service = Gateway, hq_path = ''/api/v2/torrents/files'',
      hq_params = params, hq_body = JNull\<rparr>) = Some [listed_file ''m.mkv'', listed_file ''S01E01.mkv'']" for params
    by (simp_all add: home_answer_def)
  have list: "List.map_filter as_obj [listed_file ''m.mkv'', listed_file ''S01E01.mkv''] = listed_files" by code_simp
  show "replies d (gateway_torrent home_env p) (Some (torrent_of p))"
    unfolding gateway_torrent_def
    by (rule replies_bind [OF replies_get], rule replies_cases(1) [OF info], rule replies_raising [OF found])
  show "replies d (gateway_files home_env p) listed_files"
    unfolding gateway_files_def
    by (rule replies_bind [OF replies_get], rule replies_cases(1) [OF files], rule replies_give [OF list])
qed

lemma replies_selected:
  assumes "is_sample p name"
  shows "replies d (each (selected_path home_env home_config p (fc_torrent_root home_config) (file_sizes listed_files))
           (pm_selected_files p)) [torrent_path name]"
    and "replies d (each (source_path home_env home_config p) (pm_selected_files p)) [torrent_path name]"
proof -
  have facts: "pm_selected_files p = [name]" "map_of (file_sizes listed_files) name = Some (fs_size home_stat)"
      "relative_to (torrent_path name) (fc_torrent_root home_config)"
    using assms unfolding is_sample_def by (elim disjE conjE; hypsubst; code_simp)+
  have source: "replies d (source_path home_env home_config p name) (torrent_path name)"
    using assms replies_source unfolding is_sample_def by blast
  have "replies d (selected_path home_env home_config p (fc_torrent_root home_config) (file_sizes listed_files) name)
      (torrent_path name)"
    unfolding selected_path_def
    by (rule replies_bind [OF source], rule replies_cases(1) [OF facts(2)])
      (rule replies_files replies_bind replies_insist facts refl replies_plain)+
  then show "replies d (each (selected_path home_env home_config p (fc_torrent_root home_config) (file_sizes listed_files))
           (pm_selected_files p)) [torrent_path name]"
    unfolding facts(1) by (intro replies_each) simp
  show "replies d (each (source_path home_env home_config p) (pm_selected_files p)) [torrent_path name]"
    unfolding facts(1) by (intro replies_each) (simp add: source)
qed

definition sample_download :: "string \<Rightarrow> download" where
  "sample_download name =
     \<lparr>dl_video = torrent_path name, dl_probe = probed, dl_brazilian = False, dl_english = False,
      dl_selected = [torrent_path name]\<rparr>"

lemma replies_media:
  assumes "is_sample p name" and "wanted (torrent_path name)"
  shows "replies d (check_media home_env home_config p wanted [torrent_path name]) (sample_download name)"
proof -
  have facts: "pm_budget_bytes p = Some 600"
      "filter (path_suffix_among pack_video_suffixes) [torrent_path name] = [torrent_path name]"
      "filter (path_suffix_among subtitle_suffixes) [torrent_path name] = []"
    using assms(1) unfolding is_sample_def by (elim disjE conjE; hypsubst; code_simp)+
  show ?thesis
    unfolding check_media_def Let_def facts first_with.simps sample_download_def list.case
    by (rule replies_bind [OF replies_insist], simp,
        rule replies_bind [OF replies_insist [OF assms(2)]], rule replies_bind [OF replies_validate],
        rule replies_bind [OF replies_insist [OF probed(4)]], rule replies_bind [OF replies_plain(1)],
        rule replies_bind [OF replies_insist], simp, rule replies_give, simp)
qed

lemma replies_content:
  "replies d (content_dir home_env home_config confirmed_permit ''/data/torrents'') (fc_torrent_root home_config)"
  "replies d (content_dir home_env home_config episode_source ''/data/torrents'') (fc_torrent_root home_config)"
proof -
  have local: "replies d (local_path home_env home_config ''/data/torrents'') (fc_torrent_root home_config)"
    using replies_local [of "''/data/torrents''" "[]" _ d] by (simp add: below_def)
  have "rstrip_slash (pm_destination confirmed_permit) = ''/data/torrents''"
    "rstrip_slash (pm_destination episode_source) = ''/data/torrents''" by code_simp+
  then show "replies d (content_dir home_env home_config confirmed_permit ''/data/torrents'') (fc_torrent_root home_config)"
      "replies d (content_dir home_env home_config episode_source ''/data/torrents'') (fc_torrent_root home_config)"
    by (simp_all add: content_dir_def local)
qed

lemma replies_stored: "replies d (stored_subtitle home_config (Some rid) scope infohash ''BR_PT'' finalizer_source) None"
  "replies d (stored_subtitle home_config (Some rid) scope infohash ''EN'' finalizer_source) None"
  "replies d (stored_subtitle home_config (Some rid) scope infohash ''BR_PT'' ''subdl'') None"
  "replies d (stored_subtitle home_config (Some rid) scope infohash ''EN'' ''subdl'') None"
  by (simp_all add: replies_def stored_subtitle_def subtitles_def get_subtitle_def subtitle_languages_def
      subtitle_sources_def)

text \<open>Brazilian is missing, English is embedded.\<close>

lemma replies_present:
  assumes "source \<in> set subtitle_sources" and "dl = sample_download name"
  shows "replies d (subtitle_present home_config (Some rid) p scope source ''BR_PT'' (dl_brazilian dl)) False"
    and "replies d (english_present home_config (Some rid) p scope source dl) True"
proof -
  have none: "replies d (stored_subtitle home_config (Some rid) scope (pm_infohash p) ''BR_PT'' source) None"
      "replies d (stored_subtitle home_config (Some rid) scope (pm_infohash p) ''EN'' source) None"
    using assms(1) replies_stored by (auto simp: subtitle_sources_def)
  have dl: "dl_brazilian dl = False" "dl_english dl = False" "dl_probe dl = probed"
    by (simp_all add: assms(2) sample_download_def)
  have generic: "sp_generic_english (fc_policy home_config)" by code_simp
  have absent: "replies d (subtitle_present home_config (Some rid) p scope source language False) False"
    if "language = ''BR_PT'' \<or> language = ''EN''" for language
    unfolding subtitle_present_def if_False
    by (rule replies_bind, use that none in blast, rule replies_give, simp)
  then show "replies d (subtitle_present home_config (Some rid) p scope source ''BR_PT'' (dl_brazilian dl)) False"
    by (simp add: dl)
  show "replies d (english_present home_config (Some rid) p scope source dl) True"
    unfolding english_present_def dl
    by (rule replies_bind [OF absent], simp, simp add: generic, rule replies_raising [OF probed(5)])
qed

lemma replies_placed:
  "replies d (hardlink_import_enabled home_env arr) True"
  "replies d (import_mode home_env home_config video selected) (Some False)"
proof -
  show "replies d (hardlink_import_enabled home_env arr) True"
    unfolding hardlink_import_enabled_def
    by (rule replies_bind [OF replies_get], rule replies_give) (simp add: home_answer_def jget_def get_or_def)
  have stat: "replies d (noting (Statted q) (\<lambda>w. n_stat home_env w q)) (Some home_stat)" for q
    by (rule replies_noting) (simp add: home_env_def)
  have linked: "replies d (noting (LinkProbed q q') (\<lambda>w. n_link_probe home_env w q q')) True" for q q'
    by (rule replies_noting) (simp add: home_env_def)
  have owner: "fc_owner home_config = Some (1, 1)" by (simp add: home_config_def)
  have "replies d (probe_hardlink home_env (fc_owner home_config) video (fc_media_root home_config)) True"
    unfolding probe_hardlink_def owner option.case prod.case
    by (rule replies_if(2), simp, rule replies_bind [OF stat], simp only: option.simps if_False,
        rule replies_bind [OF stat], simp only: option.case prod.case, rule replies_bind [OF replies_files(4)],
        rule replies_if(2), simp, rule linked)
  then show "replies d (import_mode home_env home_config video selected) (Some False)"
    unfolding import_mode_def by (rule replies_bind) (simp add: replies_plain)
qed

text \<open>A claim that succeeds is followed by the scan.\<close>

lemma dispatch_replies:
  assumes "claim 10 (fn_db s) = (d', True)"
  shows "fst (scan_dispatch home_env claim record arr name path p s) = Inr ''import_requested''"
proof -
  have "command_id (JObj [(''id'', JInt 5)]) = Some ''5''" by code_simp
  then show ?thesis
    using assms
    by (auto simp: rbind_def commit_def request_scan_def post_json_def send_to_def awaiting_def give_def home_env_def
        home_answer_def split: prod.splits)
qed

section \<open>Whole calls\<close>

lemma replies_state: "replies (fn_db s) m x \<Longrightarrow> fn_subtitles s = [] \<Longrightarrow>
    (\<And>s'. fn_db s' = fn_db s \<Longrightarrow> fn_subtitles s' = [] \<Longrightarrow> fst (f x s') = y) \<Longrightarrow> fst (rbind m f s) = y"
  by (fastforce simp: replies_def rbind_def)

lemma movie_requested:
  "fst (finalize_movie home_env home_config ''movie:tmdb:7'' ''r1'' (starting confirmed_db)) = Inr ''import_requested''"
proof -
  have sample: "is_sample confirmed_permit ''m.mkv''" by (simp add: is_sample_def)
  have db: "reserved_for ''r1'' ''movie:tmdb:7'' confirmed_db" "confirmed_source ''r1'' None confirmed_db = Some confirmed_permit"
    "movie_import_state ''r1'' confirmed_db = None" by code_simp+
  have claim: "snd (claim_movie_import 10 ''r1'' False confirmed_db)" by code_simp
  have content: "as_str (jget (torrent_of confirmed_permit) ''content_path'') = Some ''/data/torrents''"
    "finished (torrent_of confirmed_permit)" "pm_selected_files confirmed_permit \<noteq> []" by code_simp+
  let ?dl = "sample_download ''m.mkv''"
  have check: "replies d (check_movie home_env home_config confirmed_permit (torrent_of confirmed_permit))
      (''/data/torrents'', ?dl, movie_titles (dl_video ?dl) True (fc_torrent_root home_config) (torrent_of confirmed_permit))" for d
    unfolding check_movie_def content(1) option.case
    by (rule replies_bind [OF replies_content(1)], rule replies_bind [OF replies_insist [OF content(3)]],
        rule replies_bind [OF replies_gateway(2) [OF sample]], rule replies_bind [OF replies_selected(1) [OF sample]],
        rule replies_bind [OF replies_media [OF sample TrueI]], rule replies_bind [OF replies_files(4)], rule replies_give, rule refl)
  have attempts: "subtitle_attempts (fc_policy home_config) =
      [(''BR_PT'', ''exact''), (''BR_PT'', ''same_duration''), (''EN'', ''exact''), (''EN'', ''same_duration'')]"
    "\<not> fc_subdl home_config" by code_simp+
  have subs: "replies d (movie_subtitles home_env home_config ''movie:tmdb:7'' ''r1'' confirmed_permit ?dl titles) True" for d titles
  proof -
    have dl: "dl_probe ?dl = probed" by (simp add: sample_download_def)
    show ?thesis
      unfolding movie_subtitles_def dl attempts
      by (rule replies_bind [OF replies_present(1)], simp add: subtitle_sources_def, rule refl,
          rule replies_bind [OF replies_present(2)], simp add: subtitle_sources_def, rule refl,
          rule replies_if(2) [OF probed(6)])
        (simp add: replies_def rbind_def give_def attempts(2))
  qed
  have start: "fst (start_movie_import home_env home_config ''r1'' confirmed_permit content dl s) = Inr ''import_requested''"
    if "fn_db s = confirmed_db" "fn_subtitles s = []" for content dl s
    unfolding start_movie_import_def
    using that claim
    by (intro replies_state [OF replies_placed(1)]) (simp_all, intro replies_state [OF replies_placed(2)],
        simp_all add: dispatch_replies [where claim = "\<lambda>now d. claim_movie_import now ''r1'' False d"] prod_eq_iff)
  have "fst (request_movie_import home_env home_config ''movie:tmdb:7'' ''r1'' confirmed_permit (starting confirmed_db)) =
      Inr ''import_requested''"
    unfolding request_movie_import_def
    apply (rule replies_state [OF replies_gateway(1) [OF sample]], simp add: starting_def)
    apply (simp only: option.case content(2) simp_thms if_False)
    apply (rule replies_state [OF check], assumption)
    apply (simp only: prod.case)
    apply (rule replies_state [OF subs], assumption)
    apply (simp only: simp_thms if_False)
    apply (rule start; simp add: starting_def)
    done
  then show ?thesis using db by (simp add: finalize_movie_def rbind_def database_def starting_def)
qed

definition library_file :: posix where
  "library_file = \<lparr>px_root = ''/'', px_parts = [''media'', ''M'', ''m.mkv'']\<rparr>"

lemma replies_library:
  defines "movie \<equiv> [(''tmdbId'', JInt 7), (''hasFile'', JBool True), (''path'', JStr ''/data/media/movies/M''),
                     (''movieFile'', JObj [(''relativePath'', JStr ''m.mkv'')])]"
  shows "replies d (radarr_movie home_env ''movie:tmdb:7'') (Some movie)"
    and "replies d (movie_file_path home_env home_config movie) library_file"
    and "truthy (jget movie ''hasFile'')"
proof -
  have js: "as_list (home_answer \<lparr>hq_method = GET, hq_service = Radarr, hq_path = ''/api/v3/movie'', hq_params = params,
      hq_body = JNull\<rparr>) = Some [JObj movie]" for params
    by (simp add: home_answer_def movie_def)
  have list: "List.map_filter as_obj [JObj movie] = [movie]" "key_number ''movie:tmdb:7'' = Inr 7"
      "find_row (\<lambda>d. same_number (jget d ''tmdbId'') 7) [movie] = Some movie"
      "movie_path home_config movie = Some library_file"
      "relative_to library_file (fc_media_root home_config)"
    unfolding movie_def by code_simp+
  show "truthy (jget movie ''hasFile'')" unfolding movie_def by code_simp
  show "replies d (radarr_movie home_env ''movie:tmdb:7'') (Some movie)"
    unfolding radarr_movie_def
    apply (rule replies_bind [OF replies_get])
    apply (simp only: js option.case list(1) list.case)
    apply (rule replies_bind [OF replies_raising [OF list(2)]])
    apply (rule replies_give [OF list(3)])
    done
  show "replies d (movie_file_path home_env home_config movie) library_file"
    unfolding movie_file_path_def list(4) option.case
    by (rule replies_bind [OF replies_files(1)], rule replies_bind [OF replies_files(1)], rule replies_if(2),
        simp add: list(5), rule replies_bind [OF replies_files(2)], rule replies_bind [OF replies_plain(3)], rule replies_plain)
qed

lemma replies_matches:
  assumes "is_sample p name"
  shows "replies d (import_matches home_env home_config video p copy) True"
proof -
  have video: "video_sources p = pm_selected_files p"
    using assms unfolding is_sample_def by (elim disjE conjE; hypsubst; code_simp)
  show ?thesis
    unfolding import_matches_def video
    by (rule replies_bind [OF replies_selected(2) [OF assms]], simp only: list.case,
        rule replies_bind [OF replies_files(3)], rule replies_bind [OF replies_files(3)], simp add: replies_plain)
qed

lemma replies_ensured:
  "replies d (ensure_subtitle home_env home_config video confirmed_permit None (sp_languages (fc_policy home_config))) ()"
proof -
  have facts: "sp_languages (fc_policy home_config) = [''pt-BR'', ''en-US'']"
      "language_code ''pt-BR'' = Some ''BR_PT''" "language_code ''en-US'' = Some ''EN''"
      "filter (named_in home_config ''BR_PT'') (pm_selected_files confirmed_permit) = []"
      "filter (named_in home_config ''EN'') (pm_selected_files confirmed_permit) = []"
      "pm_reservation_id confirmed_permit = Some ''r1''" "pm_budget_bytes confirmed_permit = Some 600"
      "sp_generic_english (fc_policy home_config)"
    by code_simp+
  have last: "replies d (ensured_otherwise home_env home_config video confirmed_permit) ()"
    unfolding ensured_otherwise_def facts(1,7)
    by (rule replies_bind [OF replies_validate], rule replies_if(2) [OF probed(6)], rule replies_if(1), simp add: facts,
        rule replies_bind [OF replies_raising [OF probed(5)]], rule replies_plain)
  show ?thesis
    unfolding facts(1) ensure_subtitle.simps facts(2-6) option.case each.simps
    apply (rule replies_bind [OF replies_plain(1)])
    apply (simp only: first_with.simps)
    apply (rule replies_bind [OF replies_plain(1)])
    apply (simp only: option.case simp_thms if_False if_True)
    apply (rule replies_bind [OF replies_stored(1)])
    apply (simp only: option.case)
    apply (rule replies_bind [OF replies_plain(1)])
    apply (simp only: first_with.simps)
    apply (rule replies_bind [OF replies_plain(1)])
    apply (simp only: option.case simp_thms if_False if_True)
    apply (rule replies_bind [OF replies_stored(2)])
    apply (simp only: option.case)
    apply (rule last)
    done
qed

lemma movie_completed:
  "fst (finalize_movie home_env home_config ''movie:tmdb:7'' ''r1'' (starting accepted_db)) = Inr ''complete''"
    "done_movies (fn_db (snd (finalize_movie home_env home_config ''movie:tmdb:7'' ''r1'' (starting accepted_db)))) = {''r1''}"
    "done_movies accepted_db = {}"
proof -
  have sample: "is_sample confirmed_permit ''m.mkv''" by (simp add: is_sample_def)
  have db: "reserved_for ''r1'' ''movie:tmdb:7'' accepted_db" "confirmed_source ''r1'' None accepted_db = Some confirmed_permit"
    "movie_import_state ''r1'' accepted_db = Some ImAccepted" by code_simp+
  have rows: "movie_imports accepted_db = [\<lparr>mi_reservation_id = ''r1'', mi_state = ImAccepted, mi_command_id = None, mi_updated_at = 0\<rparr>]"
    by (simp add: accepted_db_def)
  show "done_movies accepted_db = {}" by (simp add: done_movies_def movie_import_state_def rows)
  have after: "done_movies (complete_movie_import 10 ''r1'' accepted_db) = {''r1''}"
    by (auto simp: done_movies_def movie_import_state_def complete_movie_import_def set_request_state_def rows update_rows_def
        Let_def split: option.splits)
  have whole: "\<exists>s'. finish_movie_import home_env home_config ''movie:tmdb:7'' ''r1'' confirmed_permit False s = (Inr ''complete'', s') \<and>
      fn_db s' = complete_movie_import 10 ''r1'' accepted_db"
    if s: "fn_db s = accepted_db" "fn_subtitles s = []" for s
  proof -
    have ends: "\<exists>s'. rbind m f s = (Inr ''complete'', s') \<and> fn_db s' = complete_movie_import 10 ''r1'' accepted_db"
      if "replies accepted_db m x" and "\<And>s. fn_db s = accepted_db \<Longrightarrow> fn_subtitles s = [] \<Longrightarrow>
          \<exists>s'. f x s = (Inr ''complete'', s') \<and> fn_db s' = complete_movie_import 10 ''r1'' accepted_db"
        and "fn_db s = accepted_db" "fn_subtitles s = []" for m :: "(unit, 'x) job" and f x s
      using that unfolding replies_def rbind_def by fastforce
    show ?thesis
      unfolding finish_movie_import_def
      apply (rule ends [OF replies_library(1) _ s])
      apply (simp only: option.case replies_library(3) simp_thms if_False)
      apply (rule ends [OF replies_library(2)], rule ends [OF replies_matches [OF sample]])
         apply (simp only: simp_thms if_False)
         apply (rule ends [OF replies_library(2)], rule ends [OF replies_ensured])
            apply (simp add: rbind_def commit_def give_def home_env_def)
           apply assumption+
      done
  qed
  have "finalize_movie home_env home_config ''movie:tmdb:7'' ''r1'' (starting accepted_db) =
      finish_movie_import home_env home_config ''movie:tmdb:7'' ''r1'' confirmed_permit False (starting accepted_db)"
    using db by (simp add: finalize_movie_def rbind_def database_def starting_def)
  with whole [of "starting accepted_db"] obtain s' where
      "finalize_movie home_env home_config ''movie:tmdb:7'' ''r1'' (starting accepted_db) = (Inr ''complete'', s')"
      and "fn_db s' = complete_movie_import 10 ''r1'' accepted_db"
    by (auto simp: starting_def)
  then show "fst (finalize_movie home_env home_config ''movie:tmdb:7'' ''r1'' (starting accepted_db)) = Inr ''complete''"
    "done_movies (fn_db (snd (finalize_movie home_env home_config ''movie:tmdb:7'' ''r1'' (starting accepted_db)))) = {''r1''}"
    using after by simp_all
qed

definition sample_episode :: "(string \<times> json) list" where
  "sample_episode = [(''seasonNumber'', JInt 1), (''episodeNumber'', JInt 1)]"

definition sample_course :: course where
  "sample_course = plot_course ''season:tmdb:9:1'' ''r2'' 9 1 [(1, ''r2'')] [sample_episode]
     (chronological [((1, 1), sample_episode)]) episode_db"

lemma replies_active: "season_active (cr_rid cr) (cr_media_key cr) d \<Longrightarrow> replies d m x \<Longrightarrow> replies d (still_active cr m) x"
  unfolding still_active_def by (rule replies_bind [OF replies_plain(2)]) simp

lemma fst_active:
  "season_active (cr_rid cr) (cr_media_key cr) (fn_db s) \<Longrightarrow> fst (m s) = y \<Longrightarrow> fst (still_active cr m s) = y"
  by (simp add: still_active_def rbind_def database_def)

lemma replies_listed: "replies d (episodes_of home_env 9) [sample_episode]"
proof -
  have series: "as_list (home_answer \<lparr>hq_method = GET, hq_service = Sonarr, hq_path = ''/api/v3/series'', hq_params = params,
      hq_body = JNull\<rparr>) = Some [JObj [(''tmdbId'', JInt 9), (''id'', JInt 4)]]"
    and eps: "as_list (home_answer \<lparr>hq_method = GET, hq_service = Sonarr, hq_path = ''/api/v3/episode'', hq_params = params,
      hq_body = JNull\<rparr>) = Some [JObj sample_episode]" for params
    by (simp_all add: home_answer_def sample_episode_def)
  have found: "find_row (\<lambda>d. same_number (jget d ''tmdbId'') (int 9) \<and> as_int_or_bool (jget d ''id'') \<noteq> None)
      (List.map_filter as_obj [JObj [(''tmdbId'', JInt 9), (''id'', JInt 4)]]) = Some [(''tmdbId'', JInt 9), (''id'', JInt 4)]"
    "List.map_filter as_obj [JObj sample_episode] = [sample_episode]"
    unfolding sample_episode_def by code_simp+
  show ?thesis
    unfolding episodes_of_def
    apply (rule replies_bind [OF replies_get])
    apply (simp only: series option.case found(1))
    apply (rule replies_bind [OF replies_get])
    apply (simp only: eps option.case)
    apply (rule replies_give [OF found(2)])
    done
qed

lemma replies_validated:
  "replies d (validate_download home_env home_config episode_source 1 1)
     (Some \<lparr>ed_path = ''/data/torrents'', ed_brazilian = False, ed_english = True, ed_original = False, ed_title = Some ''T''\<rparr>)"
proof -
  have sample: "is_sample episode_source ''S01E01.mkv''" by (simp add: is_sample_def)
  have facts: "pm_season_pack_parent_id episode_source = None" "finished (torrent_of episode_source)"
      "as_str (jget (torrent_of episode_source) ''content_path'') = Some ''/data/torrents''"
      "as_str (jget (torrent_of episode_source) ''name'') = Some ''T''"
      "list_all (\<lambda>name. suffix_among subtitle_suffixes name \<longrightarrow> single_episode_name (posix_name name) 1 1) (pm_selected_files episode_source)"
      "single_episode_name (name_of (torrent_path ''S01E01.mkv'')) 1 1"
      "scan_path episode_source ''/data/torrents'' = Inr ''/data/torrents''" "pm_reservation_id episode_source = Some ''r2''"
      "''subdl'' \<in> set subtitle_sources"
    by code_simp+
  have checked: "replies d (check_episode home_env home_config episode_source 1 1 (torrent_of episode_source) ''/data/torrents'' listed_files)
      \<lparr>ed_path = ''/data/torrents'', ed_brazilian = False, ed_english = True, ed_original = False, ed_title = Some ''T''\<rparr>"
    unfolding check_episode_def check_subtitle_names_def facts(4,8)
    by (rule replies_bind [OF replies_content(2)], rule replies_bind [OF replies_insist [OF facts(5)]],
        rule replies_bind [OF replies_selected(1) [OF sample]], rule replies_bind [OF replies_media [OF sample, where wanted = "\<lambda>video. single_episode_name (name_of video) 1 1", OF facts(6)]],
        rule replies_bind [OF replies_present(1) [OF facts(9) refl]], rule replies_bind [OF replies_present(2) [OF facts(9) refl]],
        rule replies_bind [OF replies_raising [OF facts(7)]], rule replies_give, simp add: sample_download_def probed)
  show ?thesis
    unfolding validate_download_def
    apply (rule replies_bind [OF replies_gateway(1) [OF sample]])
    apply (simp only: option.case facts(1,2,3) simp_thms if_False)
    apply (rule replies_bind [OF replies_gateway(2) [OF sample]])
    apply (rule replies_bind [OF checked])
    apply (rule replies_plain(1))
    done
qed

lemma episode_started:
  assumes s: "fn_db s = episode_db" "fn_subtitles s = []"
    and cr: "cr_media_key cr = ''season:tmdb:9:1''" "cr_rid cr = ''r2''"
  shows "fst (start_episode_import home_env home_config cr episode_source ed s) = Inr ''import_requested''"
proof -
  have sample: "is_sample episode_source ''S01E01.mkv''" by (simp add: is_sample_def)
  have video: "find_row (path_suffix_among pack_video_suffixes) [torrent_path ''S01E01.mkv''] = Some (torrent_path ''S01E01.mkv'')"
    by code_simp
  have "season_active ''r2'' ''season:tmdb:9:1'' episode_db"
    and claim: "snd (claim_episode_import 10 (pm_id episode_source) False episode_db)"
    by code_simp+
  then have active: "season_active (cr_rid cr) (cr_media_key cr) episode_db" by (simp add: cr)
  show ?thesis
    unfolding start_episode_import_def
    apply (rule replies_state [OF replies_placed(1) s(2)])
    apply (simp only: simp_thms if_False)
    apply (rule fst_active, simp add: s active)
    apply (rule replies_state [OF replies_selected(2) [OF sample]], assumption)
    apply (simp only: video option.case)
    apply (rule replies_state [OF replies_placed(2)], assumption)
    apply (simp only: option.case)
    apply (rule fst_active, simp add: s active)
    apply (rule dispatch_replies [where d' = "fst (claim_episode_import 10 (pm_id episode_source) False episode_db)"])
    apply (simp add: s claim prod_eq_iff)
    done
qed

lemma episode_requested:
  "fst (finalize_season home_env home_config ''season:tmdb:9:1'' ''r2'' (starting episode_db)) = Inr ''import_requested''"
proof -
  have sample: "is_sample episode_source ''S01E01.mkv''" by (simp add: is_sample_def)
  have db: "season_active ''r2'' ''season:tmdb:9:1'' episode_db" "season_numbers ''season:tmdb:9:1'' = Some (9, 1)"
      "with_season 1 ''r2'' (requested_seasons 9 episode_db) = [(1, ''r2'')]"
      "\<not> episode_gone 9 1 1 episode_db" "confirmed_source ''r2'' (Some (scope_of 1 1)) episode_db = Some episode_source"
      "episode_state (pm_id episode_source) episode_db = None" "snd (claim_episode_import 10 (pm_id episode_source) False episode_db)"
    by code_simp+
  have episode: "episode_at [(1, ''r2'')] sample_episode = Some (1, 1)" "jget sample_episode ''monitored'' \<noteq> JBool False"
      "as_str (jget sample_episode ''airDateUtc'') = None" "\<not> has_file sample_episode"
    by code_simp+
  have course: "cr_media_key sample_course = ''season:tmdb:9:1''" "cr_rid sample_course = ''r2''" "cr_tmdb sample_course = 9"
      "cr_season sample_course = 1" "before_first sample_course 1 = None"
    unfolding sample_course_def by code_simp+
  have active: "season_active (cr_rid sample_course) (cr_media_key sample_course) episode_db" by (simp add: course db)
  have placed: "replies d (placed_episodes home_env home_config [(1, ''r2'')] [sample_episode]) [((1, 1), sample_episode)]" for d
    unfolding placed_episodes.simps episode(1,3) option.case if_not_P [OF episode(2)] episode_aired_def Option.bind.simps
    by (rule replies_bind [OF replies_plain(1)], rule replies_bind [OF replies_plain(1)], rule replies_give, simp)
  have chron: "chronological [((1, 1), sample_episode)] = [((1, 1), sample_episode)]" by (simp add: chronological_def)
  have attempts: "subtitle_attempts (fc_policy home_config) =
      [(''BR_PT'', ''exact''), (''BR_PT'', ''same_duration''), (''EN'', ''exact''), (''EN'', ''same_duration'')]"
    "\<not> fc_subdl home_config" by code_simp+
  have request: "fst (request_episode_import home_env home_config sample_course 1 episode_source sample_episode s) =
      Inr ''import_requested''" if s: "fn_db s = episode_db" "fn_subtitles s = []" for s
    unfolding request_episode_import_def course(4)
    apply (simp only: episode(4) if_False)
    apply (rule replies_state [OF replies_validated], simp add: s)
    apply (rule fst_active, simp add: s active)
    apply (simp only: option.case episode_subtitles_def episode_download.simps if_False attempts(1))
    apply (rule replies_state [where x = "Some (''EN'', [])"])
      apply (simp add: replies_def rbind_def give_def search_subtitle_def attempts(2))
     apply assumption
    apply (rule fst_active, simp add: s active)
    apply (simp only: option.case prod.case simp_thms if_True)
    apply (rule episode_started; simp only: s course)
    done
  have "fst (finalize_episodes home_env home_config sample_course False [((1, 1), sample_episode)] s) = Inr ''import_requested''"
    if s: "fn_db s = episode_db" "fn_subtitles s = []" for s
    using request [OF s] active
    by (simp add: still_active_def rbind_def database_def s course db del: One_nat_def)
  then show ?thesis
    unfolding finalize_season_def
    apply (simp only: db(2) option.case prod.case)
    apply (rule replies_state [OF replies_plain(2)], simp add: starting_def)
    apply (simp only: db(1) starting_def fin.simps simp_thms if_False)
    apply (rule replies_state [OF replies_listed], assumption)
    apply (rule replies_state [OF replies_plain(2)], assumption)
    apply (simp only: db(1) simp_thms if_False)
    apply (rule replies_state [OF replies_plain(2)], assumption)
    apply (simp only: db(3))
    apply (rule replies_state [OF placed], assumption)
    apply (rule replies_state [OF replies_plain(2)], assumption)
    apply (simp add: chron sample_course_def [symmetric, unfolded chron] del: One_nat_def)
    done
qed

end
