(* ===== verification/FinalizerProperties.thy ===== *)
theory FinalizerProperties
  imports FinalizerSamples
begin

text \<open>
  The properties of the finalizers and of the subtitle store.
\<close>

section \<open>Scans\<close>







section \<open>Completion\<close>




section \<open>The library\<close>






definition sample_srt :: string where
  "sample_srt = ''1 00:00:01,000 --> 00:00:02,000 text''"




text \<open>
  The check of a subtitle beside a video cuts its content after 16,384 octets before it decodes it,
  where \<open>valid_srt\<close> cuts after as many characters of the decoded text: a valid subtitle whose
  octets 16,384 and 16,385 are one character is refused.
\<close>

definition cut_srt :: string where
  "cut_srt = sample_srt @ replicate 16347 (CHR ''a'') @ map char_of [195 :: nat, 169]"

definition ascii :: "char \<Rightarrow> bool" where
  "ascii c = (code c < 128)"

lemma utf8_valid_ascii: "list_all ascii s \<Longrightarrow> utf8_valid (s @ r) = utf8_valid r"
  by (induction s) (auto simp: ascii_def)

lemma take_chars_ascii: "list_all ascii s \<Longrightarrow> take_chars n s = take n s"
  by (induction n s rule: take_chars.induct) (auto simp: ascii_def cont_def split: nat.split)

lemma take_chars_append:
  "list_all ascii s \<Longrightarrow> length s \<le> n \<Longrightarrow> take_chars n (s @ r) = s @ take_chars (n - length s) r"
proof (induction s arbitrary: n)
  case (Cons c s)
  then show ?case by (cases n) (auto simp: ascii_def cont_def)
qed simp

lemma search_append: "p (s @ r) \<Longrightarrow> search_text p (a @ s @ r)"
proof (induction a)
  case Nil
  then show ?case by (cases "s @ r") auto
qed simp

lemma sample_ascii: "list_all ascii sample_srt" "list_all ascii (replicate n (CHR ''a''))" "length sample_srt = 36"
proof -
  show "list_all ascii sample_srt" "length sample_srt = 36" by code_simp+
  have "ascii (CHR ''a'')" by code_simp
  then show "list_all ascii (replicate n (CHR ''a''))" by (simp add: list_all_iff)
qed

lemma sample_cue: "search_text cue_at (sample_srt @ r)"
proof -
  have "sample_srt @ r = ''1 '' @ ''00:00:01,000 --> 00:00:02,000 text'' @ r"
    by (simp add: sample_srt_def)
  moreover have "cue_at (''00:00:01,000 --> 00:00:02,000 text'' @ r)"
    by (simp add: cue_at_def cue_time_def clock_time_def arrow_def drop_spaces_def is_digit_def is_space_def code_def
        strip_prefix_def starts_with_def)
  ultimately show ?thesis using search_append [of cue_at] by metis
qed

theorem cut_subtitle_refused: "valid_srt cut_srt \<and> \<not> content_ok ''.srt'' cut_srt"
proof -
  have long: "length cut_srt = 16385" by (simp add: cut_srt_def sample_ascii(3))
  let ?body = "sample_srt @ replicate 16347 (CHR ''a'')"
  have body: "cut_srt = ?body @ map char_of [195 :: nat, 169]" "length ?body = 16383" "list_all ascii ?body"
    using sample_ascii by (simp_all add: cut_srt_def)
  have tail: "utf8_valid (map char_of [195 :: nat, 169])" "\<not> utf8_valid (map char_of [195 :: nat])" by code_simp+
  have "char_of (239 :: nat) \<noteq> CHR ''1''" by code_simp
  then have start: "strip_prefix bom (sample_srt @ r) = None" for r
    by (auto simp add: strip_prefix_def starts_with_def bom_def sample_srt_def)
  have "CHR 0x00 \<notin> set (map char_of [195 :: nat, 169])" by code_simp
  then have zero: "CHR 0x00 \<notin> set cut_srt" by (auto simp: cut_srt_def sample_srt_def)
  have "take_chars scanned_chars cut_srt = ?body @ take_chars 1 (map char_of [195 :: nat, 169])"
    using take_chars_append [OF body(3), of scanned_chars "map char_of [195 :: nat, 169]"] body(1,2)
    by (simp add: scanned_chars_def)
  then have "search_text cue_at (take_chars scanned_chars cut_srt)" using sample_cue by simp
  moreover have "decode_sig cut_srt = Some cut_srt"
  proof -
    have "utf8_valid cut_srt" unfolding body(1) utf8_valid_ascii [OF body(3)] by (rule tail(1))
    moreover have "strip_prefix bom cut_srt = None" using start by (simp add: cut_srt_def)
    ultimately show ?thesis by (simp add: decode_sig_def)
  qed
  ultimately have "valid_srt cut_srt"
    using zero by (simp add: valid_srt_def min_srt_def max_srt_def long)
  moreover have cut: "take scanned_octets cut_srt = ?body @ map char_of [195 :: nat]"
    unfolding body(1) using body(2) by (simp add: scanned_octets_def)
  have "\<not> utf8_valid (take scanned_octets cut_srt)"
    unfolding cut utf8_valid_ascii [OF body(3)] by (rule tail(2))
  ultimately show ?thesis by (simp add: content_ok_def decode_sig_def)
qed

end
