(* ===== verification/Spec2Isabelle.thy ===== *)
theory Spec2Isabelle
  imports RegistryProperties AdmissionProperties PackProperties ReservationProperties EvidenceProperties
    LookupProperties TorrentProperties HealthProperties DeletionJobProperties DeletionProperties
    InspectionProperties CaptureProperties GatewayProperties GatewayAdds FinalizerProperties
begin

text \<open>
  A verification library for the control service of the media server
  (\<open>services/control/src/homeserver_control\<close>; paths below are relative to it).

  \<^bold>\<open>The program.\<close>  The service turns requests made in Seerr into downloads on one or more
  disks and removes media that is deleted in Jellyfin.  A worker reserves space for a request
  (\<open>persistence/db.py\<close>), chooses a release, and asks the gateway for a permit
  (\<open>gateway/permits.py\<close>); the gateway (\<open>gateway/app.py\<close>) stands between everybody and
  qBittorrent, and forwards a torrent only for a permit it can claim, once.  Probe permits (\<open>gateway/probe_permits.py\<close>) run a second source beside a
  stalled one, and \<open>worker/source_health.py\<close> decides between them from what it observes.
  Capacity evidence (\<open>worker/capacity_evidence.py\<close>) is what admission trusts about the disks.
  Torrent metadata (\<open>domain/torrent_bytes.py\<close>, \<open>domain/torrent_manifest.py\<close>) says what a
  torrent would write, \<open>worker/season_packs.py\<close> which episodes a pack serves.  Deletions are
  captured by the API (\<open>api/deletion_capture.py\<close>) as durable jobs
  (\<open>persistence/deletion_jobs.py\<close>) that \<open>worker/deletion_coordinator.py\<close> takes through a fixed
  order of stages, after a tombstone has closed the item for acquisition.  Finished downloads
  are validated and imported by \<open>worker/finalization.py\<close> (movies) and
  \<open>worker/series_finalization.py\<close> (episodes, in their order): they claim the import in the
  database, ask Radarr or Sonarr for it, and complete it once the library holds the downloaded
  file with a subtitle.  All of them share one SQLite database.

  \<^bold>\<open>Theories and code.\<close>
  \<^item> \<open>Prelude\<close>, \<open>Json\<close>, \<open>MediaKeys\<close>: exceptions as values, strings, dictionaries, tables,
    decoded JSON, media keys and the regular expressions on them.
  \<^item> \<open>Capacity\<close> (\<open>domain/capacity.py\<close>, \<open>domain/policy.py\<close>), \<open>CapacityEvidence\<close>
    (\<open>worker/capacity_evidence.py\<close>): byte arithmetic, and the evidence drawn from the queue.
  \<^item> \<open>Database\<close>: the tables as one record \<open>db\<close>, the queries the stores share, well-formedness.
  \<^item> \<open>PermitStore\<close>, \<open>PermitIssue\<close>, \<open>PermitGuards\<close>, \<open>PermitLifecycle\<close>, \<open>PermitLookups\<close>:
    \<open>PermitRegistry\<close> with a database path; \<open>ProbePermits\<close> and \<open>SeasonPacks\<close>: probes, handovers
    and season packs.
  \<^item> \<open>Reservations\<close>, \<open>ImportExclusion\<close>: \<open>ReservationRepository\<close>, \<open>worker/scheduler.py\<close> and
    \<open>worker/cancellation.py\<close>.
  \<^item> \<open>PermitSystem\<close>, \<open>PermitRefinement\<close>, \<open>ReservationFacts\<close>: the operations of registry and
    repository as steps on one database, its reachable states, and an abstract state per token
    that the registry refines.
  \<^item> \<open>Bencode\<close>, \<open>TorrentBytes\<close>, \<open>TorrentManifest\<close>, \<open>TorrentArtifacts\<close>, \<open>Selection\<close>: torrent
    metadata, its store, and the choice of episode files.
  \<^item> \<open>SourceHealth\<close>: observations, verdicts and races.
  \<^item> \<open>DeletionJobs\<close>; \<open>Outside\<close>, \<open>DeletionCapture\<close>, \<open>DeletionSteps\<close>, \<open>DeletionRecords\<close>,
    \<open>SeasonCapture\<close>, \<open>DeletionProcess\<close>: the deletion jobs and the whole flow of the deletion
    coordinator, over an environment that answers HTTP and file-system calls arbitrarily.
    \<open>DeletionFacts\<close>, \<open>SeasonFacts\<close>, \<open>DeletionRounds\<close>, \<open>DeletionWorker\<close> prove what its steps
    keep.
  \<^item> \<open>ReleaseQuality\<close>, \<open>SubtitleLanguage\<close>, \<open>PackInspection\<close> (\<open>worker/release_quality.py\<close>,
    \<open>worker/subtitle_language.py\<close>, \<open>worker/season_packs.py\<close>): the rank of a release, the labels
    of subtitle files, and the inspection of a season pack.
  \<^item> \<open>Requests\<close>: request handlers, which return or raise after changing a state, with triples.
    \<open>DeletionAdmission\<close> (\<open>api/deletion_capture.py\<close>) captures a deletion; \<open>CaptureFacts\<close> and
    \<open>CaptureSamples\<close> serve its properties.
  \<^item> \<open>WorkerGate\<close> (\<open>recovery.py\<close>, \<open>persistence/heartbeat.py\<close>), \<open>MagnetLink\<close>
    (\<open>domain/magnet.py\<close>), \<open>Gateway\<close>, \<open>GatewaySources\<close>, \<open>GatewayProbes\<close>, \<open>GatewayQueue\<close>,
    \<open>GatewayRoutes\<close> (\<open>gateway/app.py\<close>, \<open>gateway/auth.py\<close>, \<open>gateway/allowlist.py\<close>): every route
    of the gateway as a handler over the database of the registry; \<open>serve\<close> is the whole
    application.  \<open>GatewayFacts\<close> and \<open>GatewaySafety\<close> prove, handler by handler, what each keeps
    while other processes take steps of the registry; \<open>GatewaySamples\<close> has concrete requests.
  \<^item> \<open>Subtitles\<close> (\<open>domain/subtitle_content.py\<close>, \<open>persistence/subtitle_artifacts.py\<close>,
    \<open>domain/media_probe.py\<close>, the stream labels of \<open>worker/subtitle_language.py\<close>),
    \<open>ImportFiles\<close> (\<open>worker/imports.py\<close>, \<open>worker/validation.py\<close>, the paths of the finalizers
    and everything they ask of services and disks), \<open>MovieFinalizer\<close>, \<open>SeriesFinalizer\<close>:
    the finalizers as handlers that log every event with the database of its moment.
    \<open>FinalizerFacts\<close> has the locales for what their steps leave alone, \<open>FinalizerEvidence\<close>
    what a run that goes on has seen, \<open>FinalizerRuns\<close> the shape of whole runs,
    \<open>FinalizerOrder\<close> the order of episodes; \<open>FinalizerScans\<close> and \<open>FinalizerImports\<close> prove
    what is asked of Radarr and Sonarr and what is completed, \<open>FinalizerSamples\<close> has runs.
  \<^item> \<open>Samples\<close> and the theories ending in \<open>Properties\<close>: the properties, each with an instance
    at concrete data.

  \<^bold>\<open>What is shown.\<close>  No token is dispatched twice under any interleaving, and a lost effect is
  not repeated; admission never commits more than the disks hold; live sources are unique per
  scope and torrent; replacing, promoting and binding sources are all-or-nothing; a cancelled
  reservation is never dispatched; imports exclude each other.  The gateway refines the
  registry: with whatever other processes commit meanwhile, a request is a run of the
  registry's steps.  It calls qBittorrent for a change only with a row of the registry behind
  it, adds at most one torrent per request with a permit that was fresh, deletes only what it
  has compared with the verified manifest, reports a promotion or a queue order only after
  qBittorrent has shown it, and does nothing for a caller without credential.  The bencode decoder accepts
  exactly the canonical encodings; accepted torrents name only safe paths; merging trackers
  keeps the infohash; the season choice is minimal; an inspected pack has valid bindings.  A stall verdict and a promotion rest on
  the observations they claim, and a race that is observed ends.  For deletions: a capture is
  well typed; each call that changes something outside is one its stage allows and is made
  with the tombstone in place; what the API captures the worker accepts; only an administrator
  who may delete gets a deletion admitted; rounds refine the pipeline of stages and touch no other job;
  retried jobs rotate; Seerr listings are read to an end.  For imports: a finalizer asks for at
  most one import, as its last act, after every check it promises has been seen to hold and
  with the import claimed; episodes are asked for in their order; an import that is completed
  was accepted, and the library file was seen to be the downloaded one; no file that the call
  did not make is removed; a stored subtitle is valid and comes back as it was stored.

  \<^bold>\<open>Conventions.\<close>  A \<open>str\<close> is its UTF-8 text and \<open>bytes\<close> are octets, both of type \<open>string\<close>;
  Python's \<open>int\<close> is \<open>int\<close>; finite floats are exact rationals, so rounding is not modelled;
  time stamps are microseconds, and ISO texts are compared as the instants they denote.  A
  transaction is a function on \<open>db\<close> whose exception leaves the database as it was.  Clocks,
  random identifiers, digests and the answers of services and disks are arguments.  A query
  without \<open>ORDER BY\<close> returns rows in the order of insertion.  A worker round takes the job
  table as written by itself alone: rows the API appends meanwhile appear after the round.
  \<open>PurePosixPath\<close> is modelled in \<open>Outside\<close>; case folding is that of ASCII letters, white
  space that of ASCII.  A title that is not a string names nothing (\<open>names_remux\<close>); the numbers
  in scope keys have fewer than 4300 digits.  While a handler of the gateway waits for
  qBittorrent or sleeps, the database may change; between two waits it does not, where the
  code has separate transactions.  SQLite itself does not fail.

  \<^bold>\<open>Bounds and fuel.\<close>  The decoder runs on fuel of one more than the length of its input: every
  value consumes an octet, so the fuel never ends (\<open>parse_fuel\<close>), and its nesting limit is the
  code's.  \<open>seerr_more\<close> has as fuel the total the first page announces: every further page
  brings a row.  The stage loops have fuel 8: there are seven steps from the first stage to the
  last.  Running out of fuel is the value \<open>OutOfFuel\<close>, which \<open>keeps\<close> excludes for every
  operation.  The polling loops of the gateway are recursions on the attempts the code allows
  (26, and 5 for the queue).

  \<^bold>\<open>Environment hypotheses.\<close>  \<open>env_monotone\<close>: other processes do not remove tombstones (the
  only statement on that table in the repository is an \<open>INSERT\<close>).  \<open>quiet\<close>: no job appears
  while a deletion is captured; \<open>stat\<close> returns natural numbers.  \<open>lawful\<close>: what other processes
  do to the database while the gateway waits are steps of \<open>permit_step\<close>, the operations of
  registry and repository.  \<open>imports_lawful\<close>: what other processes do to the tables of imports
  while a finalizer waits are operations of the repository; \<open>completes_alone\<close>: no other
  process completes an import meanwhile.

  \<^bold>\<open>Not modelled.\<close>  The in-memory registry used by contract tests, the migration of old permit
  tables, the storage registry of several disks where the deletion coordinator, the API and the
  finalizers resolve physical identities (\<open>storage_registry\<close> is \<open>None\<close> there), the acquisition
  coordinators, the search for subtitles (\<open>worker/subdl.py\<close>), the FastAPI plumbing, the clients
  of third-party services and their configuration, running \<open>ffprobe\<close>, the child process that
  tries a hard link, telemetry, scripts.

  \<^bold>\<open>Plan.\<close>  What a further development would take up: the acquisition coordinators in the style
  of the finalizers; \<open>domain/deletion_plan.py\<close>; the storage registry and with it the physical
  branches left out above.
\<close>

end
